(* ===== verification/Prelude.thy ===== *)
theory Prelude
  imports Main "HOL-Library.List_Lexorder" "HOL-Library.Char_ord"
begin

text \<open>
  Shared vocabulary of the development: the representation of Python values that every component
  uses, the result type of code that raises, bounded-text checks and the generic list lemmas.

  \<^item> A Python \<open>str\<close> of free text is a list of Unicode code points (\<open>ustr\<close>); text that the code
    constrains to an ASCII pattern (identifiers, digests, command ids) is an Isabelle \<open>string\<close>.
  \<^item> A \<open>UUID\<close> is the natural number it wraps; an aware \<open>datetime\<close> is its instant in microseconds
    since the epoch, so comparisons are comparisons of instants as in Python.
  \<^item> An operation that raises returns \<open>Inl\<close> of the exception, otherwise \<open>Inr\<close> of its value.
\<close>

section \<open>Python values\<close>

type_synonym ustr = "nat list"
type_synonym uuid = nat
type_synonym timestamp = int

text \<open>An ASCII literal as a Python string.\<close>

definition lit :: "string \<Rightarrow> ustr" where
  "lit s = map of_char s"

lemma lit_Nil [simp]: "lit [] = []"
  by (simp add: lit_def)

lemma lit_append: "lit (s @ t) = lit s @ lit t"
  by (simp add: lit_def)

lemma lit_inj [simp]: "lit s = lit t \<longleftrightarrow> s = t"
  by (simp add: lit_def inj_map_eq_map inj_def)

lemma length_lit [simp]: "length (lit s) = length s"
  by (simp add: lit_def)

text \<open>A clock reading: \<open>datetime.now\<close> may be naive (no UTC offset) or aware.\<close>

datatype clock_value = Naive int | Aware timestamp

section \<open>Results of code that raises\<close>

definition rbind :: "'e + 'a \<Rightarrow> ('a \<Rightarrow> 'e + 'b) \<Rightarrow> 'e + 'b" where
  "rbind m f = (case m of Inl e \<Rightarrow> Inl e | Inr a \<Rightarrow> f a)"

text \<open>\<open>guard_raise c e\<close> is \<open>if c: raise e\<close>.\<close>

definition guard_raise :: "bool \<Rightarrow> 'e \<Rightarrow> 'e + unit" where
  "guard_raise c e = (if c then Inl e else Inr ())"

lemma rbind_simps [simp]:
  "rbind (Inl e) f = Inl e"
  "rbind (Inr a) f = f a"
  by (simp_all add: rbind_def)

lemma rbind_Inr_iff: "rbind m f = Inr b \<longleftrightarrow> (\<exists>a. m = Inr a \<and> f a = Inr b)"
  by (cases m) auto

lemma rbind_Inl_iff: "rbind m f = Inl e \<longleftrightarrow> m = Inl e \<or> (\<exists>a. m = Inr a \<and> f a = Inl e)"
  by (cases m) auto

lemma guard_raise_simps [simp]:
  "guard_raise True e = Inl e"
  "guard_raise False e = Inr ()"
  by (simp_all add: guard_raise_def)

lemma guard_raise_Inr_iff [simp]: "guard_raise c e = Inr u \<longleftrightarrow> \<not> c"
  by (simp add: guard_raise_def)

lemma guard_raise_Inl_iff [simp]: "guard_raise c e = Inl e' \<longleftrightarrow> c \<and> e' = e"
  by (auto simp: guard_raise_def)

text \<open>The facts used to take a successful run of a handler apart.\<close>

named_theorems run_simps "equations and equivalences that unfold successful runs"

lemmas [run_simps] = rbind_Inr_iff

text \<open>A comprehension whose body may raise: the first error ends it.\<close>

fun map_results :: "('a \<Rightarrow> 'e + 'b) \<Rightarrow> 'a list \<Rightarrow> 'e + 'b list" where
  "map_results f [] = Inr []"
| "map_results f (x # xs) = rbind (f x) (\<lambda>y. rbind (map_results f xs) (\<lambda>ys. Inr (y # ys)))"

lemma map_results_Inr: "(\<And>x. x \<in> set xs \<Longrightarrow> f x = Inr (g x)) \<Longrightarrow> map_results f xs = Inr (map g xs)"
  by (induction xs) auto

lemma map_results_Inl: "x \<in> set xs \<Longrightarrow> f x = Inl e \<Longrightarrow> \<exists>e'. map_results f xs = Inl e'"
proof (induction xs)
  case (Cons y ys)
  then show ?case by (cases "f y"; cases "map_results f ys") auto
qed simp

section \<open>Bounded and patterned text\<close>

definition bounded :: "nat \<Rightarrow> nat \<Rightarrow> 'a list \<Rightarrow> bool" where
  "bounded lo hi xs \<longleftrightarrow> lo \<le> length xs \<and> length xs \<le> hi"

definition is_lower :: "char \<Rightarrow> bool" where
  "is_lower c \<longleftrightarrow> (97::nat) \<le> of_char c \<and> of_char c \<le> (122::nat)"

definition is_upper :: "char \<Rightarrow> bool" where
  "is_upper c \<longleftrightarrow> (65::nat) \<le> of_char c \<and> of_char c \<le> (90::nat)"

definition is_digit :: "char \<Rightarrow> bool" where
  "is_digit c \<longleftrightarrow> (48::nat) \<le> of_char c \<and> of_char c \<le> (57::nat)"

definition is_lower_hex :: "char \<Rightarrow> bool" where
  "is_lower_hex c \<longleftrightarrow> is_digit c \<or> (97::nat) \<le> of_char c \<and> of_char c \<le> (102::nat)"

text \<open>\<open>^[a-z][a-z0-9]*(?:[._-][a-z0-9]+)*$\<close>: the flag says that the last character was no separator.\<close>

fun identifier_tail :: "bool \<Rightarrow> string \<Rightarrow> bool" where
  "identifier_tail complete [] = complete"
| "identifier_tail complete (c # cs) =
     (if is_lower c \<or> is_digit c then identifier_tail True cs
      else (c = CHR ''.'' \<or> c = CHR ''_'' \<or> c = CHR ''-'') \<and> complete \<and> identifier_tail False cs)"

fun identifier_pattern :: "string \<Rightarrow> bool" where
  "identifier_pattern [] = False"
| "identifier_pattern (c # cs) = (is_lower c \<and> identifier_tail True cs)"

section \<open>What the model takes from outside\<close>

text \<open>
  Functions of libraries that are not under \<open>src/\<close>, as arguments of the model: NFC normalisation
  (the Unicode tables), SHA-256, the name-based UUIDs and pydantic's ISO rendering of a datetime.
  Nothing is assumed of them; where a result depends on one of them, the theorem says how.
\<close>

record env =
  env_nfc :: "ustr \<Rightarrow> ustr"
  env_sha256 :: "string \<Rightarrow> string"
  env_uuid5 :: "uuid \<Rightarrow> string \<Rightarrow> uuid"
  env_iso :: "timestamp \<Rightarrow> string"

section \<open>Lists\<close>

text \<open>\<open>str.join\<close>.\<close>

fun join_with :: "'a list \<Rightarrow> 'a list list \<Rightarrow> 'a list" where
  "join_with sep [] = []"
| "join_with sep [x] = x"
| "join_with sep (x # y # ys) = x @ sep @ join_with sep (y # ys)"

text \<open>\<open>str.split\<close> on a one-character separator: never empty.\<close>

fun split_on :: "'a \<Rightarrow> 'a list \<Rightarrow> 'a list list" where
  "split_on sep [] = [[]]"
| "split_on sep (x # xs) =
     (if x = sep then [] # split_on sep xs
      else case split_on sep xs of
             [] \<Rightarrow> [[x]]
           | part # parts \<Rightarrow> (x # part) # parts)"

lemma split_on_nonempty [simp]: "split_on sep xs \<noteq> []"
  by (induction xs) (auto split: list.splits)

lemma join_split_on: "join_with [sep] (split_on sep xs) = xs"
proof (induction xs)
  case (Cons x xs)
  then show ?case
    by (cases "split_on sep xs"; cases "tl (split_on sep xs)") (auto split: list.splits)
qed simp

text \<open>\<open>str.startswith\<close> and \<open>str.endswith\<close>.\<close>

fun starts_with :: "'a list \<Rightarrow> 'a list \<Rightarrow> bool" where
  "starts_with [] ys = True"
| "starts_with (x # xs) [] = False"
| "starts_with (x # xs) (y # ys) = (x = y \<and> starts_with xs ys)"

lemma starts_with_iff: "starts_with xs ys \<longleftrightarrow> (\<exists>zs. ys = xs @ zs)"
  by (induction xs ys rule: starts_with.induct) auto

lemma starts_with_refl [simp]: "starts_with xs xs"
  by (auto simp: starts_with_iff)

lemma starts_with_trans: "starts_with xs ys \<Longrightarrow> starts_with ys zs \<Longrightarrow> starts_with xs zs"
  by (auto simp: starts_with_iff)

definition ends_with :: "'a list \<Rightarrow> 'a list \<Rightarrow> bool" where
  "ends_with suffix xs \<longleftrightarrow> starts_with (rev suffix) (rev xs)"

text \<open>\<open>str.rstrip\<close> of one character.\<close>

definition rstrip_char :: "'a \<Rightarrow> 'a list \<Rightarrow> 'a list" where
  "rstrip_char c xs = rev (dropWhile (\<lambda>x. x = c) (rev xs))"

lemma sort_eq_Nil [simp]: "sort_key f xs = [] \<longleftrightarrow> xs = []"
  by (metis length_0_conv length_sort)

text \<open>The stable sort \<open>sorted(xs, key=k)\<close> is \<open>sort_key k xs\<close>; its facts are the library's.\<close>

lemma find_append: "find P (xs @ ys) = (case find P xs of None \<Rightarrow> find P ys | Some x \<Rightarrow> Some x)"
  by (induction xs) auto

lemma find_Some_mem: "find P xs = Some x \<Longrightarrow> x \<in> set xs \<and> P x"
  by (auto simp: find_Some_iff)

lemma distinct_map_eqD:
  "distinct (map f xs) \<Longrightarrow> x \<in> set xs \<Longrightarrow> y \<in> set xs \<Longrightarrow> f x = f y \<Longrightarrow> x = y"
  by (auto simp: distinct_map inj_on_def)

lemma find_unique:
  "distinct (map f xs) \<Longrightarrow> x \<in> set xs \<Longrightarrow> f x = k \<Longrightarrow> find (\<lambda>y. f y = k) xs = Some x"
  by (induction xs) auto

text \<open>Replacing the rows that satisfy a condition, as an SQL \<open>UPDATE ... WHERE\<close> does.\<close>

definition update_where :: "('a \<Rightarrow> bool) \<Rightarrow> ('a \<Rightarrow> 'a) \<Rightarrow> 'a list \<Rightarrow> 'a list" where
  "update_where P f xs = map (\<lambda>x. if P x then f x else x) xs"

lemma length_update_where [simp]: "length (update_where P f xs) = length xs"
  by (simp add: update_where_def)

lemma set_update_where:
  "y \<in> set (update_where P f xs) \<longleftrightarrow> (\<exists>x \<in> set xs. y = (if P x then f x else x))"
  by (auto simp: update_where_def)

lemma map_update_where: "(\<And>x. P x \<Longrightarrow> g (f x) = g x) \<Longrightarrow> map g (update_where P f xs) = map g xs"
  by (induction xs) (auto simp: update_where_def)

end
