(* ===== verification/CanonicalJson.thy ===== *)
theory CanonicalJson
  imports Prelude "HOL-Library.Multiset"
begin

text \<open>
  Canonical JSON (\<open>src/nexus/atlas/storage.py\<close>, lines 34-56, and the identical code of
  \<open>src/nexus/patchforge/canonical.py\<close>): the text that every fingerprint, stored record and
  evidence digest of the platform is computed from.

  \<^item> \<open>json\<close> is the JSON-compatible value \<open>model_dump(mode="json")\<close> yields; a dict is the list of
    its items in insertion order. Floating-point numbers are left out.
  \<^item> \<open>normalize_json\<close> is \<open>_normalize\<close>; the NFC function of the Unicode tables is its argument.
  \<^item> \<open>render\<close> is \<open>json.dumps\<close> with \<open>separators=(",", ":")\<close> and \<open>ensure_ascii=True\<close>, applied to a
    value whose dicts \<open>sort_json\<close> has sorted (\<open>sort_keys=True\<close>).

  The lemmas show that the text determines the value (\<open>render\<close> is uniquely readable on values
  whose strings are Unicode scalar values), and that it does not depend on dict order.
\<close>

section \<open>JSON values\<close>

datatype json =
    JNull
  | JBool bool
  | JInt int
  | JStr ustr
  | JList "json list"
  | JObj "(ustr \<times> json) list"

fun normalize_json :: "(ustr \<Rightarrow> ustr) \<Rightarrow> json \<Rightarrow> json" where
  "normalize_json nfc (JStr s) = JStr (nfc s)"
| "normalize_json nfc (JList xs) = JList (map (normalize_json nfc) xs)"
| "normalize_json nfc (JObj kvs) = JObj (map (\<lambda>(k, v). (k, normalize_json nfc v)) kvs)"
| "normalize_json nfc JNull = JNull"
| "normalize_json nfc (JBool b) = JBool b"
| "normalize_json nfc (JInt i) = JInt i"

text \<open>\<open>sort_keys=True\<close>: the encoder sorts the items of every dict by key, by code points.\<close>

fun sort_json :: "json \<Rightarrow> json" where
  "sort_json (JList xs) = JList (map sort_json xs)"
| "sort_json (JObj kvs) = JObj (sort_key fst (map (\<lambda>(k, v). (k, sort_json v)) kvs))"
| "sort_json JNull = JNull"
| "sort_json (JBool b) = JBool b"
| "sort_json (JInt i) = JInt i"
| "sort_json (JStr s) = JStr s"

section \<open>The encoder\<close>

definition digit_char :: "nat \<Rightarrow> char" where
  "digit_char d = char_of (48 + d)"

fun nat_str :: "nat \<Rightarrow> string" where
  "nat_str n = (if n < 10 then [digit_char n] else nat_str (n div 10) @ [digit_char (n mod 10)])"

declare nat_str.simps [simp del]

definition int_str :: "int \<Rightarrow> string" where
  "int_str i = (if i < 0 then CHR ''-'' # nat_str (nat (- i)) else nat_str (nat i))"

definition hex_char :: "nat \<Rightarrow> char" where
  "hex_char d = (if d < 10 then char_of (48 + d) else char_of (87 + d))"

definition hex4 :: "nat \<Rightarrow> string" where
  "hex4 n = [hex_char (n div 4096 mod 16), hex_char (n div 256 mod 16),
             hex_char (n div 16 mod 16), hex_char (n mod 16)]"

definition unicode_escape :: "nat \<Rightarrow> string" where
  "unicode_escape n = CHR 0x5C # CHR ''u'' # hex4 n"

text \<open>
  \<open>ensure_ascii=True\<close>: the two-character escapes, printable ASCII as itself, and \<open>\uXXXX\<close> for
  everything else, with a surrogate pair beyond the basic plane.
\<close>

definition escape_char :: "nat \<Rightarrow> string" where
  "escape_char c =
     (if c = 34 then [CHR 0x5C, CHR 0x22]
      else if c = 92 then [CHR 0x5C, CHR 0x5C]
      else if c = 10 then [CHR 0x5C, CHR ''n'']
      else if c = 13 then [CHR 0x5C, CHR ''r'']
      else if c = 9 then [CHR 0x5C, CHR ''t'']
      else if c = 12 then [CHR 0x5C, CHR ''f'']
      else if c = 8 then [CHR 0x5C, CHR ''b'']
      else if 32 \<le> c \<and> c \<le> 126 then [char_of c]
      else if c < 65536 then unicode_escape c
      else unicode_escape (55296 + (c - 65536) div 1024)
           @ unicode_escape (56320 + (c - 65536) mod 1024))"

definition quote_str :: "ustr \<Rightarrow> string" where
  "quote_str s = CHR 0x22 # concat (map escape_char s) @ [CHR 0x22]"

fun render :: "json \<Rightarrow> string" where
  "render JNull = ''null''"
| "render (JBool b) = (if b then ''true'' else ''false'')"
| "render (JInt i) = int_str i"
| "render (JStr s) = quote_str s"
| "render (JList xs) = ''['' @ join_with '','' (map render xs) @ '']''"
| "render (JObj kvs) =
     ''{'' @ join_with '','' (map (\<lambda>(k, v). quote_str k @ '':'' @ render v) kvs) @ ''}''"

definition canonical_json :: "(ustr \<Rightarrow> ustr) \<Rightarrow> json \<Rightarrow> string" where
  "canonical_json nfc v = render (sort_json (normalize_json nfc v))"

definition canonical_sha256 :: "(string \<Rightarrow> string) \<Rightarrow> (ustr \<Rightarrow> ustr) \<Rightarrow> json \<Rightarrow> string" where
  "canonical_sha256 sha256 nfc v = sha256 (canonical_json nfc v)"

text \<open>
  The strings Python text holds once pydantic has accepted it: Unicode scalar values, so no lone
  surrogates.
\<close>

definition scalar :: "nat \<Rightarrow> bool" where
  "scalar c \<longleftrightarrow> c < 55296 \<or> 57344 \<le> c \<and> c < 1114112"

fun scalar_json :: "json \<Rightarrow> bool" where
  "scalar_json (JStr s) = list_all scalar s"
| "scalar_json (JList xs) = list_all scalar_json xs"
| "scalar_json (JObj kvs) = list_all (\<lambda>(k, v). list_all scalar k \<and> scalar_json v) kvs"
| "scalar_json JNull = True"
| "scalar_json (JBool b) = True"
| "scalar_json (JInt i) = True"

section \<open>Unique readability of strings\<close>

definition hex_val :: "char \<Rightarrow> nat" where
  "hex_val c = (if is_digit c then of_char c - 48 else of_char c - 87)"

definition hex4_val :: "char \<Rightarrow> char \<Rightarrow> char \<Rightarrow> char \<Rightarrow> nat" where
  "hex4_val a b c d = ((hex_val a * 16 + hex_val b) * 16 + hex_val c) * 16 + hex_val d"

fun unescape :: "string \<Rightarrow> nat \<times> string" where
  "unescape [] = (0, [])"
| "unescape (c # r) =
     (if c \<noteq> CHR 0x5C then (of_char c, r)
      else case r of
        CHR 0x22 # r' \<Rightarrow> (34, r')
      | CHR 0x5C # r' \<Rightarrow> (92, r')
      | CHR ''n'' # r' \<Rightarrow> (10, r')
      | CHR ''r'' # r' \<Rightarrow> (13, r')
      | CHR ''t'' # r' \<Rightarrow> (9, r')
      | CHR ''f'' # r' \<Rightarrow> (12, r')
      | CHR ''b'' # r' \<Rightarrow> (8, r')
      | _ # w # x # y # z # r' \<Rightarrow>
          (let h = hex4_val w x y z in
           if 55296 \<le> h \<and> h < 56320
           then case r' of
                  _ # _ # w' # x' # y' # z' # r'' \<Rightarrow>
                    (65536 + (h - 55296) * 1024 + (hex4_val w' x' y' z' - 56320), r'')
                | _ \<Rightarrow> (0, [])
           else (h, r'))
      | _ \<Rightarrow> (0, []))"

lemma hex_val_char: "d < 16 \<Longrightarrow> hex_val (hex_char d) = d"
  by (auto simp: hex_val_def hex_char_def is_digit_def)

lemma hex4_cases:
  assumes "n < 65536"
  obtains a b c d where "hex4 n = [a, b, c, d]" "hex4_val a b c d = n"
proof -
  have "((n div 4096 mod 16 * 16 + n div 256 mod 16) * 16 + n div 16 mod 16) * 16 + n mod 16 = n"
  proof -
    have 1: "n div 256 = n div 16 div 16" "n div 4096 = n div 16 div 16 div 16"
      by (simp_all add: div_mult2_eq [symmetric])
    have 2: "n div 16 div 16 div 16 mod 16 = n div 16 div 16 div 16"
      using assms by (simp add: div_mult2_eq [symmetric])
    show ?thesis unfolding 1 2 by (simp only: div_mult_mod_eq)
  qed
  then show ?thesis
    using assms by (intro that) (auto simp: hex4_def hex4_val_def hex_val_char)
qed

lemma unescape_plain: "32 \<le> c \<Longrightarrow> c \<le> 126 \<Longrightarrow> c \<noteq> 92 \<Longrightarrow> unescape (char_of c # r) = (c, r)"
proof -
  assume c: "32 \<le> c" "c \<le> 126" "c \<noteq> 92"
  have "of_char (char_of c :: char) = c" using c by (simp add: of_char_of)
  moreover have "(char_of c :: char) \<noteq> CHR 0x5C"
  proof
    assume "(char_of c :: char) = CHR 0x5C"
    then have "of_char (char_of c :: char) = (of_char (CHR 0x5C) :: nat)" by simp
    with c show False by (simp add: of_char_of)
  qed
  ultimately show ?thesis by simp
qed

lemma unescape_unicode:
  assumes "n < 65536" and "\<not> (55296 \<le> n \<and> n < 56320)"
  shows "unescape (unicode_escape n @ r) = (n, r)"
proof -
  obtain a b c d where "hex4 n = [a, b, c, d]" "hex4_val a b c d = n"
    using assms(1) by (rule hex4_cases)
  with assms(2) show ?thesis by (auto simp: unicode_escape_def Let_def)
qed

lemma unescape_pair:
  assumes "65536 \<le> c" "c < 1114112"
  shows "unescape (unicode_escape (55296 + (c - 65536) div 1024)
           @ unicode_escape (56320 + (c - 65536) mod 1024) @ r) = (c, r)"
proof -
  define h where "h = 55296 + (c - 65536) div 1024"
  define l where "l = 56320 + (c - 65536) mod 1024"
  have h: "55296 \<le> h" "h < 56320" "h < 65536" and l: "56320 \<le> l" "l < 65536"
    using assms by (auto simp: h_def l_def)
  have c: "65536 + (h - 55296) * 1024 + (l - 56320) = c"
    using assms by (simp add: h_def l_def)
  obtain a1 b1 c1 d1 where 1: "hex4 h = [a1, b1, c1, d1]" "hex4_val a1 b1 c1 d1 = h"
    using h(3) by (rule hex4_cases)
  obtain a2 b2 c2 d2 where 2: "hex4 l = [a2, b2, c2, d2]" "hex4_val a2 b2 c2 d2 = l"
    using l(2) by (rule hex4_cases)
  have "unescape (unicode_escape h @ unicode_escape l @ r)
          = (65536 + (h - 55296) * 1024 + (l - 56320), r)"
    using 1 2 h by (simp add: unicode_escape_def Let_def)
  with c show ?thesis by (simp add: h_def l_def)
qed

lemma unescape_short:
  "unescape [CHR 0x5C, CHR 0x22] = (34, [])"
  "unescape (CHR 0x5C # CHR 0x22 # r) = (34, r)"
  "unescape (CHR 0x5C # CHR 0x5C # r) = (92, r)"
  "unescape (CHR 0x5C # CHR ''n'' # r) = (10, r)"
  "unescape (CHR 0x5C # CHR ''r'' # r) = (13, r)"
  "unescape (CHR 0x5C # CHR ''t'' # r) = (9, r)"
  "unescape (CHR 0x5C # CHR ''f'' # r) = (12, r)"
  "unescape (CHR 0x5C # CHR ''b'' # r) = (8, r)"
  by simp_all

declare unescape.simps [simp del]

lemma unescape_escape:
  assumes "scalar c"
  shows "unescape (escape_char c @ r) = (c, r)"
proof -
  consider "c \<in> {34, 92, 10, 13, 9, 12, 8}" | "32 \<le> c" "c \<le> 126" "c \<notin> {34, 92}"
    | "c \<notin> {34, 92, 10, 13, 9, 12, 8}" "\<not> (32 \<le> c \<and> c \<le> 126)" "c < 65536"
    | "65536 \<le> c"
    by fastforce
  then show ?thesis
  proof cases
    case 1
    then show ?thesis by (auto simp: escape_char_def unescape_short)
  next
    case 2
    then show ?thesis by (simp add: escape_char_def unescape_plain)
  next
    case 3
    then show ?thesis using assms by (auto simp: escape_char_def scalar_def unescape_unicode)
  next
    case 4
    then show ?thesis using assms by (simp add: escape_char_def scalar_def unescape_pair)
  qed
qed

lemma escape_char_head:
  obtains x xs where "escape_char c = x # xs" "x \<noteq> CHR 0x22"
proof -
  have "escape_char c \<noteq> [] \<and> hd (escape_char c) \<noteq> CHR 0x22"
  proof (cases "32 \<le> c \<and> c \<le> 126 \<and> c \<notin> {34, 92}")
    case True
    have "(char_of c :: char) \<noteq> CHR 0x22"
    proof
      assume "(char_of c :: char) = CHR 0x22"
      then have "of_char (char_of c :: char) = (of_char (CHR 0x22) :: nat)" by simp
      with True show False by (simp add: of_char_of)
    qed
    with True show ?thesis by (simp add: escape_char_def)
  next
    case False
    then have "c \<in> {34, 92} \<or> \<not> (32 \<le> c \<and> c \<le> 126)" by auto
    then show ?thesis by (auto simp: escape_char_def unicode_escape_def)
  qed
  then show ?thesis using that by (cases "escape_char c") auto
qed

lemma escaped_unique:
  assumes "list_all scalar s" "list_all scalar t"
    and "concat (map escape_char s) @ CHR 0x22 # x = concat (map escape_char t) @ CHR 0x22 # y"
  shows "s = t \<and> x = y"
  using assms
proof (induction s arbitrary: t)
  case Nil
  then show ?case by (cases t) (auto intro: escape_char_head [of "hd t"])
next
  case (Cons c s)
  show ?case
  proof (cases t)
    case Nil
    with Cons.prems show ?thesis by (auto intro: escape_char_head [of c])
  next
    case (Cons d t')
    define r1 where "r1 = concat (map escape_char s) @ CHR 0x22 # x"
    define r2 where "r2 = concat (map escape_char t') @ CHR 0x22 # y"
    have "unescape (escape_char c @ r1) = unescape (escape_char d @ r2)"
      using Cons Cons.prems(3) by (simp add: r1_def r2_def)
    then have "c = d" "r1 = r2"
      using Cons Cons.prems(1,2) by (auto simp: unescape_escape)
    with Cons.IH [of t'] Cons Cons.prems(1,2) show ?thesis
      by (simp add: r1_def r2_def)
  qed
qed

lemma quote_unique:
  assumes "list_all scalar s" "list_all scalar t" "quote_str s @ x = quote_str t @ y"
  shows "s = t \<and> x = y"
  using escaped_unique [OF assms(1,2)] assms(3) by (simp add: quote_str_def)

section \<open>Unique readability of numbers\<close>

definition is_num :: "char \<Rightarrow> bool" where
  "is_num c \<longleftrightarrow> is_digit c \<or> c = CHR ''-''"

definition dec_val :: "string \<Rightarrow> nat" where
  "dec_val = foldl (\<lambda>v c. v * 10 + (of_char c - 48)) 0"

lemma digit_char_val: "d < 10 \<Longrightarrow> of_char (digit_char d) = 48 + d"
  by (simp add: digit_char_def of_char_of)

lemma is_digit_digit_char: "d < 10 \<Longrightarrow> is_digit (digit_char d)"
  by (simp add: is_digit_def digit_char_val)

lemma dec_val_nat_str: "dec_val (nat_str n) = n"
proof (induction n rule: nat_str.induct)
  case (1 n)
  show ?case
  proof (cases "n < 10")
    case True
    then show ?thesis by (simp add: nat_str.simps [of n] dec_val_def digit_char_val)
  next
    case False
    have "dec_val (nat_str n) = dec_val (nat_str (n div 10)) * 10 + n mod 10"
      using False by (simp add: nat_str.simps [of n] dec_val_def digit_char_val)
    also have "\<dots> = n div 10 * 10 + n mod 10"
      using 1 False by simp
    also have "\<dots> = n" by (rule div_mult_mod_eq)
    finally show ?thesis .
  qed
qed

lemma nat_str_inj: "nat_str m = nat_str n \<longleftrightarrow> m = n"
  by (metis dec_val_nat_str)

lemma nat_str_digits: "list_all is_digit (nat_str n)"
  by (induction n rule: nat_str.induct)
     (subst nat_str.simps, auto simp: is_digit_digit_char)

lemma nat_str_nonempty: "nat_str n \<noteq> []"
  by (subst nat_str.simps) simp

lemma int_str_inj: "int_str i = int_str j \<longleftrightarrow> i = j"
proof -
  have minus: "CHR ''-'' # xs \<noteq> nat_str n" for xs n
  proof
    assume "CHR ''-'' # xs = nat_str n"
    then have "list_all is_digit (CHR ''-'' # xs)" by (simp only: nat_str_digits)
    then show False by (simp add: is_digit_def)
  qed
  show ?thesis
    using minus minus [symmetric] by (auto simp: int_str_def nat_str_inj)
qed

lemma int_str_num: "list_all is_num (int_str i)"
proof -
  have "list_all is_num (nat_str n)" for n
    using nat_str_digits [of n] by (auto simp: list_all_iff is_num_def)
  then show ?thesis by (simp add: int_str_def is_num_def)
qed

lemma int_str_nonempty: "int_str i \<noteq> []"
  by (simp add: int_str_def nat_str_nonempty)

text \<open>What can follow a value: the end of the text, a comma or a closing bracket.\<close>

definition delimited :: "string \<Rightarrow> bool" where
  "delimited s \<longleftrightarrow> s = [] \<or> hd s = CHR '','' \<or> hd s = CHR '']'' \<or> hd s = CHR ''}''"

lemma int_unique:
  assumes "delimited s" "delimited t" "int_str i @ s = int_str j @ t"
  shows "i = j \<and> s = t"
proof -
  have stop: "takeWhile is_num (int_str k @ r) = int_str k" if "delimited r" for k r
  proof -
    have "r = [] \<or> \<not> is_num (hd r)"
      using that by (auto simp: delimited_def is_num_def is_digit_def)
    moreover have "\<forall>x \<in> set (int_str k). is_num x"
      using int_str_num [of k] by (simp add: list_all_iff)
    ultimately show ?thesis by (cases r) (auto simp: takeWhile_append)
  qed
  from assms have "int_str i = int_str j"
    by (metis stop)
  with assms(3) show ?thesis by (simp add: int_str_inj)
qed

section \<open>Unique readability of documents\<close>

definition readable :: "('a \<Rightarrow> string) \<Rightarrow> ('a \<Rightarrow> bool) \<Rightarrow> 'a \<Rightarrow> bool" where
  "readable R ok a \<longleftrightarrow>
     (\<forall>b s t. ok b \<longrightarrow> delimited s \<longrightarrow> delimited t \<longrightarrow> R a @ s = R b @ t \<longrightarrow> a = b \<and> s = t)"

lemma join_with_Cons:
  "join_with sep (x # xs) = x @ (if xs = [] then [] else sep @ join_with sep xs)"
  by (cases xs) auto

lemma join_readable:
  assumes "\<And>a. a \<in> set xs \<Longrightarrow> readable R ok a"
    and "\<And>b. b \<in> set ys \<Longrightarrow> ok b"
    and heads: "\<And>a. R a \<noteq> [] \<and> \<not> delimited (R a)"
    and close: "close = CHR '']'' \<or> close = CHR ''}''"
    and "join_with '','' (map R xs) @ close # s = join_with '','' (map R ys) @ close # t"
  shows "xs = ys \<and> s = t"
  using assms(1,2,5)
proof (induction xs arbitrary: ys)
  case Nil
  have "\<not> delimited (R (hd ys))" using heads by blast
  with Nil heads [of "hd ys"] close show ?case
    by (cases ys; cases "R (hd ys)") (auto simp: join_with_Cons delimited_def)
next
  case (Cons x xs)
  define rest where
    "rest zs r = (if zs = [] then close # r else '','' @ join_with '','' (map R zs) @ close # r)"
    for zs r
  show ?case
  proof (cases ys)
    case Nil
    with Cons.prems(3) heads [of x] close show ?thesis
      by (cases "R x") (auto simp: join_with_Cons delimited_def)
  next
    case (Cons y ys')
    have del: "delimited (rest zs r)" for zs r
      using close by (auto simp: rest_def delimited_def)
    have "R x @ rest xs s = R y @ rest ys' t"
      using Cons Cons.prems(3) by (simp add: join_with_Cons rest_def split: if_splits)
    then have "x = y" and eq: "rest xs s = rest ys' t"
      using Cons.prems(1) [of x] Cons.prems(2) [of y] Cons del
      unfolding readable_def by (simp_all, blast+)
    have "(xs = []) = (ys' = [])" using eq close by (auto simp: rest_def split: if_splits)
    then have "xs = ys' \<and> s = t"
      using eq Cons.IH [of ys'] Cons.prems(1,2) Cons by (auto simp: rest_def split: if_splits)
    with \<open>x = y\<close> Cons show ?thesis by simp
  qed
qed

lemma render_head: "render v \<noteq> [] \<and> \<not> delimited (render v)"
proof (cases v)
  case (JInt i)
  have "int_str i \<noteq> [] \<and> is_num (hd (int_str i))"
    using int_str_num [of i] int_str_nonempty [of i] by (cases "int_str i") auto
  with JInt show ?thesis by (auto simp: delimited_def is_num_def is_digit_def)
qed (auto simp: delimited_def quote_str_def)

lemma item_head: "(case kv of (k, v) \<Rightarrow> quote_str k @ '':'' @ render v) \<noteq> []
    \<and> \<not> delimited (case kv of (k, v) \<Rightarrow> quote_str k @ '':'' @ render v)"
  by (cases kv) (simp add: delimited_def quote_str_def)

text \<open>The first character tells the constructor.\<close>

definition head_tag :: "char \<Rightarrow> nat" where
  "head_tag c =
     (if c = CHR ''n'' then 0 else if c = CHR ''t'' \<or> c = CHR ''f'' then 1
      else if c = CHR 0x22 then 3 else if c = CHR ''['' then 4 else if c = CHR ''{'' then 5
      else 2)"

fun ctor_tag :: "json \<Rightarrow> nat" where
  "ctor_tag JNull = 0"
| "ctor_tag (JBool b) = 1"
| "ctor_tag (JInt i) = 2"
| "ctor_tag (JStr s) = 3"
| "ctor_tag (JList xs) = 4"
| "ctor_tag (JObj kvs) = 5"

lemma head_tag_render: "head_tag (hd (render v)) = ctor_tag v"
proof (cases v)
  case (JInt i)
  have "is_num (hd (int_str i))"
    using int_str_num [of i] int_str_nonempty [of i] by (cases "int_str i") auto
  then have "head_tag (hd (int_str i)) = 2"
    by (auto simp: head_tag_def is_num_def is_digit_def)
  with JInt show ?thesis by simp
qed (auto simp: head_tag_def quote_str_def)

lemma same_ctor: "render v @ s = render w @ t \<Longrightarrow> ctor_tag v = ctor_tag w"
  by (metis head_tag_render hd_append2 render_head)

lemma readableI:
  assumes "\<And>w s t. scalar_json w \<Longrightarrow> delimited s \<Longrightarrow> delimited t \<Longrightarrow>
      ctor_tag v = ctor_tag w \<Longrightarrow> render v @ s = render w @ t \<Longrightarrow> v = w \<and> s = t"
  shows "readable render scalar_json v"
  using assms same_ctor unfolding readable_def by blast

lemma render_readable: "scalar_json v \<Longrightarrow> readable render scalar_json v"
proof (induction v)
  case JNull
  show ?case by (rule readableI, rename_tac w s t, case_tac w) auto
next
  case (JBool x)
  show ?case by (rule readableI, rename_tac w s t, case_tac w) (auto split: if_splits)
next
  case (JInt i)
  show ?case by (rule readableI, rename_tac w s t, case_tac w) (auto dest: int_unique)
next
  case (JStr x)
  then show ?case
    by (intro readableI, rename_tac w s t, case_tac w) (auto dest: quote_unique)
next
  case (JList xs)
  show ?case
  proof (rule readableI)
    fix w s t
    assume *: "scalar_json w" "delimited s" "delimited t" "render (JList xs) @ s = render w @ t"
      and "ctor_tag (JList xs) = ctor_tag w"
    then obtain ys where w: "w = JList ys" by (cases w) auto
    have "xs = ys \<and> s = t"
    proof (rule join_readable)
      show "readable render scalar_json a" if "a \<in> set xs" for a
        using JList that by (auto simp: list_all_iff)
      show "scalar_json a" if "a \<in> set ys" for a
        using * w that by (auto simp: list_all_iff)
      show "join_with '','' (map render xs) @ CHR '']'' # s
              = join_with '','' (map render ys) @ CHR '']'' # t"
        using * w by simp
    qed (use render_head in auto)
    with w show "JList xs = w \<and> s = t" by simp
  qed
next
  case (JObj kvs)
  define R where "R = (\<lambda>(k, v). quote_str k @ '':'' @ render v)"
  define ok where "ok = (\<lambda>(k, v). list_all scalar k \<and> scalar_json v)"
  have item: "readable R ok kv" if "kv \<in> set kvs" for kv
  proof -
    obtain k v where kv: "kv = (k, v)" by (cases kv)
    have k: "list_all scalar k" and v: "readable render scalar_json v"
      using JObj that kv by (auto simp: list_all_iff)
    show ?thesis unfolding readable_def
    proof (intro allI impI)
      fix b s t
      assume b: "ok b" "delimited s" "delimited t" "R kv @ s = R b @ t"
      obtain k' v' where b': "b = (k', v')" by (cases b)
      have "k = k' \<and> '':'' @ render v @ s = '':'' @ render v' @ t"
        by (rule quote_unique) (use b b' k kv in \<open>auto simp: R_def ok_def\<close>)
      with v b b' kv show "kv = b \<and> s = t"
        unfolding readable_def by (auto simp: ok_def)
    qed
  qed
  show ?case
  proof (rule readableI)
    fix w s t
    assume *: "scalar_json w" "delimited s" "delimited t" "render (JObj kvs) @ s = render w @ t"
      and "ctor_tag (JObj kvs) = ctor_tag w"
    then obtain kvs' where w: "w = JObj kvs'" by (cases w) auto
    have "kvs = kvs' \<and> s = t"
    proof (rule join_readable [OF item])
      show "ok kv" if "kv \<in> set kvs'" for kv
        using * w that by (auto simp: list_all_iff ok_def)
      show "join_with '','' (map R kvs) @ CHR ''}'' # s
              = join_with '','' (map R kvs') @ CHR ''}'' # t"
        using * w by (simp add: R_def)
    qed (use item_head in \<open>auto simp: R_def\<close>)
    with w show "JObj kvs = w \<and> s = t" by simp
  qed
qed

lemma render_inj:
  assumes "scalar_json v" "scalar_json w" "render v = render w"
  shows "v = w"
proof -
  have "render v @ [] = render w @ []" using assms(3) by simp
  with render_readable [OF assms(1)] assms(2) show ?thesis
    unfolding readable_def by (auto simp: delimited_def)
qed

section \<open>The canonical text\<close>

lemma scalar_sort_json: "scalar_json v \<Longrightarrow> scalar_json (sort_json v)"
  by (induction v) (fastforce simp: list_all_iff split: prod.splits)+

lemma sort_key_distinct:
  assumes "distinct (map f xs)" "mset xs = mset ys"
  shows "sort_key f xs = sort_key f ys"
proof (rule properties_for_sort_key)
  show "mset (sort_key f ys) = mset xs" using assms(2) by simp
  show "sorted (map f (sort_key f ys))" by simp
  fix k assume "k \<in> set (sort_key f ys)"
  have d: "distinct (map f (sort_key f ys))"
    using assms by (metis distinct_map mset_eq_imp_distinct_iff mset_eq_setD mset_sort)
  have one: "filter (\<lambda>x. f k = f x) zs = [k]" if "distinct (map f zs)" "k \<in> set zs" for zs
    using that by (induction zs) (auto simp: filter_empty_conv intro: rev_image_eqI)
  have "k \<in> set xs" using \<open>k \<in> set (sort_key f ys)\<close> assms(2) by (metis mset_eq_setD set_sort)
  with one [OF d \<open>k \<in> set (sort_key f ys)\<close>] one [OF assms(1)]
  show "filter (\<lambda>x. f k = f x) (sort_key f ys) = filter (\<lambda>x. f k = f x) xs" by simp
qed

lemma canonical_json_eq_iff:
  assumes "scalar_json (normalize_json nfc v)" "scalar_json (normalize_json nfc w)"
  shows "canonical_json nfc v = canonical_json nfc w
     \<longleftrightarrow> sort_json (normalize_json nfc v) = sort_json (normalize_json nfc w)"
  using render_inj [OF scalar_sort_json [OF assms(1)] scalar_sort_json [OF assms(2)]]
  by (auto simp: canonical_json_def)

text \<open>
  C40: The canonical text determines the value: two documents have the same text exactly when they
  agree after NFC normalisation and key sorting, so two different requests can share a fingerprint
  only if SHA-256 itself collides.
\<close>

theorem canonical_json_determines:
  assumes "scalar_json (normalize_json nfc v)" "scalar_json (normalize_json nfc w)"
  shows "canonical_json nfc v = canonical_json nfc w
     \<longleftrightarrow> sort_json (normalize_json nfc v) = sort_json (normalize_json nfc w)"
  using canonical_json_eq_iff [OF assms] .

theorem canonical_json_determines_witness:
  "canonical_json id (JObj [(lit ''b'', JInt (- 7)), (lit ''a'', JStr [233])])
     = canonical_json id (JObj [(lit ''a'', JStr [233]), (lit ''b'', JInt (- 7))])"
proof -
  have 1: "scalar_json (normalize_json id (JObj [(lit ''b'', JInt (- 7)), (lit ''a'', JStr [233])]))"
    and 2: "scalar_json (normalize_json id (JObj [(lit ''a'', JStr [233]), (lit ''b'', JInt (- 7))]))"
    by (simp_all add: lit_def scalar_def)
  have "sort_json (normalize_json id (JObj [(lit ''b'', JInt (- 7)), (lit ''a'', JStr [233])]))
      = sort_json (normalize_json id (JObj [(lit ''a'', JStr [233]), (lit ''b'', JInt (- 7))]))"
    by (simp add: lit_def)
  with canonical_json_determines [OF 1 2] show ?thesis by simp
qed

text \<open>
  The canonical text does not depend on the order in which a dict was filled.
\<close>

theorem canonical_json_order_independent:
  assumes "distinct (map fst kvs)" "mset kvs = mset kvs'"
  shows "canonical_json nfc (JObj kvs) = canonical_json nfc (JObj kvs')"
proof -
  define g :: "ustr \<times> json \<Rightarrow> ustr \<times> json"
    where "g = (\<lambda>x. (fst x, sort_json (normalize_json nfc (snd x))))"
  have "mset (map g kvs) = mset (map g kvs')" using assms(2) by (metis mset_map)
  moreover have "distinct (map fst (map g kvs))"
    using assms(1) by (simp add: g_def comp_def)
  ultimately have "sort_key fst (map g kvs) = sort_key fst (map g kvs')"
    by (metis sort_key_distinct)
  then show ?thesis
    by (simp add: canonical_json_def g_def comp_def case_prod_beta)
qed

text \<open>The text is printable ASCII whatever the strings hold (\<open>ensure_ascii=True\<close>).\<close>

definition printable :: "char \<Rightarrow> bool" where
  "printable c \<longleftrightarrow> (32::nat) \<le> of_char c \<and> of_char c \<le> (126::nat)"

lemma printable_hex: "d < 16 \<Longrightarrow> printable (hex_char d)"
  by (auto simp: printable_def hex_char_def of_char_of)

lemma printable_escape: "list_all printable (escape_char c)"
proof -
  have "list_all printable (hex4 n)" for n
    by (simp add: hex4_def printable_hex)
  moreover have "printable (char_of c)" if "32 \<le> c" "c \<le> 126" for c :: nat
    using that by (simp add: printable_def of_char_of)
  ultimately show ?thesis
    by (simp add: escape_char_def unicode_escape_def) (simp add: printable_def)
qed

lemma printable_quote: "list_all printable (quote_str s)"
  using printable_escape by (auto simp: quote_str_def list_all_iff printable_def)

lemma printable_join:
  "list_all printable sep \<Longrightarrow> (\<And>x. x \<in> set xs \<Longrightarrow> list_all printable x)
    \<Longrightarrow> list_all printable (join_with sep xs)"
  by (induction sep xs rule: join_with.induct) auto

lemma printable_brackets:
  "printable CHR ''['' \<and> printable CHR '']'' \<and> printable CHR ''{'' \<and> printable CHR ''}''
   \<and> printable CHR '','' \<and> printable CHR '':''"
  by (simp add: printable_def)

lemma printable_render: "list_all printable (render v)"
proof (induction v)
  case (JInt i)
  then show ?case
    using int_str_num [of i] by (auto simp: list_all_iff is_num_def is_digit_def printable_def)
next
  case (JList xs)
  then show ?case by (auto simp: printable_brackets intro!: printable_join)
next
  case (JObj kvs)
  have "list_all printable (case kv of (k, v) \<Rightarrow> quote_str k @ '':'' @ render v)"
    if "kv \<in> set kvs" for kv
  proof (cases kv)
    case (Pair k v)
    with JObj that show ?thesis by (auto simp: printable_quote printable_brackets)
  qed
  then show ?case by (auto simp: printable_brackets intro!: printable_join)
next
  case JNull
  show ?case by (simp add: printable_def)
next
  case (JBool b)
  show ?case by (simp add: printable_def)
qed (simp add: printable_quote)

text \<open>
  Whatever text the value holds, its canonical JSON is printable ASCII, so
  \<open>.encode("utf-8")\<close> never fails and the digested bytes are the characters themselves.
\<close>

theorem canonical_json_ascii: "list_all printable (canonical_json nfc v)"
  by (simp add: canonical_json_def printable_render)

theorem canonical_json_order_independent_witness:
  "canonical_json id (JObj [(lit ''b'', JNull), (lit ''a'', JBool True)])
     = canonical_json id (JObj [(lit ''a'', JBool True), (lit ''b'', JNull)])"
  by (rule canonical_json_order_independent) simp_all

end
