(* ===== verification/AtlasModels.thy ===== *)
theory AtlasModels
  imports CanonicalJson
begin

text \<open>
  The contracts of the Atlas control plane (\<open>src/nexus/atlas/models.py\<close>): one record or datatype
  per pydantic model, one \<open>_ok\<close> predicate per model for its field constraints and validators, and
  the JSON form \<open>model_dump(mode="json")\<close> that fingerprints and stored records are made from.
  \<open>job_lifecycle_error\<close> is \<open>Job.validate_lifecycle\<close>, the invariant of every durable job.
\<close>

section \<open>Vocabularies\<close>

datatype job_status =
  CREATED | VALIDATED | QUEUED | RUNNING | AWAITING_REVIEW | APPROVED | REJECTED | COMPLETED | FAILED

fun job_status_value :: "job_status \<Rightarrow> string" where
  "job_status_value CREATED = ''created''"
| "job_status_value VALIDATED = ''validated''"
| "job_status_value QUEUED = ''queued''"
| "job_status_value RUNNING = ''running''"
| "job_status_value AWAITING_REVIEW = ''awaiting_review''"
| "job_status_value APPROVED = ''approved''"
| "job_status_value REJECTED = ''rejected''"
| "job_status_value COMPLETED = ''completed''"
| "job_status_value FAILED = ''failed''"

datatype approval_state = Approval_Not_Requested | Approval_Pending | Approval_Approved | Approval_Rejected

datatype approval_decision = Decision_Approved | Decision_Rejected

fun approval_decision_value :: "approval_decision \<Rightarrow> string" where
  "approval_decision_value Decision_Approved = ''approved''"
| "approval_decision_value Decision_Rejected = ''rejected''"

datatype actor_type = System | Human | Agent

fun actor_type_value :: "actor_type \<Rightarrow> string" where
  "actor_type_value System = ''system''"
| "actor_type_value Human = ''human''"
| "actor_type_value Agent = ''agent''"

datatype capability =
  SOURCE_READ | WORKTREE_WRITE | TEST_EXECUTE | PATCH_CREATE | REVIEW_READ | REVIEW_SUBMIT

fun capability_value :: "capability \<Rightarrow> string" where
  "capability_value SOURCE_READ = ''repository.source.read''"
| "capability_value WORKTREE_WRITE = ''repository.worktree.write''"
| "capability_value TEST_EXECUTE = ''test.execute''"
| "capability_value PATCH_CREATE = ''patch.create''"
| "capability_value REVIEW_READ = ''review.read''"
| "capability_value REVIEW_SUBMIT = ''review.submit''"

lemma capability_value_inj [simp]: "capability_value a = capability_value b \<longleftrightarrow> a = b"
  by (cases a; cases b) simp_all

text \<open>Capabilities are ordered by value, as \<open>sorted(values, key=lambda value: value.value)\<close> does.\<close>

instantiation capability :: linorder
begin

definition less_eq_capability :: "capability \<Rightarrow> capability \<Rightarrow> bool" where
  "less_eq_capability a b \<longleftrightarrow> capability_value a \<le> capability_value b"

definition less_capability :: "capability \<Rightarrow> capability \<Rightarrow> bool" where
  "less_capability a b \<longleftrightarrow> capability_value a < capability_value b"

instance
  by standard (auto simp: less_eq_capability_def less_capability_def order.strict_iff_order)

end

datatype failure_classification =
  VALIDATION_ERROR | PERMISSION_DENIED | BUDGET_EXCEEDED | TIMEOUT | RUNTIME_ERROR
  | REVIEW_FAILED | CANCELLED | PERSISTENCE_ERROR | UNKNOWN_FAILURE

fun failure_classification_value :: "failure_classification \<Rightarrow> string" where
  "failure_classification_value VALIDATION_ERROR = ''validation_error''"
| "failure_classification_value PERMISSION_DENIED = ''permission_denied''"
| "failure_classification_value BUDGET_EXCEEDED = ''budget_exceeded''"
| "failure_classification_value TIMEOUT = ''timeout''"
| "failure_classification_value RUNTIME_ERROR = ''runtime_error''"
| "failure_classification_value REVIEW_FAILED = ''review_failed''"
| "failure_classification_value CANCELLED = ''cancelled''"
| "failure_classification_value PERSISTENCE_ERROR = ''persistence_error''"
| "failure_classification_value UNKNOWN_FAILURE = ''unknown''"

datatype review_verdict = Review_Passed | Review_Failed | Review_Inconclusive

fun review_verdict_value :: "review_verdict \<Rightarrow> string" where
  "review_verdict_value Review_Passed = ''passed''"
| "review_verdict_value Review_Failed = ''failed''"
| "review_verdict_value Review_Inconclusive = ''inconclusive''"

datatype audit_event_type =
  JOB_CREATED | JOB_VALIDATED | JOB_QUEUED | JOB_STARTED | RESULT_RECORDED | REVIEW_RECORDED
  | JOB_APPROVED | JOB_REJECTED | JOB_COMPLETED | JOB_FAILED | JOB_RECOVERED

section \<open>Patterned text\<close>

definition valid_identifier :: "string \<Rightarrow> bool" where
  "valid_identifier s \<longleftrightarrow> bounded 1 128 s \<and> identifier_pattern s"

definition command_char :: "char \<Rightarrow> bool" where
  "command_char c \<longleftrightarrow> is_upper c \<or> is_lower c \<or> is_digit c \<or> c = CHR ''_'' \<or> c = CHR ''.''
     \<or> c = CHR '':'' \<or> c = CHR ''-''"

definition valid_command_id :: "string \<Rightarrow> bool" where
  "valid_command_id s \<longleftrightarrow> bounded 8 200 s \<and> list_all command_char s"

definition bounded_text :: "ustr \<Rightarrow> bool" where
  "bounded_text s \<longleftrightarrow> bounded 1 2000 s"

definition short_text :: "ustr \<Rightarrow> bool" where
  "short_text s \<longleftrightarrow> bounded 1 500 s"

definition valid_sha256 :: "string \<Rightarrow> bool" where
  "valid_sha256 s \<longleftrightarrow> length s = 64 \<and> list_all is_lower_hex s"

definition valid_commit_sha :: "string \<Rightarrow> bool" where
  "valid_commit_sha s \<longleftrightarrow> (length s = 40 \<or> length s = 64) \<and> list_all is_lower_hex s"

section \<open>Value models\<close>

record actor_identity =
  actor_type :: actor_type
  actor_id :: string

definition actor_ok :: "actor_identity \<Rightarrow> bool" where
  "actor_ok a \<longleftrightarrow> valid_identifier (actor_id a)"

text \<open>
  pydantic's \<open>HttpUrl\<close>, which is not under \<open>src/\<close>: the text \<open>str(url)\<close> and the parts the code reads.
\<close>

record http_url =
  url_text :: string
  url_username :: "string option"
  url_password :: "string option"
  url_query :: "string option"
  url_fragment :: "string option"

definition url_plain :: "http_url \<Rightarrow> bool" where
  "url_plain v \<longleftrightarrow> url_username v = None \<and> url_password v = None \<and> url_query v = None
     \<and> url_fragment v = None"

record source_revision =
  repository_url :: http_url
  commit_sha :: string
  source_ref :: "ustr option"

definition source_ok :: "source_revision \<Rightarrow> bool" where
  "source_ok s \<longleftrightarrow> valid_commit_sha (commit_sha s)
     \<and> (case source_ref s of None \<Rightarrow> True | Some r \<Rightarrow> bounded 1 255 r)
     \<and> url_plain (repository_url s)"

record artifact_reference =
  artifact_type :: string
  artifact_uri :: ustr
  artifact_sha256 :: string

definition artifact_ok :: "artifact_reference \<Rightarrow> bool" where
  "artifact_ok a \<longleftrightarrow> valid_identifier (artifact_type a) \<and> bounded 1 2000 (artifact_uri a)
     \<and> valid_sha256 (artifact_sha256 a)"

record task_request =
  task_type :: string
  task_title :: ustr
  task_instructions :: ustr
  acceptance_criteria :: "ustr list"
  task_inputs :: "artifact_reference list"

definition task_ok :: "task_request \<Rightarrow> bool" where
  "task_ok t \<longleftrightarrow> valid_identifier (task_type t) \<and> short_text (task_title t)
     \<and> bounded_text (task_instructions t)
     \<and> bounded 0 50 (acceptance_criteria t) \<and> list_all short_text (acceptance_criteria t)
     \<and> bounded 0 50 (task_inputs t) \<and> list_all artifact_ok (task_inputs t)"

record execution_budget =
  max_duration_seconds :: int
  max_tool_calls :: int
  max_input_tokens :: int
  max_output_tokens :: int
  max_artifact_bytes :: int

definition budget_ok :: "execution_budget \<Rightarrow> bool" where
  "budget_ok b \<longleftrightarrow> 1 \<le> max_duration_seconds b \<and> max_duration_seconds b \<le> 86400
     \<and> 0 \<le> max_tool_calls b \<and> max_tool_calls b \<le> 10000
     \<and> 0 \<le> max_input_tokens b \<and> max_input_tokens b \<le> 10000000
     \<and> 0 \<le> max_output_tokens b \<and> max_output_tokens b \<le> 10000000
     \<and> 0 \<le> max_artifact_bytes b \<and> max_artifact_bytes b \<le> 10000000000"

record check_result =
  check_name :: string
  check_passed :: bool
  check_summary :: ustr

definition check_ok :: "check_result \<Rightarrow> bool" where
  "check_ok c \<longleftrightarrow> valid_identifier (check_name c) \<and> short_text (check_summary c)"

record generic_result =
  generic_summary :: ustr
  generic_artifacts :: "artifact_reference list"
  generic_checks :: "check_result list"

record patch_result =
  patch_summary :: ustr
  base_sha :: string
  proposed_head_sha :: string
  patch_artifact :: artifact_reference
  changed_files :: "ustr list"
  patch_checks :: "check_result list"

datatype structured_result = Generic_Job_Result generic_result | Patch_Result patch_result

text \<open>
  \<open>PatchResult.validate_relative_paths\<close>: no path is absolute or climbs, with backslashes read as
  slashes, and no path is listed twice.
\<close>

definition normalize_slashes :: "ustr \<Rightarrow> ustr" where
  "normalize_slashes p = map (\<lambda>c. if c = 92 then 47 else c) p"

definition relative_path :: "ustr \<Rightarrow> bool" where
  "relative_path p \<longleftrightarrow> \<not> starts_with [47] (normalize_slashes p)
     \<and> \<not> list_ex (\<lambda>part. part = [46, 46]) (split_on 47 (normalize_slashes p))"

definition relative_paths :: "ustr list \<Rightarrow> bool" where
  "relative_paths ps \<longleftrightarrow> list_all relative_path ps \<and> distinct ps"

fun result_ok :: "structured_result \<Rightarrow> bool" where
  "result_ok (Generic_Job_Result r) =
     (bounded_text (generic_summary r)
      \<and> bounded 0 100 (generic_artifacts r) \<and> list_all artifact_ok (generic_artifacts r)
      \<and> bounded 0 100 (generic_checks r) \<and> list_all check_ok (generic_checks r))"
| "result_ok (Patch_Result r) =
     (bounded_text (patch_summary r) \<and> valid_commit_sha (base_sha r)
      \<and> valid_commit_sha (proposed_head_sha r) \<and> artifact_ok (patch_artifact r)
      \<and> bounded 1 500 (changed_files r) \<and> list_all (bounded 1 500) (changed_files r)
      \<and> relative_paths (changed_files r)
      \<and> bounded 0 100 (patch_checks r) \<and> list_all check_ok (patch_checks r))"

record review_result =
  review_id :: uuid
  reviewer_of_review :: string
  review_verdict :: review_verdict
  review_summary :: ustr
  review_evidence :: "artifact_reference list"
  review_created_at :: timestamp

definition review_ok :: "review_result \<Rightarrow> bool" where
  "review_ok r \<longleftrightarrow> valid_identifier (reviewer_of_review r) \<and> bounded_text (review_summary r)
     \<and> bounded 0 100 (review_evidence r) \<and> list_all artifact_ok (review_evidence r)"

record approval_record =
  approval_id :: uuid
  approval_decision :: approval_decision
  decided_by :: actor_identity
  approval_reason :: ustr
  decided_at :: timestamp

definition approval_ok :: "approval_record \<Rightarrow> bool" where
  "approval_ok a \<longleftrightarrow> actor_ok (decided_by a) \<and> short_text (approval_reason a)
     \<and> actor_type (decided_by a) = Human"

record job_failure =
  failure_classification :: failure_classification
  failure_message :: ustr
  failure_retryable :: bool
  failed_by :: actor_identity

definition failure_ok :: "job_failure \<Rightarrow> bool" where
  "failure_ok f \<longleftrightarrow> short_text (failure_message f) \<and> actor_ok (failed_by f)"

record execution_lease =
  execution_id :: uuid
  claimed_by :: string
  lease_started_at :: timestamp
  lease_expires_at :: timestamp

definition lease_ok :: "execution_lease \<Rightarrow> bool" where
  "lease_ok l \<longleftrightarrow> valid_identifier (claimed_by l) \<and> \<not> lease_expires_at l \<le> lease_started_at l"

record job_spec =
  spec_agent_id :: string
  spec_reviewer_agent_id :: string
  spec_request :: task_request
  spec_source :: source_revision
  spec_budget :: execution_budget
  spec_capabilities :: "capability list"

text \<open>\<open>JobSpec\<close> canonicalises its capabilities: unique, then sorted by value.\<close>

definition canonicalize_capabilities :: "capability list \<Rightarrow> string + capability list" where
  "canonicalize_capabilities values =
     (if \<not> distinct values then Inl ''Capabilities must be unique'' else Inr (sort values))"

definition spec_ok :: "job_spec \<Rightarrow> bool" where
  "spec_ok s \<longleftrightarrow> valid_identifier (spec_agent_id s) \<and> valid_identifier (spec_reviewer_agent_id s)
     \<and> task_ok (spec_request s) \<and> source_ok (spec_source s) \<and> budget_ok (spec_budget s)
     \<and> bounded 1 20 (spec_capabilities s)
     \<and> canonicalize_capabilities (spec_capabilities s) = Inr (spec_capabilities s)"

section \<open>Jobs\<close>

record job =
  job_id :: uuid
  create_idempotency_key :: string
  job_agent_id :: string
  job_reviewer_agent_id :: string
  job_request :: task_request
  job_source :: source_revision
  job_budget :: execution_budget
  job_capabilities :: "capability list"
  job_status :: job_status
  job_approval_state :: approval_state
  job_result :: "structured_result option"
  job_review :: "review_result option"
  job_approval :: "approval_record option"
  job_failure :: "job_failure option"
  active_execution :: "execution_lease option"
  last_execution_id :: "uuid option"
  created_at :: timestamp
  updated_at :: timestamp
  started_at :: "timestamp option"
  review_requested_at :: "timestamp option"
  terminal_at :: "timestamp option"
  revision :: int

definition opt_ok :: "('a \<Rightarrow> bool) \<Rightarrow> 'a option \<Rightarrow> bool" where
  "opt_ok P x = (case x of None \<Rightarrow> True | Some a \<Rightarrow> P a)"

lemma opt_ok_simps [simp]: "opt_ok P None" "opt_ok P (Some a) = P a"
  by (simp_all add: opt_ok_def)

text \<open>The field constraints of \<open>Job\<close>, with the validators of the nested models.\<close>

definition job_fields_ok :: "job \<Rightarrow> bool" where
  "job_fields_ok j \<longleftrightarrow> valid_command_id (create_idempotency_key j)
     \<and> valid_identifier (job_agent_id j) \<and> valid_identifier (job_reviewer_agent_id j)
     \<and> task_ok (job_request j) \<and> source_ok (job_source j) \<and> budget_ok (job_budget j)
     \<and> bounded 1 20 (job_capabilities j)
     \<and> opt_ok result_ok (job_result j) \<and> opt_ok review_ok (job_review j)
     \<and> opt_ok approval_ok (job_approval j) \<and> opt_ok failure_ok (job_failure j)
     \<and> opt_ok lease_ok (active_execution j) \<and> 0 \<le> revision j"

text \<open>\<open>Job.validate_capabilities\<close>.\<close>

definition job_capabilities_error :: "capability list \<Rightarrow> string option" where
  "job_capabilities_error values =
     (if \<not> distinct values then Some ''Capabilities must be unique''
      else if values \<noteq> sort values then Some ''Capabilities must use canonical ordering''
      else None)"

text \<open>\<open>Job.validate_lifecycle\<close>: the first violated rule, in the code's order.\<close>

definition result_states :: "job_status list" where
  "result_states = [AWAITING_REVIEW, APPROVED, REJECTED, COMPLETED]"

fun approval_states :: "job_status \<Rightarrow> approval_state option" where
  "approval_states APPROVED = Some Approval_Approved"
| "approval_states REJECTED = Some Approval_Rejected"
| "approval_states COMPLETED = Some Approval_Approved"
| "approval_states _ = None"

definition job_approval_error :: "job \<Rightarrow> string option" where
  "job_approval_error j =
     (case approval_states (job_status j) of
        Some expected \<Rightarrow>
          if job_review j = None \<or> job_approval j = None
            then Some ''Reviewed terminal path requires review and approval records''
          else if job_approval_state j \<noteq> expected
            then Some ''Approval state does not match job status''
          else None
      | None \<Rightarrow>
          if job_status j = AWAITING_REVIEW then
            (if job_approval j \<noteq> None \<or> job_approval_state j \<noteq> Approval_Pending
             then Some ''Awaiting-review jobs require pending approval'' else None)
          else if job_status j \<noteq> FAILED then
            (if job_review j \<noteq> None \<or> job_approval j \<noteq> None
               then Some ''Review data is not valid before review is requested''
             else if job_approval_state j \<noteq> Approval_Not_Requested
               then Some ''Approval cannot change before review''
             else None)
          else None)"

definition approved_by_record :: "approval_decision \<Rightarrow> job \<Rightarrow> bool" where
  "approved_by_record d j \<longleftrightarrow>
     (case job_approval j of None \<Rightarrow> False | Some a \<Rightarrow> approval_decision a = d)"

definition job_lifecycle_error :: "job \<Rightarrow> string option" where
  "job_lifecycle_error j =
     (if updated_at j < created_at j then Some ''Job update time cannot precede creation''
      else if (job_status j = RUNNING) \<noteq> (active_execution j \<noteq> None)
        then Some ''Only running jobs may hold an active execution lease''
      else if job_status j \<in> set result_states \<and> job_result j = None
        then Some ''Result presence does not match job status''
      else if job_status j \<notin> set result_states \<and> job_status j \<noteq> FAILED \<and> job_result j \<noteq> None
        then Some ''Result presence does not match job status''
      else if (job_result j \<noteq> None) \<noteq> (review_requested_at j \<noteq> None)
        then Some ''Result and review-request time must be recorded together''
      else case job_approval_error j of
        Some e \<Rightarrow> Some e
      | None \<Rightarrow>
          if (job_status j = FAILED) \<noteq> (job_failure j \<noteq> None)
            then Some ''Failure details must exist only for failed jobs''
          else if (job_status j = COMPLETED \<or> job_status j = FAILED) \<noteq> (terminal_at j \<noteq> None)
            then Some ''Terminal timestamp does not match job status''
          else if job_status j = COMPLETED \<and> \<not> approved_by_record Decision_Approved j
            then Some ''Completed jobs require approval''
          else if job_status j = REJECTED \<and> \<not> approved_by_record Decision_Rejected j
            then Some ''Rejected jobs require rejection''
          else None)"

definition job_valid :: "job \<Rightarrow> bool" where
  "job_valid j \<longleftrightarrow> job_fields_ok j \<and> job_capabilities_error (job_capabilities j) = None
     \<and> job_lifecycle_error j = None"

section \<open>Agent policies\<close>

record agent_policy =
  policy_agent_id :: string
  policy_runtime_kind :: string
  policy_runtime_version :: ustr
  policy_capabilities :: "capability list"
  policy_max_budget :: execution_budget
  repository_prefixes :: "http_url list"

definition policy_ok :: "agent_policy \<Rightarrow> bool" where
  "policy_ok p \<longleftrightarrow> valid_identifier (policy_agent_id p) \<and> valid_identifier (policy_runtime_kind p)
     \<and> bounded 1 100 (policy_runtime_version p) \<and> bounded 1 20 (policy_capabilities p)
     \<and> canonicalize_capabilities (policy_capabilities p) = Inr (policy_capabilities p)
     \<and> budget_ok (policy_max_budget p) \<and> bounded 1 20 (repository_prefixes p)
     \<and> list_all url_plain (repository_prefixes p)"

section \<open>Audit events\<close>

text \<open>The discriminated union of audit payloads; the constructor is the \<open>kind\<close>.\<close>

datatype audit_data =
    Created_Data string string
  | Transition_Data ustr
  | Result_Data string uuid
  | Review_Data uuid review_verdict
  | Approval_Data uuid approval_decision
  | Failure_Data failure_classification
  | Recovery_Data uuid

fun audit_kind :: "audit_data \<Rightarrow> string" where
  "audit_kind (Created_Data request_sha256 key) = ''created''"
| "audit_kind (Transition_Data reason) = ''transition''"
| "audit_kind (Result_Data result_sha256 eid) = ''result''"
| "audit_kind (Review_Data rid verdict) = ''review''"
| "audit_kind (Approval_Data aid decision) = ''approval''"
| "audit_kind (Failure_Data classification) = ''failure''"
| "audit_kind (Recovery_Data eid) = ''recovery''"

fun expected_kind :: "audit_event_type \<Rightarrow> string" where
  "expected_kind JOB_CREATED = ''created''"
| "expected_kind JOB_VALIDATED = ''transition''"
| "expected_kind JOB_QUEUED = ''transition''"
| "expected_kind JOB_STARTED = ''transition''"
| "expected_kind RESULT_RECORDED = ''result''"
| "expected_kind REVIEW_RECORDED = ''review''"
| "expected_kind JOB_APPROVED = ''approval''"
| "expected_kind JOB_REJECTED = ''approval''"
| "expected_kind JOB_COMPLETED = ''transition''"
| "expected_kind JOB_FAILED = ''failure''"
| "expected_kind JOB_RECOVERED = ''recovery''"

record audit_event =
  event_id :: uuid
  event_job_id :: uuid
  event_sequence :: int
  event_job_revision :: int
  event_type :: audit_event_type
  event_actor :: actor_identity
  event_command_id :: string
  event_occurred_at :: timestamp
  event_from_status :: "job_status option"
  event_to_status :: job_status
  event_data :: audit_data

text \<open>
  \<open>AuditEvent.validate_event_shape\<close>. The field constraints of the payload are those of values that
  were validated before (digests, ids, reasons the code writes itself).
\<close>

definition event_shape_error :: "audit_event \<Rightarrow> string option" where
  "event_shape_error e =
     (if audit_kind (event_data e) \<noteq> expected_kind (event_type e)
        then Some ''Audit payload does not match event type''
      else if event_type e = JOB_CREATED
          \<and> (event_from_status e \<noteq> None \<or> event_to_status e \<noteq> CREATED)
        then Some ''Job-created event has invalid status boundary''
      else if event_type e = REVIEW_RECORDED
          \<and> \<not> (event_from_status e = Some AWAITING_REVIEW \<and> event_to_status e = AWAITING_REVIEW)
        then Some ''Review event cannot change job status''
      else if event_type e \<noteq> JOB_CREATED \<and> event_type e \<noteq> REVIEW_RECORDED
          \<and> (event_from_status e = None \<or> event_from_status e = Some (event_to_status e))
        then Some ''Lifecycle events require an explicit state change''
      else if event_sequence e \<noteq> event_job_revision e + 1
        then Some ''Audit sequence must track the resulting job revision''
      else None)"

record command_record =
  command_id :: string
  command_operation :: string
  command_request_sha256 :: string
  command_job_id :: uuid
  response_revision :: int
  command_created_at :: timestamp

section \<open>JSON form\<close>

definition obj :: "(string \<times> json) list \<Rightarrow> json" where
  "obj kvs = JObj (map (\<lambda>(k, v). (lit k, v)) kvs)"

definition jstr :: "string \<Rightarrow> json" where
  "jstr s = JStr (lit s)"

definition jopt :: "('a \<Rightarrow> json) \<Rightarrow> 'a option \<Rightarrow> json" where
  "jopt f x = (case x of None \<Rightarrow> JNull | Some a \<Rightarrow> f a)"

text \<open>\<open>str(uuid)\<close>: 32 hexadecimal digits in groups of 8, 4, 4, 4 and 12.\<close>

fun hex_digits :: "nat \<Rightarrow> nat \<Rightarrow> string" where
  "hex_digits 0 n = []"
| "hex_digits (Suc k) n = hex_digits k (n div 16) @ [hex_char (n mod 16)]"

definition uuid_str :: "uuid \<Rightarrow> string" where
  "uuid_str n =
     (let h = hex_digits 32 n in
      take 8 h @ ''-'' @ take 4 (drop 8 h) @ ''-'' @ take 4 (drop 12 h) @ ''-''
      @ take 4 (drop 16 h) @ ''-'' @ drop 20 h)"

definition actor_json :: "actor_identity \<Rightarrow> json" where
  "actor_json a = obj [(''actor_type'', jstr (actor_type_value (actor_type a))),
                       (''actor_id'', jstr (actor_id a))]"

definition source_json :: "source_revision \<Rightarrow> json" where
  "source_json s = obj [(''repository_url'', jstr (url_text (repository_url s))),
                        (''commit_sha'', jstr (commit_sha s)), (''ref'', jopt JStr (source_ref s))]"

definition artifact_json :: "artifact_reference \<Rightarrow> json" where
  "artifact_json a = obj [(''artifact_type'', jstr (artifact_type a)),
                          (''uri'', JStr (artifact_uri a)), (''sha256'', jstr (artifact_sha256 a))]"

definition task_json :: "task_request \<Rightarrow> json" where
  "task_json t = obj
     [(''task_type'', jstr (task_type t)), (''title'', JStr (task_title t)),
      (''instructions'', JStr (task_instructions t)),
      (''acceptance_criteria'', JList (map JStr (acceptance_criteria t))),
      (''inputs'', JList (map artifact_json (task_inputs t)))]"

definition budget_json :: "execution_budget \<Rightarrow> json" where
  "budget_json b = obj
     [(''max_duration_seconds'', JInt (max_duration_seconds b)),
      (''max_tool_calls'', JInt (max_tool_calls b)),
      (''max_input_tokens'', JInt (max_input_tokens b)),
      (''max_output_tokens'', JInt (max_output_tokens b)),
      (''max_artifact_bytes'', JInt (max_artifact_bytes b))]"

definition check_json :: "check_result \<Rightarrow> json" where
  "check_json c = obj [(''name'', jstr (check_name c)), (''passed'', JBool (check_passed c)),
                       (''summary'', JStr (check_summary c))]"

fun result_json :: "structured_result \<Rightarrow> json" where
  "result_json (Generic_Job_Result r) = obj
     [(''result_type'', jstr ''generic''), (''summary'', JStr (generic_summary r)),
      (''artifacts'', JList (map artifact_json (generic_artifacts r))),
      (''checks'', JList (map check_json (generic_checks r)))]"
| "result_json (Patch_Result r) = obj
     [(''result_type'', jstr ''patch''), (''summary'', JStr (patch_summary r)),
      (''base_sha'', jstr (base_sha r)), (''proposed_head_sha'', jstr (proposed_head_sha r)),
      (''patch_artifact'', artifact_json (patch_artifact r)),
      (''changed_files'', JList (map JStr (changed_files r))),
      (''checks'', JList (map check_json (patch_checks r)))]"

definition review_json :: "env \<Rightarrow> review_result \<Rightarrow> json" where
  "review_json E r = obj
     [(''review_id'', jstr (uuid_str (review_id r))),
      (''reviewer_agent_id'', jstr (reviewer_of_review r)),
      (''verdict'', jstr (review_verdict_value (review_verdict r))),
      (''summary'', JStr (review_summary r)),
      (''evidence'', JList (map artifact_json (review_evidence r))),
      (''created_at'', jstr (env_iso E (review_created_at r)))]"

definition spec_json :: "job_spec \<Rightarrow> json" where
  "spec_json s = obj
     [(''agent_id'', jstr (spec_agent_id s)), (''reviewer_agent_id'', jstr (spec_reviewer_agent_id s)),
      (''request'', task_json (spec_request s)), (''source'', source_json (spec_source s)),
      (''budget'', budget_json (spec_budget s)),
      (''capabilities'', JList (map (\<lambda>c. jstr (capability_value c)) (spec_capabilities s)))]"

section \<open>NFC of a stored job\<close>

text \<open>
  A job is stored as canonical JSON, so every free text of it is stored in NFC. \<open>job_nfc\<close> is the
  job that the stored document describes; identifiers, digests and other patterned text are ASCII,
  which NFC leaves alone.
\<close>

definition artifact_nfc :: "(ustr \<Rightarrow> ustr) \<Rightarrow> artifact_reference \<Rightarrow> artifact_reference" where
  "artifact_nfc f a = a\<lparr>artifact_uri := f (artifact_uri a)\<rparr>"

definition check_nfc :: "(ustr \<Rightarrow> ustr) \<Rightarrow> check_result \<Rightarrow> check_result" where
  "check_nfc f c = c\<lparr>check_summary := f (check_summary c)\<rparr>"

definition task_nfc :: "(ustr \<Rightarrow> ustr) \<Rightarrow> task_request \<Rightarrow> task_request" where
  "task_nfc f t = t\<lparr>task_title := f (task_title t), task_instructions := f (task_instructions t),
     acceptance_criteria := map f (acceptance_criteria t),
     task_inputs := map (artifact_nfc f) (task_inputs t)\<rparr>"

definition source_nfc :: "(ustr \<Rightarrow> ustr) \<Rightarrow> source_revision \<Rightarrow> source_revision" where
  "source_nfc f s = s\<lparr>source_ref := map_option f (source_ref s)\<rparr>"

fun result_nfc :: "(ustr \<Rightarrow> ustr) \<Rightarrow> structured_result \<Rightarrow> structured_result" where
  "result_nfc f (Generic_Job_Result r) = Generic_Job_Result
     (r\<lparr>generic_summary := f (generic_summary r),
        generic_artifacts := map (artifact_nfc f) (generic_artifacts r),
        generic_checks := map (check_nfc f) (generic_checks r)\<rparr>)"
| "result_nfc f (Patch_Result r) = Patch_Result
     (r\<lparr>patch_summary := f (patch_summary r), patch_artifact := artifact_nfc f (patch_artifact r),
        changed_files := map f (changed_files r), patch_checks := map (check_nfc f) (patch_checks r)\<rparr>)"

definition review_nfc :: "(ustr \<Rightarrow> ustr) \<Rightarrow> review_result \<Rightarrow> review_result" where
  "review_nfc f r = r\<lparr>review_summary := f (review_summary r),
     review_evidence := map (artifact_nfc f) (review_evidence r)\<rparr>"

definition job_nfc :: "(ustr \<Rightarrow> ustr) \<Rightarrow> job \<Rightarrow> job" where
  "job_nfc f j = j\<lparr>job_request := task_nfc f (job_request j), job_source := source_nfc f (job_source j),
     job_result := map_option (result_nfc f) (job_result j),
     job_review := map_option (review_nfc f) (job_review j),
     job_approval := map_option (\<lambda>a. a\<lparr>approval_reason := f (approval_reason a)\<rparr>) (job_approval j),
     job_failure := map_option (\<lambda>x. x\<lparr>failure_message := f (failure_message x)\<rparr>) (job_failure j)\<rparr>"

lemma job_nfc_frame [simp]:
  "job_id (job_nfc f j) = job_id j" "job_status (job_nfc f j) = job_status j"
  "revision (job_nfc f j) = revision j" "updated_at (job_nfc f j) = updated_at j"
  "created_at (job_nfc f j) = created_at j"
  by (simp_all add: job_nfc_def)

end
