(* ===== verification/AtlasPolicy.thy ===== *)
theory AtlasPolicy
  imports AtlasModels
begin

text \<open>
  The closed job lifecycle (\<open>src/nexus/atlas/state_machine.py\<close>) and the capability, budget,
  repository and actor policy (\<open>src/nexus/atlas/policy.py\<close>). Every function raises by returning
  \<open>Inl\<close> of an \<open>atlas_error\<close>, whose constructors are the exception classes of the package.
\<close>

section \<open>Errors\<close>

datatype atlas_error =
    Invalid_Transition job_status job_status
  | Atlas_Policy_Error string
  | Atlas_Command_Error string
  | Atlas_Storage_Error string
  | Job_Not_Found uuid
  | Idempotency_Conflict
  | Concurrency_Error
  | Validation_Error string

section \<open>The lifecycle graph\<close>

fun valid_transitions :: "job_status \<Rightarrow> job_status list" where
  "valid_transitions CREATED = [VALIDATED, FAILED]"
| "valid_transitions VALIDATED = [QUEUED, FAILED]"
| "valid_transitions QUEUED = [RUNNING, FAILED]"
| "valid_transitions RUNNING = [AWAITING_REVIEW, QUEUED, FAILED]"
| "valid_transitions AWAITING_REVIEW = [APPROVED, REJECTED, FAILED]"
| "valid_transitions APPROVED = [COMPLETED, FAILED]"
| "valid_transitions REJECTED = [FAILED]"
| "valid_transitions COMPLETED = []"
| "valid_transitions FAILED = []"

definition require_transition :: "job_status \<Rightarrow> job_status \<Rightarrow> atlas_error + unit" where
  "require_transition current target =
     guard_raise (target \<notin> set (valid_transitions current)) (Invalid_Transition current target)"

lemma require_transition_Inr [run_simps]:
  "require_transition s t = Inr u \<longleftrightarrow> t \<in> set (valid_transitions s)"
  by (simp add: require_transition_def)

text \<open>The statuses a job can pass through from a given one.\<close>

inductive lifecycle_reaches :: "job_status \<Rightarrow> job_status \<Rightarrow> bool" where
  reaches_refl: "lifecycle_reaches s s"
| reaches_step: "lifecycle_reaches s t \<Longrightarrow> t' \<in> set (valid_transitions t) \<Longrightarrow> lifecycle_reaches s t'"

inductive_cases completed_from: "lifecycle_reaches s COMPLETED"

definition terminal_status :: "job_status \<Rightarrow> bool" where
  "terminal_status s \<longleftrightarrow> s = COMPLETED \<or> s = FAILED"

lemma terminal_no_transition: "terminal_status s \<longleftrightarrow> valid_transitions s = []"
  by (cases s) (simp_all add: terminal_status_def)

lemma no_self_transition: "s \<notin> set (valid_transitions s)"
  by (cases s) simp_all

lemma fail_from_any: "FAILED \<in> set (valid_transitions s) \<longleftrightarrow> \<not> terminal_status s"
  by (cases s) (simp_all add: terminal_status_def)

section \<open>The agent registry\<close>

type_synonym agent_registry = "agent_policy list"

text \<open>\<open>AgentRegistry.__init__\<close>: one policy per agent id.\<close>

fun build_registry :: "agent_registry \<Rightarrow> agent_policy list \<Rightarrow> string + agent_registry" where
  "build_registry reg [] = Inr reg"
| "build_registry reg (p # ps) =
     (if policy_agent_id p \<in> set (map policy_agent_id reg)
      then Inl (''Duplicate Atlas agent policy: '' @ policy_agent_id p)
      else build_registry (reg @ [p]) ps)"

definition registry_get :: "agent_registry \<Rightarrow> string \<Rightarrow> atlas_error + agent_policy" where
  "registry_get R agent_id =
     (case find (\<lambda>p. policy_agent_id p = agent_id) R of
        None \<Rightarrow> Inl (Atlas_Policy_Error (''Atlas agent is not registered: '' @ agent_id))
      | Some p \<Rightarrow> Inr p)"

text \<open>\<open>_require_budget_within\<close>: the fields in their declared order, the first excess raises.\<close>

definition budget_fields :: "execution_budget \<Rightarrow> (string \<times> int) list" where
  "budget_fields b =
     [(''max_duration_seconds'', max_duration_seconds b), (''max_tool_calls'', max_tool_calls b),
      (''max_input_tokens'', max_input_tokens b), (''max_output_tokens'', max_output_tokens b),
      (''max_artifact_bytes'', max_artifact_bytes b)]"

definition require_budget_within ::
  "execution_budget \<Rightarrow> execution_budget \<Rightarrow> atlas_error + unit" where
  "require_budget_within requested maximum =
     (case find (\<lambda>((name, r), (_, m)). r > m) (zip (budget_fields requested) (budget_fields maximum)) of
        None \<Rightarrow> Inr ()
      | Some ((name, _), _) \<Rightarrow>
          Inl (Atlas_Policy_Error (''Requested budget exceeds policy field: '' @ name)))"

definition budget_within :: "execution_budget \<Rightarrow> execution_budget \<Rightarrow> bool" where
  "budget_within b m \<longleftrightarrow> max_duration_seconds b \<le> max_duration_seconds m
     \<and> max_tool_calls b \<le> max_tool_calls m \<and> max_input_tokens b \<le> max_input_tokens m
     \<and> max_output_tokens b \<le> max_output_tokens m \<and> max_artifact_bytes b \<le> max_artifact_bytes m"

lemma require_budget_within_Inr [run_simps]:
  "require_budget_within b m = Inr u \<longleftrightarrow> budget_within b m"
  by (auto simp: require_budget_within_def budget_fields_def budget_within_def)

section \<open>Repository prefixes\<close>

text \<open>
  \<open>urllib.parse.urlsplit\<close> on the text of an \<open>HttpUrl\<close>: the scheme before the first colon, the
  authority between \<open>//\<close> and the first of \<open>/ ? #\<close>, and the path before the first of \<open>? #\<close>. A text
  with no scheme has none of the three but the path.
\<close>

record split_url =
  split_scheme :: string
  split_netloc :: string
  split_path :: string

definition scheme_char :: "char \<Rightarrow> bool" where
  "scheme_char c \<longleftrightarrow> is_lower c \<or> is_upper c \<or> is_digit c
     \<or> c = CHR ''+'' \<or> c = CHR ''-'' \<or> c = CHR ''.''"

definition lower_char :: "char \<Rightarrow> char" where
  "lower_char c = (if is_upper c then char_of ((of_char c :: nat) + 32) else c)"

definition split_at_scheme :: "string \<Rightarrow> string \<times> string" where
  "split_at_scheme url =
     (let s = takeWhile (\<lambda>c. c \<noteq> CHR '':'') url; r = dropWhile (\<lambda>c. c \<noteq> CHR '':'') url in
      if r \<noteq> [] \<and> s \<noteq> [] \<and> (is_lower (hd s) \<or> is_upper (hd s)) \<and> list_all scheme_char s
      then (map lower_char s, tl r) else ([], url))"

definition urlsplit :: "string \<Rightarrow> split_url" where
  "urlsplit url =
     (let (scheme, rest) = split_at_scheme url;
          in_netloc = (\<lambda>c. c \<noteq> CHR ''/'' \<and> c \<noteq> CHR ''?'' \<and> c \<noteq> CHR ''#'');
          in_path = (\<lambda>c. c \<noteq> CHR ''?'' \<and> c \<noteq> CHR ''#'') in
      if starts_with ''//'' rest
      then \<lparr>split_scheme = scheme, split_netloc = takeWhile in_netloc (drop 2 rest),
            split_path = takeWhile in_path (dropWhile in_netloc (drop 2 rest))\<rparr>
      else \<lparr>split_scheme = scheme, split_netloc = [], split_path = takeWhile in_path rest\<rparr>)"

definition repository_within :: "string \<Rightarrow> string \<Rightarrow> bool" where
  "repository_within repository prefix =
     (let candidate = urlsplit repository; allowed = urlsplit prefix in
      if split_scheme candidate \<noteq> split_scheme allowed \<or> split_netloc candidate \<noteq> split_netloc allowed
      then False
      else let candidate_path = rstrip_char (CHR ''/'') (split_path candidate);
               allowed_path = rstrip_char (CHR ''/'') (split_path allowed) in
           candidate_path = allowed_path \<or> starts_with (allowed_path @ ''/'') candidate_path)"

section \<open>Registry checks\<close>

definition validate_job_policy :: "agent_registry \<Rightarrow> job_spec \<Rightarrow> atlas_error + unit" where
  "validate_job_policy R spec =
     rbind (registry_get R (spec_agent_id spec)) (\<lambda>agent.
     rbind (registry_get R (spec_reviewer_agent_id spec)) (\<lambda>reviewer.
     let missing = filter (\<lambda>c. c \<notin> set (policy_capabilities agent)) (spec_capabilities spec) in
     rbind (guard_raise (missing \<noteq> [])
       (Atlas_Policy_Error (''Agent lacks requested capabilities: ''
          @ join_with '', '' (sort (map capability_value missing))))) (\<lambda>_.
     rbind (require_budget_within (spec_budget spec) (policy_max_budget agent)) (\<lambda>_.
     rbind (guard_raise (\<not> list_ex (\<lambda>prefix.
         repository_within (url_text (repository_url (spec_source spec))) (url_text prefix))
         (repository_prefixes agent))
       (Atlas_Policy_Error ''Source repository is outside the agent policy'')) (\<lambda>_.
     guard_raise (REVIEW_SUBMIT \<notin> set (policy_capabilities reviewer))
       (Atlas_Policy_Error ''Reviewer agent lacks review.submit capability''))))))"

definition require_assigned_agent ::
  "agent_registry \<Rightarrow> job \<Rightarrow> actor_identity \<Rightarrow> atlas_error + unit" where
  "require_assigned_agent R j actor =
     rbind (guard_raise (actor_type actor \<noteq> Agent \<or> actor_id actor \<noteq> job_agent_id j)
       (Atlas_Policy_Error ''Operation requires the assigned agent identity'')) (\<lambda>_.
     rbind (registry_get R (actor_id actor)) (\<lambda>_. Inr ()))"

definition require_reviewer ::
  "agent_registry \<Rightarrow> job \<Rightarrow> actor_identity \<Rightarrow> atlas_error + unit" where
  "require_reviewer R j actor =
     rbind (guard_raise (actor_type actor \<noteq> Agent \<or> actor_id actor \<noteq> job_reviewer_agent_id j)
       (Atlas_Policy_Error ''Operation requires the assigned reviewer identity'')) (\<lambda>_.
     rbind (registry_get R (actor_id actor)) (\<lambda>policy.
     guard_raise (REVIEW_SUBMIT \<notin> set (policy_capabilities policy))
       (Atlas_Policy_Error ''Reviewer agent lacks review.submit capability'')))"

definition require_human :: "actor_identity \<Rightarrow> atlas_error + unit" where
  "require_human actor = guard_raise (actor_type actor \<noteq> Human)
     (Atlas_Policy_Error ''Operation requires a human actor'')"

definition require_operator :: "actor_identity \<Rightarrow> atlas_error + unit" where
  "require_operator actor = guard_raise (actor_type actor \<notin> {System, Human})
     (Atlas_Policy_Error ''Operation requires a system or human operator'')"

definition require_system :: "actor_identity \<Rightarrow> atlas_error + unit" where
  "require_system actor = guard_raise (actor_type actor \<noteq> System)
     (Atlas_Policy_Error ''Operation requires the Atlas system actor'')"

lemma require_actor_Inr [run_simps]:
  "require_human a = Inr u \<longleftrightarrow> actor_type a = Human"
  "require_operator a = Inr u \<longleftrightarrow> actor_type a \<in> {System, Human}"
  "require_system a = Inr u \<longleftrightarrow> actor_type a = System"
  by (simp_all add: require_human_def require_operator_def require_system_def)

lemma registry_get_Inr:
  "registry_get R i = Inr p \<Longrightarrow> p \<in> set R \<and> policy_agent_id p = i"
  by (auto simp: registry_get_def dest!: find_Some_mem split: option.splits)

lemma require_assigned_agent_Inr:
  "require_assigned_agent R j a = Inr u \<Longrightarrow> actor_type a = Agent \<and> actor_id a = job_agent_id j"
  by (auto simp: require_assigned_agent_def run_simps)

lemma require_reviewer_Inr:
  "require_reviewer R j a = Inr u \<Longrightarrow> actor_type a = Agent \<and> actor_id a = job_reviewer_agent_id j
     \<and> (\<exists>p. registry_get R (actor_id a) = Inr p \<and> REVIEW_SUBMIT \<in> set (policy_capabilities p))"
  by (auto simp: require_reviewer_def run_simps)

end
