(* ===== verification/AtlasStorage.thy ===== *)
theory AtlasStorage
  imports AtlasPolicy
begin

text \<open>
  The durable Atlas store (\<open>src/nexus/atlas/storage.py\<close>): the three SQLite tables as lists of rows,
  one function per statement of the transaction, and the store's operations over them.

  \<^item> A stored document (\<open>record_json\<close>, \<open>response_json\<close>, \<open>event_json\<close>) is the typed value it
    describes, after NFC; reading it validates it again (\<open>decode_job\<close>), as \<open>model_validate_json\<close> does.
  \<^item> A statement that violates a key or foreign key is a \<open>sqlite3.IntegrityError\<close>, which the code
    turns into \<open>AtlasStorageError\<close>; closing the connection without a commit rolls back.
  \<^item> I/O failures of SQLite itself are left out: an operation here fails only for logical reasons.

  \<open>db_wf\<close> is the invariant of the store: unique keys, indexes that agree with their documents,
  valid jobs, and for every job an audit history that is a walk of the lifecycle graph, one event
  per revision.
\<close>

section \<open>Tables\<close>

record job_row =
  row_job_id :: uuid
  row_status :: job_status
  row_revision :: int
  row_updated_at :: timestamp
  row_record :: job

record event_row =
  ev_event_id :: uuid
  ev_job_id :: uuid
  ev_sequence :: int
  ev_event_type :: audit_event_type
  ev_occurred_at :: timestamp
  ev_record :: audit_event

record command_row =
  cmd_id :: string
  cmd_operation :: string
  cmd_request_sha256 :: string
  cmd_job_id :: uuid
  cmd_response_revision :: int
  cmd_created_at :: timestamp
  cmd_response :: job

record atlas_db =
  db_jobs :: "job_row list"
  db_events :: "event_row list"
  db_commands :: "command_row list"

definition empty_db :: atlas_db where
  "empty_db = \<lparr>db_jobs = [], db_events = [], db_commands = []\<rparr>"

section \<open>Reading\<close>

definition decode_job :: "string \<Rightarrow> job \<Rightarrow> atlas_error + job" where
  "decode_job message d = (if job_valid d then Inr d else Inl (Atlas_Storage_Error message))"

definition job_from_row :: "job_row \<Rightarrow> atlas_error + job" where
  "job_from_row r =
     rbind (decode_job ''Atlas contains a malformed job'' (row_record r)) (\<lambda>j.
     if (row_job_id r, row_status r, row_revision r, row_updated_at r)
          \<noteq> (job_id j, job_status j, revision j, updated_at j)
     then Inl (Atlas_Storage_Error ''Atlas job index and payload disagree'')
     else Inr j)"

definition find_job_row :: "atlas_db \<Rightarrow> uuid \<Rightarrow> job_row option" where
  "find_job_row db i = find (\<lambda>r. row_job_id r = i) (db_jobs db)"

definition get_job :: "atlas_db \<Rightarrow> uuid \<Rightarrow> atlas_error + job" where
  "get_job db i = (case find_job_row db i of None \<Rightarrow> Inl (Job_Not_Found i) | Some r \<Rightarrow> job_from_row r)"

definition list_jobs :: "atlas_db \<Rightarrow> atlas_error + job list" where
  "list_jobs db = map_results job_from_row (sort_key row_updated_at (sort_key row_job_id (db_jobs db)))"

definition event_from_row :: "event_row \<Rightarrow> atlas_error + audit_event" where
  "event_from_row r =
     (let e = ev_record r in
      if event_shape_error e \<noteq> None
      then Inl (Atlas_Storage_Error ''Atlas contains a malformed audit event'')
      else if (ev_event_id r, ev_job_id r, ev_sequence r, ev_event_type r, ev_occurred_at r)
          \<noteq> (event_id e, event_job_id e, event_sequence e, event_type e, event_occurred_at e)
      then Inl (Atlas_Storage_Error ''Atlas audit index and payload disagree'')
      else Inr e)"

definition list_audit_events :: "atlas_db \<Rightarrow> uuid \<Rightarrow> atlas_error + audit_event list" where
  "list_audit_events db i =
     map_results event_from_row (sort_key ev_sequence (filter (\<lambda>r. ev_job_id r = i) (db_events db)))"

text \<open>\<open>_command_response\<close>: the stored response, for a repetition of the same request only.\<close>

definition command_response :: "command_row \<Rightarrow> string \<Rightarrow> string \<Rightarrow> atlas_error + job" where
  "command_response r operation request_sha256 =
     (if cmd_operation r \<noteq> operation \<or> cmd_request_sha256 r \<noteq> request_sha256
      then Inl Idempotency_Conflict
      else rbind (decode_job ''Atlas command contains a malformed response'' (cmd_response r)) (\<lambda>j.
        if job_id j \<noteq> cmd_job_id r \<or> revision j \<noteq> cmd_response_revision r
        then Inl (Atlas_Storage_Error ''Atlas command index and response disagree'')
        else Inr j))"

definition find_command_row :: "atlas_db \<Rightarrow> string \<Rightarrow> command_row option" where
  "find_command_row db c = find (\<lambda>r. cmd_id r = c) (db_commands db)"

definition lookup_command ::
  "atlas_db \<Rightarrow> string \<Rightarrow> string \<Rightarrow> string \<Rightarrow> atlas_error + job option" where
  "lookup_command db c operation request_sha256 =
     (case find_command_row db c of
        None \<Rightarrow> Inr None
      | Some r \<Rightarrow> rbind (command_response r operation request_sha256) (\<lambda>j. Inr (Some j)))"

section \<open>The statements of a transaction\<close>

definition stored_job :: "env \<Rightarrow> job \<Rightarrow> job" where
  "stored_job E j = job_nfc (env_nfc E) j"

definition integrity_error :: atlas_error where
  "integrity_error = Atlas_Storage_Error ''Atlas transaction failed''"

definition job_row_of :: "env \<Rightarrow> job \<Rightarrow> job_row" where
  "job_row_of E j = \<lparr>row_job_id = job_id j, row_status = job_status j, row_revision = revision j,
     row_updated_at = updated_at j, row_record = stored_job E j\<rparr>"

definition insert_job :: "env \<Rightarrow> job \<Rightarrow> atlas_db \<Rightarrow> atlas_error + atlas_db" where
  "insert_job E j db =
     (if job_id j \<in> set (map row_job_id (db_jobs db)) then Inl integrity_error
      else Inr (db\<lparr>db_jobs := db_jobs db @ [job_row_of E j]\<rparr>))"

text \<open>\<open>UPDATE ... WHERE job_id = ? AND revision = ?\<close>, and the check of \<open>rowcount\<close>.\<close>

definition update_job :: "env \<Rightarrow> int \<Rightarrow> job \<Rightarrow> atlas_db \<Rightarrow> atlas_error + atlas_db" where
  "update_job E expected j db =
     (let hit = (\<lambda>r. row_job_id r = job_id j \<and> row_revision r = expected) in
      if length (filter hit (db_jobs db)) \<noteq> 1 then Inl Concurrency_Error
      else Inr (db\<lparr>db_jobs := update_where hit (\<lambda>r. job_row_of E j) (db_jobs db)\<rparr>))"

definition event_row_of :: "audit_event \<Rightarrow> event_row" where
  "event_row_of e = \<lparr>ev_event_id = event_id e, ev_job_id = event_job_id e,
     ev_sequence = event_sequence e, ev_event_type = event_type e,
     ev_occurred_at = event_occurred_at e, ev_record = e\<rparr>"

definition insert_event :: "audit_event \<Rightarrow> atlas_db \<Rightarrow> atlas_error + atlas_db" where
  "insert_event e db =
     (if event_id e \<in> set (map ev_event_id (db_events db))
        \<or> (event_job_id e, event_sequence e) \<in> set (map (\<lambda>r. (ev_job_id r, ev_sequence r)) (db_events db))
        \<or> event_job_id e \<notin> set (map row_job_id (db_jobs db))
      then Inl integrity_error
      else Inr (db\<lparr>db_events := db_events db @ [event_row_of e]\<rparr>))"

definition command_row_of :: "env \<Rightarrow> command_record \<Rightarrow> job \<Rightarrow> command_row" where
  "command_row_of E c j = \<lparr>cmd_id = command_id c, cmd_operation = command_operation c,
     cmd_request_sha256 = command_request_sha256 c, cmd_job_id = command_job_id c,
     cmd_response_revision = response_revision c, cmd_created_at = command_created_at c,
     cmd_response = stored_job E j\<rparr>"

definition insert_command :: "env \<Rightarrow> command_record \<Rightarrow> job \<Rightarrow> atlas_db \<Rightarrow> atlas_error + atlas_db" where
  "insert_command E c j db =
     (if command_id c \<in> set (map cmd_id (db_commands db))
        \<or> command_job_id c \<notin> set (map row_job_id (db_jobs db))
      then Inl integrity_error
      else Inr (db\<lparr>db_commands := db_commands db @ [command_row_of E c j]\<rparr>))"

section \<open>Writing\<close>

text \<open>
  \<open>_persist\<close>: the consistency checks, then one immediate transaction. An earlier command with the
  same id answers (or refuses) and rolls back; otherwise job, event and command are written together
  or not at all.
\<close>

definition write_rows ::
  "env \<Rightarrow> int option \<Rightarrow> job \<Rightarrow> audit_event \<Rightarrow> command_record \<Rightarrow> atlas_db \<Rightarrow> atlas_error + atlas_db" where
  "write_rows E expected j e c db =
     rbind (case expected of None \<Rightarrow> insert_job E j db | Some r \<Rightarrow> update_job E r j db) (\<lambda>db1.
     rbind (insert_event e db1) (\<lambda>db2. insert_command E c j db2))"

definition store_persist ::
  "env \<Rightarrow> atlas_db \<Rightarrow> int option \<Rightarrow> job \<Rightarrow> audit_event \<Rightarrow> command_record
     \<Rightarrow> (atlas_error + job) \<times> atlas_db" where
  "store_persist E db expected j e c =
     (if event_job_id e \<noteq> job_id j \<or> command_job_id c \<noteq> job_id j
        then (Inl (Atlas_Storage_Error ''Atlas transaction identities disagree''), db)
      else if event_job_revision e \<noteq> revision j \<or> response_revision c \<noteq> revision j
        then (Inl (Atlas_Storage_Error ''Atlas transaction revisions disagree''), db)
      else case find_command_row db (command_id c) of
        Some existing \<Rightarrow>
          (command_response existing (command_operation c) (command_request_sha256 c), db)
      | None \<Rightarrow>
          (case write_rows E expected j e c db of
             Inl err \<Rightarrow> (Inl err, db)
           | Inr db' \<Rightarrow> (Inr j, db')))"

definition store_create ::
  "env \<Rightarrow> atlas_db \<Rightarrow> job \<Rightarrow> audit_event \<Rightarrow> command_record \<Rightarrow> (atlas_error + job) \<times> atlas_db" where
  "store_create E db j e c =
     (if revision j \<noteq> 0 \<or> event_sequence e \<noteq> 1 \<or> event_job_revision e \<noteq> 0
      then (Inl (Atlas_Storage_Error ''Atlas creation revision is invalid''), db)
      else store_persist E db None j e c)"

definition store_update ::
  "env \<Rightarrow> atlas_db \<Rightarrow> int \<Rightarrow> job \<Rightarrow> audit_event \<Rightarrow> command_record
     \<Rightarrow> (atlas_error + job) \<times> atlas_db" where
  "store_update E db expected j e c =
     (if revision j \<noteq> expected + 1
      then (Inl (Atlas_Storage_Error ''Atlas update revision is invalid''), db)
      else store_persist E db (Some expected) j e c)"

section \<open>The integrity check\<close>

definition job_history_error :: "atlas_db \<Rightarrow> job \<Rightarrow> atlas_error + unit" where
  "job_history_error db j =
     rbind (list_audit_events db (job_id j)) (\<lambda>events.
     guard_raise (events = [] \<or> int (length events) \<noteq> revision j + 1
         \<or> event_job_revision (last events) \<noteq> revision j)
       (Atlas_Storage_Error ''Atlas job and audit history revisions disagree''))"

text \<open>\<open>quick_ok\<close> is the answer of \<open>PRAGMA quick_check\<close>.\<close>

definition integrity_check :: "bool \<Rightarrow> atlas_db \<Rightarrow> atlas_error + unit" where
  "integrity_check quick_ok db =
     rbind (guard_raise (\<not> quick_ok)
       (Atlas_Storage_Error ''Atlas database failed integrity validation'')) (\<lambda>_.
     rbind (list_jobs db) (\<lambda>jobs.
     rbind (map_results (job_history_error db) jobs) (\<lambda>_.
     rbind (map_results (\<lambda>r. command_response r (cmd_operation r) (cmd_request_sha256 r))
       (sort_key cmd_id (db_commands db))) (\<lambda>_. Inr ()))))"

end
