(* ===== verification/AtlasInvariant.thy ===== *)
theory AtlasInvariant
  imports AtlasStorage
begin

text \<open>
  The invariant of the Atlas store and why every commit keeps it. \<open>db_wf\<close> says that keys are unique,
  every index agrees with its document, every stored job is valid and its audit history is a walk of
  the lifecycle graph with one event per revision. \<open>write_req\<close> is what a command hands to the store
  after it has read a job; \<open>commit_write\<close> is the store's answer, possibly much later. The lemmas
  show that a commit keeps \<open>db_wf\<close> as long as the request is \<open>based_on\<close> the store, that this holds
  across the commits of others, that the store only grows, and that the integrity check of the code
  accepts every well-formed store.
\<close>

section \<open>The invariant of the store\<close>

definition lifecycle_edge :: "job_status option \<Rightarrow> job_status \<Rightarrow> bool" where
  "lifecycle_edge before after =
     (case before of
        None \<Rightarrow> after = CREATED
      | Some s \<Rightarrow> after \<in> set (valid_transitions s) \<or> s = AWAITING_REVIEW \<and> after = AWAITING_REVIEW)"

text \<open>A history is a walk: consecutive revisions, each event starting where the last one ended.\<close>

fun lifecycle_walk :: "int \<Rightarrow> job_status option \<Rightarrow> audit_event list \<Rightarrow> bool" where
  "lifecycle_walk n before [] = True"
| "lifecycle_walk n before (e # es) =
     (event_job_revision e = n \<and> event_sequence e = n + 1 \<and> event_from_status e = before
      \<and> lifecycle_edge before (event_to_status e)
      \<and> lifecycle_walk (n + 1) (Some (event_to_status e)) es)"

definition final_status :: "job_status option \<Rightarrow> audit_event list \<Rightarrow> job_status option" where
  "final_status before es = (if es = [] then before else Some (event_to_status (last es)))"

definition job_event_rows :: "atlas_db \<Rightarrow> uuid \<Rightarrow> event_row list" where
  "job_event_rows db i = filter (\<lambda>r. ev_job_id r = i) (db_events db)"

definition job_history :: "atlas_db \<Rightarrow> uuid \<Rightarrow> audit_event list" where
  "job_history db i = map ev_record (job_event_rows db i)"

definition job_row_wf :: "atlas_db \<Rightarrow> job_row \<Rightarrow> bool" where
  "job_row_wf db r \<longleftrightarrow> job_from_row r = Inr (row_record r)
     \<and> lifecycle_walk 0 None (job_history db (row_job_id r))
     \<and> int (length (job_history db (row_job_id r))) = row_revision r + 1
     \<and> final_status None (job_history db (row_job_id r)) = Some (row_status r)"

definition command_row_wf :: "atlas_db \<Rightarrow> command_row \<Rightarrow> bool" where
  "command_row_wf db c \<longleftrightarrow>
     command_response c (cmd_operation c) (cmd_request_sha256 c) = Inr (cmd_response c)
     \<and> (\<exists>r \<in> set (db_jobs db). row_job_id r = cmd_job_id c \<and> cmd_response_revision c \<le> row_revision r)"

definition db_wf :: "atlas_db \<Rightarrow> bool" where
  "db_wf db \<longleftrightarrow> distinct (map row_job_id (db_jobs db)) \<and> distinct (map cmd_id (db_commands db))
     \<and> distinct (map ev_event_id (db_events db))
     \<and> (\<forall>r \<in> set (db_jobs db). job_row_wf db r)
     \<and> (\<forall>e \<in> set (db_events db). event_from_row e = Inr (ev_record e)
          \<and> ev_job_id e \<in> row_job_id ` set (db_jobs db))
     \<and> (\<forall>c \<in> set (db_commands db). command_row_wf db c)"

lemma db_wf_empty: "db_wf empty_db"
  by (simp add: db_wf_def empty_db_def)

lemma lifecycle_walk_append:
  "lifecycle_walk n before (es @ fs) \<longleftrightarrow>
     lifecycle_walk n before es \<and> lifecycle_walk (n + int (length es)) (final_status before es) fs"
  by (induction es arbitrary: n before) (auto simp: final_status_def algebra_simps)

lemma job_from_row_Inr [run_simps]:
  "job_from_row r = Inr j \<longleftrightarrow> j = row_record r \<and> job_valid j \<and> row_job_id r = job_id j
     \<and> row_status r = job_status j \<and> row_revision r = revision j \<and> row_updated_at r = updated_at j"
  by (auto simp: job_from_row_def decode_job_def rbind_Inr_iff split: if_splits)

lemma event_from_row_Inr [run_simps]:
  "event_from_row r = Inr e \<longleftrightarrow> e = ev_record r \<and> event_shape_error e = None
     \<and> ev_event_id r = event_id e \<and> ev_job_id r = event_job_id e \<and> ev_sequence r = event_sequence e
     \<and> ev_event_type r = event_type e \<and> ev_occurred_at r = event_occurred_at e"
  by (auto simp: event_from_row_def Let_def split: if_splits)

lemma command_response_Inr [run_simps]:
  "command_response c operation h = Inr j \<longleftrightarrow> cmd_operation c = operation \<and> cmd_request_sha256 c = h
     \<and> j = cmd_response c \<and> job_valid j \<and> job_id j = cmd_job_id c \<and> revision j = cmd_response_revision c"
  by (auto simp: command_response_def decode_job_def rbind_Inr_iff split: if_splits)

section \<open>Write requests and their commit\<close>

text \<open>
  What \<open>_persist\<close> of the service hands to the store: the job as it was read, the job as it becomes,
  the audit event and the command record.
\<close>

record write_req =
  wr_before :: "job option"
  wr_after :: job
  wr_event :: audit_event
  wr_command :: command_record

definition commit_write :: "env \<Rightarrow> atlas_db \<Rightarrow> write_req \<Rightarrow> (atlas_error + job) \<times> atlas_db" where
  "commit_write E db w =
     (case wr_before w of
        None \<Rightarrow> store_create E db (wr_after w) (wr_event w) (wr_command w)
      | Some b \<Rightarrow> store_update E db (revision b) (wr_after w) (wr_event w) (wr_command w))"

definition write_ok :: "env \<Rightarrow> write_req \<Rightarrow> bool" where
  "write_ok E w \<longleftrightarrow> job_valid (wr_after w) \<and> stored_job E (wr_after w) = wr_after w
     \<and> event_shape_error (wr_event w) = None
     \<and> event_job_id (wr_event w) = job_id (wr_after w)
     \<and> event_job_revision (wr_event w) = revision (wr_after w)
     \<and> event_to_status (wr_event w) = job_status (wr_after w)
     \<and> event_from_status (wr_event w) = map_option job_status (wr_before w)
     \<and> lifecycle_edge (map_option job_status (wr_before w)) (job_status (wr_after w))
     \<and> command_job_id (wr_command w) = job_id (wr_after w)
     \<and> response_revision (wr_command w) = revision (wr_after w)
     \<and> (case wr_before w of
          None \<Rightarrow> revision (wr_after w) = 0
        | Some b \<Rightarrow> job_id b = job_id (wr_after w) \<and> revision (wr_after w) = revision b + 1)"

text \<open>The job the request was computed from is the current one, unless its revision has moved on.\<close>

definition fits_db :: "atlas_db \<Rightarrow> write_req \<Rightarrow> bool" where
  "fits_db db w \<longleftrightarrow> (\<forall>b r. wr_before w = Some b \<longrightarrow> r \<in> set (db_jobs db) \<longrightarrow>
     row_job_id r = job_id b \<longrightarrow> row_revision r = revision b \<longrightarrow> row_record r = b)"

lemma event_shape_sequence: "event_shape_error e = None \<Longrightarrow> event_sequence e = event_job_revision e + 1"
  by (auto simp: event_shape_error_def split: if_splits)

text \<open>A commit leaves the store alone or writes all three rows.\<close>

lemma write_rows_Inr:
  "write_rows E expected j e c db = Inr db' \<longleftrightarrow>
     (\<exists>db1. (case expected of None \<Rightarrow> insert_job E j db | Some r \<Rightarrow> update_job E r j db) = Inr db1
       \<and> event_id e \<notin> set (map ev_event_id (db_events db1))
       \<and> (event_job_id e, event_sequence e) \<notin> set (map (\<lambda>r. (ev_job_id r, ev_sequence r)) (db_events db1))
       \<and> event_job_id e \<in> set (map row_job_id (db_jobs db1))
       \<and> command_id c \<notin> set (map cmd_id (db_commands db1))
       \<and> command_job_id c \<in> set (map row_job_id (db_jobs db1))
       \<and> db' = db1\<lparr>db_events := db_events db1 @ [event_row_of e],
                   db_commands := db_commands db1 @ [command_row_of E c j]\<rparr>)"
  by (auto simp: write_rows_def insert_event_def insert_command_def rbind_Inr_iff split: if_splits)

lemma store_persist_outcome:
  "(\<exists>r. store_persist E db x j e c = (r, db))
   \<or> (\<exists>db'. store_persist E db x j e c = (Inr j, db') \<and> write_rows E x j e c db = Inr db')"
  by (auto simp: store_persist_def split: option.splits sum.splits)

lemma commit_write_outcome:
  "(\<exists>r. commit_write E db w = (r, db))
   \<or> (\<exists>db'. commit_write E db w = (Inr (wr_after w), db')
        \<and> write_rows E (map_option revision (wr_before w)) (wr_after w) (wr_event w) (wr_command w) db
            = Inr db')"
proof (cases "wr_before w")
  case None
  then show ?thesis
    using store_persist_outcome [of E db None "wr_after w" "wr_event w" "wr_command w"]
    by (auto simp: commit_write_def store_create_def)
next
  case (Some b)
  then show ?thesis
    using store_persist_outcome [of E db "Some (revision b)" "wr_after w" "wr_event w" "wr_command w"]
    by (auto simp: commit_write_def store_update_def)
qed

lemma insert_job_Inr:
  "insert_job E j db = Inr db' \<longleftrightarrow> job_id j \<notin> row_job_id ` set (db_jobs db)
     \<and> db' = db\<lparr>db_jobs := db_jobs db @ [job_row_of E j]\<rparr>"
  by (auto simp: insert_job_def)

lemma length_filter_one:
  assumes "length (filter P xs) = Suc 0"
  obtains x where "x \<in> set xs" "P x" "\<And>y. y \<in> set xs \<Longrightarrow> P y \<Longrightarrow> y = x"
proof -
  obtain x where x: "filter P xs = [x]"
    using assms by (cases "filter P xs") auto
  have "y = x" if "y \<in> set xs" "P y" for y
  proof -
    have "y \<in> set (filter P xs)" using that by simp
    with x show ?thesis by simp
  qed
  moreover have "x \<in> set (filter P xs)" using x by simp
  ultimately show ?thesis using that by auto
qed

lemma update_job_Inr:
  assumes "update_job E n j db = Inr db'"
  obtains r where "r \<in> set (db_jobs db)" "row_job_id r = job_id j" "row_revision r = n"
    "db' = db\<lparr>db_jobs := update_where (\<lambda>r. row_job_id r = job_id j \<and> row_revision r = n)
                          (\<lambda>r. job_row_of E j) (db_jobs db)\<rparr>"
proof -
  define hit :: "job_row \<Rightarrow> bool"
    where "hit = (\<lambda>r. row_job_id r = job_id j \<and> row_revision r = n)"
  have one: "length (filter hit (db_jobs db)) = Suc 0"
    and db': "db' = db\<lparr>db_jobs := update_where hit (\<lambda>r. job_row_of E j) (db_jobs db)\<rparr>"
    using assms by (auto simp: update_job_def Let_def hit_def split: if_splits)
  from one obtain r where "r \<in> set (db_jobs db)" "hit r"
    by (rule length_filter_one)
  with db' show ?thesis by (intro that [of r]) (auto simp: hit_def)
qed

section \<open>A commit keeps the invariant\<close>

lemma job_row_of_simps [simp]:
  "row_job_id (job_row_of E j) = job_id j" "row_status (job_row_of E j) = job_status j"
  "row_revision (job_row_of E j) = revision j" "row_updated_at (job_row_of E j) = updated_at j"
  "row_record (job_row_of E j) = stored_job E j"
  by (simp_all add: job_row_of_def)

lemma event_row_of_simps [simp]:
  "ev_event_id (event_row_of e) = event_id e" "ev_job_id (event_row_of e) = event_job_id e"
  "ev_sequence (event_row_of e) = event_sequence e" "ev_event_type (event_row_of e) = event_type e"
  "ev_occurred_at (event_row_of e) = event_occurred_at e" "ev_record (event_row_of e) = e"
  by (simp_all add: event_row_of_def)

lemma command_row_of_simps [simp]:
  "cmd_id (command_row_of E c j) = command_id c"
  "cmd_operation (command_row_of E c j) = command_operation c"
  "cmd_request_sha256 (command_row_of E c j) = command_request_sha256 c"
  "cmd_job_id (command_row_of E c j) = command_job_id c"
  "cmd_response_revision (command_row_of E c j) = response_revision c"
  "cmd_response (command_row_of E c j) = stored_job E j"
  by (simp_all add: command_row_of_def)

lemma job_history_snoc:
  "job_history (db\<lparr>db_events := db_events db' @ [event_row_of e]\<rparr>) i
     = job_history db' i @ (if event_job_id e = i then [e] else [])"
  by (simp add: job_history_def job_event_rows_def)

lemma job_history_cong: "db_events db = db_events db' \<Longrightarrow> job_history db i = job_history db' i"
  by (simp add: job_history_def job_event_rows_def)

text \<open>The history of the written job grows by the written event and stays a walk.\<close>

lemma written_row_wf:
  assumes ok: "write_ok E w"
    and hist: "job_history db' (job_id (wr_after w)) = h @ [wr_event w]"
    and walk: "lifecycle_walk 0 None h" "int (length h) = revision (wr_after w)"
      "final_status None h = map_option job_status (wr_before w)"
  shows "job_row_wf db' (job_row_of E (wr_after w))"
  using assms
  by (auto simp: job_row_wf_def write_ok_def lifecycle_walk_append run_simps final_status_def
      dest: event_shape_sequence)

text \<open>What is left to show once the job table of a commit is known.\<close>

definition written_db :: "env \<Rightarrow> write_req \<Rightarrow> atlas_db \<Rightarrow> atlas_db" where
  "written_db E w db1 = db1\<lparr>db_events := db_events db1 @ [event_row_of (wr_event w)],
     db_commands := db_commands db1 @ [command_row_of E (wr_command w) (wr_after w)]\<rparr>"

lemma written_db_history:
  assumes "write_ok E w" "db_events db1 = db_events db"
  shows "job_history (written_db E w db1) i
     = job_history db i @ (if job_id (wr_after w) = i then [wr_event w] else [])"
  using assms by (auto simp: written_db_def job_history_def job_event_rows_def write_ok_def)

lemma written_command_wf:
  assumes "write_ok E w" "job_row_of E (wr_after w) \<in> set (db_jobs db1)"
  shows "command_row_wf (written_db E w db1) (command_row_of E (wr_command w) (wr_after w))"
  unfolding command_row_wf_def
  by (intro conjI bexI [of _ "job_row_of E (wr_after w)"])
     (use assms in \<open>auto simp: written_db_def write_ok_def run_simps\<close>)

lemma written_db_wf:
  assumes wf: "db_wf db" and ok: "write_ok E w"
    and tables: "db_events db1 = db_events db" "db_commands db1 = db_commands db"
    and jobs: "distinct (map row_job_id (db_jobs db1))"
      "row_job_id ` set (db_jobs db) \<subseteq> row_job_id ` set (db_jobs db1)"
      "job_row_of E (wr_after w) \<in> set (db_jobs db1)"
      "\<And>r. r \<in> set (db_jobs db1) \<Longrightarrow> job_row_wf (written_db E w db1) r"
    and commands: "\<And>c. c \<in> set (db_commands db) \<Longrightarrow> command_row_wf (written_db E w db1) c"
    and fresh: "event_id (wr_event w) \<notin> set (map ev_event_id (db_events db1))"
      "command_id (wr_command w) \<notin> set (map cmd_id (db_commands db1))"
  shows "db_wf (written_db E w db1)"
proof -
  have new_event: "event_from_row (event_row_of (wr_event w)) = Inr (wr_event w)"
    using ok by (simp add: write_ok_def run_simps)
  have new_id: "event_job_id (wr_event w) \<in> row_job_id ` set (db_jobs db1)"
    using ok jobs(3) by (force simp: write_ok_def)
  show ?thesis
    unfolding db_wf_def
  proof (intro conjI ballI)
    fix r assume "r \<in> set (db_events (written_db E w db1))"
    then consider "r = event_row_of (wr_event w)" | "r \<in> set (db_events db)"
      by (auto simp: written_db_def tables)
    then show "event_from_row r = Inr (ev_record r)"
      and "ev_job_id r \<in> row_job_id ` set (db_jobs (written_db E w db1))"
      using wf jobs(2) new_event new_id by (cases; auto simp: db_wf_def written_db_def)+
  next
    fix c assume "c \<in> set (db_commands (written_db E w db1))"
    then show "command_row_wf (written_db E w db1) c"
      using commands written_command_wf [OF ok jobs(3)] by (auto simp: written_db_def tables)
  qed (use wf jobs fresh tables in \<open>auto simp: db_wf_def written_db_def\<close>)
qed

lemma created_wf:
  assumes wf: "db_wf db" and ok: "write_ok E w" and new: "wr_before w = None"
    and wrote: "write_rows E None (wr_after w) (wr_event w) (wr_command w) db = Inr db'"
  shows "db_wf db'"
proof -
  define j where "j = wr_after w"
  define db1 where "db1 = db\<lparr>db_jobs := db_jobs db @ [job_row_of E j]\<rparr>"
  have id: "job_id j \<notin> row_job_id ` set (db_jobs db)" and db': "db' = written_db E w db1"
    and fresh: "event_id (wr_event w) \<notin> set (map ev_event_id (db_events db1))"
      "command_id (wr_command w) \<notin> set (map cmd_id (db_commands db1))"
    using wrote by (auto simp: write_rows_Inr insert_job_Inr j_def db1_def written_db_def)
  have tables: "db_events db1 = db_events db" "db_commands db1 = db_commands db"
    by (simp_all add: db1_def)
  note hist = written_db_history [OF ok tables(1)]
  have "ev_job_id r \<noteq> job_id j" if "r \<in> set (db_events db)" for r
    using wf that id unfolding db_wf_def by metis
  then have empty: "job_history db (job_id j) = []"
    by (simp add: job_history_def job_event_rows_def filter_empty_conv)
  have row: "job_row_wf (written_db E w db1) (job_row_of E j)"
    unfolding j_def
    by (rule written_row_wf [OF ok, where h = "[]"])
       (use hist empty new ok in \<open>auto simp: j_def final_status_def write_ok_def\<close>)
  have old: "job_row_wf (written_db E w db1) r" if "r \<in> set (db_jobs db)" for r
    using wf that id by (auto simp: db_wf_def job_row_wf_def hist j_def)
  show ?thesis
    unfolding db'
    by (rule written_db_wf [OF wf ok tables _ _ _ _ _ fresh])
       (use wf id row old in \<open>auto simp: db1_def db_wf_def j_def command_row_wf_def written_db_def\<close>)
qed

lemma updated_wf:
  assumes wf: "db_wf db" and ok: "write_ok E w" and fits: "fits_db db w" and old: "wr_before w = Some b"
    and wrote: "write_rows E (Some (revision b)) (wr_after w) (wr_event w) (wr_command w) db = Inr db'"
  shows "db_wf db'"
proof -
  define j where "j = wr_after w"
  define db1 where "db1 = db\<lparr>db_jobs := update_where
      (\<lambda>r. row_job_id r = job_id j \<and> row_revision r = revision b) (\<lambda>r. job_row_of E j) (db_jobs db)\<rparr>"
  obtain r0 where r0: "r0 \<in> set (db_jobs db)" "row_job_id r0 = job_id j" "row_revision r0 = revision b"
    and db': "db' = written_db E w db1"
    and fresh: "event_id (wr_event w) \<notin> set (map ev_event_id (db_events db1))"
      "command_id (wr_command w) \<notin> set (map cmd_id (db_commands db1))"
    using wrote by (auto simp: write_rows_Inr j_def db1_def written_db_def elim!: update_job_Inr)
  have b: "row_record r0 = b" "job_id b = job_id j" "revision j = revision b + 1"
    using fits r0 old ok by (auto simp: fits_db_def write_ok_def j_def)
  have tables: "db_events db1 = db_events db" "db_commands db1 = db_commands db"
    by (simp_all add: db1_def)
  note hist = written_db_history [OF ok tables(1)]
  have d: "distinct (map row_job_id (db_jobs db))" using wf by (simp add: db_wf_def)
  have rows: "r \<in> set (db_jobs db1) \<longleftrightarrow>
      r = job_row_of E j \<or> r \<in> set (db_jobs db) \<and> row_job_id r \<noteq> job_id j" for r
  proof -
    have "(row_job_id s = job_id j \<and> row_revision s = revision b) = (row_job_id s = job_id j)"
      if "s \<in> set (db_jobs db)" for s
      using distinct_map_eqD [OF d that r0(1)] r0 by auto
    then have "r \<in> set (db_jobs db1) \<longleftrightarrow>
        (\<exists>s \<in> set (db_jobs db). r = (if row_job_id s = job_id j then job_row_of E j else s))"
      by (simp add: db1_def set_update_where cong: bex_cong)
    with r0 show ?thesis by (auto split: if_splits)
  qed
  have ids: "map row_job_id (db_jobs db1) = map row_job_id (db_jobs db)"
    by (auto simp: db1_def intro: map_update_where)
  have r0wf: "job_row_wf db r0" using wf r0 by (simp add: db_wf_def)
  have "job_row_wf (written_db E w db1) (job_row_of E j)"
    unfolding j_def
    by (rule written_row_wf [OF ok, where h = "job_history db (job_id j)"])
       (use hist r0wf r0 b old in \<open>auto simp: j_def job_row_wf_def run_simps\<close>)
  moreover have "job_row_wf (written_db E w db1) r"
    if "r \<in> set (db_jobs db)" "row_job_id r \<noteq> job_id j" for r
    using wf that by (simp add: db_wf_def job_row_wf_def hist j_def)
  ultimately have jobs: "job_row_wf (written_db E w db1) r" if "r \<in> set (db_jobs db1)" for r
    using that by (auto simp: rows)
  have "\<exists>s' \<in> set (db_jobs db1). row_job_id s' = row_job_id s \<and> row_revision s \<le> row_revision s'"
    if "s \<in> set (db_jobs db)" for s
  proof (cases "row_job_id s = job_id j")
    case True
    then have "s = r0" using distinct_map_eqD [OF d that r0(1)] r0 by simp
    then show ?thesis
      using r0 b by (intro bexI [of _ "job_row_of E j"]) (auto simp: rows)
  next
    case False
    with that show ?thesis by (intro bexI [of _ s]) (auto simp: rows)
  qed
  then have commands: "command_row_wf (written_db E w db1) c" if "c \<in> set (db_commands db)" for c
    using wf that by (fastforce simp: db_wf_def command_row_wf_def written_db_def)
  have "row_job_id ` set (db_jobs db) = row_job_id ` set (db_jobs db1)"
    using ids by (metis image_set)
  then show ?thesis
    unfolding db'
    by (intro written_db_wf [OF wf ok tables _ _ _ jobs commands fresh])
       (use d ids rows in \<open>auto simp: j_def\<close>)
qed

lemma commit_write_wf:
  assumes "db_wf db" "write_ok E w" "fits_db db w"
  shows "db_wf (snd (commit_write E db w))"
  using commit_write_outcome [of E db w] created_wf [OF assms(1,2)] updated_wf [OF assms]
  by (cases "wr_before w") (use assms(1) in \<open>auto\<close>)

section \<open>The store only grows\<close>

text \<open>
  Events and commands are appended, never changed, and a job row changes only together with its
  revision.
\<close>

definition db_extends :: "atlas_db \<Rightarrow> atlas_db \<Rightarrow> bool" where
  "db_extends db db' \<longleftrightarrow> (\<exists>es. db_events db' = db_events db @ es)
     \<and> (\<exists>cs. db_commands db' = db_commands db @ cs)
     \<and> (\<forall>r \<in> set (db_jobs db). \<exists>r' \<in> set (db_jobs db'). row_job_id r' = row_job_id r
          \<and> (r' = r \<or> row_revision r < row_revision r'))"

lemma db_extends_refl [simp]: "db_extends db db"
  by (auto simp: db_extends_def)

lemma db_extends_trans:
  assumes "db_extends db1 db2" "db_extends db2 db3"
  shows "db_extends db1 db3"
proof -
  have "\<exists>r'' \<in> set (db_jobs db3). row_job_id r'' = row_job_id r
      \<and> (r'' = r \<or> row_revision r < row_revision r'')" if r: "r \<in> set (db_jobs db1)" for r
  proof -
    obtain r' where r': "r' \<in> set (db_jobs db2)" "row_job_id r' = row_job_id r"
        "r' = r \<or> row_revision r < row_revision r'"
      using assms(1) r unfolding db_extends_def by meson
    obtain r'' where "r'' \<in> set (db_jobs db3)" "row_job_id r'' = row_job_id r'"
        "r'' = r' \<or> row_revision r' < row_revision r''"
      using assms(2) r'(1) unfolding db_extends_def by meson
    with r' show ?thesis by (intro bexI [of _ r'']) auto
  qed
  with assms show ?thesis by (auto simp: db_extends_def)
qed

lemma commit_write_extends:
  assumes "write_ok E w"
  shows "db_extends db (snd (commit_write E db w))"
proof -
  define j where "j = wr_after w"
  consider "snd (commit_write E db w) = db"
    | db' where "snd (commit_write E db w) = db'"
        "write_rows E (map_option revision (wr_before w)) j (wr_event w) (wr_command w) db = Inr db'"
    using commit_write_outcome [of E db w] by (auto simp: j_def)
  then consider "snd (commit_write E db w) = db"
    | db1 where "(case map_option revision (wr_before w) of
            None \<Rightarrow> insert_job E j db | Some n \<Rightarrow> update_job E n j db) = Inr db1"
        "snd (commit_write E db w) = db1\<lparr>db_events := db_events db1 @ [event_row_of (wr_event w)],
            db_commands := db_commands db1 @ [command_row_of E (wr_command w) j]\<rparr>"
    by cases (auto simp: write_rows_Inr)
  then show ?thesis
  proof cases
    case 1
    then show ?thesis by simp
  next
    case 2
    show ?thesis
    proof (cases "wr_before w")
      case None
      with 2 show ?thesis by (auto simp: db_extends_def insert_job_Inr)
    next
      case (Some b)
      have rev: "revision b < revision j" using assms Some by (simp add: write_ok_def j_def)
      from 2(1) Some have "update_job E (revision b) j db = Inr db1" by simp
      then show ?thesis
      proof (rule update_job_Inr)
        fix r0 assume db1: "db1 = db\<lparr>db_jobs := update_where
            (\<lambda>r. row_job_id r = job_id j \<and> row_revision r = revision b) (\<lambda>r. job_row_of E j) (db_jobs db)\<rparr>"
        have "\<exists>r' \<in> set (db_jobs db1). row_job_id r' = row_job_id r
            \<and> (r' = r \<or> row_revision r < row_revision r')" if "r \<in> set (db_jobs db)" for r
        proof (intro bexI)
          let ?r' = "if row_job_id r = job_id j \<and> row_revision r = revision b then job_row_of E j else r"
          show "row_job_id ?r' = row_job_id r \<and> (?r' = r \<or> row_revision r < row_revision ?r')"
            using rev by simp
          show "?r' \<in> set (db_jobs db1)" using that by (auto simp: db1 set_update_where)
        qed
        with 2 show ?thesis by (simp add: db_extends_def db1)
      qed
    qed
  qed
qed

text \<open>
  The base of a pending request: its job is still there, and unchanged while its revision is. This
  holds when the request is planned and survives every commit of others, which is what makes the
  revision check of the \<open>UPDATE\<close> sufficient.
\<close>

definition based_on :: "atlas_db \<Rightarrow> write_req \<Rightarrow> bool" where
  "based_on db w \<longleftrightarrow> (\<forall>b. wr_before w = Some b \<longrightarrow>
     (\<exists>r \<in> set (db_jobs db). row_job_id r = job_id b
        \<and> (row_record r = b \<and> row_revision r = revision b \<or> revision b < row_revision r)))"

lemma based_on_extends: "based_on db w \<Longrightarrow> db_extends db db' \<Longrightarrow> based_on db' w"
  unfolding based_on_def db_extends_def by (metis order.strict_trans)

lemma based_on_fits:
  assumes "db_wf db" "based_on db w"
  shows "fits_db db w"
  unfolding fits_db_def
proof (intro allI impI)
  fix b r assume b: "wr_before w = Some b" and r: "r \<in> set (db_jobs db)"
    "row_job_id r = job_id b" "row_revision r = revision b"
  obtain s where s: "s \<in> set (db_jobs db)" "row_job_id s = job_id b"
      "row_record s = b \<and> row_revision s = revision b \<or> revision b < row_revision s"
    using assms(2) b by (auto simp: based_on_def)
  have "r = s" using assms(1) r s by (auto simp: db_wf_def dest: distinct_map_eqD)
  with r s show "row_record r = b" by auto
qed

section \<open>The integrity check accepts every well-formed store\<close>

lemma walk_sequences:
  "lifecycle_walk n before (map ev_record rs) \<Longrightarrow> (\<And>r. r \<in> set rs \<Longrightarrow> event_from_row r = Inr (ev_record r))
    \<Longrightarrow> sorted (map ev_sequence rs) \<and> (\<forall>r \<in> set rs. n < ev_sequence r)"
proof (induction rs arbitrary: n before)
  case (Cons r rs)
  have "ev_sequence r = n + 1" using Cons.prems by (simp add: run_simps)
  moreover have "sorted (map ev_sequence rs) \<and> (\<forall>r \<in> set rs. n + 1 < ev_sequence r)"
    using Cons.IH [of "n + 1" "Some (event_to_status (ev_record r))"] Cons.prems by simp
  ultimately show ?case by fastforce
qed simp

lemma walk_last_revision:
  "lifecycle_walk n before es \<Longrightarrow> es \<noteq> [] \<Longrightarrow> event_job_revision (last es) = n + int (length es) - 1"
  by (induction es arbitrary: n before) auto

lemma list_audit_events_wf:
  assumes "db_wf db" "r \<in> set (db_jobs db)"
  shows "list_audit_events db (row_job_id r) = Inr (job_history db (row_job_id r))"
proof -
  have ok: "event_from_row e = Inr (ev_record e)" if "e \<in> set (job_event_rows db (row_job_id r))" for e
    using assms that by (auto simp: db_wf_def job_event_rows_def)
  moreover have "lifecycle_walk 0 None (map ev_record (job_event_rows db (row_job_id r)))"
    using assms by (auto simp: db_wf_def job_row_wf_def job_history_def)
  ultimately have "sorted (map ev_sequence (job_event_rows db (row_job_id r)))"
    using walk_sequences by blast
  then show ?thesis
    using map_results_Inr [OF ok, of "job_event_rows db (row_job_id r)"]
    by (simp add: list_audit_events_def job_history_def job_event_rows_def sort_key_id_if_sorted)
qed

lemma list_jobs_wf:
  assumes "db_wf db"
  shows "list_jobs db = Inr (map row_record (sort_key row_updated_at (sort_key row_job_id (db_jobs db))))"
  unfolding list_jobs_def
  by (rule map_results_Inr) (use assms in \<open>auto simp: db_wf_def job_row_wf_def\<close>)

lemma job_history_error_wf:
  assumes "db_wf db" "r \<in> set (db_jobs db)"
  shows "job_history_error db (row_record r) = Inr ()"
proof -
  have id: "job_id (row_record r) = row_job_id r" "revision (row_record r) = row_revision r"
    and row: "job_row_wf db r"
    using assms by (auto simp: db_wf_def job_row_wf_def run_simps)
  then have "job_history db (row_job_id r) \<noteq> []" by (auto simp: job_row_wf_def final_status_def)
  with row id list_audit_events_wf [OF assms] walk_last_revision show ?thesis
    by (auto simp: job_history_error_def job_row_wf_def)
qed

lemma integrity_check_wf:
  assumes "db_wf db"
  shows "integrity_check True db = Inr ()"
proof -
  have "map_results (job_history_error db) js = Inr (map (\<lambda>_. ()) js)"
    if "set js \<subseteq> row_record ` set (db_jobs db)" for js
    by (rule map_results_Inr) (use job_history_error_wf [OF assms] that in auto)
  moreover have "map_results (\<lambda>r. command_response r (cmd_operation r) (cmd_request_sha256 r)) cs
      = Inr (map cmd_response cs)" if "set cs \<subseteq> set (db_commands db)" for cs
    by (rule map_results_Inr) (use assms that in \<open>auto simp: db_wf_def command_row_wf_def\<close>)
  ultimately show ?thesis
    by (simp add: integrity_check_def list_jobs_wf [OF assms])
qed

end
