(* ===== verification/AtlasService.thy ===== *)
theory AtlasService
  imports AtlasInvariant
begin

text \<open>
  The Atlas control plane (\<open>src/nexus/atlas/service.py\<close>). A command runs in two phases, as the code
  does: it reads the store and computes what to write (\<open>handle\<close>, the shape every handler of the code
  shares: \<open>_prepare\<close>, the handler's own checks and changes, \<open>_event\<close> and \<open>_command\<close>), and then the
  store commits it in one transaction (\<open>commit_write\<close>). Between the two phases other processes may
  commit. \<open>run_plan\<close> is the two phases with nothing in between.

  The handler bodies are one definition per method: \<open>validate_body\<close> for \<open>validate_job\<close>, and so on.
  A clock reading and the UUID that the id factory yields are arguments of the call.
\<close>

section \<open>Calls and plans\<close>

record command_call =
  call_command_id :: string
  call_job_id :: uuid
  call_expected_revision :: int
  call_actor :: actor_identity
  call_clock :: clock_value
  call_fresh :: uuid

datatype plan = Replay job | Write write_req

definition run_plan :: "env \<Rightarrow> atlas_db \<Rightarrow> atlas_error + plan \<Rightarrow> (atlas_error + job) \<times> atlas_db" where
  "run_plan E db p =
     (case p of
        Inl e \<Rightarrow> (Inl e, db)
      | Inr (Replay j) \<Rightarrow> (Inr j, db)
      | Inr (Write w) \<Rightarrow> commit_write E db w)"

section \<open>The private helpers of the service\<close>

definition service_now :: "clock_value \<Rightarrow> job option \<Rightarrow> atlas_error + timestamp" where
  "service_now clk j =
     (case clk of
        Naive _ \<Rightarrow> Inl (Atlas_Command_Error ''Atlas clock must return a timezone-aware datetime'')
      | Aware t \<Rightarrow>
          (case j of
             None \<Rightarrow> Inr t
           | Some job \<Rightarrow>
               if t < updated_at job
               then Inl (Atlas_Command_Error ''Atlas clock moved behind durable job state'')
               else Inr t))"

definition check_command_id :: "string \<Rightarrow> atlas_error + string" where
  "check_command_id v = (if valid_command_id v then Inr v else Inl (Validation_Error ''command_id''))"

definition request_json :: "string \<Rightarrow> actor_identity \<Rightarrow> (string \<times> json) list \<Rightarrow> json" where
  "request_json operation actor payload =
     obj [(''operation'', jstr operation), (''actor'', actor_json actor), (''payload'', obj payload)]"

definition request_hash :: "env \<Rightarrow> string \<Rightarrow> actor_identity \<Rightarrow> (string \<times> json) list \<Rightarrow> string" where
  "request_hash E operation actor payload =
     canonical_sha256 (env_sha256 E) (env_nfc E) (request_json operation actor payload)"

text \<open>\<open>_updated\<close>: the changed copy, validated as a whole.\<close>

definition service_updated :: "job \<Rightarrow> timestamp \<Rightarrow> (job \<Rightarrow> job) \<Rightarrow> atlas_error + job" where
  "service_updated j now changes =
     (let v = (changes j)\<lparr>updated_at := now, revision := revision j + 1\<rparr> in
      if job_valid v then Inr v else Inl (Validation_Error ''Job''))"

definition NAMESPACE_URL :: uuid where
  "NAMESPACE_URL = 0x6ba7b8119dad11d180b400c04fd430c8"

definition service_event ::
  "env \<Rightarrow> job option \<Rightarrow> job \<Rightarrow> audit_event_type \<Rightarrow> actor_identity \<Rightarrow> string \<Rightarrow> audit_data
     \<Rightarrow> atlas_error + audit_event" where
  "service_event E before after etype actor cid data =
     (let seq = revision after + 1;
          e = \<lparr>event_id = env_uuid5 E NAMESPACE_URL
                 (''nexus.atlas:'' @ uuid_str (job_id after) @ '':'' @ int_str seq @ '':'' @ cid),
               event_job_id = job_id after, event_sequence = seq, event_job_revision = revision after,
               event_type = etype, event_actor = actor, event_command_id = cid,
               event_occurred_at = updated_at after,
               event_from_status = map_option job_status before, event_to_status = job_status after,
               event_data = data\<rparr>
      in case event_shape_error e of None \<Rightarrow> Inr e | Some m \<Rightarrow> Inl (Validation_Error m))"

definition service_command :: "string \<Rightarrow> string \<Rightarrow> string \<Rightarrow> job \<Rightarrow> timestamp \<Rightarrow> command_record" where
  "service_command cid operation hash j created =
     \<lparr>command_id = cid, command_operation = operation, command_request_sha256 = hash,
      command_job_id = job_id j, response_revision = revision j, command_created_at = created\<rparr>"

definition service_spec :: "job \<Rightarrow> job_spec" where
  "service_spec j = \<lparr>spec_agent_id = job_agent_id j, spec_reviewer_agent_id = job_reviewer_agent_id j,
     spec_request = job_request j, spec_source = job_source j, spec_budget = job_budget j,
     spec_capabilities = sort (job_capabilities j)\<rparr>"

text \<open>
  \<open>_prepare\<close>: the request fingerprint, the stored response of an earlier identical command, and
  otherwise the current job at the expected revision.
\<close>

definition call_payload :: "command_call \<Rightarrow> (string \<times> json) list \<Rightarrow> (string \<times> json) list" where
  "call_payload call payload =
     [(''job_id'', jstr (uuid_str (call_job_id call))),
      (''expected_revision'', JInt (call_expected_revision call))] @ payload"

definition prepare ::
  "env \<Rightarrow> atlas_db \<Rightarrow> command_call \<Rightarrow> string \<Rightarrow> (string \<times> json) list
     \<Rightarrow> atlas_error + (string \<times> job option \<times> job)" where
  "prepare E db call operation payload =
     rbind (check_command_id (call_command_id call)) (\<lambda>cid.
     rbind (guard_raise (call_expected_revision call < 0)
       (Atlas_Command_Error ''Expected revision cannot be negative'')) (\<lambda>_.
     let hash = request_hash E operation (call_actor call) (call_payload call payload) in
     rbind (lookup_command db cid operation hash) (\<lambda>prior.
     case prior of
       Some p \<Rightarrow> Inr (hash, Some p, p)
     | None \<Rightarrow>
         rbind (get_job db (call_job_id call)) (\<lambda>j.
         rbind (guard_raise (revision j \<noteq> call_expected_revision call) Concurrency_Error) (\<lambda>_.
         Inr (hash, None, j))))))"

type_synonym body = "job \<Rightarrow> atlas_error + (job \<times> audit_event_type \<times> audit_data)"

definition handle ::
  "env \<Rightarrow> atlas_db \<Rightarrow> command_call \<Rightarrow> string \<Rightarrow> (string \<times> json) list \<Rightarrow> body \<Rightarrow> atlas_error + plan" where
  "handle E db call operation payload body =
     rbind (prepare E db call operation payload) (\<lambda>(hash, prior, j).
     case prior of
       Some p \<Rightarrow> Inr (Replay p)
     | None \<Rightarrow>
         rbind (body j) (\<lambda>(after, etype, data).
         rbind (service_event E (Some j) after etype (call_actor call) (call_command_id call) data) (\<lambda>e.
         Inr (Write \<lparr>wr_before = Some j, wr_after = after, wr_event = e,
               wr_command = service_command (call_command_id call) operation hash after
                              (updated_at after)\<rparr>))))"

section \<open>The handlers\<close>

definition transition_body ::
  "clock_value \<Rightarrow> job_status \<Rightarrow> audit_event_type \<Rightarrow> string \<Rightarrow> body" where
  "transition_body clk target etype reason j =
     rbind (require_transition (job_status j) target) (\<lambda>_.
     rbind (service_now clk (Some j)) (\<lambda>now.
     rbind (service_updated j now (\<lambda>v. v\<lparr>job_status := target\<rparr>)) (\<lambda>after.
     Inr (after, etype, Transition_Data (lit reason)))))"

definition validate_body :: "agent_registry \<Rightarrow> command_call \<Rightarrow> body" where
  "validate_body R call j =
     rbind (require_operator (call_actor call)) (\<lambda>_.
     rbind (validate_job_policy R (service_spec j)) (\<lambda>_.
     transition_body (call_clock call) VALIDATED JOB_VALIDATED
       ''Agent, reviewer, source, capabilities, and budget validated.'' j))"

definition queue_body :: "command_call \<Rightarrow> body" where
  "queue_body call j =
     rbind (require_operator (call_actor call)) (\<lambda>_.
     transition_body (call_clock call) QUEUED JOB_QUEUED ''Validated job explicitly queued.'' j)"

definition second :: int where
  "second = 1000000"

definition start_body :: "agent_registry \<Rightarrow> command_call \<Rightarrow> body" where
  "start_body R call j =
     rbind (require_assigned_agent R j (call_actor call)) (\<lambda>_.
     rbind (require_transition (job_status j) RUNNING) (\<lambda>_.
     rbind (service_now (call_clock call) (Some j)) (\<lambda>now.
     let lease = \<lparr>execution_id = call_fresh call, claimed_by = actor_id (call_actor call),
                  lease_started_at = now,
                  lease_expires_at = now + max_duration_seconds (job_budget j) * second\<rparr> in
     rbind (guard_raise (\<not> lease_ok lease) (Validation_Error ''ExecutionLease'')) (\<lambda>_.
     rbind (service_updated j now (\<lambda>v. v\<lparr>job_status := RUNNING, active_execution := Some lease,
         started_at := (case started_at j of None \<Rightarrow> Some now | Some t \<Rightarrow> Some t)\<rparr>)) (\<lambda>after.
     Inr (after, JOB_STARTED,
       Transition_Data (lit ''Assigned agent claimed a bounded execution lease.'')))))))"

definition submit_body :: "env \<Rightarrow> agent_registry \<Rightarrow> command_call \<Rightarrow> structured_result \<Rightarrow> body" where
  "submit_body E R call result j =
     rbind (require_assigned_agent R j (call_actor call)) (\<lambda>_.
     rbind (require_transition (job_status j) AWAITING_REVIEW) (\<lambda>_.
     case active_execution j of
       None \<Rightarrow> Inl (Atlas_Command_Error ''Running job has no active execution lease'')
     | Some lease \<Rightarrow>
         rbind (case result of
             Generic_Job_Result _ \<Rightarrow> Inr ()
           | Patch_Result r \<Rightarrow>
               rbind (guard_raise (PATCH_CREATE \<notin> set (job_capabilities j))
                 (Atlas_Policy_Error ''Patch result requires patch.create capability'')) (\<lambda>_.
               guard_raise (base_sha r \<noteq> commit_sha (job_source j))
                 (Atlas_Command_Error ''Patch result base SHA does not match the source revision''))) (\<lambda>_.
         rbind (service_now (call_clock call) (Some j)) (\<lambda>now.
         rbind (service_updated j now (\<lambda>v. v\<lparr>job_status := AWAITING_REVIEW,
             job_approval_state := Approval_Pending, job_result := Some result,
             active_execution := None, last_execution_id := Some (execution_id lease),
             review_requested_at := Some now\<rparr>)) (\<lambda>after.
         Inr (after, RESULT_RECORDED,
           Result_Data (canonical_sha256 (env_sha256 E) (env_nfc E) (result_json result))
             (execution_id lease)))))))"

definition review_body :: "agent_registry \<Rightarrow> command_call \<Rightarrow> review_result \<Rightarrow> body" where
  "review_body R call review j =
     rbind (require_reviewer R j (call_actor call)) (\<lambda>_.
     rbind (guard_raise (job_status j \<noteq> AWAITING_REVIEW)
       (Atlas_Command_Error ''Review can be recorded only while awaiting review'')) (\<lambda>_.
     rbind (guard_raise (job_review j \<noteq> None)
       (Atlas_Command_Error ''Atlas v1 permits one immutable review per job'')) (\<lambda>_.
     rbind (guard_raise (reviewer_of_review review \<noteq> actor_id (call_actor call))
       (Atlas_Policy_Error ''Review identity does not match the reviewer actor'')) (\<lambda>_.
     rbind (service_now (call_clock call) (Some j)) (\<lambda>now.
     rbind (guard_raise (review_created_at review > now
         \<or> (case review_requested_at j of None \<Rightarrow> False | Some t \<Rightarrow> review_created_at review < t))
       (Atlas_Command_Error ''Review timestamp is outside the review window'')) (\<lambda>_.
     rbind (service_updated j now (\<lambda>v. v\<lparr>job_review := Some review\<rparr>)) (\<lambda>after.
     Inr (after, REVIEW_RECORDED, Review_Data (review_id review) (review_verdict review)))))))))"

definition decide_body :: "command_call \<Rightarrow> approval_decision \<Rightarrow> ustr \<Rightarrow> body" where
  "decide_body call decision reason j =
     rbind (require_human (call_actor call)) (\<lambda>_.
     case job_review j of
       None \<Rightarrow> Inl (Atlas_Command_Error ''Human decision requires a recorded reviewer result'')
     | Some review \<Rightarrow>
         let target = (if decision = Decision_Approved then APPROVED else REJECTED) in
         rbind (guard_raise (decision = Decision_Approved \<and> review_verdict review \<noteq> Review_Passed)
           (Atlas_Command_Error ''Human approval requires a passed reviewer result'')) (\<lambda>_.
         rbind (require_transition (job_status j) target) (\<lambda>_.
         rbind (service_now (call_clock call) (Some j)) (\<lambda>now.
         let approval = \<lparr>approval_id = call_fresh call, approval_decision = decision,
                         decided_by = call_actor call, approval_reason = reason, decided_at = now\<rparr> in
         rbind (guard_raise (\<not> approval_ok approval) (Validation_Error ''ApprovalRecord'')) (\<lambda>_.
         rbind (service_updated j now (\<lambda>v. v\<lparr>job_status := target,
             job_approval_state :=
               (if decision = Decision_Approved then Approval_Approved else Approval_Rejected),
             job_approval := Some approval\<rparr>)) (\<lambda>after.
         Inr (after, if decision = Decision_Approved then JOB_APPROVED else JOB_REJECTED,
           Approval_Data (call_fresh call) decision)))))))"

definition complete_body :: "command_call \<Rightarrow> body" where
  "complete_body call j =
     rbind (require_system (call_actor call)) (\<lambda>_.
     rbind (service_now (call_clock call) (Some j)) (\<lambda>now.
     rbind (require_transition (job_status j) COMPLETED) (\<lambda>_.
     rbind (service_updated j now (\<lambda>v. v\<lparr>job_status := COMPLETED, terminal_at := Some now\<rparr>)) (\<lambda>after.
     Inr (after, JOB_COMPLETED,
       Transition_Data (lit ''Approved reviewed result marked complete.''))))))"

definition fail_body ::
  "agent_registry \<Rightarrow> command_call \<Rightarrow> failure_classification \<Rightarrow> ustr \<Rightarrow> bool \<Rightarrow> body" where
  "fail_body R call classification message retryable j =
     rbind (if actor_type (call_actor call) = Agent
            then require_assigned_agent R j (call_actor call)
            else require_system (call_actor call)) (\<lambda>_.
     rbind (require_transition (job_status j) FAILED) (\<lambda>_.
     rbind (service_now (call_clock call) (Some j)) (\<lambda>now.
     let last = (case active_execution j of
                   Some lease \<Rightarrow> Some (execution_id lease) | None \<Rightarrow> last_execution_id j);
         failure = \<lparr>failure_classification = classification, failure_message = message,
                    failure_retryable = retryable, failed_by = call_actor call\<rparr> in
     rbind (guard_raise (\<not> failure_ok failure) (Validation_Error ''JobFailure'')) (\<lambda>_.
     rbind (service_updated j now (\<lambda>v. v\<lparr>job_status := FAILED, job_failure := Some failure,
         active_execution := None, last_execution_id := last, terminal_at := Some now\<rparr>)) (\<lambda>after.
     Inr (after, JOB_FAILED, Failure_Data classification))))))"

definition recover_body :: "command_call \<Rightarrow> body" where
  "recover_body call j =
     rbind (require_system (call_actor call)) (\<lambda>_.
     rbind (require_transition (job_status j) QUEUED) (\<lambda>_.
     case active_execution j of
       None \<Rightarrow> Inl (Atlas_Command_Error ''Running job has no active execution lease'')
     | Some lease \<Rightarrow>
         rbind (service_now (call_clock call) (Some j)) (\<lambda>now.
         rbind (guard_raise (now < lease_expires_at lease)
           (Atlas_Command_Error ''Execution lease has not expired'')) (\<lambda>_.
         rbind (service_updated j now (\<lambda>v. v\<lparr>job_status := QUEUED, active_execution := None,
             last_execution_id := Some (execution_id lease)\<rparr>)) (\<lambda>after.
         Inr (after, JOB_RECOVERED, Recovery_Data (execution_id lease)))))))"

section \<open>The commands\<close>

text \<open>\<open>create_job\<close> has no earlier job; it checks the operator before it looks the command up.\<close>

definition new_job :: "command_call \<Rightarrow> job_spec \<Rightarrow> timestamp \<Rightarrow> job" where
  "new_job call spec now =
     \<lparr>job_id = call_fresh call, create_idempotency_key = call_command_id call,
      job_agent_id = spec_agent_id spec, job_reviewer_agent_id = spec_reviewer_agent_id spec,
      job_request = spec_request spec, job_source = spec_source spec, job_budget = spec_budget spec,
      job_capabilities = spec_capabilities spec, job_status = CREATED,
      job_approval_state = Approval_Not_Requested, job_result = None, job_review = None,
      job_approval = None, job_failure = None, active_execution = None, last_execution_id = None,
      created_at = now, updated_at = now, started_at = None, review_requested_at = None,
      terminal_at = None, revision = 0\<rparr>"

definition create_plan :: "env \<Rightarrow> atlas_db \<Rightarrow> command_call \<Rightarrow> job_spec \<Rightarrow> atlas_error + plan" where
  "create_plan E db call spec =
     rbind (check_command_id (call_command_id call)) (\<lambda>cid.
     rbind (require_operator (call_actor call)) (\<lambda>_.
     let operation = ''job.create'';
         hash = request_hash E operation (call_actor call) [(''spec'', spec_json spec)] in
     rbind (lookup_command db cid operation hash) (\<lambda>prior.
     case prior of
       Some p \<Rightarrow> Inr (Replay p)
     | None \<Rightarrow>
         rbind (service_now (call_clock call) None) (\<lambda>now.
         let j = new_job call spec now in
         rbind (guard_raise (\<not> job_valid j) (Validation_Error ''Job'')) (\<lambda>_.
         rbind (service_event E None j JOB_CREATED (call_actor call) cid
           (Created_Data (canonical_sha256 (env_sha256 E) (env_nfc E) (spec_json spec)) cid)) (\<lambda>e.
         Inr (Write \<lparr>wr_before = None, wr_after = j, wr_event = e,
               wr_command = service_command cid operation hash j now\<rparr>)))))))"

datatype atlas_command =
    Create_Job job_spec
  | Validate_Job
  | Queue_Job
  | Start_Job
  | Submit_Result structured_result
  | Record_Review review_result
  | Approve_Job ustr
  | Reject_Job ustr
  | Complete_Job
  | Fail_Job failure_classification ustr bool
  | Recover_Expired_Job

fun plan_command ::
  "env \<Rightarrow> agent_registry \<Rightarrow> atlas_db \<Rightarrow> command_call \<Rightarrow> atlas_command \<Rightarrow> atlas_error + plan" where
  "plan_command E R db call (Create_Job spec) = create_plan E db call spec"
| "plan_command E R db call Validate_Job = handle E db call ''job.validate'' [] (validate_body R call)"
| "plan_command E R db call Queue_Job = handle E db call ''job.queue'' [] (queue_body call)"
| "plan_command E R db call Start_Job = handle E db call ''job.start'' [] (start_body R call)"
| "plan_command E R db call (Submit_Result result) =
     handle E db call ''job.submit_result'' [(''result'', result_json result)]
       (submit_body E R call result)"
| "plan_command E R db call (Record_Review review) =
     handle E db call ''job.record_review'' [(''review'', review_json E review)]
       (review_body R call review)"
| "plan_command E R db call (Approve_Job reason) =
     handle E db call ''job.approved'' [(''reason'', JStr reason)]
       (decide_body call Decision_Approved reason)"
| "plan_command E R db call (Reject_Job reason) =
     handle E db call ''job.rejected'' [(''reason'', JStr reason)]
       (decide_body call Decision_Rejected reason)"
| "plan_command E R db call Complete_Job = handle E db call ''job.complete'' [] (complete_body call)"
| "plan_command E R db call (Fail_Job classification message retryable) =
     handle E db call ''job.fail''
       [(''classification'', jstr (failure_classification_value classification)),
        (''message'', JStr message), (''retryable'', JBool retryable)]
       (fail_body R call classification message retryable)"
| "plan_command E R db call Recover_Expired_Job =
     handle E db call ''job.recover_expired'' [] (recover_body call)"

definition run_command ::
  "env \<Rightarrow> agent_registry \<Rightarrow> atlas_db \<Rightarrow> command_call \<Rightarrow> atlas_command
     \<Rightarrow> (atlas_error + job) \<times> atlas_db" where
  "run_command E R db call cmd = run_plan E db (plan_command E R db call cmd)"

end
