(* ===== verification/AtlasCommands.thy ===== *)
theory AtlasCommands
  imports AtlasService
begin

text \<open>
  What every Atlas command guarantees. \<open>good_step\<close> is the contract a handler of
  \<open>src/nexus/atlas/service.py\<close> owes to the store and to the governance rules (\<open>governed\<close>); the locale
  \<open>job_command\<close> turns a body that meets it into a write request the store's invariant accepts, and each
  of the ten handler bodies is an interpretation of it. \<open>create_job\<close>, which has no earlier job, and the
  dispatch over all commands follow.
\<close>

section \<open>What every handler guarantees\<close>

definition job_frame :: "job \<Rightarrow> job \<Rightarrow> bool" where
  "job_frame j a \<longleftrightarrow> job_id a = job_id j \<and> create_idempotency_key a = create_idempotency_key j
     \<and> job_agent_id a = job_agent_id j \<and> job_reviewer_agent_id a = job_reviewer_agent_id j
     \<and> job_request a = job_request j \<and> job_source a = job_source j \<and> job_budget a = job_budget j
     \<and> job_capabilities a = job_capabilities j \<and> created_at a = created_at j"

text \<open>
  The governance rules that no single validator states: whose review counts, what an approval rests
  on, which patch a result may carry, and how long a lease lasts.
\<close>

definition human_approved :: "job \<Rightarrow> bool" where
  "human_approved j \<longleftrightarrow> (\<exists>rv ap. job_review j = Some rv \<and> review_verdict rv = Review_Passed
     \<and> job_approval j = Some ap \<and> approval_decision ap = Decision_Approved
     \<and> actor_type (decided_by ap) = Human)"

definition policy_allows :: "agent_registry \<Rightarrow> job \<Rightarrow> bool" where
  "policy_allows R j \<longleftrightarrow> validate_job_policy R (service_spec j) = Inr ()"

definition governed :: "agent_registry \<Rightarrow> job \<Rightarrow> bool" where
  "governed R j \<longleftrightarrow>
     (job_status j \<noteq> CREATED \<and> job_status j \<noteq> FAILED \<longrightarrow> policy_allows R j) \<and>
     (\<forall>rv. job_review j = Some rv \<longrightarrow> reviewer_of_review rv = job_reviewer_agent_id j)
     \<and> (job_status j = APPROVED \<or> job_status j = COMPLETED \<longrightarrow> human_approved j)
     \<and> (\<forall>r. job_result j = Some (Patch_Result r) \<longrightarrow>
          PATCH_CREATE \<in> set (job_capabilities j) \<and> base_sha r = commit_sha (job_source j))
     \<and> (\<forall>l. active_execution j = Some l \<longrightarrow> claimed_by l = job_agent_id j
          \<and> lease_expires_at l = lease_started_at l + max_duration_seconds (job_budget j) * second)"

definition nfc_fixed :: "env \<Rightarrow> job \<Rightarrow> bool" where
  "nfc_fixed E j \<longleftrightarrow> stored_job E j = j"

definition good_step :: "env \<Rightarrow> agent_registry \<Rightarrow> job \<Rightarrow> job \<Rightarrow> audit_event_type \<Rightarrow> audit_data \<Rightarrow> bool" where
  "good_step E R j a etype data \<longleftrightarrow> job_frame j a \<and> revision a = revision j + 1 \<and> job_valid a
     \<and> nfc_fixed E a \<and> updated_at j \<le> updated_at a
     \<and> lifecycle_edge (Some (job_status j)) (job_status a)
     \<and> audit_kind data = expected_kind etype \<and> etype \<noteq> JOB_CREATED
     \<and> (if etype = REVIEW_RECORDED then job_status j = AWAITING_REVIEW \<and> job_status a = AWAITING_REVIEW
        else job_status j \<noteq> job_status a)
     \<and> (governed R j \<longrightarrow> governed R a)"

text \<open>The interface between a handler body and the shape all handlers share.\<close>

locale job_command =
  fixes E :: env and R :: agent_registry and body :: body and texts_fixed :: bool
  assumes step: "body j = Inr (a, etype, data) \<Longrightarrow> texts_fixed \<Longrightarrow> nfc_fixed E j
      \<Longrightarrow> good_step E R j a etype data"
begin

lemma event_exists:
  assumes "good_step E R j a etype data"
  shows "\<exists>e. service_event E (Some j) a etype actor cid data = Inr e
     \<and> event_shape_error e = None \<and> event_job_id e = job_id a \<and> event_job_revision e = revision a
     \<and> event_to_status e = job_status a \<and> event_from_status e = Some (job_status j)"
  using assms
  by (auto simp: good_step_def service_event_def event_shape_error_def Let_def split: if_splits)

text \<open>A handler's write is accepted by the store's invariant and is based on what it read.\<close>

lemma handle_write:
  assumes "handle E db call operation payload body = Inr (Write w)" and texts_fixed
    and wf: "db_wf db" and fixed: "\<forall>r \<in> set (db_jobs db). nfc_fixed E (row_record r)"
  obtains j etype data where "wr_before w = Some j" "good_step E R j (wr_after w) etype data"
    "write_ok E w" "based_on db w" "\<exists>r \<in> set (db_jobs db). row_record r = j"
    "command_id (wr_command w) = call_command_id call"
proof -
  obtain hash j after etype data where p: "prepare E db call operation payload = Inr (hash, None, j)"
    and b: "body j = Inr (after, etype, data)"
    and e: "service_event E (Some j) after etype (call_actor call) (call_command_id call) data
              = Inr (wr_event w)"
    and w: "wr_before w = Some j" "wr_after w = after"
      "wr_command w = service_command (call_command_id call) operation hash after (updated_at after)"
    using assms(1) by (auto simp: handle_def rbind_Inr_iff split: option.splits)
  obtain r where r: "r \<in> set (db_jobs db)" "row_job_id r = call_job_id call" "row_record r = j"
      "row_revision r = revision j" "row_job_id r = job_id j"
    using p by (auto simp: prepare_def rbind_Inr_iff get_job_def find_job_row_def run_simps Let_def
        dest!: find_Some_mem split: option.splits)
  have good: "good_step E R j after etype data"
    using step [OF b] assms(2) fixed r by auto
  have ev: "event_shape_error (wr_event w) = None" "event_job_id (wr_event w) = job_id after"
      "event_job_revision (wr_event w) = revision after" "event_to_status (wr_event w) = job_status after"
      "event_from_status (wr_event w) = Some (job_status j)"
    using event_exists [OF good, of "call_actor call" "call_command_id call"] e by auto
  have ok: "write_ok E w"
    using good ev w
    by (auto simp: write_ok_def good_step_def job_frame_def nfc_fixed_def service_command_def)
  have based: "based_on db w"
    using w r by (auto simp: based_on_def intro!: bexI [of _ r])
  show ?thesis
  proof (rule that [OF w(1) _ ok based])
    show "good_step E R j (wr_after w) etype data" using good w by simp
    show "\<exists>r \<in> set (db_jobs db). row_record r = j" using r by auto
    show "command_id (wr_command w) = call_command_id call" using w by (simp add: service_command_def)
  qed
qed

end

section \<open>The handlers meet the interface\<close>

lemma nfc_fixed_iff:
  "nfc_fixed E j \<longleftrightarrow> task_nfc (env_nfc E) (job_request j) = job_request j
     \<and> source_nfc (env_nfc E) (job_source j) = job_source j
     \<and> map_option (result_nfc (env_nfc E)) (job_result j) = job_result j
     \<and> map_option (review_nfc (env_nfc E)) (job_review j) = job_review j
     \<and> map_option (\<lambda>a. a\<lparr>approval_reason := env_nfc E (approval_reason a)\<rparr>) (job_approval j) = job_approval j
     \<and> map_option (\<lambda>x. x\<lparr>failure_message := env_nfc E (failure_message x)\<rparr>) (job_failure j) = job_failure j"
  by (cases j) (simp add: nfc_fixed_def stored_job_def job_nfc_def)

lemma service_now_Inr [run_simps]:
  "service_now clk x = Inr t \<longleftrightarrow> clk = Aware t \<and> (case x of None \<Rightarrow> True | Some j \<Rightarrow> updated_at j \<le> t)"
  by (auto simp: service_now_def split: clock_value.splits option.splits)

lemma service_updated_Inr:
  "service_updated j now changes = Inr a \<longleftrightarrow>
     a = (changes j)\<lparr>updated_at := now, revision := revision j + 1\<rparr> \<and> job_valid a"
  by (auto simp: service_updated_def Let_def)

lemma policy_allows_update [simp]:
  "policy_allows R (job_status_update f j) = policy_allows R j"
  "policy_allows R (job_approval_state_update g j) = policy_allows R j"
  "policy_allows R (job_result_update h1 j) = policy_allows R j"
  "policy_allows R (job_review_update h2 j) = policy_allows R j"
  "policy_allows R (job_approval_update h3 j) = policy_allows R j"
  "policy_allows R (job_failure_update h4 j) = policy_allows R j"
  "policy_allows R (active_execution_update h5 j) = policy_allows R j"
  "policy_allows R (last_execution_id_update h6 j) = policy_allows R j"
  "policy_allows R (updated_at_update h7 j) = policy_allows R j"
  "policy_allows R (started_at_update h8 j) = policy_allows R j"
  "policy_allows R (review_requested_at_update h8 j) = policy_allows R j"
  "policy_allows R (terminal_at_update h8 j) = policy_allows R j"
  "policy_allows R (revision_update h7 j) = policy_allows R j"
  by (simp_all add: policy_allows_def service_spec_def)

lemmas step_defs = good_step_def job_frame_def nfc_fixed_iff governed_def human_approved_def
  lifecycle_edge_def

lemma transition_sources [simp]:
  "VALIDATED \<in> set (valid_transitions s) \<longleftrightarrow> s = CREATED"
  "QUEUED \<in> set (valid_transitions s) \<longleftrightarrow> s = VALIDATED \<or> s = RUNNING"
  "RUNNING \<in> set (valid_transitions s) \<longleftrightarrow> s = QUEUED"
  "AWAITING_REVIEW \<in> set (valid_transitions s) \<longleftrightarrow> s = RUNNING"
  "APPROVED \<in> set (valid_transitions s) \<longleftrightarrow> s = AWAITING_REVIEW"
  "REJECTED \<in> set (valid_transitions s) \<longleftrightarrow> s = AWAITING_REVIEW"
  "COMPLETED \<in> set (valid_transitions s) \<longleftrightarrow> s = APPROVED"
  "FAILED \<in> set (valid_transitions s) \<longleftrightarrow> s \<noteq> COMPLETED \<and> s \<noteq> FAILED"
  "CREATED \<notin> set (valid_transitions s)"
  by (cases s; simp)+

lemma governed_update [simp]:
  "governed R (updated_at_update f j) = governed R j" "governed R (revision_update f j) = governed R j"
  by (simp_all add: governed_def human_approved_def)

lemma nfc_fixed_update [simp]:
  "nfc_fixed E (updated_at_update f j) = nfc_fixed E j" "nfc_fixed E (revision_update f j) = nfc_fixed E j"
  by (simp_all add: nfc_fixed_iff)

text \<open>What is left to show of a handler once \<open>_updated\<close> has accepted the changed job.\<close>

lemma updated_good_step:
  assumes "service_updated j now changes = Inr a" and "updated_at j \<le> now"
    and "job_frame j (changes j)" and "nfc_fixed E (changes j)"
    and "lifecycle_edge (Some (job_status j)) (job_status (changes j))"
    and "audit_kind data = expected_kind etype" "etype \<noteq> JOB_CREATED"
    and "if etype = REVIEW_RECORDED then job_status j = AWAITING_REVIEW \<and> job_status (changes j) = AWAITING_REVIEW
         else job_status j \<noteq> job_status (changes j)"
    and "governed R j \<Longrightarrow> governed R (changes j)"
  shows "good_step E R j a etype data"
  using assms by (auto simp: good_step_def service_updated_Inr job_frame_def)

lemma governed_status_change:
  assumes "governed R j" "policy_allows R j \<or> s = FAILED" "s \<noteq> APPROVED" "s \<noteq> COMPLETED"
  shows "governed R (j\<lparr>job_status := s\<rparr>)"
  using assms by (auto simp: governed_def)

lemma governed_policy:
  "governed R j \<Longrightarrow> job_status j \<noteq> CREATED \<Longrightarrow> job_status j \<noteq> FAILED \<Longrightarrow> policy_allows R j"
  by (simp add: governed_def)

lemma transition_step:
  assumes "transition_body clk target etype reason j = Inr (a, et, data)" "nfc_fixed E j"
    and "target = VALIDATED \<and> etype = JOB_VALIDATED \<and> policy_allows R j
         \<or> target = QUEUED \<and> etype = JOB_QUEUED"
  shows "good_step E R j a et data"
proof -
  obtain now where now: "updated_at j \<le> now" "target \<in> set (valid_transitions (job_status j))"
      "service_updated j now (\<lambda>v. v\<lparr>job_status := target\<rparr>) = Inr a"
      "et = etype" "data = Transition_Data (lit reason)"
    using assms(1) by (auto simp: transition_body_def rbind_Inr_iff run_simps simp del: transition_sources)
  have "job_status j \<noteq> target" using now(2) no_self_transition by metis
  moreover have "policy_allows R j" if "governed R j"
    using assms(3) now(2) governed_policy [OF that] by auto
  ultimately show ?thesis
    using now assms(2,3)
    by (intro updated_good_step [OF now(3)])
       (auto simp: job_frame_def nfc_fixed_iff lifecycle_edge_def intro!: governed_status_change)
qed


lemma policy_from_check:
  assumes "validate_job_policy R (service_spec j) = Inr x"
  shows "policy_allows R j"
  using assms by (simp add: policy_allows_def)

interpretation validate: job_command E R "validate_body R call" True for E R call
proof (unfold_locales)
  fix j a etype data assume b: "validate_body R call j = Inr (a, etype, data)" and n: "nfc_fixed E j"
  from b have "transition_body (call_clock call) VALIDATED JOB_VALIDATED
       ''Agent, reviewer, source, capabilities, and budget validated.'' j = Inr (a, etype, data)"
    and "policy_allows R j"
    by (auto simp: validate_body_def rbind_Inr_iff policy_allows_def)
  with transition_step n show "good_step E R j a etype data" by blast
qed

interpretation queue: job_command E R "queue_body call" True for E R call
proof (unfold_locales)
  fix j a etype data assume b: "queue_body call j = Inr (a, etype, data)" and n: "nfc_fixed E j"
  from b have "transition_body (call_clock call) QUEUED JOB_QUEUED
       ''Validated job explicitly queued.'' j = Inr (a, etype, data)"
    by (auto simp: queue_body_def rbind_Inr_iff)
  with transition_step n show "good_step E R j a etype data" by blast
qed

lemma start_body_Inr:
  "start_body R call j = Inr (a, etype, data) \<longleftrightarrow>
     (\<exists>now. require_assigned_agent R j (call_actor call) = Inr () \<and> job_status j = QUEUED
       \<and> service_now (call_clock call) (Some j) = Inr now
       \<and> (let lease = \<lparr>execution_id = call_fresh call, claimed_by = actor_id (call_actor call),
               lease_started_at = now, lease_expires_at = now + max_duration_seconds (job_budget j) * second\<rparr>
          in lease_ok lease \<and> service_updated j now (\<lambda>v. v\<lparr>job_status := RUNNING,
               active_execution := Some lease,
               started_at := (case started_at j of None \<Rightarrow> Some now | Some t \<Rightarrow> Some t)\<rparr>) = Inr a)
       \<and> etype = JOB_STARTED
       \<and> data = Transition_Data (lit ''Assigned agent claimed a bounded execution lease.''))"
  by (auto simp: start_body_def rbind_Inr_iff Let_def run_simps)


text \<open>One step of a body that ends in \<open>_updated\<close>: the five obligations, solved one at a time.\<close>

interpretation start: job_command E R "start_body R call" True for E R call
proof (unfold_locales)
  fix j a etype data assume b: "start_body R call j = Inr (a, etype, data)" and n: "nfc_fixed E j"
  from b obtain now lease where *: "actor_id (call_actor call) = job_agent_id j" "job_status j = QUEUED"
      "updated_at j \<le> now" "claimed_by lease = actor_id (call_actor call)"
      "lease_expires_at lease = lease_started_at lease + max_duration_seconds (job_budget j) * second"
      "etype = JOB_STARTED" "audit_kind data = ''transition''"
    and upd: "service_updated j now (\<lambda>v. v\<lparr>job_status := RUNNING, active_execution := Some lease,
               started_at := (case started_at j of None \<Rightarrow> Some now | Some t \<Rightarrow> Some t)\<rparr>) = Inr a"
    by (force simp: start_body_Inr Let_def service_now_Inr dest: require_assigned_agent_Inr)
  show "good_step E R j a etype data"
  proof (rule updated_good_step [OF upd])
    assume "governed R j"
    with * show "governed R (j\<lparr>job_status := RUNNING, active_execution := Some lease,
               started_at := (case started_at j of None \<Rightarrow> Some now | Some t \<Rightarrow> Some t)\<rparr>)"
      by (simp add: governed_def)
  qed (use * n in \<open>simp_all add: job_frame_def nfc_fixed_iff lifecycle_edge_def\<close>)
qed

interpretation submit: job_command E R "submit_body E R call result"
    "result_nfc (env_nfc E) result = result" for E R call result
proof (unfold_locales)
  fix j a etype data assume b: "submit_body E R call result j = Inr (a, etype, data)"
    and fixed: "result_nfc (env_nfc E) result = result" and n: "nfc_fixed E j"
  from b obtain now where *: "job_status j = RUNNING" "updated_at j \<le> now"
      "\<forall>r. result = Patch_Result r \<longrightarrow> PATCH_CREATE \<in> set (job_capabilities j)
         \<and> base_sha r = commit_sha (job_source j)"
      "etype = RESULT_RECORDED" "audit_kind data = ''result''"
    and upd: "service_updated j now (\<lambda>v. v\<lparr>job_status := AWAITING_REVIEW,
             job_approval_state := Approval_Pending, job_result := Some result,
             active_execution := None, last_execution_id := Some (execution_id (the (active_execution j))),
             review_requested_at := Some now\<rparr>) = Inr a"
    by (auto simp: submit_body_def rbind_Inr_iff run_simps
        split: option.splits structured_result.splits)
  show "good_step E R j a etype data"
  proof (rule updated_good_step [OF upd])
    assume "governed R j"
    with * show "governed R (j\<lparr>job_status := AWAITING_REVIEW,
             job_approval_state := Approval_Pending, job_result := Some result,
             active_execution := None, last_execution_id := Some (execution_id (the (active_execution j))),
             review_requested_at := Some now\<rparr>)"
      by (simp add: governed_def)
  qed (use * n fixed in \<open>simp_all add: job_frame_def nfc_fixed_iff lifecycle_edge_def\<close>)
qed

interpretation review: job_command E R "review_body R call rv" "review_nfc (env_nfc E) rv = rv"
  for E R call rv
proof (unfold_locales)
  fix j a etype data assume b: "review_body R call rv j = Inr (a, etype, data)"
    and fixed: "review_nfc (env_nfc E) rv = rv" and n: "nfc_fixed E j"
  from b obtain now where *: "job_status j = AWAITING_REVIEW" "updated_at j \<le> now"
      "reviewer_of_review rv = job_reviewer_agent_id j"
      "etype = REVIEW_RECORDED" "audit_kind data = ''review''"
    and upd: "service_updated j now (\<lambda>v. v\<lparr>job_review := Some rv\<rparr>) = Inr a"
    by (auto simp: review_body_def rbind_Inr_iff run_simps dest!: require_reviewer_Inr)
  show "good_step E R j a etype data"
  proof (rule updated_good_step [OF upd])
    assume "governed R j"
    with * show "governed R (j\<lparr>job_review := Some rv\<rparr>)"
      by (simp add: governed_def)
  qed (use * n fixed in \<open>simp_all add: job_frame_def nfc_fixed_iff lifecycle_edge_def\<close>)
qed

interpretation decide: job_command E R "decide_body call decision reason" "env_nfc E reason = reason"
  for E R call decision reason
proof (unfold_locales)
  fix j a etype data assume b: "decide_body call decision reason j = Inr (a, etype, data)"
    and fixed: "env_nfc E reason = reason" and n: "nfc_fixed E j"
  define target where "target = (if decision = Decision_Approved then APPROVED else REJECTED)"
  define state where "state = (if decision = Decision_Approved then Approval_Approved else Approval_Rejected)"
  define record_at where "record_at now = \<lparr>approval_id = call_fresh call, approval_decision = decision,
      decided_by = call_actor call, approval_reason = reason, decided_at = now\<rparr>" for now
  from b obtain now rv where *: "job_status j = AWAITING_REVIEW" "updated_at j \<le> now"
      "job_review j = Some rv" "decision = Decision_Approved \<longrightarrow> review_verdict rv = Review_Passed"
      "actor_type (call_actor call) = Human"
      "etype = (if decision = Decision_Approved then JOB_APPROVED else JOB_REJECTED)"
      "audit_kind data = ''approval''"
    and upd: "service_updated j now (\<lambda>v. v\<lparr>job_status := target, job_approval_state := state,
             job_approval := Some (record_at now)\<rparr>) = Inr a"
    unfolding target_def state_def record_at_def
    by (auto simp: decide_body_def rbind_Inr_iff run_simps Let_def split: option.splits if_splits)
  show "good_step E R j a etype data"
  proof (rule updated_good_step [OF upd])
    assume "governed R j"
    with * show "governed R (j\<lparr>job_status := target, job_approval_state := state,
             job_approval := Some (record_at now)\<rparr>)"
      by (auto simp: governed_def human_approved_def target_def record_at_def)
  qed (use * n fixed in \<open>simp_all add: job_frame_def nfc_fixed_iff lifecycle_edge_def target_def record_at_def\<close>)
qed

interpretation complete: job_command E R "complete_body call" True for E R call
proof (unfold_locales)
  fix j a etype data assume b: "complete_body call j = Inr (a, etype, data)" and n: "nfc_fixed E j"
  from b obtain now where *: "job_status j = APPROVED" "updated_at j \<le> now"
      "etype = JOB_COMPLETED" "audit_kind data = ''transition''"
    and upd: "service_updated j now (\<lambda>v. v\<lparr>job_status := COMPLETED, terminal_at := Some now\<rparr>) = Inr a"
    by (auto simp: complete_body_def rbind_Inr_iff run_simps)
  show "good_step E R j a etype data"
  proof (rule updated_good_step [OF upd])
    assume "governed R j"
    with * show "governed R (j\<lparr>job_status := COMPLETED, terminal_at := Some now\<rparr>)"
      by (simp add: governed_def human_approved_def)
  qed (use * n in \<open>simp_all add: job_frame_def nfc_fixed_iff lifecycle_edge_def\<close>)
qed

interpretation fail: job_command E R "fail_body R call classification message retryable"
    "env_nfc E message = message" for E R call classification message retryable
proof (unfold_locales)
  fix j a etype data assume b: "fail_body R call classification message retryable j = Inr (a, etype, data)"
    and fixed: "env_nfc E message = message" and n: "nfc_fixed E j"
  define failure where "failure = \<lparr>failure_classification = classification, failure_message = message,
      failure_retryable = retryable, failed_by = call_actor call\<rparr>"
  define last where "last = (case active_execution j of
      Some lease \<Rightarrow> Some (execution_id lease) | None \<Rightarrow> last_execution_id j)"
  from b obtain now where *: "job_status j \<noteq> COMPLETED \<and> job_status j \<noteq> FAILED"
      "updated_at j \<le> now"
      "etype = JOB_FAILED" "audit_kind data = ''failure''"
    and upd: "service_updated j now (\<lambda>v. v\<lparr>job_status := FAILED, job_failure := Some failure,
         active_execution := None, last_execution_id := last, terminal_at := Some now\<rparr>) = Inr a"
    unfolding failure_def last_def
    by (auto simp: fail_body_def rbind_Inr_iff run_simps Let_def)
  show "good_step E R j a etype data"
  proof (rule updated_good_step [OF upd])
    assume "governed R j"
    with * show "governed R (j\<lparr>job_status := FAILED, job_failure := Some failure,
         active_execution := None, last_execution_id := last, terminal_at := Some now\<rparr>)"
      by (simp add: governed_def)
  qed (use * n fixed in \<open>auto simp: job_frame_def nfc_fixed_iff lifecycle_edge_def failure_def\<close>)
qed

interpretation recover: job_command E R "recover_body call" True for E R call
proof (unfold_locales)
  fix j a etype data assume b: "recover_body call j = Inr (a, etype, data)" and n: "nfc_fixed E j"
  from b obtain now where *: "job_status j = VALIDATED \<or> job_status j = RUNNING" "updated_at j \<le> now"
      "etype = JOB_RECOVERED" "audit_kind data = ''recovery''"
    and upd: "service_updated j now (\<lambda>v. v\<lparr>job_status := QUEUED, active_execution := None,
             last_execution_id := Some (execution_id (the (active_execution j)))\<rparr>) = Inr a"
    by (auto simp: recover_body_def rbind_Inr_iff run_simps split: option.splits)
  show "good_step E R j a etype data"
  proof (rule updated_good_step [OF upd])
    assume "governed R j"
    with * show "governed R (j\<lparr>job_status := QUEUED, active_execution := None,
             last_execution_id := Some (execution_id (the (active_execution j)))\<rparr>)"
      by (auto simp: governed_def)
  qed (use * n in \<open>auto simp: job_frame_def nfc_fixed_iff lifecycle_edge_def\<close>)
qed

end
