(* ===== verification/AtlasSystem.thy ===== *)
theory AtlasSystem
  imports AtlasCommands
begin

text \<open>
  The running Atlas: several processes plan commands against the store they find and commit them later
  (\<open>atlas_step\<close>, \<open>atlas_reachable\<close>), and what every such step keeps, from the initial store on.
\<close>

section \<open>Commands as plans\<close>

text \<open>The free texts that a command brings in, in NFC.\<close>

fun command_texts_fixed :: "env \<Rightarrow> atlas_command \<Rightarrow> bool" where
  "command_texts_fixed E (Create_Job spec) \<longleftrightarrow> task_nfc (env_nfc E) (spec_request spec) = spec_request spec
     \<and> source_nfc (env_nfc E) (spec_source spec) = spec_source spec"
| "command_texts_fixed E (Submit_Result result) \<longleftrightarrow> result_nfc (env_nfc E) result = result"
| "command_texts_fixed E (Record_Review review) \<longleftrightarrow> review_nfc (env_nfc E) review = review"
| "command_texts_fixed E (Approve_Job reason) \<longleftrightarrow> env_nfc E reason = reason"
| "command_texts_fixed E (Reject_Job reason) \<longleftrightarrow> env_nfc E reason = reason"
| "command_texts_fixed E (Fail_Job classification message retryable) \<longleftrightarrow> env_nfc E message = message"
| "command_texts_fixed E _ \<longleftrightarrow> True"

definition rows_good :: "env \<Rightarrow> agent_registry \<Rightarrow> atlas_db \<Rightarrow> bool" where
  "rows_good E R db \<longleftrightarrow> (\<forall>r \<in> set (db_jobs db). nfc_fixed E (row_record r) \<and> governed R (row_record r))"

definition pending_ok :: "env \<Rightarrow> agent_registry \<Rightarrow> atlas_db \<Rightarrow> write_req \<Rightarrow> bool" where
  "pending_ok E R db w \<longleftrightarrow> write_ok E w \<and> based_on db w \<and> nfc_fixed E (wr_after w)
     \<and> governed R (wr_after w) \<and> (\<forall>b. wr_before w = Some b \<longrightarrow> job_frame b (wr_after w))"

lemma nfc_fixed_stored: "nfc_fixed E j \<Longrightarrow> stored_job E j = j"
  by (simp add: nfc_fixed_def)

lemma good_step_pending:
  assumes "good_step E R j (wr_after w) etype data" "wr_before w = Some j" "write_ok E w" "based_on db w"
    "\<exists>r \<in> set (db_jobs db). row_record r = j" "rows_good E R db"
  shows "pending_ok E R db w"
  using assms by (auto simp: pending_ok_def good_step_def rows_good_def)

lemma rows_good_fixed: "rows_good E R db \<Longrightarrow> \<forall>r \<in> set (db_jobs db). nfc_fixed E (row_record r)"
  by (simp add: rows_good_def)

lemma new_job_write:
  assumes "create_plan E db call spec = Inr (Write w)"
    "task_nfc (env_nfc E) (spec_request spec) = spec_request spec"
    "source_nfc (env_nfc E) (spec_source spec) = spec_source spec"
  shows "pending_ok E R db w" "command_id (wr_command w) = call_command_id call"
proof -
  define D where "D = canonical_sha256 (env_sha256 E) (env_nfc E) (spec_json spec)"
  obtain now e h where e: "service_event E None (new_job call spec now) JOB_CREATED (call_actor call)
        (call_command_id call) (Created_Data D (call_command_id call)) = Inr e"
    and w: "w = \<lparr>wr_before = None, wr_after = new_job call spec now, wr_event = e,
        wr_command = service_command (call_command_id call) ''job.create'' h (new_job call spec now) now\<rparr>"
    and valid: "job_valid (new_job call spec now)"
    using assms(1) unfolding D_def
    by (auto simp: create_plan_def rbind_Inr_iff Let_def check_command_id_def split: option.splits if_splits)
  have j: "job_status (new_job call spec now) = CREATED" "revision (new_job call spec now) = 0"
    by (simp_all add: new_job_def)
  have fixed: "nfc_fixed E (new_job call spec now)"
    using assms(2,3) by (simp add: nfc_fixed_iff new_job_def)
  have "governed R (new_job call spec now)"
    by (simp add: governed_def new_job_def)
  moreover have "event_shape_error e = None \<and> event_job_id e = job_id (new_job call spec now)
      \<and> event_job_revision e = 0 \<and> event_to_status e = CREATED \<and> event_from_status e = None"
    using e j by (auto simp: service_event_def Let_def split: option.splits)
  ultimately show "pending_ok E R db w" "command_id (wr_command w) = call_command_id call"
    using valid fixed j
    by (simp_all add: w pending_ok_def write_ok_def nfc_fixed_stored lifecycle_edge_def
        service_command_def based_on_def)
qed

lemma plan_pending:
  assumes plan: "plan_command E R db call cmd = Inr (Write w)" and "command_texts_fixed E cmd"
    and wf: "db_wf db" and good: "rows_good E R db"
  shows "pending_ok E R db w \<and> command_id (wr_command w) = call_command_id call"
proof (cases cmd)
  case (Create_Job spec)
  with assms new_job_write show ?thesis by simp
next
  case Validate_Job
  with plan show ?thesis
    by simp (rule validate.handle_write [OF _ TrueI wf rows_good_fixed [OF good]],
      assumption, auto intro: good_step_pending good)
next
  case Queue_Job
  with plan show ?thesis
    by simp (rule queue.handle_write [OF _ TrueI wf rows_good_fixed [OF good]],
      assumption, auto intro: good_step_pending good)
next
  case Start_Job
  with plan show ?thesis
    by simp (rule start.handle_write [OF _ TrueI wf rows_good_fixed [OF good]],
      assumption, auto intro: good_step_pending good)
next
  case (Submit_Result result)
  with assms(1,2) show ?thesis
    by simp (rule submit.handle_write [OF _ _ wf rows_good_fixed [OF good]],
      assumption, assumption, auto intro: good_step_pending good)
next
  case (Record_Review review)
  with assms(1,2) show ?thesis
    by simp (rule review.handle_write [OF _ _ wf rows_good_fixed [OF good]],
      assumption, assumption, auto intro: good_step_pending good)
next
  case (Approve_Job reason)
  with assms(1,2) show ?thesis
    by simp (rule decide.handle_write [OF _ _ wf rows_good_fixed [OF good]],
      assumption, assumption, auto intro: good_step_pending good)
next
  case (Reject_Job reason)
  with assms(1,2) show ?thesis
    by simp (rule decide.handle_write [OF _ _ wf rows_good_fixed [OF good]],
      assumption, assumption, auto intro: good_step_pending good)
next
  case Complete_Job
  with plan show ?thesis
    by simp (rule complete.handle_write [OF _ TrueI wf rows_good_fixed [OF good]],
      assumption, auto intro: good_step_pending good)
next
  case (Fail_Job classification message retryable)
  with assms(1,2) show ?thesis
    by simp (rule fail.handle_write [OF _ _ wf rows_good_fixed [OF good]],
      assumption, assumption, auto intro: good_step_pending good)
next
  case Recover_Expired_Job
  with plan show ?thesis
    by simp (rule recover.handle_write [OF _ TrueI wf rows_good_fixed [OF good]],
      assumption, auto intro: good_step_pending good)
qed

section \<open>Rows after a commit\<close>

lemma commit_write_cases:
  obtains (refused) "snd (commit_write E db w) = db"
  | (created) "wr_before w = None"
      "commit_write E db w = (Inr (wr_after w), written_db E w
         (db\<lparr>db_jobs := db_jobs db @ [job_row_of E (wr_after w)]\<rparr>))"
  | (updated) b r where "wr_before w = Some b" "r \<in> set (db_jobs db)"
      "row_job_id r = job_id (wr_after w)" "row_revision r = revision b"
      "commit_write E db w = (Inr (wr_after w), written_db E w (db\<lparr>db_jobs := update_where
         (\<lambda>r. row_job_id r = job_id (wr_after w) \<and> row_revision r = revision b)
         (\<lambda>r. job_row_of E (wr_after w)) (db_jobs db)\<rparr>))"
proof -
  consider "snd (commit_write E db w) = db"
    | db' where "commit_write E db w = (Inr (wr_after w), db')"
        "write_rows E (map_option revision (wr_before w)) (wr_after w) (wr_event w) (wr_command w) db
           = Inr db'"
    using commit_write_outcome [of E db w] by auto
  then show ?thesis
  proof cases
    case 2
    then show ?thesis
    proof (cases "wr_before w")
      case None
      with 2 created show ?thesis by (auto simp: write_rows_Inr insert_job_Inr written_db_def)
    next
      case (Some b)
      with 2 obtain db1 where db1: "update_job E (revision b) (wr_after w) db = Inr db1"
          "db' = written_db E w db1"
        by (auto simp: write_rows_Inr written_db_def)
      from db1(1) show ?thesis
        by (rule update_job_Inr) (use 2 db1(2) Some updated in auto)
    qed
  qed (rule refused)
qed

lemma written_db_jobs [simp]: "db_jobs (written_db E w db) = db_jobs db"
  "db_commands (written_db E w db) = db_commands db @ [command_row_of E (wr_command w) (wr_after w)]"
  "db_events (written_db E w db) = db_events db @ [event_row_of (wr_event w)]"
  by (simp_all add: written_db_def)

text \<open>Every job row of the store after a commit was there before or is the row just written.\<close>

lemma commit_write_rows:
  assumes "r \<in> set (db_jobs (snd (commit_write E db w)))"
  shows "r \<in> set (db_jobs db) \<or> r = job_row_of E (wr_after w)"
  using assms by (cases rule: commit_write_cases [of E db w]) (auto simp: set_update_where split: if_splits)

lemma commit_write_good:
  assumes "rows_good E R db" "pending_ok E R db w"
  shows "rows_good E R (snd (commit_write E db w))"
  using assms commit_write_rows [of _ E db w]
  by (fastforce simp: rows_good_def pending_ok_def nfc_fixed_stored)

text \<open>
  A row that a commit replaces holds the job the request was computed from, so the job evolves by one
  edge of the lifecycle graph and keeps its immutable fields.
\<close>

definition row_evolves :: "job_row \<Rightarrow> job_row \<Rightarrow> bool" where
  "row_evolves r r' \<longleftrightarrow> row_job_id r' = row_job_id r \<and> job_frame (row_record r) (row_record r')
     \<and> lifecycle_reaches (row_status r) (row_status r') \<and> row_revision r \<le> row_revision r'
     \<and> (terminal_status (row_status r) \<longrightarrow> r' = r)"

lemma row_evolves_refl: "row_evolves r r"
  by (simp add: row_evolves_def job_frame_def lifecycle_reaches.reaches_refl)

lemma lifecycle_reaches_trans: "lifecycle_reaches s t \<Longrightarrow> lifecycle_reaches r s \<Longrightarrow> lifecycle_reaches r t"
  by (induction rule: lifecycle_reaches.induct) (auto intro: lifecycle_reaches.reaches_step)

lemma row_evolves_trans:
  assumes "row_evolves r s" "row_evolves s t"
  shows "row_evolves r t"
  using assms lifecycle_reaches_trans [of "row_status s" "row_status t" "row_status r"]
  by (auto simp: row_evolves_def job_frame_def)

lemma lifecycle_edge_reaches: "lifecycle_edge (Some s) t \<Longrightarrow> lifecycle_reaches s t"
  by (auto simp: lifecycle_edge_def intro: lifecycle_reaches.intros)

lemma lifecycle_edge_not_terminal: "lifecycle_edge (Some s) t \<Longrightarrow> \<not> terminal_status s"
  by (cases s) (auto simp: lifecycle_edge_def terminal_status_def simp del: transition_sources)

lemma commit_write_evolves:
  assumes wf: "db_wf db" and ok: "pending_ok E R db w" and r: "r \<in> set (db_jobs db)"
  shows "\<exists>r' \<in> set (db_jobs (snd (commit_write E db w))). row_evolves r r'"
proof (cases rule: commit_write_cases [of E db w])
  case (updated b r0)
  let ?r' = "if row_job_id r = job_id (wr_after w) \<and> row_revision r = revision b
    then job_row_of E (wr_after w) else r"
  have "row_evolves r ?r'"
  proof (cases "row_job_id r = job_id (wr_after w) \<and> row_revision r = revision b")
    case True
    have w: "write_ok E w" "job_frame b (wr_after w)" using ok updated by (auto simp: pending_ok_def)
    have "row_record r = b"
      using based_on_fits [OF wf] ok r True updated(1) w(1)
      by (auto simp: fits_db_def pending_ok_def write_ok_def)
    moreover have "row_status r = job_status (row_record r)"
      using wf r by (auto simp: db_wf_def job_row_wf_def run_simps)
    ultimately show ?thesis
      using True w updated(1)
      by (auto simp: row_evolves_def write_ok_def dest: lifecycle_edge_reaches lifecycle_edge_not_terminal)
  qed (auto simp: row_evolves_refl)
  with r show ?thesis
    using updated by (intro bexI [of _ ?r']) (auto simp: set_update_where)
qed (use r in \<open>auto intro: row_evolves_refl\<close>)

section \<open>The running system\<close>

text \<open>
  Several processes share one store. A process plans a command against the store as it finds it;
  the resulting request stays pending until its transaction runs, in any order with those of the
  others, or is lost when the process stops. Which commands are submitted is the parameter \<open>Q\<close>:
  \<open>\<lambda>_. True\<close> is every command the code accepts. The invariant below holds for
  \<open>command_texts_fixed E\<close>, the commands whose texts are already in NFC; with other texts the store
  can take a row that it cannot read back (\<open>atlas_nfc_unreadable\<close>).
\<close>

record atlas_sys =
  sys_db :: atlas_db
  sys_pending :: "write_req list"

definition initial_sys :: atlas_sys where
  "initial_sys = \<lparr>sys_db = empty_db, sys_pending = []\<rparr>"

inductive atlas_step :: "(atlas_command \<Rightarrow> bool) \<Rightarrow> env \<Rightarrow> agent_registry \<Rightarrow> atlas_sys \<Rightarrow> atlas_sys \<Rightarrow> bool" for Q E R where
  plan: "plan_command E R (sys_db s) call cmd = Inr (Write w) \<Longrightarrow> Q cmd
    \<Longrightarrow> atlas_step Q E R s (s\<lparr>sys_pending := w # sys_pending s\<rparr>)"
| commit: "w \<in> set (sys_pending s)
    \<Longrightarrow> atlas_step Q E R s (s\<lparr>sys_db := snd (commit_write E (sys_db s) w),
                          sys_pending := remove1 w (sys_pending s)\<rparr>)"
| stop: "w \<in> set (sys_pending s) \<Longrightarrow> atlas_step Q E R s (s\<lparr>sys_pending := remove1 w (sys_pending s)\<rparr>)"

inductive_cases atlas_stepE: "atlas_step Q E R s s'"

definition atlas_reachable :: "(atlas_command \<Rightarrow> bool) \<Rightarrow> env \<Rightarrow> agent_registry \<Rightarrow> atlas_sys \<Rightarrow> bool" where
  "atlas_reachable Q E R s \<longleftrightarrow> (atlas_step Q E R)\<^sup>*\<^sup>* initial_sys s"

definition sys_inv :: "env \<Rightarrow> agent_registry \<Rightarrow> atlas_sys \<Rightarrow> bool" where
  "sys_inv E R s \<longleftrightarrow> db_wf (sys_db s) \<and> rows_good E R (sys_db s)
     \<and> (\<forall>w \<in> set (sys_pending s). pending_ok E R (sys_db s) w)"

lemma pending_extends: "pending_ok E R db w \<Longrightarrow> db_extends db db' \<Longrightarrow> pending_ok E R db' w"
  by (auto simp: pending_ok_def intro: based_on_extends)

lemma pending_fits: "db_wf db \<Longrightarrow> pending_ok E R db w \<Longrightarrow> fits_db db w"
  by (auto simp: pending_ok_def intro: based_on_fits)

lemma atlas_step_inv:
  assumes "atlas_step (command_texts_fixed E) E R s s'" "sys_inv E R s"
  shows "sys_inv E R s'"
  using assms
proof cases
  case (plan call cmd w)
  with assms(2) plan_pending show ?thesis by (fastforce simp: sys_inv_def)
next
  case (commit w)
  let ?db = "snd (commit_write E (sys_db s) w)"
  have w: "pending_ok E R (sys_db s) w" and wf: "db_wf (sys_db s)"
    using assms(2) commit(2) by (auto simp: sys_inv_def)
  then have "db_extends (sys_db s) ?db" by (auto simp: pending_ok_def intro: commit_write_extends)
  then have "pending_ok E R ?db v" if "v \<in> set (remove1 w (sys_pending s))" for v
    using assms(2) that pending_extends notin_set_remove1 unfolding sys_inv_def by metis
  moreover have "db_wf ?db" "rows_good E R ?db"
    using w wf assms(2) commit_write_wf pending_fits commit_write_good
    by (auto simp: sys_inv_def pending_ok_def)
  ultimately show ?thesis using commit by (simp add: sys_inv_def)
next
  case (stop w)
  with assms(2) show ?thesis by (auto simp: sys_inv_def dest: set_remove1_subset [THEN subsetD])
qed

lemma sys_inv_initial: "sys_inv E R initial_sys"
  by (simp add: sys_inv_def initial_sys_def db_wf_empty) (simp add: rows_good_def empty_db_def)

lemma atlas_steps_inv: "(atlas_step (command_texts_fixed E) E R)\<^sup>*\<^sup>* s s' \<Longrightarrow> sys_inv E R s \<Longrightarrow> sys_inv E R s'"
  by (induction rule: rtranclp_induct) (auto intro: atlas_step_inv)

lemma reachable_inv: "atlas_reachable (command_texts_fixed E) E R s \<Longrightarrow> sys_inv E R s"
  using atlas_steps_inv sys_inv_initial unfolding atlas_reachable_def by blast

lemma atlas_step_evolves:
  assumes "atlas_step (command_texts_fixed E) E R s s'" "sys_inv E R s" "r \<in> set (db_jobs (sys_db s))"
  shows "\<exists>r' \<in> set (db_jobs (sys_db s')). row_evolves r r'"
  using assms(1)
proof cases
  case (commit w)
  with assms show ?thesis
    using commit_write_evolves [of "sys_db s" E R w r] by (auto simp: sys_inv_def)
qed (use assms(3) row_evolves_refl in auto)

lemma atlas_steps_evolve:
  assumes "(atlas_step (command_texts_fixed E) E R)\<^sup>*\<^sup>* s s'" "sys_inv E R s" "r \<in> set (db_jobs (sys_db s))"
  shows "\<exists>r' \<in> set (db_jobs (sys_db s')). row_evolves r r'"
  using assms(1)
proof (induction rule: rtranclp_induct)
  case base
  with assms(3) row_evolves_refl show ?case by blast
next
  case (step t u)
  from step.IH obtain rt where rt: "rt \<in> set (db_jobs (sys_db t))" "row_evolves r rt" by blast
  have "sys_inv E R t" using step.hyps(1) assms(2) atlas_steps_inv by blast
  with step.hyps(2) rt(1) obtain ru where "ru \<in> set (db_jobs (sys_db u))" "row_evolves rt ru"
    using atlas_step_evolves by blast
  with rt(2) row_evolves_trans show ?case by blast
qed

lemma atlas_steps_extend:
  assumes "(atlas_step (command_texts_fixed E) E R)\<^sup>*\<^sup>* s s'" "sys_inv E R s"
  shows "db_extends (sys_db s) (sys_db s')"
  using assms(1)
proof (induction rule: rtranclp_induct)
  case (step t u)
  have inv: "sys_inv E R t" using step.hyps(1) assms(2) atlas_steps_inv by blast
  from step.hyps(2) have "db_extends (sys_db t) (sys_db u)"
    by cases (use inv in \<open>auto simp: sys_inv_def pending_ok_def intro: commit_write_extends\<close>)
  with step.IH db_extends_trans show ?case by blast
qed simp


section \<open>Recorded commands\<close>

fun command_name :: "atlas_command \<Rightarrow> string" where
  "command_name (Create_Job spec) = ''job.create''"
| "command_name Validate_Job = ''job.validate''"
| "command_name Queue_Job = ''job.queue''"
| "command_name Start_Job = ''job.start''"
| "command_name (Submit_Result result) = ''job.submit_result''"
| "command_name (Record_Review review) = ''job.record_review''"
| "command_name (Approve_Job reason) = ''job.approved''"
| "command_name (Reject_Job reason) = ''job.rejected''"
| "command_name Complete_Job = ''job.complete''"
| "command_name (Fail_Job classification message retryable) = ''job.fail''"
| "command_name Recover_Expired_Job = ''job.recover_expired''"

fun command_fields :: "env \<Rightarrow> atlas_command \<Rightarrow> (string \<times> json) list" where
  "command_fields E (Create_Job spec) = [(''spec'', spec_json spec)]"
| "command_fields E (Submit_Result result) = [(''result'', result_json result)]"
| "command_fields E (Record_Review review) = [(''review'', review_json E review)]"
| "command_fields E (Approve_Job reason) = [(''reason'', JStr reason)]"
| "command_fields E (Reject_Job reason) = [(''reason'', JStr reason)]"
| "command_fields E (Fail_Job classification message retryable) =
     [(''classification'', jstr (failure_classification_value classification)),
      (''message'', JStr message), (''retryable'', JBool retryable)]"
| "command_fields E _ = []"

fun command_body :: "env \<Rightarrow> agent_registry \<Rightarrow> command_call \<Rightarrow> atlas_command \<Rightarrow> body" where
  "command_body E R call Validate_Job = validate_body R call"
| "command_body E R call Queue_Job = queue_body call"
| "command_body E R call Start_Job = start_body R call"
| "command_body E R call (Submit_Result result) = submit_body E R call result"
| "command_body E R call (Record_Review review) = review_body R call review"
| "command_body E R call (Approve_Job reason) = decide_body call Decision_Approved reason"
| "command_body E R call (Reject_Job reason) = decide_body call Decision_Rejected reason"
| "command_body E R call Complete_Job = complete_body call"
| "command_body E R call (Fail_Job classification message retryable) =
     fail_body R call classification message retryable"
| "command_body E R call Recover_Expired_Job = recover_body call"
| "command_body E R call (Create_Job spec) = (\<lambda>_. Inl Concurrency_Error)"

fun is_create :: "atlas_command \<Rightarrow> bool" where
  "is_create (Create_Job spec) = True"
| "is_create _ = False"

lemma plan_command_handle:
  "\<not> is_create cmd \<Longrightarrow> plan_command E R db call cmd
     = handle E db call (command_name cmd) (command_fields E cmd) (command_body E R call cmd)"
  by (cases cmd) simp_all

definition command_request :: "env \<Rightarrow> command_call \<Rightarrow> atlas_command \<Rightarrow> json" where
  "command_request E call cmd = request_json (command_name cmd) (call_actor call)
     (if is_create cmd then command_fields E cmd else call_payload call (command_fields E cmd))"

definition command_hash :: "env \<Rightarrow> command_call \<Rightarrow> atlas_command \<Rightarrow> string" where
  "command_hash E call cmd = canonical_sha256 (env_sha256 E) (env_nfc E) (command_request E call cmd)"

text \<open>The store remembers the answer \<open>j\<close> to a request.\<close>

definition recorded :: "atlas_db \<Rightarrow> string \<Rightarrow> string \<Rightarrow> string \<Rightarrow> job \<Rightarrow> bool" where
  "recorded db cid operation hash j \<longleftrightarrow>
     (\<exists>c. find_command_row db cid = Some c \<and> command_response c operation hash = Inr j)"

lemma recorded_lookup: "recorded db cid operation hash j \<longleftrightarrow> lookup_command db cid operation hash = Inr (Some j)"
  by (auto simp: recorded_def lookup_command_def rbind_Inr_iff split: option.splits)

lemma recorded_extends: "recorded db cid operation hash j \<Longrightarrow> db_extends db db' \<Longrightarrow> recorded db' cid operation hash j"
  by (auto simp: recorded_def db_extends_def find_command_row_def find_append)

lemma store_persist_new:
  assumes "store_persist E db x j e c = (Inr k, db')" "find_command_row db (command_id c) = None"
  shows "k = j" "write_rows E x j e c db = Inr db'"
  using assms by (auto simp: store_persist_def split: if_splits sum.splits)

lemma commit_write_new:
  assumes "commit_write E db w = (Inr k, db')" "find_command_row db (command_id (wr_command w)) = None"
  shows "k = wr_after w"
    "db_commands db' = db_commands db @ [command_row_of E (wr_command w) (wr_after w)]"
proof -
  have *: "k = wr_after w \<and>
      write_rows E (map_option revision (wr_before w)) (wr_after w) (wr_event w) (wr_command w) db = Inr db'"
    using assms store_persist_new
    by (auto simp: commit_write_def store_create_def store_update_def split: option.splits if_splits)
  then show "k = wr_after w" by simp
  obtain db1 where "(case map_option revision (wr_before w) of None \<Rightarrow> insert_job E (wr_after w) db
        | Some r \<Rightarrow> update_job E r (wr_after w) db) = Inr db1"
      and db': "db_commands db' = db_commands db1 @ [command_row_of E (wr_command w) (wr_after w)]"
    using * by (auto simp: write_rows_Inr)
  then have "db_commands db1 = db_commands db"
    by (auto simp: insert_job_Inr elim!: update_job_Inr split: option.splits)
  with db' show "db_commands db' = db_commands db @ [command_row_of E (wr_command w) (wr_after w)]" by simp
qed

lemma commit_write_known:
  assumes "commit_write E db w = (Inr k, db')" "find_command_row db (command_id (wr_command w)) = Some c"
  shows "db' = db" "command_response c (command_operation (wr_command w))
      (command_request_sha256 (wr_command w)) = Inr k"
  using assms
  by (auto simp: commit_write_def store_create_def store_update_def store_persist_def
      split: option.splits if_splits)

lemma commit_write_recorded:
  assumes "commit_write E db w = (Inr j, db')" "nfc_fixed E (wr_after w)" "write_ok E w"
  shows "recorded db' (command_id (wr_command w)) (command_operation (wr_command w))
     (command_request_sha256 (wr_command w)) j"
proof (cases "find_command_row db (command_id (wr_command w))")
  case None
  from commit_write_new [OF assms(1) None] None
  have "find_command_row db' (command_id (wr_command w)) = Some (command_row_of E (wr_command w) j)"
    and "j = wr_after w"
    by (simp_all add: find_command_row_def find_append)
  with assms(2,3) show ?thesis
    by (auto simp: recorded_def run_simps nfc_fixed_stored write_ok_def)
next
  case (Some c)
  with commit_write_known [OF assms(1) Some] show ?thesis by (auto simp: recorded_def)
qed

text \<open>What an accepted call has passed, and what a plan carries.\<close>

definition call_admitted :: "command_call \<Rightarrow> atlas_command \<Rightarrow> bool" where
  "call_admitted call cmd \<longleftrightarrow> valid_command_id (call_command_id call)
     \<and> (if is_create cmd then actor_type (call_actor call) \<in> {System, Human}
        else 0 \<le> call_expected_revision call)"

lemma request_hash_command:
  "is_create cmd \<Longrightarrow> request_hash E (command_name cmd) (call_actor call) (command_fields E cmd)
     = command_hash E call cmd"
  "\<not> is_create cmd \<Longrightarrow> request_hash E (command_name cmd) (call_actor call)
     (call_payload call (command_fields E cmd)) = command_hash E call cmd"
  by (simp_all add: request_hash_def command_hash_def command_request_def)

lemma plan_command_Inr:
  assumes "plan_command E R db call cmd = Inr p"
  shows "call_admitted call cmd
    \<and> (case p of
         Replay j \<Rightarrow> recorded db (call_command_id call) (command_name cmd) (command_hash E call cmd) j
       | Write w \<Rightarrow> command_id (wr_command w) = call_command_id call
           \<and> command_operation (wr_command w) = command_name cmd
           \<and> command_request_sha256 (wr_command w) = command_hash E call cmd)"
proof (cases "is_create cmd")
  case True
  then obtain spec where cmd: "cmd = Create_Job spec" by (cases cmd) auto
  with assms request_hash_command(1) [OF True, of E call] show ?thesis
    by (auto simp: create_plan_def rbind_Inr_iff call_admitted_def check_command_id_def run_simps Let_def
        recorded_lookup service_command_def split: option.splits if_splits)
next
  case False
  with assms request_hash_command(2) [OF False, of E call] show ?thesis
    by (auto simp: plan_command_handle handle_def prepare_def rbind_Inr_iff call_admitted_def
        check_command_id_def run_simps Let_def recorded_lookup service_command_def
        split: option.splits if_splits)
qed

lemma plan_command_recorded:
  assumes "call_admitted call cmd"
    "recorded db (call_command_id call) (command_name cmd) (command_hash E call cmd) j"
  shows "plan_command E R db call cmd = Inr (Replay j)"
proof (cases "is_create cmd")
  case True
  then obtain spec where cmd: "cmd = Create_Job spec" by (cases cmd) auto
  with assms request_hash_command(1) [OF True, of E call] show ?thesis
    by (auto simp: create_plan_def call_admitted_def check_command_id_def require_operator_def Let_def
        recorded_lookup guard_raise_def rbind_def split: sum.splits)
next
  case False
  with assms request_hash_command(2) [OF False, of E call] show ?thesis
    by (auto simp: plan_command_handle handle_def prepare_def call_admitted_def
        check_command_id_def Let_def recorded_lookup guard_raise_def rbind_def)
qed

text \<open>A command id that the store knows under another request is refused.\<close>

lemma plan_command_conflict:
  assumes "find_command_row db (call_command_id call) = Some c"
    "cmd_operation c \<noteq> command_name cmd \<or> cmd_request_sha256 c \<noteq> command_hash E call cmd"
    "call_admitted call cmd"
  shows "plan_command E R db call cmd = Inl Idempotency_Conflict"
proof -
  have "lookup_command db (call_command_id call) (command_name cmd) (command_hash E call cmd)
      = Inl Idempotency_Conflict"
    using assms(1,2) by (auto simp: lookup_command_def command_response_def rbind_def)
  then show ?thesis
    using assms(3) request_hash_command [of cmd E call]
    by (cases cmd) (auto simp: create_plan_def handle_def prepare_def call_admitted_def
        check_command_id_def require_operator_def Let_def guard_raise_def rbind_def)
qed

end
