(* ===== verification/AtlasProgress.thy ===== *)
theory AtlasProgress
  imports AtlasSystem
begin

text \<open>
  Progress of the Atlas service: a command whose body accepts the current job, under a fresh command id,
  is planned, committed and recorded (\<open>accepted_run\<close>), and running commands one after the other stays
  within the reachable states of the interleaved system.
\<close>

section \<open>An accepted command is committed\<close>

lemma command_body_step:
  assumes "command_body E R call cmd j = Inr (a, etype, data)" "command_texts_fixed E cmd" "nfc_fixed E j"
  shows "good_step E R j a etype data"
  using assms
  by (cases cmd) (auto intro: validate.step queue.step start.step submit.step review.step decide.step
      complete.step fail.step recover.step)

lemma walk_sequence_bounds:
  "lifecycle_walk n before es \<Longrightarrow> e \<in> set es \<Longrightarrow> n < event_sequence e \<and> event_sequence e \<le> n + int (length es)"
  by (induction es arbitrary: n before) fastforce+

lemma get_job_row:
  assumes "db_wf db" "r \<in> set (db_jobs db)"
  shows "get_job db (row_job_id r) = Inr (row_record r)"
  using assms find_unique [of row_job_id "db_jobs db" r]
  by (auto simp: get_job_def find_job_row_def db_wf_def job_row_wf_def)

lemma row_facts:
  assumes "db_wf db" "r \<in> set (db_jobs db)"
  shows "row_job_id r = job_id (row_record r)" "row_revision r = revision (row_record r)"
    "row_status r = job_status (row_record r)" "row_updated_at r = updated_at (row_record r)"
    "job_valid (row_record r)"
  using assms by (auto simp: db_wf_def job_row_wf_def run_simps)

lemma update_job_accepts:
  assumes "db_wf db" "r \<in> set (db_jobs db)" "row_job_id r = job_id a"
  shows "update_job E (row_revision r) a db = Inr (db\<lparr>db_jobs := update_where
      (\<lambda>s. row_job_id s = job_id a \<and> row_revision s = row_revision r) (\<lambda>_. job_row_of E a) (db_jobs db)\<rparr>)"
proof -
  have d: "distinct (map row_job_id (db_jobs db))" using assms(1) by (simp add: db_wf_def)
  have "filter (\<lambda>s. row_job_id s = job_id a \<and> row_revision s = row_revision r) (db_jobs db)
      = filter (\<lambda>s. s = r) (db_jobs db)"
    using d assms(2,3) by (auto intro!: filter_cong dest: distinct_map_eqD)
  moreover have "length (filter (\<lambda>s. s = r) (db_jobs db)) = 1"
    using d assms(2) by (simp add: distinct_map distinct_length_filter Collect_conj_eq Int_absorb1)
  ultimately show ?thesis by (simp add: update_job_def Let_def)
qed

lemma commit_write_accepts:
  assumes wf: "db_wf db" and ok: "pending_ok E R db w" and r: "r \<in> set (db_jobs db)"
    and b: "wr_before w = Some (row_record r)"
    and new: "find_command_row db (command_id (wr_command w)) = None"
      "event_id (wr_event w) \<notin> ev_event_id ` set (db_events db)"
  shows "commit_write E db w = (Inr (wr_after w), written_db E w (db\<lparr>db_jobs := update_where
      (\<lambda>s. row_job_id s = job_id (wr_after w) \<and> row_revision s = row_revision r)
      (\<lambda>_. job_row_of E (wr_after w)) (db_jobs db)\<rparr>))"
proof -
  define a where "a = wr_after w"
  define db1 where "db1 = db\<lparr>db_jobs := update_where
      (\<lambda>s. row_job_id s = job_id a \<and> row_revision s = row_revision r) (\<lambda>_. job_row_of E a) (db_jobs db)\<rparr>"
  have w: "write_ok E w" "job_id (row_record r) = job_id a" "revision a = revision (row_record r) + 1"
    using ok b by (auto simp: pending_ok_def write_ok_def a_def)
  note facts = row_facts [OF wf r]
  have upd: "update_job E (revision (row_record r)) a db = Inr db1"
    using update_job_accepts [OF wf r, of a E] facts w by (simp add: db1_def)
  have ids: "row_job_id ` set (db_jobs db1) = row_job_id ` set (db_jobs db)"
    using map_update_where [of "\<lambda>s. row_job_id s = job_id a \<and> row_revision s = row_revision r"
        row_job_id "\<lambda>_. job_row_of E a" "db_jobs db"]
    by (simp add: db1_def) (metis list.set_map)
  have known: "job_id a \<in> row_job_id ` set (db_jobs db1)"
    using ids r facts w by force
  have "event_sequence (ev_record e) \<noteq> revision a + 1"
    if "e \<in> set (db_events db)" "ev_job_id e = job_id a" for e
  proof -
    have "lifecycle_walk 0 None (job_history db (row_job_id r))"
      "int (length (job_history db (row_job_id r))) = row_revision r + 1"
      using wf r by (auto simp: db_wf_def job_row_wf_def)
    moreover have "ev_record e \<in> set (job_history db (row_job_id r))"
      using that facts w by (simp add: job_history_def job_event_rows_def)
    ultimately show ?thesis using walk_sequence_bounds w facts by fastforce
  qed
  moreover have "ev_sequence e = event_sequence (ev_record e)" if "e \<in> set (db_events db)" for e
    using wf that by (auto simp: db_wf_def run_simps)
  ultimately have seq: "(job_id a, revision a + 1) \<notin> (\<lambda>r. (ev_job_id r, ev_sequence r)) ` set (db_events db)"
    by force
  have "event_sequence (wr_event w) = revision a + 1"
    using w event_shape_sequence by (auto simp: write_ok_def a_def)
  moreover have "command_id (wr_command w) \<notin> cmd_id ` set (db_commands db)"
    using new(1) by (auto simp: find_command_row_def find_None_iff)
  ultimately have "write_rows E (Some (revision (row_record r))) a (wr_event w) (wr_command w) db
      = Inr (written_db E w db1)"
    using upd known seq new(2) w(1)
    by (simp add: write_rows_Inr written_db_def db1_def write_ok_def a_def)
  then show ?thesis
    using new(1) b w
    by (simp add: commit_write_def store_update_def store_persist_def write_ok_def a_def db1_def)
qed

text \<open>
  The command of a caller who has read the current job goes through: the answer is the job the body
  computed, and the store holds it together with one event and one command record.
\<close>

definition command_event :: "env \<Rightarrow> command_call \<Rightarrow> job \<Rightarrow> job \<Rightarrow> audit_event_type \<Rightarrow> audit_data \<Rightarrow> audit_event" where
  "command_event E call j a etype data =
     \<lparr>event_id = env_uuid5 E NAMESPACE_URL (''nexus.atlas:'' @ uuid_str (job_id a) @ '':''
        @ int_str (revision a + 1) @ '':'' @ call_command_id call),
      event_job_id = job_id a, event_sequence = revision a + 1, event_job_revision = revision a,
      event_type = etype, event_actor = call_actor call, event_command_id = call_command_id call,
      event_occurred_at = updated_at a, event_from_status = Some (job_status j),
      event_to_status = job_status a, event_data = data\<rparr>"

definition addressed :: "atlas_db \<Rightarrow> command_call \<Rightarrow> atlas_command \<Rightarrow> job \<Rightarrow> bool" where
  "addressed db call cmd j \<longleftrightarrow> \<not> is_create cmd \<and> call_admitted call cmd
     \<and> j \<in> row_record ` set (db_jobs db)
     \<and> call_job_id call = job_id j \<and> call_expected_revision call = revision j
     \<and> find_command_row db (call_command_id call) = None"

lemma accepted_plan:
  assumes wf: "db_wf db" and good: "rows_good E R db"
    and to: "addressed db call cmd j" and body: "command_body E R call cmd j = Inr (a, etype, data)"
    and texts: "command_texts_fixed E cmd"
  shows "plan_command E R db call cmd = Inr (Write \<lparr>wr_before = Some j, wr_after = a,
      wr_event = command_event E call j a etype data,
      wr_command = service_command (call_command_id call) (command_name cmd) (command_hash E call cmd)
        a (updated_at a)\<rparr>)"
proof -
  obtain r where r: "r \<in> set (db_jobs db)" "row_record r = j" using to by (auto simp: addressed_def)
  have "get_job db (job_id j) = Inr j"
    using get_job_row [OF wf r(1)] row_facts(1) [OF wf r(1)] r(2) by simp
  moreover have "lookup_command db (call_command_id call) (command_name cmd) h = Inr None" for h
    using to by (simp add: addressed_def lookup_command_def)
  moreover have step: "good_step E R j a etype data"
    using command_body_step [OF body texts] good r by (auto simp: rows_good_def)
  obtain e where e: "service_event E (Some j) a etype (call_actor call) (call_command_id call) data = Inr e"
    using validate.event_exists [OF step] by blast
  then have "e = command_event E call j a etype data"
    by (auto simp: service_event_def Let_def command_event_def split: option.splits)
  moreover have "\<not> revision j < 0" "\<not> is_create cmd"
    using to by (auto simp: addressed_def call_admitted_def)
  ultimately show ?thesis
    using to body e request_hash_command(2) [of cmd E call]
    by (simp add: plan_command_handle addressed_def handle_def prepare_def check_command_id_def
        call_admitted_def Let_def)
qed

lemma accepted_run:
  assumes wf: "db_wf db" and good: "rows_good E R db"
    and to: "addressed db call cmd j" and body: "command_body E R call cmd j = Inr (a, etype, data)"
    and texts: "command_texts_fixed E cmd"
    and fresh: "event_id (command_event E call j a etype data) \<notin> ev_event_id ` set (db_events db)"
  obtains db' where "run_command E R db call cmd = (Inr a, db')"
    "db_jobs db' = update_where (\<lambda>s. row_job_id s = job_id j) (\<lambda>_. job_row_of E a) (db_jobs db)"
    "db_events db' = db_events db @ [event_row_of (command_event E call j a etype data)]"
    "map cmd_id (db_commands db') = map cmd_id (db_commands db) @ [call_command_id call]"
proof -
  define w where "w = \<lparr>wr_before = Some j, wr_after = a,
      wr_event = command_event E call j a etype data,
      wr_command = service_command (call_command_id call) (command_name cmd) (command_hash E call cmd)
        a (updated_at a)\<rparr>"
  have plan: "plan_command E R db call cmd = Inr (Write w)"
    using accepted_plan [OF wf good to body texts] by (simp add: w_def)
  have ok: "pending_ok E R db w" using plan_pending [OF plan texts wf good] by simp
  obtain r where r: "r \<in> set (db_jobs db)" "row_record r = j" using to by (auto simp: addressed_def)
  have "find_command_row db (command_id (wr_command w)) = None"
    using to by (simp add: addressed_def w_def service_command_def)
  moreover have id: "job_id a = job_id j"
    using ok by (auto simp: pending_ok_def w_def job_frame_def)
  ultimately have "commit_write E db w = (Inr a, written_db E w (db\<lparr>db_jobs := update_where
      (\<lambda>s. row_job_id s = job_id j \<and> row_revision s = row_revision r)
      (\<lambda>_. job_row_of E a) (db_jobs db)\<rparr>))"
    using commit_write_accepts [OF wf ok r(1)] fresh r by (simp add: w_def)
  moreover have "update_where (\<lambda>s. row_job_id s = job_id j \<and> row_revision s = row_revision r)
      (\<lambda>_. job_row_of E a) (db_jobs db)
    = update_where (\<lambda>s. row_job_id s = job_id j) (\<lambda>_. job_row_of E a) (db_jobs db)"
    using wf r row_facts(1) [OF wf r(1)]
    by (auto simp: update_where_def db_wf_def dest: distinct_map_eqD)
  ultimately show ?thesis
    by (intro that [of "snd (commit_write E db w)"])
       (simp_all add: run_command_def run_plan_def plan w_def service_command_def)
qed

text \<open>One call is a planned request and its commit.\<close>

lemma run_command_steps:
  assumes "command_texts_fixed E cmd"
  shows "(atlas_step (command_texts_fixed E) E R)\<^sup>*\<^sup>* s (s\<lparr>sys_db := snd (run_command E R (sys_db s) call cmd)\<rparr>)"
proof (cases "\<exists>w. plan_command E R (sys_db s) call cmd = Inr (Write w)")
  case True
  then obtain w where w: "plan_command E R (sys_db s) call cmd = Inr (Write w)" by blast
  let ?t = "s\<lparr>sys_pending := w # sys_pending s\<rparr>"
  have "atlas_step (command_texts_fixed E) E R s ?t" using atlas_step.plan [of E R s _ _ w "command_texts_fixed E", OF w assms] .
  moreover have "atlas_step (command_texts_fixed E) E R ?t (s\<lparr>sys_db := snd (commit_write E (sys_db s) w)\<rparr>)"
    using atlas_step.commit [of w ?t "command_texts_fixed E" E R] by simp
  ultimately show ?thesis
    using w by (simp add: run_command_def run_plan_def converse_rtranclp_into_rtranclp)
next
  case False
  then have "snd (run_command E R (sys_db s) call cmd) = sys_db s"
    by (auto simp: run_command_def run_plan_def split: sum.splits plan.splits)
  then show ?thesis by simp
qed

lemma run_command_reachable:
  assumes "atlas_reachable (command_texts_fixed E) E R \<lparr>sys_db = db, sys_pending = []\<rparr>" "command_texts_fixed E cmd"
  shows "atlas_reachable (command_texts_fixed E) E R \<lparr>sys_db = snd (run_command E R db call cmd), sys_pending = []\<rparr>"
  using assms(1) run_command_steps [OF assms(2), of R "\<lparr>sys_db = db, sys_pending = []\<rparr>" call]
  unfolding atlas_reachable_def by simp

lemma run_command_cases:
  assumes "run_command E R db call cmd = (r, db')"
  shows "(\<exists>e. plan_command E R db call cmd = Inl e \<and> r = Inl e \<and> db' = db)
    \<or> (\<exists>j. plan_command E R db call cmd = Inr (Replay j) \<and> r = Inr j \<and> db' = db)
    \<or> (\<exists>w. plan_command E R db call cmd = Inr (Write w) \<and> commit_write E db w = (r, db'))"
  using assms by (auto simp: run_command_def run_plan_def split: sum.splits plan.splits)

text \<open>The answer to a command is recorded under its fingerprint.\<close>

lemma run_command_recorded:
  assumes "run_command E R db call cmd = (Inr j, db')" "command_texts_fixed E cmd"
    "db_wf db" "rows_good E R db"
  shows "call_admitted call cmd"
    "recorded db' (call_command_id call) (command_name cmd) (command_hash E call cmd) j"
proof -
  from run_command_cases [OF assms(1)] have "call_admitted call cmd
      \<and> recorded db' (call_command_id call) (command_name cmd) (command_hash E call cmd) j"
  proof (elim disjE exE conjE)
    fix k assume "plan_command E R db call cmd = Inr (Replay k)" "Inr j = Inr k" "db' = db"
    then show ?thesis using plan_command_Inr by fastforce
  next
    fix w assume w: "plan_command E R db call cmd = Inr (Write w)" "commit_write E db w = (Inr j, db')"
    then have "pending_ok E R db w" using plan_pending assms by blast
    with w commit_write_recorded plan_command_Inr [OF w(1)] show ?thesis
      by (fastforce simp: pending_ok_def)
  qed simp
  then show "call_admitted call cmd"
    "recorded db' (call_command_id call) (command_name cmd) (command_hash E call cmd) j" by auto
qed

text \<open>A request computed from an older revision is refused.\<close>

lemma stale_commit:
  assumes "db_wf db" "write_ok E w" "wr_before w = Some b" "r \<in> set (db_jobs db)"
    "row_job_id r = job_id b" "revision b < row_revision r"
    "find_command_row db (command_id (wr_command w)) = None"
  shows "commit_write E db w = (Inl Concurrency_Error, db)"
proof -
  have d: "distinct (map row_job_id (db_jobs db))" using assms(1) by (simp add: db_wf_def)
  have "filter (\<lambda>s. row_job_id s = job_id (wr_after w) \<and> row_revision s = revision b) (db_jobs db) = []"
    using d assms(2-6) by (auto simp: filter_empty_conv write_ok_def dest: distinct_map_eqD)
  then have "update_job E (revision b) (wr_after w) db = Inl Concurrency_Error"
    by (simp add: update_job_def Let_def)
  then show ?thesis
    using assms(2,3,7)
    by (simp add: commit_write_def store_update_def store_persist_def write_rows_def write_ok_def)
qed

end
