(* ===== verification/AtlasDemo.thy ===== *)
theory AtlasDemo
  imports AtlasProgress
begin

text \<open>
  A concrete run of the Atlas service from creation to completion, used to instantiate the properties:
  the jobs of the run, the check that each handler body produces the next one, and the stores in
  between (\<open>demo_db n\<close>), each reachable.
\<close>

section \<open>A worked run\<close>

text \<open>
  One job from creation to completion, as a concrete instance: two agents, one budget, one repository.
  \<open>demo_job n\<close> is the job after \<open>n\<close> further commands; \<open>demo_reaches\<close> walks one step.
\<close>

definition demo_env :: env where
  "demo_env = \<lparr>env_nfc = id, env_sha256 = (\<lambda>s. s), env_uuid5 = (\<lambda>ns s. of_char (last s)),
     env_iso = (\<lambda>t. ''t'')\<rparr>"

definition demo_budget :: execution_budget where
  "demo_budget = \<lparr>max_duration_seconds = 60, max_tool_calls = 5, max_input_tokens = 10,
     max_output_tokens = 10, max_artifact_bytes = 10\<rparr>"

definition demo_url :: http_url where
  "demo_url = \<lparr>url_text = ''https://h/o/r'', url_username = None, url_password = None,
     url_query = None, url_fragment = None\<rparr>"

definition demo_registry :: agent_registry where
  "demo_registry =
     [\<lparr>policy_agent_id = ''w'', policy_runtime_kind = ''r'', policy_runtime_version = lit ''1'',
       policy_capabilities = [SOURCE_READ], policy_max_budget = demo_budget,
       repository_prefixes = [demo_url]\<rparr>,
      \<lparr>policy_agent_id = ''v'', policy_runtime_kind = ''r'', policy_runtime_version = lit ''1'',
       policy_capabilities = [REVIEW_SUBMIT], policy_max_budget = demo_budget,
       repository_prefixes = [demo_url]\<rparr>]"

definition demo_spec :: job_spec where
  "demo_spec = \<lparr>spec_agent_id = ''w'', spec_reviewer_agent_id = ''v'',
     spec_request = \<lparr>task_type = ''t'', task_title = lit ''T'', task_instructions = lit ''I'',
       acceptance_criteria = [], task_inputs = []\<rparr>,
     spec_source = \<lparr>repository_url = demo_url, commit_sha = replicate 40 (CHR ''a''), source_ref = None\<rparr>,
     spec_budget = demo_budget, spec_capabilities = [SOURCE_READ]\<rparr>"

definition demo_human :: actor_identity where
  "demo_human = \<lparr>actor_type = Human, actor_id = ''h''\<rparr>"

definition demo_system :: actor_identity where
  "demo_system = \<lparr>actor_type = System, actor_id = ''s''\<rparr>"

definition demo_worker :: actor_identity where
  "demo_worker = \<lparr>actor_type = Agent, actor_id = ''w''\<rparr>"

definition demo_reviewer :: actor_identity where
  "demo_reviewer = \<lparr>actor_type = Agent, actor_id = ''v''\<rparr>"

definition demo_result :: structured_result where
  "demo_result = Generic_Job_Result \<lparr>generic_summary = lit ''done'', generic_artifacts = [], generic_checks = []\<rparr>"

definition demo_review :: review_result where
  "demo_review = \<lparr>review_id = 3, reviewer_of_review = ''v'', review_verdict = Review_Passed,
     review_summary = lit ''ok'', review_evidence = [], review_created_at = 5\<rparr>"

definition demo_call :: "string \<Rightarrow> actor_identity \<Rightarrow> int \<Rightarrow> int \<Rightarrow> command_call" where
  "demo_call cid actor expected t = \<lparr>call_command_id = cid, call_job_id = 7,
     call_expected_revision = expected, call_actor = actor, call_clock = Aware t, call_fresh = 7\<rparr>"

definition demo_lease :: execution_lease where
  "demo_lease = \<lparr>execution_id = 7, claimed_by = ''w'', lease_started_at = 4,
     lease_expires_at = 4 + 60 * second\<rparr>"

definition demo_approval :: approval_record where
  "demo_approval = \<lparr>approval_id = 7, approval_decision = Decision_Approved, decided_by = demo_human,
     approval_reason = lit ''fine'', decided_at = 7\<rparr>"

definition demo_created :: job where
  "demo_created = new_job (demo_call ''command-1'' demo_human 0 1) demo_spec 1"

definition demo_validated :: job where
  "demo_validated = demo_created\<lparr>job_status := VALIDATED, updated_at := 2, revision := 1\<rparr>"

definition demo_queued :: job where
  "demo_queued = demo_validated\<lparr>job_status := QUEUED, updated_at := 3, revision := 2\<rparr>"

definition demo_running :: job where
  "demo_running = demo_queued\<lparr>job_status := RUNNING, active_execution := Some demo_lease,
     started_at := Some 4, updated_at := 4, revision := 3\<rparr>"

definition demo_awaiting :: job where
  "demo_awaiting = demo_running\<lparr>job_status := AWAITING_REVIEW, job_approval_state := Approval_Pending,
     job_result := Some demo_result, active_execution := None, last_execution_id := Some 7,
     review_requested_at := Some 5, updated_at := 5, revision := 4\<rparr>"

definition demo_reviewed :: job where
  "demo_reviewed = demo_awaiting\<lparr>job_review := Some demo_review, updated_at := 6, revision := 5\<rparr>"

definition demo_approved :: job where
  "demo_approved = demo_reviewed\<lparr>job_status := APPROVED, job_approval_state := Approval_Approved,
     job_approval := Some demo_approval, updated_at := 7, revision := 6\<rparr>"

definition demo_completed :: job where
  "demo_completed = demo_approved\<lparr>job_status := COMPLETED, terminal_at := Some 8,
     updated_at := 8, revision := 7\<rparr>"

lemmas demo_jobs = demo_created_def demo_validated_def demo_queued_def demo_running_def
  demo_awaiting_def demo_reviewed_def demo_approved_def demo_completed_def new_job_def
  demo_spec_def demo_call_def demo_lease_def demo_approval_def

text \<open>The store holds exactly this job, after commands with these ids.\<close>

definition demo_at :: "string list \<Rightarrow> job \<Rightarrow> atlas_db \<Rightarrow> bool" where
  "demo_at cids j db \<longleftrightarrow> atlas_reachable (command_texts_fixed demo_env) demo_env demo_registry \<lparr>sys_db = db, sys_pending = []\<rparr>
     \<and> db_jobs db = [job_row_of demo_env j] \<and> map cmd_id (db_commands db) = cids
     \<and> ev_event_id ` set (db_events db) = (\<lambda>c. of_char (last c)) ` set cids"

lemma demo_env_simps [simp]: "env_nfc demo_env = id" "env_sha256 demo_env s = s"
  "env_uuid5 demo_env ns n = of_char (last n)"
  by (simp_all add: demo_env_def)

lemma nfc_id [simp]: "artifact_nfc id = id" "check_nfc id = id" "task_nfc id t = t" "source_nfc id u = u"
  "result_nfc id r = r" "review_nfc id v = v" "job_nfc id j = j"
proof -
  show [simp]: "artifact_nfc id = id" "check_nfc id = id"
    by (auto simp: artifact_nfc_def check_nfc_def)
  show [simp]: "task_nfc id t = t" "source_nfc id u = u" for t u
    by (auto simp: task_nfc_def source_nfc_def option.map_id)
  show [simp]: "result_nfc id r = r" for r by (cases r) auto
  show [simp]: "review_nfc id v = v" for v by (auto simp: review_nfc_def)
  have "result_nfc id = id" "review_nfc id = id" by auto
  then show "job_nfc id j = j" by (auto simp: job_nfc_def option.map_id map_option_idI)
qed

lemma demo_texts [simp]: "command_texts_fixed demo_env cmd"
  by (cases cmd) simp_all

lemma demo_stored [simp]: "stored_job demo_env j = j"
  by (simp add: stored_job_def)

lemma demo_step_both:
  assumes at: "demo_at cids j db"
    and run: "rbind (command_body demo_env demo_registry call cmd j) (\<lambda>(a, et, data). Inr a) = Inr a"
    and call: "\<not> is_create cmd" "valid_command_id (call_command_id call)" "call_job_id call = job_id j"
      "call_expected_revision call = revision j" "0 \<le> revision j"
    and new: "\<forall>c \<in> set cids. (of_char (last (call_command_id call)) :: nat) \<noteq> of_char (last c)"
  shows "demo_at (cids @ [call_command_id call]) a (snd (run_command demo_env demo_registry db call cmd))
    \<and> fst (run_command demo_env demo_registry db call cmd) = Inr a"
proof -
  obtain et data where body: "command_body demo_env demo_registry call cmd j = Inr (a, et, data)"
    using run by (auto simp: rbind_Inr_iff)
  have inv: "db_wf db" "rows_good demo_env demo_registry db"
    using at reachable_inv by (fastforce simp: demo_at_def sys_inv_def)+
  have "\<forall>c \<in> set (db_commands db). cmd_id c \<in> set cids"
    using at by (auto simp: demo_at_def)
  then have unknown: "find_command_row db (call_command_id call) = None"
    using new by (fastforce simp: find_command_row_def find_None_iff)
  have to: "addressed db call cmd j"
    using at call unknown by (simp add: addressed_def call_admitted_def demo_at_def)
  have last: "event_id (command_event demo_env call j a et data) = of_char (last (call_command_id call))"
    using call(2) by (cases "call_command_id call") (auto simp: command_event_def valid_command_id_def bounded_def)
  then have "event_id (command_event demo_env call j a et data) \<notin> ev_event_id ` set (db_events db)"
    using at new by (auto simp: demo_at_def)
  moreover have "atlas_reachable (command_texts_fixed demo_env) demo_env demo_registry
      \<lparr>sys_db = snd (run_command demo_env demo_registry db call cmd), sys_pending = []\<rparr>"
    using at run_command_reachable by (simp add: demo_at_def)
  ultimately show ?thesis
    using at last
    by (elim accepted_run [OF inv to body demo_texts]) (auto simp: demo_at_def update_where_def)
qed

lemmas demo_step = demo_step_both [THEN conjunct1]

lemmas demo_step_answer = demo_step_both [THEN conjunct2]

lemma demo_created_valid [simp]: "job_valid demo_created"
  by code_simp

lemma demo_start:
  "demo_at [''command-1''] demo_created (snd (run_command demo_env demo_registry empty_db
     (demo_call ''command-1'' demo_human 0 1) (Create_Job demo_spec)))"
proof -
  have j: "new_job (demo_call ''command-1'' demo_human 0 1) demo_spec 1 = demo_created"
    by (simp add: demo_created_def)
  have c: "call_command_id (demo_call ''command-1'' demo_human 0 1) = ''command-1''"
    "call_actor (demo_call ''command-1'' demo_human 0 1) = demo_human"
    "call_clock (demo_call ''command-1'' demo_human 0 1) = Aware 1" "actor_type demo_human = Human"
    by (simp_all add: demo_call_def demo_human_def)
  have f: "job_status demo_created = CREATED" "revision demo_created = 0"
    by (simp_all add: demo_created_def new_job_def)
  have v: "valid_command_id ''command-1''" by code_simp
  let ?run = "run_command demo_env demo_registry empty_db (demo_call ''command-1'' demo_human 0 1)
     (Create_Job demo_spec)"
  have "db_jobs (snd ?run) = [job_row_of demo_env demo_created]
      \<and> map cmd_id (db_commands (snd ?run)) = [''command-1'']
      \<and> map ev_event_id (db_events (snd ?run)) = [of_char (CHR ''1'')]"
    by (simp add: run_command_def run_plan_def create_plan_def c check_command_id_def v
        require_operator_def lookup_command_def find_command_row_def empty_db_def
        service_now_def j service_event_def event_shape_error_def f Let_def commit_write_def
        store_create_def store_persist_def service_command_def write_rows_def insert_job_def
        insert_event_def insert_command_def canonical_sha256_def request_hash_def
        job_row_of_def event_row_of_def command_row_of_def)
  moreover have "atlas_reachable (command_texts_fixed demo_env) demo_env demo_registry \<lparr>sys_db = empty_db, sys_pending = []\<rparr>"
    by (simp add: atlas_reachable_def initial_sys_def [symmetric])
  ultimately show ?thesis
    using run_command_reachable [OF _ demo_texts]
    by (simp add: demo_at_def) (metis list.set_map list.simps(15) image_empty image_insert list.set(1))
qed


text \<open>The bodies on the demo jobs.\<close>

lemma demo_actor_types [simp]: "actor_type demo_human = Human" "actor_type demo_system = System"
  "actor_type demo_worker = Agent" "actor_id demo_worker = ''w''" "actor_type demo_reviewer = Agent"
  "actor_id demo_reviewer = ''v''"
  by (simp_all add: demo_human_def demo_system_def demo_worker_def demo_reviewer_def)

lemma demo_validated_step:
  "rbind (command_body demo_env demo_registry (demo_call ''command-2'' demo_human 0 2) Validate_Job demo_created)
     (\<lambda>(a, et, data). Inr a) = Inr demo_validated"
  by code_simp

lemma demo_queued_step:
  "rbind (command_body demo_env demo_registry (demo_call ''command-3'' demo_system 1 3) Queue_Job demo_validated)
     (\<lambda>(a, et, data). Inr a) = Inr demo_queued"
  by code_simp

lemma demo_running_step:
  "rbind (command_body demo_env demo_registry (demo_call ''command-4'' demo_worker 2 4) Start_Job demo_queued)
     (\<lambda>(a, et, data). Inr a) = Inr demo_running"
  by code_simp

lemma demo_awaiting_step:
  "rbind (command_body demo_env demo_registry (demo_call ''command-5'' demo_worker 3 5) (Submit_Result demo_result) demo_running)
     (\<lambda>(a, et, data). Inr a) = Inr demo_awaiting"
  by code_simp

lemma demo_reviewed_step:
  "rbind (command_body demo_env demo_registry (demo_call ''command-6'' demo_reviewer 4 6) (Record_Review demo_review) demo_awaiting)
     (\<lambda>(a, et, data). Inr a) = Inr demo_reviewed"
  by code_simp

lemma demo_approved_step:
  "rbind (command_body demo_env demo_registry (demo_call ''command-7'' demo_human 5 7) (Approve_Job (lit ''fine'')) demo_reviewed)
     (\<lambda>(a, et, data). Inr a) = Inr demo_approved"
  by code_simp

lemma demo_completed_step:
  "rbind (command_body demo_env demo_registry (demo_call ''command-8'' demo_system 6 8) Complete_Job demo_approved)
     (\<lambda>(a, et, data). Inr a) = Inr demo_completed"
  by code_simp

text \<open>The stores of the run.\<close>

definition demo_script :: "(command_call \<times> atlas_command) list" where
  "demo_script =
     [(demo_call ''command-1'' demo_human 0 1, Create_Job demo_spec),
      (demo_call ''command-2'' demo_human 0 2, Validate_Job),
      (demo_call ''command-3'' demo_system 1 3, Queue_Job),
      (demo_call ''command-4'' demo_worker 2 4, Start_Job),
      (demo_call ''command-5'' demo_worker 3 5, Submit_Result demo_result),
      (demo_call ''command-6'' demo_reviewer 4 6, Record_Review demo_review),
      (demo_call ''command-7'' demo_human 5 7, Approve_Job (lit ''fine'')),
      (demo_call ''command-8'' demo_system 6 8, Complete_Job)]"

fun run_script :: "env \<Rightarrow> agent_registry \<Rightarrow> atlas_db \<Rightarrow> (command_call \<times> atlas_command) list \<Rightarrow> atlas_db" where
  "run_script E R db [] = db"
| "run_script E R db ((call, cmd) # rest) = run_script E R (snd (run_command E R db call cmd)) rest"

definition demo_db :: "nat \<Rightarrow> atlas_db" where
  "demo_db n = run_script demo_env demo_registry empty_db (take n demo_script)"

lemma run_script_append:
  "run_script E R db (xs @ ys) = run_script E R (run_script E R db xs) ys"
  by (induction E R db xs rule: run_script.induct) simp_all

lemma demo_db_step:
  assumes "n < length demo_script" "demo_script ! n = (call, cmd)"
  shows "demo_db (Suc n) = snd (run_command demo_env demo_registry (demo_db n) call cmd)"
  using assms by (simp add: demo_db_def take_Suc_conv_app_nth run_script_append)

lemma demo_call_simps [simp]: "call_command_id (demo_call cid actor expected t) = cid"
  "call_job_id (demo_call cid actor expected t) = 7"
  "call_expected_revision (demo_call cid actor expected t) = expected"
  by (simp_all add: demo_call_def)

lemma demo_job_ids [simp]: "job_id demo_created = 7" "job_id demo_validated = 7" "job_id demo_queued = 7"
  "job_id demo_running = 7" "job_id demo_awaiting = 7" "job_id demo_reviewed = 7" "job_id demo_approved = 7"
  "revision demo_created = 0" "revision demo_validated = 1" "revision demo_queued = 2"
  "revision demo_running = 3" "revision demo_awaiting = 4" "revision demo_reviewed = 5"
  "revision demo_approved = 6"
  by (simp_all add: demo_jobs)

lemma demo_command_ids [simp]: "valid_command_id ''command-2''" "valid_command_id ''command-3''"
  "valid_command_id ''command-4''" "valid_command_id ''command-5''" "valid_command_id ''command-6''"
  "valid_command_id ''command-7''" "valid_command_id ''command-8''"
  by code_simp+

lemma demo_1: "demo_at [''command-1''] demo_created (demo_db 1)"
  using demo_start by (simp add: demo_db_def demo_script_def)

lemma demo_2: "demo_at [''command-1'', ''command-2''] demo_validated (demo_db 2)"
  using demo_step [OF demo_1 demo_validated_step] demo_db_step [of 1]
  by (simp add: demo_script_def numeral_2_eq_2)

lemma demo_3: "demo_at [''command-1'', ''command-2'', ''command-3''] demo_queued (demo_db 3)"
  using demo_step [OF demo_2 demo_queued_step] demo_db_step [of 2]
  by (simp add: demo_script_def eval_nat_numeral)

lemma demo_4:
  "demo_at [''command-1'', ''command-2'', ''command-3'', ''command-4''] demo_running (demo_db 4)"
  using demo_step [OF demo_3 demo_running_step] demo_db_step [of 3]
  by (simp add: demo_script_def eval_nat_numeral)

lemma demo_5:
  "demo_at [''command-1'', ''command-2'', ''command-3'', ''command-4'', ''command-5'']
     demo_awaiting (demo_db 5)"
  using demo_step [OF demo_4 demo_awaiting_step] demo_db_step [of 4]
  by (simp add: demo_script_def eval_nat_numeral)

lemma demo_6:
  "demo_at [''command-1'', ''command-2'', ''command-3'', ''command-4'', ''command-5'', ''command-6'']
     demo_reviewed (demo_db 6)"
  using demo_step [OF demo_5 demo_reviewed_step] demo_db_step [of 5]
  by (simp add: demo_script_def eval_nat_numeral)

lemma demo_7:
  "demo_at [''command-1'', ''command-2'', ''command-3'', ''command-4'', ''command-5'', ''command-6'',
     ''command-7''] demo_approved (demo_db 7)"
  using demo_step [OF demo_6 demo_approved_step] demo_db_step [of 6]
  by (simp add: demo_script_def eval_nat_numeral)

lemma demo_8:
  "demo_at [''command-1'', ''command-2'', ''command-3'', ''command-4'', ''command-5'', ''command-6'',
     ''command-7'', ''command-8''] demo_completed (demo_db 8)"
  using demo_step [OF demo_7 demo_completed_step] demo_db_step [of 7]
  by (simp add: demo_script_def eval_nat_numeral)

lemma demo_atD:
  assumes "demo_at cids j db"
  shows "atlas_reachable (command_texts_fixed demo_env) demo_env demo_registry \<lparr>sys_db = db, sys_pending = []\<rparr>"
    "job_row_of demo_env j \<in> set (db_jobs (sys_db \<lparr>sys_db = db, sys_pending = []\<rparr>))"
    "db_wf db" "rows_good demo_env demo_registry db"
    "db_jobs db = [job_row_of demo_env j]" "map cmd_id (db_commands db) = cids"
  using assms reachable_inv by (fastforce simp: demo_at_def sys_inv_def)+

lemma demo_8_run: "demo_db 8 = snd (run_command demo_env demo_registry (demo_db 7)
    (demo_call ''command-8'' demo_system 6 8) Complete_Job)"
  using demo_db_step [of 7] by (simp add: demo_script_def eval_nat_numeral)

lemma demo_8_step: "(atlas_step (command_texts_fixed demo_env) demo_env demo_registry)\<^sup>*\<^sup>* \<lparr>sys_db = demo_db 7, sys_pending = []\<rparr>
    \<lparr>sys_db = demo_db 8, sys_pending = []\<rparr>"
  using run_command_steps [OF demo_texts, of demo_registry "\<lparr>sys_db = demo_db 7, sys_pending = []\<rparr>"
      "demo_call ''command-8'' demo_system 6 8" Complete_Job]
  by (simp add: demo_8_run)

lemma demo_find: "demo_at cids j db \<Longrightarrow> c \<notin> set cids \<Longrightarrow> find_command_row db c = None"
  by (auto simp: demo_at_def find_command_row_def find_None_iff)

end
