(* ===== verification/AtlasProperties.thy ===== *)
theory AtlasProperties
  imports AtlasDemo
begin

text \<open>
  The correctness properties of the Atlas control plane, over every interleaving of planned and
  committed commands (\<open>atlas_reachable\<close>). As far as they speak of reachable states they hold while every
  submitted command has its texts in NFC (\<open>command_texts_fixed\<close>): the store normalises after
  validation, and \<open>atlas_nfc_unreadable\<close> at the end of the file shows what another text can do.
\<close>

section \<open>Integrity of the store\<close>

text \<open>
  C5: As long as every submitted command has its texts in NFC: whatever the processes sharing the store
  do and in whatever order their transactions run, the store passes the integrity check of the code,
  and every job row can be read back and is valid. Without that condition the code does store rows it
  cannot read back (\<open>atlas_nfc_unreadable\<close>).
\<close>

theorem atlas_store_integrity:
  assumes "atlas_reachable (command_texts_fixed E) E R s"
  shows "integrity_check True (sys_db s) = Inr ()
    \<and> (\<forall>r \<in> set (db_jobs (sys_db s)). get_job (sys_db s) (row_job_id r) = Inr (row_record r)
         \<and> job_valid (row_record r))"
proof -
  have wf: "db_wf (sys_db s)" using reachable_inv [OF assms] by (simp add: sys_inv_def)
  with integrity_check_wf get_job_row row_facts(5) show ?thesis by blast
qed

theorem atlas_store_integrity_witness:
  "integrity_check True (demo_db 8) = Inr () \<and> get_job (demo_db 8) 7 = Inr demo_completed"
  using atlas_store_integrity [OF demo_atD(1) [OF demo_8]] demo_8
  by (simp add: demo_at_def demo_completed_def demo_jobs)

text \<open>
  C32: Over submitted texts in NFC the audit trail of every job is complete: reading it yields one event per revision, from
  creation on, each event leaves the status where the next one starts, every change of status is an
  edge of the lifecycle graph, and the last event carries the status of the job.
\<close>

theorem atlas_audit_trail:
  assumes "atlas_reachable (command_texts_fixed E) E R s" "r \<in> set (db_jobs (sys_db s))"
  shows "\<exists>es. list_audit_events (sys_db s) (row_job_id r) = Inr es \<and> lifecycle_walk 0 None es
    \<and> int (length es) = revision (row_record r) + 1
    \<and> final_status None es = Some (job_status (row_record r))"
proof -
  have wf: "db_wf (sys_db s)" using reachable_inv [OF assms(1)] by (simp add: sys_inv_def)
  with assms(2) have "job_row_wf (sys_db s) r" by (simp add: db_wf_def)
  with list_audit_events_wf [OF wf assms(2)] row_facts [OF wf assms(2)] show ?thesis
    by (auto simp: job_row_wf_def)
qed

theorem atlas_audit_trail_witness:
  "\<exists>es. list_audit_events (demo_db 8) 7 = Inr es \<and> lifecycle_walk 0 None es \<and> length es = 8"
  using atlas_audit_trail [OF demo_atD(1,2) [OF demo_8]]
  by (auto simp: demo_completed_def demo_jobs)

section \<open>Governance\<close>

text \<open>
  C6: Over submitted texts in NFC no job is approved or completed without its governance: the registry's policy allowed it, its
  assigned reviewer, who is registered with \<open>review.submit\<close>, gave a passed review of a recorded result,
  a human approved it, and a patch result builds on the revision the job was created for.
\<close>

theorem atlas_approval_governed:
  assumes "atlas_reachable (command_texts_fixed E) E R s" "r \<in> set (db_jobs (sys_db s))"
    "job_status (row_record r) \<in> {APPROVED, COMPLETED}"
  shows "\<exists>rv ap res. job_review (row_record r) = Some rv \<and> review_verdict rv = Review_Passed
    \<and> reviewer_of_review rv = job_reviewer_agent_id (row_record r)
    \<and> job_approval (row_record r) = Some ap \<and> approval_decision ap = Decision_Approved
    \<and> actor_type (decided_by ap) = Human \<and> job_result (row_record r) = Some res
    \<and> (\<forall>p. res = Patch_Result p \<longrightarrow> PATCH_CREATE \<in> set (job_capabilities (row_record r))
         \<and> base_sha p = commit_sha (job_source (row_record r)))
    \<and> validate_job_policy R (service_spec (row_record r)) = Inr ()"
proof -
  have inv: "db_wf (sys_db s)" "governed R (row_record r)"
    using reachable_inv [OF assms(1)] assms(2) by (auto simp: sys_inv_def rows_good_def)
  have "job_result (row_record r) \<noteq> None"
    using row_facts(5) [OF inv(1) assms(2)] assms(3)
    by (auto simp: job_valid_def job_lifecycle_error_def result_states_def split: if_splits)
  with inv(2) assms(3) show ?thesis
    by (auto simp: governed_def human_approved_def policy_allows_def)
qed

theorem atlas_approval_governed_witness:
  "\<exists>rv. job_review demo_completed = Some rv \<and> review_verdict rv = Review_Passed
     \<and> validate_job_policy demo_registry (service_spec demo_completed) = Inr ()"
  using atlas_approval_governed [OF demo_atD(1,2) [OF demo_8]]
  by (auto simp: demo_completed_def demo_jobs)

text \<open>
  A completed or failed job is final: however the system goes on, its row never changes.
\<close>

theorem atlas_terminal_jobs_final:
  assumes "atlas_reachable (command_texts_fixed E) E R s" "(atlas_step (command_texts_fixed E) E R)\<^sup>*\<^sup>* s s'" "r \<in> set (db_jobs (sys_db s))"
    "terminal_status (job_status (row_record r))"
  shows "get_job (sys_db s') (row_job_id r) = Inr (row_record r)"
proof -
  have inv: "sys_inv E R s" "sys_inv E R s'"
    using reachable_inv [OF assms(1)] atlas_steps_inv [OF assms(2)] by auto
  then have wf: "db_wf (sys_db s)" "db_wf (sys_db s')" by (auto simp: sys_inv_def)
  obtain r' where "r' \<in> set (db_jobs (sys_db s'))" "row_evolves r r'"
    using atlas_steps_evolve [OF assms(2) inv(1) assms(3)] by blast
  with assms(4) row_facts(3) [OF wf(1) assms(3)] get_job_row [OF wf(2)] show ?thesis
    by (auto simp: row_evolves_def)
qed

theorem atlas_terminal_jobs_final_witness:
  "get_job (demo_db 8) 7 = Inr demo_completed"
  using atlas_terminal_jobs_final [OF demo_atD(1) [OF demo_8] rtranclp.rtrancl_refl, of "job_row_of demo_env demo_completed"]
    demo_8 by (simp add: demo_at_def terminal_status_def demo_completed_def demo_jobs)

text \<open>
  A job keeps its identity: over any further steps it stays in the store, its request, source,
  budget, capabilities, agents and creation time do not change, its revision does not decrease and its
  status only moves along the lifecycle graph.
\<close>

theorem atlas_jobs_evolve:
  assumes "atlas_reachable (command_texts_fixed E) E R s" "(atlas_step (command_texts_fixed E) E R)\<^sup>*\<^sup>* s s'" "r \<in> set (db_jobs (sys_db s))"
  shows "\<exists>r' \<in> set (db_jobs (sys_db s')). job_frame (row_record r) (row_record r')
    \<and> revision (row_record r) \<le> revision (row_record r')
    \<and> lifecycle_reaches (job_status (row_record r)) (job_status (row_record r'))"
proof -
  have inv: "sys_inv E R s" "sys_inv E R s'"
    using reachable_inv [OF assms(1)] atlas_steps_inv [OF assms(2)] by auto
  then have wf: "db_wf (sys_db s)" "db_wf (sys_db s')" by (auto simp: sys_inv_def)
  obtain r' where "r' \<in> set (db_jobs (sys_db s'))" "row_evolves r r'"
    using atlas_steps_evolve [OF assms(2) inv(1) assms(3)] by blast
  with row_facts [OF wf(1) assms(3)] row_facts [OF wf(2)] show ?thesis
    by (auto simp: row_evolves_def intro!: bexI [of _ r'])
qed

theorem atlas_jobs_evolve_witness:
  "\<exists>r' \<in> set (db_jobs (demo_db 8)). job_frame demo_approved (row_record r')
     \<and> lifecycle_reaches APPROVED (job_status (row_record r'))"
  using atlas_jobs_evolve [OF demo_atD(1) [OF demo_7] demo_8_step demo_atD(2) [OF demo_7]]
  by (fastforce simp: demo_approved_def)

text \<open>
  Events and command records are append-only: later stores extend earlier ones.
\<close>

theorem atlas_append_only:
  assumes "atlas_reachable (command_texts_fixed E) E R s" "(atlas_step (command_texts_fixed E) E R)\<^sup>*\<^sup>* s s'"
  shows "(\<exists>es. db_events (sys_db s') = db_events (sys_db s) @ es)
    \<and> (\<exists>cs. db_commands (sys_db s') = db_commands (sys_db s) @ cs)"
  using atlas_steps_extend [OF assms(2) reachable_inv [OF assms(1)]] by (simp add: db_extends_def)

theorem atlas_append_only_witness:
  "\<exists>es. db_events (demo_db 8) = db_events (demo_db 7) @ es"
  using atlas_append_only [OF demo_atD(1) [OF demo_7] demo_8_step] by simp


section \<open>Commands\<close>

lemma scalar_lit: "list_all scalar (lit s)"
proof -
  have "scalar (of_char c)" for c :: char
  proof -
    have "(of_char c :: nat) < 256" by (metis of_char_mod_256 mod_less_divisor zero_less_numeral)
    then show ?thesis unfolding scalar_def by linarith
  qed
  then show ?thesis by (induction s) (simp_all add: lit_def)
qed

text \<open>
  C7: Over submitted texts in NFC no update is lost: of two requests computed from the same job, once the first is committed the
  second is refused with \<open>ConcurrencyError\<close> in every later state and leaves the store as it is, unless
  its command id has been used, in which case the stored answer is returned.
\<close>

theorem atlas_no_lost_update:
  assumes "atlas_reachable (command_texts_fixed E) E R s" "w1 \<in> set (sys_pending s)" "w2 \<in> set (sys_pending s)"
    "wr_before w1 = Some b" "wr_before w2 = Some b"
    "find_command_row (sys_db s) (command_id (wr_command w1)) = None"
    "commit_write E (sys_db s) w1 = (Inr j, db1)"
    "(atlas_step (command_texts_fixed E) E R)\<^sup>*\<^sup>* (s\<lparr>sys_db := db1, sys_pending := remove1 w1 (sys_pending s)\<rparr>) s'"
    "find_command_row (sys_db s') (command_id (wr_command w2)) = None"
  shows "commit_write E (sys_db s') w2 = (Inl Concurrency_Error, sys_db s')"
proof -
  let ?t = "s\<lparr>sys_db := db1, sys_pending := remove1 w1 (sys_pending s)\<rparr>"
  have inv: "sys_inv E R s" using reachable_inv assms(1) by blast
  have t: "sys_inv E R ?t"
    using atlas_step_inv [OF atlas_step.commit [OF assms(2), of "command_texts_fixed E" E R] inv] assms(7) by simp
  have w: "write_ok E w1" "write_ok E w2" "db_wf (sys_db s)" "db_wf (sys_db s')"
    using inv assms(2,3) atlas_steps_inv [OF assms(8) t] by (auto simp: sys_inv_def pending_ok_def)
  have "\<exists>r1 \<in> set (db_jobs db1). row_job_id r1 = job_id b \<and> revision b < row_revision r1"
  proof (cases rule: commit_write_cases [of E "sys_db s" w1])
    case refused
    then have "db1 = sys_db s" using assms(7) by simp
    with commit_write_new(2) [OF assms(7,6)] show ?thesis by simp
  next
    case (updated b' r)
    then have "job_row_of E (wr_after w1) \<in> set (db_jobs db1)"
      using assms(4,7) by (auto simp: set_update_where intro!: bexI [of _ r])
    with w(1) assms(4) show ?thesis
      by (intro bexI [of _ "job_row_of E (wr_after w1)"]) (auto simp: write_ok_def)
  qed (use assms(4) in simp)
  then obtain r1 where r1: "r1 \<in> set (db_jobs (sys_db ?t))" "row_job_id r1 = job_id b"
      "revision b < row_revision r1" by auto
  obtain r2 where "r2 \<in> set (db_jobs (sys_db s'))" "row_evolves r1 r2"
    using atlas_steps_evolve [OF assms(8) t r1(1)] by blast
  with r1 show ?thesis
    by (intro stale_commit [OF w(4) w(2) assms(5) _ _ _ assms(9), of r2]) (auto simp: row_evolves_def)
qed

theorem atlas_no_lost_update_witness:
  "\<exists>w. plan_command demo_env demo_registry (demo_db 7) (demo_call ''command-9'' demo_system 6 9) Complete_Job
       = Inr (Write w)
     \<and> commit_write demo_env (demo_db 8) w = (Inl Concurrency_Error, demo_db 8)"
proof -
  let ?c8 = "demo_call ''command-8'' demo_system 6 8" and ?c9 = "demo_call ''command-9'' demo_system 6 9"
  let ?s = "\<lparr>sys_db = demo_db 7, sys_pending = []\<rparr>"
  note at = demo_atD [OF demo_7]
  have ids: "find_command_row (demo_db 7) ''command-8'' = None" "find_command_row (demo_db 7) ''command-9'' = None"
      "find_command_row (demo_db 8) ''command-9'' = None"
    using demo_find [OF demo_7] demo_find [OF demo_8] by auto
  have b8: "command_body demo_env demo_registry ?c8 Complete_Job demo_approved
      = Inr (demo_completed, JOB_COMPLETED, Transition_Data (lit ''Approved reviewed result marked complete.''))"
    by code_simp
  have b9: "command_body demo_env demo_registry ?c9 Complete_Job demo_approved
      = Inr (demo_completed\<lparr>terminal_at := Some 9, updated_at := 9\<rparr>, JOB_COMPLETED,
          Transition_Data (lit ''Approved reviewed result marked complete.''))"
    by code_simp
  have v: "valid_command_id ''command-9''" by code_simp
  have to: "addressed (demo_db 7) ?c8 Complete_Job demo_approved" "addressed (demo_db 7) ?c9 Complete_Job demo_approved"
    using ids at(5) v by (simp_all add: addressed_def call_admitted_def)
  obtain w8 w9 where w8: "plan_command demo_env demo_registry (demo_db 7) ?c8 Complete_Job = Inr (Write w8)"
      "wr_before w8 = Some demo_approved" "command_id (wr_command w8) = ''command-8''"
    and w9: "plan_command demo_env demo_registry (demo_db 7) ?c9 Complete_Job = Inr (Write w9)"
      "wr_before w9 = Some demo_approved" "command_id (wr_command w9) = ''command-9''"
    using accepted_plan [OF at(3,4) to(1) b8 demo_texts] accepted_plan [OF at(3,4) to(2) b9 demo_texts]
    by (simp add: service_command_def del: plan_command.simps)
  let ?t = "?s\<lparr>sys_pending := [w9, w8]\<rparr>"
  have "atlas_step (command_texts_fixed demo_env) demo_env demo_registry ?s (?s\<lparr>sys_pending := [w8]\<rparr>)"
    using atlas_step.plan [of demo_env demo_registry ?s ?c8 Complete_Job w8 "command_texts_fixed demo_env", OF _ demo_texts] w8(1)
    by (simp del: plan_command.simps)
  moreover have "atlas_step (command_texts_fixed demo_env) demo_env demo_registry (?s\<lparr>sys_pending := [w8]\<rparr>) ?t"
    using atlas_step.plan [of demo_env demo_registry "?s\<lparr>sys_pending := [w8]\<rparr>" ?c9 Complete_Job w9 "command_texts_fixed demo_env", OF _ demo_texts] w9(1)
    by (simp del: plan_command.simps)
  ultimately have reach: "atlas_reachable (command_texts_fixed demo_env) demo_env demo_registry ?t"
    using at(1) unfolding atlas_reachable_def by (meson rtranclp.rtrancl_into_rtrancl)
  have run: "commit_write demo_env (demo_db 7) w8 = (Inr demo_completed, demo_db 8)"
    using w8(1) demo_step_answer [OF demo_7 demo_completed_step] demo_8_run
    by (simp add: run_command_def run_plan_def prod_eq_iff del: plan_command.simps)
  have "commit_write demo_env (demo_db 8) w9 = (Inl Concurrency_Error, demo_db 8)"
    using atlas_no_lost_update [OF reach, of w8 w9 demo_approved demo_completed "demo_db 8"
        "\<lparr>sys_db = demo_db 8, sys_pending = remove1 w8 [w9, w8]\<rparr>"] w8 w9 ids run
    by simp
  with w9(1) show ?thesis by blast
qed

text \<open>
  C31: Commands whose texts are in NFC are idempotent, in a store that took only such commands: repeating
  a command that succeeded, in any later state, with the same command id and request (the clock and
  fresh ids may differ), returns the same job and changes nothing. (With another text the replay answers
  the normalised job that was stored, or fails to read it.)
\<close>

theorem atlas_replay_idempotent:
  assumes "atlas_reachable (command_texts_fixed E) E R s" "command_texts_fixed E cmd"
    "run_command E R (sys_db s) call cmd = (Inr j, db1)"
    "(atlas_step (command_texts_fixed E) E R)\<^sup>*\<^sup>* (s\<lparr>sys_db := db1\<rparr>) s'"
    "call_command_id call' = call_command_id call" "call_actor call' = call_actor call"
    "call_job_id call' = call_job_id call" "call_expected_revision call' = call_expected_revision call"
  shows "run_command E R (sys_db s') call' cmd = (Inr j, sys_db s')"
proof -
  have inv: "sys_inv E R s" using reachable_inv assms(1) by blast
  have "(atlas_step (command_texts_fixed E) E R)\<^sup>*\<^sup>* s (s\<lparr>sys_db := db1\<rparr>)"
    using run_command_steps [OF assms(2), of R s call] assms(3) by simp
  then have t: "sys_inv E R (s\<lparr>sys_db := db1\<rparr>)" using atlas_steps_inv inv by blast
  have ext: "db_extends db1 (sys_db s')" using atlas_steps_extend [OF assms(4) t] by simp
  have "db_wf (sys_db s)" "rows_good E R (sys_db s)" using inv by (auto simp: sys_inv_def)
  note run = run_command_recorded [OF assms(3,2) this]
  have "command_hash E call' cmd = command_hash E call cmd" "call_admitted call' cmd"
    using run(1) assms(5-8) by (auto simp: command_hash_def command_request_def call_payload_def call_admitted_def)
  then have "plan_command E R (sys_db s') call' cmd = Inr (Replay j)"
    using plan_command_recorded [of call' cmd] recorded_extends [OF run(2) ext] assms(5) by simp
  then show ?thesis by (simp add: run_command_def run_plan_def)
qed

theorem atlas_replay_idempotent_witness:
  "run_command demo_env demo_registry (demo_db 8) (demo_call ''command-7'' demo_human 5 99) (Approve_Job (lit ''fine''))
     = (Inr demo_approved, demo_db 8)"
proof -
  let ?call = "demo_call ''command-7'' demo_human 5 7"
  have db7: "demo_db 7 = snd (run_command demo_env demo_registry (demo_db 6) ?call (Approve_Job (lit ''fine'')))"
    using demo_db_step [of 6] by (simp add: demo_script_def eval_nat_numeral)
  have "run_command demo_env demo_registry (sys_db \<lparr>sys_db = demo_db 6, sys_pending = []\<rparr>) ?call
      (Approve_Job (lit ''fine'')) = (Inr demo_approved, demo_db 7)"
    using demo_step_answer [OF demo_6 demo_approved_step] by (simp add: db7 prod_eq_iff)
  from atlas_replay_idempotent [OF demo_atD(1) [OF demo_6] demo_texts this,
      of "\<lparr>sys_db = demo_db 8, sys_pending = []\<rparr>" "demo_call ''command-7'' demo_human 5 99"]
  show ?thesis using demo_8_step by (simp add: demo_call_def)
qed

text \<open>
  A command id names one request: reusing it for a different one is refused with
  \<open>IdempotencyConflictError\<close> and changes nothing, unless the two requests collide under SHA-256.
\<close>

theorem atlas_command_id_reuse:
  assumes "atlas_reachable (command_texts_fixed E) E R s" "command_texts_fixed E cmd"
    "run_command E R (sys_db s) call cmd = (Inr j, db1)"
    "(atlas_step (command_texts_fixed E) E R)\<^sup>*\<^sup>* (s\<lparr>sys_db := db1\<rparr>) s'"
    "call_command_id call' = call_command_id call" "call_admitted call' cmd'"
    "v = normalize_json (env_nfc E) (command_request E call cmd)"
    "v' = normalize_json (env_nfc E) (command_request E call' cmd')"
    "scalar_json v" "scalar_json v'" "sort_json v \<noteq> sort_json v'"
  shows "run_command E R (sys_db s') call' cmd' = (Inl Idempotency_Conflict, sys_db s')
    \<or> (\<exists>t t'. t \<noteq> t' \<and> env_sha256 E t = env_sha256 E t')"
proof -
  have inv: "sys_inv E R s" using reachable_inv assms(1) by blast
  have "(atlas_step (command_texts_fixed E) E R)\<^sup>*\<^sup>* s (s\<lparr>sys_db := db1\<rparr>)"
    using run_command_steps [OF assms(2), of R s call] assms(3) by simp
  then have t: "sys_inv E R (s\<lparr>sys_db := db1\<rparr>)" using atlas_steps_inv inv by blast
  have ext: "db_extends db1 (sys_db s')" using atlas_steps_extend [OF assms(4) t] by simp
  have "db_wf (sys_db s)" "rows_good E R (sys_db s)" using inv by (auto simp: sys_inv_def)
  note run = run_command_recorded [OF assms(3,2) this]
  obtain c where c: "find_command_row (sys_db s') (call_command_id call') = Some c"
      "cmd_request_sha256 c = command_hash E call cmd"
    using recorded_extends [OF run(2) ext] assms(5) by (auto simp: recorded_def run_simps)
  have texts: "canonical_json (env_nfc E) (command_request E call cmd)
      \<noteq> canonical_json (env_nfc E) (command_request E call' cmd')"
    using assms(7-11) canonical_json_eq_iff by blast
  show ?thesis
  proof (cases "command_hash E call cmd = command_hash E call' cmd'")
    case True
    with texts show ?thesis by (auto simp: command_hash_def canonical_sha256_def)
  next
    case False
    then have "plan_command E R (sys_db s') call' cmd' = Inl Idempotency_Conflict"
      using plan_command_conflict [OF c(1) _ assms(6)] c(2) by simp
    then show ?thesis by (simp add: run_command_def run_plan_def)
  qed
qed

lemmas request_texts = command_request_def request_json_def obj_def jstr_def scalar_lit
  call_payload_def actor_json_def

theorem atlas_command_id_reuse_witness:
  "run_command demo_env demo_registry (demo_db 8) (demo_call ''command-8'' demo_system 6 8) Queue_Job
     = (Inl Idempotency_Conflict, demo_db 8)"
proof -
  let ?call = "demo_call ''command-8'' demo_system 6 8"
  have run: "run_command demo_env demo_registry (sys_db \<lparr>sys_db = demo_db 7, sys_pending = []\<rparr>) ?call Complete_Job
      = (Inr demo_completed, demo_db 8)"
    using demo_step_answer [OF demo_7 demo_completed_step] by (simp add: demo_8_run prod_eq_iff)
  have v: "scalar_json (normalize_json (env_nfc demo_env) (command_request demo_env ?call Complete_Job))"
      "scalar_json (normalize_json (env_nfc demo_env) (command_request demo_env ?call Queue_Job))"
      "sort_json (normalize_json (env_nfc demo_env) (command_request demo_env ?call Complete_Job))
        \<noteq> sort_json (normalize_json (env_nfc demo_env) (command_request demo_env ?call Queue_Job))"
    subgoal by (simp add: request_texts)
    subgoal by (simp add: request_texts)
    subgoal by code_simp
    done
  have a: "call_admitted ?call Queue_Job" by (simp add: call_admitted_def)
  from atlas_command_id_reuse [OF demo_atD(1) [OF demo_7] demo_texts run rtranclp.rtrancl_refl _ _ refl refl v, OF _ a]
  show ?thesis by simp
qed

section \<open>Leases\<close>

text \<open>
  C33: Over submitted texts in NFC a running job is leased to its assigned agent for exactly its budgeted duration, and until the
  lease has expired no recovery command changes the store.
\<close>

theorem atlas_lease_protected:
  assumes "atlas_reachable (command_texts_fixed E) E R s" "r \<in> set (db_jobs (sys_db s))" "job_status (row_record r) = RUNNING"
  shows "\<exists>l. active_execution (row_record r) = Some l \<and> claimed_by l = job_agent_id (row_record r)
    \<and> lease_expires_at l = lease_started_at l + max_duration_seconds (job_budget (row_record r)) * second
    \<and> (\<forall>call t. call_job_id call = job_id (row_record r) \<longrightarrow> call_clock call = Aware t
         \<longrightarrow> t < lease_expires_at l
         \<longrightarrow> snd (run_command E R (sys_db s) call Recover_Expired_Job) = sys_db s)"
proof -
  let ?j = "row_record r"
  have inv: "db_wf (sys_db s)" "governed R ?j"
    using reachable_inv [OF assms(1)] assms(2) by (auto simp: sys_inv_def rows_good_def)
  have "active_execution ?j \<noteq> None"
    using row_facts(5) [OF inv(1) assms(2)] assms(3)
    by (auto simp: job_valid_def job_lifecycle_error_def split: if_splits)
  then obtain l where l: "active_execution ?j = Some l" by blast
  have get: "get_job (sys_db s) (job_id ?j) = Inr ?j"
    using get_job_row [OF inv(1) assms(2)] row_facts(1) [OF inv(1) assms(2)] by simp
  have "snd (run_command E R (sys_db s) call Recover_Expired_Job) = sys_db s"
    if "call_job_id call = job_id ?j" "call_clock call = Aware t" "t < lease_expires_at l" for call t
  proof -
    have "\<exists>e. recover_body call ?j = Inl e"
      using that l by (cases "recover_body call ?j") (auto simp: recover_body_def rbind_Inr_iff run_simps)
    then have "\<nexists>w. plan_command E R (sys_db s) call Recover_Expired_Job = Inr (Write w)"
      using that(1) get
      by (auto simp: handle_def prepare_def rbind_Inr_iff Let_def split: option.splits)
    then show ?thesis
      by (auto simp: run_command_def run_plan_def simp del: plan_command.simps split: sum.splits plan.splits)
  qed
  with l inv(2) show ?thesis by (auto simp: governed_def)
qed

theorem atlas_lease_protected_witness:
  "\<exists>l. active_execution demo_running = Some l \<and> claimed_by l = ''w''
     \<and> lease_expires_at l = lease_started_at l + 60000000
     \<and> (\<forall>t < lease_expires_at l. snd (run_command demo_env demo_registry (demo_db 4)
          (demo_call ''command-9'' demo_system 3 t) Recover_Expired_Job) = demo_db 4)"
  using atlas_lease_protected [OF demo_atD(1,2) [OF demo_4]]
  by (fastforce simp: demo_running_def demo_jobs demo_budget_def second_def)


section \<open>Progress\<close>

text \<open>
  C30: Over submitted texts in NFC, this command's included: a command addressed to the current revision of a job, under an unused command id, whose handler
  accepts the job, goes through: the caller gets the handler's job, reading the store gives the same
  job, and exactly one audit event, naming the caller, the command and the change of status, is added.
\<close>

theorem atlas_accepted_command:
  assumes "atlas_reachable (command_texts_fixed E) E R s" "addressed (sys_db s) call cmd j" "command_texts_fixed E cmd"
    "command_body E R call cmd j = Inr (a, etype, data)"
    "event_id (command_event E call j a etype data) \<notin> ev_event_id ` set (db_events (sys_db s))"
  shows "\<exists>db'. run_command E R (sys_db s) call cmd = (Inr a, db') \<and> get_job db' (job_id j) = Inr a
    \<and> db_events db' = db_events (sys_db s) @ [event_row_of (command_event E call j a etype data)]"
proof -
  have inv: "db_wf (sys_db s)" "rows_good E R (sys_db s)"
    using reachable_inv [OF assms(1)] by (auto simp: sys_inv_def)
  obtain db' where db': "run_command E R (sys_db s) call cmd = (Inr a, db')"
      "db_jobs db' = update_where (\<lambda>s. row_job_id s = job_id j) (\<lambda>_. job_row_of E a) (db_jobs (sys_db s))"
      "db_events db' = db_events (sys_db s) @ [event_row_of (command_event E call j a etype data)]"
    using accepted_run [OF inv assms(2,4,3,5)] by metis
  have "sys_inv E R (s\<lparr>sys_db := db'\<rparr>)"
    using atlas_steps_inv [OF run_command_steps [OF assms(3), of R s call] reachable_inv [OF assms(1)]] db'(1)
    by simp
  then have wf: "db_wf db'" by (simp add: sys_inv_def)
  obtain r where r: "r \<in> set (db_jobs (sys_db s))" "row_record r = j" using assms(2) by (auto simp: addressed_def)
  have good: "good_step E R j a etype data"
    using command_body_step [OF assms(4,3)] inv(2) r by (auto simp: rows_good_def)
  have "job_row_of E a \<in> set (db_jobs db')"
    using r row_facts(1) [OF inv(1) r(1)] db'(2) by (auto simp: set_update_where intro!: bexI [of _ r])
  then have "get_job db' (job_id a) = Inr (stored_job E a)"
    using get_job_row [OF wf] by fastforce
  with good db' show ?thesis by (simp add: good_step_def job_frame_def nfc_fixed_stored)
qed

theorem atlas_accepted_command_witness:
  "\<exists>db'. run_command demo_env demo_registry (demo_db 7) (demo_call ''command-8'' demo_system 6 8) Complete_Job
     = (Inr demo_completed, db') \<and> get_job db' 7 = Inr demo_completed"
proof -
  let ?call = "demo_call ''command-8'' demo_system 6 8"
  note at = demo_atD [OF demo_7]
  have b: "command_body demo_env demo_registry ?call Complete_Job demo_approved
      = Inr (demo_completed, JOB_COMPLETED, Transition_Data (lit ''Approved reviewed result marked complete.''))"
    by code_simp
  have to: "addressed (sys_db \<lparr>sys_db = demo_db 7, sys_pending = []\<rparr>) ?call Complete_Job demo_approved"
    using demo_find [OF demo_7, of "''command-8''"] at(5) by (simp add: addressed_def call_admitted_def)
  have "event_id (command_event demo_env ?call demo_approved demo_completed JOB_COMPLETED
      (Transition_Data (lit ''Approved reviewed result marked complete.'')))
    \<notin> ev_event_id ` set (db_events (sys_db \<lparr>sys_db = demo_db 7, sys_pending = []\<rparr>))"
    using demo_7 by (simp add: demo_at_def command_event_def)
  from atlas_accepted_command [OF at(1) to demo_texts b this] show ?thesis by auto
qed

text \<open>
  An approved job can always be completed: the system's command at the current revision, with a clock
  not behind the job, never trips over a validation of the code's own.
\<close>

theorem atlas_approved_completes:
  assumes "atlas_reachable (command_texts_fixed E) E R s" "r \<in> set (db_jobs (sys_db s))" "job_status (row_record r) = APPROVED"
    "actor_type (call_actor call) = System" "call_clock call = Aware t" "updated_at (row_record r) \<le> t"
  shows "\<exists>a. complete_body call (row_record r) = Inr (a, JOB_COMPLETED,
      Transition_Data (lit ''Approved reviewed result marked complete.''))
    \<and> job_status a = COMPLETED \<and> terminal_at a = Some t \<and> job_valid a"
proof -
  let ?j = "row_record r"
  define a where "a = ?j\<lparr>job_status := COMPLETED, terminal_at := Some t, updated_at := t, revision := revision ?j + 1\<rparr>"
  have inv: "db_wf (sys_db s)" "governed R ?j"
    using reachable_inv [OF assms(1)] assms(2) by (auto simp: sys_inv_def rows_good_def)
  have "job_valid ?j" using row_facts(5) [OF inv(1) assms(2)] .
  moreover have "approved_by_record Decision_Approved ?j"
    using inv(2) assms(3) by (auto simp: governed_def human_approved_def approved_by_record_def)
  ultimately have "job_valid a"
    using assms(3,6)
    by (auto simp: a_def job_valid_def job_fields_ok_def job_lifecycle_error_def job_approval_error_def
        result_states_def approved_by_record_def split: if_splits option.splits)
  then have "service_updated ?j t (\<lambda>v. v\<lparr>job_status := COMPLETED, terminal_at := Some t\<rparr>) = Inr a"
    by (simp add: service_updated_Inr a_def)
  then have "complete_body call ?j = Inr (a, JOB_COMPLETED,
      Transition_Data (lit ''Approved reviewed result marked complete.''))"
    using assms(3-6) by (simp add: complete_body_def require_system_def service_now_def require_transition_def)
  with \<open>job_valid a\<close> show ?thesis by (simp add: a_def)
qed

theorem atlas_approved_completes_witness:
  "\<exists>a. complete_body (demo_call ''command-9'' demo_system 6 20) demo_approved = Inr (a, JOB_COMPLETED,
       Transition_Data (lit ''Approved reviewed result marked complete.'')) \<and> terminal_at a = Some 20"
  using atlas_approved_completes [OF demo_atD(1,2) [OF demo_7], of "demo_call ''command-9'' demo_system 6 20" 20]
  by (auto simp: demo_approved_def demo_jobs)

text \<open>
  Every job that is not final can be failed by the system, with any message of the allowed length,
  whatever state it is in.
\<close>

theorem atlas_failure_always_possible:
  assumes "atlas_reachable (command_texts_fixed E) E R s" "r \<in> set (db_jobs (sys_db s))"
    "\<not> terminal_status (job_status (row_record r))"
    "actor_type (call_actor call) = System" "actor_ok (call_actor call)" "short_text message"
    "call_clock call = Aware t" "updated_at (row_record r) \<le> t"
  shows "\<exists>a. fail_body R call c message retryable (row_record r) = Inr (a, JOB_FAILED, Failure_Data c)
    \<and> job_status a = FAILED \<and> active_execution a = None \<and> job_valid a"
proof -
  let ?j = "row_record r"
  define failure where "failure = \<lparr>failure_classification = c, failure_message = message,
                    failure_retryable = retryable, failed_by = call_actor call\<rparr>"
  define last where "last = (case active_execution ?j of
      Some lease \<Rightarrow> Some (execution_id lease) | None \<Rightarrow> last_execution_id ?j)"
  define a where "a = ?j\<lparr>job_status := FAILED, job_failure := Some failure, active_execution := None,
      last_execution_id := last, terminal_at := Some t, updated_at := t, revision := revision ?j + 1\<rparr>"
  have wf: "db_wf (sys_db s)" using reachable_inv [OF assms(1)] by (simp add: sys_inv_def)
  have "failure_ok failure" using assms(5,6) by (simp add: failure_ok_def failure_def)
  moreover from row_facts(5) [OF wf assms(2)] have "job_valid ?j" .
  ultimately have "job_valid a"
    using assms(8)
    by (auto simp: a_def job_valid_def job_fields_ok_def job_lifecycle_error_def job_approval_error_def
        result_states_def split: if_splits)
  then have "service_updated ?j t (\<lambda>v. v\<lparr>job_status := FAILED, job_failure := Some failure,
         active_execution := None, last_execution_id := last, terminal_at := Some t\<rparr>) = Inr a"
    by (simp add: service_updated_Inr a_def)
  moreover have "FAILED \<in> set (valid_transitions (job_status ?j))"
    using assms(3) by (simp add: terminal_status_def)
  ultimately have "fail_body R call c message retryable ?j = Inr (a, JOB_FAILED, Failure_Data c)"
    using assms(4,7,8) \<open>failure_ok failure\<close>
    by (simp add: fail_body_def require_system_def service_now_def require_transition_def failure_def
        last_def Let_def)
  with \<open>job_valid a\<close> show ?thesis by (simp add: a_def)
qed

theorem atlas_failure_always_possible_witness:
  "\<exists>a. fail_body demo_registry (demo_call ''command-9'' demo_system 3 20) TIMEOUT (lit ''late'') True demo_running
      = Inr (a, JOB_FAILED, Failure_Data TIMEOUT) \<and> active_execution a = None"
proof -
  have "actor_ok demo_system" by code_simp
  then show ?thesis
    using atlas_failure_always_possible [OF demo_atD(1,2) [OF demo_4],
        of "demo_call ''command-9'' demo_system 3 20" "lit ''late''" 20 TIMEOUT True]
    by (auto simp: demo_running_def demo_jobs terminal_status_def short_text_def bounded_def)
qed

section \<open>Where NFC breaks the round trip\<close>

text \<open>
  A created job whose texts are no longer valid after NFC (a title at the length limit that NFC
  lengthens) is accepted and stored, but can never be read back: the command answers with the job and
  every later read of it reports a malformed record.
\<close>

theorem atlas_nfc_unreadable:
  assumes "plan_command E R db call (Create_Job spec) = Inr (Write w)"
    "job_id (wr_after w) \<notin> row_job_id ` set (db_jobs db)"
    "job_id (wr_after w) \<notin> ev_job_id ` set (db_events db)"
    "event_id (wr_event w) \<notin> ev_event_id ` set (db_events db)"
    "\<not> job_valid (stored_job E (wr_after w))"
  shows "\<exists>db'. run_command E R db call (Create_Job spec) = (Inr (wr_after w), db')
    \<and> get_job db' (job_id (wr_after w)) = Inl (Atlas_Storage_Error ''Atlas contains a malformed job'')"
proof -
  let ?j = "wr_after w"
  have w: "wr_before w = None" "revision ?j = 0" "event_sequence (wr_event w) = 1"
      "event_job_revision (wr_event w) = 0" "event_job_id (wr_event w) = job_id ?j"
      "command_job_id (wr_command w) = job_id ?j" "response_revision (wr_command w) = 0"
      "find_command_row db (command_id (wr_command w)) = None"
    using assms(1)
    by (auto simp: create_plan_def rbind_Inr_iff Let_def service_command_def new_job_def service_event_def
        check_command_id_def lookup_command_def split: option.splits if_splits)
  let ?db' = "written_db E w (db\<lparr>db_jobs := db_jobs db @ [job_row_of E ?j]\<rparr>)"
  have "command_id (wr_command w) \<notin> cmd_id ` set (db_commands db)"
    using w(8) by (auto simp: find_command_row_def find_None_iff)
  moreover have "(job_id ?j, 1) \<notin> (\<lambda>r. (ev_job_id r, ev_sequence r)) ` set (db_events db)"
    using assms(3) by (auto simp: image_iff)
  ultimately have "write_rows E None ?j (wr_event w) (wr_command w) db = Inr ?db'"
    using w assms(2,4) by (simp add: write_rows_Inr insert_job_Inr written_db_def)
  then have "commit_write E db w = (Inr ?j, ?db')"
    using w by (simp add: commit_write_def store_create_def store_persist_def)
  moreover have "find (\<lambda>r. row_job_id r = job_id ?j) (db_jobs db @ [job_row_of E ?j]) = Some (job_row_of E ?j)"
    using assms(2) by (force simp: find_append split: option.splits dest!: find_Some_mem)
  ultimately show ?thesis
    using assms(1,5)
    by (auto simp: run_command_def run_plan_def get_job_def find_job_row_def job_from_row_def decode_job_def
        simp del: plan_command.simps)
qed


text \<open>U+0958 is a composition exclusion: its NFC is the two code points U+0915 U+093C.\<close>

definition nfc_0958 :: "ustr \<Rightarrow> ustr" where
  "nfc_0958 s = concat (map (\<lambda>c. if c = 0x958 then [0x915, 0x93C] else [c]) s)"

definition long_title_spec :: job_spec where
  "long_title_spec = demo_spec\<lparr>spec_request := (spec_request demo_spec)\<lparr>task_title := replicate 251 0x958\<rparr>\<rparr>"

lemma job_valid_request:
  assumes "job_valid j" "task_ok t"
  shows "job_valid (j\<lparr>job_request := t\<rparr>)"
proof -
  have "job_lifecycle_error (j\<lparr>job_request := t\<rparr>) = job_lifecycle_error j"
    by (simp add: job_lifecycle_error_def job_approval_error_def approved_by_record_def
        split del: if_split cong: if_cong option.case_cong)
  moreover have "job_fields_ok (j\<lparr>job_request := t\<rparr>)"
    using assms by (simp add: job_valid_def job_fields_ok_def)
  ultimately show ?thesis using assms(1) by (simp add: job_valid_def)
qed

lemma demo_task: "job_request demo_created = \<lparr>task_type = ''t'', task_title = lit ''T'',
    task_instructions = lit ''I'', acceptance_criteria = [], task_inputs = []\<rparr>" "valid_identifier ''t''"
  by (simp add: demo_jobs) code_simp

theorem atlas_nfc_unreadable_witness:
  "\<exists>j db'. run_command (demo_env\<lparr>env_nfc := nfc_0958\<rparr>) demo_registry empty_db
       (demo_call ''command-1'' demo_human 0 1) (Create_Job long_title_spec) = (Inr j, db')
     \<and> get_job db' 7 = Inl (Atlas_Storage_Error ''Atlas contains a malformed job'')"
proof -
  let ?E = "demo_env\<lparr>env_nfc := nfc_0958\<rparr>" and ?call = "demo_call ''command-1'' demo_human 0 1"
  let ?j = "new_job ?call long_title_spec 1"
  have j: "?j = demo_created\<lparr>job_request := (job_request demo_created)\<lparr>task_title := replicate 251 0x958\<rparr>\<rparr>"
    by (simp add: demo_created_def new_job_def long_title_spec_def)
  have valid: "job_valid ?j"
    unfolding j
    by (rule job_valid_request)
       (simp_all add: task_ok_def demo_task short_text_def bounded_text_def bounded_def)
  have "length (nfc_0958 (replicate 251 0x958)) = 502"
    by (simp add: nfc_0958_def length_concat sum_list_replicate)
  then have invalid: "\<not> job_valid (stored_job ?E ?j)"
    by (simp add: j job_valid_def job_fields_ok_def task_ok_def short_text_def bounded_def stored_job_def
        job_nfc_def task_nfc_def)
  have c: "call_actor ?call = demo_human" "call_clock ?call = Aware 1" "job_status ?j = CREATED"
      "revision ?j = 0" "job_id ?j = 7" "valid_command_id ''command-1''"
    by (simp_all add: demo_call_def new_job_def) code_simp
  obtain w where w: "plan_command ?E demo_registry empty_db ?call (Create_Job long_title_spec) = Inr (Write w)"
      "wr_after w = ?j"
    by (simp add: create_plan_def c check_command_id_def require_operator_def lookup_command_def
        find_command_row_def empty_db_def service_now_def valid service_event_def event_shape_error_def Let_def)
  from atlas_nfc_unreadable [OF w(1)] w(2) invalid show ?thesis
    by (auto simp: empty_db_def c(5))
qed

end
