(* ===== verification/EngineerModels.thy ===== *)
theory EngineerModels
  imports AtlasModels
begin

text \<open>
  The contracts of the resident Software Engineer (\<open>src/nexus/software_engineer/models.py\<close>): its
  vocabularies, the observations, candidates, risk assessments, gate results, self-reviews, changes,
  approval requests, budgets and the record of a cycle, each with the predicate or error function of
  its validators.

  \<^item> Free text and repository paths are code-point lists (\<open>ustr\<close>), digests and SHAs are strings.
  \<^item> A runtime in seconds is kept as whole microseconds and a cost in dollars as whole millionths,
    the resolution of the code's clock and of its price table; float rounding is not modelled.
\<close>

section \<open>Risk levels and change categories\<close>

datatype risk_level = LOW | MEDIUM | HIGH

fun risk_value :: "risk_level \<Rightarrow> string" where
  "risk_value LOW = ''low''"
| "risk_value MEDIUM = ''medium''"
| "risk_value HIGH = ''high''"

fun rank :: "risk_level \<Rightarrow> nat" where
  "rank LOW = 0"
| "rank MEDIUM = 1"
| "rank HIGH = 2"

fun raised :: "risk_level \<Rightarrow> risk_level" where
  "raised LOW = MEDIUM"
| "raised MEDIUM = HIGH"
| "raised HIGH = HIGH"

text \<open>The order of the levels is the order of their ranks, so \<open>highest\<close> is a maximum.\<close>

instantiation risk_level :: linorder
begin

definition less_eq_risk_level :: "risk_level \<Rightarrow> risk_level \<Rightarrow> bool" where
  "less_eq_risk_level a b \<longleftrightarrow> rank a \<le> rank b"

definition less_risk_level :: "risk_level \<Rightarrow> risk_level \<Rightarrow> bool" where
  "less_risk_level a b \<longleftrightarrow> rank a < rank b"

lemma rank_inj: "rank a = rank b \<Longrightarrow> a = b"
  by (cases a; cases b) simp_all

instance
  by standard (auto simp: less_eq_risk_level_def less_risk_level_def intro: rank_inj)

end

definition highest :: "risk_level list \<Rightarrow> risk_level" where
  "highest levels = foldr max levels LOW"

lemma rank_le_simps [simp]: "LOW \<le> a" "a \<le> HIGH" "max LOW a = a" "max a LOW = a" "max a HIGH = HIGH" "max HIGH a = HIGH"
  by (cases a; simp add: less_eq_risk_level_def max_def)+

lemma level_le_LOW [simp]: "a \<le> LOW \<longleftrightarrow> a = LOW"
  by (cases a) (simp_all add: less_eq_risk_level_def)

lemma raised_above: "a \<le> raised a" "raised a \<noteq> LOW"
  by (cases a; simp add: less_eq_risk_level_def)+

lemma highest_simps [simp]: "highest [] = LOW" "highest (x # xs) = max x (highest xs)"
  by (simp_all add: highest_def)

lemma highest_ge: "x \<in> set xs \<Longrightarrow> x \<le> highest xs"
  by (induction xs) (auto simp: le_max_iff_disj)

datatype change_category =
  DOCUMENTATION_CORRECTION | TEST_REPAIR | MICRO_BUG_FIX | DEFENSIVE_CHECK | FORMATTING
  | TYPE_ANNOTATION | DEAD_CODE_REMOVAL | MICRO_REFACTOR
  | BEHAVIOR_CHANGE | REFACTOR | DEPENDENCY_UPDATE | PERFORMANCE_CHANGE | PROMPT_CHANGE
  | TOOL_SELECTION_CHANGE | EVALUATOR_CHANGE | PERSISTENT_STATE_CHANGE | MODEL_BEHAVIOR_CHANGE
  | API_CHANGE
  | AUTHENTICATION | AUTHORIZATION | SECRETS | SECURITY_BOUNDARY | DATA_MIGRATION | SCHEMA_CHANGE
  | INFRASTRUCTURE | DEPLOYMENT_CONFIGURATION | SPENDING_CONTROL | DATA_DELETION | AUTONOMY_LIMIT
  | APPROVAL_POLICY | TOOL_ACCESS_EXPANSION | SELF_GOVERNANCE | BENCHMARK_THRESHOLD
  | SAFETY_CONTROL | UNKNOWN_CATEGORY

fun category_value :: "change_category \<Rightarrow> string" where
  "category_value DOCUMENTATION_CORRECTION = ''documentation_correction''"
| "category_value TEST_REPAIR = ''test_repair''"
| "category_value MICRO_BUG_FIX = ''micro_bug_fix''"
| "category_value DEFENSIVE_CHECK = ''defensive_check''"
| "category_value FORMATTING = ''formatting''"
| "category_value TYPE_ANNOTATION = ''type_annotation''"
| "category_value DEAD_CODE_REMOVAL = ''dead_code_removal''"
| "category_value MICRO_REFACTOR = ''micro_refactor''"
| "category_value BEHAVIOR_CHANGE = ''behavior_change''"
| "category_value REFACTOR = ''refactor''"
| "category_value DEPENDENCY_UPDATE = ''dependency_update''"
| "category_value PERFORMANCE_CHANGE = ''performance_change''"
| "category_value PROMPT_CHANGE = ''prompt_change''"
| "category_value TOOL_SELECTION_CHANGE = ''tool_selection_change''"
| "category_value EVALUATOR_CHANGE = ''evaluator_change''"
| "category_value PERSISTENT_STATE_CHANGE = ''persistent_state_change''"
| "category_value MODEL_BEHAVIOR_CHANGE = ''model_behavior_change''"
| "category_value API_CHANGE = ''api_change''"
| "category_value AUTHENTICATION = ''authentication''"
| "category_value AUTHORIZATION = ''authorization''"
| "category_value SECRETS = ''secrets''"
| "category_value SECURITY_BOUNDARY = ''security_boundary''"
| "category_value DATA_MIGRATION = ''data_migration''"
| "category_value SCHEMA_CHANGE = ''schema_change''"
| "category_value INFRASTRUCTURE = ''infrastructure''"
| "category_value DEPLOYMENT_CONFIGURATION = ''deployment_configuration''"
| "category_value SPENDING_CONTROL = ''spending_control''"
| "category_value DATA_DELETION = ''data_deletion''"
| "category_value AUTONOMY_LIMIT = ''autonomy_limit''"
| "category_value APPROVAL_POLICY = ''approval_policy''"
| "category_value TOOL_ACCESS_EXPANSION = ''tool_access_expansion''"
| "category_value SELF_GOVERNANCE = ''self_governance''"
| "category_value BENCHMARK_THRESHOLD = ''benchmark_threshold''"
| "category_value SAFETY_CONTROL = ''safety_control''"
| "category_value UNKNOWN_CATEGORY = ''unknown''"

definition low_categories :: "change_category list" where
  "low_categories = [DOCUMENTATION_CORRECTION, TEST_REPAIR, MICRO_BUG_FIX, DEFENSIVE_CHECK, FORMATTING,
     TYPE_ANNOTATION, DEAD_CODE_REMOVAL, MICRO_REFACTOR]"

definition medium_categories :: "change_category list" where
  "medium_categories = [BEHAVIOR_CHANGE, REFACTOR, DEPENDENCY_UPDATE, PERFORMANCE_CHANGE, PROMPT_CHANGE,
     TOOL_SELECTION_CHANGE, EVALUATOR_CHANGE, PERSISTENT_STATE_CHANGE, MODEL_BEHAVIOR_CHANGE, API_CHANGE]"

definition category_risk :: "change_category \<Rightarrow> risk_level" where
  "category_risk c =
     (if c \<in> set low_categories then LOW else if c \<in> set medium_categories then MEDIUM else HIGH)"

section \<open>Repository paths\<close>

text \<open>\<open>nexus.patchforge.models._repository_path\<close>: a normalised path inside the repository.\<close>

definition repository_path :: "ustr \<Rightarrow> string + ustr" where
  "repository_path v =
     (let normalized = normalize_slashes v; parts = split_on 47 normalized in
      if normalized = [] \<or> normalized = [46]
         \<or> starts_with [47] normalized \<or> starts_with [126] normalized
         \<or> 58 \<in> set (hd parts)
         \<or> list_ex (\<lambda>part. part = [] \<or> part = [46] \<or> part = [46, 46]) parts
      then Inl ''Path must be a normalized repository-relative path'' else Inr normalized)"

definition path_ok :: "ustr \<Rightarrow> bool" where
  "path_ok p \<longleftrightarrow> bounded 1 500 p \<and> repository_path p = Inr p"

definition narrative :: "ustr \<Rightarrow> bool" where
  "narrative s \<longleftrightarrow> bounded 1 4000 s"

definition percent :: "int \<Rightarrow> bool" where
  "percent n \<longleftrightarrow> 0 \<le> n \<and> n \<le> 100"

section \<open>Signals and candidates\<close>

datatype signal_kind =
  GIT_HISTORY | WORKING_TREE | CI_RUN | TEST_RESULTS | LINT | TYPECHECK | E2E_SIGNAL | BENCHMARK
  | SENTINEL_SIGNAL | BACKLOG | FAILED_ATTEMPT | TODO_MARKER | DEPENDENCY | OWNER_MESSAGE | ISSUE

datatype signal_severity = INFO | WARNING | FAILURE

record engineering_signal =
  signal_id :: uuid
  signal_kind :: signal_kind
  signal_severity :: signal_severity
  signal_source :: ustr
  signal_summary :: ustr
  signal_details :: "ustr option"
  untrusted_text :: bool
  instruction_like :: "ustr list"
  signal_evidence :: "string option"
  observed_at :: timestamp

definition signal_ok :: "engineering_signal \<Rightarrow> bool" where
  "signal_ok s \<longleftrightarrow> short_text (signal_source s) \<and> short_text (signal_summary s)
     \<and> opt_ok narrative (signal_details s)
     \<and> bounded 0 20 (instruction_like s) \<and> list_all short_text (instruction_like s)
     \<and> opt_ok valid_sha256 (signal_evidence s)
     \<and> (instruction_like s \<noteq> [] \<longrightarrow> untrusted_text s)"

record candidate_estimate =
  est_value :: int
  est_urgency :: int
  est_confidence :: int
  est_cost :: int

definition estimate_ok :: "candidate_estimate \<Rightarrow> bool" where
  "estimate_ok e \<longleftrightarrow> percent (est_value e) \<and> percent (est_urgency e) \<and> percent (est_confidence e)
     \<and> percent (est_cost e)"

text \<open>Expected value net of cost; \<open>//\<close> is floor division, as \<open>div\<close> is.\<close>

definition estimate_score :: "candidate_estimate \<Rightarrow> int" where
  "estimate_score e =
     (est_value e * 2 + est_urgency e) * (50 + est_confidence e div 2) div 100 - est_cost e"

record engineering_candidate =
  candidate_id :: uuid
  candidate_title :: ustr
  candidate_rationale :: ustr
  candidate_category :: change_category
  expected_paths :: "ustr list"
  candidate_signals :: "uuid list"
  candidate_estimate :: candidate_estimate
  blockers :: "ustr list"
  from_untrusted_text :: bool

definition candidate_ok :: "engineering_candidate \<Rightarrow> bool" where
  "candidate_ok c \<longleftrightarrow> short_text (candidate_title c) \<and> narrative (candidate_rationale c)
     \<and> bounded 0 100 (expected_paths c) \<and> list_all path_ok (expected_paths c)
     \<and> bounded 1 100 (candidate_signals c) \<and> estimate_ok (candidate_estimate c)
     \<and> bounded 0 20 (blockers c) \<and> list_all short_text (blockers c)
     \<and> distinct (candidate_signals c) \<and> distinct (expected_paths c)"

section \<open>Risk, gates and self-review\<close>

record risk_assessment =
  risk_level :: risk_level
  category_level :: risk_level
  path_level :: risk_level
  size_level :: risk_level
  risk_uncertain :: bool
  governing_paths :: "ustr list"
  risk_reasons :: "ustr list"

text \<open>The level that the components of an assessment imply.\<close>

definition risk_floor :: "risk_assessment \<Rightarrow> risk_level" where
  "risk_floor r =
     (let f = highest [category_level r, path_level r, size_level r] in
      if risk_uncertain r then raised f else f)"

definition risk_ok :: "risk_assessment \<Rightarrow> bool" where
  "risk_ok r \<longleftrightarrow> bounded 0 100 (governing_paths r) \<and> list_all path_ok (governing_paths r)
     \<and> bounded 1 50 (risk_reasons r) \<and> list_all short_text (risk_reasons r)
     \<and> \<not> rank (risk_level r) < rank (risk_floor r)
     \<and> \<not> (governing_paths r \<noteq> [] \<and> risk_level r \<noteq> HIGH)"

datatype validation_gate =
  RUFF_FORMAT | RUFF_LINT | MYPY | PYTEST_TARGETED | PYTEST_FULL | E2E_GATE | BENCHMARK_GATE
  | SENTINEL_GATE | SENTINEL_REVIEW | SCENARIOS | COMPOSE_CONFIG

fun gate_value :: "validation_gate \<Rightarrow> string" where
  "gate_value RUFF_FORMAT = ''ruff_format''"
| "gate_value RUFF_LINT = ''ruff_lint''"
| "gate_value MYPY = ''mypy''"
| "gate_value PYTEST_TARGETED = ''pytest_targeted''"
| "gate_value PYTEST_FULL = ''pytest_full''"
| "gate_value E2E_GATE = ''e2e_gate''"
| "gate_value BENCHMARK_GATE = ''benchmark_gate''"
| "gate_value SENTINEL_GATE = ''sentinel_gate''"
| "gate_value SENTINEL_REVIEW = ''sentinel_review''"
| "gate_value SCENARIOS = ''scenarios''"
| "gate_value COMPOSE_CONFIG = ''compose_config''"

lemma gate_value_inj [simp]: "gate_value a = gate_value b \<longleftrightarrow> a = b"
  by (cases a; cases b) simp_all

datatype gate_status = GATE_PASSED | GATE_FAILED | GATE_ERROR | GATE_NOT_RUN

record gate_result =
  gate :: validation_gate
  gate_status :: gate_status
  gate_summary :: ustr
  gate_evidence :: "string option"

definition gate_ok :: "gate_result \<Rightarrow> bool" where
  "gate_ok g \<longleftrightarrow> short_text (gate_summary g) \<and> opt_ok valid_sha256 (gate_evidence g)
     \<and> (gate_status g = GATE_PASSED \<or> gate_status g = GATE_FAILED \<longrightarrow> gate_evidence g \<noteq> None)"

datatype review_question =
  ROOT_CAUSE_QUESTION | OTHER_PATHS | PUBLIC_BEHAVIOR | INVARIANT | TEST_WEAKENED | RACE
  | NONDETERMINISM | COMPLEXITY | HIDDEN_STATE | SENSITIVE_DATA | PROMPT_INJECTION | TESTS_COVER
  | SMALLER | HUMAN_REVIEW

definition all_questions :: "review_question list" where
  "all_questions = [ROOT_CAUSE_QUESTION, OTHER_PATHS, PUBLIC_BEHAVIOR, INVARIANT, TEST_WEAKENED, RACE,
     NONDETERMINISM, COMPLEXITY, HIDDEN_STATE, SENSITIVE_DATA, PROMPT_INJECTION, TESTS_COVER, SMALLER,
     HUMAN_REVIEW]"

definition critical_questions :: "review_question list" where
  "critical_questions = [INVARIANT, TEST_WEAKENED, SENSITIVE_DATA, PROMPT_INJECTION, HUMAN_REVIEW]"

datatype review_answer = CLEAR | CONCERN | UNKNOWN_ANSWER

record review_item =
  question :: review_question
  answer :: review_answer
  note_text :: ustr

record self_review =
  review_items :: "review_item list"
  reviewed_diff :: "string option"

definition self_review_ok :: "self_review \<Rightarrow> bool" where
  "self_review_ok r \<longleftrightarrow> length (review_items r) = length all_questions
     \<and> list_all (\<lambda>i. short_text (note_text i)) (review_items r)
     \<and> opt_ok valid_sha256 (reviewed_diff r)
     \<and> set (map question (review_items r)) = set all_questions"

definition concerns :: "self_review \<Rightarrow> review_item list" where
  "concerns r = filter (\<lambda>i. answer i \<noteq> CLEAR) (review_items r)"

definition blocking :: "self_review \<Rightarrow> bool" where
  "blocking r \<longleftrightarrow> list_ex (\<lambda>i. question i \<in> set critical_questions \<and> answer i \<noteq> CLEAR) (review_items r)"

definition requires_human :: "self_review \<Rightarrow> bool" where
  "requires_human r \<longleftrightarrow> blocking r \<or> concerns r \<noteq> []"

lemma requires_human_iff: "requires_human r \<longleftrightarrow> (\<exists>i \<in> set (review_items r). answer i \<noteq> CLEAR)"
  by (auto simp: requires_human_def blocking_def concerns_def list_ex_iff filter_empty_conv)

end
