(* ===== verification/EngineerRecords.thy ===== *)
theory EngineerRecords
  imports EngineerModels
begin

text \<open>
  The evidence records of the resident Software Engineer (second half of
  \<open>src/nexus/software_engineer/models.py\<close>): publications, changes, approval requests, owner
  decisions, budgets and usage, transitions, notifications, and \<open>CycleRecord\<close> with
  \<open>cycle_error\<close>, its validator, which decides whether the record of a cycle can be written at all.
\<close>

section \<open>Publications and changes\<close>

datatype publication_authority = OWNER_DECISION_AUTHORITY | AUTONOMOUS_AUTHORITY | EXERCISE_AUTHORITY

record published_change =
  publication_id :: uuid
  pub_cycle_id :: uuid
  pub_request_id :: "uuid option"
  pub_decision_id :: "uuid option"
  pub_authority :: publication_authority
  pub_repository :: ustr
  pub_base_branch :: ustr
  pub_base_sha :: string
  base_head_at_publish :: string
  pub_branch :: ustr
  pub_tree_sha :: string
  local_commit_sha :: string
  remote_commit_sha :: string
  pub_diff_sha256 :: string
  pull_request_number :: int
  pull_request_url :: ustr
  published_by :: actor_identity
  published_at :: timestamp

definition publication_error :: "published_change \<Rightarrow> string option" where
  "publication_error p =
     (case pub_authority p of
        OWNER_DECISION_AUTHORITY \<Rightarrow>
          if pub_request_id p = None \<or> pub_decision_id p = None
            then Some ''A publication under an owner decision names the decision''
          else if actor_type (published_by p) \<noteq> Human
            then Some ''An owner-decided publication is published by the human owner''
          else None
      | EXERCISE_AUTHORITY \<Rightarrow>
          if pub_request_id p \<noteq> None \<or> pub_decision_id p \<noteq> None
            then Some ''An integration exercise answers no approval request''
          else if actor_type (published_by p) \<noteq> Human
            then Some ''An integration exercise is run by the human owner''
          else None
      | AUTONOMOUS_AUTHORITY \<Rightarrow>
          if actor_type (published_by p) \<noteq> Agent
            then Some ''An autonomous publication is published by the agent''
          else None)"

definition publication_ok :: "published_change \<Rightarrow> bool" where
  "publication_ok p \<longleftrightarrow> bounded 3 200 (pub_repository p) \<and> bounded 1 255 (pub_base_branch p)
     \<and> valid_commit_sha (pub_base_sha p) \<and> valid_commit_sha (base_head_at_publish p)
     \<and> bounded 1 255 (pub_branch p) \<and> valid_commit_sha (pub_tree_sha p)
     \<and> valid_commit_sha (local_commit_sha p) \<and> valid_commit_sha (remote_commit_sha p)
     \<and> valid_sha256 (pub_diff_sha256 p) \<and> 1 \<le> pull_request_number p
     \<and> starts_with (lit ''https://'') (pull_request_url p) \<and> bounded 0 500 (pull_request_url p)
     \<and> actor_ok (published_by p) \<and> publication_error p = None"

record change_summary =
  change_base_sha :: string
  change_branch :: "ustr option"
  change_commit_sha :: "string option"
  change_files :: "ustr list"
  additions :: int
  deletions :: int
  diff_bytes :: int
  diff_sha256 :: string
  patch_result_sha256 :: "string option"
  sentinel_verdict_sha256 :: "string option"
  rollback_reference :: ustr
  publication :: "published_change option"

definition change_error :: "change_summary \<Rightarrow> string option" where
  "change_error c =
     (if \<not> distinct (change_files c) then Some ''Changed files must be unique''
      else case publication c of
        None \<Rightarrow> None
      | Some p \<Rightarrow>
          if pub_base_sha p \<noteq> change_base_sha c
            then Some ''A publication must build on the change's base''
          else if pub_diff_sha256 p \<noteq> diff_sha256 c
            then Some ''A publication must carry the change's diff''
          else if (case change_commit_sha c of None \<Rightarrow> False | Some sha \<Rightarrow> local_commit_sha p \<noteq> sha)
            then Some ''A publication must publish the change's commit''
          else None)"

definition change_ok :: "change_summary \<Rightarrow> bool" where
  "change_ok c \<longleftrightarrow> valid_commit_sha (change_base_sha c) \<and> opt_ok (bounded 1 255) (change_branch c)
     \<and> opt_ok valid_commit_sha (change_commit_sha c)
     \<and> bounded 1 1000 (change_files c) \<and> list_all path_ok (change_files c)
     \<and> 0 \<le> additions c \<and> 0 \<le> deletions c \<and> 0 \<le> diff_bytes c \<and> valid_sha256 (diff_sha256 c)
     \<and> opt_ok valid_sha256 (patch_result_sha256 c) \<and> opt_ok valid_sha256 (sentinel_verdict_sha256 c)
     \<and> short_text (rollback_reference c) \<and> opt_ok publication_ok (publication c)
     \<and> change_error c = None"

section \<open>Approval requests and owner decisions\<close>

datatype recommendation = RECOMMEND_SHIP | RECOMMEND_REVISE | RECOMMEND_REJECT

record approval_request =
  request_id :: uuid
  request_cycle_id :: uuid
  request_candidate_id :: uuid
  request_title :: ustr
  request_problem :: ustr
  request_root_cause :: ustr
  proposed_fix :: ustr
  request_why :: ustr
  files_affected :: "ustr list"
  behavior_changed :: ustr
  request_validation :: "gate_result list"
  benchmark_impact :: ustr
  security_impact :: ustr
  request_risk :: risk_assessment
  request_confidence :: int
  rollback_plan :: ustr
  request_reference :: ustr
  request_question :: ustr
  recommendation :: recommendation
  dry_run :: bool
  request_created_at :: timestamp

definition request_ok :: "approval_request \<Rightarrow> bool" where
  "request_ok q \<longleftrightarrow> short_text (request_title q) \<and> narrative (request_problem q)
     \<and> narrative (request_root_cause q) \<and> narrative (proposed_fix q) \<and> narrative (request_why q)
     \<and> bounded 0 1000 (files_affected q) \<and> list_all path_ok (files_affected q)
     \<and> narrative (behavior_changed q)
     \<and> bounded 0 50 (request_validation q) \<and> list_all gate_ok (request_validation q)
     \<and> short_text (benchmark_impact q) \<and> short_text (security_impact q) \<and> risk_ok (request_risk q)
     \<and> percent (request_confidence q) \<and> narrative (rollback_plan q) \<and> short_text (request_reference q)
     \<and> short_text (request_question q)"

datatype owner_verdict = VERDICT_SHIP | VERDICT_REVISE | VERDICT_REJECT

fun verdict_value :: "owner_verdict \<Rightarrow> string" where
  "verdict_value VERDICT_SHIP = ''ship''"
| "verdict_value VERDICT_REVISE = ''revise''"
| "verdict_value VERDICT_REJECT = ''reject''"

datatype owner_channel = CHANNEL_SLACK | CHANNEL_CLI | CHANNEL_GITHUB

fun channel_value :: "owner_channel \<Rightarrow> string" where
  "channel_value CHANNEL_SLACK = ''slack''"
| "channel_value CHANNEL_CLI = ''cli''"
| "channel_value CHANNEL_GITHUB = ''github''"

record owner_decision =
  decision_id :: uuid
  decision_request_id :: uuid
  verdict :: owner_verdict
  decision_by :: actor_identity
  decision_reason :: ustr
  decision_channel :: owner_channel
  decision_at :: timestamp

definition owner_decision_ok :: "owner_decision \<Rightarrow> bool" where
  "owner_decision_ok d \<longleftrightarrow> actor_ok (decision_by d) \<and> short_text (decision_reason d)
     \<and> actor_type (decision_by d) = Human"

section \<open>Budgets\<close>

record cycle_budget =
  max_runtime_seconds :: int
  max_turns :: int
  max_calls :: int
  max_model_calls :: int
  max_cycle_input_tokens :: int
  max_cycle_output_tokens :: int
  max_cost_usd :: "int option"
  max_changed_files :: int
  max_diff_bytes :: int

definition cycle_budget_ok :: "cycle_budget \<Rightarrow> bool" where
  "cycle_budget_ok b \<longleftrightarrow> 60 \<le> max_runtime_seconds b \<and> max_runtime_seconds b \<le> 86400
     \<and> 1 \<le> max_turns b \<and> max_turns b \<le> 1000 \<and> 1 \<le> max_calls b \<and> max_calls b \<le> 10000
     \<and> 0 \<le> max_model_calls b \<and> max_model_calls b \<le> 1000
     \<and> 0 \<le> max_cycle_input_tokens b \<and> max_cycle_input_tokens b \<le> 50000000
     \<and> 0 \<le> max_cycle_output_tokens b \<and> max_cycle_output_tokens b \<le> 5000000
     \<and> opt_ok (\<lambda>c. 0 \<le> c) (max_cost_usd b)
     \<and> 1 \<le> max_changed_files b \<and> max_changed_files b \<le> 100
     \<and> 1 \<le> max_diff_bytes b \<and> max_diff_bytes b \<le> 10000000"

text \<open>Usage of a cycle; the runtime in microseconds, the cost in millionths of a dollar.\<close>

record cycle_usage =
  used_runtime :: int
  used_turns :: int
  used_calls :: int
  used_model_calls :: int
  used_input_tokens :: int
  used_output_tokens :: int
  used_cost :: "int option"
  used_files :: int
  used_diff_bytes :: int

definition empty_usage :: cycle_usage where
  "empty_usage = \<lparr>used_runtime = 0, used_turns = 0, used_calls = 0, used_model_calls = 0,
     used_input_tokens = 0, used_output_tokens = 0, used_cost = None, used_files = 0,
     used_diff_bytes = 0\<rparr>"

definition usage_ok :: "cycle_usage \<Rightarrow> bool" where
  "usage_ok u \<longleftrightarrow> 0 \<le> used_runtime u \<and> 0 \<le> used_turns u \<and> 0 \<le> used_calls u \<and> 0 \<le> used_model_calls u
     \<and> 0 \<le> used_input_tokens u \<and> 0 \<le> used_output_tokens u \<and> opt_ok (\<lambda>c. 0 \<le> c) (used_cost u)
     \<and> 0 \<le> used_files u \<and> 0 \<le> used_diff_bytes u"

text \<open>\<open>CycleUsage.exceeded\<close>: the exceeded dimensions in the declared order.\<close>

definition usage_pairs :: "cycle_usage \<Rightarrow> cycle_budget \<Rightarrow> (string \<times> int \<times> int option) list" where
  "usage_pairs u b =
     [(''runtime_seconds'', used_runtime u, Some (max_runtime_seconds b * 1000000)),
      (''turns'', used_turns u, Some (max_turns b)),
      (''tool_calls'', used_calls u, Some (max_calls b)),
      (''model_calls'', used_model_calls u, Some (max_model_calls b)),
      (''input_tokens'', used_input_tokens u, Some (max_cycle_input_tokens b)),
      (''output_tokens'', used_output_tokens u, Some (max_cycle_output_tokens b)),
      (''cost_usd'', (case used_cost u of None \<Rightarrow> 0 | Some c \<Rightarrow> c), max_cost_usd b)]"

definition exceeded :: "cycle_usage \<Rightarrow> cycle_budget \<Rightarrow> string list" where
  "exceeded u b = map fst (filter (\<lambda>(name, used, limit).
     case limit of None \<Rightarrow> False | Some l \<Rightarrow> used > l) (usage_pairs u b))"

lemma exceeded_Nil_iff: "exceeded u b = [] \<longleftrightarrow>
    used_runtime u \<le> max_runtime_seconds b * 1000000 \<and> used_turns u \<le> max_turns b
    \<and> used_calls u \<le> max_calls b \<and> used_model_calls u \<le> max_model_calls b
    \<and> used_input_tokens u \<le> max_cycle_input_tokens b \<and> used_output_tokens u \<le> max_cycle_output_tokens b
    \<and> (case max_cost_usd b of None \<Rightarrow> True
        | Some l \<Rightarrow> (case used_cost u of None \<Rightarrow> 0 | Some c \<Rightarrow> c) \<le> l)"
  by (auto simp: exceeded_def usage_pairs_def filter_empty_conv split: option.splits)

section \<open>Cycle records\<close>

datatype cycle_mode = DRY_RUN | PROPOSE | AUTONOMOUS_LOW_RISK

fun mode_value :: "cycle_mode \<Rightarrow> string" where
  "mode_value DRY_RUN = ''dry_run''"
| "mode_value PROPOSE = ''propose''"
| "mode_value AUTONOMOUS_LOW_RISK = ''autonomous_low_risk''"

datatype cycle_phase =
  PHASE_CREATED | OBSERVE | UNDERSTAND | PRIORITIZE | INVESTIGATE | PLAN | IMPLEMENT | TEST
  | SELF_REVIEW | ASSESS_RISK | DECIDE | OBSERVE_RESULTS | LEARN | REPORT | CLOSED

text \<open>\<open>_ORDER.index(phase)\<close>: the position of a phase.\<close>

fun phase_index :: "cycle_phase \<Rightarrow> nat" where
  "phase_index PHASE_CREATED = 0"
| "phase_index OBSERVE = 1"
| "phase_index UNDERSTAND = 2"
| "phase_index PRIORITIZE = 3"
| "phase_index INVESTIGATE = 4"
| "phase_index PLAN = 5"
| "phase_index IMPLEMENT = 6"
| "phase_index TEST = 7"
| "phase_index SELF_REVIEW = 8"
| "phase_index ASSESS_RISK = 9"
| "phase_index DECIDE = 10"
| "phase_index OBSERVE_RESULTS = 11"
| "phase_index LEARN = 12"
| "phase_index REPORT = 13"
| "phase_index CLOSED = 14"

datatype cycle_decision = NO_WORK | SHIP | REQUEST_APPROVAL | ABANDON | BLOCKED

fun decision_value :: "cycle_decision \<Rightarrow> string" where
  "decision_value NO_WORK = ''no_work''"
| "decision_value SHIP = ''ship''"
| "decision_value REQUEST_APPROVAL = ''request_approval''"
| "decision_value ABANDON = ''abandon''"
| "decision_value BLOCKED = ''blocked''"

datatype cycle_failure =
  BUDGET_EXHAUSTED | CREDENTIALS_MISSING | EXECUTOR_ERROR | VALIDATION_FAILED | POLICY_DENIED
  | INTERNAL_ERROR

record cycle_transition =
  transition_sequence :: int
  transition_source :: cycle_phase
  transition_target :: cycle_phase
  transition_reason :: ustr
  transition_at :: timestamp

datatype notification_event =
  DAILY_REPORT | BUG_FIXED | IMPROVEMENT_COMPLETED | APPROVAL_REQUIRED | BLOCKED_EVENT
  | TEST_REGRESSION | BENCHMARK_REGRESSION | SECURITY_CONCERN | ROLLBACK_OCCURRED
  | ENGINEERING_CYCLE_FAILED

definition urgent_events :: "notification_event list" where
  "urgent_events = [APPROVAL_REQUIRED, BLOCKED_EVENT, SECURITY_CONCERN, ROLLBACK_OCCURRED,
     ENGINEERING_CYCLE_FAILED, TEST_REGRESSION, BENCHMARK_REGRESSION]"

record notification_record =
  notified_event :: notification_event
  notified_channel :: string
  notified_title :: ustr
  notified_body_sha256 :: string
  attempts :: int
  delivered :: bool
  error_code :: "string option"
  sent_at :: "timestamp option"

definition notification_ok :: "notification_record \<Rightarrow> bool" where
  "notification_ok n \<longleftrightarrow> valid_identifier (notified_channel n) \<and> short_text (notified_title n)
     \<and> valid_sha256 (notified_body_sha256 n) \<and> 0 \<le> attempts n \<and> opt_ok valid_identifier (error_code n)
     \<and> (delivered n \<longrightarrow> error_code n = None \<and> sent_at n \<noteq> None)"

record rollback_record =
  reverted_commit_sha :: string
  revert_reference :: ustr
  rollback_reason :: ustr
  rollback_at :: timestamp

definition rollback_ok :: "rollback_record \<Rightarrow> bool" where
  "rollback_ok r \<longleftrightarrow> valid_commit_sha (reverted_commit_sha r) \<and> short_text (revert_reference r)
     \<and> short_text (rollback_reason r)"

record cycle_record =
  cycle_id :: uuid
  cycle_mode :: cycle_mode
  cycle_model :: "ustr option"
  repository_head :: string
  cycle_started_at :: timestamp
  cycle_completed_at :: timestamp
  phase_reached :: cycle_phase
  cycle_transitions :: "cycle_transition list"
  cycle_signals :: "engineering_signal list"
  cycle_candidates :: "engineering_candidate list"
  ranking :: "uuid list"
  selected_candidate_id :: "uuid option"
  abandoned_candidate_ids :: "uuid list"
  cycle_risk :: "risk_assessment option"
  cycle_review :: "self_review option"
  cycle_gates :: "gate_result list"
  cycle_change :: "change_summary option"
  cycle_decision :: cycle_decision
  decision_reasons :: "ustr list"
  cycle_request :: "approval_request option"
  cycle_owner_decision :: "owner_decision option"
  cycle_budget :: cycle_budget
  cycle_usage :: cycle_usage
  memory_reads :: int
  memory_writes :: "uuid list"
  cycle_notifications :: "notification_record list"
  cycle_rollback :: "rollback_record option"
  cycle_failure :: "cycle_failure option"

definition cycle_fields_ok :: "cycle_record \<Rightarrow> bool" where
  "cycle_fields_ok c \<longleftrightarrow> opt_ok (bounded 1 100) (cycle_model c) \<and> valid_commit_sha (repository_head c)
     \<and> bounded 1 100 (cycle_transitions c)
     \<and> list_all (\<lambda>t. 1 \<le> transition_sequence t \<and> short_text (transition_reason t)) (cycle_transitions c)
     \<and> bounded 0 1000 (cycle_signals c) \<and> list_all signal_ok (cycle_signals c)
     \<and> bounded 0 200 (cycle_candidates c) \<and> list_all candidate_ok (cycle_candidates c)
     \<and> bounded 0 200 (ranking c) \<and> bounded 0 200 (abandoned_candidate_ids c)
     \<and> opt_ok risk_ok (cycle_risk c) \<and> opt_ok self_review_ok (cycle_review c)
     \<and> bounded 0 50 (cycle_gates c) \<and> list_all gate_ok (cycle_gates c)
     \<and> opt_ok change_ok (cycle_change c)
     \<and> bounded 1 50 (decision_reasons c) \<and> list_all short_text (decision_reasons c)
     \<and> opt_ok request_ok (cycle_request c) \<and> opt_ok owner_decision_ok (cycle_owner_decision c)
     \<and> cycle_budget_ok (cycle_budget c) \<and> usage_ok (cycle_usage c) \<and> 0 \<le> memory_reads c
     \<and> bounded 0 100 (memory_writes c)
     \<and> bounded 0 50 (cycle_notifications c) \<and> list_all notification_ok (cycle_notifications c)
     \<and> opt_ok rollback_ok (cycle_rollback c)"

definition gate_broken :: "gate_result \<Rightarrow> bool" where
  "gate_broken g \<longleftrightarrow> gate_status g = GATE_FAILED \<or> gate_status g = GATE_ERROR"

text \<open>\<open>CycleRecord._validate_ship\<close>.\<close>

definition ship_error :: "cycle_record \<Rightarrow> string option" where
  "ship_error c =
     (if cycle_mode c \<noteq> AUTONOMOUS_LOW_RISK \<and> cycle_owner_decision c = None
        then Some ''Shipping requires autonomous mode or an owner decision''
      else case (cycle_risk c, cycle_change c, cycle_review c) of
        (Some risk, Some change, Some review) \<Rightarrow>
          (case cycle_owner_decision c of
             None \<Rightarrow>
               if risk_level risk \<noteq> LOW
                 then Some ''Only low-risk changes ship without an owner decision''
               else if blocking review
                 then Some ''A blocking self-review cannot ship autonomously''
               else if cycle_failure c \<noteq> None then Some ''A failed cycle cannot ship''
               else if list_ex gate_broken (cycle_gates c)
                 then Some ''A change with a failed gate cannot ship''
               else None
           | Some d \<Rightarrow>
               if verdict d \<noteq> VERDICT_SHIP
                 then Some ''Shipping after an owner decision requires a ship verdict''
               else if list_ex gate_broken (cycle_gates c)
                 then Some ''A change with a failed gate cannot ship''
               else None)
      | _ \<Rightarrow> Some ''Shipping requires risk, change, and self-review evidence'')"

text \<open>\<open>CycleRecord.validate_cycle\<close>: the first violated rule, in the code's order.\<close>

definition cycle_structure_error :: "cycle_record \<Rightarrow> string option" where
  "cycle_structure_error c =
     (let ids = map candidate_id (cycle_candidates c) in
      if cycle_completed_at c < cycle_started_at c then Some ''Cycle completion cannot precede start''
      else if map transition_sequence (cycle_transitions c)
          \<noteq> map int [1 ..< Suc (length (cycle_transitions c))]
        then Some ''Cycle transitions must be contiguous''
      else if transition_source (hd (cycle_transitions c)) \<noteq> PHASE_CREATED
        then Some ''Cycles start from created''
      else if transition_target (last (cycle_transitions c)) \<noteq> phase_reached c
        then Some ''Phase reached must be the last transition target''
      else if \<not> distinct ids then Some ''Candidate IDs must be unique''
      else if set (ranking c) \<noteq> set ids \<or> length (ranking c) \<noteq> card (set ids)
        then Some ''Ranking must order every candidate exactly once''
      else if (case selected_candidate_id c of None \<Rightarrow> False | Some i \<Rightarrow> i \<notin> set ids)
        then Some ''Selected candidate is unknown''
      else if \<not> set (abandoned_candidate_ids c) \<subseteq> set ids
        then Some ''Abandoned candidate is unknown''
      else if list_ex (\<lambda>k. \<not> set (candidate_signals k) \<subseteq> set (map signal_id (cycle_signals c)))
          (cycle_candidates c)
        then Some ''Candidate cites a signal the cycle did not observe''
      else if \<not> distinct (map gate (cycle_gates c)) then Some ''Gate results must be unique per gate''
      else None)"

definition cycle_outcome_error :: "cycle_record \<Rightarrow> string option" where
  "cycle_outcome_error c =
     (if exceeded (cycle_usage c) (cycle_budget c) \<noteq> [] \<and> cycle_failure c \<noteq> Some BUDGET_EXHAUSTED
        then Some ''Usage beyond budget must be recorded as budget exhaustion''
      else if cycle_decision c = SHIP \<and> ship_error c \<noteq> None then ship_error c
      else if cycle_decision c = REQUEST_APPROVAL
          \<and> (cycle_request c = None \<or> selected_candidate_id c = None)
        then Some ''Requesting approval requires a request and a candidate''
      else if cycle_decision c = NO_WORK
          \<and> (selected_candidate_id c \<noteq> None \<or> cycle_change c \<noteq> None)
        then Some ''A no-work cycle selects nothing and changes nothing''
      else if (case cycle_owner_decision c of
                 None \<Rightarrow> False
               | Some d \<Rightarrow> (case cycle_request c of
                   None \<Rightarrow> True | Some q \<Rightarrow> decision_request_id d \<noteq> request_id q))
        then Some ''Owner decision must answer this cycle's approval request''
      else None)"

definition cycle_error :: "cycle_record \<Rightarrow> string option" where
  "cycle_error c =
     (case cycle_structure_error c of Some e \<Rightarrow> Some e | None \<Rightarrow> cycle_outcome_error c)"

definition cycle_record_ok :: "cycle_record \<Rightarrow> bool" where
  "cycle_record_ok c \<longleftrightarrow> cycle_fields_ok c \<and> cycle_error c = None"

end
