(* ===== verification/EngineerPolicy.thy ===== *)
theory EngineerPolicy
  imports EngineerRecords
begin

text \<open>
  The ship policy of the resident engineer (\<open>src/nexus/software_engineer/policy.py\<close>): the pure function
  that turns risk, gates, self-review, usage and an owner's decision into ship, ask, abandon or blocked.
\<close>

section \<open>Gates\<close>

definition required_gates :: "validation_gate list" where
  "required_gates = [RUFF_FORMAT, RUFF_LINT, MYPY, PYTEST_FULL, SENTINEL_REVIEW]"

text \<open>\<open>by_gate\<close>: a dict comprehension, where the last result of a gate wins.\<close>

definition by_gate :: "gate_result list \<Rightarrow> validation_gate \<Rightarrow> gate_result option" where
  "by_gate gates g = find (\<lambda>r. gate r = g) (rev gates)"

definition failed_gates :: "gate_result list \<Rightarrow> string list" where
  "failed_gates gates = sort (map (\<lambda>r. gate_value (gate r)) (filter gate_broken gates))"

definition missing_gates :: "gate_result list \<Rightarrow> validation_gate list \<Rightarrow> string list" where
  "missing_gates gates required = sort (map gate_value (filter (\<lambda>g.
     case by_gate gates g of None \<Rightarrow> True | Some r \<Rightarrow> gate_status r \<noteq> GATE_PASSED) required))"

definition gates_passed :: "gate_result list \<Rightarrow> validation_gate list \<Rightarrow> bool \<times> string" where
  "gates_passed gates required =
     (let failed = failed_gates gates; missing = missing_gates gates required in
      if failed \<noteq> [] then (False, ''failed gates: '' @ join_with '', '' failed)
      else if missing \<noteq> [] then (False, ''required gates not passed: '' @ join_with '', '' missing)
      else (True, ''every required gate passed''))"

section \<open>The decision\<close>

datatype policy_error = Policy_Error string

record policy_decision =
  policy_choice :: cycle_decision
  policy_reasons :: "string list"

definition policy_ships :: "policy_decision \<Rightarrow> bool" where
  "policy_ships d \<longleftrightarrow> policy_choice d = SHIP"

definition decided :: "cycle_decision \<Rightarrow> string list \<Rightarrow> policy_decision" where
  "decided d reasons = \<lparr>policy_choice = d, policy_reasons = reasons\<rparr>"

definition after_owner ::
  "owner_decision \<Rightarrow> approval_request option \<Rightarrow> bool \<Rightarrow> string \<Rightarrow> policy_error + policy_decision" where
  "after_owner d request valid gate_reason =
     (if (case request of None \<Rightarrow> True | Some q \<Rightarrow> decision_request_id d \<noteq> request_id q)
        then Inl (Policy_Error ''Owner decision does not answer the current approval request'')
      else if verdict d = VERDICT_REJECT
        then Inr (decided ABANDON [''the owner rejected the change''])
      else if verdict d = VERDICT_REVISE
        then Inr (decided REQUEST_APPROVAL [''the owner asked for a revision''])
      else if \<not> valid
        then Inr (decided ABANDON [''the owner approved, but validation no longer holds: '' @ gate_reason])
      else Inr (decided SHIP [''the owner approved a validated change'']))"

text \<open>\<open>ShipPolicy.decide\<close>.\<close>

definition ship_policy ::
  "cycle_mode \<Rightarrow> cycle_budget \<Rightarrow> risk_assessment \<Rightarrow> gate_result list \<Rightarrow> self_review option \<Rightarrow> cycle_usage
     \<Rightarrow> approval_request option \<Rightarrow> owner_decision option \<Rightarrow> bool \<Rightarrow> policy_error + policy_decision" where
  "ship_policy mode budget risk gates review usage request owner plan_only =
     (let over = exceeded usage budget;
          (valid, gate_reason) = gates_passed gates required_gates;
          failed = list_ex gate_broken gates;
          risk_text = risk_value (risk_level risk) in
      if over \<noteq> [] then Inr (decided BLOCKED [''budget exceeded: '' @ join_with '', '' over])
      else case owner of
        Some d \<Rightarrow> after_owner d request valid gate_reason
      | None \<Rightarrow> Inr (
          if mode = DRY_RUN \<and> \<not> failed
            then decided REQUEST_APPROVAL
                   [''dry run: this is a plan, nothing was executed'', risk_text @ '' risk'']
          else if plan_only \<and> \<not> failed
            then decided REQUEST_APPROVAL
                   [''no change was produced: this is a plan for the owner'', risk_text @ '' risk'']
          else if \<not> valid then decided ABANDON [gate_reason]
          else if governing_paths risk \<noteq> []
            then decided REQUEST_APPROVAL [gate_reason, ''governing paths need the owner's decision'']
          else if risk_level risk \<noteq> LOW
            then decided REQUEST_APPROVAL [gate_reason, risk_text @ '' risk needs the owner's decision'']
          else case review of
            None \<Rightarrow> decided REQUEST_APPROVAL [gate_reason, ''no self-review was recorded'']
          | Some r \<Rightarrow>
              if requires_human r
                then decided REQUEST_APPROVAL [gate_reason, ''the self-review asked for human judgment'']
              else if mode \<noteq> AUTONOMOUS_LOW_RISK
                then decided REQUEST_APPROVAL
                       [gate_reason, ''mode '' @ mode_value mode @ '' never ships autonomously'']
              else decided SHIP [gate_reason, ''low risk, clean self-review, autonomous mode'']))"

section \<open>When the policy ships\<close>

lemma by_gate_Some: "by_gate gates g = Some r \<Longrightarrow> r \<in> set gates \<and> gate r = g"
  unfolding by_gate_def by (auto dest: find_Some_mem)

lemma failed_gates_Nil: "failed_gates gates = [] \<longleftrightarrow> \<not> list_ex gate_broken gates"
proof -
  have "failed_gates gates = [] \<longleftrightarrow> mset (failed_gates gates) = {#}" by simp
  then show ?thesis by (auto simp: failed_gates_def list_ex_iff filter_empty_conv)
qed

lemma missing_gates_Nil: "missing_gates gates required = [] \<longleftrightarrow>
    (\<forall>g \<in> set required. \<exists>r. by_gate gates g = Some r \<and> gate_status r = GATE_PASSED)"
proof -
  have "missing_gates gates required = [] \<longleftrightarrow> mset (missing_gates gates required) = {#}" by simp
  then show ?thesis
    by (auto simp: missing_gates_def filter_empty_conv split: option.splits)
qed

lemma gates_passed_iff: "fst (gates_passed gates required) \<longleftrightarrow> \<not> list_ex gate_broken gates
    \<and> (\<forall>g \<in> set required. \<exists>r. by_gate gates g = Some r \<and> gate_status r = GATE_PASSED)"
  by (auto simp: gates_passed_def Let_def failed_gates_Nil missing_gates_Nil)

text \<open>Everything an autonomous ship rests on.\<close>

definition autonomous_evidence ::
  "cycle_mode \<Rightarrow> cycle_budget \<Rightarrow> risk_assessment \<Rightarrow> gate_result list \<Rightarrow> self_review option \<Rightarrow> cycle_usage
     \<Rightarrow> bool" where
  "autonomous_evidence mode budget risk gates review usage \<longleftrightarrow>
     mode = AUTONOMOUS_LOW_RISK \<and> exceeded usage budget = [] \<and> fst (gates_passed gates required_gates)
     \<and> governing_paths risk = [] \<and> risk_level risk = LOW
     \<and> (\<exists>r. review = Some r \<and> \<not> requires_human r)"

lemma ship_policy_cases:
  assumes "ship_policy mode budget risk gates review usage request owner plan_only = Inr d"
  shows "policy_choice d = SHIP \<longleftrightarrow>
    (case owner of
       None \<Rightarrow> autonomous_evidence mode budget risk gates review usage \<and> \<not> plan_only
     | Some o' \<Rightarrow> exceeded usage budget = [] \<and> verdict o' = VERDICT_SHIP
         \<and> (\<exists>q. request = Some q \<and> request_id q = decision_request_id o')
         \<and> fst (gates_passed gates required_gates))"
proof -
  obtain valid reason where v: "gates_passed gates required_gates = (valid, reason)" by force
  have broken: "valid \<Longrightarrow> \<not> list_ex gate_broken gates"
    using gates_passed_iff [of gates required_gates] v by simp
  show ?thesis
    using assms broken v
    by (cases owner; cases review; cases request; cases "verdict (the owner)")
       (auto simp: ship_policy_def after_owner_def decided_def autonomous_evidence_def Let_def
         split: if_splits)
qed

end
