(* ===== verification/EngineerRisk.thy ===== *)
theory EngineerRisk
  imports EngineerRecords
begin

text \<open>
  Change-risk classification (\<open>src/nexus/software_engineer/risk.py\<close>) with the path predicates it
  uses from \<open>patchforge/gateway.py\<close> and \<open>sentinelqa/models.py\<close>. \<open>casefold\<close> stands for \<open>str.casefold\<close>,
  whose Unicode tables are not part of the model.
\<close>

section \<open>Path predicates\<close>

definition path_matches :: "ustr \<Rightarrow> ustr list \<Rightarrow> bool" where
  "path_matches path prefixes \<longleftrightarrow>
     list_ex (\<lambda>prefix. path = prefix \<or> starts_with (prefix @ [47]) path) prefixes"

text \<open>\<open>Path(name).suffix\<close> of a final component: from its last dot on, unless that is the first or last.\<close>

definition path_suffix :: "ustr \<Rightarrow> ustr" where
  "path_suffix name =
     (let tail = takeWhile (\<lambda>c. c \<noteq> 46) (rev name); rest = dropWhile (\<lambda>c. c \<noteq> 46) (rev name) in
      if rest = [] \<or> tl rest = [] \<or> tail = [] then [] else 46 # rev tail)"

definition is_sensitive_path :: "(ustr \<Rightarrow> ustr) \<Rightarrow> ustr \<Rightarrow> bool" where
  "is_sensitive_path casefold path =
     (let parts = split_on 47 (casefold path); name = last parts in
      if lit ''.git'' \<in> set parts then True
      else if starts_with (lit ''.env'') name \<and> name \<noteq> lit ''.env.example'' then True
      else if name \<in> set (map lit [''credentials'', ''credentials.json'', ''id_rsa'', ''id_ed25519''])
        then True
      else path_suffix name \<in> set (map lit [''.key'', ''.pem'', ''.p12'', ''.pfx'']))"

definition evaluation_config_names :: "ustr list" where
  "evaluation_config_names = map lit [''conftest.py'', ''pytest.ini'', ''.pytest.ini'', ''tox.ini'',
     ''setup.cfg'', ''pyproject.toml'', ''sitecustomize.py'', ''usercustomize.py'', ''pytest.py'',
     ''_pytest.py'', ''pluggy.py'', ''unittest.py'', ''doctest.py'']"

definition evaluation_config_directories :: "ustr list" where
  "evaluation_config_directories = map lit [''_pytest'', ''pytest'', ''pluggy'', ''unittest'',
     ''site-packages'', ''__pypackages__'']"

definition is_evaluation_config_path :: "ustr \<Rightarrow> bool" where
  "is_evaluation_config_path path =
     (let parts = filter (\<lambda>p. p \<noteq> []) (split_on 47 path) in
      if parts = [] then False
      else last parts \<in> set evaluation_config_names
         \<or> ends_with (lit ''.pth'') (last parts)
         \<or> list_ex (\<lambda>part. part \<in> set evaluation_config_directories) (butlast parts))"

section \<open>Path rules\<close>

definition governing_path_prefixes :: "ustr list" where
  "governing_path_prefixes = map lit
     [''.github'', ''AGENTS.md'', ''BRAIN.md'', ''CLAUDE.md'', ''CODEX_HANDOFF.md'', ''Dockerfile'',
      ''PROJECT_STATE.md'', ''ROADMAP.md'', ''alembic.ini'', ''compose.yaml'', ''docs/adr'',
      ''docs/experiments'', ''infra'', ''migrations'', ''src/nexus/atlas/policy.py'',
      ''src/nexus/atlas/service.py'', ''src/nexus/brain'', ''src/nexus/patchforge/attestor.py'',
      ''src/nexus/patchforge/gateway.py'', ''src/nexus/patchforge/policy.py'',
      ''src/nexus/patchforge/sandbox.py'', ''src/nexus/patchforge/workspace.py'',
      ''src/nexus/sentinelqa'', ''src/nexus/software_engineer'']"

definition behavior_prefixes :: "ustr list" where
  "behavior_prefixes = map lit [''src'', ''lab'']"

definition low_prefixes :: "ustr list" where
  "low_prefixes = map lit [''README.md'', ''CHANGELOG.md'', ''docs/runbooks'']"

definition test_prefixes :: "ustr list" where
  "test_prefixes = map lit [''tests'']"

definition path_risk :: "(ustr \<Rightarrow> ustr) \<Rightarrow> ustr \<Rightarrow> int \<Rightarrow> risk_level \<times> bool \<times> ustr" where
  "path_risk casefold path dels =
     (if path_matches path governing_path_prefixes
        then (HIGH, True, path @ lit '' is a governing path'')
      else if is_evaluation_config_path path
        then (HIGH, True, path @ lit '' decides how the specification is evaluated'')
      else if is_sensitive_path casefold path
        then (HIGH, True, path @ lit '' is a sensitive path'')
      else if path_matches path test_prefixes
        then (if dels \<noteq> 0 then (MEDIUM, False, path @ lit '' removes test lines'')
              else (LOW, False, path @ lit '' only adds test lines''))
      else if path_matches path low_prefixes
          \<or> ends_with (lit ''.md'') path \<and> \<not> path_matches path behavior_prefixes
        then (LOW, False, path @ lit '' is documentation or state'')
      else if path_matches path behavior_prefixes
        then (MEDIUM, False, path @ lit '' can change behavior'')
      else (HIGH, False, path @ lit '' is not covered by a path rule''))"

section \<open>Classification\<close>

text \<open>The loop over the paths: level, governing paths, reasons and uncertainty so far.\<close>

fun path_loop ::
  "(ustr \<Rightarrow> ustr) \<Rightarrow> int \<Rightarrow> ustr list \<Rightarrow> risk_level \<times> ustr list \<times> ustr list \<times> bool
     \<Rightarrow> risk_level \<times> ustr list \<times> ustr list \<times> bool" where
  "path_loop casefold dels [] acc = acc"
| "path_loop casefold dels (path # paths) (level, governing, reasons, uncertain) =
     (let (l, is_governing, reason) = path_risk casefold path dels in
      path_loop casefold dels paths
        (highest [level, l],
         if is_governing then governing @ [path] else governing,
         if l \<noteq> LOW \<or> is_governing then reasons @ [reason] else reasons,
         uncertain \<or> (l = HIGH \<and> \<not> is_governing)))"

definition classify_change ::
  "(ustr \<Rightarrow> ustr) \<Rightarrow> change_category \<Rightarrow> ustr list \<Rightarrow> int \<Rightarrow> int \<Rightarrow> int \<Rightarrow> cycle_budget \<Rightarrow> bool
     \<Rightarrow> string + risk_assessment" where
  "classify_change casefold category paths adds dels bytes budget untrusted =
     (let category_level = category_risk category;
          reasons0 = [lit (''category '' @ category_value category @ '' has a ''
                       @ risk_value category_level @ '' floor'')]
            @ (if category = UNKNOWN_CATEGORY then [lit ''the change category is unknown''] else [])
            @ (if untrusted then [lit ''the candidate was derived from untrusted text''] else [])
            @ (if paths = [] then [lit ''no paths were declared, so the blast radius is unknown''] else []);
          uncertain0 = (category = UNKNOWN_CATEGORY \<or> untrusted \<or> paths = []);
          (path_level, governing, reasons1, uncertain) =
            path_loop casefold dels paths (if paths = [] then HIGH else LOW, [], reasons0, uncertain0);
          oversized = int (length paths) > max_changed_files budget \<or> bytes > max_diff_bytes budget;
          removes = dels > adds \<and> dels > 50;
          size_level = (if oversized \<or> removes then MEDIUM else LOW);
          reasons2 = reasons1
            @ (if oversized then [lit (''the change touches '' @ int_str (int (length paths))
                  @ '' file(s) and '' @ int_str bytes @ '' diff byte(s), beyond the autonomous limits (''
                  @ int_str (max_changed_files budget) @ '' files, '' @ int_str (max_diff_bytes budget)
                  @ '' bytes)'')] else [])
            @ (if removes then [lit ''the change removes more than it adds''] else [])
            @ (if uncertain then [lit ''uncertainty raised the level''] else []);
          top = highest [category_level, path_level, size_level];
          level = (if governing \<noteq> [] then HIGH else if uncertain then raised top else top);
          assessment = \<lparr>risk_level = level, category_level = category_level, path_level = path_level,
            size_level = size_level, risk_uncertain = uncertain,
            governing_paths = take 100 (sort governing),
            risk_reasons = take 50 (map (take 500) reasons2)\<rparr>
      in if risk_ok assessment then Inr assessment else Inl ''RiskAssessment'')"

section \<open>Facts about the classification\<close>

lemma path_loop_result:
  "path_loop casefold dels paths (level, governing, reasons, uncertain) =
     (highest (level # map (\<lambda>p. fst (path_risk casefold p dels)) paths),
      governing @ filter (\<lambda>p. fst (snd (path_risk casefold p dels))) paths,
      reasons @ concat (map (\<lambda>p. case path_risk casefold p dels of
         (l, g, reason) \<Rightarrow> if l \<noteq> LOW \<or> g then [reason] else []) paths),
      uncertain \<or> (\<exists>p \<in> set paths. fst (path_risk casefold p dels) = HIGH
                       \<and> \<not> fst (snd (path_risk casefold p dels))))"
  by (induction paths arbitrary: level governing reasons uncertain)
     (auto simp: case_prod_beta Let_def max.assoc)

definition governing_path :: "(ustr \<Rightarrow> ustr) \<Rightarrow> ustr \<Rightarrow> bool" where
  "governing_path casefold p \<longleftrightarrow> path_matches p governing_path_prefixes \<or> is_evaluation_config_path p
     \<or> is_sensitive_path casefold p"

lemma path_risk_governing: "fst (snd (path_risk casefold p dels)) \<longleftrightarrow> governing_path casefold p"
  by (auto simp: path_risk_def governing_path_def)

lemma path_risk_reason_nonempty: "snd (snd (path_risk casefold p dels)) \<noteq> []"
  by (auto simp: path_risk_def lit_def)

lemma governing_high: "governing_path casefold p \<Longrightarrow> fst (path_risk casefold p dels) = HIGH"
  by (auto simp: path_risk_def governing_path_def)

text \<open>The shape of an assessment that \<open>classify_change\<close> returns, whatever reasons it gives.\<close>

definition assessment ::
  "(ustr \<Rightarrow> ustr) \<Rightarrow> change_category \<Rightarrow> ustr list \<Rightarrow> int \<Rightarrow> int \<Rightarrow> int \<Rightarrow> cycle_budget \<Rightarrow> bool
     \<Rightarrow> ustr list \<Rightarrow> risk_assessment" where
  "assessment casefold category paths adds dels bytes budget untrusted rs =
     (let levels = map (\<lambda>p. fst (path_risk casefold p dels)) paths;
          governing = filter (governing_path casefold) paths;
          uncertain = ((category = UNKNOWN_CATEGORY \<or> untrusted \<or> paths = [])
            \<or> (\<exists>p \<in> set paths. fst (path_risk casefold p dels) = HIGH \<and> \<not> governing_path casefold p));
          path_level = highest ((if paths = [] then HIGH else LOW) # levels);
          size_level = (if (int (length paths) > max_changed_files budget \<or> bytes > max_diff_bytes budget)
            \<or> (dels > adds \<and> dels > 50) then MEDIUM else LOW);
          top = highest [category_risk category, path_level, size_level]
      in \<lparr>risk_level = (if [] @ governing \<noteq> [] then HIGH else if uncertain then raised top else top),
            category_level = category_risk category, path_level = path_level, size_level = size_level,
            risk_uncertain = uncertain, governing_paths = take 100 (sort ([] @ governing)),
            risk_reasons = rs\<rparr>)"

lemma lit_nonempty: "lit (c # s) \<noteq> []" "[] \<noteq> lit (c # s)"
  by (simp_all add: lit_def)

lemma path_risk_no_empty_reason: "path_risk casefold p dels \<noteq> (a, b, [])" "(a, b, []) \<noteq> path_risk casefold p dels"
  using path_risk_reason_nonempty [of casefold p dels] by (metis snd_conv)+

lemma classify_change_shape:
  "\<exists>reasons. (reasons \<noteq> [] \<and> (\<forall>r \<in> set reasons. r \<noteq> [])) \<and>
     classify_change casefold category paths adds dels bytes budget untrusted =
     (if risk_ok (assessment casefold category paths adds dels bytes budget untrusted
           (take 50 (map (take 500) reasons)))
      then Inr (assessment casefold category paths adds dels bytes budget untrusted
           (take 50 (map (take 500) reasons)))
      else Inl ''RiskAssessment'')"
  apply (simp only: classify_change_def assessment_def Let_def path_loop_result prod.case path_risk_governing)
  apply (rule exI, rule conjI)
   prefer 2
   apply (rule refl)
  apply (auto simp: lit_append lit_nonempty path_risk_no_empty_reason split: prod.splits if_splits)
  done

lemma classify_change_Inr:
  assumes "classify_change casefold category paths adds dels bytes budget untrusted = Inr r"
  shows "category_level r = category_risk category"
    "path_level r = (if paths = [] then HIGH else highest (map (\<lambda>p. fst (path_risk casefold p dels)) paths))"
    "size_level r = (if int (length paths) > max_changed_files budget \<or> bytes > max_diff_bytes budget
        \<or> dels > adds \<and> dels > 50 then MEDIUM else LOW)"
    "risk_uncertain r \<longleftrightarrow> category = UNKNOWN_CATEGORY \<or> untrusted \<or> paths = []
       \<or> (\<exists>p \<in> set paths. fst (path_risk casefold p dels) = HIGH \<and> \<not> governing_path casefold p)"
    "governing_paths r = take 100 (sort (filter (governing_path casefold) paths))"
    "risk_level r = (if filter (governing_path casefold) paths \<noteq> [] then HIGH else risk_floor r)"
    "risk_ok r"
proof -
  from classify_change_shape [of casefold category paths adds dels bytes budget untrusted] assms
  obtain rs where r: "r = assessment casefold category paths adds dels bytes budget untrusted rs"
    and ok: "risk_ok r"
    by (auto split: if_splits)
  show "risk_ok r" by (rule ok)
  show "category_level r = category_risk category"
    by (simp add: r assessment_def Let_def)
  show "size_level r = (if int (length paths) > max_changed_files budget \<or> bytes > max_diff_bytes budget
        \<or> dels > adds \<and> dels > 50 then MEDIUM else LOW)"
    by (simp add: r assessment_def Let_def)
  show "governing_paths r = take 100 (sort (filter (governing_path casefold) paths))"
    by (simp add: r assessment_def Let_def)
  show "risk_uncertain r \<longleftrightarrow> category = UNKNOWN_CATEGORY \<or> untrusted \<or> paths = []
       \<or> (\<exists>p \<in> set paths. fst (path_risk casefold p dels) = HIGH \<and> \<not> governing_path casefold p)"
    by (simp add: r assessment_def Let_def disj_assoc)
  show "path_level r = (if paths = [] then HIGH else highest (map (\<lambda>p. fst (path_risk casefold p dels)) paths))"
    by (simp add: r assessment_def Let_def)
  show "risk_level r = (if filter (governing_path casefold) paths \<noteq> [] then HIGH else risk_floor r)"
    by (simp add: r assessment_def risk_floor_def Let_def split del: if_split cong: if_cong)
qed

text \<open>On well-formed paths the assessment always passes its own validators.\<close>

lemma classify_change_total:
  assumes "list_all path_ok paths"
  shows "\<exists>r. classify_change casefold category paths adds dels bytes budget untrusted = Inr r"
proof -
  obtain reasons where rs: "reasons \<noteq> []" "\<forall>r \<in> set reasons. r \<noteq> []"
    and c: "classify_change casefold category paths adds dels bytes budget untrusted =
     (if risk_ok (assessment casefold category paths adds dels bytes budget untrusted
           (take 50 (map (take 500) reasons)))
      then Inr (assessment casefold category paths adds dels bytes budget untrusted
           (take 50 (map (take 500) reasons)))
      else Inl ''RiskAssessment'')"
    using classify_change_shape [of casefold category paths adds dels bytes budget untrusted] by blast
  let ?r = "assessment casefold category paths adds dels bytes budget untrusted (take 50 (map (take 500) reasons))"
  have "set (governing_paths ?r) \<subseteq> set paths"
    using set_take_subset [of 100] by (fastforce simp: assessment_def Let_def)
  then have "list_all path_ok (governing_paths ?r)"
    using assms by (auto simp: list_all_iff)
  moreover have "bounded 1 50 (risk_reasons ?r)" "list_all short_text (risk_reasons ?r)"
    using rs set_take_subset [of 50 reasons]
    by (auto simp: assessment_def Let_def bounded_def short_text_def list_all_iff take_map Suc_le_eq)
  moreover have "risk_floor ?r \<le> risk_level ?r" "governing_paths ?r \<noteq> [] \<longrightarrow> risk_level ?r = HIGH"
    by (simp_all add: assessment_def risk_floor_def Let_def)
  ultimately have "risk_ok ?r"
    by (auto simp: risk_ok_def bounded_def less_eq_risk_level_def assessment_def Let_def)
  with c show ?thesis by auto
qed

text \<open>The level is at least every component, and above it under uncertainty.\<close>

lemma risk_floor_ge:
  "category_level r \<le> risk_floor r" "path_level r \<le> risk_floor r" "size_level r \<le> risk_floor r"
  "risk_uncertain r \<Longrightarrow> risk_floor r \<noteq> LOW"
  using raised_above [of "highest [category_level r, path_level r, size_level r]"]
  by (auto simp: risk_floor_def Let_def le_max_iff_disj intro: order_trans)

end
