(* ===== verification/EngineerTrust.thy ===== *)
theory EngineerTrust
  imports EngineerRecords
begin

text \<open>
  Trust boundaries and prices of the resident engineer (\<open>software_engineer/trust.py\<close>, \<open>pricing.py\<close>),
  with the secret patterns of \<open>brain/models.py\<close> and the untrusted-data frame of
  \<open>patchforge/engine.py\<close>. The regular-expression engine is Python's \<open>re\<close>: \<open>re_search\<close> and
  \<open>re_match1\<close> stand for it, and the patterns are those of the code. \<open>rx\<close> writes a pattern with \<open>~\<close>
  in place of the backslash.
\<close>

section \<open>What text functions the engineer takes from Python\<close>

text \<open>\<open>text_digest\<close> is the SHA-256 hex digest of the UTF-8 encoding of a text.\<close>

record text_env = env +
  casefold :: "ustr \<Rightarrow> ustr"
  strip :: "ustr \<Rightarrow> ustr"
  text_digest :: "ustr \<Rightarrow> string"
  re_search :: "string \<Rightarrow> bool \<Rightarrow> ustr \<Rightarrow> bool"
  re_match1 :: "string \<Rightarrow> ustr \<Rightarrow> ustr option"

definition rx :: "string \<Rightarrow> string" where
  "rx p = map (\<lambda>c. if c = CHR ''~'' then CHR 0x5C else c) p"

section \<open>Patterns\<close>

text \<open>A pattern and whether it is compiled with \<open>re.IGNORECASE\<close>.\<close>

definition brain_secret_patterns :: "(string \<times> bool) list" where
  "brain_secret_patterns =
     [(rx ''sk-[A-Za-z0-9_-]{20,}'', False),
      (rx ''authorization~s*:~s*bearer~s+~S+'', True),
      (rx ''openai_api_key~s*[=:]~s*~S+'', True),
      (rx ''postgres_password~s*[=:]~s*~S+'', True),
      (rx ''-----BEGIN [A-Z ]*PRIVATE KEY-----'', False)]"

definition contains_secret :: "('a text_env_scheme) \<Rightarrow> ustr \<Rightarrow> bool" where
  "contains_secret T v = list_ex (\<lambda>(p, i). re_search T p i v) brain_secret_patterns"

definition credential_patterns :: "(string \<times> bool) list" where
  \<open>credential_patterns =
     [(rx ''~bgh[pousr]_[A-Za-z0-9]{20,}'', False),
      (rx ''~bgithub_pat_[A-Za-z0-9_]{20,}'', False),
      (rx ''hooks~.slack~.com/services/~S+'', True),
      (rx ''~bxox[abprs]-[A-Za-z0-9-]{10,}'', False),
      (rx ''~bAKIA[0-9A-Z]{16}~b'', False),
      (rx ''~b(?:api[_-]?key|token|secret|password)~s*[=:]~s*['~"]?[A-Za-z0-9_~-]{16,}'', True)]\<close>

definition contains_credential :: "('a text_env_scheme) \<Rightarrow> ustr \<Rightarrow> bool" where
  "contains_credential T v \<longleftrightarrow>
     contains_secret T v \<or> list_ex (\<lambda>(p, i). re_search T p i v) credential_patterns"

definition instruction_patterns :: "(string \<times> string) list" where
  "instruction_patterns =
     [(''ignore_rules'', rx ''~bignore~b.{0,40}~b(rules?|instructions?|policy|policies|guardrails?)''),
      (''push_main'', rx ''~bpush~b.{0,20}~b(directly~s+)?(to~s+)?(main|master|production)~b''),
      (''merge_now'', rx ''~b(merge|deploy|release)~b.{0,20}~b(now|immediately|without)~b''),
      (''disable_safety'', rx (''~b(disable|bypass|skip|remove|turn~s+off)~b.{0,40}''
         @ ''~b(tests?|safety|sentinel|approval|review|gates?|checks?|budget|limits?)~b'')),
      (''approve_self'', rx ''~b(approve|self[- ]approve|auto[- ]approve)~b.{0,30}~b(your|own|this)~b''),
      (''identity_override'', rx ''~b(you are now|new instructions|system prompt|developer message)~b''),
      (''secret_exfiltration'',
         rx ''~b(print|send|post|leak|reveal)~b.{0,30}~b(secret|token|key|password|credential)''),
      (''credential_grant'', rx ''~b(grant|give)~b.{0,30}~b(access|permission|token|credential)'')]"

definition detect_instruction_like_text :: "('a text_env_scheme) \<Rightarrow> ustr \<Rightarrow> string list" where
  "detect_instruction_like_text T v =
     map fst (filter (\<lambda>(name, p). re_search T p True v) instruction_patterns)"

section \<open>Untrusted text\<close>

definition max_untrusted_chars :: nat where
  "max_untrusted_chars = 20000"

record untrusted =
  ut_source :: ustr
  ut_content :: ustr
  ut_sha256 :: string
  ut_truncated :: bool
  ut_instruction_like :: "string list"

text \<open>\<open>UntrustedText.capture\<close>.\<close>

definition capture :: "('a text_env_scheme) \<Rightarrow> ustr \<Rightarrow> ustr \<Rightarrow> untrusted" where
  "capture T source text =
     (let content = take max_untrusted_chars text in
      \<lparr>ut_source = take 500 source, ut_content = content, ut_sha256 = text_digest T text,
       ut_truncated = (length text > max_untrusted_chars),
       ut_instruction_like = detect_instruction_like_text T content\<rparr>)"

text \<open>
  \<open>render_untrusted\<close>: \<open>json.dumps\<close> of the two members, angle brackets escaped, cut to the limit and framed.
\<close>

definition escape_angle :: "char \<Rightarrow> string" where
  "escape_angle c = (if c = CHR ''<'' then CHR 0x5C # ''u003c''
     else if c = CHR ''>'' then CHR 0x5C # ''u003e'' else [c])"

definition encoded_untrusted :: "untrusted \<Rightarrow> string" where
  "encoded_untrusted u = concat (map escape_angle
     (''{'' @ quote_str (lit ''content'') @ '': '' @ quote_str (ut_content u) @ '', ''
      @ quote_str (lit ''source'') @ '': '' @ quote_str (ut_source u) @ ''}''))"

definition render_untrusted :: "untrusted \<Rightarrow> nat \<Rightarrow> string" where
  \<open>render_untrusted u limit =
     (let encoded = encoded_untrusted u; truncated = length encoded > limit in
      ''<untrusted_data'' @ (if truncated then '' truncated="true"'' else []) @ ''>\<newline>''
      @ (if truncated then take limit encoded else encoded) @ ''\<newline></untrusted_data>'')\<close>

section \<open>Owner commands\<close>

record owner_command =
  command_uuid :: uuid
  command_request_id :: uuid
  command_verdict :: owner_verdict
  issued_by :: actor_identity
  command_channel :: owner_channel
  command_reason :: ustr
  issued_at :: timestamp

datatype trust_error = Trust_Error string

definition authorize_owner_command :: "owner_command \<Rightarrow> string \<Rightarrow> trust_error + unit" where
  "authorize_owner_command c owner_id =
     (if actor_type (issued_by c) \<noteq> Human
        then Inl (Trust_Error ''Only a human owner can decide on an approval request'')
      else if actor_id (issued_by c) \<noteq> owner_id
        then Inl (Trust_Error ''The actor is not the configured owner'')
      else Inr ())"

lemma authorize_owner_command_Inr [run_simps]:
  "authorize_owner_command c owner_id = Inr u
     \<longleftrightarrow> actor_type (issued_by c) = Human \<and> actor_id (issued_by c) = owner_id"
  by (simp add: authorize_owner_command_def)

section \<open>The frame of untrusted data\<close>

lemma escape_angle_clean: "CHR ''<'' \<notin> set (escape_angle c)" "CHR ''>'' \<notin> set (escape_angle c)"
  by (auto simp: escape_angle_def)

lemma encoded_clean: "CHR ''<'' \<notin> set (encoded_untrusted u)" "CHR ''>'' \<notin> set (encoded_untrusted u)"
  using escape_angle_clean by (auto simp: encoded_untrusted_def)

end
