(* ===== verification/EngineerReview.thy ===== *)
theory EngineerReview
  imports EngineerTrust EngineerRisk
begin

text \<open>
  The independent self-review (\<open>src/nexus/software_engineer/review.py\<close>): the facts derived from a
  unified diff, line by line, and the fourteen answers of \<open>SelfReviewer.review\<close>.
\<close>

section \<open>Diff facts\<close>

record diff_facts =
  facts_files :: "ustr list"
  facts_additions :: int
  facts_deletions :: int
  facts_diff_sha256 :: "string option"
  test_files_changed :: "ustr list"
  source_files_changed :: "ustr list"
  assertions_removed :: int
  skips_added :: int
  public_definitions_removed :: "ustr list"
  concurrency_added :: bool
  nondeterminism_added :: bool
  global_state_added :: bool
  secret_like_added :: bool
  instruction_like_added :: bool
  sensitive_paths :: "ustr list"

definition concurrency_pattern :: string where
  "concurrency_pattern = rx ''~b(threading|multiprocessing|concurrent~.futures|create_task|gather)~b''"

definition nondeterminism_pattern :: string where
  "nondeterminism_pattern =
     rx ''~b(random~.|time~.time~(|perf_counter~(|datetime~.now~(~)|uuid4~(|os~.urandom)''"

definition global_state_pattern :: string where
  "global_state_pattern =
     rx ''^~s*global~s+~w+|^[A-Za-z_][A-Za-z0-9_]*~s*=~s*(~[~]|~{~}|set~(~))~s*$''"

definition secret_like_pattern :: string where
  \<open>secret_like_pattern =
     rx ''(sk-[A-Za-z0-9_-]{20,}|-----BEGIN [A-Z ]*PRIVATE KEY-----|password~s*=~s*['~"][^'~"]+)''\<close>

definition public_def_pattern :: string where
  "public_def_pattern = rx ''^~s*(?:async~s+)?(?:def|class)~s+([A-Za-z][A-Za-z0-9_]*)''"

definition assert_pattern :: string where
  "assert_pattern =
     rx ''^~s*(?:assert~b|self~.(?:assert|fail)~w*~(|(?:with~s+)?pytest~.(?:raises|warns)~b)''"

definition test_skip_pattern :: string where
  "test_skip_pattern =
     rx (''~bpytest~.(?:skip|xfail|importorskip)~s*~(|@pytest~.mark~.(?:skip|skipif|xfail)~b''
       @ ''|~bunittest~.(?:skip|skipIf|skipUnless|expectedFailure)~b|~bself~.skipTest~s*~('')"

text \<open>The loop variables of \<open>diff_facts\<close>.\<close>

record diff_state =
  ds_additions :: int
  ds_deletions :: int
  ds_assertions :: int
  ds_skips :: int
  ds_removed_defs :: "ustr list"
  ds_added_defs :: "ustr list"
  ds_concurrency :: bool
  ds_nondeterminism :: bool
  ds_global_state :: bool
  ds_secret_like :: bool
  ds_instruction_like :: bool
  ds_current :: "ustr option"
  ds_old_path :: "ustr option"
  ds_header :: bool

definition diff_start :: diff_state where
  "diff_start = \<lparr>ds_additions = 0, ds_deletions = 0, ds_assertions = 0, ds_skips = 0,
     ds_removed_defs = [], ds_added_defs = [], ds_concurrency = False, ds_nondeterminism = False,
     ds_global_state = False, ds_secret_like = False, ds_instruction_like = False,
     ds_current = None, ds_old_path = None, ds_header = True\<rparr>"

definition in_tests :: "ustr option \<Rightarrow> bool" where
  "in_tests path = (case path of None \<Rightarrow> False | Some p \<Rightarrow> path_matches p test_prefixes)"

text \<open>
  A line of \<open>splitlines\<close> has no newline, so the patterns for added and removed lines match exactly the
  lines that start with a plus or a minus. \<open>re_match1\<close> is \<open>match\<close> with its first group; the pattern of
  checks is anchored, so searching it is matching it.
\<close>

definition added_line :: "('a text_env_scheme) \<Rightarrow> ustr \<Rightarrow> diff_state \<Rightarrow> diff_state" where
  "added_line T content s =
     s\<lparr>ds_additions := ds_additions s + 1,
       ds_concurrency := (ds_concurrency s \<or> re_search T concurrency_pattern False content),
       ds_nondeterminism := (ds_nondeterminism s \<or> re_search T nondeterminism_pattern False content),
       ds_global_state := (ds_global_state s \<or> re_search T global_state_pattern False content),
       ds_secret_like := (ds_secret_like s \<or> re_search T secret_like_pattern True content),
       ds_instruction_like := (ds_instruction_like s \<or> detect_instruction_like_text T content \<noteq> []),
       ds_skips := (if in_tests (ds_current s) \<and> re_search T test_skip_pattern False content
                    then ds_skips s + 1 else ds_skips s),
       ds_added_defs := (case re_match1 T public_def_pattern content of
           None \<Rightarrow> ds_added_defs s | Some d \<Rightarrow> d # ds_added_defs s)\<rparr>"

definition removed_line :: "('a text_env_scheme) \<Rightarrow> ustr \<Rightarrow> diff_state \<Rightarrow> diff_state" where
  "removed_line T content s =
     s\<lparr>ds_deletions := ds_deletions s + 1,
       ds_assertions := (if in_tests (ds_current s) \<and> re_search T assert_pattern False content
                         then ds_assertions s + 1 else ds_assertions s),
       ds_removed_defs := (case re_match1 T public_def_pattern content of
           None \<Rightarrow> ds_removed_defs s
         | Some d \<Rightarrow> if \<not> starts_with (lit ''_'') d \<and> ds_current s \<noteq> None \<and> \<not> in_tests (ds_current s)
                     then ds_removed_defs s @ [d] else ds_removed_defs s)\<rparr>"

definition diff_line :: "('a text_env_scheme) \<Rightarrow> ustr \<Rightarrow> diff_state \<Rightarrow> diff_state" where
  "diff_line T line s =
     (if starts_with (lit ''diff --git '') line
        then s\<lparr>ds_current := None, ds_old_path := None, ds_header := True\<rparr>
      else if starts_with (lit ''@@'') line then s\<lparr>ds_header := False\<rparr>
      else if ds_header s then
        (if starts_with (lit ''--- '') line
           then s\<lparr>ds_old_path := (if starts_with (lit ''--- a/'') line then Some (drop 6 line) else None)\<rparr>
         else if starts_with (lit ''+++ '') line
           then s\<lparr>ds_current := (if starts_with (lit ''+++ b/'') line then Some (drop 6 line)
                                  else ds_old_path s)\<rparr>
         else s)
      else if starts_with (lit ''+'') line then added_line T (drop 1 line) s
      else if starts_with (lit ''-'') line then removed_line T (drop 1 line) s
      else s)"

text \<open>\<open>str.splitlines\<close>: every line boundary of Unicode, not only the newline, ends a line.\<close>

definition line_boundary :: "nat \<Rightarrow> bool" where
  "line_boundary c \<longleftrightarrow> c \<in> set [10, 11, 12, 13, 28, 29, 30, 133, 8232, 8233]"

fun splitlines_from :: "ustr \<Rightarrow> ustr \<Rightarrow> ustr list" where
  "splitlines_from cur [] = (if cur = [] then [] else [rev cur])"
| "splitlines_from cur (c # cs) =
     (if c = 13 \<and> cs \<noteq> [] \<and> hd cs = 10 then rev cur # splitlines_from [] (tl cs)
      else if line_boundary c then rev cur # splitlines_from [] cs
      else splitlines_from (c # cur) cs)"

definition splitlines :: "ustr \<Rightarrow> ustr list" where
  "splitlines text = splitlines_from [] text"

text \<open>\<open>sorted(set(xs))\<close>.\<close>

definition sorted_set :: "ustr list \<Rightarrow> ustr list" where
  "sorted_set xs = sort (remdups xs)"

text \<open>\<open>diff_facts\<close> of the decoded patch.\<close>

definition diff_facts :: "('a text_env_scheme) \<Rightarrow> ustr \<Rightarrow> ustr list \<Rightarrow> string option \<Rightarrow> diff_facts" where
  "diff_facts T text touched digest =
     (let s = fold (diff_line T) (splitlines text) diff_start; files = sorted_set touched in
      \<lparr>facts_files = take 1000 files, facts_additions = ds_additions s,
       facts_deletions = ds_deletions s, facts_diff_sha256 = digest,
       test_files_changed = take 500 (filter (\<lambda>p. path_matches p test_prefixes) files),
       source_files_changed = take 500 (filter (\<lambda>p. \<not> path_matches p test_prefixes) files),
       assertions_removed = ds_assertions s, skips_added = ds_skips s,
       public_definitions_removed =
         take 200 (filter (\<lambda>d. d \<notin> set (ds_added_defs s)) (sorted_set (ds_removed_defs s))),
       concurrency_added = ds_concurrency s, nondeterminism_added = ds_nondeterminism s,
       global_state_added = ds_global_state s, secret_like_added = ds_secret_like s,
       instruction_like_added = ds_instruction_like s,
       sensitive_paths = take 100 (filter (is_sensitive_path (casefold T)) files)\<rparr>)"

text \<open>\<open>DiffFacts(changed_files=paths)\<close>: the facts of a plan, with every other field at its default.\<close>

definition plan_facts :: "ustr list \<Rightarrow> diff_facts" where
  "plan_facts paths = \<lparr>facts_files = paths, facts_additions = 0, facts_deletions = 0,
     facts_diff_sha256 = None, test_files_changed = [], source_files_changed = [],
     assertions_removed = 0, skips_added = 0, public_definitions_removed = [],
     concurrency_added = False, nondeterminism_added = False, global_state_added = False,
     secret_like_added = False, instruction_like_added = False, sensitive_paths = []\<rparr>"

text \<open>The validators of \<open>DiffFacts\<close>. Facts derived from the paths of a change and of a plan, which are \<open>RepositoryPath\<close>s
  already, always pass them, so that \<open>_self_review\<close> never raises a \<open>ValidationError\<close> when it builds them.\<close>

definition diff_facts_ok :: "diff_facts \<Rightarrow> bool" where
  "diff_facts_ok f \<longleftrightarrow> bounded 0 1000 (facts_files f) \<and> list_all path_ok (facts_files f)
     \<and> 0 \<le> facts_additions f \<and> 0 \<le> facts_deletions f \<and> opt_ok valid_sha256 (facts_diff_sha256 f)
     \<and> bounded 0 500 (test_files_changed f) \<and> list_all path_ok (test_files_changed f)
     \<and> bounded 0 500 (source_files_changed f) \<and> list_all path_ok (source_files_changed f)
     \<and> 0 \<le> assertions_removed f \<and> 0 \<le> skips_added f \<and> bounded 0 200 (public_definitions_removed f)
     \<and> bounded 0 100 (sensitive_paths f) \<and> list_all path_ok (sensitive_paths f)"

section \<open>The reviewer\<close>

definition mechanical_category :: "change_category \<Rightarrow> bool" where
  "mechanical_category c \<longleftrightarrow>
     c \<in> set [FORMATTING, TYPE_ANNOTATION, DOCUMENTATION_CORRECTION, DEAD_CODE_REMOVAL]"

definition item :: "review_question \<Rightarrow> review_answer \<Rightarrow> ustr \<Rightarrow> review_item" where
  "item q a note = \<lparr>question = q, answer = a, note_text = take 500 note\<rparr>"

definition review_answers :: "diff_facts \<Rightarrow> change_category \<Rightarrow> bool \<Rightarrow> bool \<Rightarrow> review_item list" where
  "review_answers facts category tests_ran root_cause_evidence =
     (let risk = category_risk category; mechanical = mechanical_category category;
          removed = public_definitions_removed facts \<noteq> [];
          invariant = (risk = HIGH \<or> sensitive_paths facts \<noteq> []);
          weakened = (assertions_removed facts \<noteq> 0 \<or> skips_added facts \<noteq> 0);
          sensitive = (secret_like_added facts \<or> sensitive_paths facts \<noteq> []);
          injection = (instruction_like_added facts \<or> category = PROMPT_CHANGE);
          covers = (test_files_changed facts \<noteq> [] \<or> source_files_changed facts = [] \<or> mechanical) in
      [item ROOT_CAUSE_QUESTION (if mechanical \<or> root_cause_evidence then CLEAR else UNKNOWN_ANSWER)
         (lit (if mechanical then ''mechanical change''
               else if root_cause_evidence then ''root cause evidence recorded''
               else ''no root-cause evidence'')),
       item OTHER_PATHS (if tests_ran then CLEAR else UNKNOWN_ANSWER)
         (lit (if tests_ran then ''full suite ran'' else ''the full suite did not run'')),
       item PUBLIC_BEHAVIOR (if removed then CONCERN else CLEAR)
         (if removed then lit ''removed public definitions: ''
              @ join_with (lit '', '') (take 5 (public_definitions_removed facts))
          else lit ''no public definition removed''),
       item INVARIANT (if invariant then CONCERN else CLEAR)
         (lit (if invariant then ''high-risk category or sensitive path''
               else ''no invariant-bearing path touched'')),
       item TEST_WEAKENED (if weakened then CONCERN else CLEAR)
         (lit (if weakened then int_str (assertions_removed facts) @ '' check(s) removed, ''
                 @ int_str (skips_added facts) @ '' skip or expected-failure marker(s) added''
               else ''no check removed and no skip added'')),
       item RACE (if concurrency_added facts then CONCERN else CLEAR)
         (lit (if concurrency_added facts then ''concurrency primitives added''
               else ''no concurrency added'')),
       item NONDETERMINISM (if nondeterminism_added facts then CONCERN else CLEAR)
         (lit (if nondeterminism_added facts then ''clock, random, or uuid4 use added''
               else ''no nondeterministic source added'')),
       item COMPLEXITY (if facts_additions facts > 200 then UNKNOWN_ANSWER else CLEAR)
         (lit (if facts_additions facts > 200 then int_str (facts_additions facts) @ '' line(s) added''
               else ''small change'')),
       item HIDDEN_STATE (if global_state_added facts then CONCERN else CLEAR)
         (lit (if global_state_added facts then ''module-level mutable state added''
               else ''no hidden state added'')),
       item SENSITIVE_DATA (if sensitive then CONCERN else CLEAR)
         (lit (if sensitive then ''secret-shaped content or sensitive path'' else ''no sensitive data'')),
       item PROMPT_INJECTION (if injection then CONCERN else CLEAR)
         (lit (if injection then ''instruction-like text or prompt change''
               else ''no instruction-like text added'')),
       item TESTS_COVER (if covers \<and> tests_ran then CLEAR else UNKNOWN_ANSWER)
         (lit (if test_files_changed facts \<noteq> [] then ''tests changed alongside the code''
               else if source_files_changed facts \<noteq> [] \<and> \<not> mechanical
                 then ''no test accompanies the source change''
               else ''no source behavior changed'')),
       item SMALLER (if facts_additions facts > 100 then UNKNOWN_ANSWER else CLEAR)
         (lit (if facts_additions facts > 100 then ''large addition; a smaller solution was not ruled out''
               else ''minimal change'')),
       item HUMAN_REVIEW (if risk \<noteq> LOW then CONCERN else CLEAR)
         (lit (if risk \<noteq> LOW then risk_value risk @ '' risk category'' else ''low-risk category''))])"

definition self_review :: "diff_facts \<Rightarrow> change_category \<Rightarrow> bool \<Rightarrow> bool \<Rightarrow> self_review" where
  "self_review facts category tests_ran root_cause_evidence =
     \<lparr>review_items = review_answers facts category tests_ran root_cause_evidence,
      reviewed_diff = facts_diff_sha256 facts\<rparr>"

section \<open>What a clean review says\<close>

lemma item_simps [simp]: "question (item q a n) = q" "answer (item q a n) = a" "note_text (item q a n) = take 500 n"
  by (simp_all add: item_def)

lemma short_note: "n \<noteq> [] \<Longrightarrow> short_text (take 500 n)"
  by (cases n) (simp_all add: short_text_def bounded_def)

lemma self_review_valid:
  assumes "opt_ok valid_sha256 (facts_diff_sha256 facts)"
  shows "self_review_ok (self_review facts category tests_ran rc)"
proof -
  have "list_all (\<lambda>i. short_text (note_text i)) (review_answers facts category tests_ran rc)"
    unfolding review_answers_def Let_def list.pred_inject item_simps
    by (intro conjI short_note) (simp_all add: lit_nonempty lit_append)
  moreover have "map question (review_answers facts category tests_ran rc) = all_questions"
    by (simp add: review_answers_def all_questions_def Let_def)
  ultimately show ?thesis
    using assms
    by (simp add: self_review_ok_def self_review_def flip: set_map [symmetric])
       (metis length_map)
qed

lemma clean_review_iff:
  "\<not> requires_human (self_review facts category tests_ran rc) \<longleftrightarrow>
     category_risk category = LOW \<and> category \<noteq> PROMPT_CHANGE \<and> tests_ran
     \<and> (mechanical_category category \<or> rc)
     \<and> public_definitions_removed facts = [] \<and> sensitive_paths facts = []
     \<and> assertions_removed facts = 0 \<and> skips_added facts = 0
     \<and> \<not> concurrency_added facts \<and> \<not> nondeterminism_added facts \<and> \<not> global_state_added facts
     \<and> \<not> secret_like_added facts \<and> \<not> instruction_like_added facts
     \<and> facts_additions facts \<le> 100
     \<and> (test_files_changed facts \<noteq> [] \<or> source_files_changed facts = [] \<or> mechanical_category category)"
  unfolding requires_human_iff
  by (auto simp: self_review_def review_answers_def Let_def)

section \<open>What the facts of a patch miss and catch\<close>

text \<open>Flags and counters only grow over the lines of a patch.\<close>

definition facts_below :: "diff_state \<Rightarrow> diff_state \<Rightarrow> bool" where
  "facts_below s t \<longleftrightarrow> (ds_secret_like s \<longrightarrow> ds_secret_like t)
     \<and> (ds_instruction_like s \<longrightarrow> ds_instruction_like t) \<and> ds_skips s \<le> ds_skips t
     \<and> ds_assertions s \<le> ds_assertions t \<and> ds_additions s \<le> ds_additions t \<and> ds_deletions s \<le> ds_deletions t"

lemma facts_below_refl [simp]: "facts_below s s"
  by (simp add: facts_below_def)

lemma facts_below_trans: "facts_below s t \<Longrightarrow> facts_below t u \<Longrightarrow> facts_below s u"
  by (auto simp: facts_below_def)

lemma diff_line_below: "facts_below s (diff_line T line s)"
  by (auto simp: diff_line_def added_line_def removed_line_def facts_below_def)

lemma fold_below: "facts_below s (fold (diff_line T) ls s)"
  by (induction ls arbitrary: s) (auto intro: facts_below_trans diff_line_below)

text \<open>Facts that the cycle derives are valid: its paths are checked when the change or the candidate is built.\<close>

lemma diff_facts_valid:
  assumes "list_all path_ok touched" "opt_ok valid_sha256 digest"
  shows "diff_facts_ok (diff_facts T text touched digest)"
proof -
  let ?s = "fold (diff_line T) (splitlines text) diff_start"
  have "facts_below diff_start ?s" by (rule fold_below)
  then have "0 \<le> ds_additions ?s" "0 \<le> ds_deletions ?s" "0 \<le> ds_skips ?s" "0 \<le> ds_assertions ?s"
    by (simp_all add: facts_below_def diff_start_def)
  moreover have "list_all path_ok (take n (filter P (sorted_set touched)))" for n P
    using assms(1) by (auto simp: list_all_iff sorted_set_def dest: in_set_takeD)
  moreover have "list_all path_ok (take n (sorted_set touched))" for n
    using assms(1) by (auto simp: list_all_iff sorted_set_def dest: in_set_takeD)
  ultimately show ?thesis using assms(2) by (simp add: diff_facts_ok_def diff_facts_def Let_def bounded_def)
qed

lemma plan_facts_valid: "bounded 0 100 paths \<Longrightarrow> list_all path_ok paths \<Longrightarrow> diff_facts_ok (plan_facts paths)"
  by (simp add: diff_facts_ok_def plan_facts_def bounded_def)

text \<open>Lines the review must not pass: secrets, instructions, skipped tests, removed checks.\<close>

definition suspicious_line :: "('a text_env_scheme) \<Rightarrow> diff_state \<Rightarrow> ustr \<Rightarrow> bool" where
  "suspicious_line T s line \<longleftrightarrow>
     starts_with (lit ''+'') line \<and>
       (re_search T secret_like_pattern True (drop 1 line)
        \<or> detect_instruction_like_text T (drop 1 line) \<noteq> []
        \<or> in_tests (ds_current s) \<and> re_search T test_skip_pattern False (drop 1 line))
     \<or> starts_with (lit ''-'') line \<and> in_tests (ds_current s) \<and> re_search T assert_pattern False (drop 1 line)"

lemma starts_with_lit1: "starts_with (lit [c]) line \<longleftrightarrow> (\<exists>rest. line = of_char c # rest)"
  by (cases line) (auto simp: lit_def)

lemma suspicious_marks:
  assumes "\<not> ds_header s" "suspicious_line T s line" "0 \<le> ds_skips s" "0 \<le> ds_assertions s"
  shows "ds_secret_like (diff_line T line s) \<or> ds_instruction_like (diff_line T line s)
     \<or> 0 < ds_skips (diff_line T line s) \<or> 0 < ds_assertions (diff_line T line s)"
proof -
  from assms(2) obtain c rest where line: "line = c # rest" "c = 43 \<or> c = 45"
    by (auto simp: suspicious_line_def starts_with_lit1)
  then have "\<not> starts_with (lit ''diff --git '') line" "\<not> starts_with (lit ''@@'') line"
    by (auto simp: lit_def)
  with assms line show ?thesis
    by (auto simp: suspicious_line_def starts_with_lit1 diff_line_def added_line_def removed_line_def)
qed

definition review_blocks :: "diff_facts \<Rightarrow> bool" where
  "review_blocks f \<longleftrightarrow> secret_like_added f \<or> instruction_like_added f \<or> skips_added f \<noteq> 0
     \<or> assertions_removed f \<noteq> 0 \<or> sensitive_paths f \<noteq> []"

lemma review_blocks_blocking: "review_blocks f \<Longrightarrow> blocking (self_review f category tests_ran rc)"
  by (auto simp: review_blocks_def blocking_def self_review_def review_answers_def Let_def critical_questions_def)

lemma suspicious_review_blocks:
  assumes "splitlines text = pre @ line # post" "\<not> ds_header (fold (diff_line T) pre diff_start)"
    "suspicious_line T (fold (diff_line T) pre diff_start) line"
  shows "review_blocks (diff_facts T text touched digest)"
proof -
  let ?s = "fold (diff_line T) pre diff_start" and ?t = "fold (diff_line T) (splitlines text) diff_start"
  have "facts_below diff_start ?s" by (rule fold_below)
  then have "0 \<le> ds_skips ?s" "0 \<le> ds_assertions ?s" by (simp_all add: facts_below_def diff_start_def)
  note marks = suspicious_marks [OF assms(2,3) this]
  have "facts_below (diff_line T line ?s) ?t" unfolding assms(1) by (simp add: fold_below)
  with marks have "ds_secret_like ?t \<or> ds_instruction_like ?t \<or> 0 < ds_skips ?t \<or> 0 < ds_assertions ?t"
    by (auto simp: facts_below_def)
  then show ?thesis by (auto simp: review_blocks_def diff_facts_def Let_def)
qed

text \<open>Splitting a patch at its line ends.\<close>

lemma splitlines_from_append:
  "splitlines_from cur (h @ 10 # rest) = splitlines_from cur (h @ [10]) @ splitlines_from [] rest"
proof (induction cur h rule: splitlines_from.induct)
  case (2 cur c cs)
  then show ?case by (cases cs) (auto simp: line_boundary_def)
qed (simp add: line_boundary_def)

lemma splitlines_from_clean:
  "\<not> list_ex line_boundary a \<Longrightarrow> line_boundary c \<Longrightarrow> c \<noteq> 13
    \<Longrightarrow> splitlines_from cur (a @ c # rest) = (rev cur @ a) # splitlines_from [] rest"
  by (induction a arbitrary: cur) (auto simp: line_boundary_def)

definition context_line :: "ustr \<Rightarrow> bool" where
  "context_line b \<longleftrightarrow> \<not> starts_with (lit ''+'') b \<and> \<not> starts_with (lit ''-'') b
     \<and> \<not> starts_with (lit ''@@'') b \<and> \<not> starts_with (lit ''diff --git '') b"

lemma added_line_header [simp]: "ds_header (added_line T c s) = ds_header s"
  by (simp add: added_line_def)

lemma form_feed_facts:
  assumes "\<not> ds_header (fold (diff_line T) (splitlines (h @ [10])) diff_start)"
    "\<not> list_ex line_boundary a" "\<not> list_ex line_boundary b" "context_line b"
  shows "diff_facts T (h @ [10] @ [43] @ a @ [12] @ b @ [10]) touched digest
       = diff_facts T (h @ [10] @ [43] @ a @ [10]) touched digest"
proof -
  let ?s = "fold (diff_line T) (splitlines (h @ [10])) diff_start"
  have plus: "\<not> list_ex line_boundary (43 # a)" using assms(2) by (simp add: line_boundary_def)
  have first: "splitlines_from [] ((43 # a) @ c # rest) = (43 # a) # splitlines_from [] rest"
    if "c = 10 \<or> c = 12" for c rest
    using splitlines_from_clean [OF plus, of c "[]" rest] that by (auto simp: line_boundary_def)
  have last: "splitlines_from [] (b @ [10]) = [b]"
    using splitlines_from_clean [OF assms(3), of 10 "[]" "[]"] by (simp add: line_boundary_def)
  have shape: "h @ [10] @ [43] @ a @ [12] @ b @ [10] = h @ 10 # ((43 # a) @ 12 # (b @ [10]))"
    "h @ [10] @ [43] @ a @ [10] = h @ 10 # ((43 # a) @ 10 # [])" by simp_all
  have "splitlines (h @ [10] @ [43] @ a @ [12] @ b @ [10]) = splitlines (h @ [10]) @ [43 # a, b]"
    unfolding splitlines_def shape
    unfolding splitlines_from_append [of "[]" h "(43 # a) @ 12 # (b @ [10])"] by (simp only: first [of 12] last simp_thms)
  moreover have "splitlines (h @ [10] @ [43] @ a @ [10]) = splitlines (h @ [10]) @ [43 # a]"
    unfolding splitlines_def shape
    unfolding splitlines_from_append [of "[]" h "(43 # a) @ 10 # []"]
    by (simp only: first [of 10] splitlines_from.simps simp_thms if_True)
  ultimately have lines: "splitlines (h @ [10] @ [43] @ a @ [12] @ b @ [10]) = splitlines (h @ [10]) @ [43 # a, b]"
    "splitlines (h @ [10] @ [43] @ a @ [10]) = splitlines (h @ [10]) @ [43 # a]" by simp_all
  have "diff_line T (43 # a) ?s = added_line T a ?s"
    using assms(1) by (simp add: diff_line_def lit_def)
  then have "diff_line T b (diff_line T (43 # a) ?s) = diff_line T (43 # a) ?s"
    using assms(1,4) by (simp add: diff_line_def context_line_def)
  then have "fold (diff_line T) (splitlines (h @ [10]) @ [43 # a, b]) diff_start
      = fold (diff_line T) (splitlines (h @ [10]) @ [43 # a]) diff_start" by simp
  then show ?thesis unfolding diff_facts_def lines Let_def by (simp only:)
qed

end
