(* ===== verification/EngineerProperties.thy ===== *)
theory EngineerProperties
  imports EngineerPolicy EngineerRisk EngineerReview AtlasDemo
begin

text \<open>
  The properties of the engineer's decision components: the ship policy, the risk classification, the
  self-review over a patch and the frame of untrusted text, each with a concrete instance.
\<close>

section \<open>Shipping\<close>

definition demo_cycle_budget :: cycle_budget where
  "demo_cycle_budget = \<lparr>max_runtime_seconds = 600, max_turns = 60, max_calls = 50, max_model_calls = 5,
     max_cycle_input_tokens = 1000, max_cycle_output_tokens = 1000, max_cost_usd = None,
     max_changed_files = 5, max_diff_bytes = 5000\<rparr>"

definition demo_gates :: "gate_result list" where
  "demo_gates = map (\<lambda>g. \<lparr>gate = g, gate_status = GATE_PASSED, gate_summary = lit ''ok'',
     gate_evidence = Some (replicate 64 (CHR ''0''))\<rparr>) required_gates"

definition demo_low_risk :: risk_assessment where
  "demo_low_risk = \<lparr>risk_level = LOW, category_level = LOW, path_level = LOW, size_level = LOW,
     risk_uncertain = False, governing_paths = [], risk_reasons = [lit ''r'']\<rparr>"

definition demo_facts :: diff_facts where
  "demo_facts = (plan_facts [lit ''docs/a.md''])\<lparr>facts_additions := 3\<rparr>"

definition demo_clean_review :: self_review where
  "demo_clean_review = self_review demo_facts DOCUMENTATION_CORRECTION True False"

lemma demo_evidence:
  "exceeded empty_usage demo_cycle_budget = []" "\<not> requires_human demo_clean_review"
  "fst (gates_passed demo_gates required_gates)" "governing_paths demo_low_risk = []"
  "risk_level demo_low_risk = LOW"
  by (simp_all add: exceeded_Nil_iff empty_usage_def demo_cycle_budget_def demo_clean_review_def demo_facts_def
      plan_facts_def clean_review_iff category_risk_def low_categories_def mechanical_category_def
      gates_passed_iff demo_gates_def gate_broken_def required_gates_def by_gate_def demo_low_risk_def)

lemma ship_policy_total: "\<exists>d. ship_policy mode budget risk gates review usage request None plan_only = Inr d"
  by (cases "exceeded usage budget = []") (simp_all add: ship_policy_def Let_def case_prod_beta split del: if_split)

text \<open>
  C8: Without an owner's decision the ship policy always answers, and it answers SHIP exactly when the
  mode is autonomous, a change exists, the budget is kept, no gate failed, every required gate passed (by
  its last result), no governing path is touched, the risk is low and the self-review exists and is
  clear on all its questions.
\<close>

theorem engineer_autonomous_ship:
  "\<exists>d. ship_policy mode budget risk gates review usage request None plan_only = Inr d
     \<and> (policy_choice d = SHIP \<longleftrightarrow>
          mode = AUTONOMOUS_LOW_RISK \<and> \<not> plan_only \<and> exceeded usage budget = []
          \<and> \<not> list_ex gate_broken gates
          \<and> (\<forall>g \<in> set [RUFF_FORMAT, RUFF_LINT, MYPY, PYTEST_FULL, SENTINEL_REVIEW].
               \<exists>r. by_gate gates g = Some r \<and> gate_status r = GATE_PASSED)
          \<and> governing_paths risk = [] \<and> risk_level risk = LOW
          \<and> (\<exists>r. review = Some r \<and> (\<forall>i \<in> set (review_items r). answer i = CLEAR)))"
proof -
  obtain d where d: "ship_policy mode budget risk gates review usage request None plan_only = Inr d"
    using ship_policy_total by blast
  show ?thesis
    using ship_policy_cases [OF d] d
    by (auto simp: autonomous_evidence_def gates_passed_iff requires_human_iff required_gates_def)
qed

lemma engineer_autonomous_ship_witness:
  "\<exists>d. ship_policy AUTONOMOUS_LOW_RISK demo_cycle_budget demo_low_risk demo_gates (Some demo_clean_review)
     empty_usage None None False = Inr d \<and> policy_choice d = SHIP"
proof -
  have "\<not> list_ex gate_broken demo_gates" "\<forall>g \<in> set [RUFF_FORMAT, RUFF_LINT, MYPY, PYTEST_FULL, SENTINEL_REVIEW].
      \<exists>r. by_gate demo_gates g = Some r \<and> gate_status r = GATE_PASSED"
    using demo_evidence(3) by (simp_all add: gates_passed_iff required_gates_def)
  with demo_evidence engineer_autonomous_ship [of AUTONOMOUS_LOW_RISK demo_cycle_budget demo_low_risk
      demo_gates "Some demo_clean_review" empty_usage None False]
  show ?thesis by (simp add: requires_human_iff)
qed

text \<open>
  With an owner's decision the policy ships exactly when the decision answers the current request
  with the verdict ship and validation still holds. A decision that answers another request is an error,
  never a decision, and an exceeded budget blocks the change whatever the owner said.
\<close>

theorem engineer_owner_ship:
  "case ship_policy mode budget risk gates review usage request (Some owner) plan_only of
     Inl e \<Rightarrow> exceeded usage budget = []
       \<and> (\<forall>q. request = Some q \<longrightarrow> request_id q \<noteq> decision_request_id owner)
   | Inr d \<Rightarrow>
       (policy_choice d = SHIP \<longleftrightarrow> exceeded usage budget = [] \<and> verdict owner = VERDICT_SHIP
          \<and> (\<exists>q. request = Some q \<and> request_id q = decision_request_id owner)
          \<and> fst (gates_passed gates required_gates))
       \<and> (exceeded usage budget \<noteq> [] \<longrightarrow> policy_choice d = BLOCKED)
       \<and> (exceeded usage budget = [] \<and> verdict owner = VERDICT_REJECT \<longrightarrow> policy_choice d = ABANDON)"
proof (cases "ship_policy mode budget risk gates review usage request (Some owner) plan_only")
  case (Inl e)
  then show ?thesis
    by (auto simp: ship_policy_def Let_def after_owner_def split: prod.splits if_splits option.splits)
next
  case (Inr d)
  then have "exceeded usage budget \<noteq> [] \<longrightarrow> policy_choice d = BLOCKED"
    "exceeded usage budget = [] \<and> verdict owner = VERDICT_REJECT \<longrightarrow> policy_choice d = ABANDON"
    by (auto simp: ship_policy_def Let_def after_owner_def decided_def split: prod.splits if_splits)
  with ship_policy_cases [OF Inr] Inr show ?thesis by simp
qed

definition demo_owner_decision :: owner_decision where
  "demo_owner_decision = \<lparr>decision_id = 1, decision_request_id = 7, verdict = VERDICT_SHIP,
     decision_by = demo_human, decision_reason = lit ''ok'', decision_channel = CHANNEL_CLI,
     decision_at = 0\<rparr>"

definition demo_request :: approval_request where
  "demo_request = \<lparr>request_id = 7, request_cycle_id = 1, request_candidate_id = 2,
     request_title = lit ''t'', request_problem = lit ''p'', request_root_cause = lit ''c'',
     proposed_fix = lit ''f'', request_why = lit ''w'', files_affected = [],
     behavior_changed = lit ''b'', request_validation = demo_gates, benchmark_impact = lit ''i'',
     security_impact = lit ''s'', request_risk = demo_low_risk, request_confidence = 50,
     rollback_plan = lit ''r'', request_reference = lit ''e'', request_question = lit ''q'',
     recommendation = RECOMMEND_SHIP, dry_run = False, request_created_at = 0\<rparr>"

lemma engineer_owner_ship_witness:
  "\<exists>d. ship_policy PROPOSE demo_cycle_budget demo_low_risk demo_gates None empty_usage
     (Some demo_request) (Some demo_owner_decision) False = Inr d \<and> policy_choice d = SHIP"
  using engineer_owner_ship [where mode = PROPOSE and budget = demo_cycle_budget and risk = demo_low_risk
      and gates = demo_gates and review = None and usage = empty_usage and request = "Some demo_request"
      and owner = demo_owner_decision and plan_only = False] demo_evidence
  by (auto simp: demo_request_def demo_owner_decision_def split: sum.splits)

section \<open>Risk\<close>

lemma highest_LOW: "highest xs = LOW \<longleftrightarrow> list_all (\<lambda>x. x = LOW) xs"
proof (induction xs)
  case (Cons x xs)
  then show ?case by (cases x) (auto simp: max_def less_eq_risk_level_def)
qed simp

lemma risk_floor_LOW: "risk_floor r = LOW \<longleftrightarrow> \<not> risk_uncertain r \<and> category_level r = LOW
    \<and> path_level r = LOW \<and> size_level r = LOW"
  using raised_above(2) by (auto simp: risk_floor_def Let_def highest_LOW [of "[_, _, _]", simplified])

lemma category_risk_LOW: "category_risk c = LOW \<longleftrightarrow> c \<in> set low_categories"
  by (simp add: category_risk_def)

lemma risk_level_LOW:
  assumes "classify_change fold_case category paths adds dels bytes budget untrusted = Inr r"
  shows "risk_level r = LOW \<longleftrightarrow> category \<in> set low_categories \<and> \<not> untrusted \<and> paths \<noteq> []
     \<and> list_all (\<lambda>p. fst (path_risk fold_case p dels) = LOW) paths
     \<and> int (length paths) \<le> max_changed_files budget \<and> bytes \<le> max_diff_bytes budget
     \<and> (dels \<le> adds \<or> dels \<le> 50)" (is "?low \<longleftrightarrow> ?rhs")
proof -
  note facts = classify_change_Inr [OF assms]
  have known: "category \<in> set low_categories \<Longrightarrow> category \<noteq> UNKNOWN_CATEGORY"
    by (auto simp: low_categories_def)
  have all_low: "list_all (\<lambda>p. fst (path_risk fold_case p dels) = LOW) paths \<Longrightarrow>
      filter (governing_path fold_case) paths = [] \<and> (\<forall>p \<in> set paths. fst (path_risk fold_case p dels) \<noteq> HIGH)"
    using governing_high [of fold_case _ dels] by (fastforce simp: list_all_iff filter_empty_conv)
  have low: "?low \<longleftrightarrow> filter (governing_path fold_case) paths = [] \<and> risk_floor r = LOW"
    unfolding facts(6) by simp
  have path: "path_level r = LOW \<longleftrightarrow> paths \<noteq> [] \<and> list_all (\<lambda>p. fst (path_risk fold_case p dels) = LOW) paths"
    unfolding facts(2) by (simp add: highest_LOW list_all_iff)
  have size: "size_level r = LOW \<longleftrightarrow> int (length paths) \<le> max_changed_files budget
      \<and> bytes \<le> max_diff_bytes budget \<and> (dels \<le> adds \<or> dels \<le> 50)"
    unfolding facts(3) by auto
  show ?thesis
    unfolding low risk_floor_LOW facts(1) category_risk_LOW path size facts(4) using known all_low by blast
qed

text \<open>
  C12: On well-formed paths \<open>classify_change\<close> always answers, its answer passes the validators of
  \<open>RiskAssessment\<close>, a governing, evaluation or sensitive path makes it HIGH, and it is LOW exactly for a
  low category over at least one path, all of them low, within the size limits, with no large net
  removal, not derived from untrusted text.
\<close>

theorem engineer_risk_classification:
  assumes "list_all path_ok paths"
  shows "\<exists>r. classify_change fold_case category paths adds dels bytes budget untrusted = Inr r \<and> risk_ok r
    \<and> (list_ex (governing_path fold_case) paths \<longrightarrow> risk_level r = HIGH \<and> governing_paths r \<noteq> [])
    \<and> (risk_level r = LOW \<longleftrightarrow> category \<in> set low_categories \<and> \<not> untrusted \<and> paths \<noteq> []
         \<and> list_all (\<lambda>p. fst (path_risk fold_case p dels) = LOW) paths
         \<and> int (length paths) \<le> max_changed_files budget \<and> bytes \<le> max_diff_bytes budget
         \<and> (dels \<le> adds \<or> dels \<le> 50))"
proof -
  obtain r where r: "classify_change fold_case category paths adds dels bytes budget untrusted = Inr r"
    using classify_change_total [OF assms] by blast
  note facts = classify_change_Inr [OF r]
  have "list_ex (governing_path fold_case) paths \<longrightarrow> risk_level r = HIGH \<and> governing_paths r \<noteq> []"
    unfolding facts(5,6) by (auto simp: list_ex_iff filter_empty_conv)
  moreover have "risk_level r = LOW \<longleftrightarrow> category \<in> set low_categories \<and> \<not> untrusted \<and> paths \<noteq> []
         \<and> list_all (\<lambda>p. fst (path_risk fold_case p dels) = LOW) paths
         \<and> int (length paths) \<le> max_changed_files budget \<and> bytes \<le> max_diff_bytes budget
         \<and> (dels \<le> adds \<or> dels \<le> 50)"
    by (rule risk_level_LOW [OF r])
  ultimately show ?thesis using r facts(7) by blast
qed

lemma demo_paths: "list_all path_ok [lit ''docs/a.md'', lit ''tests/t.py'']"
  by code_simp

lemma engineer_risk_classification_witness:
  "\<exists>r. classify_change id DOCUMENTATION_CORRECTION [lit ''docs/a.md'', lit ''tests/t.py''] 3 0 100
      demo_cycle_budget False = Inr r \<and> risk_level r = LOW"
proof -
  have "list_all (\<lambda>p. fst (path_risk id p 0) = LOW) [lit ''docs/a.md'', lit ''tests/t.py'']"
    by code_simp
  with engineer_risk_classification [OF demo_paths, of id DOCUMENTATION_CORRECTION 3 0 100 demo_cycle_budget False]
  show ?thesis by (auto simp: low_categories_def demo_cycle_budget_def)
qed

text \<open>
  C11: What the engineer may ship on its own. If the classification of a change is what the policy
  decided on and the policy ships without an owner, then every path of the change is a test file with no
  removed line, or documentation outside \<open>src\<close> and \<open>lab\<close>, and none is a governing, evaluation or
  sensitive path; the category is one of the low ones, and the change keeps the size limits. In
  particular no autonomous change touches \<open>src/\<close>.
\<close>

theorem engineer_autonomous_scope:
  assumes "classify_change fold_case category paths adds dels bytes budget untrusted = Inr risk"
    and "ship_policy mode budget risk gates review usage request None plan_only = Inr d"
    and "policy_choice d = SHIP"
  shows "category \<in> set low_categories \<and> \<not> untrusted \<and> paths \<noteq> []
    \<and> int (length paths) \<le> max_changed_files budget \<and> bytes \<le> max_diff_bytes budget
    \<and> (\<forall>p \<in> set paths. \<not> governing_path fold_case p
        \<and> (path_matches p test_prefixes \<and> dels = 0
            \<or> path_matches p low_prefixes
            \<or> ends_with (lit ''.md'') p \<and> \<not> path_matches p behavior_prefixes))"
proof -
  have "risk_level risk = LOW"
    using ship_policy_cases [OF assms(2)] assms(3) by (simp add: autonomous_evidence_def)
  with risk_level_LOW [OF assms(1)] have rhs: "category \<in> set low_categories" "\<not> untrusted" "paths \<noteq> []"
      "list_all (\<lambda>p. fst (path_risk fold_case p dels) = LOW) paths"
      "int (length paths) \<le> max_changed_files budget" "bytes \<le> max_diff_bytes budget" by auto
  have "\<not> governing_path fold_case p \<and> (path_matches p test_prefixes \<and> dels = 0
      \<or> path_matches p low_prefixes \<or> ends_with (lit ''.md'') p \<and> \<not> path_matches p behavior_prefixes)"
    if "fst (path_risk fold_case p dels) = LOW" for p
    using that by (auto simp: path_risk_def governing_path_def split: if_splits)
  with rhs show ?thesis by (auto simp: list_all_iff)
qed

lemma engineer_autonomous_scope_witness:
  "\<exists>risk d. classify_change id DOCUMENTATION_CORRECTION [lit ''docs/a.md''] 3 0 100 demo_cycle_budget False = Inr risk
     \<and> ship_policy AUTONOMOUS_LOW_RISK demo_cycle_budget risk demo_gates (Some demo_clean_review) empty_usage
         None None False = Inr d
     \<and> policy_choice d = SHIP \<and> \<not> governing_path id (lit ''docs/a.md'')"
proof -
  have ok: "list_all path_ok [lit ''docs/a.md'']" by code_simp
  obtain risk where risk: "classify_change id DOCUMENTATION_CORRECTION [lit ''docs/a.md''] 3 0 100 demo_cycle_budget False = Inr risk"
    using classify_change_total [OF ok] by blast
  have "list_all (\<lambda>p. fst (path_risk id p 0) = LOW) [lit ''docs/a.md'']" by code_simp
  then have low: "risk_level risk = LOW"
    using risk_level_LOW [OF risk] by (simp add: low_categories_def demo_cycle_budget_def)
  moreover have "governing_paths risk = []"
    using classify_change_Inr(7) [OF risk] low by (auto simp: risk_ok_def)
  moreover obtain d where d: "ship_policy AUTONOMOUS_LOW_RISK demo_cycle_budget risk demo_gates (Some demo_clean_review)
      empty_usage None None False = Inr d"
    using ship_policy_total by blast
  ultimately have "policy_choice d = SHIP"
    using ship_policy_cases [OF d] demo_evidence by (simp add: autonomous_evidence_def)
  with engineer_autonomous_scope [OF risk d] risk d show ?thesis by (metis list.set_intros(1))
qed

section \<open>Self-review\<close>

text \<open>
  The self-review answers every one of the fourteen questions exactly once in a record that passes
  its own validator, and it asks for no human judgment exactly when the category is low and no prompt
  change, the full suite ran, the root cause is shown or the category is mechanical, and the facts of
  the diff show no removed public definition, sensitive path, removed check, added skip, concurrency,
  nondeterminism, global state, secret-like or instruction-like line, at most 100 added lines, and tests
  beside the sources.
\<close>

theorem engineer_clean_review:
  assumes "opt_ok valid_sha256 (facts_diff_sha256 facts)"
  shows "self_review_ok (self_review facts category tests_ran rc)
    \<and> (\<not> requires_human (self_review facts category tests_ran rc) \<longleftrightarrow>
         category \<in> set low_categories \<and> tests_ran \<and> (mechanical_category category \<or> rc)
         \<and> public_definitions_removed facts = [] \<and> sensitive_paths facts = []
         \<and> assertions_removed facts = 0 \<and> skips_added facts = 0
         \<and> \<not> concurrency_added facts \<and> \<not> nondeterminism_added facts \<and> \<not> global_state_added facts
         \<and> \<not> secret_like_added facts \<and> \<not> instruction_like_added facts
         \<and> facts_additions facts \<le> 100
         \<and> (test_files_changed facts \<noteq> [] \<or> source_files_changed facts = [] \<or> mechanical_category category))"
proof -
  have "category \<in> set low_categories \<longrightarrow> category \<noteq> PROMPT_CHANGE" by (auto simp: low_categories_def)
  then show ?thesis
    unfolding clean_review_iff category_risk_LOW using self_review_valid [OF assms] by blast
qed

lemma engineer_clean_review_witness:
  "self_review_ok (self_review demo_facts DOCUMENTATION_CORRECTION True False)
     \<and> \<not> requires_human (self_review demo_facts DOCUMENTATION_CORRECTION True False)"
  using engineer_clean_review [of demo_facts DOCUMENTATION_CORRECTION True False]
  by (simp add: demo_facts_def plan_facts_def low_categories_def mechanical_category_def)

text \<open>
  C36: A suspicious line of a hunk cannot be passed: if some line of the patch, after a hunk header, adds
  secret-like or instruction-like text or (in a test file) a skip, or removes a check from a test file,
  then the review of the patch is blocking, whatever else the patch contains; and a patch whose review
  blocks is never shipped without the owner.
\<close>

theorem engineer_suspicious_patch:
  assumes "splitlines text = pre @ line # post" "\<not> ds_header (fold (diff_line T) pre diff_start)"
    and "suspicious_line T (fold (diff_line T) pre diff_start) line"
    and "review = self_review (diff_facts T text touched digest) category tests_ran rc"
    and "ship_policy mode budget risk gates (Some review) usage request None plan_only = Inr d"
  shows "blocking review \<and> policy_choice d \<noteq> SHIP"
proof -
  have "blocking review"
    unfolding assms(4) by (intro review_blocks_blocking suspicious_review_blocks [OF assms(1-3)])
  with ship_policy_cases [OF assms(5)] show ?thesis
    by (auto simp: autonomous_evidence_def requires_human_def)
qed

text \<open>An environment that finds one kind of secret by its prefix, for the concrete instances.\<close>

definition demo_text_env :: text_env where
  "demo_text_env = env.extend demo_env \<lparr>casefold = id, strip = id, text_digest = map char_of,
     re_search = (\<lambda>p i v. p = secret_like_pattern \<and> starts_with (lit ''password='') v),
     re_match1 = (\<lambda>p v. None)\<rparr>"

definition demo_header :: ustr where
  "demo_header = lit ''diff --git a/m b/m'' @ [10] @ lit ''--- a/m'' @ [10] @ lit ''+++ b/m'' @ [10]
     @ lit ''@@ -1 +1 @@''"

definition demo_secret :: ustr where
  "demo_secret = lit ''password=hunter2''"

lemma demo_header_lines:
  "splitlines (demo_header @ [10]) = [lit ''diff --git a/m b/m'', lit ''--- a/m'', lit ''+++ b/m'', lit ''@@ -1 +1 @@'']"
  by (simp add: splitlines_def demo_header_def line_boundary_def lit_def)

lemma demo_secret_clean: "\<not> list_ex line_boundary demo_secret" "\<not> list_ex line_boundary (43 # demo_secret)"
    "context_line demo_secret"
  by (simp_all add: line_boundary_def context_line_def demo_secret_def lit_def)

lemma demo_header_state:
  "\<not> ds_header (fold (diff_line T) (splitlines (demo_header @ [10])) diff_start)"
  unfolding demo_header_lines by (simp add: diff_line_def diff_start_def lit_def)

lemma demo_text_env_search [simp]:
  "re_search demo_text_env p i v \<longleftrightarrow> p = secret_like_pattern \<and> starts_with (lit ''password='') v"
  by (simp add: demo_text_env_def env.defs)

lemma demo_secret_found: "re_search demo_text_env secret_like_pattern True demo_secret"
  by (simp add: demo_secret_def lit_def)

lemma engineer_suspicious_patch_witness:
  "blocking (self_review (diff_facts demo_text_env (demo_header @ [10] @ [43] @ demo_secret @ [10]) [] None)
     DOCUMENTATION_CORRECTION True False)"
proof -
  have "splitlines (demo_header @ [10] @ [43] @ demo_secret @ [10])
      = splitlines (demo_header @ [10]) @ (43 # demo_secret) # []"
    unfolding demo_header_lines
    by (simp add: splitlines_def demo_header_def demo_secret_def line_boundary_def lit_def)
  moreover have "suspicious_line demo_text_env
      (fold (diff_line demo_text_env) (splitlines (demo_header @ [10])) diff_start) (43 # demo_secret)"
    using demo_secret_found by (simp add: suspicious_line_def lit_def)
  moreover obtain d where "ship_policy PROPOSE demo_cycle_budget demo_low_risk demo_gates
      (Some (self_review (diff_facts demo_text_env (demo_header @ [10] @ [43] @ demo_secret @ [10]) [] None)
        DOCUMENTATION_CORRECTION True False)) empty_usage None None False = Inr d"
    using ship_policy_total by blast
  ultimately show ?thesis
    using engineer_suspicious_patch [OF _ demo_header_state] by blast
qed

text \<open>
  What the review misses. The code splits the patch with \<open>str.splitlines\<close>, which also breaks lines at
  a form feed, while git and Python keep it inside one source line. Text after a form feed in an added
  line is therefore a line of its own without a plus: none of the added-line scans sees it, and the
  facts of the patch are those of the patch without it.
\<close>

theorem engineer_review_form_feed:
  assumes "\<not> ds_header (fold (diff_line T) (splitlines (h @ [10])) diff_start)"
    and "\<not> list_ex line_boundary a" "\<not> list_ex line_boundary b" "context_line b"
  shows "diff_facts T (h @ [10] @ [43] @ a @ [12] @ b @ [10]) touched digest
       = diff_facts T (h @ [10] @ [43] @ a @ [10]) touched digest"
  by (rule form_feed_facts [OF assms])

lemma engineer_review_form_feed_witness:
  "re_search demo_text_env secret_like_pattern True demo_secret
     \<and> \<not> review_blocks (diff_facts demo_text_env (demo_header @ [10] @ [43] @ [] @ [12] @ demo_secret @ [10]) [] None)"
proof -
  have facts: "diff_facts demo_text_env (demo_header @ [10] @ [43] @ [] @ [12] @ demo_secret @ [10]) [] None
      = diff_facts demo_text_env (demo_header @ [10] @ [43] @ [] @ [10]) [] None"
    by (intro engineer_review_form_feed demo_header_state demo_secret_clean) simp_all
  have "splitlines (demo_header @ [10] @ [43] @ [] @ [10]) = splitlines (demo_header @ [10]) @ [[43]]"
    unfolding demo_header_lines
    by (simp add: splitlines_def demo_header_def line_boundary_def lit_def)
  then have "\<not> review_blocks (diff_facts demo_text_env (demo_header @ [10] @ [43] @ [] @ [10]) [] None)"
    unfolding demo_header_lines
    by (simp add: review_blocks_def diff_facts_def Let_def diff_line_def added_line_def diff_start_def lit_def
        detect_instruction_like_text_def demo_text_env_def env.defs in_tests_def sorted_set_def)
  with facts demo_secret_found show ?thesis by simp
qed

section \<open>Untrusted text\<close>

text \<open>
  Untrusted text cannot leave its frame: whatever its content and source, the rendered text is one
  opening tag, a body without angle brackets, no longer than the limit, and one closing tag.
\<close>

theorem engineer_untrusted_frame:
  "\<exists>tag body. render_untrusted u limit = tag @ body @ ''\<newline></untrusted_data>''
     \<and> tag \<in> {''<untrusted_data>\<newline>'', ''<untrusted_data truncated=\"true\">\<newline>''}
     \<and> CHR ''<'' \<notin> set body \<and> CHR ''>'' \<notin> set body \<and> length body \<le> limit"
proof -
  let ?e = "encoded_untrusted u"
  let ?body = "if length ?e > limit then take limit ?e else ?e"
  let ?tag = "if length ?e > limit then ''<untrusted_data truncated=\"true\">\<newline>'' else ''<untrusted_data>\<newline>''"
  have "CHR ''<'' \<notin> set ?body" "CHR ''>'' \<notin> set ?body" "length ?body \<le> limit"
    using encoded_clean [of u] by (auto dest: in_set_takeD)
  moreover have "render_untrusted u limit = ?tag @ ?body @ ''\<newline></untrusted_data>''"
    by (simp add: render_untrusted_def Let_def)
  moreover have "?tag \<in> {''<untrusted_data>\<newline>'', ''<untrusted_data truncated=\"true\">\<newline>''}" by simp
  ultimately show ?thesis by (intro exI [of _ ?tag] exI [of _ ?body] conjI)
qed

end
