(* ===== verification/EngineerMemory.thy ===== *)
theory EngineerMemory
  imports EngineerTrust
begin

text \<open>
  The private memory of the resident engineer (\<open>src/nexus/software_engineer/memory.py\<close>): the record
  with its validators, the SQLite table as a list of rows and the operations of
  \<open>EngineerMemoryStore\<close>. A stored document is the typed record it describes, after the NFC of
  \<open>canonical_json\<close>; reading validates it again and compares it with the index columns.

  UUID text is fixed-width hexadecimal, so ordering by it is ordering the numbers. I/O failures of
  SQLite are left out.
\<close>

section \<open>Records\<close>

datatype memory_category =
  REPOSITORY_KNOWLEDGE | ENGINEERING_LESSON | OWNER_PREFERENCE | DECISION_MEMORY | INCIDENT
  | BACKLOG_ITEM | SELF_EVALUATION | ROOT_CAUSE | RECURRING_PATTERN

fun memory_category_value :: "memory_category \<Rightarrow> string" where
  "memory_category_value REPOSITORY_KNOWLEDGE = ''repository_knowledge''"
| "memory_category_value ENGINEERING_LESSON = ''engineering_lesson''"
| "memory_category_value OWNER_PREFERENCE = ''owner_preference''"
| "memory_category_value DECISION_MEMORY = ''decision''"
| "memory_category_value INCIDENT = ''incident''"
| "memory_category_value BACKLOG_ITEM = ''backlog_item''"
| "memory_category_value SELF_EVALUATION = ''self_evaluation''"
| "memory_category_value ROOT_CAUSE = ''root_cause''"
| "memory_category_value RECURRING_PATTERN = ''recurring_pattern''"

datatype epistemic_status =
  OBSERVATION | INFERENCE | OWNER_DECISION | VALIDATED_FACT | FAILED_HYPOTHESIS

fun epistemic_value :: "epistemic_status \<Rightarrow> string" where
  "epistemic_value OBSERVATION = ''observation''"
| "epistemic_value INFERENCE = ''inference''"
| "epistemic_value OWNER_DECISION = ''owner_decision''"
| "epistemic_value VALIDATED_FACT = ''validated_fact''"
| "epistemic_value FAILED_HYPOTHESIS = ''failed_hypothesis''"

fun status_weight :: "epistemic_status \<Rightarrow> int" where
  "status_weight OWNER_DECISION = 4"
| "status_weight VALIDATED_FACT = 3"
| "status_weight FAILED_HYPOTHESIS = 2"
| "status_weight OBSERVATION = 1"
| "status_weight INFERENCE = 0"

datatype memory_lifecycle = ACTIVE | SUPERSEDED | INVALIDATED | DISPUTED

fun lifecycle_value :: "memory_lifecycle \<Rightarrow> string" where
  "lifecycle_value ACTIVE = ''active''"
| "lifecycle_value SUPERSEDED = ''superseded''"
| "lifecycle_value INVALIDATED = ''invalidated''"
| "lifecycle_value DISPUTED = ''disputed''"

datatype memory_source = FROM_CYCLE_RECORD | FROM_OWNER_DECISION | FROM_VALIDATION_EVIDENCE | FROM_INSPECTION

fun memory_source_value :: "memory_source \<Rightarrow> string" where
  "memory_source_value FROM_CYCLE_RECORD = ''cycle_record''"
| "memory_source_value FROM_OWNER_DECISION = ''owner_decision''"
| "memory_source_value FROM_VALIDATION_EVIDENCE = ''validation_evidence''"
| "memory_source_value FROM_INSPECTION = ''inspection''"

record provenance =
  prov_source :: memory_source
  prov_cycle_id :: uuid
  prov_evidence :: "string list"
  prov_owner_decision :: "uuid option"

definition provenance_ok :: "provenance \<Rightarrow> bool" where
  "provenance_ok p \<longleftrightarrow> bounded 0 20 (prov_evidence p) \<and> list_all valid_sha256 (prov_evidence p)"

definition resident_id :: string where
  "resident_id = ''software_engineer.resident''"

record engineer_memory =
  memory_id :: uuid
  memory_agent :: string
  memory_namespace :: string
  memory_category :: memory_category
  memory_status :: epistemic_status
  memory_content :: ustr
  memory_tags :: "string list"
  memory_confidence :: int
  memory_provenance :: provenance
  memory_created_at :: timestamp
  memory_valid_from :: timestamp
  memory_valid_to :: "timestamp option"
  memory_lifecycle :: memory_lifecycle
  supersedes :: "uuid list"
  memory_version :: int

definition tag_char :: "char \<Rightarrow> bool" where
  "tag_char c \<longleftrightarrow> is_lower c \<or> is_digit c \<or> c \<in> set ''_.:-''"

definition valid_tag :: "string \<Rightarrow> bool" where
  "valid_tag t \<longleftrightarrow> bounded 1 60 t \<and> (is_lower (hd t) \<or> is_digit (hd t)) \<and> list_all tag_char (tl t)"

definition memory_json :: "('a text_env_scheme) \<Rightarrow> engineer_memory \<Rightarrow> json" where
  "memory_json T m = obj
     [(''schema_version'', JInt 1), (''memory_id'', jstr (uuid_str (memory_id m))),
      (''agent_id'', jstr (memory_agent m)), (''namespace'', jstr (memory_namespace m)),
      (''category'', jstr (memory_category_value (memory_category m))),
      (''status'', jstr (epistemic_value (memory_status m))),
      (''content'', JStr (memory_content m)),
      (''tags'', JList (map jstr (memory_tags m))),
      (''confidence'', JInt (memory_confidence m)),
      (''provenance'', obj
         [(''source'', jstr (memory_source_value (prov_source (memory_provenance m)))),
          (''cycle_id'', jstr (uuid_str (prov_cycle_id (memory_provenance m)))),
          (''evidence_sha256'', JList (map jstr (prov_evidence (memory_provenance m)))),
          (''owner_decision_id'',
             jopt (\<lambda>i. jstr (uuid_str i)) (prov_owner_decision (memory_provenance m)))]),
      (''created_at'', jstr (env_iso T (memory_created_at m))),
      (''valid_from'', jstr (env_iso T (memory_valid_from m))),
      (''valid_to'', jopt (\<lambda>t. jstr (env_iso T t)) (memory_valid_to m)),
      (''lifecycle'', jstr (lifecycle_value (memory_lifecycle m))),
      (''supersedes'', JList (map (\<lambda>i. jstr (uuid_str i)) (supersedes m))),
      (''version'', JInt (memory_version m))]"

definition memory_text :: "('a text_env_scheme) \<Rightarrow> engineer_memory \<Rightarrow> string" where
  "memory_text T m = canonical_json (env_nfc T) (memory_json T m)"

text \<open>\<open>EngineerMemory.validate_memory\<close>: the first violated rule.\<close>

definition memory_error :: "('a text_env_scheme) \<Rightarrow> engineer_memory \<Rightarrow> string option" where
  "memory_error T m =
     (let p = memory_provenance m in
      if (case memory_valid_to m of None \<Rightarrow> False | Some t \<Rightarrow> t < memory_valid_from m)
        then Some ''Memory validity interval is inverted''
      else if \<not> distinct (memory_tags m) then Some ''Memory tags must be unique''
      else if memory_status m = VALIDATED_FACT
          \<and> \<not> (prov_evidence p \<noteq> [] \<or> prov_owner_decision p \<noteq> None)
        then Some ''A validated fact needs validation evidence or an owner decision''
      else if memory_status m = OWNER_DECISION \<and> prov_owner_decision p = None
        then Some ''An owner-decision memory must cite the decision''
      else if memory_status m = INFERENCE \<and> memory_confidence m > 80
        then Some ''An inference cannot claim more than 80% confidence''
      else if contains_credential T (lit (memory_text T m))
        then Some ''Memory content contains a secret-shaped value''
      else if detect_instruction_like_text T (memory_content m) \<noteq> []
        then Some ''Memory content looks like an instruction and is refused''
      else None)"

definition memory_fields_ok :: "engineer_memory \<Rightarrow> bool" where
  "memory_fields_ok m \<longleftrightarrow> memory_agent m = resident_id \<and> memory_namespace m = resident_id
     \<and> bounded 1 2000 (memory_content m) \<and> bounded 0 20 (memory_tags m)
     \<and> list_all valid_tag (memory_tags m) \<and> percent (memory_confidence m)
     \<and> provenance_ok (memory_provenance m) \<and> bounded 0 20 (supersedes m) \<and> 1 \<le> memory_version m"

definition memory_ok :: "('a text_env_scheme) \<Rightarrow> engineer_memory \<Rightarrow> bool" where
  "memory_ok T m \<longleftrightarrow> memory_fields_ok m \<and> memory_error T m = None"

text \<open>\<open>content_sha256\<close>: the identity of a claim.\<close>

definition content_sha256 :: "('a text_env_scheme) \<Rightarrow> engineer_memory \<Rightarrow> string" where
  "content_sha256 T m = text_digest T
     (lit (memory_category_value (memory_category m)) @ [10]
      @ lit (epistemic_value (memory_status m)) @ [10]
      @ casefold T (strip T (memory_content m)))"

definition trustworthy :: "engineer_memory \<Rightarrow> bool" where
  "trustworthy m \<longleftrightarrow> memory_status m = VALIDATED_FACT \<or> memory_status m = OWNER_DECISION"

section \<open>The table\<close>

record memory_row =
  mr_memory_id :: uuid
  mr_agent :: string
  mr_namespace :: string
  mr_category :: memory_category
  mr_status :: epistemic_status
  mr_lifecycle :: memory_lifecycle
  mr_content_sha256 :: string
  mr_created_at :: string
  mr_record :: engineer_memory

type_synonym memory_db = "memory_row list"

datatype memory_store_error = Memory_Store_Error string

definition memory_nfc :: "(ustr \<Rightarrow> ustr) \<Rightarrow> engineer_memory \<Rightarrow> engineer_memory" where
  "memory_nfc f m = m\<lparr>memory_content := f (memory_content m)\<rparr>"

definition memory_row_of :: "('a text_env_scheme) \<Rightarrow> engineer_memory \<Rightarrow> memory_row" where
  "memory_row_of T m = \<lparr>mr_memory_id = memory_id m, mr_agent = memory_agent m,
     mr_namespace = memory_namespace m, mr_category = memory_category m, mr_status = memory_status m,
     mr_lifecycle = memory_lifecycle m, mr_content_sha256 = content_sha256 T m,
     mr_created_at = env_iso T (memory_created_at m), mr_record = memory_nfc (env_nfc T) m\<rparr>"

definition guard_memory :: "engineer_memory \<Rightarrow> memory_store_error + unit" where
  "guard_memory m = guard_raise (memory_agent m \<noteq> resident_id \<or> memory_namespace m \<noteq> resident_id)
     (Memory_Store_Error ''Engineer memory store refuses foreign namespaces'')"

definition insert_memory ::
  "('a text_env_scheme) \<Rightarrow> string \<Rightarrow> engineer_memory \<Rightarrow> memory_db \<Rightarrow> memory_store_error + memory_db" where
  "insert_memory T failure m db =
     (if memory_id m \<in> set (map mr_memory_id db) then Inl (Memory_Store_Error failure)
      else Inr (db @ [memory_row_of T m]))"

text \<open>\<open>ORDER BY created_at DESC, memory_id ASC LIMIT 1\<close>.\<close>

definition latest_row :: "memory_row list \<Rightarrow> memory_row option" where
  "latest_row rows =
     (case sort_key mr_memory_id rows of
        [] \<Rightarrow> None
      | r # rs \<Rightarrow> Some (foldl (\<lambda>best s. if mr_created_at s > mr_created_at best then s else best) r rs))"

definition active_rows :: "memory_db \<Rightarrow> string \<Rightarrow> memory_row list" where
  "active_rows db digest = filter (\<lambda>r. mr_namespace r = resident_id \<and> mr_lifecycle r = ACTIVE
     \<and> mr_content_sha256 r = digest) db"

definition remember ::
  "('a text_env_scheme) \<Rightarrow> memory_db \<Rightarrow> engineer_memory \<Rightarrow> memory_store_error + ((uuid \<times> bool) \<times> memory_db)" where
  "remember T db m =
     rbind (guard_memory m) (\<lambda>_.
     case latest_row (active_rows db (content_sha256 T m)) of
       Some r \<Rightarrow> Inr ((mr_memory_id r, False), db)
     | None \<Rightarrow> rbind (insert_memory T ''Engineer memory write failed'' m db) (\<lambda>db'.
         Inr ((memory_id m, True), db')))"

definition select_one :: "memory_db \<Rightarrow> uuid \<Rightarrow> memory_row option" where
  "select_one db i = find (\<lambda>r. mr_namespace r = resident_id \<and> mr_memory_id r = i) db"

definition read_memory :: "('a text_env_scheme) \<Rightarrow> string \<Rightarrow> memory_row \<Rightarrow> memory_store_error + engineer_memory" where
  "read_memory T failure r =
     (if memory_ok T (mr_record r) then Inr (mr_record r) else Inl (Memory_Store_Error failure))"

definition set_lifecycle ::
  "('a text_env_scheme) \<Rightarrow> engineer_memory \<Rightarrow> memory_lifecycle \<Rightarrow> memory_db \<Rightarrow> memory_db" where
  "set_lifecycle T m target db =
     update_where (\<lambda>r. mr_namespace r = resident_id \<and> mr_memory_id r = memory_id m)
       (\<lambda>r. r\<lparr>mr_lifecycle := target, mr_record := memory_nfc (env_nfc T) (m\<lparr>memory_lifecycle := target\<rparr>)\<rparr>) db"

text \<open>\<open>model_copy(update=...)\<close> does not validate, so the replacement is written as it is.\<close>

definition with_superseded :: "uuid \<Rightarrow> engineer_memory \<Rightarrow> engineer_memory" where
  "with_superseded i m = (if i \<in> set (supersedes m) then m else m\<lparr>supersedes := supersedes m @ [i]\<rparr>)"

definition correct ::
  "('a text_env_scheme) \<Rightarrow> memory_db \<Rightarrow> uuid \<Rightarrow> engineer_memory \<Rightarrow> memory_store_error + (uuid \<times> memory_db)" where
  "correct T db i replacement =
     rbind (guard_memory replacement) (\<lambda>_.
     case select_one db i of
       None \<Rightarrow> Inl (Memory_Store_Error ''Cannot correct an unknown memory'')
     | Some r \<Rightarrow>
         rbind (read_memory T ''Engineer memory correction failed'' r) (\<lambda>previous.
         let m = (with_superseded i replacement)\<lparr>memory_version := memory_version previous + 1\<rparr> in
         rbind (insert_memory T ''Engineer memory correction failed'' m
           (set_lifecycle T previous SUPERSEDED db)) (\<lambda>db'. Inr (memory_id m, db'))))"

definition invalidate ::
  "('a text_env_scheme) \<Rightarrow> memory_db \<Rightarrow> uuid \<Rightarrow> bool \<Rightarrow> memory_store_error + memory_db" where
  "invalidate T db i disputed =
     (case select_one db i of
        None \<Rightarrow> Inl (Memory_Store_Error ''Cannot invalidate an unknown memory'')
      | Some r \<Rightarrow>
          rbind (read_memory T ''Engineer memory invalidation failed'' r) (\<lambda>previous.
          Inr (set_lifecycle T previous (if disputed then DISPUTED else INVALIDATED) db)))"

section \<open>Reading\<close>

definition load_row :: "('a text_env_scheme) \<Rightarrow> memory_row \<Rightarrow> memory_store_error + engineer_memory" where
  "load_row T r =
     rbind (read_memory T ''Engineer memory contains a malformed record'' r) (\<lambda>m.
     if (mr_memory_id r, mr_agent r, mr_namespace r, mr_category r, mr_status r, mr_lifecycle r,
         mr_content_sha256 r)
        \<noteq> (memory_id m, memory_agent m, memory_namespace m, memory_category m, memory_status m,
            memory_lifecycle m, content_sha256 T m)
     then Inl (Memory_Store_Error ''Engineer memory index and payload disagree'')
     else Inr m)"

definition load_all :: "('a text_env_scheme) \<Rightarrow> memory_db \<Rightarrow> memory_store_error + engineer_memory list" where
  "load_all T db =
     map_results (load_row T) (sort_key mr_memory_id (filter (\<lambda>r. mr_namespace r = resident_id) db))"

record memory_query =
  query_category :: "memory_category option"
  query_tags :: "string list"
  query_statuses :: "epistemic_status list"
  query_as_of :: "timestamp option"
  query_limit :: nat
  query_trusted_only :: bool

definition default_query :: memory_query where
  "default_query = \<lparr>query_category = None, query_tags = [], query_statuses = [], query_as_of = None,
     query_limit = 20, query_trusted_only = False\<rparr>"

definition query_matches :: "memory_query \<Rightarrow> engineer_memory \<Rightarrow> bool" where
  "query_matches q m \<longleftrightarrow> memory_lifecycle m = ACTIVE
     \<and> (case query_category q of None \<Rightarrow> True | Some c \<Rightarrow> memory_category m = c)
     \<and> (query_statuses q = [] \<or> memory_status m \<in> set (query_statuses q))
     \<and> set (query_tags q) \<subseteq> set (memory_tags m)
     \<and> (case query_as_of q of
          None \<Rightarrow> True
        | Some t \<Rightarrow> memory_valid_from m \<le> t
            \<and> (case memory_valid_to m of None \<Rightarrow> True | Some v \<Rightarrow> t < v))"

text \<open>The sort key is a tuple; sorting by its last component first and stably gives the same order.\<close>

definition sort_memories :: "engineer_memory list \<Rightarrow> engineer_memory list" where
  "sort_memories ms =
     sort_key (\<lambda>m. - status_weight (memory_status m))
       (sort_key (\<lambda>m. - memory_confidence m)
         (sort_key (\<lambda>m. - memory_created_at m) (sort_key memory_id ms)))"

definition retrieve_all ::
  "('a text_env_scheme) \<Rightarrow> memory_db \<Rightarrow> memory_query \<Rightarrow> memory_store_error + engineer_memory list" where
  "retrieve_all T db q =
     rbind (load_all T db) (\<lambda>ms.
     let records = filter (query_matches q) ms;
         trusted = (if query_trusted_only q then filter trustworthy records else records) in
     Inr (sort_memories trusted))"

definition retrieve ::
  "('a text_env_scheme) \<Rightarrow> memory_db \<Rightarrow> memory_query \<Rightarrow> memory_store_error + engineer_memory list" where
  "retrieve T db q = rbind (retrieve_all T db q) (\<lambda>ms. Inr (take (query_limit q) ms))"

definition records_sha256 :: "('a text_env_scheme) \<Rightarrow> engineer_memory list \<Rightarrow> string" where
  "records_sha256 T ms = canonical_sha256 (env_sha256 T) (env_nfc T)
     (obj [(''records'', JList (map (\<lambda>m. JStr (lit (memory_text T m))) ms))])"

definition logical_sha256 :: "('a text_env_scheme) \<Rightarrow> memory_db \<Rightarrow> memory_store_error + string" where
  "logical_sha256 T db = rbind (load_all T db) (\<lambda>ms. Inr (records_sha256 T ms))"

text \<open>The exported set and \<open>KnowledgeExport.validate_export\<close>.\<close>

record knowledge_export =
  exported_at :: timestamp
  export_records :: "engineer_memory list"
  export_sha256 :: string

definition export_error :: "('a text_env_scheme) \<Rightarrow> knowledge_export \<Rightarrow> string option" where
  "export_error T x =
     (if length (export_records x) > 500 then Some ''records''
      else if list_ex (\<lambda>m. \<not> trustworthy m \<or> memory_lifecycle m \<noteq> ACTIVE) (export_records x)
        then Some ''Only active validated facts and owner decisions are exported''
      else if list_ex (\<lambda>m. memory_namespace m \<noteq> resident_id) (export_records x)
        then Some ''Export carries a foreign namespace''
      else if records_sha256 T (export_records x) \<noteq> export_sha256 x
        then Some ''Export digest does not match its records''
      else None)"

definition export_validated_knowledge ::
  "('a text_env_scheme) \<Rightarrow> memory_db \<Rightarrow> timestamp \<Rightarrow> memory_store_error + string + knowledge_export" where
  "export_validated_knowledge T db now =
     rbind (retrieve T db (default_query\<lparr>query_limit := 200, query_as_of := Some now,
       query_trusted_only := True\<rparr>)) (\<lambda>ms.
     let records = sort_key memory_id ms;
         x = \<lparr>exported_at = now, export_records = records, export_sha256 = records_sha256 T records\<rparr> in
     Inr (case export_error T x of None \<Rightarrow> Inr x | Some e \<Rightarrow> Inl e))"

text \<open>\<open>memory_id_for\<close> and \<open>observation\<close>: a record bound to a cycle; the constructor validates it.\<close>

definition memory_namespace_uuid :: uuid where
  "memory_namespace_uuid = 0x9e4f1c2d6a7b4c8d9e0f1a2b3c4d5e6f"

definition memory_id_for :: "('a text_env_scheme) \<Rightarrow> uuid \<Rightarrow> int \<Rightarrow> uuid" where
  "memory_id_for T cid n =
     env_uuid5 T memory_namespace_uuid (uuid_str cid @ '':'' @ int_str n)"

record observation_args =
  obs_category :: memory_category
  obs_content :: ustr
  obs_confidence :: int
  obs_tags :: "string list"
  obs_status :: epistemic_status
  obs_evidence :: "string list"
  obs_owner_decision :: "uuid option"
  obs_source :: memory_source

definition observation_record ::
  "uuid \<Rightarrow> uuid \<Rightarrow> timestamp \<Rightarrow> observation_args \<Rightarrow> engineer_memory" where
  "observation_record i cid now a =
     \<lparr>memory_id = i, memory_agent = resident_id, memory_namespace = resident_id,
      memory_category = obs_category a, memory_status = obs_status a,
      memory_content = take 2000 (obs_content a), memory_tags = obs_tags a,
      memory_confidence = obs_confidence a,
      memory_provenance = \<lparr>prov_source = obs_source a, prov_cycle_id = cid,
        prov_evidence = obs_evidence a, prov_owner_decision = obs_owner_decision a\<rparr>,
      memory_created_at = now, memory_valid_from = now, memory_valid_to = None,
      memory_lifecycle = ACTIVE, supersedes = [], memory_version = 1\<rparr>"

definition observation ::
  "('a text_env_scheme) \<Rightarrow> uuid \<Rightarrow> int \<Rightarrow> timestamp \<Rightarrow> observation_args \<Rightarrow> string + engineer_memory" where
  "observation T cid n now a =
     (let m = observation_record (memory_id_for T cid n) cid now a in
      if memory_ok T m then Inr m else Inl ''EngineerMemory'')"

end
