(* ===== verification/EngineerMemoryFacts.thy ===== *)
theory EngineerMemoryFacts
  imports EngineerMemory
begin

text \<open>
  What the memory store promises. \<open>mem_wf\<close> is its invariant (unique ids, every row readable and in
  agreement with its index), \<open>one_claim\<close> says that no two active records make the same claim. The locale
  \<open>claim_store\<close> is the interface the cycle and the approval step use: a claim is recorded once and stays
  known; the store of the code is its interpretation.
\<close>

section \<open>The interface\<close>

text \<open>Recording a list of claims one after the other; the first error ends it.\<close>

fun note_all :: "('db \<Rightarrow> 'm \<Rightarrow> 'e + (('i \<times> bool) \<times> 'db)) \<Rightarrow> 'db \<Rightarrow> 'm list \<Rightarrow> 'e + (('i \<times> bool) list \<times> 'db)" where
  "note_all note db [] = Inr ([], db)"
| "note_all note db (m # ms) =
     rbind (note db m) (\<lambda>(answer, db1). rbind (note_all note db1 ms) (\<lambda>(answers, db2).
     Inr (answer # answers, db2)))"

locale claim_store =
  fixes recall :: "'db \<Rightarrow> 'key \<Rightarrow> 'id option"
    and note_claim :: "'db \<Rightarrow> 'm \<Rightarrow> 'e + (('id \<times> bool) \<times> 'db)"
    and claim_key :: "'m \<Rightarrow> 'key"
    and accepts :: "'m \<Rightarrow> bool"
  assumes known: "accepts m \<Longrightarrow> recall db (claim_key m) = Some i \<Longrightarrow> note_claim db m = Inr ((i, False), db)"
    and fresh: "accepts m \<Longrightarrow> recall db (claim_key m) = None \<Longrightarrow> note_claim db m = Inr ((i, b), db')
      \<Longrightarrow> b \<and> recall db' (claim_key m) = Some i
          \<and> (\<forall>k. k \<noteq> claim_key m \<longrightarrow> recall db' k = recall db k)"
begin

lemma note_recalls:
  assumes "accepts m" "note_claim db m = Inr ((i, b), db')"
  shows "recall db' (claim_key m) = Some i" "b \<longleftrightarrow> recall db (claim_key m) = None"
    "k \<noteq> claim_key m \<Longrightarrow> recall db' k = recall db k"
  using assms known [of m db] fresh [of m db i b db'] by (cases "recall db (claim_key m)"; auto)+

lemma note_twice:
  assumes "accepts m" "note_claim db m = Inr ((i, b), db')"
  shows "note_claim db' m = Inr ((i, False), db')"
  using known [OF assms(1)] note_recalls(1) [OF assms] by blast

lemma note_monotone:
  assumes "accepts m" "note_claim db m = Inr ((i, b), db')" "recall db k = Some j"
  shows "recall db' k = Some j"
proof (cases "k = claim_key m")
  case True
  with known [OF assms(1), of db j] assms show ?thesis by simp
next
  case False
  with note_recalls(3) [OF assms(1,2) False] assms(3) show ?thesis by simp
qed

lemma note_all_monotone:
  assumes "note_all note_claim db ms = Inr (answers, db')" "list_all accepts ms" "recall db k = Some j"
  shows "recall db' k = Some j"
  using assms
proof (induction ms arbitrary: db answers)
  case (Cons m ms)
  then obtain i b db1 rest where "note_claim db m = Inr ((i, b), db1)"
      "note_all note_claim db1 ms = Inr (rest, db')"
    by (auto simp: rbind_Inr_iff split: prod.splits)
  with Cons note_monotone [of m db i b db1 k j] show ?case by simp
qed simp

text \<open>A batch of claims is written once per distinct new claim.\<close>

lemma note_all_known:
  assumes "note_all note_claim db ms = Inr (answers, db')" "list_all accepts ms" "m \<in> set ms"
  shows "recall db' (claim_key m) \<noteq> None"
  using assms
proof (induction ms arbitrary: db answers)
  case (Cons x ms)
  then obtain i b db1 rest where 1: "note_claim db x = Inr ((i, b), db1)"
      "note_all note_claim db1 ms = Inr (rest, db')"
    by (auto simp: rbind_Inr_iff split: prod.splits)
  show ?case
  proof (cases "m = x")
    case True
    with Cons.prems 1 note_recalls(1) [of x db i b db1] note_all_monotone [OF 1(2), of "claim_key x" i]
    show ?thesis by simp
  next
    case False
    with Cons 1 show ?thesis by auto
  qed
qed simp

lemma note_all_again:
  assumes "note_all note_claim db ms = Inr (answers, db')" "list_all accepts ms"
  shows "\<exists>answers'. note_all note_claim db' ms = Inr (answers', db') \<and> list_all (\<lambda>a. \<not> snd a) answers'"
proof -
  have "\<exists>answers'. note_all note_claim db' xs = Inr (answers', db') \<and> list_all (\<lambda>a. \<not> snd a) answers'"
    if "set xs \<subseteq> set ms" for xs
    using that
  proof (induction xs)
    case (Cons x xs)
    then obtain i where "recall db' (claim_key x) = Some i"
      using note_all_known [OF assms, of x] by auto
    with Cons assms(2) known [of x db' i] show ?case by (auto simp: list_all_iff)
  qed simp
  then show ?thesis by blast
qed

end

section \<open>The store meets it\<close>

definition recall_claim :: "memory_db \<Rightarrow> string \<Rightarrow> uuid option" where
  "recall_claim db digest = map_option mr_memory_id (latest_row (active_rows db digest))"

definition accepts_memory :: "engineer_memory \<Rightarrow> bool" where
  "accepts_memory m \<longleftrightarrow> memory_agent m = resident_id \<and> memory_namespace m = resident_id
     \<and> memory_lifecycle m = ACTIVE"

lemma latest_row_None [simp]: "latest_row rows = None \<longleftrightarrow> rows = []"
  by (auto simp: latest_row_def split: list.splits)

lemma latest_row_Nil [simp]: "latest_row [] = None"
  by simp

lemma latest_row_single [simp]: "latest_row [r] = Some r"
  by (simp add: latest_row_def)

lemma foldl_pick_mem: "foldl (\<lambda>b s. if P s b then s else b) r rs \<in> set (r # rs)"
  by (induction rs arbitrary: r) (auto split: if_splits)

lemma latest_row_mem:
  assumes "latest_row rows = Some r"
  shows "r \<in> set rows"
proof -
  obtain s ss where ss: "sort_key mr_memory_id rows = s # ss"
      "r = foldl (\<lambda>best s. if mr_created_at s > mr_created_at best then s else best) s ss"
    using assms by (auto simp: latest_row_def split: list.splits)
  have "r \<in> set (s # ss)" unfolding ss(2) by (rule foldl_pick_mem)
  then show ?thesis by (metis ss(1) set_sort)
qed

lemma memory_row_simps [simp]:
  "mr_memory_id (memory_row_of T m) = memory_id m" "mr_agent (memory_row_of T m) = memory_agent m"
  "mr_namespace (memory_row_of T m) = memory_namespace m" "mr_category (memory_row_of T m) = memory_category m"
  "mr_status (memory_row_of T m) = memory_status m" "mr_lifecycle (memory_row_of T m) = memory_lifecycle m"
  "mr_content_sha256 (memory_row_of T m) = content_sha256 T m"
  "mr_record (memory_row_of T m) = memory_nfc (env_nfc T) m"
  by (simp_all add: memory_row_of_def)

lemma active_rows_snoc:
  "active_rows (db @ [memory_row_of T m]) digest = active_rows db digest
     @ (if memory_namespace m = resident_id \<and> memory_lifecycle m = ACTIVE \<and> content_sha256 T m = digest
        then [memory_row_of T m] else [])"
  by (simp add: active_rows_def)

lemma remember_Inr:
  "remember T db m = Inr ((i, b), db') \<longleftrightarrow> memory_agent m = resident_id \<and> memory_namespace m = resident_id
     \<and> (case latest_row (active_rows db (content_sha256 T m)) of
          Some r \<Rightarrow> i = mr_memory_id r \<and> \<not> b \<and> db' = db
        | None \<Rightarrow> memory_id m \<notin> mr_memory_id ` set db \<and> i = memory_id m \<and> b
            \<and> db' = db @ [memory_row_of T m])"
  by (auto simp: remember_def guard_memory_def insert_memory_def rbind_Inr_iff split: option.splits)

interpretation engineer_claims: claim_store recall_claim "remember T" "content_sha256 T" accepts_memory
  for T :: "'a text_env_scheme"
proof
  fix m i and db :: memory_db
  assume "accepts_memory m" "recall_claim db (content_sha256 T m) = Some i"
  then show "remember T db m = Inr ((i, False), db)"
    by (auto simp: remember_Inr recall_claim_def accepts_memory_def)
next
  fix m i b db' and db :: memory_db
  assume "accepts_memory m" "recall_claim db (content_sha256 T m) = None" "remember T db m = Inr ((i, b), db')"
  then show "b \<and> recall_claim db' (content_sha256 T m) = Some i
      \<and> (\<forall>k. k \<noteq> content_sha256 T m \<longrightarrow> recall_claim db' k = recall_claim db k)"
    by (auto simp: remember_Inr recall_claim_def accepts_memory_def active_rows_snoc)
qed

section \<open>The invariant\<close>

definition mem_wf :: "('a text_env_scheme) \<Rightarrow> memory_db \<Rightarrow> bool" where
  "mem_wf T db \<longleftrightarrow> distinct (map mr_memory_id db) \<and> (\<forall>r \<in> set db. load_row T r = Inr (mr_record r))"

definition one_claim :: "memory_db \<Rightarrow> bool" where
  "one_claim db \<longleftrightarrow> distinct (map mr_content_sha256
     (filter (\<lambda>r. mr_namespace r = resident_id \<and> mr_lifecycle r = ACTIVE) db))"

definition text_fixed :: "('a text_env_scheme) \<Rightarrow> engineer_memory \<Rightarrow> bool" where
  "text_fixed T m \<longleftrightarrow> env_nfc T (memory_content m) = memory_content m"

lemma read_memory_Inr [run_simps]: "read_memory T f r = Inr m \<longleftrightarrow> m = mr_record r \<and> memory_ok T m"
  by (auto simp: read_memory_def)

lemma load_row_Inr [run_simps]:
  "load_row T r = Inr m \<longleftrightarrow> m = mr_record r \<and> memory_ok T m \<and> mr_memory_id r = memory_id m
     \<and> mr_agent r = memory_agent m \<and> mr_namespace r = memory_namespace m
     \<and> mr_category r = memory_category m \<and> mr_status r = memory_status m
     \<and> mr_lifecycle r = memory_lifecycle m \<and> mr_content_sha256 r = content_sha256 T m"
  by (auto simp: load_row_def rbind_Inr_iff run_simps split: if_splits)

lemma memory_nfc_fixed: "text_fixed T m \<Longrightarrow> memory_nfc (env_nfc T) m = m"
  by (simp add: memory_nfc_def text_fixed_def)

lemma load_new_row: "memory_ok T m \<Longrightarrow> text_fixed T m \<Longrightarrow> load_row T (memory_row_of T m) = Inr m"
  by (simp add: run_simps memory_nfc_fixed)

lemma mem_wf_namespace: "mem_wf T db \<Longrightarrow> r \<in> set db \<Longrightarrow> mr_namespace r = resident_id"
  by (auto simp: mem_wf_def run_simps memory_ok_def memory_fields_ok_def)

lemma load_all_wf:
  assumes "mem_wf T db"
  shows "load_all T db = Inr (map mr_record (sort_key mr_memory_id db))"
proof -
  have "filter (\<lambda>r. mr_namespace r = resident_id) db = db"
    using mem_wf_namespace [OF assms] by (simp add: filter_id_conv)
  moreover have "map_results (load_row T) (sort_key mr_memory_id db) = Inr (map mr_record (sort_key mr_memory_id db))"
    by (rule map_results_Inr) (use assms in \<open>auto simp: mem_wf_def\<close>)
  ultimately show ?thesis by (simp add: load_all_def)
qed

lemma remember_wf:
  assumes "mem_wf T db" "memory_ok T m" "text_fixed T m" "remember T db m = Inr (ans, db')"
  shows "mem_wf T db'"
proof (cases ans)
  case (Pair i b)
  with assms load_new_row [OF assms(2,3)] show ?thesis
    by (auto simp: mem_wf_def remember_Inr memory_nfc_fixed split: option.splits)
qed

lemma one_claim_snoc: "one_claim db \<Longrightarrow> active_rows db (content_sha256 T m) = []
    \<Longrightarrow> one_claim (db @ [memory_row_of T m])"
  by (auto simp: one_claim_def active_rows_def filter_empty_conv)

lemma remember_one_claim:
  assumes "one_claim db" "remember T db m = Inr (ans, db')"
  shows "one_claim db'"
proof (cases ans)
  case (Pair i b)
  with assms one_claim_snoc [OF assms(1), of T m] show ?thesis
    by (auto simp: remember_Inr split: option.splits)
qed

lemma set_lifecycle_ids: "map mr_memory_id (set_lifecycle T m l db) = map mr_memory_id db"
  unfolding set_lifecycle_def by (rule map_update_where) simp

lemma set_lifecycle_wf:
  assumes "mem_wf T db" "r \<in> set db" "memory_ok T ((mr_record r)\<lparr>memory_lifecycle := l\<rparr>)"
    "text_fixed T (mr_record r)"
  shows "mem_wf T (set_lifecycle T (mr_record r) l db)"
proof -
  let ?m = "(mr_record r)\<lparr>memory_lifecycle := l\<rparr>"
  have r: "mr_memory_id r = memory_id (mr_record r)" "load_row T r = Inr (mr_record r)"
    using assms(1,2) by (auto simp: mem_wf_def run_simps)
  have fixed: "memory_nfc (env_nfc T) ?m = ?m"
    using assms(4) by (simp add: memory_nfc_def text_fixed_def)
  have "load_row T s' = Inr (mr_record s')" if "s' \<in> set (set_lifecycle T (mr_record r) l db)" for s'
  proof -
    obtain s where s: "s \<in> set db" "s' = (if mr_namespace s = resident_id \<and> mr_memory_id s = memory_id (mr_record r)
        then s\<lparr>mr_lifecycle := l, mr_record := memory_nfc (env_nfc T) ?m\<rparr> else s)"
      using \<open>s' \<in> _\<close> by (auto simp: set_lifecycle_def set_update_where)
    show ?thesis
    proof (cases "mr_memory_id s = memory_id (mr_record r)")
      case True
      then have "s = r" using distinct_map_eqD [of mr_memory_id db s r] assms(1,2) s(1) r(1)
        by (simp add: mem_wf_def)
      with s r assms(3) mem_wf_namespace [OF assms(1,2)] show ?thesis
        by (auto simp: run_simps fixed content_sha256_def)
    next
      case False
      with s assms(1) show ?thesis by (auto simp: mem_wf_def)
    qed
  qed
  then show ?thesis using assms(1) set_lifecycle_ids [of T "mr_record r" l db] by (auto simp: mem_wf_def)
qed

lemma select_one_Some: "select_one db i = Some r \<Longrightarrow> r \<in> set db \<and> mr_memory_id r = i \<and> mr_namespace r = resident_id"
  by (auto simp: select_one_def dest: find_Some_mem)

text \<open>A row leaves the active ones; the others keep their place.\<close>

lemma set_lifecycle_active:
  assumes "l \<noteq> ACTIVE"
  shows "filter (\<lambda>r. mr_namespace r = resident_id \<and> mr_lifecycle r = ACTIVE) (set_lifecycle T m l db)
    = filter (\<lambda>r. mr_memory_id r \<noteq> memory_id m)
        (filter (\<lambda>r. mr_namespace r = resident_id \<and> mr_lifecycle r = ACTIVE) db)"
  unfolding set_lifecycle_def update_where_def using assms by (induction db) simp_all

lemma set_lifecycle_one_claim:
  assumes "one_claim db" "l \<noteq> ACTIVE"
  shows "one_claim (set_lifecycle T m l db)"
  using assms(1) unfolding one_claim_def set_lifecycle_active [OF assms(2)] by (rule distinct_map_filter)

section \<open>Ranking\<close>

text \<open>Sorting stably by one key and keeping an order among equal keys.\<close>

definition lex_by :: "('a \<Rightarrow> 'k::linorder) \<Rightarrow> ('a \<Rightarrow> 'a \<Rightarrow> bool) \<Rightarrow> 'a \<Rightarrow> 'a \<Rightarrow> bool" where
  "lex_by g R x y \<longleftrightarrow> g x < g y \<or> g x = g y \<and> R x y"

lemma insort_lex:
  assumes "sorted_wrt (lex_by g R) ys" "\<forall>y \<in> set ys. R x y"
  shows "sorted_wrt (lex_by g R) (insort_key g x ys)"
  using assms
proof (induction ys)
  case (Cons y ys)
  then show ?case by (auto simp: lex_by_def set_insort_key)
qed simp

lemma sort_lex: "sorted_wrt R xs \<Longrightarrow> sorted_wrt (lex_by g R) (sort_key g xs)"
  by (induction xs) (auto intro: insort_lex)

text \<open>The order of a retrieval: trust, confidence, recency, then id.\<close>

definition memory_before :: "engineer_memory \<Rightarrow> engineer_memory \<Rightarrow> bool" where
  "memory_before = lex_by (\<lambda>m. - status_weight (memory_status m))
     (lex_by (\<lambda>m. - memory_confidence m) (lex_by (\<lambda>m. - memory_created_at m) (\<lambda>a b. memory_id a \<le> memory_id b)))"

lemma sort_memories_sorted: "sorted_wrt memory_before (sort_memories ms)"
proof -
  have "sorted_wrt (\<lambda>a b. memory_id a \<le> memory_id b) (sort_key memory_id ms)"
    by (metis sorted_sort_key sorted_map)
  then show ?thesis unfolding sort_memories_def memory_before_def by (intro sort_lex)
qed

lemma mset_sort_memories [simp]: "mset (sort_memories ms) = mset ms"
  by (simp add: sort_memories_def)

lemma set_sort_memories [simp]: "set (sort_memories ms) = set ms"
  by (simp add: sort_memories_def)

definition query_admits :: "memory_query \<Rightarrow> engineer_memory \<Rightarrow> bool" where
  "query_admits q m \<longleftrightarrow> query_matches q m \<and> (query_trusted_only q \<longrightarrow> trustworthy m)"

lemma retrieve_all_wf:
  assumes "mem_wf T db"
  shows "retrieve_all T db q = Inr (sort_memories (filter (query_admits q)
     (map mr_record (sort_key mr_memory_id db))))"
proof -
  have "filter (query_admits q) ms = (if query_trusted_only q
      then filter trustworthy (filter (query_matches q) ms) else filter (query_matches q) ms)" for ms
    by (induction ms) (auto simp: query_admits_def)
  then show ?thesis by (simp add: retrieve_all_def load_all_wf [OF assms] Let_def)
qed

lemma mem_wf_ids:
  assumes "mem_wf T db"
  shows "distinct (map memory_id (map mr_record db))"
proof -
  have "map memory_id (map mr_record db) = map mr_memory_id db"
    using assms by (auto simp: mem_wf_def run_simps)
  moreover have "distinct (map mr_memory_id db)" using assms by (simp add: mem_wf_def)
  ultimately show ?thesis by (simp only:)
qed

lemma distinct_map_mset: "mset xs = mset ys \<Longrightarrow> distinct (map f xs) \<longleftrightarrow> distinct (map f ys)"
  by (metis mset_eq_imp_distinct_iff mset_map)

lemma retrieve_facts:
  assumes "mem_wf T db" "retrieve T db q = Inr ms"
  shows "set ms \<subseteq> mr_record ` set db" "\<forall>m \<in> set ms. query_admits q m"
    "distinct (map memory_id ms)" "sorted_wrt memory_before ms" "length ms \<le> query_limit q"
    "\<And>r. r \<in> set db \<Longrightarrow> query_admits q (mr_record r) \<Longrightarrow> mr_record r \<notin> set ms
       \<Longrightarrow> length ms = query_limit q \<and> (\<forall>m \<in> set ms. memory_before m (mr_record r))"
proof -
  define all where "all = sort_memories (filter (query_admits q) (map mr_record (sort_key mr_memory_id db)))"
  have ms: "ms = take (query_limit q) all"
    using assms(2) retrieve_all_wf [OF assms(1), of q] by (simp add: retrieve_def all_def)
  have sorted: "sorted_wrt memory_before all" unfolding all_def by (rule sort_memories_sorted)
  have elems: "set all = {m \<in> mr_record ` set db. query_admits q m}" by (auto simp: all_def)
  have "distinct (map memory_id (map mr_record (sort_key mr_memory_id db)))"
    using mem_wf_ids [OF assms(1)]
      distinct_map_mset [of "map mr_record (sort_key mr_memory_id db)" "map mr_record db" memory_id] by simp
  then have "distinct (map memory_id (filter (query_admits q) (map mr_record (sort_key mr_memory_id db))))"
    by (rule distinct_map_filter)
  then have ids: "distinct (map memory_id all)"
    unfolding all_def by (simp only: distinct_map_mset [OF mset_sort_memories])
  show "set ms \<subseteq> mr_record ` set db" "\<forall>m \<in> set ms. query_admits q m"
    using set_take_subset [of "query_limit q" all] elems ms by auto
  show "distinct (map memory_id ms)" using ids by (simp add: ms flip: take_map)
  show "sorted_wrt memory_before ms" unfolding ms using sorted by (rule sorted_wrt_take)
  show "length ms \<le> query_limit q" by (simp add: ms)
  fix r assume r: "r \<in> set db" "query_admits q (mr_record r)" "mr_record r \<notin> set ms"
  have split: "all = ms @ drop (query_limit q) all" by (simp add: ms)
  moreover have "mr_record r \<in> set all" using r elems by blast
  ultimately have rest: "mr_record r \<in> set (drop (query_limit q) all)" using r(3) by (metis Un_iff set_append)
  then have "query_limit q < length all" by (metis drop_all empty_iff list.set(1) not_le)
  then have "length ms = query_limit q" by (simp add: ms)
  moreover have "\<forall>m \<in> set ms. memory_before m (mr_record r)"
    using sorted rest split by (metis sorted_wrt_append)
  ultimately show "length ms = query_limit q \<and> (\<forall>m \<in> set ms. memory_before m (mr_record r))" by simp
qed

lemma retrieve_total: "mem_wf T db \<Longrightarrow> \<exists>ms. retrieve T db q = Inr ms"
  by (simp add: retrieve_def retrieve_all_wf)

lemma mem_wf_record_ok: "mem_wf T db \<Longrightarrow> r \<in> set db \<Longrightarrow> memory_ok T (mr_record r)"
  by (auto simp: mem_wf_def run_simps)

section \<open>Export, correction and withdrawal\<close>

lemma export_wf:
  assumes "mem_wf T db"
  shows "\<exists>x. export_validated_knowledge T db now = Inr (Inr x) \<and> length (export_records x) \<le> 200
    \<and> (\<forall>m \<in> set (export_records x). trustworthy m \<and> memory_lifecycle m = ACTIVE \<and> m \<in> mr_record ` set db)"
proof -
  let ?q = "default_query\<lparr>query_limit := 200, query_as_of := Some now, query_trusted_only := True\<rparr>"
  obtain ms where ms: "retrieve T db ?q = Inr ms" using retrieve_total [OF assms] by blast
  note facts = retrieve_facts [OF assms ms]
  have admits: "\<forall>m \<in> set ms. trustworthy m \<and> memory_lifecycle m = ACTIVE"
    using facts(2) by (auto simp: query_admits_def query_matches_def)
  have ns: "\<forall>m \<in> set ms. memory_namespace m = resident_id"
    using facts(1) mem_wf_record_ok [OF assms] by (auto simp: memory_ok_def memory_fields_ok_def)
  have len: "length ms \<le> 200" using facts(5) by simp
  have "export_validated_knowledge T db now = Inr (Inr \<lparr>exported_at = now,
      export_records = sort_key memory_id ms, export_sha256 = records_sha256 T (sort_key memory_id ms)\<rparr>)"
    using admits ns len by (simp add: export_validated_knowledge_def ms export_error_def Let_def list_ex_iff)
  with admits facts(1) len show ?thesis by auto
qed

text \<open>What a read returns is backed by a row that agrees with it.\<close>

lemma map_results_mem: "map_results f xs = Inr ys \<Longrightarrow> y \<in> set ys \<Longrightarrow> \<exists>x \<in> set xs. f x = Inr y"
  by (induction xs arbitrary: ys) (auto simp: rbind_Inr_iff)

lemma retrieve_backed:
  assumes "retrieve T db q = Inr ms" "m \<in> set ms"
  shows "\<exists>r \<in> set db. mr_memory_id r = memory_id m \<and> mr_lifecycle r = ACTIVE \<and> mr_record r = m"
proof -
  obtain loaded where load: "load_all T db = Inr loaded" and m: "m \<in> set loaded" "query_matches q m"
    using assms by (auto simp: retrieve_def retrieve_all_def rbind_Inr_iff Let_def dest!: in_set_takeD split: if_splits)
  obtain r where "r \<in> set db" "load_row T r = Inr m"
    using map_results_mem [OF load [unfolded load_all_def] m(1)] by auto
  with m(2) show ?thesis by (auto simp: run_simps query_matches_def)
qed

definition correction :: "uuid \<Rightarrow> engineer_memory \<Rightarrow> engineer_memory \<Rightarrow> engineer_memory" where
  "correction i m previous = (with_superseded i m)\<lparr>memory_version := memory_version previous + 1\<rparr>"

lemma correction_simps [simp]:
  "memory_id (correction i m p) = memory_id m" "memory_version (correction i m p) = memory_version p + 1"
  "i \<in> set (supersedes (correction i m p))" "memory_content (correction i m p) = memory_content m"
  by (auto simp: correction_def with_superseded_def)

lemma correct_Inr:
  assumes "correct T db i m = Inr (j, db')"
  obtains r where "r \<in> set db" "mr_memory_id r = i" "mr_namespace r = resident_id"
    "memory_ok T (mr_record r)" "j = memory_id m" "j \<notin> set (map mr_memory_id db)"
    "db' = set_lifecycle T (mr_record r) SUPERSEDED db @ [memory_row_of T (correction i m (mr_record r))]"
proof -
  obtain r where r: "select_one db i = Some r" "memory_ok T (mr_record r)"
      "insert_memory T ''Engineer memory correction failed'' (correction i m (mr_record r))
         (set_lifecycle T (mr_record r) SUPERSEDED db) = Inr db'" "j = memory_id m"
    using assms by (auto simp: correct_def run_simps Let_def correction_def [symmetric] split: option.splits)
  from r(3) have "j \<notin> set (map mr_memory_id db)"
      "db' = set_lifecycle T (mr_record r) SUPERSEDED db @ [memory_row_of T (correction i m (mr_record r))]"
    by (auto simp: insert_memory_def r(4) set_lifecycle_ids split: if_splits)
  with that r(2,4) select_one_Some [OF r(1)] show ?thesis by blast
qed

text \<open>A row whose document does not pass its own validators makes the whole store unreadable.\<close>

lemma load_all_broken:
  assumes "r \<in> set db" "mr_namespace r = resident_id" "load_row T r = Inl e"
  shows "\<exists>e'. load_all T db = Inl e'"
  unfolding load_all_def by (rule map_results_Inl) (use assms in auto)

lemma load_all_broken_reads:
  assumes "load_all T db = Inl e"
  shows "retrieve T db q = Inl e" "retrieve_all T db q = Inl e" "logical_sha256 T db = Inl e"
    "export_validated_knowledge T db now = Inl e"
  using assms by (simp_all add: retrieve_def retrieve_all_def logical_sha256_def export_validated_knowledge_def)

lemma load_row_Inl: "load_row T r \<noteq> Inr m \<Longrightarrow> mr_record r = m \<Longrightarrow> \<exists>e. load_row T r = Inl e"
  by (cases "load_row T r") (auto simp: run_simps)

end
