(* ===== verification/EngineerMemoryProperties.thy ===== *)
theory EngineerMemoryProperties
  imports EngineerMemoryFacts AtlasDemo
begin

text \<open>
  The properties of the engineer's private memory, over single operations and over every sequence of
  them (\<open>memory_step\<close>).
\<close>

section \<open>Sequences of operations\<close>

inductive memory_step :: "('a text_env_scheme) \<Rightarrow> memory_db \<Rightarrow> memory_db \<Rightarrow> bool" for T where
  remember_step: "remember T db m = Inr (ans, db') \<Longrightarrow> memory_step T db db'"
| correct_step: "correct T db i m = Inr (j, db') \<Longrightarrow> memory_step T db db'"
| invalidate_step: "invalidate T db i disputed = Inr db' \<Longrightarrow> memory_step T db db'"

definition rows_named :: "memory_db \<Rightarrow> bool" where
  "rows_named db \<longleftrightarrow> distinct (map mr_memory_id db) \<and> (\<forall>r \<in> set db. mr_memory_id r = memory_id (mr_record r))"

text \<open>What may happen to a stored row: its lifecycle ends, its text may be normalised, nothing else.\<close>

definition row_kept :: "('a text_env_scheme) \<Rightarrow> memory_row \<Rightarrow> memory_row \<Rightarrow> bool" where
  "row_kept T r r' \<longleftrightarrow> mr_memory_id r' = mr_memory_id r \<and> mr_agent r' = mr_agent r
     \<and> mr_namespace r' = mr_namespace r \<and> mr_category r' = mr_category r \<and> mr_status r' = mr_status r
     \<and> mr_content_sha256 r' = mr_content_sha256 r \<and> mr_created_at r' = mr_created_at r
     \<and> (mr_lifecycle r \<noteq> ACTIVE \<longrightarrow> mr_lifecycle r' \<noteq> ACTIVE)
     \<and> (\<exists>n l. mr_record r' = (mr_record r)\<lparr>memory_content := (env_nfc T ^^ n) (memory_content (mr_record r)),
           memory_lifecycle := l\<rparr>)"

lemma row_kept_refl [simp]: "row_kept T r r"
  unfolding row_kept_def by (auto intro!: exI [of _ 0] exI [of _ "memory_lifecycle (mr_record r)"])

lemma row_kept_trans:
  assumes "row_kept T r s" "row_kept T s t"
  shows "row_kept T r t"
proof -
  obtain n l where 1: "mr_record s = (mr_record r)\<lparr>memory_content := (env_nfc T ^^ n) (memory_content (mr_record r)),
      memory_lifecycle := l\<rparr>" using assms(1) by (auto simp: row_kept_def)
  obtain k l' where 2: "mr_record t = (mr_record s)\<lparr>memory_content := (env_nfc T ^^ k) (memory_content (mr_record s)),
      memory_lifecycle := l'\<rparr>" using assms(2) by (auto simp: row_kept_def)
  have "mr_record t = (mr_record r)\<lparr>memory_content := (env_nfc T ^^ (k + n)) (memory_content (mr_record r)),
      memory_lifecycle := l'\<rparr>" unfolding 2 1 by (simp add: funpow_add)
  with assms show ?thesis unfolding row_kept_def by auto
qed

lemma set_lifecycle_kept:
  assumes "rows_named db" "s \<in> set db" "l \<noteq> ACTIVE" "r \<in> set db"
  shows "\<exists>r' \<in> set (set_lifecycle T (mr_record s) l db). row_kept T r r'"
proof (cases "mr_namespace r = resident_id \<and> mr_memory_id r = memory_id (mr_record s)")
  case True
  then have "r = s" using assms distinct_map_eqD [of mr_memory_id db r s] by (auto simp: rows_named_def)
  let ?r = "r\<lparr>mr_lifecycle := l, mr_record := memory_nfc (env_nfc T) ((mr_record s)\<lparr>memory_lifecycle := l\<rparr>)\<rparr>"
  have "?r \<in> set (set_lifecycle T (mr_record s) l db)"
    unfolding set_lifecycle_def set_update_where using True assms(4) by (intro bexI [of _ r]) simp_all
  moreover have "row_kept T r ?r"
    using \<open>r = s\<close> assms(3) unfolding row_kept_def
    by (auto simp: memory_nfc_def intro!: exI [of _ 1] exI [of _ l])
  ultimately show ?thesis by blast
next
  case False
  then have "r \<in> set (set_lifecycle T (mr_record s) l db)"
    unfolding set_lifecycle_def set_update_where using assms(4) by (intro bexI [of _ r]) auto
  then show ?thesis by (intro bexI [of _ r]) simp_all
qed

lemma set_lifecycle_hits:
  assumes "r' \<in> set (set_lifecycle T m l db)" "mr_namespace r' = resident_id" "mr_memory_id r' = memory_id m"
  shows "mr_lifecycle r' = l"
proof -
  obtain x where x: "r' = (if mr_namespace x = resident_id \<and> mr_memory_id x = memory_id m
      then x\<lparr>mr_lifecycle := l, mr_record := memory_nfc (env_nfc T) (m\<lparr>memory_lifecycle := l\<rparr>)\<rparr> else x)"
    using assms(1) by (auto simp: set_lifecycle_def set_update_where)
  show ?thesis
  proof (cases "mr_namespace x = resident_id \<and> mr_memory_id x = memory_id m")
    case True
    then show ?thesis by (simp add: x)
  next
    case False
    then have "r' = x" unfolding x by (rule if_not_P)
    with False assms(2,3) show ?thesis by simp
  qed
qed

lemma set_lifecycle_named:
  assumes "rows_named db" "s \<in> set db"
  shows "rows_named (set_lifecycle T (mr_record s) l db)"
proof -
  have "mr_memory_id r' = memory_id (mr_record r')" if "r' \<in> set (set_lifecycle T (mr_record s) l db)" for r'
    using that assms by (auto simp: set_lifecycle_def set_update_where rows_named_def memory_nfc_def)
  with assms(1) show ?thesis by (auto simp: rows_named_def set_lifecycle_ids)
qed

lemma rows_named_snoc: "rows_named db \<Longrightarrow> memory_id m \<notin> set (map mr_memory_id db)
    \<Longrightarrow> rows_named (db @ [memory_row_of T m])"
  by (auto simp: rows_named_def memory_nfc_def)

lemma memory_step_kept:
  assumes "memory_step T db db'" "rows_named db"
  shows "rows_named db' \<and> (\<forall>r \<in> set db. \<exists>r' \<in> set db'. row_kept T r r')"
  using assms
proof cases
  case (remember_step m ans)
  obtain i b where "ans = (i, b)" by force
  with remember_step have "db' = db \<or> memory_id m \<notin> set (map mr_memory_id db) \<and> db' = db @ [memory_row_of T m]"
    by (auto simp: remember_Inr split: option.splits)
  then show ?thesis using assms(2) rows_named_snoc [OF assms(2), of m T] row_kept_refl by fastforce
next
  case (correct_step i m j)
  then obtain s where s: "s \<in> set db" "memory_id m \<notin> set (map mr_memory_id db)"
      "db' = set_lifecycle T (mr_record s) SUPERSEDED db @ [memory_row_of T (correction i m (mr_record s))]"
    by (elim correct_Inr) blast
  have "rows_named db'" unfolding s(3)
    by (rule rows_named_snoc) (use s set_lifecycle_named [OF assms(2) s(1)] in \<open>simp_all add: set_lifecycle_ids\<close>)
  moreover have "\<exists>r' \<in> set db'. row_kept T r r'" if "r \<in> set db" for r
    using set_lifecycle_kept [OF assms(2) s(1) _ that, of SUPERSEDED T] s(3) by auto
  ultimately show ?thesis by blast
next
  case (invalidate_step i disputed)
  then obtain s where s: "s \<in> set db"
      "db' = set_lifecycle T (mr_record s) (if disputed then DISPUTED else INVALIDATED) db"
    by (auto simp: invalidate_def run_simps split: option.splits dest!: select_one_Some)
  have "(if disputed then DISPUTED else INVALIDATED) \<noteq> ACTIVE" by simp
  then show ?thesis unfolding s(2)
    using set_lifecycle_named [OF assms(2) s(1)] set_lifecycle_kept [OF assms(2) s(1)] by blast
qed

lemma memory_run_kept:
  assumes "(memory_step T)\<^sup>*\<^sup>* db db'" "rows_named db"
  shows "rows_named db' \<and> (\<forall>r \<in> set db. \<exists>r' \<in> set db'. row_kept T r r')"
  using assms
proof (induction rule: rtranclp_induct)
  case base
  then show ?case using row_kept_refl by blast
next
  case (step d e)
  then show ?case using memory_step_kept [OF step.hyps(2)] by (meson row_kept_trans)
qed

lemma mem_wf_named: "mem_wf T db \<Longrightarrow> rows_named db"
  by (auto simp: mem_wf_def rows_named_def run_simps)

text \<open>A row that cannot be read, whatever happens to it: its index or its bound is wrong for good.\<close>

definition row_broken :: "('a text_env_scheme) \<Rightarrow> memory_row \<Rightarrow> bool" where
  "row_broken T r \<longleftrightarrow> mr_namespace r = resident_id
     \<and> (env_nfc T (memory_content (mr_record r)) = memory_content (mr_record r)
          \<and> mr_content_sha256 r \<noteq> content_sha256 T (mr_record r)
        \<or> length (supersedes (mr_record r)) > 20)"

lemma funpow_fixed: "f x = x \<Longrightarrow> (f ^^ n) x = x"
  by (induction n) simp_all

lemma content_sha256_lifecycle [simp]: "content_sha256 T (m\<lparr>memory_lifecycle := l\<rparr>) = content_sha256 T m"
  by (simp add: content_sha256_def)

lemma row_broken_kept: "row_broken T r \<Longrightarrow> row_kept T r r' \<Longrightarrow> row_broken T r'"
  by (auto simp: row_broken_def row_kept_def funpow_fixed)

lemma row_broken_unreadable:
  assumes "row_broken T r" "r \<in> set db"
  shows "\<exists>e. load_all T db = Inl e"
proof -
  have "load_row T r \<noteq> Inr (mr_record r)"
    using assms(1) by (auto simp: run_simps row_broken_def memory_ok_def memory_fields_ok_def bounded_def)
  then obtain e where "load_row T r = Inl e" using load_row_Inl by blast
  with assms load_all_broken [of r db T e] show ?thesis by (auto simp: row_broken_def)
qed

lemma row_broken_forever:
  assumes "row_broken T r" "r \<in> set db" "rows_named db" "(memory_step T)\<^sup>*\<^sup>* db db'"
  shows "\<exists>e. load_all T db' = Inl e \<and> (\<forall>q. retrieve T db' q = Inl e)
    \<and> (\<forall>now. export_validated_knowledge T db' now = Inl e)"
proof -
  obtain r' where "r' \<in> set db'" "row_kept T r r'" using memory_run_kept [OF assms(4,3)] assms(2) by blast
  then obtain e where "load_all T db' = Inl e" using row_broken_unreadable row_broken_kept assms(1) by blast
  then show ?thesis using load_all_broken_reads by blast
qed

section \<open>Properties\<close>

text \<open>
  \<open>remember\<close> records a claim once. From a consistent store it returns an id under which the claim is
  active; a second \<open>remember\<close> of the same claim (any record with the same category, status and text)
  answers with that id, adds nothing and writes nothing; the store stays readable, with unique ids and
  no two active records of one claim, and every earlier row stays as it was.
\<close>

theorem engineer_memory_remember:
  assumes "mem_wf T db" "one_claim db" "memory_ok T m" "text_fixed T m" "memory_lifecycle m = ACTIVE"
    and "remember T db m = Inr ((i, new), db')"
    and "accepts_memory m'" "content_sha256 T m' = content_sha256 T m"
  shows "mem_wf T db' \<and> one_claim db' \<and> (\<exists>rest. db' = db @ rest \<and> length rest = (if new then 1 else 0))
    \<and> recall_claim db' (content_sha256 T m) = Some i \<and> remember T db' m' = Inr ((i, False), db')"
proof -
  have accepts: "accepts_memory m"
    using assms(3,5) by (simp add: accepts_memory_def memory_ok_def memory_fields_ok_def)
  have recall: "recall_claim db' (content_sha256 T m) = Some i"
    by (rule engineer_claims.note_recalls(1) [OF accepts assms(6)])
  then have "remember T db' m' = Inr ((i, False), db')"
    using engineer_claims.known [OF assms(7), of db' T i] assms(8) by simp
  moreover have "\<exists>rest. db' = db @ rest \<and> length rest = (if new then 1 else 0)"
    using assms(6) by (auto simp: remember_Inr split: option.splits)
  ultimately show ?thesis
    using recall remember_wf [OF assms(1,3,4,6)] remember_one_claim [OF assms(2,6)] by blast
qed

text \<open>
  A batch of claims, recorded one after the other as a cycle does when it learns, is known
  afterwards, and recording the same batch again changes nothing and reports every claim as known.
\<close>

theorem engineer_memory_batch:
  assumes "note_all (remember T) db ms = Inr (answers, db')" "list_all accepts_memory ms"
  shows "(\<forall>m \<in> set ms. recall_claim db' (content_sha256 T m) \<noteq> None)
    \<and> (\<exists>answers'. note_all (remember T) db' ms = Inr (answers', db') \<and> list_all (\<lambda>a. \<not> snd a) answers')"
  using engineer_claims.note_all_known [OF assms] engineer_claims.note_all_again [OF assms] by blast

text \<open>
  C38: \<open>retrieve\<close> on a consistent store returns only active stored records that the query admits, each id
  once, ordered by trust, confidence, recency and id, at most \<open>limit\<close> of them; an admitted record is left
  out only when the window is full of records that all rank before it.
\<close>

theorem engineer_memory_retrieve:
  assumes "mem_wf T db"
  shows "\<exists>ms. retrieve T db q = Inr ms
    \<and> (\<forall>m \<in> set ms. (\<exists>r \<in> set db. mr_record r = m \<and> mr_lifecycle r = ACTIVE) \<and> query_admits q m)
    \<and> distinct (map memory_id ms) \<and> sorted_wrt memory_before ms \<and> length ms \<le> query_limit q
    \<and> (\<forall>r \<in> set db. query_admits q (mr_record r) \<and> mr_record r \<notin> set ms
         \<longrightarrow> length ms = query_limit q \<and> (\<forall>m \<in> set ms. memory_before m (mr_record r)))"
proof -
  obtain ms where ms: "retrieve T db q = Inr ms" using retrieve_total [OF assms] by blast
  note facts = retrieve_facts [OF assms ms]
  have "\<forall>m \<in> set ms. (\<exists>r \<in> set db. mr_record r = m \<and> mr_lifecycle r = ACTIVE) \<and> query_admits q m"
    using retrieve_backed [OF ms] facts(2) by blast
  with ms facts show ?thesis by blast
qed

text \<open>
  The export of a consistent store always succeeds, passes the validator of \<open>KnowledgeExport\<close>, and
  carries only stored, active validated facts and owner decisions, at most 200 of them.
\<close>

theorem engineer_memory_export:
  assumes "mem_wf T db"
  shows "\<exists>x. export_validated_knowledge T db now = Inr (Inr x) \<and> length (export_records x) \<le> 200
    \<and> (\<forall>m \<in> set (export_records x). trustworthy m \<and> memory_lifecycle m = ACTIVE \<and> m \<in> mr_record ` set db)"
  by (rule export_wf [OF assms])

text \<open>
  C39: No operation deletes or rewrites what was remembered. Along every run of \<open>remember\<close>, \<open>correct\<close> and
  \<open>invalidate\<close> every row keeps its id, category, status, claim digest, time, provenance and (up to NFC)
  its text; an inactive record never becomes active again, so a retrieval never returns it again.
\<close>

theorem engineer_memory_history:
  assumes "rows_named db" "(memory_step T)\<^sup>*\<^sup>* db db'" "r \<in> set db"
  shows "\<exists>r' \<in> set db'. mr_memory_id r' = mr_memory_id r \<and> mr_category r' = mr_category r
    \<and> mr_status r' = mr_status r \<and> mr_content_sha256 r' = mr_content_sha256 r
    \<and> mr_created_at r' = mr_created_at r
    \<and> memory_provenance (mr_record r') = memory_provenance (mr_record r)
    \<and> (\<exists>n. memory_content (mr_record r') = (env_nfc T ^^ n) (memory_content (mr_record r)))
    \<and> (mr_lifecycle r \<noteq> ACTIVE \<longrightarrow> (\<forall>q ms. retrieve T db' q = Inr ms \<longrightarrow> mr_memory_id r \<notin> memory_id ` set ms))"
proof -
  obtain r' where r': "r' \<in> set db'" "row_kept T r r'" and named: "rows_named db'"
    using memory_run_kept [OF assms(2,1)] assms(3) by blast
  have "mr_memory_id r \<notin> memory_id ` set ms" if inactive: "mr_lifecycle r \<noteq> ACTIVE" and read: "retrieve T db' q = Inr ms" for q ms
  proof
    assume "mr_memory_id r \<in> memory_id ` set ms"
    then obtain s where s: "s \<in> set db'" "mr_memory_id s = mr_memory_id r" "mr_lifecycle s = ACTIVE"
      using retrieve_backed [OF read] by fastforce
    with r' inactive show False
      using distinct_map_eqD [of mr_memory_id db' s r'] named by (auto simp: rows_named_def row_kept_def)
  qed
  with r' show ?thesis by (intro bexI [of _ r']) (auto simp: row_kept_def)
qed

text \<open>
  A successful correction keeps the corrected record, superseded, and adds the replacement under a
  new id, one version above it and citing it. No retrieval returns the corrected record again.
\<close>

theorem engineer_memory_correct:
  assumes "rows_named db" "correct T db i m = Inr (j, db')"
  shows "j = memory_id m \<and> j \<noteq> i \<and> map mr_memory_id db' = map mr_memory_id db @ [j]
    \<and> i \<in> set (supersedes (mr_record (last db')))
    \<and> (\<exists>r \<in> set db. \<exists>r' \<in> set db'. mr_memory_id r = i \<and> row_kept T r r' \<and> mr_lifecycle r' = SUPERSEDED
         \<and> memory_version (mr_record (last db')) = memory_version (mr_record r) + 1)
    \<and> (\<forall>q ms. retrieve T db' q = Inr ms \<longrightarrow> i \<notin> memory_id ` set ms)"
proof -
  obtain r where r: "r \<in> set db" "mr_memory_id r = i" "mr_namespace r = resident_id" "j = memory_id m"
      "j \<notin> set (map mr_memory_id db)"
      "db' = set_lifecycle T (mr_record r) SUPERSEDED db @ [memory_row_of T (correction i m (mr_record r))]"
    using assms(2) by (elim correct_Inr) blast
  have id: "mr_memory_id r = memory_id (mr_record r)" using assms(1) r(1) by (simp add: rows_named_def)
  obtain r' where r': "r' \<in> set (set_lifecycle T (mr_record r) SUPERSEDED db)" "row_kept T r r'"
    using set_lifecycle_kept [OF assms(1) r(1) _ r(1), of SUPERSEDED T] by auto
  have "mr_lifecycle r' = SUPERSEDED"
    using r' r(3) id by (intro set_lifecycle_hits [OF r'(1)]) (auto simp: row_kept_def)
  moreover have named: "rows_named db'"
    using memory_step_kept [OF correct_step [OF assms(2)] assms(1)] by blast
  moreover have "i \<notin> memory_id ` set ms" if read: "retrieve T db' q = Inr ms" for q ms
  proof
    assume "i \<in> memory_id ` set ms"
    then obtain s where "s \<in> set db'" "mr_memory_id s = i" "mr_lifecycle s = ACTIVE"
      using retrieve_backed [OF read] by fastforce
    moreover have "r' \<in> set db'" "mr_memory_id r' = i" using r' r by (auto simp: row_kept_def)
    ultimately show False
      using distinct_map_eqD [of mr_memory_id db' s r'] named \<open>mr_lifecycle r' = SUPERSEDED\<close>
      by (simp add: rows_named_def)
  qed
  moreover have "j \<noteq> i" using r by auto
  moreover have "r' \<in> set db'" using r'(1) r(6) by simp
  moreover have "map mr_memory_id db' = map mr_memory_id db @ [j]" by (simp add: r(4,6) set_lifecycle_ids)
  moreover have "memory_version (mr_record (last db')) = memory_version (mr_record r) + 1"
      "i \<in> set (supersedes (mr_record (last db')))"
    by (simp_all add: r(6) memory_nfc_def)
  ultimately show ?thesis using r(1,2,4) r'(2) by blast
qed

text \<open>
  Text that NFC changes makes the store unreadable for good. \<open>remember\<close> computes the claim digest of
  the text as given, but stores the text normalised; when the digest of the normalised text differs,
  \<open>load_all\<close> rejects the row, and with it every retrieval and export, after any further operations.
\<close>

theorem engineer_memory_nfc_unreadable:
  assumes "rows_named db" "remember T db m = Inr ((i, True), db')"
    and "content_sha256 T (memory_nfc (env_nfc T) m) \<noteq> content_sha256 T m"
    and "env_nfc T (env_nfc T (memory_content m)) = env_nfc T (memory_content m)"
    and "(memory_step T)\<^sup>*\<^sup>* db' db''"
  shows "\<exists>e. load_all T db'' = Inl e \<and> (\<forall>q. retrieve T db'' q = Inl e)
    \<and> (\<forall>now. export_validated_knowledge T db'' now = Inl e)"
proof -
  have new: "db' = db @ [memory_row_of T m]" "memory_namespace m = resident_id"
    using assms(2) by (auto simp: remember_Inr split: option.splits)
  have "row_broken T (memory_row_of T m)"
    using assms(3,4) new(2) by (simp add: row_broken_def memory_nfc_def)
  moreover have "rows_named db'" using memory_step_kept [OF remember_step [OF assms(2)] assms(1)] by blast
  ultimately show ?thesis using row_broken_forever [OF _ _ _ assms(5)] new(1) by auto
qed

text \<open>
  \<open>correct\<close> appends to \<open>supersedes\<close> on an unvalidated copy: a replacement that already cites twenty
  other records is stored with twenty-one, which no read accepts, and the store is unreadable for good.
\<close>

theorem engineer_memory_correct_unreadable:
  assumes "rows_named db" "correct T db i m = Inr (j, db')"
    and "length (supersedes m) = 20" "i \<notin> set (supersedes m)"
    and "(memory_step T)\<^sup>*\<^sup>* db' db''"
  shows "\<exists>e. load_all T db'' = Inl e \<and> (\<forall>q. retrieve T db'' q = Inl e)
    \<and> (\<forall>now. export_validated_knowledge T db'' now = Inl e)"
proof (rule correct_Inr [OF assms(2)])
  fix r assume r: "db' = set_lifecycle T (mr_record r) SUPERSEDED db
      @ [memory_row_of T (correction i m (mr_record r))]"
  have "memory_namespace m = resident_id"
    using assms(2) by (auto simp: correct_def run_simps guard_memory_def)
  then have "row_broken T (memory_row_of T (correction i m (mr_record r)))"
    using assms(3,4) by (simp add: row_broken_def memory_nfc_def correction_def with_superseded_def)
  moreover have "rows_named db'" using memory_step_kept [OF correct_step [OF assms(2)] assms(1)] by blast
  ultimately show ?thesis using row_broken_forever [OF _ _ _ assms(5)] r by auto
qed

section \<open>A concrete store\<close>

text \<open>
  An environment without secrets in sight; its NFC is the real one on the Angstrom sign, which it
  maps to the letter A with ring.
\<close>

definition quiet_env :: text_env where
  "quiet_env = env.extend (demo_env\<lparr>env_nfc := map (\<lambda>c. if c = 8491 then 197 else c)\<rparr>)
     \<lparr>casefold = id, strip = id, text_digest = map char_of, re_search = (\<lambda>p i v. False),
      re_match1 = (\<lambda>p v. None)\<rparr>"

definition demo_args :: "ustr \<Rightarrow> observation_args" where
  "demo_args content = \<lparr>obs_category = ENGINEERING_LESSON, obs_content = content, obs_confidence = 60,
     obs_tags = [''tests''], obs_status = OBSERVATION, obs_evidence = [], obs_owner_decision = None,
     obs_source = FROM_CYCLE_RECORD\<rparr>"

definition demo_memory :: "uuid \<Rightarrow> ustr \<Rightarrow> engineer_memory" where
  "demo_memory i content = observation_record i 1 10 (demo_args content)"

lemma quiet_env_simps [simp]:
  "env_nfc quiet_env = map (\<lambda>c. if c = 8491 then 197 else c)" "casefold quiet_env = id" "strip quiet_env = id"
  "text_digest quiet_env = map char_of" "re_search quiet_env p i v = False" "env_iso quiet_env t = ''t''"
  by (simp_all add: quiet_env_def demo_env_def env.defs)

lemma demo_memory_simps [simp]:
  "memory_id (demo_memory i c) = i" "memory_agent (demo_memory i c) = resident_id"
  "memory_namespace (demo_memory i c) = resident_id" "memory_lifecycle (demo_memory i c) = ACTIVE"
  "memory_content (demo_memory i c) = take 2000 c" "supersedes (demo_memory i c) = []"
  "memory_category (demo_memory i c) = ENGINEERING_LESSON" "memory_status (demo_memory i c) = OBSERVATION"
  by (simp_all add: demo_memory_def observation_record_def demo_args_def)

lemma quiet_clean [simp]: "contains_credential quiet_env v = False" "detect_instruction_like_text quiet_env v = []"
  by (simp_all add: contains_credential_def contains_secret_def detect_instruction_like_text_def list_ex_iff
      case_prod_beta)

lemma demo_memory_ok: "c \<noteq> [] \<Longrightarrow> memory_ok quiet_env (demo_memory i c)"
  by (cases c) (simp_all add: memory_ok_def memory_fields_ok_def memory_error_def demo_memory_def observation_record_def
      demo_args_def bounded_def valid_tag_def tag_char_def is_lower_def is_digit_def percent_def provenance_ok_def Let_def)

lemma empty_store [simp]: "mem_wf T []" "one_claim []" "rows_named []"
  by (simp_all add: mem_wf_def one_claim_def rows_named_def)

lemma demo_remember: "remember quiet_env [] (demo_memory i c)
    = Inr ((i, True), [memory_row_of quiet_env (demo_memory i c)])"
  by (simp add: remember_def guard_memory_def active_rows_def insert_memory_def)

text \<open>A record that is its own NFC, and the store that holds it.\<close>

definition demo_claim :: engineer_memory where
  "demo_claim = demo_memory 7 (lit ''gates are slow'')"

definition demo_row :: memory_row where
  "demo_row = memory_row_of quiet_env demo_claim"

lemma demo_claim_ok: "memory_ok quiet_env demo_claim"
  unfolding demo_claim_def by (rule demo_memory_ok) (simp add: lit_def)

lemma demo_text: "text_fixed quiet_env demo_claim"
  by (simp add: demo_claim_def text_fixed_def lit_def)

lemma demo_claim_simps [simp]: "memory_id demo_claim = 7" "memory_agent demo_claim = resident_id"
  "memory_namespace demo_claim = resident_id" "memory_lifecycle demo_claim = ACTIVE" "supersedes demo_claim = []"
  by (simp_all add: demo_claim_def)

lemma demo_claim_remember: "remember quiet_env [] demo_claim = Inr ((7, True), [demo_row])"
  unfolding demo_claim_def demo_row_def by (rule demo_remember)

lemma demo_row_simps [simp]: "mr_memory_id demo_row = 7" "mr_namespace demo_row = resident_id"
  "mr_record demo_row = demo_claim" "mr_lifecycle demo_row = ACTIVE"
  using memory_nfc_fixed [OF demo_text] by (simp_all add: demo_row_def)

lemma demo_store_wf: "mem_wf quiet_env [demo_row]"
  by (rule remember_wf [OF _ demo_claim_ok demo_text demo_claim_remember]) simp

lemma demo_named: "rows_named [demo_row]"
  by (rule mem_wf_named [OF demo_store_wf])

definition demo_withdrawn :: memory_row where
  "demo_withdrawn = demo_row\<lparr>mr_lifecycle := INVALIDATED,
     mr_record := memory_nfc (env_nfc quiet_env) (demo_claim\<lparr>memory_lifecycle := INVALIDATED\<rparr>)\<rparr>"

lemma demo_invalidate: "invalidate quiet_env [demo_row] 7 False = Inr [demo_withdrawn]"
  using demo_claim_ok
  by (simp add: invalidate_def select_one_def read_memory_def set_lifecycle_def update_where_def demo_withdrawn_def
      del: quiet_env_simps)

lemma demo_correct: "memory_id m = 2 \<Longrightarrow> memory_agent m = resident_id \<Longrightarrow> memory_namespace m = resident_id \<Longrightarrow>
    \<exists>db'. correct quiet_env [demo_row] 7 m = Inr (2, db')"
  using demo_claim_ok
  by (simp add: correct_def select_one_def read_memory_def guard_memory_def Let_def
      insert_memory_def set_lifecycle_def update_where_def with_superseded_def)

section \<open>Instances\<close>

lemma engineer_memory_remember_witness:
  "mem_wf quiet_env [demo_row] \<and> recall_claim [demo_row] (content_sha256 quiet_env demo_claim) = Some 7
     \<and> remember quiet_env [demo_row] (demo_memory 2 (lit ''gates are slow'')) = Inr ((7, False), [demo_row])"
  using engineer_memory_remember [OF _ _ demo_claim_ok demo_text _ demo_claim_remember,
      of "demo_memory 2 (lit ''gates are slow'')"]
  by (simp add: accepts_memory_def content_sha256_def demo_claim_def)

lemma engineer_memory_batch_witness:
  "\<exists>answers. note_all (remember quiet_env) [demo_row] [demo_claim] = Inr (answers, [demo_row])
     \<and> list_all (\<lambda>a. \<not> snd a) answers"
  using engineer_memory_batch [of quiet_env "[]" "[demo_claim]" "[(7, True)]" "[demo_row]"]
  by (simp add: demo_claim_remember accepts_memory_def)

lemma engineer_memory_retrieve_witness:
  "\<exists>ms. retrieve quiet_env [demo_row] default_query = Inr ms \<and> demo_claim \<in> set ms"
proof -
  have "query_admits default_query demo_claim"
    by (simp add: query_admits_def query_matches_def default_query_def)
  then show ?thesis
    using engineer_memory_retrieve [OF demo_store_wf, of default_query]
    by (clarsimp simp: default_query_def) (metis length_greater_0_conv nth_mem zero_less_numeral)
qed

lemma engineer_memory_export_witness:
  "\<exists>x. export_validated_knowledge quiet_env [demo_row] 20 = Inr (Inr x)"
  using engineer_memory_export [OF demo_store_wf, of 20] by blast

lemma engineer_memory_history_witness:
  "\<exists>r' \<in> set [demo_withdrawn]. mr_memory_id r' = 7
     \<and> memory_provenance (mr_record r') = memory_provenance demo_claim"
  using engineer_memory_history [OF demo_named r_into_rtranclp [where r = "memory_step quiet_env",
        OF invalidate_step [OF demo_invalidate]], of demo_row]
  by simp

lemma engineer_memory_correct_witness:
  "\<exists>db'. correct quiet_env [demo_row] 7 (demo_memory 2 (lit ''gates are fast'')) = Inr (2, db')
     \<and> map mr_memory_id db' = [7, 2]"
proof -
  obtain db' where "correct quiet_env [demo_row] 7 (demo_memory 2 (lit ''gates are fast'')) = Inr (2, db')"
    using demo_correct [of "demo_memory 2 (lit ''gates are fast'')"] by auto
  with engineer_memory_correct [OF demo_named this] show ?thesis by simp
qed

lemma engineer_memory_nfc_unreadable_witness:
  "\<exists>e. load_all quiet_env [memory_row_of quiet_env (demo_memory 7 [8491])] = Inl e"
proof -
  have "content_sha256 quiet_env (memory_nfc (env_nfc quiet_env) (demo_memory 7 [8491]))
      \<noteq> content_sha256 quiet_env (demo_memory 7 [8491])"
    by (simp add: content_sha256_def memory_nfc_def)
  then show ?thesis
    using engineer_memory_nfc_unreadable [OF _ demo_remember [of 7 "[8491]"] _ _ rtranclp.rtrancl_refl] by auto
qed

lemma engineer_memory_correct_unreadable_witness:
  "\<exists>db' e. correct quiet_env [demo_row] 7 ((demo_memory 2 (lit ''gates are fast''))\<lparr>supersedes := [100..<120]\<rparr>)
     = Inr (2, db') \<and> load_all quiet_env db' = Inl e"
proof -
  let ?m = "(demo_memory 2 (lit ''gates are fast''))\<lparr>supersedes := [100..<120]\<rparr>"
  obtain db' where db': "correct quiet_env [demo_row] 7 ?m = Inr (2, db')"
    using demo_correct [of ?m] by auto
  from engineer_memory_correct_unreadable [OF demo_named this _ _ rtranclp.rtrancl_refl]
  have "\<exists>e. load_all quiet_env db' = Inl e" by auto
  with db' show ?thesis by blast
qed

end
