(* ===== verification/EngineerNotify.thy ===== *)
theory EngineerNotify
  imports EngineerTrust
begin

text \<open>
  Notifications of the resident engineer (\<open>src/nexus/software_engineer/notify.py\<close>): urgent events go out
  now, the rest is queued for the daily report, every attempt is recorded.

  The transport and the clock of the notifier are arguments: \<open>np_send k n\<close> is what the \<open>k\<close>-th call of
  \<open>transport.send\<close> does with \<open>n\<close>. \<open>nf_delivered\<close> collects the notifications the transport accepted; it is
  an observation of the model, not a field of the code. Waiting between attempts has no effect on the
  state and is left out.
\<close>

section \<open>Notifications and their transport\<close>

record notification =
  nt_event :: notification_event
  nt_title :: ustr
  nt_body :: ustr
  nt_cycle_id :: uuid
  nt_urgent :: bool

definition notification_valid :: "notification \<Rightarrow> bool" where
  "notification_valid n \<longleftrightarrow> bounded 1 200 (nt_title n) \<and> bounded 1 4000 (nt_body n)"

datatype send_outcome = Sent | Transport_Error string | Transport_Crash

record notifier_params =
  np_channel :: string
  np_send :: "nat \<Rightarrow> notification \<Rightarrow> send_outcome"
  np_clock :: "nat \<Rightarrow> timestamp"
  np_max_per_cycle :: nat
  np_max_attempts :: nat

record notifier =
  nf_records :: "notification_record list"
  nf_queued :: "notification list"
  nf_sends :: nat
  nf_delivered :: "notification list"

definition new_notifier :: notifier where
  "new_notifier = \<lparr>nf_records = [], nf_queued = [], nf_sends = 0, nf_delivered = []\<rparr>"

section \<open>Delivery\<close>

definition fatal_code :: "string \<Rightarrow> bool" where
  "fatal_code c \<longleftrightarrow> c \<in> set [''credentials_missing'', ''credentials_invalid'', ''notifications_disabled'']"

text \<open>The retry loop: remaining attempts, calls of the transport so far, attempts made, last code.\<close>

fun send_attempts ::
  "notifier_params \<Rightarrow> notification \<Rightarrow> nat \<Rightarrow> nat \<Rightarrow> nat \<Rightarrow> string option \<Rightarrow> nat \<times> bool \<times> string option \<times> nat" where
  "send_attempts N n 0 sends made code = (made, False, code, sends)"
| "send_attempts N n (Suc left) sends made code =
     (case np_send N sends n of
        Sent \<Rightarrow> (made + 1, True, None, sends + 1)
      | Transport_Error c \<Rightarrow>
          if fatal_code c then (made + 1, False, Some c, sends + 1)
          else send_attempts N n left (sends + 1) (made + 1) (Some c)
      | Transport_Crash \<Rightarrow> (made + 1, False, Some ''transport_exception'', sends + 1))"

text \<open>\<open>_record\<close>: the record is validated as it is built; an invalid one raises and is not kept.\<close>

definition record_attempt ::
  "('a text_env_scheme) \<Rightarrow> notifier_params \<Rightarrow> notification \<Rightarrow> nat \<Rightarrow> bool \<Rightarrow> string \<Rightarrow> notifier
     \<Rightarrow> (string + notification_record) \<times> notifier" where
  "record_attempt T N n made ok code st =
     (let r = \<lparr>notified_event = nt_event n, notified_channel = np_channel N, notified_title = nt_title n,
                notified_body_sha256 = text_digest T (nt_body n), attempts = int made, delivered = ok,
                error_code = (if ok then None else Some code),
                sent_at = (if ok then Some (np_clock N (length (nf_records st))) else None)\<rparr> in
      if notification_ok r then (Inr r, st\<lparr>nf_records := nf_records st @ [r]\<rparr>)
      else (Inl ''NotificationRecord'', st))"

definition send_now ::
  "('a text_env_scheme) \<Rightarrow> notifier_params \<Rightarrow> notification \<Rightarrow> notifier
     \<Rightarrow> (string + notification_record) \<times> notifier" where
  "send_now T N n st =
     (if contains_credential T (nt_body n) \<or> contains_credential T (nt_title n)
        then record_attempt T N n 0 False ''secret_blocked'' st
      else if length (nf_records st) \<ge> np_max_per_cycle N
        then record_attempt T N n 0 False ''rate_limited_per_cycle'' st
      else
        (let (made, ok, code, sends) = send_attempts N n (np_max_attempts N) (nf_sends st) 0 None;
             st' = st\<lparr>nf_sends := sends,
                      nf_delivered := (if ok then nf_delivered st @ [n] else nf_delivered st)\<rparr> in
         record_attempt T N n made ok
           (case code of None \<Rightarrow> ''transport_error'' | Some c \<Rightarrow> if c = [] then ''transport_error'' else c) st'))"

definition notify ::
  "('a text_env_scheme) \<Rightarrow> notifier_params \<Rightarrow> notification \<Rightarrow> notifier
     \<Rightarrow> (string + notification_record option) \<times> notifier" where
  "notify T N n st =
     (if nt_event n \<in> set urgent_events \<or> nt_urgent n
      then (case send_now T N n st of
              (Inl e, st') \<Rightarrow> (Inl e, st')
            | (Inr r, st') \<Rightarrow> (Inr (Some r), st'))
      else (Inr None, st\<lparr>nf_queued := nf_queued st @ [n]\<rparr>))"

definition report_body :: "('a text_env_scheme) \<Rightarrow> ustr \<Rightarrow> notification list \<Rightarrow> ustr" where
  "report_body T report_text queued =
     take 4000 (join_with [10]
       ([strip T report_text]
        @ (if queued \<noteq> []
           then [[], lit ''Also this cycle:''] @ map (\<lambda>n. lit ''- '' @ nt_title n) queued else [])))"

definition flush_daily_report ::
  "('a text_env_scheme) \<Rightarrow> notifier_params \<Rightarrow> uuid \<Rightarrow> ustr \<Rightarrow> notifier
     \<Rightarrow> (string + notification_record) \<times> notifier" where
  "flush_daily_report T N cid report_text st =
     (let body = report_body T report_text (nf_queued st) in
      send_now T N
        \<lparr>nt_event = DAILY_REPORT, nt_title = lit ''NEXUS resident engineer: daily report'',
         nt_body = (if body = [] then lit ''No activity.'' else body), nt_cycle_id = cid, nt_urgent = False\<rparr>
        (st\<lparr>nf_queued := []\<rparr>))"

section \<open>What the notifier guarantees\<close>

text \<open>
  Every accepted notification has its record, so there are never more than the limit of them, and
  none carries a credential.
\<close>

definition notifier_ok :: "('a text_env_scheme) \<Rightarrow> notifier_params \<Rightarrow> notifier \<Rightarrow> bool" where
  "notifier_ok T N st \<longleftrightarrow> length (nf_delivered st) \<le> np_max_per_cycle N
     \<and> length (nf_delivered st) \<le> length (nf_records st)
     \<and> list_all notification_ok (nf_records st)
     \<and> list_all (\<lambda>n. \<not> contains_credential T (nt_body n) \<and> \<not> contains_credential T (nt_title n))
         (nf_delivered st)"

text \<open>The code only ever meets channels and digests that its own record type accepts.\<close>

definition transport_ok :: "('a text_env_scheme) \<Rightarrow> notifier_params \<Rightarrow> bool" where
  "transport_ok T N \<longleftrightarrow> valid_identifier (np_channel N) \<and> (\<forall>v. valid_sha256 (text_digest T v))"

lemma send_attempts_bound:
  "send_attempts N n left sends made code = (made', ok, code', sends') \<Longrightarrow> made' \<le> made + left \<and> made \<le> made'"
  by (induction left arbitrary: sends made code) (fastforce split: send_outcome.splits if_splits)+

lemma record_attempt_ok:
  assumes "transport_ok T N" "notification_valid n" "ok \<or> valid_identifier code"
  shows "\<exists>r. record_attempt T N n made ok code st = (Inr r, st\<lparr>nf_records := nf_records st @ [r]\<rparr>)
    \<and> notification_ok r \<and> delivered r = ok"
  using assms
  by (auto simp: record_attempt_def notification_ok_def transport_ok_def notification_valid_def short_text_def
      bounded_def Let_def)

lemma record_attempt_records:
  "record_attempt T N n made ok code st = (res, st') \<Longrightarrow>
     nf_delivered st' = nf_delivered st \<and> nf_queued st' = nf_queued st \<and> nf_sends st' = nf_sends st
     \<and> (nf_records st' = nf_records st \<or> (\<exists>r. notification_ok r \<and> nf_records st' = nf_records st @ [r]))"
  by (auto simp: record_attempt_def Let_def split: if_splits)

lemma send_now_ok:
  assumes "notifier_ok T N st" "transport_ok T N" "notification_valid n" "send_now T N n st = (res, st')"
  shows "notifier_ok T N st'"
proof (cases "contains_credential T (nt_body n) \<or> contains_credential T (nt_title n)
    \<or> length (nf_records st) \<ge> np_max_per_cycle N")
  case True
  then obtain code where "record_attempt T N n 0 False code st = (res, st')"
    using assms(4) by (auto simp: send_now_def split: if_splits)
  from record_attempt_records [OF this] assms(1) show ?thesis by (auto simp: notifier_ok_def)
next
  case False
  obtain made ok code sends where a: "send_attempts N n (np_max_attempts N) (nf_sends st) 0 None = (made, ok, code, sends)"
    using prod_cases4 by blast
  define st1 where "st1 = st\<lparr>nf_sends := sends,
      nf_delivered := (if ok then nf_delivered st @ [n] else nf_delivered st)\<rparr>"
  define c where "c = (case code of None \<Rightarrow> ''transport_error'' | Some c \<Rightarrow> if c = [] then ''transport_error'' else c)"
  have r: "record_attempt T N n made ok c st1 = (res, st')"
    using assms(4) False a by (simp add: send_now_def st1_def c_def)
  have kept: "nf_delivered st' = nf_delivered st1" "list_all notification_ok (nf_records st')"
    using record_attempt_records [OF r] assms(1) by (auto simp: st1_def notifier_ok_def)
  have "length (nf_delivered st') \<le> length (nf_records st') \<and> length (nf_delivered st') \<le> np_max_per_cycle N"
  proof (cases ok)
    case True
    with record_attempt_ok [OF assms(2,3), of ok c made st1] r
    have "length (nf_records st') = Suc (length (nf_records st))" by (auto simp: st1_def)
    moreover have "length (nf_delivered st') = Suc (length (nf_delivered st))" using kept True by (simp add: st1_def)
    ultimately show ?thesis using assms(1) False by (auto simp: notifier_ok_def)
  next
    case notok: False
    then have "nf_delivered st' = nf_delivered st" using kept by (simp add: st1_def)
    moreover have "length (nf_records st) \<le> length (nf_records st')"
      using record_attempt_records [OF r] by (auto simp: st1_def)
    ultimately show ?thesis using assms(1) by (auto simp: notifier_ok_def)
  qed
  then show ?thesis using kept assms(1) False by (auto simp: notifier_ok_def st1_def)
qed

lemma notify_ok:
  assumes "notifier_ok T N st" "transport_ok T N" "notification_valid n" "notify T N n st = (res, st')"
  shows "notifier_ok T N st'"
  using assms send_now_ok [OF assms(1-3)]
  by (auto simp: notify_def notifier_ok_def split: if_splits prod.splits sum.splits)

lemma flush_ok:
  assumes "notifier_ok T N st" "transport_ok T N" "flush_daily_report T N cid report st = (res, st')"
  shows "notifier_ok T N st'"
proof -
  have "notifier_ok T N (st\<lparr>nf_queued := []\<rparr>)" using assms(1) by (simp add: notifier_ok_def)
  moreover have "bounded 1 4000 (if report_body T report (nf_queued st) = [] then lit ''No activity.''
      else report_body T report (nf_queued st))"
    by (simp add: report_body_def bounded_def Suc_le_eq lit_def)
  moreover have "bounded 1 200 (lit ''NEXUS resident engineer: daily report'')"
    by (simp add: bounded_def)
  ultimately show ?thesis
    using assms(2,3) unfolding flush_daily_report_def Let_def
    by (elim send_now_ok) (simp_all only: notification_valid_def notification.simps simp_thms)
qed

lemma new_notifier_ok: "notifier_ok T N new_notifier"
  by (simp add: notifier_ok_def new_notifier_def)

text \<open>With a transport whose error codes are identifiers the notifier never raises.\<close>

definition codes_ok :: "notifier_params \<Rightarrow> bool" where
  "codes_ok N \<longleftrightarrow> (\<forall>k n c. np_send N k n = Transport_Error c \<longrightarrow> valid_identifier c)"

lemma named_codes: "valid_identifier ''secret_blocked''" "valid_identifier ''rate_limited_per_cycle''"
  "valid_identifier ''transport_error''" "valid_identifier ''transport_exception''"
  by code_simp+

lemma send_attempts_code:
  assumes "codes_ok N"
  shows "opt_ok valid_identifier code \<Longrightarrow> send_attempts N n left sends made code = (made', ok, code', sends')
    \<Longrightarrow> opt_ok valid_identifier code'"
proof (induction left arbitrary: sends made code)
  case (Suc left)
  show ?case
  proof (cases "np_send N sends n")
    case (Transport_Error c)
    with assms have "valid_identifier c" by (simp add: codes_ok_def)
    with Suc.prems Transport_Error Suc.IH [of "Some c" "Suc sends" "Suc made"] show ?thesis by (cases "fatal_code c") auto
  qed (use Suc.prems named_codes(4) in auto)
qed simp

lemma send_now_total:
  assumes "transport_ok T N" "codes_ok N" "notification_valid n"
  shows "\<exists>r st'. send_now T N n st = (Inr r, st')"
proof -
  obtain made ok code sends where a: "send_attempts N n (np_max_attempts N) (nf_sends st) 0 None = (made, ok, code, sends)"
    using prod_cases4 by blast
  have "opt_ok valid_identifier code" by (rule send_attempts_code [OF assms(2) _ a]) simp
  then have "valid_identifier (case code of None \<Rightarrow> ''transport_error'' | Some c \<Rightarrow> if c = [] then ''transport_error'' else c)"
    using named_codes(3) by (cases code) simp_all
  note recorded = this named_codes(1,2)
  have ok: "\<exists>r st'. record_attempt T N n m d c st0 = (Inr r, st')" if "valid_identifier c" for m d c st0
    using record_attempt_ok [OF assms(1,3), of d c m st0] that by blast
  show ?thesis
    unfolding send_now_def Let_def a prod.case using ok recorded by (simp only: split: if_split) simp
qed

lemma notify_total:
  assumes "transport_ok T N" "codes_ok N" "notification_valid n"
  shows "\<exists>r st'. notify T N n st = (Inr r, st')"
proof -
  obtain r st' where "send_now T N n st = (Inr r, st')" using send_now_total [OF assms] by blast
  then show ?thesis by (simp add: notify_def)
qed

lemma flush_total:
  assumes "transport_ok T N" "codes_ok N"
  shows "\<exists>r st'. flush_daily_report T N cid report st = (Inr r, st')"
proof -
  have "notification_valid \<lparr>nt_event = DAILY_REPORT, nt_title = lit ''NEXUS resident engineer: daily report'',
         nt_body = (if body = [] then lit ''No activity.'' else body), nt_cycle_id = cid, nt_urgent = False\<rparr>"
    if "body = report_body T report (nf_queued st)" for body
    unfolding that report_body_def by (simp add: notification_valid_def bounded_def Suc_le_eq lit_def)
  then show ?thesis
    unfolding flush_daily_report_def Let_def using send_now_total [OF assms] by blast
qed

end
