(* ===== verification/EngineerReport.thy ===== *)
theory EngineerReport
  imports EngineerTrust
begin

text \<open>
  The owner-facing texts of the resident engineer (\<open>src/nexus/software_engineer/report.py\<close>): the approval
  request and the daily report with its record. Dates and formatted dollar amounts come from Python's
  formatting and are arguments (\<open>format_env\<close>).
\<close>

section \<open>Vocabulary\<close>

fun signal_kind_value :: "signal_kind \<Rightarrow> string" where
  "signal_kind_value GIT_HISTORY = ''git_history''"
| "signal_kind_value WORKING_TREE = ''working_tree''"
| "signal_kind_value CI_RUN = ''ci_run''"
| "signal_kind_value TEST_RESULTS = ''test_results''"
| "signal_kind_value LINT = ''lint''"
| "signal_kind_value TYPECHECK = ''typecheck''"
| "signal_kind_value E2E_SIGNAL = ''e2e_gate''"
| "signal_kind_value BENCHMARK = ''benchmark''"
| "signal_kind_value SENTINEL_SIGNAL = ''sentinel_gate''"
| "signal_kind_value BACKLOG = ''backlog''"
| "signal_kind_value FAILED_ATTEMPT = ''failed_attempt''"
| "signal_kind_value TODO_MARKER = ''todo_marker''"
| "signal_kind_value DEPENDENCY = ''dependency''"
| "signal_kind_value OWNER_MESSAGE = ''owner_message''"
| "signal_kind_value ISSUE = ''issue''"

fun gate_status_value :: "gate_status \<Rightarrow> string" where
  "gate_status_value GATE_PASSED = ''passed''"
| "gate_status_value GATE_FAILED = ''failed''"
| "gate_status_value GATE_ERROR = ''error''"
| "gate_status_value GATE_NOT_RUN = ''not_run''"

fun failure_value :: "cycle_failure \<Rightarrow> string" where
  "failure_value BUDGET_EXHAUSTED = ''budget_exhausted''"
| "failure_value CREDENTIALS_MISSING = ''credentials_missing''"
| "failure_value EXECUTOR_ERROR = ''executor_error''"
| "failure_value VALIDATION_FAILED = ''validation_failed''"
| "failure_value POLICY_DENIED = ''policy_denied''"
| "failure_value INTERNAL_ERROR = ''internal_error''"

fun recommendation_value :: "recommendation \<Rightarrow> string" where
  "recommendation_value RECOMMEND_SHIP = ''ship''"
| "recommendation_value RECOMMEND_REVISE = ''revise''"
| "recommendation_value RECOMMEND_REJECT = ''reject''"

text \<open>\<open>str.upper\<close> of the ASCII vocabularies.\<close>

definition upper_ascii :: "string \<Rightarrow> string" where
  "upper_ascii s = map (\<lambda>c. if is_lower c then char_of ((of_char c :: nat) - 32) else c) s"

definition dash :: "ustr \<Rightarrow> ustr" where
  "dash s = lit ''- '' @ s"

definition lines :: "ustr list \<Rightarrow> ustr" where
  "lines xs = join_with [10] xs"

text \<open>\<open>format_date\<close> is \<open>date().isoformat()\<close>, \<open>format_spent\<close> and \<open>format_limit\<close> the four- and two-decimal amounts.\<close>

record report_env = text_env +
  format_date :: "timestamp \<Rightarrow> string"
  format_spent :: "int \<Rightarrow> string"
  format_limit :: "int \<Rightarrow> string"

section \<open>The approval request\<close>

text \<open>Each member is one line; the blank lines of the code are empty members.\<close>

definition render_approval_request :: "approval_request \<Rightarrow> ustr" where
  "render_approval_request q =
     (let validation = (if request_validation q = [] then lit ''- no gates ran''
            else lines (map (\<lambda>g. lit (''- '' @ gate_value (gate g) @ '': ''
              @ gate_status_value (gate_status g) @ '' ('') @ gate_summary g @ lit '')'') (request_validation q)));
          files = (if files_affected q = [] then lit ''- none'' else lines (map dash (files_affected q)));
          dry_run_note = (if dry_run q then '' (dry run: no code was changed)'' else []) in
      lines
        [lit (''READY FOR REVIEW'' @ dry_run_note), [],
         lit ''Title:'', request_title q, [],
         lit ''Problem:'', request_problem q, [],
         lit ''Root cause:'', request_root_cause q, [],
         lit ''Proposed fix:'', proposed_fix q, [],
         lit ''Why:'', request_why q, [],
         lit ''Files affected:'', files, [],
         lit ''Behavior changed:'', behavior_changed q, [],
         lit ''Risk:'', lit (upper_ascii (risk_value (risk_level (request_risk q))) @ '' ('')
            @ join_with (lit ''; '') (take 3 (risk_reasons (request_risk q))) @ lit '')'', [],
         lit ''Validation:'', validation, [],
         lit ''Benchmark impact:'', benchmark_impact q, [],
         lit ''Security impact:'', security_impact q, [],
         lit ''Agent confidence:'', lit (int_str (request_confidence q) @ ''%''), [],
         lit ''Rollback plan:'', rollback_plan q, [],
         lit ''Reference:'', request_reference q, [],
         lit ''Recommendation:'', lit (upper_ascii (recommendation_value (recommendation q))), [],
         lit ''Owner decision requested:'', lit ''SHIP / REVISE / REJECT'', [],
         lit ''Question:'', request_question q, []])"

section \<open>The daily report\<close>

record cycle_report =
  report_cycle_id :: uuid
  report_date :: string
  report_decision :: cycle_decision
  report_inspected :: "ustr list"
  report_discovered :: "ustr list"
  report_fixed :: "ustr list"
  report_why :: "ustr list"
  report_validated :: "ustr list"
  report_changed :: "ustr list"
  report_learned :: "ustr list"
  report_memory_added :: "ustr list"
  report_unresolved :: "ustr list"
  owner_action_required :: bool
  report_text :: ustr

definition report_list_ok :: "nat \<Rightarrow> ustr list \<Rightarrow> bool" where
  "report_list_ok n xs \<longleftrightarrow> bounded 0 n xs \<and> list_all short_text xs"

definition report_ok :: "cycle_report \<Rightarrow> bool" where
  "report_ok r \<longleftrightarrow> report_list_ok 50 (report_inspected r) \<and> report_list_ok 50 (report_discovered r)
     \<and> report_list_ok 20 (report_fixed r) \<and> report_list_ok 20 (report_why r)
     \<and> report_list_ok 20 (report_validated r) \<and> report_list_ok 50 (report_changed r)
     \<and> report_list_ok 20 (report_learned r) \<and> report_list_ok 20 (report_memory_added r)
     \<and> report_list_ok 50 (report_unresolved r) \<and> bounded 1 20000 (report_text r)"

fun headline :: "cycle_decision \<Rightarrow> string" where
  "headline NO_WORK = ''No sufficiently valuable safe work found today.''"
| "headline SHIP = ''Shipped one low-risk change after every gate passed.''"
| "headline REQUEST_APPROVAL = ''One change is ready for your decision.''"
| "headline ABANDON = ''Attempted one change and abandoned it on evidence.''"
| "headline BLOCKED = ''The cycle is blocked and needs you.''"

text \<open>The signals counted per kind, in the order of the kinds' values.\<close>

definition inspected_kinds :: "engineering_signal list \<Rightarrow> string list" where
  "inspected_kinds signals = sort (remdups (map (\<lambda>s. signal_kind_value (signal_kind s)) signals))"

definition inspected_lines :: "engineering_signal list \<Rightarrow> ustr list" where
  "inspected_lines signals = map (\<lambda>k. lit (k @ '': ''
       @ int_str (int (length (filter (\<lambda>s. signal_kind_value (signal_kind s) = k) signals)))
       @ '' signal(s)'')) (inspected_kinds signals)"

text \<open>\<open>by_id\<close>: the candidates of the record by id, a missing one is a \<open>KeyError\<close>.\<close>

definition by_id :: "cycle_record \<Rightarrow> uuid \<Rightarrow> string + engineering_candidate" where
  "by_id c i = (case find (\<lambda>k. candidate_id k = i) (rev (cycle_candidates c)) of
     None \<Rightarrow> Inl ''KeyError'' | Some k \<Rightarrow> Inr k)"

definition bullet_section :: "string \<Rightarrow> ustr list \<Rightarrow> ustr list" where
  "bullet_section title xs = (if xs = [] then [] else [[], lit title] @ map dash xs)"

definition report_selected :: "cycle_record \<Rightarrow> engineering_candidate option" where
  "report_selected c = (case selected_candidate_id c of None \<Rightarrow> None
     | Some i \<Rightarrow> (case by_id c i of Inl e \<Rightarrow> None | Inr k \<Rightarrow> Some k))"

definition action_required :: "cycle_record \<Rightarrow> bool" where
  "action_required c \<longleftrightarrow> cycle_decision c = REQUEST_APPROVAL \<or> cycle_decision c = BLOCKED
     \<or> cycle_failure c \<noteq> None"

definition budget_line :: "('a report_env_scheme) \<Rightarrow> cycle_usage \<Rightarrow> cycle_budget \<Rightarrow> string" where
  "budget_line T u b =
     ''Budget: '' @ int_str (used_turns u) @ ''/'' @ int_str (max_turns b) @ '' turns, ''
     @ int_str (used_calls u) @ ''/'' @ int_str (max_calls b) @ '' tool calls, ''
     @ int_str (used_model_calls u) @ ''/'' @ int_str (max_model_calls b) @ '' model calls, ''
     @ int_str (used_input_tokens u + used_output_tokens u) @ '' tokens, ''
     @ (case used_cost u of Some c \<Rightarrow> ''$'' @ format_spent T c | None \<Rightarrow> ''cost not measured'')
     @ (case max_cost_usd b of Some c \<Rightarrow> ''/$'' @ format_limit T c @ ''.'' | None \<Rightarrow> ''.'')"

definition report_lines ::
  "('a report_env_scheme) \<Rightarrow> cycle_record \<Rightarrow> ustr list \<Rightarrow> ustr list \<Rightarrow> timestamp
     \<Rightarrow> ustr list \<Rightarrow> ustr list \<Rightarrow> ustr list \<Rightarrow> ustr list \<Rightarrow> ustr list" where
  "report_lines T c learned added now discovered fixed why unresolved =
     [lit (''# Resident engineer report - '' @ format_date T now), [], lit (headline (cycle_decision c)), [],
      lit ''## Inspected'']
     @ map dash (if cycle_signals c = [] then [lit ''- nothing observable''] else inspected_lines (cycle_signals c))
     @ [[], lit ''## Discovered'']
     @ map dash (if discovered = [] then [lit ''nothing worth changing''] else discovered)
     @ (if fixed = [] then [] else bullet_section ''## Fixed'' fixed
          @ [[], lit ''## Why it mattered''] @ map dash why)
     @ bullet_section ''## Validated'' (map (\<lambda>g. lit (gate_value (gate g) @ '': ''
          @ gate_status_value (gate_status g))) (cycle_gates c))
     @ bullet_section ''## Changed'' (case cycle_change c of None \<Rightarrow> [] | Some k \<Rightarrow> change_files k)
     @ (case cycle_request c of
          Some q \<Rightarrow> if cycle_decision c = REQUEST_APPROVAL
            then [[], lit ''## Owner action required'', dash (request_title q @ lit '': SHIP / REVISE / REJECT'')]
            else []
        | None \<Rightarrow> [])
     @ bullet_section ''## Learned'' learned
     @ bullet_section ''## Added to memory'' added
     @ bullet_section ''## Still open'' unresolved
     @ bullet_section ''## Failed gates''
         (map (\<lambda>g. lit (gate_value (gate g))) (filter (\<lambda>g. gate_status g = GATE_FAILED) (cycle_gates c)))
     @ (case cycle_failure c of None \<Rightarrow> [] | Some f \<Rightarrow> [[], lit (''## Cycle failure: '' @ failure_value f)])
     @ [[], lit (''Decision: '' @ decision_value (cycle_decision c) @ ''. Reasons: '')
          @ join_with (lit ''; '') (take 3 (decision_reasons c)) @ lit ''.'',
        lit (budget_line T (cycle_usage c) (cycle_budget c))]"

definition report_of ::
  "('a report_env_scheme) \<Rightarrow> cycle_record \<Rightarrow> ustr list \<Rightarrow> ustr list \<Rightarrow> timestamp
     \<Rightarrow> engineering_candidate list \<Rightarrow> cycle_report" where
  "report_of T c learned added now ranked =
     (let discovered = take 20 (map (\<lambda>k. candidate_title k
           @ lit ('' ['' @ category_value (candidate_category k) @ '']'')) ranked);
         shipped = (if cycle_decision c = SHIP then report_selected c else None);
         fixed = (case shipped of None \<Rightarrow> [] | Some k \<Rightarrow> [candidate_title k]);
         why = (case shipped of None \<Rightarrow> [] | Some k \<Rightarrow> [take 500 (candidate_rationale k)]);
         validated = map (\<lambda>g. lit (gate_value (gate g) @ '': '' @ gate_status_value (gate_status g))) (cycle_gates c);
         changed = (case cycle_change c of None \<Rightarrow> [] | Some k \<Rightarrow> change_files k);
         unresolved = take 20 (map (\<lambda>(i, k). candidate_title k)
           (filter (\<lambda>(i, k). Some i \<noteq> selected_candidate_id c) (zip (ranking c) ranked)));
         short = (\<lambda>n xs. take n (map (take 500) xs))
      in \<lparr>report_cycle_id = cycle_id c, report_date = format_date T now, report_decision = cycle_decision c,
              report_inspected = short 50 (inspected_lines (cycle_signals c)),
              report_discovered = short 50 discovered, report_fixed = short 20 fixed,
              report_why = short 20 why, report_validated = short 20 validated,
              report_changed = short 50 changed, report_learned = short 20 learned,
              report_memory_added = short 20 added, report_unresolved = short 50 unresolved,
              owner_action_required = action_required c,
              report_text = take 20000 (lines (report_lines T c learned added now discovered fixed why unresolved))\<rparr>)"

definition build_report ::
  "('a report_env_scheme) \<Rightarrow> cycle_record \<Rightarrow> ustr list \<Rightarrow> ustr list \<Rightarrow> timestamp \<Rightarrow> string + cycle_report" where
  "build_report T c learned added now =
     rbind (map_results (by_id c) (ranking c)) (\<lambda>ranked.
     let r = report_of T c learned added now ranked in
     if report_ok r then Inr r else Inl ''CycleReport'')"

section \<open>The report of a valid record\<close>

lemma join_with_hd: "x \<noteq> [] \<Longrightarrow> join_with sep (x # xs) \<noteq> []"
  by (cases xs) auto

lemma short_listed: "\<forall>x \<in> set xs. x \<noteq> [] \<Longrightarrow> report_list_ok n (take n (map (take 500) xs))"
  using set_take_subset [of n "map (take 500) xs"]
  by (auto simp: report_list_ok_def bounded_def list_all_iff short_text_def Suc_le_eq)

text \<open>A record that passes its own validators always has a report.\<close>

lemma by_id_found: "i \<in> set (map candidate_id (cycle_candidates c)) \<Longrightarrow>
    \<exists>k \<in> set (cycle_candidates c). by_id c i = Inr k \<and> candidate_id k = i"
proof -
  assume "i \<in> set (map candidate_id (cycle_candidates c))"
  then have "find (\<lambda>k. candidate_id k = i) (rev (cycle_candidates c)) \<noteq> None" by (auto simp: find_None_iff)
  then obtain k where "find (\<lambda>k. candidate_id k = i) (rev (cycle_candidates c)) = Some k" by blast
  with find_Some_mem [OF this] show ?thesis by (auto simp: by_id_def)
qed

lemma report_of_ok:
  assumes "\<forall>x \<in> set learned. x \<noteq> []" "\<forall>x \<in> set added. x \<noteq> []"
    and titled: "\<forall>k \<in> set ranked \<union> set (cycle_candidates c). candidate_title k \<noteq> [] \<and> candidate_rationale k \<noteq> []"
    and files: "\<forall>k. cycle_change c = Some k \<longrightarrow> (\<forall>f \<in> set (change_files k). f \<noteq> [])"
  shows "report_ok (report_of T c learned added now ranked)"
proof -
  have "\<forall>x \<in> set (inspected_lines s). x \<noteq> []" for s by (auto simp: inspected_lines_def lit_def)
  moreover have "\<forall>x \<in> set (take 20 (map (\<lambda>k. candidate_title k
           @ lit ('' ['' @ category_value (candidate_category k) @ '']'')) ranked)). x \<noteq> []"
    using set_take_subset [of 20] by (auto simp: lit_def dest!: in_set_takeD)
  moreover have "\<forall>x \<in> set (map (\<lambda>g. lit (gate_value (gate g) @ '': '' @ gate_status_value (gate_status g)))
       (cycle_gates c)). x \<noteq> []" by (auto simp: lit_def)
  moreover have "\<forall>x \<in> set (take 20 (map (\<lambda>(i, k). candidate_title k)
           (filter (\<lambda>(i, k). Some i \<noteq> selected_candidate_id c) (zip (ranking c) ranked)))). x \<noteq> []"
  proof
    fix x assume "x \<in> set (take 20 (map (\<lambda>(i, k). candidate_title k)
           (filter (\<lambda>(i, k). Some i \<noteq> selected_candidate_id c) (zip (ranking c) ranked))))"
    then obtain i k where "(i, k) \<in> set (zip (ranking c) ranked)" "x = candidate_title k"
      by (auto dest!: in_set_takeD)
    with set_zip_rightD [OF this(1)] titled show "x \<noteq> []" by auto
  qed
  moreover have "\<forall>x \<in> set (case cycle_change c of None \<Rightarrow> [] | Some k \<Rightarrow> change_files k). x \<noteq> []"
    using files by (cases "cycle_change c") auto
  moreover have chosen: "k \<in> set (cycle_candidates c)" if "report_selected c = Some k" for k
    using that by (auto simp: report_selected_def by_id_def dest!: find_Some_mem split: option.splits sum.splits)
  have "\<forall>x \<in> set (case (if cycle_decision c = SHIP then report_selected c else None) of
      None \<Rightarrow> [] | Some k \<Rightarrow> [candidate_title k]). x \<noteq> []"
    "\<forall>x \<in> set (case (if cycle_decision c = SHIP then report_selected c else None) of
      None \<Rightarrow> [] | Some k \<Rightarrow> [take 500 (candidate_rationale k)]). x \<noteq> []"
    using chosen titled by (auto split: option.splits)
  moreover have "bounded 1 20000 (take 20000 (lines (report_lines T c learned added now d f w u)))" for d f w u
    by (simp add: bounded_def lines_def report_lines_def Suc_le_eq lit_def)
  ultimately show ?thesis
    using assms(1,2) unfolding report_ok_def report_of_def Let_def cycle_report.simps
    by (intro conjI short_listed)
qed

lemma build_report_total:
  assumes "cycle_record_ok c" "\<forall>x \<in> set learned. x \<noteq> []" "\<forall>x \<in> set added. x \<noteq> []"
  shows "\<exists>r. build_report T c learned added now = Inr r \<and> report_ok r
    \<and> owner_action_required r = action_required c"
proof -
  have fields: "cycle_fields_ok c" and err: "cycle_structure_error c = None"
    using assms(1) by (auto simp: cycle_record_ok_def cycle_error_def split: option.splits)
  have ids: "set (ranking c) = set (map candidate_id (cycle_candidates c))"
    using err by (auto simp: cycle_structure_error_def Let_def split: if_splits)
  define get where "get = (\<lambda>i. the (find (\<lambda>k. candidate_id k = i) (rev (cycle_candidates c))))"
  have get: "by_id c i = Inr (get i)" "get i \<in> set (cycle_candidates c)" if "i \<in> set (ranking c)" for i
  proof -
    obtain k where "k \<in> set (cycle_candidates c)" "by_id c i = Inr k"
      using by_id_found [of i c] \<open>i \<in> set (ranking c)\<close> ids by auto
    then show "by_id c i = Inr (get i)" "get i \<in> set (cycle_candidates c)"
      by (auto simp: by_id_def get_def split: option.splits)
  qed
  have ranked: "map_results (by_id c) (ranking c) = Inr (map get (ranking c))"
    by (rule map_results_Inr) (rule get)
  have title: "candidate_title k \<noteq> []" "candidate_rationale k \<noteq> []" if "k \<in> set (cycle_candidates c)" for k
    using fields that by (auto simp: cycle_fields_ok_def list_all_iff candidate_ok_def short_text_def narrative_def bounded_def)
  have "report_ok (report_of T c learned added now (map get (ranking c)))"
    using assms(2,3)
  proof (rule report_of_ok)
    show "\<forall>k \<in> set (map get (ranking c)) \<union> set (cycle_candidates c).
        candidate_title k \<noteq> [] \<and> candidate_rationale k \<noteq> []" using get(2) title by auto
    show "\<forall>k. cycle_change c = Some k \<longrightarrow> (\<forall>f \<in> set (change_files k). f \<noteq> [])"
    proof (intro allI impI ballI)
      fix k f assume k: "cycle_change c = Some k" "f \<in> set (change_files k)"
      then have "change_ok k" using fields by (simp add: cycle_fields_ok_def)
      with k(2) have "path_ok f" by (simp add: change_ok_def list_all_iff)
      then show "f \<noteq> []" by (auto simp: path_ok_def bounded_def)
    qed
  qed
  then show ?thesis
    by (simp add: build_report_def ranked Let_def) (simp add: report_of_def Let_def)
qed

end
