(* ===== verification/EngineerCycle.thy ===== *)
theory EngineerCycle
  imports EngineerPolicy EngineerReview EngineerMemory EngineerNotify EngineerReport
begin

text \<open>
  The daily cycle of the resident engineer (\<open>src/nexus/software_engineer/cycle.py\<close>). The cycle object and
  its \<open>_State\<close> are one record; a method is a function from the state to a result and a state, because
  what a method did before it raised stays done and \<open>_run\<close> catches every exception to write the record.

  The collaborators that the constructor receives are arguments (\<open>cycle_env\<close>): the inspector, the
  candidate generator, the executor, the transport and clock of the notifier, the clock, and the answer
  of the lease. The memory is the store of \<open>EngineerMemory\<close>, the reviewer, the risk classification, the
  ship policy, the notifier and the report are the functions of their theories. Progress files are
  written for observers only and are left out, as are I/O failures while the record is written.

  \<open>cs_calls\<close> lists the calls of a real executor and \<open>cs_persisted\<close> what was written; both observe the
  model and are not fields of the code.
\<close>

section \<open>The world of a cycle\<close>

datatype cycle_exn =
    Budget_Exhausted "string list"
  | Memory_Failure
  | Executor_Failure string
  | Internal_Failure string

record execution_outcome =
  outcome_change :: "change_summary option"
  outcome_patch :: "ustr option"
  outcome_gates :: "gate_result list"
  outcome_notes :: "ustr list"
  root_cause_evidence :: bool
  outcome_calls :: int
  outcome_model_calls :: int
  outcome_input_tokens :: int
  outcome_output_tokens :: int
  outcome_cost :: "int option"

record executor =
  exec_can_ship :: bool
  exec_run :: "engineering_candidate \<Rightarrow> cycle_exn + execution_outcome"
  exec_ship :: "change_summary \<Rightarrow> cycle_exn + change_summary"
  exec_rollback :: "change_summary \<Rightarrow> ustr \<Rightarrow> cycle_exn + rollback_record"

definition plain_outcome ::
  "change_summary option \<Rightarrow> ustr option \<Rightarrow> gate_result list \<Rightarrow> ustr list \<Rightarrow> bool \<Rightarrow> execution_outcome" where
  "plain_outcome change patch gates notes rc =
     \<lparr>outcome_change = change, outcome_patch = patch, outcome_gates = gates, outcome_notes = notes,
      root_cause_evidence = rc, outcome_calls = 0, outcome_model_calls = 0, outcome_input_tokens = 0,
      outcome_output_tokens = 0, outcome_cost = None\<rparr>"

text \<open>\<open>DryRunExecutor\<close>: it plans only.\<close>

definition dry_run_executor :: executor where
  "dry_run_executor = \<lparr>exec_can_ship = False,
     exec_run = (\<lambda>c. Inr (plain_outcome None None
       (map (\<lambda>g. \<lparr>gate = g, gate_status = GATE_NOT_RUN, gate_summary = lit ''dry run: not executed'',
                    gate_evidence = None\<rparr>) (sort_key gate_value required_gates))
       [lit ''dry run''] False)),
     exec_ship = (\<lambda>c. Inl (Executor_Failure ''ExecutorError'')),
     exec_rollback = (\<lambda>c r. Inl (Executor_Failure ''ExecutorError''))\<rparr>"

record interrupted_run =
  interrupted_cycle :: uuid
  interrupted_started :: timestamp
  interrupted_expired :: timestamp
  interrupted_reason :: string

record cycle_env = report_env +
  in_mode :: cycle_mode
  in_budget :: cycle_budget
  in_model :: "ustr option"
  in_cycle_id :: uuid
  in_clock :: "nat \<Rightarrow> clock_value"
  in_lease :: "timestamp \<Rightarrow> cycle_exn + interrupted_run option"
  in_head :: "cycle_exn + string"
  in_collect :: "cycle_exn + engineering_signal list"
  in_inspector_calls :: int
  in_generate :: "engineering_signal list \<Rightarrow> engineer_memory list \<Rightarrow> cycle_exn + engineering_candidate list"
  in_executor :: "executor option"
  in_notifier :: notifier_params
  in_isoformat :: "timestamp \<Rightarrow> string"

text \<open>Dry run never executes, whatever executor was supplied.\<close>

definition real_executor :: "cycle_env \<Rightarrow> bool" where
  "real_executor C \<longleftrightarrow> in_mode C \<noteq> DRY_RUN \<and> in_executor C \<noteq> None"

definition cycle_executor :: "cycle_env \<Rightarrow> executor" where
  "cycle_executor C = (if in_mode C = DRY_RUN then dry_run_executor
     else case in_executor C of None \<Rightarrow> dry_run_executor | Some x \<Rightarrow> x)"

datatype executor_call =
  Executed engineering_candidate | Ship_Called change_summary | Rollback_Called change_summary

record cycle_state =
  cs_ticks :: nat
  cs_started_at :: timestamp
  cs_head :: string
  cs_phase :: cycle_phase
  cs_transitions :: "cycle_transition list"
  cs_usage :: cycle_usage
  cs_notifier :: notifier
  cs_memory :: memory_db
  st_signals :: "engineering_signal list"
  st_memories :: "engineer_memory list"
  st_candidates :: "engineering_candidate list"
  st_selected :: "engineering_candidate option"
  st_abandoned :: "uuid list"
  st_outcome :: "execution_outcome option"
  st_facts :: "diff_facts option"
  st_review :: "self_review option"
  st_risk :: "risk_assessment option"
  st_policy :: "policy_decision option"
  st_request :: "approval_request option"
  st_rollback :: "rollback_record option"
  st_failure :: "cycle_failure option"
  st_writes :: "uuid list"
  st_summaries :: "ustr list"
  st_learned :: "ustr list"
  st_reads :: int
  st_reasons :: "ustr list"
  st_interrupted :: "interrupted_run option"
  cs_calls :: "executor_call list"
  cs_persisted :: "(cycle_record \<times> cycle_report) option"

definition start_state :: "memory_db \<Rightarrow> timestamp \<Rightarrow> cycle_state" where
  "start_state db started = \<lparr>cs_ticks = 1, cs_started_at = started, cs_head = replicate 40 (CHR ''0''),
     cs_phase = PHASE_CREATED, cs_transitions = [], cs_usage = empty_usage, cs_notifier = new_notifier,
     cs_memory = db, st_signals = [], st_memories = [], st_candidates = [], st_selected = None,
     st_abandoned = [], st_outcome = None, st_facts = None, st_review = None, st_risk = None,
     st_policy = None, st_request = None, st_rollback = None, st_failure = None, st_writes = [],
     st_summaries = [], st_learned = [], st_reads = 0, st_reasons = [], st_interrupted = None,
     cs_calls = [], cs_persisted = None\<rparr>"

section \<open>Methods as functions of the state\<close>

type_synonym 'a cyc = "cycle_state \<Rightarrow> (cycle_exn + 'a) \<times> cycle_state"

definition cret :: "'a \<Rightarrow> 'a cyc" where
  "cret a = (\<lambda>s. (Inr a, s))"

definition craise :: "cycle_exn \<Rightarrow> 'a cyc" where
  "craise e = (\<lambda>s. (Inl e, s))"

definition cbind :: "'a cyc \<Rightarrow> ('a \<Rightarrow> 'b cyc) \<Rightarrow> 'b cyc" where
  "cbind m f = (\<lambda>s. case m s of (Inl e, s') \<Rightarrow> (Inl e, s') | (Inr a, s') \<Rightarrow> f a s')"

definition cmodify :: "(cycle_state \<Rightarrow> cycle_state) \<Rightarrow> unit cyc" where
  "cmodify f = (\<lambda>s. (Inr (), f s))"

definition cget :: "(cycle_state \<Rightarrow> 'a cyc) \<Rightarrow> 'a cyc" where
  "cget f = (\<lambda>s. f s s)"

definition clift :: "cycle_exn + 'a \<Rightarrow> 'a cyc" where
  "clift r = (case r of Inl e \<Rightarrow> craise e | Inr a \<Rightarrow> cret a)"

definition cguard :: "bool \<Rightarrow> cycle_exn \<Rightarrow> unit cyc" where
  "cguard c e = (if c then craise e else cret ())"

fun csteps :: "unit cyc list \<Rightarrow> unit cyc" where
  "csteps [] = cret ()"
| "csteps (m # ms) = cbind m (\<lambda>_. csteps ms)"

definition ctry :: "'a cyc \<Rightarrow> (cycle_exn \<Rightarrow> 'a cyc) \<Rightarrow> 'a cyc" where
  "ctry m h = (\<lambda>s. case m s of (Inl e, s') \<Rightarrow> h e s' | (Inr a, s') \<Rightarrow> (Inr a, s'))"

text \<open>Pydantic's \<open>ValidationError\<close>, an \<open>AssertionError\<close> and a \<open>RuntimeError\<close> of the cycle itself.\<close>

definition invalid :: "'a cyc" where
  "invalid = craise (Internal_Failure ''ValidationError'')"

definition ctext :: "string + 'a \<Rightarrow> 'a cyc" where
  "ctext r = (case r of Inl e \<Rightarrow> invalid | Inr a \<Rightarrow> cret a)"

definition cthe :: "'a option \<Rightarrow> 'a cyc" where
  "cthe x = (case x of None \<Rightarrow> craise (Internal_Failure ''AssertionError'') | Some a \<Rightarrow> cret a)"

section \<open>Clock, budget, phases\<close>

definition cyc_now :: "cycle_env \<Rightarrow> timestamp cyc" where
  "cyc_now C = (\<lambda>s. let s' = s\<lparr>cs_ticks := cs_ticks s + 1\<rparr> in
     case in_clock C (cs_ticks s) of
       Naive t \<Rightarrow> (Inl (Internal_Failure ''ValueError''), s')
     | Aware t \<Rightarrow> (Inr t, s'))"

definition check_budget :: "cycle_env \<Rightarrow> unit cyc" where
  "check_budget C = cbind (cyc_now C) (\<lambda>now. cget (\<lambda>s.
     let elapsed = max 0 (now - cs_started_at s);
         over = exceeded ((cs_usage s)\<lparr>used_runtime := elapsed\<rparr>) (in_budget C) in
     cguard (over \<noteq> []) (Budget_Exhausted over)))"

definition advance :: "cycle_env \<Rightarrow> cycle_phase \<Rightarrow> string \<Rightarrow> bool \<Rightarrow> unit cyc" where
  "advance C target reason check = cget (\<lambda>s.
     if phase_index target \<le> phase_index (cs_phase s) then craise (Internal_Failure ''RuntimeError'')
     else cbind (cyc_now C) (\<lambda>now.
       let n = int (length (cs_transitions s)) + 1;
           t = \<lparr>transition_sequence = n, transition_source = cs_phase s, transition_target = target,
                transition_reason = take 500 (lit reason), transition_at = now\<rparr> in
       csteps
         [cmodify (\<lambda>s. s\<lparr>cs_transitions := cs_transitions s @ [t], cs_phase := target,
            cs_usage := (cs_usage s)\<lparr>used_turns := n\<rparr>\<rparr>),
          if check then check_budget C else cret ()]))"

section \<open>Notifications\<close>

definition cyc_notify :: "cycle_env \<Rightarrow> notification_event \<Rightarrow> ustr \<Rightarrow> ustr \<Rightarrow> unit cyc" where
  "cyc_notify C event title body = (\<lambda>s.
     let n = \<lparr>nt_event = event, nt_title = title, nt_body = body, nt_cycle_id = in_cycle_id C,
              nt_urgent = False\<rparr> in
     if \<not> notification_valid n then invalid s
     else case notify C (in_notifier C) n (cs_notifier s) of
       (Inl e, nf) \<Rightarrow> invalid (s\<lparr>cs_notifier := nf\<rparr>)
     | (Inr r, nf) \<Rightarrow> (Inr (), s\<lparr>cs_notifier := nf\<rparr>))"

definition regression_body :: "engineering_signal list \<Rightarrow> ustr" where
  "regression_body items = take 4000 (join_with [10] (map (\<lambda>i. lit ''- '' @ signal_summary i) items))"

definition notify_regressions :: "cycle_env \<Rightarrow> unit cyc" where
  "notify_regressions C = cget (\<lambda>s.
     let failures = filter (\<lambda>i. signal_severity i = FAILURE) (st_signals s);
         tests = filter (\<lambda>i. signal_kind i = TEST_RESULTS) failures;
         gates = filter (\<lambda>i. signal_kind i \<in> set [BENCHMARK, E2E_SIGNAL, SENTINEL_SIGNAL]) failures in
     csteps
       [if tests = [] then cret ()
        else cyc_notify C TEST_REGRESSION (lit ''Test regression observed'') (regression_body tests),
        if gates = [] then cret ()
        else cyc_notify C BENCHMARK_REGRESSION (lit ''Gate or benchmark regression observed'')
          (regression_body gates)])"

definition notify_failure :: "cycle_env \<Rightarrow> string \<Rightarrow> unit cyc" where
  "notify_failure C title = cget (\<lambda>s.
     let body = take 4000 (join_with (lit ''; '') (st_reasons s)) in
     cyc_notify C ENGINEERING_CYCLE_FAILED (take 200 (lit title))
       (if body = [] then lit ''no detail'' else body))"

section \<open>The phases\<close>

definition observe :: "cycle_env \<Rightarrow> unit cyc" where
  "observe C = csteps
     [advance C OBSERVE ''collect repository, check, and gate evidence'' True,
      cbind (clift (in_collect C)) (\<lambda>signals. cmodify (\<lambda>s. s\<lparr>st_signals := signals\<rparr>)),
      cmodify (\<lambda>s. s\<lparr>cs_usage := (cs_usage s)\<lparr>used_calls := used_calls (cs_usage s) + in_inspector_calls C\<rparr>\<rparr>),
      check_budget C,
      notify_regressions C]"

text \<open>Reading the memory; every error of the store is \<open>MemoryStoreError\<close>.\<close>

definition cmemory :: "memory_store_error + 'a \<Rightarrow> 'a cyc" where
  "cmemory r = (case r of Inl e \<Rightarrow> craise Memory_Failure | Inr a \<Rightarrow> cret a)"

definition read_window :: "cycle_env \<Rightarrow> memory_query \<Rightarrow> engineer_memory list cyc" where
  "read_window C q = cget (\<lambda>s. cmemory (retrieve C (cs_memory s) q))"

definition read_full :: "cycle_env \<Rightarrow> memory_query \<Rightarrow> engineer_memory list cyc" where
  "read_full C q = cget (\<lambda>s. cmemory (retrieve_all C (cs_memory s) q))"

text \<open>\<open>extend_unseen\<close> is the loop over \<open>seen\<close>: records not read yet are appended.\<close>

definition extend_unseen :: "engineer_memory list \<Rightarrow> engineer_memory list \<Rightarrow> engineer_memory list" where
  "extend_unseen ms extra =
     fold (\<lambda>m acc. if memory_id m \<in> set (map memory_id acc) then acc else acc @ [m]) extra ms"

definition understand :: "cycle_env \<Rightarrow> unit cyc" where
  "understand C = cbind (advance C UNDERSTAND ''read private memory'' True) (\<lambda>_.
     cbind (cyc_now C) (\<lambda>now.
     let q = default_query\<lparr>query_as_of := Some now\<rparr> in
     cbind (read_window C (q\<lparr>query_limit := 50\<rparr>)) (\<lambda>window.
     cbind (read_full C (q\<lparr>query_statuses := [OWNER_DECISION]\<rparr>)) (\<lambda>decisions.
     cbind (read_full C (q\<lparr>query_statuses := [FAILED_HYPOTHESIS]\<rparr>)) (\<lambda>failures.
     cbind (read_window C (q\<lparr>query_category := Some BACKLOG_ITEM, query_limit := 20\<rparr>)) (\<lambda>backlog.
     let memories = extend_unseen (extend_unseen (extend_unseen window decisions) failures) backlog in
     cmodify (\<lambda>s. s\<lparr>st_memories := memories, st_reads := int (length memories)\<rparr>)))))))"

text \<open>The ranking loop: abandoned candidates, the number not worth their cost, and the first that is.\<close>

fun pick :: "engineering_candidate list \<Rightarrow> uuid list \<times> nat \<times> engineering_candidate option" where
  "pick [] = ([], 0, None)"
| "pick (c # cs) =
     (if blockers c \<noteq> [] then (case pick cs of (ids, n, x) \<Rightarrow> (candidate_id c # ids, n, x))
      else if estimate_score (candidate_estimate c) \<le> 0
        then (case pick cs of (ids, n, x) \<Rightarrow> (candidate_id c # ids, n + 1, x))
      else ([], 0, Some c))"

definition no_selection_reason :: "engineering_candidate list \<Rightarrow> nat \<Rightarrow> string" where
  "no_selection_reason cs worthless =
     (if cs = [] then ''no candidate was found''
      else if worthless = length cs then ''no candidate is worth its cost''
      else ''no unblocked candidate'')"

definition add_reasons :: "ustr list \<Rightarrow> cycle_state \<Rightarrow> cycle_state" where
  "add_reasons rs s = s\<lparr>st_reasons := st_reasons s @ rs\<rparr>"

definition prioritize :: "cycle_env \<Rightarrow> unit cyc" where
  "prioritize C = cbind (advance C PRIORITIZE ''rank candidates by value, urgency, confidence, cost'' True) (\<lambda>_.
     cget (\<lambda>s. cbind (clift (in_generate C (st_signals s) (st_memories s))) (\<lambda>cs.
       case pick cs of (ids, worthless, chosen) \<Rightarrow>
         cmodify (\<lambda>s. (if chosen = None then add_reasons [lit (no_selection_reason cs worthless)] else id)
           (s\<lparr>st_candidates := cs, st_abandoned := st_abandoned s @ ids, st_selected := chosen\<rparr>)))))"

definition selected :: "(engineering_candidate \<Rightarrow> unit cyc) \<Rightarrow> unit cyc" where
  "selected f = cget (\<lambda>s. cbind (cthe (st_selected s)) f)"

definition produced :: "(execution_outcome \<Rightarrow> unit cyc) \<Rightarrow> unit cyc" where
  "produced f = cget (\<lambda>s. cbind (cthe (st_outcome s)) f)"

definition investigate_and_plan :: "cycle_env \<Rightarrow> unit cyc" where
  "investigate_and_plan C = csteps
     [advance C INVESTIGATE ''confirm the candidate against its evidence'' True,
      selected (\<lambda>c. cget (\<lambda>s. cguard (\<not> set (candidate_signals c) \<subseteq> set (map signal_id (st_signals s)))
        (Executor_Failure ''ExecutorError''))),
      advance C PLAN ''plan the smallest correct change'' True]"

text \<open>A call of a real executor is logged before its answer is used.\<close>

definition log_call :: "cycle_env \<Rightarrow> executor_call \<Rightarrow> unit cyc" where
  "log_call C k = cmodify (\<lambda>s. if real_executor C then s\<lparr>cs_calls := cs_calls s @ [k]\<rparr> else s)"

definition spent_usage :: "execution_outcome \<Rightarrow> cycle_usage \<Rightarrow> cycle_usage" where
  "spent_usage o' u = u\<lparr>used_calls := used_calls u + outcome_calls o' + 1,
     used_model_calls := used_model_calls u + outcome_model_calls o',
     used_input_tokens := used_input_tokens u + outcome_input_tokens o',
     used_output_tokens := used_output_tokens u + outcome_output_tokens o',
     used_cost := (if outcome_cost o' = None \<and> used_cost u = None then None
       else Some ((case used_cost u of None \<Rightarrow> 0 | Some c \<Rightarrow> c)
         + (case outcome_cost o' of None \<Rightarrow> 0 | Some c \<Rightarrow> c))),
     used_files := (case outcome_change o' of None \<Rightarrow> 0 | Some k \<Rightarrow> int (length (change_files k))),
     used_diff_bytes := (case outcome_change o' of None \<Rightarrow> 0 | Some k \<Rightarrow> diff_bytes k)\<rparr>"

definition dirty_tree :: "engineering_signal list \<Rightarrow> bool" where
  "dirty_tree signals \<longleftrightarrow> list_ex (\<lambda>i. signal_kind i = WORKING_TREE \<and> signal_severity i = WARNING) signals"

definition implement_and_test :: "cycle_env \<Rightarrow> unit cyc" where
  "implement_and_test C = selected (\<lambda>c. cget (\<lambda>s0. csteps
     [advance C IMPLEMENT ''produce the change through the executor'' True,
      cguard (dirty_tree (st_signals s0) \<and> in_mode C \<noteq> DRY_RUN) (Executor_Failure ''ExecutorError''),
      log_call C (Executed c),
      cbind (clift (exec_run (cycle_executor C) c)) (\<lambda>out.
        cmodify (\<lambda>s. s\<lparr>st_outcome := Some out, cs_usage := spent_usage out (cs_usage s)\<rparr>)),
      advance C TEST ''run the repository's validation gates'' True,
      check_budget C]))"

definition tests_ran :: "gate_result list \<Rightarrow> bool" where
  "tests_ran gates \<longleftrightarrow> list_ex (\<lambda>g. gate g = PYTEST_FULL \<and> gate_status g = GATE_PASSED) gates"

definition outcome_facts :: "cycle_env \<Rightarrow> engineering_candidate \<Rightarrow> execution_outcome \<Rightarrow> diff_facts" where
  "outcome_facts C c out =
     (case (outcome_change out, outcome_patch out) of
        (Some k, Some p) \<Rightarrow> diff_facts C p (change_files k) (Some (diff_sha256 k))
      | _ \<Rightarrow> plan_facts (expected_paths c))"

lemma outcome_facts_valid:
  assumes "candidate_ok c" "opt_ok change_ok (outcome_change out)"
  shows "diff_facts_ok (outcome_facts C c out)"
proof (cases "outcome_change out")
  case None
  with assms(1) show ?thesis by (simp add: outcome_facts_def candidate_ok_def plan_facts_valid)
next
  case (Some k)
  with assms(2) have k: "list_all path_ok (change_files k)" "valid_sha256 (diff_sha256 k)" by (simp_all add: change_ok_def)
  show ?thesis
    using k Some assms(1) by (cases "outcome_patch out") (simp_all add: outcome_facts_def candidate_ok_def plan_facts_valid diff_facts_valid)
qed

definition outcome_review :: "cycle_env \<Rightarrow> engineering_candidate \<Rightarrow> execution_outcome \<Rightarrow> self_review" where
  "outcome_review C c out = self_review (outcome_facts C c out) (candidate_category c)
     (tests_ran (outcome_gates out)) (root_cause_evidence out)"

definition self_review_phase :: "cycle_env \<Rightarrow> unit cyc" where
  "self_review_phase C = cbind (advance C SELF_REVIEW ''challenge the change with an independent checklist'' True)
     (\<lambda>_. selected (\<lambda>c. produced (\<lambda>out.
       cbind (cmodify (\<lambda>s. s\<lparr>st_facts := Some (outcome_facts C c out)\<rparr>)) (\<lambda>_.
       let review = outcome_review C c out in
       if \<not> self_review_ok review then invalid
       else cmodify (\<lambda>s. s\<lparr>st_review := Some review\<rparr>)))))"

definition outcome_risk :: "cycle_env \<Rightarrow> engineering_candidate \<Rightarrow> execution_outcome \<Rightarrow> string + risk_assessment" where
  "outcome_risk C c out =
     (case outcome_change out of
        Some k \<Rightarrow> classify_change (casefold C) (candidate_category c) (change_files k) (additions k)
          (deletions k) (diff_bytes k) (in_budget C) (from_untrusted_text c)
      | None \<Rightarrow> classify_change (casefold C) (candidate_category c) (expected_paths c) 0 0 0 (in_budget C)
          (from_untrusted_text c))"

definition assess_risk :: "cycle_env \<Rightarrow> unit cyc" where
  "assess_risk C = cbind (advance C ASSESS_RISK ''classify the change'' True) (\<lambda>_.
     selected (\<lambda>c. produced (\<lambda>out. cbind (ctext (outcome_risk C c out)) (\<lambda>risk.
       cmodify (\<lambda>s. s\<lparr>st_risk := Some risk\<rparr>)))))"

section \<open>The decision\<close>

definition security_impact_note :: "self_review option \<Rightarrow> ustr" where
  "security_impact_note review = (case review of
     None \<Rightarrow> lit ''not reviewed''
   | Some r \<Rightarrow>
       (let notes = map note_text (filter (\<lambda>i. question i = SENSITIVE_DATA \<or> question i = PROMPT_INJECTION)
              (concerns r));
            text = join_with (lit ''; '') notes in
        take 500 (if text = [] then lit ''none identified'' else text)))"

definition cycle_namespace :: uuid where
  "cycle_namespace = 0xe3f4a5b6c7d84e9fa0b1c2d3e4f5a6b7"

definition request_uuid :: "cycle_env \<Rightarrow> engineering_candidate \<Rightarrow> uuid" where
  "request_uuid C c = env_uuid5 C cycle_namespace
     (uuid_str (in_cycle_id C) @ '':'' @ uuid_str (candidate_id c) @ '':request'')"

definition request_for ::
  "cycle_env \<Rightarrow> engineering_candidate \<Rightarrow> execution_outcome \<Rightarrow> risk_assessment \<Rightarrow> self_review option \<Rightarrow> timestamp
     \<Rightarrow> approval_request" where
  "request_for C c out risk review now =
     (let change = outcome_change out;
          files = (case change of Some k \<Rightarrow> change_files k | None \<Rightarrow> expected_paths c) in
      \<lparr>request_id = request_uuid C c, request_cycle_id = in_cycle_id C, request_candidate_id = candidate_id c,
       request_title = candidate_title c, request_problem = candidate_rationale c,
       request_root_cause = lit (if root_cause_evidence out then ''Established by the executor.''
         else ''Not yet established; investigation is part of the proposed work.''),
       proposed_fix = (if files = [] then lit ''Investigate first; no files are known yet.''
         else lit (''Change '' @ int_str (int (length files)) @ '' file(s): '')
           @ join_with (lit '', '') (take 5 files)),
       request_why = take 4000 (candidate_rationale c), files_affected = take 1000 files,
       behavior_changed = lit (if change = None then ''No behavior changed yet (plan only).''
         else ''See the diff; the self-review lists public-behavior concerns.''),
       request_validation = outcome_gates out,
       benchmark_impact = lit (if change = None then ''not measured'' else ''see benchmark gate result''),
       security_impact = security_impact_note review, request_risk = risk,
       request_confidence = est_confidence (candidate_estimate c),
       rollback_plan = (case change of Some k \<Rightarrow> rollback_reference k
         | None \<Rightarrow> lit ''Nothing to roll back.''),
       request_reference = (case change of
           Some k \<Rightarrow> (case (change_branch k, change_commit_sha k) of
               (Some b, Some sha) \<Rightarrow> if b \<noteq> [] \<and> sha \<noteq> [] then lit ''branch '' @ b @ lit '', commit '' @ lit sha
                 else lit ''no branch yet: this is a plan''
             | _ \<Rightarrow> lit ''no branch yet: this is a plan'')
         | None \<Rightarrow> lit ''no branch yet: this is a plan''),
       request_question = lit (if change = None then ''Should the engineer proceed with this change?''
         else ''Ship this validated change?''),
       recommendation = (if risk_level risk = LOW \<and> change \<noteq> None then RECOMMEND_SHIP else RECOMMEND_REVISE),
       dry_run = (in_mode C = DRY_RUN), request_created_at = now\<rparr>)"

definition approval_request_of ::
  "cycle_env \<Rightarrow> engineering_candidate \<Rightarrow> execution_outcome \<Rightarrow> risk_assessment \<Rightarrow> approval_request cyc" where
  "approval_request_of C c out risk = cbind (cyc_now C) (\<lambda>now. cget (\<lambda>s.
     let q = request_for C c out risk (st_review s) now in if request_ok q then cret q else invalid))"

text \<open>What the policy says, with the publisher taken into account.\<close>

definition cycle_policy ::
  "cycle_env \<Rightarrow> execution_outcome \<Rightarrow> risk_assessment \<Rightarrow> self_review option \<Rightarrow> cycle_usage
     \<Rightarrow> policy_error + policy_decision" where
  "cycle_policy C out risk review usage =
     rbind (ship_policy (in_mode C) (in_budget C) risk (outcome_gates out) review usage None None
         (outcome_change out = None)) (\<lambda>d.
     Inr (if policy_choice d = SHIP \<and> \<not> exec_can_ship (cycle_executor C)
          then decided REQUEST_APPROVAL
            (policy_reasons d @ [''no publisher is configured, so the owner applies the change''])
          else d))"

definition ship_change :: "cycle_env \<Rightarrow> engineering_candidate \<Rightarrow> execution_outcome \<Rightarrow> unit cyc" where
  "ship_change C c out = cbind (cthe (outcome_change out)) (\<lambda>k. csteps
     [log_call C (Ship_Called k),
      cbind (clift (exec_ship (cycle_executor C) k)) (\<lambda>shipped. csteps
        [cmodify (\<lambda>s. s\<lparr>st_outcome := Some (plain_outcome (Some shipped) (outcome_patch out)
           (outcome_gates out) (outcome_notes out) (root_cause_evidence out))\<rparr>),
         cyc_notify C IMPROVEMENT_COMPLETED (take 200 (lit ''Shipped: '' @ candidate_title c))
           (lit ''Low-risk change shipped after every gate passed. '' @ rollback_reference shipped)])])"

definition request_approval ::
  "cycle_env \<Rightarrow> engineering_candidate \<Rightarrow> execution_outcome \<Rightarrow> risk_assessment \<Rightarrow> unit cyc" where
  "request_approval C c out risk = cbind (approval_request_of C c out risk) (\<lambda>q. csteps
     [cmodify (\<lambda>s. s\<lparr>st_request := Some q\<rparr>),
      cyc_notify C APPROVAL_REQUIRED (take 200 (lit ''Approval required: '' @ candidate_title c))
        (take 4000 (render_approval_request q))])"

definition decide :: "cycle_env \<Rightarrow> unit cyc" where
  "decide C = cbind (advance C DECIDE ''apply the ship policy'' True) (\<lambda>_.
     selected (\<lambda>c. produced (\<lambda>out. cget (\<lambda>s. cbind (cthe (st_risk s)) (\<lambda>risk.
     case cycle_policy C out risk (st_review s) (cs_usage s) of
       Inl e \<Rightarrow> craise (Internal_Failure ''PolicyError'')
     | Inr d \<Rightarrow> csteps
         [cmodify (\<lambda>s. add_reasons (map lit (policy_reasons d)) (s\<lparr>st_policy := Some d\<rparr>)),
          case policy_choice d of
            REQUEST_APPROVAL \<Rightarrow> request_approval C c out risk
          | SHIP \<Rightarrow> ship_change C c out
          | ABANDON \<Rightarrow> cmodify (\<lambda>s. s\<lparr>st_abandoned := st_abandoned s @ [candidate_id c]\<rparr>)
          | BLOCKED \<Rightarrow> cyc_notify C BLOCKED_EVENT (take 200 (lit ''Blocked: '' @ candidate_title c))
              (take 4000 (lit (join_with ''; '' (policy_reasons d))))
          | NO_WORK \<Rightarrow> cret ()])))))"

definition observe_results :: "cycle_env \<Rightarrow> unit cyc" where
  "observe_results C = cbind (advance C OBSERVE_RESULTS ''check the shipped change for regressions'' True)
     (\<lambda>_. cget (\<lambda>s. cbind (cthe (st_policy s)) (\<lambda>d. produced (\<lambda>out.
       case outcome_change out of
         None \<Rightarrow> cret ()
       | Some k \<Rightarrow>
           if policy_choice d \<noteq> SHIP \<or> filter gate_broken (outcome_gates out) = [] then cret ()
           else csteps
             [log_call C (Rollback_Called k),
              cbind (clift (exec_rollback (cycle_executor C) k (lit ''post-ship gate regression''))) (\<lambda>r. csteps
                [cmodify (\<lambda>s. s\<lparr>st_rollback := Some r\<rparr>),
                 cyc_notify C ROLLBACK_OCCURRED (lit ''Rolled back a shipped change'') (rollback_reason r)])]))))"

definition state_decision :: "cycle_state \<Rightarrow> cycle_decision" where
  "state_decision s =
     (if st_failure s \<noteq> None then BLOCKED
      else if st_selected s = None then NO_WORK
      else case st_policy s of None \<Rightarrow> BLOCKED | Some d \<Rightarrow> policy_choice d)"

section \<open>Learning\<close>

definition plain_args :: "memory_category \<Rightarrow> ustr \<Rightarrow> int \<Rightarrow> string list \<Rightarrow> observation_args" where
  "plain_args category content confidence tags =
     \<lparr>obs_category = category, obs_content = content, obs_confidence = confidence, obs_tags = tags,
      obs_status = OBSERVATION, obs_evidence = [], obs_owner_decision = None,
      obs_source = FROM_CYCLE_RECORD\<rparr>"

definition quoted :: "ustr \<Rightarrow> ustr" where
  "quoted s = 39 # s @ [39]"

text \<open>Build a record and remember it; a new one is listed in the record of the cycle.\<close>

definition remember_claim :: "cycle_env \<Rightarrow> int \<Rightarrow> timestamp \<Rightarrow> observation_args \<Rightarrow> ustr \<Rightarrow> bool cyc" where
  "remember_claim C n now a summary = cbind (ctext (observation C (in_cycle_id C) n now a)) (\<lambda>m. (\<lambda>s.
     case remember C (cs_memory s) m of
       Inl e \<Rightarrow> (Inl Memory_Failure, s)
     | Inr ((i, new), db) \<Rightarrow>
         (Inr new, if new then s\<lparr>cs_memory := db, st_writes := st_writes s @ [i],
                                 st_summaries := st_summaries s @ [summary]\<rparr>
                   else s\<lparr>cs_memory := db\<rparr>)))"

definition note_fact :: "cycle_env \<Rightarrow> int \<Rightarrow> timestamp \<Rightarrow> observation_args \<Rightarrow> ustr \<Rightarrow> unit cyc" where
  "note_fact C n now a summary = cbind (remember_claim C n now a summary) (\<lambda>_. cret ())"

definition add_learned :: "ustr \<Rightarrow> unit cyc" where
  "add_learned t = cmodify (\<lambda>s. s\<lparr>st_learned := st_learned s @ [t]\<rparr>)"

definition learn_interrupted :: "cycle_env \<Rightarrow> timestamp \<Rightarrow> int \<Rightarrow> int cyc" where
  "learn_interrupted C now n = cget (\<lambda>s. case st_interrupted s of
     None \<Rightarrow> cret n
   | Some r \<Rightarrow> cbind (csteps
       [note_fact C (n + 1) now (plain_args INCIDENT
          (lit (''Cycle '' @ uuid_str (interrupted_cycle r) @ '' started at ''
             @ in_isoformat C (interrupted_started r) @ '' never wrote a record ('' @ interrupted_reason r
             @ ''); its lease was recovered by this cycle.''))
          90 [''incident'', ''interrupted_run''])
          (lit ''incident: an interrupted cycle was recovered''),
        add_learned (lit ''A previous cycle was interrupted; its lease was recovered.'')])
       (\<lambda>_. cret (n + 1)))"

text \<open>The decision is remembered; when it was known already, the pattern is.\<close>

definition learn_decision :: "cycle_env \<Rightarrow> timestamp \<Rightarrow> cycle_decision \<Rightarrow> int \<Rightarrow> int cyc" where
  "learn_decision C now decision n = cget (\<lambda>s. case st_selected s of
     None \<Rightarrow> cret n
   | Some c \<Rightarrow> cbind (remember_claim C (n + 1) now (plain_args DECISION_MEMORY
         (candidate_title c @ lit ('': decision '' @ decision_value decision @ '' because '')
            @ join_with (lit ''; '') (take 3 (st_reasons s)))
         70 [''decision'', decision_value decision])
         (lit ''decision record for '' @ quoted (candidate_title c))) (\<lambda>new.
       if new then cret (n + 1)
       else cbind (csteps
         [note_fact C (n + 2) now (plain_args RECURRING_PATTERN
            (candidate_title c @ lit ('': recurred with the same outcome ('' @ decision_value decision
               @ '') in more than one cycle; likely a recurring issue pattern rather than a one-off.''))
            60 [''recurring'', category_value (candidate_category c)])
            (lit ''recurring pattern for '' @ quoted (candidate_title c)),
          add_learned (candidate_title c @ lit '' is a recurring pattern.'')]) (\<lambda>_. cret (n + 2))))"

definition gate_evidences :: "gate_result list \<Rightarrow> string list" where
  "gate_evidences gates = filter (\<lambda>e. e \<noteq> []) (map the (filter (\<lambda>e. e \<noteq> None) (map gate_evidence gates)))"

definition outcome_passed :: "gate_result list \<Rightarrow> bool" where
  "outcome_passed gates \<longleftrightarrow> list_all (\<lambda>g. gate_status g = GATE_PASSED) gates \<and> gate_evidences gates \<noteq> []"

definition evidenced :: "epistemic_status \<Rightarrow> string list \<Rightarrow> memory_source \<Rightarrow> observation_args \<Rightarrow> observation_args" where
  "evidenced status evidence source a =
     a\<lparr>obs_status := status, obs_evidence := take 20 evidence, obs_source := source\<rparr>"

definition learn_shipped ::
  "cycle_env \<Rightarrow> timestamp \<Rightarrow> engineering_candidate \<Rightarrow> string list \<Rightarrow> int \<Rightarrow> int cyc" where
  "learn_shipped C now c evidence n = cbind (csteps
     [note_fact C (n + 1) now (evidenced VALIDATED_FACT evidence FROM_VALIDATION_EVIDENCE
        (plain_args ENGINEERING_LESSON
          (candidate_title c @ lit ('': shipped after every required gate passed (''
             @ category_value (candidate_category c) @ '').''))
          90 [''validated'', category_value (candidate_category c)]))
        (lit ''validated lesson from a shipped change''),
      add_learned (candidate_title c @ lit '' was safe to ship autonomously.'')])
     (\<lambda>_. cret (n + 1))"

definition learn_abandoned ::
  "cycle_env \<Rightarrow> timestamp \<Rightarrow> engineering_candidate \<Rightarrow> string list \<Rightarrow> int \<Rightarrow> int cyc" where
  "learn_abandoned C now c evidence n = cget (\<lambda>s.
     let confident = est_confidence (candidate_estimate c) \<ge> 70 in
     cbind (csteps
       [note_fact C (n + 1) now (evidenced FAILED_HYPOTHESIS evidence
          (if evidence = [] then FROM_CYCLE_RECORD else FROM_VALIDATION_EVIDENCE)
          (plain_args ENGINEERING_LESSON
            (candidate_title c @ lit '': abandoned because '' @ join_with (lit ''; '') (take 2 (st_reasons s)))
            75 [''failed_attempt'', category_value (candidate_category c)]))
          (lit ''failed hypothesis recorded''),
        add_learned (candidate_title c @ lit '' did not survive validation.''),
        if confident
        then note_fact C (n + 2) now (plain_args SELF_EVALUATION
          (candidate_title c @ lit ('': estimated '' @ int_str (est_confidence (candidate_estimate c))
             @ ''% confidence for a '' @ category_value (candidate_category c)
             @ '' change, but validation failed; the estimate was overconfident.''))
          70 [''overconfident'', category_value (candidate_category c)])
          (lit ''self-evaluation: overconfident estimate'')
        else cret ()])
       (\<lambda>_. cret (if confident then n + 2 else n + 1)))"

definition learn_root_cause ::
  "cycle_env \<Rightarrow> timestamp \<Rightarrow> engineering_candidate \<Rightarrow> string list \<Rightarrow> int \<Rightarrow> int cyc" where
  "learn_root_cause C now c evidence n = cbind
     (note_fact C (n + 1) now (evidenced VALIDATED_FACT evidence FROM_VALIDATION_EVIDENCE
        (plain_args ROOT_CAUSE
          (candidate_title c @ lit ('': root cause demonstrated; the reproduction failed before the change ''
             @ ''and passed after it, and every gate passed ('' @ category_value (candidate_category c) @ '').''))
          85 [''root_cause'', category_value (candidate_category c)]))
        (lit ''root cause recorded as validated fact''))
     (\<lambda>_. cret (n + 1))"

definition learn_outcome :: "cycle_env \<Rightarrow> timestamp \<Rightarrow> cycle_decision \<Rightarrow> int \<Rightarrow> int cyc" where
  "learn_outcome C now decision n = cget (\<lambda>s. case (st_selected s, st_outcome s) of
     (Some c, Some out) \<Rightarrow>
       (let evidence = gate_evidences (outcome_gates out); passed = outcome_passed (outcome_gates out) in
        cbind (if decision = SHIP \<and> passed then learn_shipped C now c evidence n
               else if decision = ABANDON then learn_abandoned C now c evidence n
               else cret n) (\<lambda>n1.
        if root_cause_evidence out \<and> passed \<and> (decision = SHIP \<or> decision = REQUEST_APPROVAL)
        then learn_root_cause C now c evidence n1 else cret n1))
   | _ \<Rightarrow> cret n)"

fun learn_backlog ::
  "cycle_env \<Rightarrow> timestamp \<Rightarrow> engineering_candidate option \<Rightarrow> engineering_candidate list \<Rightarrow> int \<Rightarrow> unit cyc" where
  "learn_backlog C now chosen [] n = cret ()"
| "learn_backlog C now chosen (c # cs) n =
     (if map_option candidate_id chosen = Some (candidate_id c)
         \<or> from_untrusted_text c \<or> estimate_score (candidate_estimate c) \<le> 0
      then learn_backlog C now chosen cs n
      else cbind (note_fact C (n + 1) now
          ((plain_args BACKLOG_ITEM (candidate_title c @ lit '': '' @ take 300 (candidate_rationale c))
             (min (est_confidence (candidate_estimate c)) 80)
             [''backlog'', category_value (candidate_category c)])\<lparr>obs_status := INFERENCE\<rparr>)
          (lit ''backlog item '' @ quoted (candidate_title c)))
        (\<lambda>_. learn_backlog C now chosen cs (n + 1)))"

definition learn :: "cycle_env \<Rightarrow> unit cyc" where
  "learn C = cbind (advance C LEARN ''record validated lessons only'' True) (\<lambda>_.
     cbind (cyc_now C) (\<lambda>now. cget (\<lambda>s.
     let decision = state_decision s in
     cbind (learn_interrupted C now 0) (\<lambda>n1.
     cbind (learn_decision C now decision n1) (\<lambda>n2.
     cbind (learn_outcome C now decision n2) (\<lambda>n3.
     learn_backlog C now (st_selected s) (st_candidates s) n3))))))"

section \<open>Record and report\<close>

definition record_of :: "cycle_env \<Rightarrow> cycle_decision \<Rightarrow> timestamp \<Rightarrow> cycle_state \<Rightarrow> cycle_record" where
  "record_of C decision completed s =
     \<lparr>cycle_id = in_cycle_id C, cycle_mode = in_mode C, cycle_model = in_model C,
      repository_head = cs_head s, cycle_started_at = cs_started_at s, cycle_completed_at = completed,
      phase_reached = cs_phase s, cycle_transitions = cs_transitions s,
      cycle_signals = take 1000 (st_signals s), cycle_candidates = take 200 (st_candidates s),
      ranking = take 200 (map candidate_id (st_candidates s)),
      selected_candidate_id = map_option candidate_id (st_selected s),
      abandoned_candidate_ids = take 200 (sort (remdups (st_abandoned s))),
      cycle_risk = st_risk s, cycle_review = st_review s,
      cycle_gates = (case st_outcome s of None \<Rightarrow> [] | Some out \<Rightarrow> outcome_gates out),
      cycle_change = (case st_outcome s of None \<Rightarrow> None | Some out \<Rightarrow> outcome_change out),
      cycle_decision = decision, decision_reasons = take 50 (map (take 500) (st_reasons s)),
      cycle_request = st_request s, cycle_owner_decision = None, cycle_budget = in_budget C,
      cycle_usage = cs_usage s, memory_reads = st_reads s, memory_writes = take 100 (st_writes s),
      cycle_notifications = take 50 (nf_records (cs_notifier s)), cycle_rollback = st_rollback s,
      cycle_failure = st_failure s\<rparr>"

text \<open>
  What \<open>_record\<close> does once the cycle is closed: the final usage, the late budget check, and the record,
  which the model validates.
\<close>

definition complete_record :: "cycle_env \<Rightarrow> cycle_decision \<Rightarrow> timestamp \<Rightarrow> cycle_record cyc" where
  "complete_record C decision completed = cbind
     (cmodify (\<lambda>s. s\<lparr>cs_usage := (cs_usage s)\<lparr>used_runtime := max 0 (completed - cs_started_at s),
                                      used_turns := int (length (cs_transitions s))\<rparr>\<rparr>)) (\<lambda>_. cget (\<lambda>s.
     let late = exceeded (cs_usage s) (in_budget C) \<noteq> [] \<and> st_failure s = None in
     cbind (cmodify (\<lambda>s. if late then s\<lparr>st_failure := Some BUDGET_EXHAUSTED\<rparr> else s)) (\<lambda>_. cget (\<lambda>s.
     let r = record_of C (if late then BLOCKED else decision) completed s in
     if cycle_record_ok r then cret r else invalid))))"

definition write_record :: "cycle_env \<Rightarrow> cycle_record cyc" where
  "write_record C = cget (\<lambda>s0. cbind (csteps
       [cmodify (\<lambda>s. if st_reasons s = [] then add_reasons [lit ''no work was selected''] s else s),
        advance C REPORT ''write the record and the report'' False,
        advance C CLOSED ''cycle closed'' False]) (\<lambda>_.
     cbind (cyc_now C) (complete_record C (state_decision s0))))"

definition send_report :: "cycle_env \<Rightarrow> cycle_record \<Rightarrow> cycle_report cyc" where
  "send_report C r = cget (\<lambda>s.
     cbind (ctext (build_report C r (st_learned s) (st_summaries s) (cycle_completed_at r))) (\<lambda>report. (\<lambda>s.
     case flush_daily_report C (in_notifier C) (in_cycle_id C) (report_text report) (cs_notifier s) of
       (Inl e, nf) \<Rightarrow> invalid (s\<lparr>cs_notifier := nf\<rparr>)
     | (Inr n, nf) \<Rightarrow> (Inr report, s\<lparr>cs_notifier := nf\<rparr>))))"

section \<open>The cycle\<close>

definition work :: "cycle_env \<Rightarrow> unit cyc" where
  "work C = csteps
     [cbind (clift (in_head C)) (\<lambda>head. cmodify (\<lambda>s. s\<lparr>cs_head := head\<rparr>)),
      observe C, understand C, prioritize C,
      cget (\<lambda>s. if st_selected s = None then cret () else csteps
        [investigate_and_plan C, implement_and_test C, self_review_phase C, assess_risk C, decide C,
         observe_results C]),
      learn C]"

definition fail_cycle :: "cycle_env \<Rightarrow> cycle_failure \<Rightarrow> string \<Rightarrow> string \<Rightarrow> unit cyc" where
  "fail_cycle C failure reason title = csteps
     [cmodify (\<lambda>s. add_reasons [lit reason] (s\<lparr>st_failure := Some failure\<rparr>)),
      notify_failure C title]"

fun handle_exn :: "cycle_env \<Rightarrow> cycle_exn \<Rightarrow> unit cyc" where
  "handle_exn C (Budget_Exhausted dims) = fail_cycle C BUDGET_EXHAUSTED
     (''budget exhausted: '' @ join_with '', '' dims) ''Engineering cycle stopped at its budget''"
| "handle_exn C Memory_Failure = fail_cycle C INTERNAL_ERROR ''the private memory store failed''
     ''Engineering cycle failed: memory store''"
| "handle_exn C (Executor_Failure name) = fail_cycle C EXECUTOR_ERROR (''executor error: '' @ name)
     ''Engineering cycle failed: executor''"
| "handle_exn C (Internal_Failure name) = fail_cycle C INTERNAL_ERROR (''internal error: '' @ name)
     ''Engineering cycle failed: internal error''"

text \<open>\<open>_run\<close>: the work with its handlers, the record, the report, and the record that shows the report.\<close>

definition run_body :: "cycle_env \<Rightarrow> (cycle_record \<times> cycle_report) cyc" where
  "run_body C = cbind (ctry (work C) (handle_exn C)) (\<lambda>_.
     cbind (write_record C) (\<lambda>r.
     cbind (send_report C r) (\<lambda>report. cget (\<lambda>s.
     let shown = r\<lparr>cycle_notifications := take 50 (nf_records (cs_notifier s))\<rparr> in
     cbind (cmodify (\<lambda>s. s\<lparr>cs_persisted := Some (shown, report)\<rparr>)) (\<lambda>_. cret (shown, report))))))"

text \<open>Construction reads the clock once, \<open>run\<close> once more for the lease; a refused lease ends the run.\<close>

definition run_cycle :: "cycle_env \<Rightarrow> memory_db \<Rightarrow> (cycle_exn + cycle_record \<times> cycle_report) \<times> cycle_state" where
  "run_cycle C db =
     (case in_clock C 0 of
        Naive t \<Rightarrow> (Inl (Internal_Failure ''ValueError''), start_state db t)
      | Aware t \<Rightarrow>
          cbind (cyc_now C) (\<lambda>now. cbind (clift (in_lease C now)) (\<lambda>interrupted.
          cbind (cmodify (\<lambda>s. s\<lparr>st_interrupted := interrupted\<rparr>)) (\<lambda>_. run_body C)))
            (start_state db t))"

end
