(* ===== verification/EngineerCycleFacts.thy ===== *)
theory EngineerCycleFacts
  imports EngineerCycle EngineerMemoryProperties
begin

text \<open>
  How a cycle changes its state. \<open>keeps f m\<close>: a method leaves the projection \<open>f\<close> alone. \<open>evolves R m\<close>:
  it relates the states before and after, also when it raises. \<open>triple P m Q E\<close>: from \<open>P\<close> it ends in \<open>Q\<close>
  of its result, or raises in \<open>E\<close>. The rules follow the combinators; \<open>cycle_rules\<close> collects them.
\<close>

section \<open>Methods and projections\<close>

definition keeps :: "(cycle_state \<Rightarrow> 'k) \<Rightarrow> 'a cyc \<Rightarrow> bool" where
  "keeps f m \<longleftrightarrow> (\<forall>s. f (snd (m s)) = f s)"

definition evolves :: "(cycle_state \<Rightarrow> cycle_state \<Rightarrow> bool) \<Rightarrow> 'a cyc \<Rightarrow> bool" where
  "evolves R m \<longleftrightarrow> (\<forall>s. R s (snd (m s)))"

definition triple ::
  "(cycle_state \<Rightarrow> bool) \<Rightarrow> 'a cyc \<Rightarrow> ('a \<Rightarrow> cycle_state \<Rightarrow> bool) \<Rightarrow> (cycle_state \<Rightarrow> bool) \<Rightarrow> bool" where
  "triple P m Q E \<longleftrightarrow> (\<forall>s. P s \<longrightarrow> (case m s of (Inl e, s') \<Rightarrow> E s' | (Inr a, s') \<Rightarrow> Q a s'))"

named_theorems cycle_rules "rules of the method combinators"

text \<open>A reflexive and transitive relation on states is respected by a method whose parts respect it.\<close>

locale state_order =
  fixes R :: "cycle_state \<Rightarrow> cycle_state \<Rightarrow> bool"
  assumes same: "R s s"
    and chain: "R s t \<Longrightarrow> R t u \<Longrightarrow> R s u"
begin

lemma cret_evolves: "evolves R (cret a)"
  by (simp add: evolves_def cret_def same)

lemma craise_evolves: "evolves R (craise e)"
  by (simp add: evolves_def craise_def same)

lemma cbind_evolves: "evolves R m \<Longrightarrow> (\<And>a. evolves R (f a)) \<Longrightarrow> evolves R (cbind m f)"
  unfolding evolves_def cbind_def by (auto split: prod.splits sum.splits intro: chain) (metis chain snd_conv)+

lemma cget_evolves: "(\<And>s. R s (snd (f s s))) \<Longrightarrow> evolves R (cget f)"
  by (simp add: evolves_def cget_def)

lemma cget_evolves_all: "(\<And>s. evolves R (f s)) \<Longrightarrow> evolves R (cget f)"
  by (simp add: evolves_def cget_def)

lemma clift_evolves: "evolves R (clift r)"
  by (cases r) (simp_all add: clift_def cret_evolves craise_evolves)

lemma cguard_evolves: "evolves R (cguard c e)"
  by (simp add: cguard_def cret_evolves craise_evolves)

lemma ctext_evolves: "evolves R (ctext r)"
  by (cases r) (simp_all add: ctext_def invalid_def cret_evolves craise_evolves)

lemma cthe_evolves: "evolves R (cthe x)"
  by (cases x) (simp_all add: cthe_def cret_evolves craise_evolves)

lemma cmemory_evolves: "evolves R (cmemory r)"
  by (cases r) (simp_all add: cmemory_def cret_evolves craise_evolves)

lemma invalid_evolves: "evolves R invalid"
  by (simp add: invalid_def craise_evolves)

lemma csteps_Nil_evolves: "evolves R (csteps [])"
  by (simp add: cret_evolves)

lemma csteps_Cons_evolves: "evolves R m \<Longrightarrow> evolves R (csteps ms) \<Longrightarrow> evolves R (csteps (m # ms))"
  by (simp add: cbind_evolves)

lemma if_evolves: "(c \<Longrightarrow> evolves R m) \<Longrightarrow> (\<not> c \<Longrightarrow> evolves R n) \<Longrightarrow> evolves R (if c then m else n)"
  by simp

lemma option_evolves: "evolves R m \<Longrightarrow> (\<And>a. evolves R (f a)) \<Longrightarrow> evolves R (case x of None \<Rightarrow> m | Some a \<Rightarrow> f a)"
  by (cases x) simp_all

lemma sum_evolves: "(\<And>e. evolves R (g e)) \<Longrightarrow> (\<And>a. evolves R (f a)) \<Longrightarrow> evolves R (case x of Inl e \<Rightarrow> g e | Inr a \<Rightarrow> f a)"
  by (cases x) simp_all

lemma pair_evolves: "(\<And>a b. evolves R (f a b)) \<Longrightarrow> evolves R (case x of (a, b) \<Rightarrow> f a b)"
  by (cases x) simp

lemma decision_evolves:
  "evolves R a \<Longrightarrow> evolves R b \<Longrightarrow> evolves R c \<Longrightarrow> evolves R d \<Longrightarrow> evolves R e
    \<Longrightarrow> evolves R (case x of NO_WORK \<Rightarrow> a | SHIP \<Rightarrow> b | REQUEST_APPROVAL \<Rightarrow> c | ABANDON \<Rightarrow> d | BLOCKED \<Rightarrow> e)"
  by (cases x) simp_all

lemma ctry_evolves: "evolves R m \<Longrightarrow> (\<And>e. evolves R (h e)) \<Longrightarrow> evolves R (ctry m h)"
  unfolding evolves_def ctry_def by (auto split: prod.splits sum.splits intro: chain) (metis chain snd_conv)+

lemma cmodify_evolves: "(\<And>s. R s (g s)) \<Longrightarrow> evolves R (cmodify g)"
  by (simp add: evolves_def cmodify_def)

lemmas evolve_rules = cret_evolves craise_evolves cbind_evolves clift_evolves cguard_evolves ctext_evolves
  cthe_evolves cmemory_evolves invalid_evolves csteps_Nil_evolves csteps_Cons_evolves
  ctry_evolves if_evolves option_evolves sum_evolves pair_evolves decision_evolves

end

text \<open>Keeping a projection is respecting the order "equal under it".\<close>

definition same_under :: "(cycle_state \<Rightarrow> 'k) \<Rightarrow> cycle_state \<Rightarrow> cycle_state \<Rightarrow> bool" where
  "same_under f s t \<longleftrightarrow> f t = f s"

interpretation same_under: state_order "same_under f" for f
  by unfold_locales (auto simp: same_under_def)

lemma keeps_iff: "keeps f m \<longleftrightarrow> evolves (same_under f) m"
  by (simp add: keeps_def evolves_def same_under_def)

lemma cmodify_keeps: "(\<And>s. f (g s) = f s) \<Longrightarrow> keeps f (cmodify g)"
  by (simp add: keeps_def cmodify_def)

lemma cget_keeps: "(\<And>s. keeps f (g s)) \<Longrightarrow> keeps f (cget g)"
  by (simp add: keeps_def cget_def)

lemmas keep_rules = same_under.evolve_rules [folded keeps_iff] cget_keeps

section \<open>What a cycle does to its memory, phases and notifier\<close>

text \<open>
  \<open>walked\<close>: the transitions so far lead from \<open>created\<close> to the current phase, numbered from one, each
  forward. \<open>progress\<close> is the order of a running cycle.
\<close>

fun walk_from :: "cycle_phase \<Rightarrow> int \<Rightarrow> cycle_transition list \<Rightarrow> cycle_phase option" where
  "walk_from p n [] = Some p"
| "walk_from p n (t # ts) =
     (if transition_sequence t = n \<and> transition_source t = p
         \<and> phase_index p < phase_index (transition_target t)
         \<and> transition_reason t \<noteq> [] \<and> length (transition_reason t) \<le> 500
      then walk_from (transition_target t) (n + 1) ts else None)"

definition walked :: "cycle_state \<Rightarrow> bool" where
  "walked s \<longleftrightarrow> walk_from PHASE_CREATED 1 (cs_transitions s) = Some (cs_phase s)"

text \<open>What the orders below look at: a method that keeps it respects them.\<close>

definition watched :: "cycle_state \<Rightarrow> memory_db \<times> cycle_transition list \<times> cycle_phase \<times> timestamp \<times> nat \<times> notifier
    \<times> (cycle_record \<times> cycle_report) option" where
  "watched s = (cs_memory s, cs_transitions s, cs_phase s, cs_started_at s, cs_ticks s, cs_notifier s, cs_persisted s)"

lemma walk_from_snoc:
  "walk_from p n (ts @ [t]) = (case walk_from p n ts of None \<Rightarrow> None | Some q \<Rightarrow> walk_from q (n + int (length ts)) [t])"
  by (induction ts arbitrary: p n) (auto simp: ac_simps split: option.splits)

text \<open>\<open>advance\<close> enters the phase or raises before it.\<close>

definition entered :: "cycle_phase \<Rightarrow> string \<Rightarrow> timestamp \<Rightarrow> cycle_state \<Rightarrow> cycle_state" where
  "entered target reason now s = s\<lparr>cs_ticks := cs_ticks s + 1,
     cs_transitions := cs_transitions s @ [\<lparr>transition_sequence = int (length (cs_transitions s)) + 1,
       transition_source = cs_phase s, transition_target = target, transition_reason = take 500 (lit reason),
       transition_at = now\<rparr>],
     cs_phase := target,
     cs_usage := (cs_usage s)\<lparr>used_turns := int (length (cs_transitions s)) + 1\<rparr>\<rparr>"

lemma cbind_simps [simp]:
  "cbind m f s = (case m s of (Inl e, s') \<Rightarrow> (Inl e, s') | (Inr a, s') \<Rightarrow> f a s')"
  "cret a s = (Inr a, s)" "craise e s = (Inl e, s)" "cmodify g s = (Inr (), g s)" "cget f' s = f' s s"
  by (simp_all add: cbind_def cret_def craise_def cmodify_def cget_def)

lemma advance_eq:
  "advance C target reason check s =
     (if phase_index target \<le> phase_index (cs_phase s) then (Inl (Internal_Failure ''RuntimeError''), s)
      else case in_clock C (cs_ticks s) of
        Naive t \<Rightarrow> (Inl (Internal_Failure ''ValueError''), s\<lparr>cs_ticks := cs_ticks s + 1\<rparr>)
      | Aware now \<Rightarrow> (if check then check_budget C else cret ()) (entered target reason now s))"
  by (auto simp: advance_def cyc_now_def Let_def entered_def split: clock_value.splits prod.splits sum.splits)

lemma watched_simps [simp]:
  "watched (s\<lparr>st_signals := a1\<rparr>) = watched s" "watched (s\<lparr>cs_usage := a2\<rparr>) = watched s"
  "watched (s\<lparr>st_memories := a3, st_reads := a4\<rparr>) = watched s" "watched (add_reasons rs s) = watched s"
  "watched (s\<lparr>cs_calls := a5\<rparr>) = watched s" "watched (s\<lparr>st_outcome := a6\<rparr>) = watched s"
  "watched (s\<lparr>st_facts := a7\<rparr>) = watched s" "watched (s\<lparr>st_review := a8\<rparr>) = watched s"
  "watched (s\<lparr>st_risk := a9\<rparr>) = watched s" "watched (s\<lparr>st_policy := b1\<rparr>) = watched s"
  "watched (s\<lparr>st_request := b2\<rparr>) = watched s" "watched (s\<lparr>st_rollback := b3\<rparr>) = watched s"
  "watched (s\<lparr>st_failure := b4\<rparr>) = watched s" "watched (s\<lparr>st_learned := b5\<rparr>) = watched s"
  "watched (s\<lparr>st_abandoned := b6\<rparr>) = watched s" "watched (s\<lparr>cs_head := b7\<rparr>) = watched s"
  "watched (s\<lparr>st_interrupted := b8\<rparr>) = watched s"
  "watched (s\<lparr>st_candidates := c1\<rparr>) = watched s" "watched (s\<lparr>st_selected := c2\<rparr>) = watched s"
  by (simp_all add: watched_def add_reasons_def)

text \<open>
  An order that the clock, the phases, the notifier and the memory respect, and every change of the other
  fields, is respected by every method of the cycle.
\<close>

locale cycle_order = state_order R for R +
  fixes C :: cycle_env
  assumes quiet: "watched t = watched s \<Longrightarrow> R s t"
    and tick: "R s (s\<lparr>cs_ticks := cs_ticks s + 1\<rparr>)"
    and enter: "phase_index (cs_phase s) < phase_index target \<Longrightarrow> reason \<noteq> [] \<Longrightarrow> R s (entered target reason now s)"
    and notifier: "(transport_ok C (in_notifier C) \<Longrightarrow> notifier_ok C (in_notifier C) (cs_notifier s)
        \<Longrightarrow> notifier_ok C (in_notifier C) nf) \<Longrightarrow> R s (s\<lparr>cs_notifier := nf\<rparr>)"
    and memory: "memory_step C (cs_memory s) db \<Longrightarrow> R s (s\<lparr>cs_memory := db\<rparr>)"
begin

lemma cmodify_order: "(\<And>s. watched (g s) = watched s) \<Longrightarrow> evolves R (cmodify g)"
  by (rule cmodify_evolves) (rule quiet)

lemma cyc_now_order: "evolves R (cyc_now C)"
  using tick by (auto simp: evolves_def cyc_now_def Let_def split: clock_value.splits)

lemma check_budget_order: "evolves R (check_budget C)"
  unfolding check_budget_def Let_def by (intro evolve_rules cget_evolves_all cyc_now_order)

lemma advance_order:
  assumes "reason \<noteq> []"
  shows "evolves R (advance C target reason check)"
  unfolding evolves_def
proof
  fix s
  have budget: "R t (snd (check_budget C t))" for t
    using check_budget_order by (simp add: evolves_def)
  show "R s (snd (advance C target reason check s))"
    using tick same assms by (auto simp: advance_eq not_le split: clock_value.splits
        intro: enter chain [OF enter budget])
qed

lemma cyc_notify_order: "evolves R (cyc_notify C event title body)"
  unfolding evolves_def
proof
  fix s
  let ?n = "\<lparr>nt_event = event, nt_title = title, nt_body = body, nt_cycle_id = in_cycle_id C, nt_urgent = False\<rparr>"
  show "R s (snd (cyc_notify C event title body s))"
  proof (cases "notification_valid ?n")
    case True
    obtain res nf where nf: "notify C (in_notifier C) ?n (cs_notifier s) = (res, nf)" by force
    have "R s (s\<lparr>cs_notifier := nf\<rparr>)"
      by (rule notifier) (rule notify_ok [OF _ _ True nf])
    with True nf show ?thesis by (auto simp: cyc_notify_def invalid_def split: sum.splits)
  qed (simp add: cyc_notify_def invalid_def same)
qed

lemma store_claim_order:
  "evolves R (\<lambda>s. case remember C (cs_memory s) m of
       Inl e \<Rightarrow> (Inl Memory_Failure, s)
     | Inr ((i, new), db) \<Rightarrow>
         (Inr new, if new then s\<lparr>cs_memory := db, st_writes := st_writes s @ [i],
                                 st_summaries := st_summaries s @ [summary]\<rparr>
                   else s\<lparr>cs_memory := db\<rparr>))"
proof -
  have "R s (s\<lparr>cs_memory := db\<rparr>)" "R s (s\<lparr>cs_memory := db, st_writes := w, st_summaries := v\<rparr>)"
    if "remember C (cs_memory s) m = Inr ((i, new), db)" for s i new db w v
  proof -
    show step: "R s (s\<lparr>cs_memory := db\<rparr>)" by (rule memory) (rule remember_step [OF that])
    show "R s (s\<lparr>cs_memory := db, st_writes := w, st_summaries := v\<rparr>)"
      by (rule chain [OF step], rule quiet) (simp add: watched_def)
  qed
  then show ?thesis using same by (auto simp: evolves_def split: sum.splits prod.splits)
qed

lemma remember_claim_order: "evolves R (remember_claim C n now a summary)"
  unfolding remember_claim_def by (intro evolve_rules store_claim_order)

lemmas order_rules = evolve_rules cget_evolves_all cyc_now_order check_budget_order
  advance_order cyc_notify_order remember_claim_order

lemma phases_order:
  "evolves R (notify_regressions C)" "evolves R (notify_failure C title)"
  unfolding notify_regressions_def notify_failure_def Let_def
  by (intro order_rules)+

lemma observe_order: "evolves R (observe C)"
  unfolding observe_def by (intro order_rules cmodify_order phases_order) simp_all

lemma understand_order: "evolves R (understand C)"
  unfolding understand_def Let_def read_window_def read_full_def
  by (intro order_rules cmodify_order) simp_all

lemma prioritize_order: "evolves R (prioritize C)"
  unfolding prioritize_def by (intro order_rules cmodify_order) (simp_all add: watched_def add_reasons_def)

lemma investigate_order: "evolves R (investigate_and_plan C)"
  unfolding investigate_and_plan_def selected_def by (intro order_rules) simp_all

lemma log_call_order: "evolves R (log_call C k)"
  unfolding log_call_def by (intro cmodify_order) (simp add: watched_def)

lemma implement_order: "evolves R (implement_and_test C)"
  unfolding implement_and_test_def selected_def
  by (intro order_rules log_call_order cmodify_order) (simp_all add: watched_def)

lemma review_order: "evolves R (self_review_phase C)"
  unfolding self_review_phase_def selected_def produced_def Let_def
  by (intro order_rules cmodify_order) simp_all

lemma risk_order: "evolves R (assess_risk C)"
  unfolding assess_risk_def selected_def produced_def by (intro order_rules cmodify_order) simp_all

lemma request_order: "evolves R (request_approval C c out risk)"
  unfolding request_approval_def approval_request_of_def Let_def
  by (intro order_rules cmodify_order) simp_all

lemma ship_order: "evolves R (ship_change C c out)"
  unfolding ship_change_def by (intro order_rules log_call_order cmodify_order) simp_all

lemma decide_order: "evolves R (decide C)"
  unfolding decide_def selected_def produced_def
  by (intro order_rules request_order ship_order cmodify_order) simp_all

lemma results_order: "evolves R (observe_results C)"
  unfolding observe_results_def produced_def
  by (intro order_rules log_call_order cmodify_order) simp_all

lemma note_fact_order: "evolves R (note_fact C n now a summary)"
  unfolding note_fact_def by (intro order_rules)

lemma add_learned_order: "evolves R (add_learned t)"
  unfolding add_learned_def by (intro cmodify_order) simp

lemma backlog_order: "evolves R (learn_backlog C now chosen cs n)"
  by (induction cs arbitrary: n) (simp_all add: order_rules note_fact_order)

lemma learn_order: "evolves R (learn C)"
  unfolding learn_def Let_def learn_interrupted_def learn_decision_def learn_outcome_def learn_shipped_def
    learn_abandoned_def learn_root_cause_def
  by (intro order_rules note_fact_order add_learned_order backlog_order) simp_all

lemma work_order: "evolves R (work C)"
  unfolding work_def
  by (intro order_rules observe_order understand_order prioritize_order investigate_order
      implement_order review_order risk_order decide_order results_order learn_order
      cmodify_order) simp_all

lemma fail_order: "evolves R (fail_cycle C failure reason title)"
  unfolding fail_cycle_def
  by (intro order_rules phases_order cmodify_order) (simp add: watched_def add_reasons_def)

lemma handle_order: "evolves R (handle_exn C e)"
  by (cases e) (simp_all add: fail_order)

lemma write_record_order: "evolves R (write_record C)"
  unfolding write_record_def complete_record_def Let_def
  by (intro order_rules cmodify_order) simp_all

lemma flush_order:
  "evolves R (\<lambda>s. case flush_daily_report C (in_notifier C) (in_cycle_id C) text (cs_notifier s) of
       (Inl e, nf) \<Rightarrow> invalid (s\<lparr>cs_notifier := nf\<rparr>)
     | (Inr n, nf) \<Rightarrow> (Inr rep, s\<lparr>cs_notifier := nf\<rparr>))"
  unfolding evolves_def
proof
  fix s :: cycle_state
  obtain res nf where nf: "flush_daily_report C (in_notifier C) (in_cycle_id C) text (cs_notifier s) = (res, nf)"
    by force
  have "R s (s\<lparr>cs_notifier := nf\<rparr>)"
    by (rule notifier) (rule flush_ok [OF _ _ nf])
  with nf show "R s (snd (case flush_daily_report C (in_notifier C) (in_cycle_id C) text (cs_notifier s) of
       (Inl e, nf) \<Rightarrow> invalid (s\<lparr>cs_notifier := nf\<rparr>)
     | (Inr n, nf) \<Rightarrow> (Inr rep, s\<lparr>cs_notifier := nf\<rparr>)))"
    by (auto simp: invalid_def split: sum.splits)
qed

lemma send_report_order: "evolves R (send_report C r)"
  unfolding send_report_def by (intro order_rules flush_order)

text \<open>\<open>_run\<close> up to the writing of the files.\<close>

lemma run_body_order:
  assumes "\<And>s p. R s (s\<lparr>cs_persisted := Some p\<rparr>)"
  shows "evolves R (run_body C)"
  unfolding run_body_def Let_def
  by (intro order_rules work_order handle_order write_record_order send_report_order cmodify_evolves assms)

lemma run_body_raises:
  assumes "run_body C s = (Inl e, s')"
  shows "R s s'"
proof -
  have "evolves R (cbind (ctry (work C) (handle_exn C)) (\<lambda>_. cbind (write_record C) (send_report C)))"
    by (intro order_rules work_order handle_order write_record_order send_report_order)
  then have "R s (snd (cbind (ctry (work C) (handle_exn C)) (\<lambda>_. cbind (write_record C) (send_report C)) s))"
    by (simp only: evolves_def)
  with assms show ?thesis
    by (auto simp: run_body_def Let_def split: prod.splits sum.splits)
qed

end

definition progress :: "cycle_env \<Rightarrow> cycle_state \<Rightarrow> cycle_state \<Rightarrow> bool" where
  "progress C s t \<longleftrightarrow> (memory_step C)\<^sup>*\<^sup>* (cs_memory s) (cs_memory t)
     \<and> (walked s \<longrightarrow> walked t)
     \<and> cs_started_at t = cs_started_at s \<and> cs_ticks s \<le> cs_ticks t
     \<and> phase_index (cs_phase s) \<le> phase_index (cs_phase t)
     \<and> (transport_ok C (in_notifier C) \<longrightarrow> notifier_ok C (in_notifier C) (cs_notifier s)
          \<longrightarrow> notifier_ok C (in_notifier C) (cs_notifier t))"

interpretation progress: cycle_order "progress C" C for C
proof
  fix s t u :: cycle_state and target reason now nf db
  show "progress C s s" by (simp add: progress_def)
  show "progress C s t \<Longrightarrow> progress C t u \<Longrightarrow> progress C s u" by (auto simp: progress_def)
  show "watched t = watched s \<Longrightarrow> progress C s t"
    "progress C s (s\<lparr>cs_ticks := cs_ticks s + 1\<rparr>)"
    "(transport_ok C (in_notifier C) \<Longrightarrow> notifier_ok C (in_notifier C) (cs_notifier s)
        \<Longrightarrow> notifier_ok C (in_notifier C) nf) \<Longrightarrow> progress C s (s\<lparr>cs_notifier := nf\<rparr>)"
    "memory_step C (cs_memory s) db \<Longrightarrow> progress C s (s\<lparr>cs_memory := db\<rparr>)"
    by (auto simp: watched_def progress_def walked_def)
  show "phase_index (cs_phase s) < phase_index target \<Longrightarrow> reason \<noteq> [] \<Longrightarrow> progress C s (entered target reason now s)"
    by (auto simp: progress_def walked_def entered_def walk_from_snoc lit_def)
qed

text \<open>Nothing is written before the end.\<close>

interpretation unwritten: cycle_order "same_under cs_persisted" C for C
  by unfold_locales (auto simp: same_under_def watched_def entered_def)

lemma start_state_simps [simp]:
  "cs_memory (start_state db t) = db" "cs_notifier (start_state db t) = new_notifier"
  "cs_transitions (start_state db t) = []" "cs_phase (start_state db t) = PHASE_CREATED"
  "cs_calls (start_state db t) = []" "cs_persisted (start_state db t) = None" "cs_started_at (start_state db t) = t"
  "cs_ticks (start_state db t) = 1" "st_selected (start_state db t) = None" "st_outcome (start_state db t) = None"
  "st_policy (start_state db t) = None" "st_review (start_state db t) = None" "st_risk (start_state db t) = None"
  "st_failure (start_state db t) = None"
  by (simp_all add: start_state_def)

lemma run_cycle_progress:
  assumes "run_cycle C db = (res, s')"
  shows "\<exists>t. progress C (start_state db t) s'"
proof (cases "in_clock C 0")
  case (Naive t)
  with assms show ?thesis using progress.same by (auto simp: run_cycle_def)
next
  case (Aware t)
  have "progress C s (s\<lparr>cs_persisted := Some p\<rparr>)" for s p by (simp add: progress_def walked_def)
  then have "evolves (progress C) (cbind (cyc_now C) (\<lambda>now. cbind (clift (in_lease C now)) (\<lambda>interrupted.
          cbind (cmodify (\<lambda>s. s\<lparr>st_interrupted := interrupted\<rparr>)) (\<lambda>_. run_body C))))"
    by (intro progress.order_rules progress.run_body_order progress.cmodify_order) simp_all
  with assms Aware show ?thesis unfolding evolves_def run_cycle_def by (metis clock_value.simps(6) snd_conv)
qed

end
