(* ===== verification/EngineerCycleCalls.thy ===== *)
theory EngineerCycleCalls
  imports EngineerCycleFacts EngineerProperties
begin

text \<open>
  Which calls of the executor a cycle makes. Most methods leave the core of the state alone; the phases
  that touch it are followed with triples from the selection to the decision.
\<close>

section \<open>The core and the methods that keep it\<close>

definition core :: "cycle_state \<Rightarrow> executor_call list \<times> engineering_candidate option \<times> execution_outcome option
    \<times> self_review option \<times> risk_assessment option \<times> policy_decision option \<times> cycle_failure option" where
  "core s = (cs_calls s, st_selected s, st_outcome s, st_review s, st_risk s, st_policy s, st_failure s)"

lemma core_simps [simp]:
  "core (s\<lparr>st_signals := a1\<rparr>) = core s" "core (s\<lparr>cs_usage := a2\<rparr>) = core s"
  "core (s\<lparr>st_memories := a3, st_reads := a4\<rparr>) = core s" "core (add_reasons rs s) = core s"
  "core (s\<lparr>cs_ticks := a5\<rparr>) = core s" "core (s\<lparr>cs_notifier := a6\<rparr>) = core s"
  "core (s\<lparr>st_facts := a7\<rparr>) = core s" "core (s\<lparr>cs_memory := a8\<rparr>) = core s"
  "core (s\<lparr>cs_memory := a8, st_writes := a9, st_summaries := b1\<rparr>) = core s"
  "core (s\<lparr>st_request := b2\<rparr>) = core s" "core (s\<lparr>st_rollback := b3\<rparr>) = core s"
  "core (s\<lparr>st_learned := b5\<rparr>) = core s" "core (s\<lparr>st_abandoned := b6\<rparr>) = core s"
  "core (s\<lparr>cs_head := b7\<rparr>) = core s" "core (s\<lparr>st_interrupted := b8\<rparr>) = core s"
  "core (s\<lparr>cs_persisted := b9\<rparr>) = core s" "core (entered target reason now s) = core s"
  by (simp_all add: core_def add_reasons_def entered_def)

lemma tick_core: "keeps core (cyc_now C)" "keeps core (check_budget C)"
proof -
  show "keeps core (cyc_now C)"
    by (auto simp: keeps_def cyc_now_def Let_def split: clock_value.splits)
  then show "keeps core (check_budget C)"
    unfolding check_budget_def Let_def by (intro keep_rules)
qed

lemma advance_core: "keeps core (advance C target reason check)"
  using tick_core(2) [of C]
  by (auto simp: keeps_def advance_eq split: clock_value.splits)

lemma cyc_notify_core: "keeps core (cyc_notify C event title body)"
  by (auto simp: keeps_def cyc_notify_def invalid_def Let_def split: sum.splits prod.splits)

lemma write_memory_core:
  "keeps core (\<lambda>s. case remember C (cs_memory s) m of
       Inl e \<Rightarrow> (Inl Memory_Failure, s)
     | Inr ((i, new), db) \<Rightarrow>
         (Inr new, if new then s\<lparr>cs_memory := db, st_writes := st_writes s @ [i],
                                 st_summaries := st_summaries s @ [summary]\<rparr>
                   else s\<lparr>cs_memory := db\<rparr>))"
  by (auto simp: keeps_def split: sum.splits prod.splits)

lemma remember_claim_core: "keeps core (remember_claim C n now a summary)"
  unfolding remember_claim_def by (intro keep_rules write_memory_core)

lemmas core_rules = keep_rules tick_core advance_core cyc_notify_core remember_claim_core

lemma notify_core: "keeps core (notify_regressions C)" "keeps core (notify_failure C title)"
  unfolding notify_regressions_def notify_failure_def Let_def by (intro core_rules)+

lemma observe_core: "keeps core (observe C)"
  unfolding observe_def by (intro core_rules notify_core cmodify_keeps) simp_all

lemma understand_core: "keeps core (understand C)"
  unfolding understand_def Let_def read_window_def read_full_def
  by (intro core_rules cmodify_keeps) simp_all

lemma investigate_core: "keeps core (investigate_and_plan C)"
  unfolding investigate_and_plan_def selected_def by (intro core_rules)

lemma request_core: "keeps core (request_approval C c out risk)"
  unfolding request_approval_def approval_request_of_def Let_def
  by (intro core_rules cmodify_keeps) simp_all

lemma note_fact_core: "keeps core (note_fact C n now a summary)"
  unfolding note_fact_def by (intro core_rules)

lemma add_learned_core: "keeps core (add_learned t)"
  unfolding add_learned_def by (intro cmodify_keeps) simp

lemma backlog_core: "keeps core (learn_backlog C now chosen cs n)"
  by (induction cs arbitrary: n) (simp_all add: core_rules note_fact_core)

lemma learn_core: "keeps core (learn C)"
  unfolding learn_def Let_def learn_interrupted_def learn_decision_def learn_outcome_def learn_shipped_def
    learn_abandoned_def learn_root_cause_def
  by (intro core_rules note_fact_core add_learned_core backlog_core cmodify_keeps)

lemma send_report_core: "keeps core (send_report C r)"
proof -
  have "keeps core (\<lambda>s. case flush_daily_report C (in_notifier C) (in_cycle_id C) body (cs_notifier s) of
       (Inl e, nf) \<Rightarrow> invalid (s\<lparr>cs_notifier := nf\<rparr>)
     | (Inr n, nf) \<Rightarrow> (Inr rep, s\<lparr>cs_notifier := nf\<rparr>))" for body rep
    by (auto simp: keeps_def invalid_def split: sum.splits prod.splits)
  then show ?thesis unfolding send_report_def by (intro core_rules)
qed

section \<open>Triples\<close>

lemma triple_bind:
  "triple P m Q E \<Longrightarrow> (\<And>a. triple (Q a) (f a) R E) \<Longrightarrow> triple P (cbind m f) R E"
  by (fastforce simp: triple_def split: prod.splits sum.splits)

lemma triple_ret: "(\<And>s. P s \<Longrightarrow> Q a s) \<Longrightarrow> triple P (cret a) Q E"
  by (simp add: triple_def)

lemma triple_modify: "(\<And>s. P s \<Longrightarrow> Q () (g s)) \<Longrightarrow> triple P (cmodify g) Q E"
  by (simp add: triple_def)

lemma triple_get: "(\<And>s. P s \<Longrightarrow> triple (\<lambda>t. t = s) (f s) Q E) \<Longrightarrow> triple P (cget f) Q E"
  by (simp add: triple_def)

lemma triple_if: "(c \<Longrightarrow> triple P m Q E) \<Longrightarrow> (\<not> c \<Longrightarrow> triple P n Q E) \<Longrightarrow> triple P (if c then m else n) Q E"
  by simp

lemma triple_weaken:
  "triple P' m Q' E' \<Longrightarrow> (\<And>s. P s \<Longrightarrow> P' s) \<Longrightarrow> (\<And>a s. Q' a s \<Longrightarrow> Q a s) \<Longrightarrow> (\<And>s. E' s \<Longrightarrow> E s)
    \<Longrightarrow> triple P m Q E"
  by (fastforce simp: triple_def split: prod.splits sum.splits)

lemma triple_try:
  "triple P m Q E' \<Longrightarrow> (\<And>e. triple E' (h e) Q E) \<Longrightarrow> triple P (ctry m h) Q E"
  by (fastforce simp: triple_def ctry_def split: prod.splits sum.splits)

text \<open>A method that keeps the core keeps what is said of it, whether it returns or raises.\<close>

definition on_core :: "(cycle_state \<Rightarrow> bool) \<Rightarrow> bool" where
  "on_core P \<longleftrightarrow> (\<forall>s t. core t = core s \<longrightarrow> P s \<longrightarrow> P t)"

lemma triple_keep:
  assumes "keeps core m" "on_core P" "\<And>s. P s \<Longrightarrow> E s" "\<And>a s. P s \<Longrightarrow> Q a s"
  shows "triple P m Q E"
  unfolding triple_def
proof (intro allI impI)
  fix s assume "P s"
  moreover have "core (snd (m s)) = core s" using assms(1) by (simp add: keeps_def)
  ultimately have "P (snd (m s))" using assms(2) unfolding on_core_def by blast
  with assms(3,4) show "case m s of (Inl e', s') \<Rightarrow> E s' | (Inr a, s') \<Rightarrow> Q a s'"
    by (cases "m s"; cases "fst (m s)") auto
qed

lemma triple_after:
  assumes "keeps core m" "on_core P" "\<And>s. P s \<Longrightarrow> E s" "\<And>a. triple P (f a) Q E"
  shows "triple P (cbind m f) Q E"
  by (rule triple_bind [where Q = "\<lambda>_. P"]) (rule triple_keep, use assms in auto)

lemma triple_keep_calls:
  assumes "keeps cs_calls m" "\<And>s. P s \<Longrightarrow> p (cs_calls s)"
  shows "triple P m (\<lambda>_ s. p (cs_calls s)) (\<lambda>s. p (cs_calls s))"
  unfolding triple_def
proof (intro allI impI)
  fix s assume "P s"
  moreover have "cs_calls (snd (m s)) = cs_calls s" using assms(1) by (simp add: keeps_def)
  ultimately show "case m s of (Inl e', s') \<Rightarrow> p (cs_calls s') | (Inr a, s') \<Rightarrow> p (cs_calls s')"
    using assms(2) by (cases "m s"; cases "fst (m s)") auto
qed

lemma triple_ex: "(\<And>x. triple (P x) m Q E) \<Longrightarrow> triple (\<lambda>s. \<exists>x. P x s) m Q E"
  unfolding triple_def by (intro allI impI, elim exE) simp

lemma triple_selected:
  "(\<And>s. P s \<Longrightarrow> st_selected s = Some c) \<Longrightarrow> triple P (f c) Q E \<Longrightarrow> triple P (selected f) Q E"
  by (simp add: triple_def selected_def cthe_def)

lemma triple_produced:
  "(\<And>s. P s \<Longrightarrow> st_outcome s = Some out) \<Longrightarrow> triple P (f out) Q E \<Longrightarrow> triple P (produced f) Q E"
  by (simp add: triple_def produced_def cthe_def)

lemma triple_select:
  "(\<And>s. P s \<Longrightarrow> E s) \<Longrightarrow> (\<And>c. triple (\<lambda>s. P s \<and> st_selected s = Some c) (f c) Q E) \<Longrightarrow> triple P (selected f) Q E"
  by (auto simp: triple_def selected_def cthe_def split: option.splits)

section \<open>The stages of a cycle\<close>

text \<open>
  A selected candidate is unblocked and worth its cost. \<open>ship_evidence\<close> is what the code has established
  when it calls the publisher; \<open>calls_ok\<close> what the log of calls may be at any time.
\<close>

definition worth :: "engineering_candidate \<Rightarrow> bool" where
  "worth c \<longleftrightarrow> blockers c = [] \<and> 0 < estimate_score (candidate_estimate c)"

definition ship_evidence :: "cycle_env \<Rightarrow> engineering_candidate \<Rightarrow> execution_outcome \<Rightarrow> bool" where
  "ship_evidence C c out \<longleftrightarrow> in_mode C = AUTONOMOUS_LOW_RISK \<and> exec_can_ship (cycle_executor C)
     \<and> exec_run (cycle_executor C) c = Inr out
     \<and> (\<exists>risk. outcome_risk C c out = Inr risk \<and> risk_level risk = LOW \<and> governing_paths risk = [])
     \<and> fst (gates_passed (outcome_gates out) required_gates)
     \<and> \<not> list_ex gate_broken (outcome_gates out)
     \<and> \<not> requires_human (outcome_review C c out)"

definition calls_ok :: "cycle_env \<Rightarrow> executor_call list \<Rightarrow> bool" where
  "calls_ok C calls \<longleftrightarrow> calls = [] \<or> (real_executor C \<and> (\<exists>c. worth c \<and> (calls = [Executed c]
     \<or> (\<exists>out k. outcome_change out = Some k \<and> ship_evidence C c out \<and> calls = [Executed c, Ship_Called k]))))"

definition kept :: "cycle_env \<Rightarrow> cycle_state \<Rightarrow> bool" where
  "kept C s \<longleftrightarrow> calls_ok C (cs_calls s)"

definition unselected :: "cycle_state \<Rightarrow> bool" where
  "unselected s \<longleftrightarrow> cs_calls s = [] \<and> st_policy s = None \<and> st_failure s = None"

definition fresh :: "cycle_state \<Rightarrow> bool" where
  "fresh s \<longleftrightarrow> unselected s \<and> (\<forall>c. st_selected s = Some c \<longrightarrow> worth c)"

definition ran :: "cycle_env \<Rightarrow> engineering_candidate \<Rightarrow> execution_outcome \<Rightarrow> cycle_state \<Rightarrow> bool" where
  "ran C c out s \<longleftrightarrow> worth c \<and> st_selected s = Some c \<and> st_outcome s = Some out
     \<and> exec_run (cycle_executor C) c = Inr out
     \<and> cs_calls s = (if real_executor C then [Executed c] else []) \<and> st_failure s = None"

definition reviewed :: "cycle_env \<Rightarrow> engineering_candidate \<Rightarrow> execution_outcome \<Rightarrow> cycle_state \<Rightarrow> bool" where
  "reviewed C c out s \<longleftrightarrow> ran C c out s \<and> st_review s = Some (outcome_review C c out)"

definition assessed ::
  "cycle_env \<Rightarrow> engineering_candidate \<Rightarrow> execution_outcome \<Rightarrow> risk_assessment \<Rightarrow> cycle_state \<Rightarrow> bool" where
  "assessed C c out risk s \<longleftrightarrow> reviewed C c out s \<and> st_risk s = Some risk \<and> outcome_risk C c out = Inr risk"

definition settled :: "cycle_env \<Rightarrow> cycle_state \<Rightarrow> bool" where
  "settled C s \<longleftrightarrow> kept C s \<and> st_failure s = None
     \<and> (\<forall>d. st_policy s = Some d \<and> policy_choice d = SHIP \<longrightarrow>
          (\<exists>c k out. cs_calls s = [Executed c, Ship_Called k] \<and> st_outcome s = Some out
             \<and> \<not> list_ex gate_broken (outcome_gates out)))"

lemmas stage_defs = kept_def unselected_def fresh_def ran_def reviewed_def assessed_def settled_def

lemma stages_on_core:
  "on_core (kept C)" "on_core unselected" "on_core fresh" "on_core (ran C c out)" "on_core (reviewed C c out)"
  "on_core (assessed C c out risk)" "on_core (settled C)"
  "on_core P \<Longrightarrow> on_core (\<lambda>s. P s \<and> st_selected s = x)"
  "on_core P \<Longrightarrow> on_core (\<lambda>s. P s \<and> st_policy s = y)"
  by (auto simp: on_core_def core_def stage_defs)

lemma stages_kept:
  "unselected s \<Longrightarrow> kept C s" "fresh s \<Longrightarrow> kept C s" "ran C c out s \<Longrightarrow> kept C s"
  "reviewed C c out s \<Longrightarrow> kept C s" "assessed C c out risk s \<Longrightarrow> kept C s" "settled C s \<Longrightarrow> kept C s"
  by (auto simp: stage_defs calls_ok_def)

section \<open>From the selection to the decision\<close>

lemma triple_get_any: "(\<And>s0. triple P (f s0) Q E) \<Longrightarrow> triple P (cget f) Q E"
  by (simp add: triple_def)

lemma triple_lift:
  "(\<And>s. P s \<Longrightarrow> E s) \<Longrightarrow> (\<And>a. r = Inr a \<Longrightarrow> triple P (f a) Q E) \<Longrightarrow> triple P (cbind (clift r) f) Q E"
  by (cases r) (auto simp: triple_def clift_def)

lemma triple_lift_text:
  "(\<And>s. P s \<Longrightarrow> E s) \<Longrightarrow> (\<And>a. r = Inr a \<Longrightarrow> triple P (f a) Q E) \<Longrightarrow> triple P (cbind (ctext r) f) Q E"
  by (cases r) (auto simp: triple_def ctext_def invalid_def)

lemma triple_modify_bind:
  "(\<And>s. P s \<Longrightarrow> P' (g s)) \<Longrightarrow> triple P' (f ()) Q E \<Longrightarrow> triple P (cbind (cmodify g) f) Q E"
  by (simp add: triple_def)

lemma triple_csteps:
  "triple P (cbind m (\<lambda>_. csteps ms)) Q E \<Longrightarrow> triple P (csteps (m # ms)) Q E" by simp

lemma triple_assoc:
  "triple P (cbind m (\<lambda>a. cbind (f a) g)) Q E \<Longrightarrow> triple P (cbind (cbind m f) g) Q E"
  by (auto simp: triple_def split: prod.splits sum.splits)

lemma cbind_cret: "cbind (cret a) f = f a"
  by (simp add: fun_eq_iff)

lemma pick_worth: "pick cs = (ids, n, Some c) \<Longrightarrow> worth c"
  by (induction cs arbitrary: ids n) (auto simp: worth_def split: if_splits prod.splits)

lemma prioritize_triple: "triple unselected (prioritize C) (\<lambda>_. fresh) (kept C)"
  unfolding prioritize_def
  by (rule triple_after [OF advance_core stages_on_core(2) stages_kept(1)], assumption,
      rule triple_get_any, rule triple_lift, erule stages_kept)
     (auto simp: triple_def add_reasons_def stage_defs dest: pick_worth split: prod.splits)

definition started :: "cycle_env \<Rightarrow> engineering_candidate \<Rightarrow> cycle_state \<Rightarrow> bool" where
  "started C c s \<longleftrightarrow> worth c \<and> st_selected s = Some c
     \<and> cs_calls s = (if real_executor C then [Executed c] else []) \<and> st_failure s = None"

lemma started_kept: "started C c s \<Longrightarrow> kept C s"
  by (auto simp: started_def kept_def calls_ok_def)

lemma test_phase_triple:
  "triple (ran C c out) (csteps [advance C TEST reason True, check_budget C])
     (\<lambda>_ s. \<exists>c out. ran C c out s) (kept C)"
  by (rule triple_keep [OF _ stages_on_core(4) stages_kept(3)]) (auto intro!: core_rules)

lemma implement_triple: "triple fresh (implement_and_test C) (\<lambda>_ s. \<exists>c out. ran C c out s) (kept C)"
  unfolding implement_and_test_def
proof (rule triple_select [OF stages_kept(2)], assumption, rule triple_get_any, rule triple_csteps,
    rule triple_after [OF advance_core stages_on_core(8) [OF stages_on_core(3)]])
  fix c s0
  show "triple (\<lambda>s. fresh s \<and> st_selected s = Some c) (csteps
     [cguard (dirty_tree (st_signals s0) \<and> in_mode C \<noteq> DRY_RUN) (Executor_Failure ''ExecutorError''),
      log_call C (Executed c),
      cbind (clift (exec_run (cycle_executor C) c)) (\<lambda>out.
        cmodify (\<lambda>s. s\<lparr>st_outcome := Some out, cs_usage := spent_usage out (cs_usage s)\<rparr>)),
      advance C TEST ''run the repository's validation gates'' True,
      check_budget C]) (\<lambda>_ s. \<exists>c out. ran C c out s) (kept C)"
    unfolding log_call_def
    apply (rule triple_csteps, rule triple_after [OF _ stages_on_core(8) [OF stages_on_core(3)]])
      apply (intro core_rules)
     apply (blast intro: stages_kept)
    apply (rule triple_csteps, rule triple_modify_bind [where P' = "started C c"])
     apply (simp add: stage_defs started_def)
    apply (rule triple_csteps, rule triple_assoc, rule triple_lift, erule started_kept)
    apply (rule triple_modify_bind [where P' = "ran C c _"])
     apply (auto simp: started_def ran_def)[1]
    apply (rule test_phase_triple)
    done
qed (blast intro: stages_kept)

lemma review_triple: "triple (ran C c out) (self_review_phase C) (\<lambda>_. reviewed C c out) (kept C)"
  unfolding self_review_phase_def Let_def
  apply (rule triple_after [OF advance_core stages_on_core(4) stages_kept(3)], assumption)
  apply (rule triple_selected [where c = c], simp add: ran_def)
  apply (rule triple_produced [where out = out], simp add: ran_def)
  apply (rule triple_modify_bind [where P' = "ran C c out"], simp add: ran_def)
  apply (auto simp: triple_def invalid_def reviewed_def ran_def kept_def calls_ok_def)
  done

lemma risk_triple: "triple (reviewed C c out) (assess_risk C) (\<lambda>_ s. \<exists>risk. assessed C c out risk s) (kept C)"
  unfolding assess_risk_def
  apply (rule triple_after [OF advance_core stages_on_core(5) stages_kept(4)], assumption)
  apply (rule triple_selected [where c = c], simp add: reviewed_def ran_def)
  apply (rule triple_produced [where out = out], simp add: reviewed_def ran_def)
  apply (rule triple_lift_text, erule stages_kept)
  apply (auto simp: triple_def assessed_def reviewed_def ran_def)
  done

lemma cycle_policy_ships:
  assumes "cycle_policy C out risk (Some review) usage = Inr d" "policy_choice d = SHIP"
  shows "in_mode C = AUTONOMOUS_LOW_RISK" "exec_can_ship (cycle_executor C)" "risk_level risk = LOW"
    "governing_paths risk = []" "fst (gates_passed (outcome_gates out) required_gates)"
    "\<not> list_ex gate_broken (outcome_gates out)" "\<not> requires_human review"
proof -
  obtain d' where d': "ship_policy (in_mode C) (in_budget C) risk (outcome_gates out) (Some review) usage None None
      (outcome_change out = None) = Inr d'"
    using ship_policy_total by blast
  with assms have "policy_choice d' = SHIP" "exec_can_ship (cycle_executor C)"
    by (auto simp: cycle_policy_def decided_def split: if_splits)
  with ship_policy_cases [OF d']
  show "in_mode C = AUTONOMOUS_LOW_RISK" "exec_can_ship (cycle_executor C)" "risk_level risk = LOW"
    "governing_paths risk = []" "fst (gates_passed (outcome_gates out) required_gates)"
    "\<not> list_ex gate_broken (outcome_gates out)" "\<not> requires_human review"
    by (auto simp: autonomous_evidence_def gates_passed_iff)
qed

lemma can_ship_real: "exec_can_ship (cycle_executor C) \<Longrightarrow> real_executor C"
  by (auto simp: cycle_executor_def real_executor_def dry_run_executor_def split: if_splits option.splits)

text \<open>After the policy said \<open>d\<close>.\<close>

definition shipping ::
  "cycle_env \<Rightarrow> engineering_candidate \<Rightarrow> execution_outcome \<Rightarrow> policy_decision \<Rightarrow> cycle_state \<Rightarrow> bool" where
  "shipping C c out d s \<longleftrightarrow> ran C c out s \<and> st_policy s = Some d \<and> (policy_choice d = SHIP \<longrightarrow> ship_evidence C c out)"

lemma shipping_facts: "on_core (shipping C c out d)" "shipping C c out d s \<Longrightarrow> kept C s"
  "shipping C c out d s \<Longrightarrow> policy_choice d \<noteq> SHIP \<Longrightarrow> settled C s"
  by (auto simp: on_core_def core_def stage_defs shipping_def calls_ok_def)

lemma settled_keep: "keeps core m \<Longrightarrow> triple (settled C) m (\<lambda>_. settled C) (kept C)"
  by (rule triple_keep [OF _ stages_on_core(7) stages_kept(6)])

lemma ship_triple:
  assumes "policy_choice d = SHIP"
  shows "triple (shipping C c out d) (ship_change C c out) (\<lambda>_. settled C) (kept C)"
proof (cases "outcome_change out")
  case None
  then show ?thesis
    by (auto simp: ship_change_def triple_def cthe_def dest: shipping_facts(2))
next
  case (Some k)
  define asked where "asked s \<longleftrightarrow> shipping C c out d (s\<lparr>cs_calls := [Executed c]\<rparr>) \<and> real_executor C
    \<and> cs_calls s = [Executed c, Ship_Called k]" for s
  have asked: "asked s \<Longrightarrow> kept C s" for s
    using Some assms by (auto simp: asked_def shipping_def stage_defs calls_ok_def)
  have log: "triple (shipping C c out d) (log_call C (Ship_Called k)) (\<lambda>_. asked) (kept C)"
    unfolding log_call_def
    by (rule triple_modify)
       (use assms can_ship_real in \<open>auto simp: asked_def shipping_def ran_def ship_evidence_def\<close>)
  have sent: "settled C (s\<lparr>st_outcome := Some (plain_outcome (Some k') (outcome_patch out) (outcome_gates out)
      (outcome_notes out) (root_cause_evidence out))\<rparr>)" if "asked s" for s k'
    using asked [OF that] that assms
    by (auto simp: asked_def shipping_def ship_evidence_def settled_def kept_def ran_def plain_outcome_def)
  have rest: "triple asked (csteps [cbind (clift (exec_ship (cycle_executor C) k)) (\<lambda>shipped. csteps
        [cmodify (\<lambda>s. s\<lparr>st_outcome := Some (plain_outcome (Some shipped) (outcome_patch out)
           (outcome_gates out) (outcome_notes out) (root_cause_evidence out))\<rparr>),
         cyc_notify C event title (body shipped)])]) (\<lambda>_. settled C) (kept C)" for event title body
    apply (rule triple_csteps, rule triple_assoc, rule triple_lift, erule asked)
    apply (subst csteps.simps(2), rule triple_assoc, rule triple_modify_bind [where P' = "settled C"], erule sent)
    apply (rule settled_keep, intro core_rules)
    done
  show ?thesis
    unfolding ship_change_def Some cthe_def option.case cbind_cret
    by (rule triple_csteps, rule triple_bind [OF log], rule rest)
qed

lemma assessed_shipping:
  assumes "assessed C c out risk s" "cycle_policy C out risk (Some (outcome_review C c out)) usage = Inr d"
  shows "shipping C c out d (add_reasons rs (s\<lparr>st_policy := Some d\<rparr>))"
  using assms(1) cycle_policy_ships [OF assms(2)]
  by (auto simp: shipping_def ship_evidence_def stage_defs add_reasons_def)

lemma decide_triple: "triple (assessed C c out risk) (decide C) (\<lambda>_. settled C) (kept C)"
proof -
  have tail: "triple (shipping C c out d)
      (case policy_choice d of
            REQUEST_APPROVAL \<Rightarrow> request_approval C c out risk
          | SHIP \<Rightarrow> ship_change C c out
          | ABANDON \<Rightarrow> cmodify (\<lambda>s. s\<lparr>st_abandoned := st_abandoned s @ [candidate_id c]\<rparr>)
          | BLOCKED \<Rightarrow> cyc_notify C BLOCKED_EVENT title body
          | NO_WORK \<Rightarrow> cret ()) (\<lambda>_. settled C) (kept C)" for d title body
  proof (cases "policy_choice d = SHIP")
    case False
    have "keeps core (cmodify (\<lambda>s. s\<lparr>st_abandoned := st_abandoned s @ [candidate_id c]\<rparr>))"
      by (rule cmodify_keeps) simp
    with False show ?thesis
      by (intro triple_keep [OF _ shipping_facts(1,2)])
         (auto intro: shipping_facts request_core core_rules split: cycle_decision.split)
  qed (simp add: ship_triple)
  have policy: "triple (\<lambda>t. t = s)
      (cbind (cthe (st_risk s)) (\<lambda>risk. case cycle_policy C out risk (st_review s) (cs_usage s) of
       Inl e \<Rightarrow> craise (Internal_Failure ''PolicyError'')
     | Inr d \<Rightarrow> csteps
         [cmodify (\<lambda>s. add_reasons (map lit (policy_reasons d)) (s\<lparr>st_policy := Some d\<rparr>)),
          case policy_choice d of
            REQUEST_APPROVAL \<Rightarrow> request_approval C c out risk
          | SHIP \<Rightarrow> ship_change C c out
          | ABANDON \<Rightarrow> cmodify (\<lambda>s. s\<lparr>st_abandoned := st_abandoned s @ [candidate_id c]\<rparr>)
          | BLOCKED \<Rightarrow> cyc_notify C BLOCKED_EVENT (take 200 (lit ''Blocked: '' @ candidate_title c))
              (take 4000 (lit (join_with ''; '' (policy_reasons d))))
          | NO_WORK \<Rightarrow> cret ()])) (\<lambda>_. settled C) (kept C)"
    if s: "assessed C c out risk s" for s
  proof -
    from s have "st_risk s = Some risk" "st_review s = Some (outcome_review C c out)"
      by (simp_all add: assessed_def reviewed_def)
    then show ?thesis
    proof (cases "cycle_policy C out risk (st_review s) (cs_usage s)")
      case (Inl e)
      with \<open>st_risk s = Some risk\<close> stages_kept(5) [OF s] show ?thesis by (simp add: cthe_def cbind_cret triple_def)
    next
      case (Inr d)
      with s \<open>st_risk s = Some risk\<close> \<open>st_review s = _\<close> show ?thesis
        unfolding cthe_def
        apply (simp only: option.case cbind_cret sum.case)
        apply (rule triple_csteps, rule triple_modify_bind [where P' = "shipping C c out d"])
         apply (blast intro: assessed_shipping)
        apply (rule triple_csteps, rule triple_bind, rule tail)
        apply (simp add: triple_def)
        done
    qed
  qed
  show ?thesis
    unfolding decide_def
    apply (rule triple_after [OF advance_core stages_on_core(6) stages_kept(5)], assumption)
    apply (rule triple_selected [where c = c], simp add: stage_defs)
    apply (rule triple_produced [where out = out], simp add: stage_defs)
    apply (rule triple_get, erule policy)
    done
qed

lemma results_triple: "triple (settled C) (observe_results C) (\<lambda>_. settled C) (kept C)"
proof -
  have idle: "triple (\<lambda>t. t = s) (cbind (cthe (st_policy s)) (\<lambda>d. produced (\<lambda>out.
       case outcome_change out of
         None \<Rightarrow> cret ()
       | Some k \<Rightarrow>
           if policy_choice d \<noteq> SHIP \<or> filter gate_broken (outcome_gates out) = [] then cret ()
           else csteps (ms k)))) (\<lambda>_. settled C) (kept C)" if "settled C s" for s ms
    using that stages_kept(6) [OF that]
    by (cases "st_policy s"; cases "st_outcome s")
       (auto simp: triple_def cthe_def produced_def settled_def list_ex_iff filter_empty_conv split: option.split)
  show ?thesis
    unfolding observe_results_def
    by (rule triple_after [OF advance_core stages_on_core(7) stages_kept(6)], assumption,
        rule triple_get, erule idle)
qed

section \<open>The work, its handlers and the record\<close>

lemma unselected_keep: "keeps core m \<Longrightarrow> triple unselected m (\<lambda>_. unselected) (kept C)"
  by (rule triple_keep [OF _ stages_on_core(2) stages_kept(1)])

lemma head_core: "keeps core (cbind (clift (in_head C)) (\<lambda>head. cmodify (\<lambda>s. s\<lparr>cs_head := head\<rparr>)))"
  by (intro core_rules cmodify_keeps) simp

lemma branch_triple:
  "triple fresh (cget (\<lambda>s. if st_selected s = None then cret () else csteps
      [investigate_and_plan C, implement_and_test C, self_review_phase C, assess_risk C, decide C,
       observe_results C])) (\<lambda>_. settled C) (kept C)"
proof -
  have all: "triple fresh (csteps [investigate_and_plan C, implement_and_test C, self_review_phase C, assess_risk C,
      decide C, observe_results C]) (\<lambda>_. settled C) (kept C)"
    apply (rule triple_csteps, rule triple_after [OF investigate_core stages_on_core(3) stages_kept(2)], assumption)
    apply (rule triple_csteps, rule triple_bind [OF implement_triple], rule triple_ex, rule triple_ex)
    apply (rule triple_csteps, rule triple_bind [OF review_triple])
    apply (rule triple_csteps, rule triple_bind [OF risk_triple], rule triple_ex)
    apply (rule triple_csteps, rule triple_bind [OF decide_triple])
    apply (rule triple_csteps, rule triple_bind [OF results_triple])
    apply (simp add: triple_def)
    done
  show ?thesis
  proof (rule triple_get)
    fix s assume "fresh s"
    with all show "triple (\<lambda>t. t = s) (if st_selected s = None then cret () else csteps
        [investigate_and_plan C, implement_and_test C, self_review_phase C, assess_risk C, decide C,
         observe_results C]) (\<lambda>_. settled C) (kept C)"
      by (auto simp: triple_def stage_defs calls_ok_def simp del: csteps.simps)
  qed
qed

lemma work_triple: "triple unselected (work C) (\<lambda>_. settled C) (kept C)"
  unfolding work_def
  apply (rule triple_csteps, rule triple_bind [OF unselected_keep [OF head_core]])
  apply (rule triple_csteps, rule triple_bind [OF unselected_keep [OF observe_core]])
  apply (rule triple_csteps, rule triple_bind [OF unselected_keep [OF understand_core]])
  apply (rule triple_csteps, rule triple_bind [OF prioritize_triple])
  apply (rule triple_csteps, rule triple_bind [OF branch_triple])
  apply (rule triple_csteps, rule triple_bind [OF settled_keep [OF learn_core]])
  apply (simp add: triple_def)
  done

text \<open>\<open>sealed\<close>: without a failure, a decision to ship means that the publisher was called.\<close>

definition ship_called :: "cycle_state \<Rightarrow> bool" where
  "ship_called s \<longleftrightarrow> (\<exists>c k. cs_calls s = [Executed c, Ship_Called k])"

definition sealed :: "cycle_env \<Rightarrow> cycle_state \<Rightarrow> bool" where
  "sealed C s \<longleftrightarrow> kept C s \<and> (state_decision s = SHIP \<longrightarrow> ship_called s)"

lemma fail_triple: "triple (kept C) (fail_cycle C failure reason title) (\<lambda>_. sealed C) (kept C)"
proof -
  define failed where "failed s \<longleftrightarrow> kept C s \<and> st_failure s \<noteq> None" for s
  have closed: "on_core failed"
    by (auto simp: failed_def on_core_def core_def kept_def)
  have "triple failed (notify_failure C title) (\<lambda>_. failed) (kept C)"
    by (rule triple_keep [OF notify_core(2) closed]) (simp_all add: failed_def)
  then have "triple failed (csteps [notify_failure C title]) (\<lambda>_. sealed C) (kept C)"
    by (intro triple_csteps triple_bind [where Q = "\<lambda>_. failed"])
       (auto simp: triple_def failed_def sealed_def state_decision_def)
  then show ?thesis
    unfolding fail_cycle_def
    by (intro triple_csteps triple_modify_bind [where P' = failed])
       (simp_all add: failed_def kept_def add_reasons_def)
qed

lemma handle_triple: "triple (kept C) (handle_exn C e) (\<lambda>_. sealed C) (kept C)"
  by (cases e) (simp_all add: fail_triple)

lemma settled_sealed: "settled C s \<Longrightarrow> sealed C s"
  by (auto simp: settled_def sealed_def state_decision_def ship_called_def split: if_splits option.splits)

lemma tried_triple: "triple unselected (ctry (work C) (handle_exn C)) (\<lambda>_. sealed C) (kept C)"
proof (rule triple_try [OF _ handle_triple])
  show "triple unselected (work C) (\<lambda>_. sealed C) (kept C)"
    by (rule triple_weaken [OF work_triple]) (auto intro: settled_sealed)
qed

lemma core_calls: "keeps core m \<Longrightarrow> keeps cs_calls m"
  by (simp add: keeps_def core_def)

lemma write_record_calls: "keeps cs_calls (write_record C)"
  unfolding write_record_def complete_record_def Let_def
  by (intro keep_rules cmodify_keeps core_calls [OF advance_core] core_calls [OF tick_core(1)])
     (simp_all add: add_reasons_def)

text \<open>The record is the state written out, validated; the last state has closed the cycle.\<close>

lemma advance_phase: "advance C target reason check s = (Inr (), s') \<Longrightarrow> cs_phase s' = target"
  using tick_core
  by (auto simp: advance_eq check_budget_def Let_def cyc_now_def cguard_def entered_def
      split: if_splits clock_value.splits prod.splits sum.splits)

lemma cbind_InrE:
  assumes "cbind m f s = (Inr b, t)"
  obtains a u where "m s = (Inr a, u)" "f a u = (Inr b, t)"
  using assms by (auto split: prod.splits sum.splits)

lemma closing_Inr:
  assumes "csteps [cmodify g, advance C REPORT x False, advance C CLOSED y False] s = (Inr a, u)"
  shows "cs_phase u = CLOSED"
  using assms by (auto elim!: cbind_InrE dest: advance_phase simp del: cbind_simps(1))

lemma complete_record_Inr:
  assumes "complete_record C d0 completed s = (Inr r, s')"
  shows "cycle_record_ok r \<and> cs_phase s' = cs_phase s
    \<and> (\<exists>d. r = record_of C d completed s' \<and> (d = d0 \<or> d = BLOCKED))"
  using assms by (auto simp: complete_record_def Let_def invalid_def split: if_splits)

lemma write_record_Inr:
  assumes "write_record C s = (Inr r, s')"
  shows "cycle_record_ok r \<and> cs_phase s' = CLOSED
    \<and> (\<exists>d completed. r = record_of C d completed s' \<and> (d = state_decision s \<or> d = BLOCKED))"
proof -
  from assms obtain u v a completed where
    "csteps [cmodify (\<lambda>s. if st_reasons s = [] then add_reasons [lit ''no work was selected''] s else s),
        advance C REPORT ''write the record and the report'' False,
        advance C CLOSED ''cycle closed'' False] s = (Inr a, u)"
    and now: "cyc_now C u = (Inr completed, v)"
    and rest: "complete_record C (state_decision s) completed v = (Inr r, s')"
    unfolding write_record_def cbind_simps(5) by (elim cbind_InrE)
  then have "cs_phase v = CLOSED"
    using closing_Inr by (auto simp: cyc_now_def Let_def simp del: csteps.simps split: clock_value.splits)
  with complete_record_Inr [OF rest] show ?thesis by auto
qed

text \<open>
  How \<open>_run\<close> ends: with a valid record of the last state, its notifications filled in after the report,
  or with nothing written.
\<close>

lemma run_body_Inr:
  assumes "run_body C s = (Inr (r, rep), s')"
  obtains u v w r0 where "ctry (work C) (handle_exn C) s = (Inr (), u)" "write_record C u = (Inr r0, v)"
    "send_report C r0 v = (Inr rep, w)"
    "r = r0\<lparr>cycle_notifications := take 50 (nf_records (cs_notifier w))\<rparr>" "s' = w\<lparr>cs_persisted := Some (r, rep)\<rparr>"
  using assms by (auto simp: run_body_def Let_def split: prod.splits sum.splits)

lemma send_report_Inr:
  assumes "send_report C r s = (Inr rep, s')"
  shows "build_report C r (st_learned s) (st_summaries s) (cycle_completed_at r) = Inr rep
    \<and> (\<exists>nf. s' = s\<lparr>cs_notifier := nf\<rparr>)"
  using assms by (cases "build_report C r (st_learned s) (st_summaries s) (cycle_completed_at r)")
    (auto simp: send_report_def ctext_def invalid_def split: prod.splits sum.splits)

definition run_ends :: "cycle_env \<Rightarrow> cycle_exn + cycle_record \<times> cycle_report \<Rightarrow> cycle_state \<Rightarrow> bool" where
  "run_ends C res s \<longleftrightarrow> (case res of
     Inl e \<Rightarrow> cs_persisted s = None
   | Inr (r, rep) \<Rightarrow> cs_persisted s = Some (r, rep) \<and> (cycle_decision r = SHIP \<longrightarrow> ship_called s)
       \<and> cs_phase s = CLOSED \<and> cycle_notifications r = take 50 (nf_records (cs_notifier s))
       \<and> (\<exists>r0 d completed. cycle_record_ok r0 \<and> r = r0\<lparr>cycle_notifications := cycle_notifications r\<rparr>
            \<and> r = (record_of C d completed s)
            \<and> build_report C r0 (st_learned s) (st_summaries s) (cycle_completed_at r0) = Inr rep))"

lemma run_body_kept: "triple unselected (run_body C) (\<lambda>_. kept C) (kept C)"
  unfolding run_body_def
proof (rule triple_bind [OF tried_triple])
  have "keeps cs_calls (cbind (write_record C) (\<lambda>r. cbind (send_report C r) (\<lambda>report. cget (\<lambda>s.
     let shown = r\<lparr>cycle_notifications := take 50 (nf_records (cs_notifier s))\<rparr> in
     cbind (cmodify (\<lambda>s. s\<lparr>cs_persisted := Some (shown, report)\<rparr>)) (\<lambda>_. cret (shown, report))))))"
    unfolding Let_def
    by (intro keep_rules write_record_calls core_calls [OF send_report_core] cmodify_keeps) simp
  then show "triple (sealed C) (cbind (write_record C) (\<lambda>r. cbind (send_report C r) (\<lambda>report. cget (\<lambda>s.
     let shown = r\<lparr>cycle_notifications := take 50 (nf_records (cs_notifier s))\<rparr> in
     cbind (cmodify (\<lambda>s. s\<lparr>cs_persisted := Some (shown, report)\<rparr>)) (\<lambda>_. cret (shown, report))))))
     (\<lambda>_. kept C) (kept C)"
    unfolding kept_def by (rule triple_keep_calls) (simp add: sealed_def kept_def)
qed

lemma run_body_ends:
  assumes "unselected s" "cs_persisted s = None" "run_body C s = (res, s')"
  shows "kept C s' \<and> run_ends C res s'"
proof (cases res)
  case (Inl e)
  have "cs_persisted s' = cs_persisted s"
    using unwritten.run_body_raises assms(3) Inl by (simp add: same_under_def)
  moreover have "kept C s'" using run_body_kept [of C] assms(1,3) Inl by (auto simp: triple_def)
  ultimately show ?thesis using assms(2) Inl by (simp add: run_ends_def)
next
  case (Inr x)
  obtain r rep where x: "x = (r, rep)" by force
  obtain u v w r0 where run: "ctry (work C) (handle_exn C) s = (Inr (), u)" "write_record C u = (Inr r0, v)"
    "send_report C r0 v = (Inr rep, w)"
    "r = r0\<lparr>cycle_notifications := take 50 (nf_records (cs_notifier w))\<rparr>" "s' = w\<lparr>cs_persisted := Some (r, rep)\<rparr>"
    using assms(3) Inr x by (auto elim: run_body_Inr)
  have u: "sealed C u"
    using tried_triple [of C] assms(1) run(1) by (auto simp: triple_def)
  from write_record_Inr [OF run(2)] obtain d completed where
    r0: "cycle_record_ok r0" "cs_phase v = CLOSED" "r0 = record_of C d completed v" "d = state_decision u \<or> d = BLOCKED"
    by blast
  have calls: "cs_calls v = cs_calls u" using write_record_calls [of C] run(2) by (simp add: keeps_def) (metis snd_conv)
  from send_report_Inr [OF run(3)] obtain nf where
    rep: "build_report C r0 (st_learned v) (st_summaries v) (cycle_completed_at r0) = Inr rep" "w = v\<lparr>cs_notifier := nf\<rparr>"
    by blast
  have "cycle_decision r = SHIP \<longrightarrow> ship_called s'"
    using run(4,5) r0(3,4) u calls rep(2) by (auto simp: sealed_def record_of_def ship_called_def)
  moreover have "kept C s'" using u calls run(5) rep(2) by (simp add: sealed_def kept_def)
  moreover have "r = record_of C d completed s'"
    using run(4,5) r0(3) rep(2) by (simp add: record_of_def)
  moreover have "cs_persisted s' = Some (r, rep)" "cs_phase s' = CLOSED" "cs_notifier s' = cs_notifier w"
    "st_learned s' = st_learned v" "st_summaries s' = st_summaries v"
    using run(5) r0(2) rep(2) by simp_all
  moreover have "r = r0\<lparr>cycle_notifications := cycle_notifications r\<rparr>"
    "cycle_notifications r = take 50 (nf_records (cs_notifier w))" using run(4) by simp_all
  ultimately show ?thesis
    using r0(1) rep(1) unfolding run_ends_def Inr x sum.case prod.case by (metis)
qed

lemma start_unselected: "unselected (start_state db t)"
  by (simp add: unselected_def)

lemma run_cycle_ends:
  assumes "run_cycle C db = (res, s')"
  shows "kept C s' \<and> run_ends C res s'"
proof (cases "in_clock C 0")
  case (Naive t)
  with assms show ?thesis by (auto simp: run_cycle_def run_ends_def kept_def calls_ok_def)
next
  case (Aware t)
  have base: "kept C s \<and> run_ends C (Inl e) s" if "unselected s" "cs_persisted s = None" for s e
    using that stages_kept(1) by (simp add: run_ends_def)
  have early: "unselected (s\<lparr>cs_ticks := n\<rparr>) = unselected s" "unselected (s\<lparr>st_interrupted := i\<rparr>) = unselected s" for s n i
    by (simp_all add: unselected_def)
  show ?thesis
  proof (cases "\<exists>u i. in_clock C 1 = Aware u \<and> in_lease C u = Inr i")
    case True
    then obtain u i where "in_clock C 1 = Aware u" "in_lease C u = Inr i" by blast
    with assms Aware have "run_body C (start_state db t\<lparr>cs_ticks := Suc (Suc 0), st_interrupted := i\<rparr>) = (res, s')"
      by (simp add: run_cycle_def cyc_now_def clift_def)
    then show ?thesis by (rule run_body_ends [rotated 2]) (simp_all add: early start_unselected)
  next
    case False
    with assms Aware obtain e where "res = Inl e" "s' = start_state db t\<lparr>cs_ticks := Suc (Suc 0)\<rparr>"
      by (auto simp: run_cycle_def cyc_now_def clift_def Let_def split: clock_value.splits sum.splits)
    then show ?thesis by (auto intro!: base simp: early start_unselected)
  qed
qed

end
