(* ===== verification/EngineerCycleProperties.thy ===== *)
theory EngineerCycleProperties
  imports EngineerCycleCalls
begin

text \<open>
  The properties of a whole cycle, for every inspector, generator, executor, transport and clock: which
  calls of the executor it makes, how its phases, its memory and its notifications evolve, and what it
  writes at the end.
\<close>

section \<open>Executing and shipping\<close>

text \<open>
  C9: A cycle calls its executor at most once, for a candidate without blockers that is worth its cost, and
  only with a real executor outside dry run. It calls the publisher at most once, after that, and only in
  autonomous mode with the change that the execution produced, when that change classifies as LOW risk
  with no governing path, no gate failed, every required gate passed and the self-review of the patch is
  clear on all its questions. It never calls the rollback.
\<close>

theorem engineer_cycle_ships:
  "let calls = cs_calls (snd (run_cycle C db)) in
   calls = [] \<or>
   (in_mode C \<noteq> DRY_RUN \<and> in_executor C \<noteq> None \<and>
    (\<exists>c. blockers c = [] \<and> 0 < estimate_score (candidate_estimate c) \<and>
      (calls = [Executed c] \<or>
       (\<exists>out k risk. calls = [Executed c, Ship_Called k]
          \<and> exec_run (cycle_executor C) c = Inr out \<and> outcome_change out = Some k
          \<and> in_mode C = AUTONOMOUS_LOW_RISK \<and> exec_can_ship (cycle_executor C)
          \<and> outcome_risk C c out = Inr risk \<and> risk_level risk = LOW \<and> governing_paths risk = []
          \<and> fst (gates_passed (outcome_gates out) required_gates)
          \<and> filter gate_broken (outcome_gates out) = []
          \<and> concerns (outcome_review C c out) = [] \<and> \<not> blocking (outcome_review C c out)))))"
proof -
  obtain res s where run: "run_cycle C db = (res, s)" by force
  with run_cycle_ends have "calls_ok C (cs_calls s)" by (auto simp: kept_def)
  with run show ?thesis
    unfolding calls_ok_def ship_evidence_def worth_def real_executor_def requires_human_def Let_def
    by (auto simp: list_ex_iff filter_empty_conv)
qed

section \<open>Phases, memory and notifications\<close>

lemma walk_from_length:
  "walk_from p n ts = Some q \<Longrightarrow> phase_index p + length ts \<le> phase_index q"
  by (induction ts arbitrary: p n) (fastforce split: if_splits)+

text \<open>
  However a run ends, its transitions lead from \<open>created\<close> to the phase it is in, numbered from one,
  every one to a later phase and with a reason of at most 500 characters; so there are at most fourteen.
\<close>

theorem engineer_cycle_phases:
  "let s = snd (run_cycle C db) in
   walk_from PHASE_CREATED 1 (cs_transitions s) = Some (cs_phase s) \<and> length (cs_transitions s) \<le> 14"
proof -
  obtain res s where run: "run_cycle C db = (res, s)" by force
  then obtain t where "progress C (start_state db t) s" using run_cycle_progress by blast
  then have "walked s" by (simp add: progress_def walked_def)
  moreover have "phase_index (cs_phase s) \<le> 14" by (cases "cs_phase s") simp_all
  ultimately show ?thesis
    using run walk_from_length [of PHASE_CREATED 1 "cs_transitions s" "cs_phase s"] by (simp add: walked_def Let_def)
qed

text \<open>
  Whatever a cycle does to the private memory is a sequence of steps of the memory's own operations;
  so all that those steps preserve (consistency, append-only history) holds after a cycle, also after one
  that raised.
\<close>

theorem engineer_cycle_memory:
  "(memory_step C)\<^sup>*\<^sup>* db (cs_memory (snd (run_cycle C db)))"
proof -
  obtain res s where run: "run_cycle C db = (res, s)" by force
  then obtain t where "progress C (start_state db t) s" using run_cycle_progress by blast
  with run show ?thesis by (simp add: progress_def)
qed

text \<open>
  A cycle delivers at most as many notifications as the configuration allows, none of them with a
  credential in its title or body, and its notification records are valid and at least as many.
\<close>

theorem engineer_cycle_notifications:
  assumes "transport_ok C (in_notifier C)"
  shows "let nf = cs_notifier (snd (run_cycle C db)) in
    length (nf_delivered nf) \<le> np_max_per_cycle (in_notifier C)
    \<and> length (nf_delivered nf) \<le> length (nf_records nf)
    \<and> list_all notification_ok (nf_records nf)
    \<and> list_all (\<lambda>n. \<not> contains_credential C (nt_body n) \<and> \<not> contains_credential C (nt_title n)) (nf_delivered nf)"
proof -
  obtain res s where run: "run_cycle C db = (res, s)" by force
  then obtain t where "progress C (start_state db t) s" using run_cycle_progress by blast
  with assms have "notifier_ok C (in_notifier C) (cs_notifier s)"
    by (simp add: progress_def new_notifier_ok)
  with run show ?thesis by (simp add: notifier_ok_def Let_def)
qed

section \<open>What is written\<close>

lemma shown_record_ok:
  assumes "cycle_record_ok r" "list_all notification_ok ns" "bounded 0 50 ns"
  shows "cycle_record_ok (r\<lparr>cycle_notifications := ns\<rparr>)"
proof -
  have "cycle_error (r\<lparr>cycle_notifications := ns\<rparr>) = cycle_error r"
    unfolding cycle_error_def cycle_structure_error_def cycle_outcome_error_def ship_error_def
    by (cases r) (simp only: cycle_record.simps cycle_record.select_convs cycle_record.update_convs)
  then show ?thesis
    using assms by (simp add: cycle_record_ok_def cycle_fields_ok_def)
qed

lemma build_report_ok: "build_report T c learned added now = Inr rep \<Longrightarrow> report_ok rep"
  by (auto simp: build_report_def Let_def rbind_def split: if_splits option.splits sum.splits)

text \<open>
  C10: A run that returns a record has written exactly it and its report: a valid record of this cycle,
  closed, with the walked transitions and the calls behind its decision (a decision to ship means that
  the executor ran once and the publisher was then called once), and a report with every section in
  bounds. A run that raises has written nothing.
\<close>

theorem engineer_cycle_record:
  assumes "transport_ok C (in_notifier C)"
  shows "case run_cycle C db of
     (Inl e, s) \<Rightarrow> cs_persisted s = None
   | (Inr (r, rep), s) \<Rightarrow> cs_persisted s = Some (r, rep) \<and> cycle_record_ok r \<and> report_ok rep
       \<and> cycle_id r = in_cycle_id C \<and> phase_reached r = CLOSED
       \<and> walk_from PHASE_CREATED 1 (cycle_transitions r) = Some CLOSED
       \<and> (cycle_decision r = SHIP \<longrightarrow> (\<exists>c k. cs_calls s = [Executed c, Ship_Called k]))"
proof -
  obtain res s where run: "run_cycle C db = (res, s)" by force
  then obtain t where "progress C (start_state db t) s" using run_cycle_progress by blast
  with assms have walk: "walked s" and nf: "notifier_ok C (in_notifier C) (cs_notifier s)"
    by (simp_all add: progress_def walked_def new_notifier_ok)
  from run_cycle_ends [OF run] have ends: "run_ends C res s" ..
  show ?thesis
  proof (cases res)
    case (Inl e)
    with ends run show ?thesis by (simp add: run_ends_def)
  next
    case (Inr x)
    obtain r rep where x: "x = (r, rep)" by force
    from ends obtain r0 d completed where
      w: "cs_persisted s = Some (r, rep)" "cycle_decision r = SHIP \<longrightarrow> ship_called s" "cs_phase s = CLOSED"
        "cycle_notifications r = take 50 (nf_records (cs_notifier s))" "cycle_record_ok r0"
        "r = r0\<lparr>cycle_notifications := cycle_notifications r\<rparr>" "r = record_of C d completed s"
        "build_report C r0 (st_learned s) (st_summaries s) (cycle_completed_at r0) = Inr rep"
      unfolding run_ends_def Inr x by auto
    have "list_all notification_ok (cycle_notifications r)" "bounded 0 50 (cycle_notifications r)"
      using w(4) nf by (auto simp: notifier_ok_def list_all_iff bounded_def dest: in_set_takeD)
    with w(5) have "cycle_record_ok (r0\<lparr>cycle_notifications := cycle_notifications r\<rparr>)"
      by (rule shown_record_ok)
    with w(6) have "cycle_record_ok r" by simp
    moreover have "report_ok rep" using w(8) by (rule build_report_ok)
    moreover have "cycle_id r = in_cycle_id C" "phase_reached r = CLOSED" "cycle_transitions r = cs_transitions s"
      using w(3,7) by (simp_all add: record_of_def)
    ultimately show ?thesis
      using w(1,2) walk run Inr x w(3) by (simp add: walked_def ship_called_def)
  qed
qed

section \<open>Failures\<close>

text \<open>
  A cycle whose first step raises: how it gets to its record. \<open>T k\<close> is the \<open>k\<close>-th reading of its clock.
\<close>

definition failing_head :: "cycle_env \<Rightarrow> (nat \<Rightarrow> timestamp) \<Rightarrow> string \<Rightarrow> bool" where
  "failing_head C T name \<longleftrightarrow> transport_ok C (in_notifier C) \<and> codes_ok (in_notifier C)
     \<and> (\<forall>k. in_clock C k = Aware (T k)) \<and> T 0 \<le> T 4
     \<and> cycle_budget_ok (in_budget C) \<and> 2 \<le> max_turns (in_budget C) \<and> opt_ok (bounded 1 100) (in_model C)
     \<and> (\<exists>i. in_lease C (T 1) = Inr i) \<and> in_head C = Inl (Internal_Failure name)"

definition closed_state :: "cycle_env \<Rightarrow> (nat \<Rightarrow> timestamp) \<Rightarrow> string \<Rightarrow> memory_db \<Rightarrow> cycle_state \<Rightarrow> bool" where
  "closed_state C T name db s \<longleftrightarrow> cs_memory s = db \<and> cs_ticks s = 5 \<and> cs_phase s = CLOSED \<and> cs_started_at s = T 0
     \<and> cs_transitions s =
         [\<lparr>transition_sequence = 1, transition_source = PHASE_CREATED, transition_target = REPORT,
           transition_reason = lit ''write the record and the report'', transition_at = T 2\<rparr>,
          \<lparr>transition_sequence = 2, transition_source = REPORT, transition_target = CLOSED,
           transition_reason = lit ''cycle closed'', transition_at = T 3\<rparr>]
     \<and> cs_head s = replicate 40 (CHR ''0'') \<and> cs_usage s = empty_usage\<lparr>used_turns := 2\<rparr>
     \<and> st_failure s = Some INTERNAL_ERROR \<and> st_reasons s = [lit (''internal error: '' @ name)]
     \<and> st_signals s = [] \<and> st_candidates s = [] \<and> st_selected s = None \<and> st_abandoned s = []
     \<and> st_outcome s = None \<and> st_review s = None \<and> st_risk s = None \<and> st_request s = None
     \<and> st_rollback s = None \<and> st_writes s = [] \<and> st_summaries s = [] \<and> st_learned s = []
     \<and> st_reads s = 0 \<and> cs_calls s = [] \<and> cs_persisted s = None
     \<and> notifier_ok C (in_notifier C) (cs_notifier s)"

lemma cyc_notify_total:
  assumes "transport_ok C (in_notifier C)" "codes_ok (in_notifier C)" "bounded 1 200 title" "bounded 1 4000 body"
    "notifier_ok C (in_notifier C) (cs_notifier s)"
  shows "\<exists>nf. cyc_notify C event title body s = (Inr (), s\<lparr>cs_notifier := nf\<rparr>)
    \<and> notifier_ok C (in_notifier C) nf"
proof -
  let ?n = "\<lparr>nt_event = event, nt_title = title, nt_body = body, nt_cycle_id = in_cycle_id C, nt_urgent = False\<rparr>"
  have valid: "notification_valid ?n" using assms(3,4) by (simp add: notification_valid_def)
  obtain r nf where "notify C (in_notifier C) ?n (cs_notifier s) = (Inr r, nf)"
    using notify_total [OF assms(1,2) valid] by blast
  with valid notify_ok [OF assms(5,1) valid this] show ?thesis by (intro exI [of _ nf]) (simp add: cyc_notify_def)
qed

lemma failing_head_closes:
  assumes "failing_head C T name"
  shows "\<exists>s0 u v. run_cycle C db = run_body C s0 \<and> ctry (work C) (handle_exn C) s0 = (Inr (), u)
    \<and> write_record C u = complete_record C BLOCKED (T 4) v \<and> closed_state C T name db v"
proof -
  obtain i where lease: "in_lease C (T 1) = Inr i" using assms by (auto simp: failing_head_def)
  define s0 where "s0 = (start_state db (T 0))\<lparr>cs_ticks := 2, st_interrupted := i\<rparr>"
  have clock: "in_clock C k = Aware (T k)" for k using assms by (simp add: failing_head_def)
  have run: "run_cycle C db = run_body C s0"
    using lease by (simp add: run_cycle_def clock cyc_now_def clift_def s0_def numeral_2_eq_2)
  let ?reason = "lit (''internal error: '' @ name)"
  define s1 where "s1 = add_reasons [?reason] (s0\<lparr>st_failure := Some INTERNAL_ERROR\<rparr>)"
  have title: "bounded 1 200 (take 200 (lit ''Engineering cycle failed: internal error''))"
    and body: "bounded 1 4000 (take 4000 ?reason)" by (simp_all add: bounded_def lit_def)
  have start: "transport_ok C (in_notifier C)" "codes_ok (in_notifier C)"
    using assms by (simp_all add: failing_head_def)
  have "notifier_ok C (in_notifier C) (cs_notifier s1)"
    by (simp add: s1_def s0_def add_reasons_def new_notifier_ok)
  from cyc_notify_total [OF start title body this] obtain nf where
    nf: "cyc_notify C ENGINEERING_CYCLE_FAILED (take 200 (lit ''Engineering cycle failed: internal error''))
      (take 4000 ?reason) s1 = (Inr (), s1\<lparr>cs_notifier := nf\<rparr>)" "notifier_ok C (in_notifier C) nf"
    by blast
  have "notify_failure C ''Engineering cycle failed: internal error'' s1 = (Inr (), s1\<lparr>cs_notifier := nf\<rparr>)"
    using nf(1) by (simp add: notify_failure_def Let_def s1_def s0_def add_reasons_def start_state_def lit_def)
  moreover have "work C s0 = (Inl (Internal_Failure name), s0)"
    using assms by (simp add: work_def failing_head_def clift_def)
  ultimately have tried: "ctry (work C) (handle_exn C) s0 = (Inr (), s1\<lparr>cs_notifier := nf\<rparr>)"
    by (simp add: ctry_def fail_cycle_def s1_def)
  define u where "u = s1\<lparr>cs_notifier := nf\<rparr>"
  define v where "v = snd (cyc_now C (snd (csteps [advance C REPORT ''write the record and the report'' False,
        advance C CLOSED ''cycle closed'' False] u)))"
  have "write_record C u = complete_record C BLOCKED (T 4) v \<and> closed_state C T name db v"
    using nf(2)
    by (simp add: write_record_def advance_eq clock cyc_now_def u_def v_def s1_def s0_def add_reasons_def
        start_state_def entered_def state_decision_def closed_state_def empty_usage_def lit_def)
  with run tried show ?thesis unfolding u_def by blast
qed

lemma closed_record:
  assumes "failing_head C T name" "closed_state C T name db v"
  defines "v' \<equiv> v\<lparr>cs_usage := (cs_usage v)\<lparr>used_runtime := max 0 (T 4 - cs_started_at v), used_turns := int (length (cs_transitions v))\<rparr>\<rparr>"
  shows "complete_record C BLOCKED (T 4) v =
      (if T 4 - T 0 \<le> max_runtime_seconds (in_budget C) * 1000000 then (Inr (record_of C BLOCKED (T 4) v'), v')
       else (Inl (Internal_Failure ''ValidationError''), v'))"
proof -
  let ?r = "record_of C BLOCKED (T 4) v'"
  have sent: "list_all notification_ok (take 50 (nf_records (cs_notifier v)))"
    using assms(2) by (auto simp: closed_state_def notifier_ok_def list_all_iff dest: in_set_takeD)
  have fields: "cycle_fields_ok ?r"
    using assms(1,2) sent
    by (simp add: cycle_fields_ok_def record_of_def v'_def closed_state_def failing_head_def empty_usage_def
        usage_ok_def short_text_def bounded_def valid_commit_sha_def is_lower_hex_def is_digit_def lit_def list_all_iff)
  have shape: "cycle_structure_error ?r = None"
    using assms(1,2) by (simp add: cycle_structure_error_def record_of_def v'_def closed_state_def failing_head_def)
  have within: "exceeded (cs_usage v') (in_budget C) = [] \<longleftrightarrow> T 4 - T 0 \<le> max_runtime_seconds (in_budget C) * 1000000"
    using assms(1,2)
    by (auto simp: exceeded_Nil_iff v'_def closed_state_def failing_head_def empty_usage_def cycle_budget_ok_def
        split: option.splits)
  have outcome: "cycle_outcome_error ?r = None \<longleftrightarrow> exceeded (cs_usage v') (in_budget C) = []"
    using assms(1,2) by (simp add: cycle_outcome_error_def record_of_def v'_def closed_state_def)
  have "cycle_record_ok ?r \<longleftrightarrow> T 4 - T 0 \<le> max_runtime_seconds (in_budget C) * 1000000"
    using fields shape outcome within by (simp add: cycle_record_ok_def cycle_error_def)
  moreover have "st_failure v' = Some INTERNAL_ERROR" using assms(2) by (simp add: v'_def closed_state_def)
  ultimately show ?thesis
    by (simp add: complete_record_def Let_def v'_def [symmetric] invalid_def)
qed

lemma failing_head_run:
  assumes "failing_head C T name" "T 4 - T 0 \<le> max_runtime_seconds (in_budget C) * 1000000"
  shows "\<exists>r rep s. run_cycle C db = (Inr (r, rep), s) \<and> cs_persisted s = Some (r, rep)
    \<and> cycle_decision r = BLOCKED \<and> cycle_failure r = Some INTERNAL_ERROR
    \<and> decision_reasons r = [take 500 (lit (''internal error: '' @ name))]
    \<and> cs_calls s = [] \<and> cs_memory s = db"
proof -
  obtain s0 u v where run: "run_cycle C db = run_body C s0" "ctry (work C) (handle_exn C) s0 = (Inr (), u)"
    "write_record C u = complete_record C BLOCKED (T 4) v" and v: "closed_state C T name db v"
    using failing_head_closes [OF assms(1)] by blast
  define v' where "v' = v\<lparr>cs_usage := (cs_usage v)\<lparr>used_runtime := max 0 (T 4 - cs_started_at v),
    used_turns := int (length (cs_transitions v))\<rparr>\<rparr>"
  let ?r = "record_of C BLOCKED (T 4) v'"
  have written: "write_record C u = (Inr ?r, v')"
    using closed_record [OF assms(1) v] assms(2) run(3) by (simp add: v'_def)
  then have "cycle_record_ok ?r" using write_record_Inr by blast
  moreover have learned: "st_learned v' = []" "st_summaries v' = []" "cs_calls v' = []"
    using v by (simp_all add: v'_def closed_state_def)
  ultimately obtain rep where "build_report C ?r (st_learned v') (st_summaries v') (cycle_completed_at ?r) = Inr rep"
    using build_report_total [of ?r "[]" "[]"] by auto
  moreover obtain d nf where "flush_daily_report C (in_notifier C) (in_cycle_id C) (report_text rep) (cs_notifier v') = (Inr d, nf)"
    using flush_total assms(1) unfolding failing_head_def by blast
  ultimately have "send_report C ?r v' = (Inr rep, v'\<lparr>cs_notifier := nf\<rparr>)"
    by (simp add: send_report_def ctext_def)
  with written run(1,2) learned(3) v show ?thesis
    by (simp add: run_body_def Let_def record_of_def v'_def closed_state_def)
qed

text \<open>
  C37: A cycle whose first step raises still writes its record: with a clock that stays within the budget
  the run returns a closed record that says BLOCKED with the internal error as its reason, it has called
  no executor, and the memory is as it was.
\<close>

theorem engineer_cycle_failure_recorded:
  assumes "failing_head C T name" "T 4 - T 0 \<le> max_runtime_seconds (in_budget C) * 1000000"
  shows "\<exists>r rep s. run_cycle C db = (Inr (r, rep), s) \<and> cs_persisted s = Some (r, rep)
    \<and> cycle_decision r = BLOCKED \<and> cycle_failure r = Some INTERNAL_ERROR
    \<and> decision_reasons r = [take 500 (lit (''internal error: '' @ name))]
    \<and> cs_calls s = [] \<and> cs_memory s = db"
  using assms by (rule failing_head_run)

text \<open>
  The same cycle, with the clock beyond the budget when the record is completed, writes nothing: the
  failure stays an internal error, the record model refuses usage beyond the budget under any failure but
  budget exhaustion, and the validation error leaves the run, although the handler of the work is there
  because "the record must always be written".
\<close>

theorem engineer_cycle_late_failure:
  assumes "failing_head C T name" "max_runtime_seconds (in_budget C) * 1000000 < T 4 - T 0"
  shows "\<exists>s. run_cycle C db = (Inl (Internal_Failure ''ValidationError''), s) \<and> cs_persisted s = None"
proof -
  obtain s0 u v where run: "run_cycle C db = run_body C s0" "ctry (work C) (handle_exn C) s0 = (Inr (), u)"
    "write_record C u = complete_record C BLOCKED (T 4) v" and v: "closed_state C T name db v"
    using failing_head_closes [OF assms(1)] by blast
  with closed_record [OF assms(1) v] assms(2) show ?thesis
    by (auto simp: run_body_def closed_state_def)
qed

section \<open>Concrete cycles\<close>

definition demo_executor :: executor where
  "demo_executor = \<lparr>exec_can_ship = True,
     exec_run = (\<lambda>c. Inr (plain_outcome None None demo_gates [] False)),
     exec_ship = (\<lambda>k. Inr k), exec_rollback = (\<lambda>k r. Inl (Executor_Failure ''ExecutorError''))\<rparr>"

definition demo_cycle :: "(nat \<Rightarrow> timestamp) \<Rightarrow> cycle_env" where
  "demo_cycle T = \<lparr>env_nfc = id, env_sha256 = (\<lambda>v. replicate 64 (CHR ''a'')), env_uuid5 = (\<lambda>n v. length v),
     env_iso = (\<lambda>t. ''t''), casefold = id, strip = id, text_digest = (\<lambda>v. replicate 64 (CHR ''a'')),
     re_search = (\<lambda>p i v. False), re_match1 = (\<lambda>p v. None), format_date = (\<lambda>t. ''d''), format_spent = (\<lambda>t. ''s''),
     format_limit = (\<lambda>t. ''l''), in_mode = PROPOSE, in_budget = demo_cycle_budget, in_model = None,
     in_cycle_id = 77, in_clock = (\<lambda>k. Aware (T k)), in_lease = (\<lambda>t. Inr None),
     in_head = Inl (Internal_Failure ''GitCommandError''), in_collect = Inr [], in_inspector_calls = 1,
     in_generate = (\<lambda>s m. Inr []), in_executor = Some demo_executor,
     in_notifier = \<lparr>np_channel = ''slack'', np_send = (\<lambda>k n. Sent), np_clock = int, np_max_per_cycle = 10,
       np_max_attempts = 2\<rparr>,
     in_isoformat = (\<lambda>t. ''t'')\<rparr>"

lemma demo_identifiers: "valid_identifier ''slack''" "valid_sha256 (replicate 64 (CHR ''a''))"
  by code_simp+

lemma demo_cycle_failing: "T 0 \<le> T 4 \<Longrightarrow> failing_head (demo_cycle T) T ''GitCommandError''"
  using demo_identifiers
  by (simp add: failing_head_def demo_cycle_def transport_ok_def codes_ok_def demo_cycle_budget_def
      cycle_budget_ok_def)

lemma engineer_cycle_failure_recorded_witness:
  "\<exists>r rep s. run_cycle (demo_cycle int) [] = (Inr (r, rep), s) \<and> cycle_decision r = BLOCKED
     \<and> decision_reasons r = [take 500 (lit ''internal error: GitCommandError'')]"
  using engineer_cycle_failure_recorded [OF demo_cycle_failing [of int], of "[]"]
  by (auto simp: demo_cycle_def demo_cycle_budget_def)

lemma engineer_cycle_late_failure_witness:
  "\<exists>s. run_cycle (demo_cycle (\<lambda>k. if k = 4 then 700000000 else 0)) []
     = (Inl (Internal_Failure ''ValidationError''), s) \<and> cs_persisted s = None"
  by (rule engineer_cycle_late_failure [OF demo_cycle_failing])
     (simp_all add: demo_cycle_def demo_cycle_budget_def)

lemma engineer_cycle_notifications_witness:
  "length (nf_delivered (cs_notifier (snd (run_cycle (demo_cycle int) [])))) \<le> 10"
proof -
  have "transport_ok (demo_cycle int) (in_notifier (demo_cycle int))"
    using demo_cycle_failing [of int] by (simp add: failing_head_def)
  from engineer_cycle_notifications [OF this, of "[]"] show ?thesis by (simp add: demo_cycle_def Let_def)
qed

lemma engineer_cycle_record_witness:
  "\<exists>r rep s. run_cycle (demo_cycle int) [] = (Inr (r, rep), s) \<and> cycle_record_ok r \<and> phase_reached r = CLOSED"
proof -
  have "transport_ok (demo_cycle int) (in_notifier (demo_cycle int))"
    using demo_cycle_failing [of int] by (simp add: failing_head_def)
  moreover obtain r rep s where "run_cycle (demo_cycle int) [] = (Inr (r, rep), s)"
    using failing_head_run [OF demo_cycle_failing [of int], of "[]"] by (auto simp: demo_cycle_def demo_cycle_budget_def)
  ultimately show ?thesis using engineer_cycle_record [of "demo_cycle int" "[]"] by auto
qed

end
