(* ===== verification/EngineerLease.thy ===== *)
theory EngineerLease
  imports EngineerCycle
begin

text \<open>
  The single-run lease (\<open>src/nexus/software_engineer/runtime.py\<close>), at the grain of its file operations, so
  that cycles can interleave between them. A cycle that acquires and releases is a program counter; each
  step is one link, read, stat, rename or unlink of the state root, with the branch the code takes on it.

  Whether a process is alive, the clock and the modification times are arguments. Errors of the
  operating system other than "exists" and "missing" (\<open>lease_unavailable\<close>) are left out, and so is the
  private temporary file, which no other process sees.
\<close>

section \<open>The lease file and the files beside it\<close>

record run_lease =
  lease_cycle :: uuid
  lease_started :: timestamp
  lease_expires :: timestamp
  lease_pid :: int

datatype lease_file = Readable run_lease | Unreadable

text \<open>The lock with its modification time, the leases moved aside by each cycle, the markers written.\<close>

record lease_fs =
  lf_lock :: "(lease_file \<times> timestamp) option"
  lf_aside :: "uuid \<Rightarrow> (lease_file \<times> timestamp) option"
  lf_markers :: "(interrupted_run \<times> uuid) list"

text \<open>What a caller of \<open>acquire_run_lease\<close> passes, and the time at which its lease file is written.\<close>

record lease_call =
  lc_cycle :: uuid
  lc_now :: timestamp
  lc_max_runtime :: int
  lc_pid :: int
  lc_written :: timestamp

definition grace_seconds :: int where
  "grace_seconds = 300"

text \<open>Times count microseconds.\<close>

definition lease_of :: "lease_call \<Rightarrow> run_lease" where
  "lease_of p = \<lparr>lease_cycle = lc_cycle p, lease_started = lc_now p,
     lease_expires = lc_now p + (lc_max_runtime p + grace_seconds) * 1000000, lease_pid = lc_pid p\<rparr>"

section \<open>File operations\<close>

text \<open>\<open>os.link\<close> of the private file, or of a lease moved aside: refused when the lock exists.\<close>

definition link_lock :: "lease_file \<times> timestamp \<Rightarrow> lease_fs \<Rightarrow> bool \<times> lease_fs" where
  "link_lock f fs = (case lf_lock fs of None \<Rightarrow> (True, fs\<lparr>lf_lock := Some f\<rparr>) | Some x \<Rightarrow> (False, fs))"

definition create_exclusive :: "lease_call \<Rightarrow> lease_fs \<Rightarrow> bool \<times> lease_fs" where
  "create_exclusive p fs = link_lock (Readable (lease_of p), lc_written p) fs"

definition read_lease :: "(lease_file \<times> timestamp) option \<Rightarrow> run_lease option" where
  "read_lease x = (case x of Some (Readable l, m) \<Rightarrow> Some l | _ \<Rightarrow> None)"

definition older_than :: "(lease_file \<times> timestamp) option \<Rightarrow> timestamp \<Rightarrow> int \<Rightarrow> bool" where
  "older_than x now age = (case x of None \<Rightarrow> True | Some (f, modified) \<Rightarrow> now - modified > age)"

text \<open>The proof of \<open>_retire\<close> that the lease it moved is the one judged stale.\<close>

definition same_lease :: "run_lease option \<Rightarrow> run_lease option \<Rightarrow> bool" where
  "same_lease moved stale = (case stale of
     None \<Rightarrow> moved = None
   | Some s \<Rightarrow> (case moved of None \<Rightarrow> False
       | Some l \<Rightarrow> lease_cycle l = lease_cycle s \<and> lease_started l = lease_started s))"

section \<open>A cycle that acquires and releases\<close>

text \<open>
  \<open>Creating\<close> to \<open>Recreating\<close> are the operations of \<open>acquire_run_lease\<close> and \<open>_retire\<close> in their order,
  \<open>Holding\<close> is the cycle itself, whose next step is the read of \<open>release_run_lease\<close>, \<open>Unlinking\<close> its
  unlink. \<open>Moving\<close>, \<open>Checking\<close> and \<open>Cleaning\<close> carry the lease judged stale and the reason.
\<close>

datatype lease_pc =
  Creating | Reading | Aging
  | Moving "run_lease option" string | Checking "run_lease option" string | Cleaning "run_lease option" string
  | Restoring | Dropping | Marking run_lease string | Recreating "interrupted_run option"
  | Holding "interrupted_run option" | Unlinking | Released | Refused string

definition interrupted_of :: "run_lease \<Rightarrow> string \<Rightarrow> interrupted_run" where
  "interrupted_of l reason = \<lparr>interrupted_cycle = lease_cycle l, interrupted_started = lease_started l,
     interrupted_expired = lease_expires l, interrupted_reason = reason\<rparr>"

definition retired :: "run_lease option \<Rightarrow> string \<Rightarrow> lease_pc" where
  "retired previous reason = (case previous of None \<Rightarrow> Recreating None | Some l \<Rightarrow> Marking l reason)"

fun lease_step :: "(int \<Rightarrow> bool) \<Rightarrow> lease_call \<Rightarrow> lease_pc \<Rightarrow> lease_fs \<Rightarrow> lease_pc \<times> lease_fs" where
  "lease_step alive p Creating fs =
     (case create_exclusive p fs of (True, fs') \<Rightarrow> (Holding None, fs') | (False, fs') \<Rightarrow> (Reading, fs'))"
| "lease_step alive p Reading fs =
     (case read_lease (lf_lock fs) of
        None \<Rightarrow> (Aging, fs)
      | Some l \<Rightarrow>
          if lease_expires l > lc_now p \<and> alive (lease_pid l) then (Refused ''concurrent_run'', fs)
          else if lease_expires l > lc_now p
            then (Moving (Some l) ''process gone before its lease expired'', fs)
          else (Moving (Some l) ''lease expired without a record'', fs))"
| "lease_step alive p Aging fs =
     (if older_than (lf_lock fs) (lc_now p) (lease_expires (lease_of p) - lc_now p)
      then (Moving None ''unreadable lease'', fs) else (Refused ''concurrent_run'', fs))"
| "lease_step alive p (Moving stale reason) fs =
     (case lf_lock fs of
        None \<Rightarrow> (retired stale reason, fs)
      | Some f \<Rightarrow> (Checking stale reason,
          fs\<lparr>lf_lock := None, lf_aside := (lf_aside fs)(lc_cycle p := Some f)\<rparr>))"
| "lease_step alive p (Checking stale reason) fs =
     (if same_lease (read_lease (lf_aside fs (lc_cycle p))) stale then (Cleaning stale reason, fs)
      else (Restoring, fs))"
| "lease_step alive p (Cleaning stale reason) fs =
     (retired stale reason, fs\<lparr>lf_aside := (lf_aside fs)(lc_cycle p := None)\<rparr>)"
| "lease_step alive p Restoring fs =
     (Dropping, case lf_aside fs (lc_cycle p) of None \<Rightarrow> fs | Some f \<Rightarrow> snd (link_lock f fs))"
| "lease_step alive p Dropping fs =
     (Refused ''concurrent_run'', fs\<lparr>lf_aside := (lf_aside fs)(lc_cycle p := None)\<rparr>)"
| "lease_step alive p (Marking l reason) fs =
     (Recreating (Some (interrupted_of l reason)),
      fs\<lparr>lf_markers := lf_markers fs @ [(interrupted_of l reason, lc_cycle p)]\<rparr>)"
| "lease_step alive p (Recreating i) fs =
     (case create_exclusive p fs of
        (True, fs') \<Rightarrow> (Holding i, fs') | (False, fs') \<Rightarrow> (Refused ''concurrent_run'', fs'))"
| "lease_step alive p (Holding i) fs =
     (case read_lease (lf_lock fs) of
        None \<Rightarrow> (Released, fs)
      | Some l \<Rightarrow> if lease_cycle l \<noteq> lc_cycle p then (Released, fs) else (Unlinking, fs))"
| "lease_step alive p Unlinking fs = (Released, fs\<lparr>lf_lock := None\<rparr>)"
| "lease_step alive p Released fs = (Released, fs)"
| "lease_step alive p (Refused code) fs = (Refused code, fs)"

text \<open>One cycle alone: \<open>acquire_run_lease\<close> is its steps up to \<open>Holding\<close> or \<open>Refused\<close>, at most eight.\<close>

fun acquired :: "lease_pc \<Rightarrow> bool" where
  "acquired (Holding i) = True"
| "acquired (Refused code) = True"
| "acquired pc = False"

fun acquire_steps :: "(int \<Rightarrow> bool) \<Rightarrow> lease_call \<Rightarrow> nat \<Rightarrow> lease_pc \<times> lease_fs \<Rightarrow> lease_pc \<times> lease_fs" where
  "acquire_steps alive p 0 s = s"
| "acquire_steps alive p (Suc n) (pc, fs) =
     (if acquired pc then (pc, fs) else acquire_steps alive p n (lease_step alive p pc fs))"

definition acquire_run_lease :: "(int \<Rightarrow> bool) \<Rightarrow> lease_call \<Rightarrow> lease_fs \<Rightarrow> lease_pc \<times> lease_fs" where
  "acquire_run_lease alive p fs = acquire_steps alive p 8 (Creating, fs)"

definition release_run_lease :: "lease_call \<Rightarrow> lease_fs \<Rightarrow> lease_fs" where
  "release_run_lease p fs = (case read_lease (lf_lock fs) of
     None \<Rightarrow> fs
   | Some l \<Rightarrow> if lease_cycle l \<noteq> lc_cycle p then fs else fs\<lparr>lf_lock := None\<rparr>)"

section \<open>Cycles side by side\<close>

text \<open>Any number of cycles, named by numbers; a step of the system is a step of one of them.\<close>

inductive lease_system ::
  "(int \<Rightarrow> bool) \<Rightarrow> (nat \<Rightarrow> lease_call) \<Rightarrow> (nat \<Rightarrow> lease_pc) \<times> lease_fs \<Rightarrow> (nat \<Rightarrow> lease_pc) \<times> lease_fs \<Rightarrow> bool"
  for alive P where
  step: "lease_step alive (P i) (pcs i) fs = (pc, fs') \<Longrightarrow> lease_system alive P (pcs, fs) (pcs(i := pc), fs')"

inductive_cases lease_systemE: "lease_system alive P (pcs, fs) t"

text \<open>What the acquisition answers to \<open>EngineeringCycle.run\<close>: the interrupted run, or \<open>RunLeaseError\<close>.\<close>

definition lease_answer :: "(int \<Rightarrow> bool) \<Rightarrow> lease_call \<Rightarrow> lease_fs \<Rightarrow> cycle_exn + interrupted_run option" where
  "lease_answer alive p fs = (case fst (acquire_run_lease alive p fs) of
     Holding i \<Rightarrow> Inr i | _ \<Rightarrow> Inl (Internal_Failure ''RunLeaseError''))"

end
