(* ===== verification/EngineerLeaseProperties.thy ===== *)
theory EngineerLeaseProperties
  imports EngineerLease EngineerCycleProperties
begin

text \<open>
  What the lease guarantees: the outcome of an acquisition alone, mutual exclusion of two cycles in every
  interleaving, and the interleaving of three cycles in which it is lost.
\<close>

section \<open>One cycle\<close>

lemma acquire_spec:
  "acquire_run_lease alive p fs =
     (let mine = Some (Readable (lease_of p), lc_written p); cleared = (lf_aside fs)(lc_cycle p := None) in
      case lf_lock fs of
        None \<Rightarrow> (Holding None, fs\<lparr>lf_lock := mine\<rparr>)
      | Some (Readable l, m) \<Rightarrow>
          if lc_now p < lease_expires l \<and> alive (lease_pid l) then (Refused ''concurrent_run'', fs)
          else (let run = interrupted_of l (if lc_now p < lease_expires l
                  then ''process gone before its lease expired'' else ''lease expired without a record'') in
            (Holding (Some run),
             fs\<lparr>lf_lock := mine, lf_aside := cleared, lf_markers := lf_markers fs @ [(run, lc_cycle p)]\<rparr>))
      | Some (Unreadable, m) \<Rightarrow>
          if lc_now p - m \<le> (lc_max_runtime p + 300) * 1000000 then (Refused ''concurrent_run'', fs)
          else (Holding None, fs\<lparr>lf_lock := mine, lf_aside := cleared\<rparr>))"
  by (cases fs)
     (auto simp: acquire_run_lease_def eval_nat_numeral create_exclusive_def link_lock_def read_lease_def
       older_than_def retired_def same_lease_def Let_def lease_of_def grace_seconds_def
       split: option.split lease_file.split)

text \<open>
  Alone, an acquisition takes a free lock; it refuses and changes nothing when the lock holds an
  unexpired lease of a live process, or an unreadable lease younger than a lease can live; any other lock
  it replaces by its own lease, and when it could read what it replaced it leaves a marker with the
  reason and returns the interrupted run. It always ends.
\<close>

theorem engineer_lease_acquire:
  "acquire_run_lease alive p fs =
     (let mine = Some (Readable (lease_of p), lc_written p); cleared = (lf_aside fs)(lc_cycle p := None) in
      case lf_lock fs of
        None \<Rightarrow> (Holding None, fs\<lparr>lf_lock := mine\<rparr>)
      | Some (Readable l, m) \<Rightarrow>
          if lc_now p < lease_expires l \<and> alive (lease_pid l) then (Refused ''concurrent_run'', fs)
          else (let run = interrupted_of l (if lc_now p < lease_expires l
                  then ''process gone before its lease expired'' else ''lease expired without a record'') in
            (Holding (Some run),
             fs\<lparr>lf_lock := mine, lf_aside := cleared, lf_markers := lf_markers fs @ [(run, lc_cycle p)]\<rparr>))
      | Some (Unreadable, m) \<Rightarrow>
          if lc_now p - m \<le> (lc_max_runtime p + 300) * 1000000 then (Refused ''concurrent_run'', fs)
          else (Holding None, fs\<lparr>lf_lock := mine, lf_aside := cleared\<rparr>))"
  by (rule acquire_spec)

text \<open>
  Releasing gives back exactly one's own lease: after an acquisition that holds, the lock is free
  again; a lease of another cycle, an unreadable file and a missing one are left alone.
\<close>

theorem engineer_lease_release:
  "(case acquire_run_lease alive p fs of
      (Holding i, fs') \<Rightarrow> lf_lock (release_run_lease p fs') = None
    | (pc, fs') \<Rightarrow> fs' = fs)
   \<and> (case lf_lock fs of
        Some (Readable l, m) \<Rightarrow> (if lease_cycle l = lc_cycle p then lf_lock (release_run_lease p fs) = None
                                 else release_run_lease p fs = fs)
      | _ \<Rightarrow> release_run_lease p fs = fs)"
  by (cases fs)
     (auto simp: acquire_run_lease_def eval_nat_numeral create_exclusive_def link_lock_def read_lease_def
       older_than_def retired_def same_lease_def Let_def release_run_lease_def lease_of_def
       split: option.splits lease_file.split)

text \<open>
  A cycle that starts while a live cycle holds an unexpired lease ends with the refusal before it does
  anything: the files of the lease, the memory and the notifications are as they were, no executor was
  called and nothing is written.
\<close>

theorem engineer_lease_refused:
  assumes "in_lease C now = lease_answer alive p fs" "lc_now p = now" "in_clock C 0 = Aware t" "in_clock C 1 = Aware now"
    "lf_lock fs = Some (Readable l, m)" "now < lease_expires l" "alive (lease_pid l)"
  shows "snd (acquire_run_lease alive p fs) = fs
    \<and> (\<exists>s. run_cycle C db = (Inl (Internal_Failure ''RunLeaseError''), s) \<and> cs_memory s = db \<and> cs_calls s = []
        \<and> nf_records (cs_notifier s) = [] \<and> cs_persisted s = None)"
proof -
  have "acquire_run_lease alive p fs = (Refused ''concurrent_run'', fs)"
    using assms(2,5-7) by (simp add: acquire_spec Let_def)
  with assms(1,3,4) show ?thesis
    by (simp add: lease_answer_def run_cycle_def cyc_now_def clift_def new_notifier_def)
qed

section \<open>Two cycles\<close>

definition start_pcs :: "nat \<Rightarrow> nat \<Rightarrow> lease_pc" where
  "start_pcs n = (\<lambda>i. if i < n then Creating else Released)"

definition mine :: "lease_call \<Rightarrow> lease_file \<times> timestamp" where
  "mine p = (Readable (lease_of p), lc_written p)"

text \<open>A cycle owns the lock from its creation to its unlink.\<close>

definition owns :: "lease_pc \<Rightarrow> bool" where
  "owns pc \<longleftrightarrow> (\<exists>i. pc = Holding i) \<or> pc = Unlinking"

text \<open>
  The cycles of a run know each other: distinct identities, live processes, leases that outlive the times
  at which the others judge them, and no file of theirs at the start.
\<close>

definition lease_party :: "(int \<Rightarrow> bool) \<Rightarrow> (nat \<Rightarrow> lease_call) \<Rightarrow> nat \<Rightarrow> lease_fs \<Rightarrow> bool" where
  "lease_party alive P n fs \<longleftrightarrow> (\<forall>i<n. \<forall>j<n. i \<noteq> j \<longrightarrow> lc_cycle (P i) \<noteq> lc_cycle (P j))
     \<and> (\<forall>i<n. alive (lc_pid (P i))) \<and> (\<forall>i<n. \<forall>j<n. lc_now (P i) < lease_expires (lease_of (P j)))
     \<and> lf_aside fs = (\<lambda>_. None)
     \<and> (\<forall>l m i. i < n \<longrightarrow> lf_lock fs = Some (Readable l, m) \<longrightarrow> lease_cycle l \<noteq> lc_cycle (P i))"

text \<open>The invariant of two cycles \<open>i\<close> and \<open>j\<close>, one direction.\<close>

definition genuine :: "lease_call \<Rightarrow> (lease_file \<times> timestamp) option \<Rightarrow> bool" where
  "genuine p x \<longleftrightarrow> (\<forall>l m. x = Some (Readable l, m) \<longrightarrow> lease_cycle l = lc_cycle p \<longrightarrow> l = lease_of p)"

definition foreign_stale :: "lease_call \<Rightarrow> lease_pc \<Rightarrow> bool" where
  "foreign_stale p pc \<longleftrightarrow> (\<forall>l r. pc = Moving (Some l) r \<or> pc = Checking (Some l) r \<longrightarrow> lease_cycle l \<noteq> lc_cycle p)"

definition guarded :: "lease_call \<Rightarrow> lease_call \<Rightarrow> lease_pc \<Rightarrow> lease_pc \<Rightarrow> lease_fs \<Rightarrow> bool" where
  "guarded p q pc qc fs \<longleftrightarrow> (owns pc \<longrightarrow> lf_lock fs = Some (mine p)
     \<or> lf_lock fs = None \<and> lf_aside fs (lc_cycle q) = Some (mine p)
       \<and> (qc = Restoring \<or> (\<exists>stale r. qc = Checking stale r)))"

definition pair_inv :: "lease_call \<Rightarrow> lease_call \<Rightarrow> lease_pc \<Rightarrow> lease_pc \<Rightarrow> lease_fs \<Rightarrow> bool" where
  "pair_inv p q pc qc fs \<longleftrightarrow> guarded p q pc qc fs \<and> guarded q p qc pc fs \<and> \<not> (owns pc \<and> owns qc)
     \<and> foreign_stale p pc \<and> foreign_stale q pc \<and> foreign_stale p qc \<and> foreign_stale q qc
     \<and> (\<forall>x. x \<in> {lf_lock fs, lf_aside fs (lc_cycle p), lf_aside fs (lc_cycle q)} \<longrightarrow> genuine p x \<and> genuine q x)"

lemma pair_inv_sym: "pair_inv p q pc qc fs = pair_inv q p qc pc fs"
  by (auto simp: pair_inv_def)

lemma lease_of_cycle [simp]: "lease_cycle (lease_of p) = lc_cycle p" "lease_pid (lease_of p) = lc_pid p"
  by (simp_all add: lease_of_def)

definition asiding :: "lease_pc \<Rightarrow> bool" where
  "asiding pc \<longleftrightarrow> pc = Restoring \<or> (\<exists>stale r. pc = Checking stale r)"

lemma pair_inv_alt:
  "pair_inv p q pc qc fs \<longleftrightarrow>
     (owns pc \<longrightarrow> lf_lock fs = Some (mine p) \<or> lf_lock fs = None \<and> lf_aside fs (lc_cycle q) = Some (mine p) \<and> asiding qc)
     \<and> (owns qc \<longrightarrow> lf_lock fs = Some (mine q) \<or> lf_lock fs = None \<and> lf_aside fs (lc_cycle p) = Some (mine q) \<and> asiding pc)
     \<and> \<not> (owns pc \<and> owns qc)
     \<and> foreign_stale p pc \<and> foreign_stale q pc \<and> foreign_stale p qc \<and> foreign_stale q qc
     \<and> genuine p (lf_lock fs) \<and> genuine q (lf_lock fs)
     \<and> genuine p (lf_aside fs (lc_cycle p)) \<and> genuine q (lf_aside fs (lc_cycle p))
     \<and> genuine p (lf_aside fs (lc_cycle q)) \<and> genuine q (lf_aside fs (lc_cycle q))"
  by (auto simp: pair_inv_def guarded_def asiding_def)

text \<open>A step that only moves the program counter.\<close>

lemma pair_inv_quiet:
  assumes "pair_inv p q pc qc fs" "\<not> owns pc'" "foreign_stale p pc'" "foreign_stale q pc'" "owns qc \<and> asiding pc \<Longrightarrow> asiding pc'"
  shows "pair_inv p q pc' qc fs"
  using assms by (auto simp: pair_inv_alt)

lemma owns_simps [simp]: "owns (Holding i)" "owns Unlinking" "\<not> owns Creating" "\<not> owns Reading" "\<not> owns Aging"
  "\<not> owns (Moving s r)" "\<not> owns (Checking s r)" "\<not> owns (Cleaning s r)" "\<not> owns Restoring" "\<not> owns Dropping"
  "\<not> owns (Marking l r)" "\<not> owns (Recreating i)" "\<not> owns Released" "\<not> owns (Refused c)"
  by (simp_all add: owns_def)

lemma asiding_simps [simp]: "asiding Restoring" "asiding (Checking s r)" "\<not> asiding Creating" "\<not> asiding Reading"
  "\<not> asiding Aging" "\<not> asiding (Moving s r)" "\<not> asiding (Cleaning s r)" "\<not> asiding Dropping"
  "\<not> asiding (Marking l r)" "\<not> asiding (Recreating i)" "\<not> asiding Released" "\<not> asiding (Refused c)"
  "\<not> asiding (Holding i)" "\<not> asiding Unlinking"
  by (simp_all add: asiding_def)

lemma foreign_simps [simp]: "foreign_stale p Creating" "foreign_stale p Reading" "foreign_stale p Aging"
  "foreign_stale p (Cleaning s r)" "foreign_stale p Restoring" "foreign_stale p Dropping" "foreign_stale p (Marking l r)"
  "foreign_stale p (Recreating i)" "foreign_stale p Released" "foreign_stale p (Refused c)" "foreign_stale p (Holding i)"
  "foreign_stale p Unlinking" "foreign_stale p (Moving None r)" "foreign_stale p (Checking None r)"
  "foreign_stale p (Moving (Some l) r) \<longleftrightarrow> lease_cycle l \<noteq> lc_cycle p"
  "foreign_stale p (Checking (Some l) r) \<longleftrightarrow> lease_cycle l \<noteq> lc_cycle p"
  by (simp_all add: foreign_stale_def)

lemma genuine_simps [simp]: "genuine p None" "genuine p (Some (mine p))" "lc_cycle q \<noteq> lc_cycle p \<Longrightarrow> genuine p (Some (mine q))"
  by (auto simp: genuine_def mine_def)

lemma retired_simps [simp]: "\<not> owns (retired s r)" "foreign_stale p (retired s r)" "\<not> asiding (retired s r)"
  by (auto simp: retired_def split: option.split)

text \<open>The two steps that create.\<close>

lemma pair_inv_create:
  assumes "pair_inv p q pc qc fs" "lc_cycle p \<noteq> lc_cycle q" "\<not> asiding pc" "lf_lock fs = None"
  shows "pair_inv p q (Holding i) qc (fs\<lparr>lf_lock := Some (mine p)\<rparr>)"
  using assms by (auto simp: pair_inv_alt)

text \<open>What a cycle reads as stale is neither its own lease nor the other's.\<close>

lemma stale_foreign:
  assumes "pair_inv p q pc qc fs" "read_lease (lf_lock fs) = Some l"
    "\<not> (lc_now p < lease_expires l \<and> alive (lease_pid l))"
    "alive (lc_pid p)" "alive (lc_pid q)" "lc_now p < lease_expires (lease_of p)" "lc_now p < lease_expires (lease_of q)"
  shows "lease_cycle l \<noteq> lc_cycle p \<and> lease_cycle l \<noteq> lc_cycle q"
proof -
  obtain m where lock: "lf_lock fs = Some (Readable l, m)"
    using assms(2) by (auto simp: read_lease_def split: option.splits lease_file.splits)
  have "genuine p (lf_lock fs)" "genuine q (lf_lock fs)" using assms(1) by (simp_all add: pair_inv_alt)
  then have "lease_cycle l = lc_cycle p \<Longrightarrow> l = lease_of p" "lease_cycle l = lc_cycle q \<Longrightarrow> l = lease_of q"
    using lock unfolding genuine_def by blast+
  with assms(3-7) show ?thesis by fastforce
qed

lemma mine_not_same:
  assumes "foreign_stale q (Checking stale r)"
  shows "\<not> same_lease (read_lease (Some (mine q))) stale"
  using assms by (auto simp: same_lease_def read_lease_def mine_def split: option.splits)

lemma pair_inv_step:
  assumes inv: "pair_inv p q pc qc fs" and distinct: "lc_cycle p \<noteq> lc_cycle q"
    and live: "alive (lc_pid p)" "alive (lc_pid q)"
      "lc_now p < lease_expires (lease_of p)" "lc_now p < lease_expires (lease_of q)"
    and step: "lease_step alive p pc fs = (pc', fs')"
  shows "pair_inv p q pc' qc fs'"
proof (cases pc)
  case Creating
  with step inv show ?thesis
    using pair_inv_create [OF inv distinct] pair_inv_quiet [OF inv]
    by (auto simp: create_exclusive_def link_lock_def mine_def split: option.splits)
next
  case Reading
  show ?thesis
  proof (cases "read_lease (lf_lock fs)")
    case None
    with step Reading show ?thesis using pair_inv_quiet [OF inv] by auto
  next
    case (Some l)
    with step Reading pair_inv_quiet [OF inv] stale_foreign [OF inv Some _ live] show ?thesis
      by (auto split: if_splits)
  qed
next
  case Aging
  with step pair_inv_quiet [OF inv] show ?thesis by (auto split: if_splits)
next
  case (Moving stale reason)
  show ?thesis
  proof (cases "lf_lock fs")
    case None
    with step Moving pair_inv_quiet [OF inv] show ?thesis by auto
  next
    case (Some f)
    with step Moving have "pc' = Checking stale reason"
      "fs' = fs\<lparr>lf_lock := None, lf_aside := (lf_aside fs)(lc_cycle p := Some f)\<rparr>" by simp_all
    with inv Moving Some distinct show ?thesis by (auto simp: pair_inv_alt foreign_stale_def)
  qed
next
  case (Checking stale reason)
  show ?thesis
  proof (cases "same_lease (read_lease (lf_aside fs (lc_cycle p))) stale")
    case True
    with inv Checking mine_not_same [of q stale reason] have "\<not> owns qc \<or> lf_lock fs = Some (mine q)"
      by (auto simp: pair_inv_alt)
    with True step Checking inv show ?thesis by (auto simp: pair_inv_alt)
  next
    case False
    with step Checking pair_inv_quiet [OF inv] show ?thesis by auto
  qed
next
  case (Cleaning stale reason)
  with step inv distinct show ?thesis by (auto simp: pair_inv_alt)
next
  case Restoring
  show ?thesis
  proof (cases "lf_aside fs (lc_cycle p)")
    case None
    with step Restoring inv show ?thesis by (auto simp: pair_inv_alt)
  next
    case (Some f)
    with step Restoring inv show ?thesis
      by (cases "lf_lock fs") (auto simp: pair_inv_alt link_lock_def)
  qed
next
  case Dropping
  with step inv distinct show ?thesis by (auto simp: pair_inv_alt)
next
  case (Marking l reason)
  with step inv show ?thesis by (auto simp: pair_inv_alt)
next
  case (Recreating i)
  with step inv show ?thesis
    using pair_inv_create [OF inv distinct] pair_inv_quiet [OF inv]
    by (auto simp: create_exclusive_def link_lock_def mine_def split: option.splits)
next
  case (Holding i)
  with step inv show ?thesis by (auto simp: pair_inv_alt split: option.splits if_splits)
next
  case Unlinking
  with step inv show ?thesis by (auto simp: pair_inv_alt)
next
  case Released
  with step inv show ?thesis by simp
next
  case (Refused code)
  with step inv show ?thesis by simp
qed

definition two_inv :: "(nat \<Rightarrow> lease_call) \<Rightarrow> (nat \<Rightarrow> lease_pc) \<times> lease_fs \<Rightarrow> bool" where
  "two_inv P s \<longleftrightarrow> (case s of (pcs, fs) \<Rightarrow> pair_inv (P 0) (P 1) (pcs 0) (pcs 1) fs \<and> (\<forall>i\<ge>2. pcs i = Released))"

lemma two_inv_step:
  assumes "lease_system alive P s t" "two_inv P s" "lease_party alive P 2 fs0"
  shows "two_inv P t"
proof -
  obtain pcs fs where s: "s = (pcs, fs)" by force
  from assms(1) obtain i pc fs' where step: "lease_step alive (P i) (pcs i) fs = (pc, fs')" "t = (pcs(i := pc), fs')"
    unfolding s by (rule lease_systemE)
  have party: "lc_cycle (P 0) \<noteq> lc_cycle (P 1)" "lc_cycle (P 1) \<noteq> lc_cycle (P 0)"
    "alive (lc_pid (P 0))" "alive (lc_pid (P 1))"
    "lc_now (P 0) < lease_expires (lease_of (P 0))" "lc_now (P 0) < lease_expires (lease_of (P 1))"
    "lc_now (P 1) < lease_expires (lease_of (P 0))" "lc_now (P 1) < lease_expires (lease_of (P 1))"
    using assms(3) by (auto simp: lease_party_def)
  have inv: "pair_inv (P 0) (P 1) (pcs 0) (pcs 1) fs" "pair_inv (P 1) (P 0) (pcs 1) (pcs 0) fs"
    and idle: "\<forall>i\<ge>2. pcs i = Released"
    using assms(2) s pair_inv_sym by (auto simp: two_inv_def)
  consider "i = 0" | "i = 1" | "i \<ge> 2" by linarith
  then show ?thesis
  proof cases
    case 1
    have "pair_inv (P 0) (P 1) pc (pcs 1) fs'"
      by (rule pair_inv_step [OF inv(1) party(1,3,4,5,6)]) (use step 1 in simp)
    with step(2) idle 1 show ?thesis by (simp add: two_inv_def)
  next
    case 2
    have "pair_inv (P 1) (P 0) pc (pcs 0) fs'"
      by (rule pair_inv_step [OF inv(2) party(2,4,3,8,7)]) (use step 2 in simp)
    then have "pair_inv (P 0) (P 1) (pcs 0) pc fs'" by (subst pair_inv_sym)
    with step(2) idle 2 show ?thesis by (simp add: two_inv_def)
  next
    case 3
    with step inv(1) idle show ?thesis by (auto simp: two_inv_def)
  qed
qed

lemma two_inv_start:
  assumes "lease_party alive P 2 fs"
  shows "two_inv P (start_pcs 2, fs)"
proof -
  have "genuine (P i) (lf_lock fs)" if "i < 2" for i
    using assms that unfolding lease_party_def genuine_def by blast
  then show ?thesis using assms by (auto simp: two_inv_def pair_inv_alt start_pcs_def lease_party_def)
qed

text \<open>
  C18: Whatever the lock holds at the start (nothing, a stale or a live lease, an unreadable file), two
  cycles that acquire, run and release in any interleaving of their file operations never hold the lease
  at the same time, as long as neither outlives its lease.
\<close>

theorem engineer_lease_two_cycles:
  assumes "lease_party alive P 2 fs" "(lease_system alive P)\<^sup>*\<^sup>* (start_pcs 2, fs) (pcs, fs')"
  shows "\<nexists>a b. pcs 0 = Holding a \<and> pcs 1 = Holding b"
proof -
  have "two_inv P (pcs, fs')"
    using assms(2) two_inv_start [OF assms(1)]
    by (induction rule: rtranclp_induct) (auto dest: two_inv_step [OF _ _ assms(1)])
  then show ?thesis by (auto simp: two_inv_def pair_inv_alt)
qed

section \<open>Three cycles\<close>

text \<open>A schedule is the list of the cycles that move.\<close>

fun run_schedule ::
  "(int \<Rightarrow> bool) \<Rightarrow> (nat \<Rightarrow> lease_call) \<Rightarrow> nat list \<Rightarrow> (nat \<Rightarrow> lease_pc) \<times> lease_fs \<Rightarrow> (nat \<Rightarrow> lease_pc) \<times> lease_fs" where
  "run_schedule alive P [] s = s"
| "run_schedule alive P (i # is) (pcs, fs) =
     (case lease_step alive (P i) (pcs i) fs of (pc, fs') \<Rightarrow> run_schedule alive P is (pcs(i := pc), fs'))"

lemma run_schedule_reaches: "(lease_system alive P)\<^sup>*\<^sup>* s (run_schedule alive P is s)"
proof (induction "is" arbitrary: s)
  case (Cons i "is")
  obtain pcs fs where s: "s = (pcs, fs)" by force
  obtain pc fs' where step: "lease_step alive (P i) (pcs i) fs = (pc, fs')" by force
  then have "lease_system alive P s (pcs(i := pc), fs')" unfolding s by (rule lease_system.step)
  with Cons [of "(pcs(i := pc), fs')"] step s show ?case by (simp add: converse_rtranclp_into_rtranclp)
qed simp

text \<open>
  C19: With three cycles exclusion is lost, although every lease that is taken belongs to a live process and
  has not expired: over a stale lease, two cycles judge it stale; the first recovers it and holds; the
  second moves the fresh lease aside before it finds that it is not the stale one; in between a third
  creates the lock and holds as well. So recovering cycles can take away each other's fresh lease.
\<close>

theorem engineer_lease_three_cycles:
  assumes "lease_party alive P 3 fs" "lf_lock fs = Some (Readable stale, m)" "\<not> alive (lease_pid stale)"
  shows "\<exists>pcs fs' a b. (lease_system alive P)\<^sup>*\<^sup>* (start_pcs 3, fs) (pcs, fs')
    \<and> pcs 0 = Holding a \<and> pcs 2 = Holding b"
proof -
  let ?schedule = "[0, 0, 1, 1, 0, 0, 0, 0, 0, 1, 2]"
  have "lc_cycle (P 0) \<noteq> lc_cycle (P 1)" using assms(1) unfolding lease_party_def by force
  with assms(2,3) have "\<exists>a b. fst (run_schedule alive P ?schedule (start_pcs 3, fs)) 0 = Holding a
      \<and> fst (run_schedule alive P ?schedule (start_pcs 3, fs)) 2 = Holding b"
    by (auto simp: start_pcs_def create_exclusive_def link_lock_def read_lease_def same_lease_def retired_def)
  then show ?thesis
    using run_schedule_reaches [of alive P "(start_pcs 3, fs)" ?schedule] by (metis prod.collapse)
qed

section \<open>Concrete cycles\<close>

definition demo_call :: "nat \<Rightarrow> lease_call" where
  "demo_call i = \<lparr>lc_cycle = i + 1, lc_now = 10, lc_max_runtime = 600, lc_pid = int i + 10, lc_written = 10\<rparr>"

definition demo_stale :: run_lease where
  "demo_stale = \<lparr>lease_cycle = 99, lease_started = 0, lease_expires = 900, lease_pid = 1\<rparr>"

definition demo_lock :: lease_fs where
  "demo_lock = \<lparr>lf_lock = Some (Readable demo_stale, 0), lf_aside = (\<lambda>_. None), lf_markers = []\<rparr>"

definition demo_alive :: "int \<Rightarrow> bool" where
  "demo_alive pid \<longleftrightarrow> 10 \<le> pid"

lemma demo_party: "n \<le> 3 \<Longrightarrow> lease_party demo_alive demo_call n demo_lock"
  by (auto simp: lease_party_def demo_alive_def demo_call_def demo_lock_def demo_stale_def lease_of_def grace_seconds_def)

lemma engineer_lease_two_cycles_witness:
  "\<exists>pcs fs' a. run_schedule demo_alive demo_call [0, 0, 1, 1, 0, 0, 0, 0, 0, 1] (start_pcs 2, demo_lock) = (pcs, fs')
     \<and> pcs 0 = Holding a \<and> lf_lock fs' = None \<and> (\<nexists>b. pcs 1 = Holding b)"
proof -
  obtain pcs fs' where run: "run_schedule demo_alive demo_call [0, 0, 1, 1, 0, 0, 0, 0, 0, 1] (start_pcs 2, demo_lock) = (pcs, fs')"
    by force
  then have "\<exists>a. pcs 0 = Holding a" "lf_lock fs' = None"
    by (auto simp: start_pcs_def create_exclusive_def link_lock_def read_lease_def same_lease_def retired_def
        demo_lock_def demo_stale_def demo_alive_def demo_call_def)
  moreover have "\<nexists>a b. pcs 0 = Holding a \<and> pcs 1 = Holding b"
    using run_schedule_reaches [of demo_alive demo_call "(start_pcs 2, demo_lock)" "[0, 0, 1, 1, 0, 0, 0, 0, 0, 1]"] run
      engineer_lease_two_cycles [OF demo_party [of 2]] by simp
  ultimately show ?thesis using run by auto
qed

lemma engineer_lease_three_cycles_witness:
  "\<exists>pcs fs' a b. (lease_system demo_alive demo_call)\<^sup>*\<^sup>* (start_pcs 3, demo_lock) (pcs, fs')
     \<and> pcs 0 = Holding a \<and> pcs 2 = Holding b"
  by (rule engineer_lease_three_cycles [OF demo_party [of 3], where stale = demo_stale and m = 0])
     (simp_all add: demo_lock_def demo_stale_def demo_alive_def)

lemma engineer_lease_refused_witness:
  "\<exists>s. run_cycle ((demo_cycle int)\<lparr>in_lease := (\<lambda>now. lease_answer (\<lambda>_. True) ((demo_call 0)\<lparr>lc_now := now\<rparr>) demo_lock)\<rparr>) []
     = (Inl (Internal_Failure ''RunLeaseError''), s) \<and> cs_persisted s = None"
  using engineer_lease_refused [of "(demo_cycle int)\<lparr>in_lease := (\<lambda>now. lease_answer (\<lambda>_. True) ((demo_call 0)\<lparr>lc_now := now\<rparr>) demo_lock)\<rparr>"
      1 "\<lambda>_. True" "(demo_call 0)\<lparr>lc_now := 1\<rparr>" demo_lock 0 demo_stale 0 "[]"]
  by (auto simp: demo_cycle_def demo_lock_def demo_stale_def)

end
