(* ===== verification/EngineerPublish.thy ===== *)
theory EngineerPublish
  imports EngineerReview EngineerReport
begin

text \<open>
  Publishing a change as a draft pull request (\<open>src/nexus/software_engineer/publish.py\<close>): the bundle that
  is read back from the validated branch, the text of the pull request, and the GitHub publisher, request
  by request, against a server of which nothing is assumed.

  Git, the server, the clock and the token of the environment are arguments. \<open>gh_answer\<close> gives the reply to
  the last request of a history, so the server may keep any state. \<open>gh_calls\<close> is the list
  \<open>_GitHubSession.calls\<close> with the payloads. Details of an error message are left out, the codes are kept.
  A PublishError is \<open>Publish_Error code\<close>, any other exception \<open>Crash name\<close>.
\<close>

section \<open>Bundles and submissions\<close>

datatype publish_exn = Publish_Error string | Crash string

record file_entry =
  entry_path :: ustr
  entry_mode :: string
  blob_sha :: ustr
  entry_content :: "string option"

record change_bundle =
  bundle_base_sha :: ustr
  bundle_tree_sha :: ustr
  bundle_commit_sha :: ustr
  bundle_message :: ustr
  author_name :: ustr
  author_email :: ustr
  authored_at :: ustr
  bundle_entries :: "file_entry list"

definition content_bytes :: "change_bundle \<Rightarrow> nat" where
  "content_bytes b = sum_list (map (\<lambda>e. case entry_content e of None \<Rightarrow> 0 | Some c \<Rightarrow> length c) (bundle_entries b))"

record publish_submission =
  sub_bundle :: change_bundle
  sub_branch :: ustr
  sub_title :: ustr
  sub_body :: ustr
  sub_cycle_id :: uuid
  sub_diff_sha256 :: string
  sub_published_by :: actor_identity
  sub_authority :: publication_authority
  sub_request_id :: "uuid option"
  sub_decision_id :: "uuid option"
  allow_moved_base :: bool

definition max_bundle_files :: nat where "max_bundle_files = 1000"
definition max_file_bytes :: nat where "max_file_bytes = 1000000"
definition max_bundle_bytes :: nat where "max_bundle_bytes = 5000000"

section \<open>Reading the bundle back from Git\<close>

text \<open>
  The questions that \<open>bundle_from_branch\<close> asks Git about its clone, and the tree that the patch gives on the
  base. No answer is a \<open>GitCommandError\<close>.
\<close>

datatype git_query =
  Rev_Parent ustr | Rev_Tree ustr | Commit_Meta ustr | Changed_Paths ustr ustr | Ls_Tree ustr ustr

record publish_env = report_env +
  git_text :: "git_query \<Rightarrow> ustr option"
  git_blob :: "ustr \<Rightarrow> string option"
  git_rederive :: "ustr \<Rightarrow> string \<Rightarrow> publish_exn + ustr"
  normal_iso :: "ustr \<Rightarrow> ustr option"
  iso_instant :: "ustr \<Rightarrow> int option"
  pub_isoformat :: "timestamp \<Rightarrow> string"

definition git_ask :: "('a publish_env_scheme) \<Rightarrow> git_query \<Rightarrow> publish_exn + ustr" where
  "git_ask T q = (case git_text T q of None \<Rightarrow> Inl (Publish_Error ''bundle_git_failed'') | Some s \<Rightarrow> Inr s)"

text \<open>\<open>^[a-f0-9]{40}$\<close>: Python's \<open>$\<close> also matches before a final newline.\<close>

definition hex_sha :: "ustr \<Rightarrow> bool" where
  "hex_sha s = (let t = (if s \<noteq> [] \<and> last s = 10 then butlast s else s) in
     length t = 40 \<and> list_all (\<lambda>c. 97 \<le> c \<and> c \<le> 102 \<or> 48 \<le> c \<and> c \<le> 57) t)"

text \<open>\<open>str.split()\<close>: the maximal runs without whitespace.\<close>

definition py_space :: "nat \<Rightarrow> bool" where
  "py_space c \<longleftrightarrow> 9 \<le> c \<and> c \<le> 13 \<or> 28 \<le> c \<and> c \<le> 32 \<or> c \<in> set [133, 160, 5760, 8232, 8233, 8239, 8287, 12288]
     \<or> 8192 \<le> c \<and> c \<le> 8202"

fun py_words_acc :: "ustr \<Rightarrow> ustr \<Rightarrow> ustr list" where
  "py_words_acc w [] = (if w = [] then [] else [w])"
| "py_words_acc w (c # cs) =
     (if py_space c then (if w = [] then py_words_acc [] cs else w # py_words_acc [] cs)
      else py_words_acc (w @ [c]) cs)"

definition py_words :: "ustr \<Rightarrow> ustr list" where
  "py_words s = py_words_acc [] s"

text \<open>\<open>isdigit\<close> and \<open>int\<close> of the sizes Git prints (ASCII digits).\<close>

definition decimal :: "ustr \<Rightarrow> bool" where
  "decimal s \<longleftrightarrow> s \<noteq> [] \<and> list_all (\<lambda>c. 48 \<le> c \<and> c \<le> 57) s"

definition decimal_value :: "ustr \<Rightarrow> nat" where
  "decimal_value s = fold (\<lambda>c n. 10 * n + (c - 48)) s 0"

text \<open>\<open>partition\<close> at a separator: what is before it and after it.\<close>

definition before_sep :: "nat \<Rightarrow> ustr \<Rightarrow> ustr" where
  "before_sep x s = takeWhile (\<lambda>c. c \<noteq> x) s"

definition after_sep :: "nat \<Rightarrow> ustr \<Rightarrow> ustr" where
  "after_sep x s = drop 1 (dropWhile (\<lambda>c. c \<noteq> x) s)"

text \<open>One changed path; \<open>used\<close> counts the bytes so far.\<close>

definition allowed_mode :: "ustr \<Rightarrow> bool" where
  "allowed_mode m \<longleftrightarrow> m = lit ''100644'' \<or> m = lit ''100755''"

definition path_entry ::
  "('a publish_env_scheme) \<Rightarrow> ustr \<Rightarrow> nat \<Rightarrow> ustr \<Rightarrow> ustr \<Rightarrow> publish_exn + file_entry \<times> nat" where
  "path_entry T commit used status path =
     (if status = lit ''D''
        then Inr (\<lparr>entry_path = path, entry_mode = ''100644'', blob_sha = replicate 40 48, entry_content = None\<rparr>, used)
      else if status \<noteq> lit ''A'' \<and> status \<noteq> lit ''M'' then Inl (Publish_Error ''bundle_unsupported_change'')
      else rbind (git_ask T (Ls_Tree commit path)) (\<lambda>listing.
        let row = before_sep 0 listing in
        case py_words (before_sep 9 row) of
          [mode, kind, sha, size_text] \<Rightarrow>
            if after_sep 9 row \<noteq> path \<or> kind \<noteq> lit ''blob'' then Inl (Publish_Error ''bundle_unsupported_entry'')
            else if \<not> allowed_mode mode \<or> \<not> hex_sha sha \<or> \<not> decimal size_text
              then Inl (Publish_Error ''bundle_unsupported_mode'')
            else if decimal_value size_text > max_file_bytes then Inl (Publish_Error ''bundle_file_too_large'')
            else if used + decimal_value size_text > max_bundle_bytes then Inl (Publish_Error ''bundle_too_large'')
            else (case git_blob T sha of
                None \<Rightarrow> Inl (Publish_Error ''bundle_git_failed'')
              | Some content \<Rightarrow>
                  if length content \<noteq> decimal_value size_text then Inl (Publish_Error ''bundle_blob_mismatch'')
                  else Inr (\<lparr>entry_path = path, entry_mode = (if mode = lit ''100644'' then ''100644'' else ''100755''),
                              blob_sha = sha, entry_content = Some content\<rparr>, used + decimal_value size_text))
        | _ \<Rightarrow> Inl (Publish_Error ''bundle_unsupported_entry'')))"

fun path_entries ::
  "('a publish_env_scheme) \<Rightarrow> ustr \<Rightarrow> nat \<Rightarrow> (ustr \<times> ustr) list \<Rightarrow> publish_exn + file_entry list" where
  "path_entries T commit used [] = Inr []"
| "path_entries T commit used ((status, path) # pairs) =
     rbind (path_entry T commit used status path) (\<lambda>(e, used').
     rbind (path_entries T commit used' pairs) (\<lambda>es. Inr (e # es)))"

fun paired :: "'a list \<Rightarrow> ('a \<times> 'a) list" where
  "paired (x # y # zs) = (x, y) # paired zs"
| "paired _ = []"

definition entries_of :: "('a publish_env_scheme) \<Rightarrow> ustr \<Rightarrow> ustr \<Rightarrow> publish_exn + file_entry list" where
  "entries_of T commit status_output =
     (let tokens = filter (\<lambda>t. t \<noteq> []) (split_on 0 status_output); pairs = paired tokens in
      if odd (length tokens) then Inl (Publish_Error ''bundle_status_unreadable'')
      else if pairs = [] then Inl (Publish_Error ''bundle_empty'')
      else if length pairs > max_bundle_files then Inl (Publish_Error ''bundle_too_many_files'')
      else rbind (path_entries T commit 0 pairs) (\<lambda>es. Inr (sort_key entry_path es)))"

text \<open>\<open>split("\\x00", 3)\<close> of the commit's metadata: author, address, date and the rest.\<close>

definition normalize_iso8601 :: "('a publish_env_scheme) \<Rightarrow> ustr \<Rightarrow> publish_exn + ustr" where
  "normalize_iso8601 T v = (case normal_iso T (strip T v) of
     None \<Rightarrow> Inl (Publish_Error ''bundle_metadata_unreadable'') | Some s \<Rightarrow> Inr s)"

definition default_message :: ustr where
  "default_message = lit ''Change produced by the NEXUS resident engineer''"

definition bundle_from_branch ::
  "('a publish_env_scheme) \<Rightarrow> ustr \<Rightarrow> ustr \<Rightarrow> string \<Rightarrow> publish_exn + change_bundle" where
  "bundle_from_branch T base commit patch =
     (if \<not> hex_sha base \<or> \<not> hex_sha commit then Inl (Publish_Error ''bundle_invalid_sha'')
      else rbind (git_ask T (Rev_Parent commit)) (\<lambda>parent.
        if strip T parent \<noteq> base then Inl (Publish_Error ''bundle_parent_mismatch'')
        else rbind (git_ask T (Rev_Tree commit)) (\<lambda>tree_text.
        rbind (git_rederive T base patch) (\<lambda>derived.
        if derived \<noteq> strip T tree_text then Inl (Publish_Error ''bundle_tree_mismatch'')
        else rbind (git_ask T (Commit_Meta commit)) (\<lambda>meta.
        case split_on 0 meta of
          name # email # date # rest \<Rightarrow>
            if rest = [] then Inl (Publish_Error ''bundle_metadata_unreadable'')
            else rbind (git_ask T (Changed_Paths base commit)) (\<lambda>status_output.
              rbind (entries_of T commit status_output) (\<lambda>es.
              rbind (normalize_iso8601 T date) (\<lambda>authored.
              let message = strip T (join_with [0] rest) in
              Inr \<lparr>bundle_base_sha = base, bundle_tree_sha = strip T tree_text, bundle_commit_sha = commit,
                   bundle_message = (if message = [] then default_message else message),
                   author_name = name, author_email = email, authored_at = authored, bundle_entries = es\<rparr>)))
        | _ \<Rightarrow> Inl (Publish_Error ''bundle_metadata_unreadable''))))))"

section \<open>The text of the pull request\<close>

definition max_title_chars :: nat where "max_title_chars = 200"
definition max_body_chars :: nat where "max_body_chars = 20000"

text \<open>Every fence of the approval request is replaced by quotes, leftmost first (\<open>str.replace\<close>).\<close>

fun soften_fences :: "ustr \<Rightarrow> ustr" where
  "soften_fences (a # b # c # s) =
     (if a = 96 \<and> b = 96 \<and> c = 96 then 39 # 39 # 39 # soften_fences s else a # soften_fences (b # c # s))"
| "soften_fences s = s"

definition authority_line :: "('a publish_env_scheme) \<Rightarrow> owner_decision option \<Rightarrow> ustr" where
  "authority_line T decision = (case decision of
     Some d \<Rightarrow> lit (''Owner decision: '' @ upper_ascii (verdict_value (verdict d)) @ '' by '' @ actor_id (decision_by d)
         @ '' via '' @ channel_value (decision_channel d) @ '' at '' @ pub_isoformat T (decision_at d)
         @ '' (decision '' @ uuid_str (decision_id d) @ ''). Reason: '') @ decision_reason d
   | None \<Rightarrow> lit (''Opened autonomously in autonomous_low_risk mode: LOW risk, every gate passed, ''
         @ ''self-review clean. No human has approved this change yet.''))"

definition gate_line :: "gate_result \<Rightarrow> ustr" where
  "gate_line g = lit (''- '' @ gate_value (gate g) @ '': '' @ gate_status_value (gate_status g)
     @ (case gate_evidence g of None \<Rightarrow> [] | Some e \<Rightarrow> if e = [] then [] else '' (evidence sha256 '' @ e @ '')''))"

definition evidence_lines :: "change_summary \<Rightarrow> ustr list" where
  "evidence_lines k =
     [lit (''- diff sha256: '' @ diff_sha256 k), lit (''- base commit: '' @ change_base_sha k)]
     @ (case patch_result_sha256 k of None \<Rightarrow> [] | Some x \<Rightarrow> if x = [] then []
          else [lit (''- PatchForge result sha256: '' @ x)])
     @ (case sentinel_verdict_sha256 k of None \<Rightarrow> [] | Some x \<Rightarrow> if x = [] then []
          else [lit (''- SentinelQA verdict sha256: '' @ x)])"

definition pull_request_lines ::
  "('a publish_env_scheme) \<Rightarrow> engineering_candidate \<Rightarrow> change_summary \<Rightarrow> gate_result list
     \<Rightarrow> approval_request option \<Rightarrow> owner_decision option \<Rightarrow> uuid \<Rightarrow> ustr list" where
  "pull_request_lines T c k gates request decision cid =
     [lit (''Draft pull request opened by the NEXUS resident Software Engineer. It never merges: ''
        @ ''a human reviews, and CI on this pull request is the current-base validation.''),
      [], lit (''Cycle: '' @ uuid_str cid),
      lit (''Candidate: '' @ uuid_str (candidate_id c) @ '' ('' @ category_value (candidate_category c) @ '')''),
      authority_line T decision, [], lit ''## Validation on the candidate base'',
      (if gates = [] then lit ''- no gates recorded'' else lines (map gate_line gates)),
      [], lit ''## Evidence''] @ evidence_lines k
     @ (case request of None \<Rightarrow> []
        | Some q \<Rightarrow> [[], lit ''## Approval request as sent to the owner'', [], replicate 3 96 @ lit ''text'',
                     soften_fences (render_approval_request q), replicate 3 96])"

definition rstrip :: "ustr \<Rightarrow> ustr" where
  "rstrip s = rev (dropWhile py_space (rev s))"

definition cut_body :: "ustr \<Rightarrow> ustr" where
  "cut_body body = (if length body > max_body_chars
     then rstrip (take (max_body_chars - 20) body) @ [10] @ lit ''[truncated]'' @ [10] @ replicate 3 96 else body)"

definition render_pull_request ::
  "('a publish_env_scheme) \<Rightarrow> engineering_candidate \<Rightarrow> change_summary \<Rightarrow> gate_result list
     \<Rightarrow> approval_request option \<Rightarrow> owner_decision option \<Rightarrow> uuid \<Rightarrow> publish_exn + ustr \<times> ustr" where
  "render_pull_request T c k gates request decision cid =
     (case splitlines (strip T (candidate_title c)) of
        [] \<Rightarrow> Inl (Crash ''IndexError'')
      | first # _ \<Rightarrow>
          let title = take max_title_chars first;
              body = cut_body (lines (pull_request_lines T c k gates request decision cid)) in
          if contains_credential T title \<or> contains_credential T body then Inl (Publish_Error ''secret_blocked'')
          else Inr (title, body))"

section \<open>The GitHub server\<close>

text \<open>The requests of the publisher, with what they carry.\<close>

datatype gh_call =
  Get_Repo | Get_Head ustr | Get_Commit ustr | Get_Branch ustr
| Post_Blob string | Post_Tree ustr "(ustr \<times> string \<times> ustr option) list"
| Post_Commit ustr ustr "ustr list" ustr ustr ustr | Post_Ref ustr ustr
| Post_Pull ustr ustr ustr ustr bool | Close_Pull int | Delete_Ref ustr

datatype gh_reply = No_Response | Response int bool "json option"

record gh_world =
  gh_answer :: "gh_call list \<Rightarrow> gh_reply"
  gh_repository :: ustr
  gh_token :: ustr
  gh_token_char :: "nat \<Rightarrow> bool"
  gh_clock :: clock_value

record gh_session =
  gh_calls :: "gh_call list"
  created_ref :: "ustr option"

type_synonym 'a gh = "gh_session \<Rightarrow> (publish_exn + 'a) \<times> gh_session"
type_synonym payload = "(ustr \<times> json) list"

definition gret :: "'a \<Rightarrow> 'a gh" where "gret a = (\<lambda>s. (Inr a, s))"
definition graise :: "publish_exn \<Rightarrow> 'a gh" where "graise e = (\<lambda>s. (Inl e, s))"

definition gbind :: "'a gh \<Rightarrow> ('a \<Rightarrow> 'b gh) \<Rightarrow> 'b gh" where
  "gbind m f = (\<lambda>s. case m s of (Inl e, s') \<Rightarrow> (Inl e, s') | (Inr a, s') \<Rightarrow> f a s')"

definition gguard :: "bool \<Rightarrow> string \<Rightarrow> unit gh" where
  "gguard bad code = (if bad then graise (Publish_Error code) else gret ())"

definition glift :: "publish_exn + 'a \<Rightarrow> 'a gh" where
  "glift r = (case r of Inl e \<Rightarrow> graise e | Inr a \<Rightarrow> gret a)"

definition gcreated :: "ustr option \<Rightarrow> unit gh" where
  "gcreated b = (\<lambda>s. (Inr (), s\<lparr>created_ref := b\<rparr>))"

text \<open>\<open>_request\<close>: the status and the JSON object, or the code of the error.\<close>

definition reply_result :: "gh_reply \<Rightarrow> int list \<Rightarrow> publish_exn + int \<times> payload" where
  "reply_result reply ok = (case reply of
     No_Response \<Rightarrow> Inl (Publish_Error ''transport_error'')
   | Response code exhausted body \<Rightarrow>
       if code \<in> set ok then
         (if code \<in> set [204, 404] then Inr (code, [])
          else case body of
            Some (JObj kvs) \<Rightarrow> Inr (code, kvs)
          | _ \<Rightarrow> Inl (Publish_Error ''response_unreadable''))
       else Inl (Publish_Error
         (if code = 401 then ''credentials_rejected''
          else if code = 429 \<or> code = 403 \<and> exhausted then ''rate_limited''
          else if code = 403 then ''forbidden''
          else if code = 404 then ''not_found''
          else ''http_'' @ int_str code)))"

definition gh_request :: "gh_world \<Rightarrow> gh_call \<Rightarrow> int list \<Rightarrow> (int \<times> payload) gh" where
  "gh_request W call ok = (\<lambda>s. let calls = gh_calls s @ [call] in
     (reply_result (gh_answer W calls) ok, s\<lparr>gh_calls := calls\<rparr>))"

definition gh_get :: "gh_world \<Rightarrow> gh_call \<Rightarrow> payload gh" where
  "gh_get W call = gbind (gh_request W call [200]) (\<lambda>(code, p). gret p)"

definition gh_post :: "gh_world \<Rightarrow> gh_call \<Rightarrow> payload gh" where
  "gh_post W call = gbind (gh_request W call [201]) (\<lambda>(code, p). gret p)"

text \<open>\<open>_mapping\<close>, \<open>_string\<close>, \<open>_integer\<close>: a member of the object, or \<open>response_unreadable\<close>.\<close>

definition unreadable :: "publish_exn + 'a" where
  "unreadable = Inl (Publish_Error ''response_unreadable'')"

definition json_mapping :: "payload \<Rightarrow> string \<Rightarrow> publish_exn + payload" where
  "json_mapping p key = (case map_of p (lit key) of Some (JObj kvs) \<Rightarrow> Inr kvs | _ \<Rightarrow> unreadable)"

definition json_string :: "payload \<Rightarrow> string \<Rightarrow> publish_exn + ustr" where
  "json_string p key = (case map_of p (lit key) of Some (JStr s) \<Rightarrow> if s = [] then unreadable else Inr s | _ \<Rightarrow> unreadable)"

definition json_integer :: "payload \<Rightarrow> string \<Rightarrow> publish_exn + int" where
  "json_integer p key = (case map_of p (lit key) of Some (JInt n) \<Rightarrow> if n < 1 then unreadable else Inr n | _ \<Rightarrow> unreadable)"

definition nested_string :: "payload \<Rightarrow> string \<Rightarrow> string \<Rightarrow> publish_exn + ustr" where
  "nested_string p outer inner = rbind (json_mapping p outer) (\<lambda>q. json_string q inner)"

section \<open>The publisher\<close>

definition plain_text :: "ustr \<Rightarrow> string" where
  "plain_text s = (if list_all (\<lambda>c. c < 128) s then map char_of s else ''?'')"

text \<open>The blobs of the changed files, each checked against the local hash.\<close>

fun post_blobs :: "gh_world \<Rightarrow> file_entry list \<Rightarrow> (ustr \<times> string \<times> ustr option) list gh" where
  "post_blobs W [] = gret []"
| "post_blobs W (e # es) = (case entry_content e of
     None \<Rightarrow> gbind (post_blobs W es) (\<lambda>ts. gret ((entry_path e, entry_mode e, None) # ts))
   | Some content \<Rightarrow>
       gbind (gh_post W (Post_Blob content)) (\<lambda>p.
       gbind (glift (json_string p ''sha'')) (\<lambda>sha.
       gbind (gguard (sha \<noteq> blob_sha e) ''blob_mismatch'') (\<lambda>_.
       gbind (post_blobs W es) (\<lambda>ts. gret ((entry_path e, entry_mode e, Some (blob_sha e)) # ts))))))"

text \<open>\<open>_commit_matches\<close>: the commit that the server made is the one that was sent.\<close>

definition member_string :: "json option \<Rightarrow> string \<Rightarrow> json option" where
  "member_string x key = (case x of Some (JObj kvs) \<Rightarrow> map_of kvs (lit key) | _ \<Rightarrow> None)"

definition strip_newlines :: "ustr \<Rightarrow> ustr" where
  "strip_newlines s = rev (dropWhile (\<lambda>c. c = 10) (rev s))"

definition person_matches :: "('a publish_env_scheme) \<Rightarrow> change_bundle \<Rightarrow> int \<Rightarrow> json option \<Rightarrow> bool" where
  "person_matches T b expected person = (case (member_string person ''name'', member_string person ''email'',
       member_string person ''date'') of
     (Some (JStr n), Some (JStr m), Some (JStr d)) \<Rightarrow> n = author_name b \<and> m = author_email b
       \<and> (case normalize_iso8601 T d of Inl e \<Rightarrow> False | Inr v \<Rightarrow> iso_instant T v = Some expected)
   | _ \<Rightarrow> False)"

definition commit_matches :: "('a publish_env_scheme) \<Rightarrow> payload \<Rightarrow> change_bundle \<Rightarrow> publish_exn + bool" where
  "commit_matches T commit b =
     (if member_string (map_of commit (lit ''tree'')) ''sha'' \<noteq> Some (JStr (bundle_tree_sha b)) then Inr False
      else if (case map_of commit (lit ''parents'') of
           Some (JList xs) \<Rightarrow> map (\<lambda>x. member_string (Some x) ''sha'') xs \<noteq> [Some (JStr (bundle_base_sha b))]
         | _ \<Rightarrow> True) then Inr False
      else if (case map_of commit (lit ''message'') of
           Some (JStr m) \<Rightarrow> strip_newlines m \<noteq> strip_newlines (bundle_message b) | _ \<Rightarrow> True) then Inr False
      else case iso_instant T (authored_at b) of
        None \<Rightarrow> Inl (Crash ''ValueError'')
      | Some expected \<Rightarrow> Inr (person_matches T b expected (map_of commit (lit ''author''))
          \<and> person_matches T b expected (map_of commit (lit ''committer''))))"

definition delete_ref :: "gh_world \<Rightarrow> bool \<Rightarrow> unit gh" where
  "delete_ref W strict = (\<lambda>s. case created_ref s of
     None \<Rightarrow> (Inr (), s)
   | Some branch \<Rightarrow>
       (case gh_request W (Delete_Ref branch) [204] (s\<lparr>created_ref := None\<rparr>) of
          (Inl e, s') \<Rightarrow> (if strict then Inl e else Inr (), s')
        | (Inr r, s') \<Rightarrow> (Inr (), s')))"

text \<open>Before the branch exists: the base, the blobs, the tree and the commit; the result is what was verified.\<close>

definition verified_commit ::
  "('a publish_env_scheme) \<Rightarrow> gh_world \<Rightarrow> publish_submission \<Rightarrow> (ustr \<times> ustr \<times> ustr) gh" where
  "verified_commit T W sub = (let b = sub_bundle sub in
     gbind (gh_get W Get_Repo) (\<lambda>repo.
     gbind (glift (json_string repo ''default_branch'')) (\<lambda>base_branch.
     gbind (gh_get W (Get_Head base_branch)) (\<lambda>base_ref.
     gbind (glift (nested_string base_ref ''object'' ''sha'')) (\<lambda>base_head.
     gbind (gguard (base_head \<noteq> bundle_base_sha b \<and> \<not> allow_moved_base sub) ''base_moved'') (\<lambda>_.
     gbind (gh_request W (Get_Commit (bundle_base_sha b)) [200, 404]) (\<lambda>(status, base_commit).
     gbind (gguard (status = 404) ''base_not_in_remote'') (\<lambda>_.
     gbind (glift (nested_string base_commit ''tree'' ''sha'')) (\<lambda>base_tree.
     gbind (gh_request W (Get_Branch (sub_branch sub)) [200, 404]) (\<lambda>(branch_status, _).
     gbind (gguard (branch_status = 200) ''branch_exists'') (\<lambda>_.
     gbind (post_blobs W (bundle_entries b)) (\<lambda>entries.
     gbind (gh_post W (Post_Tree base_tree entries)) (\<lambda>tree.
     gbind (glift (json_string tree ''sha'')) (\<lambda>tree_sha.
     gbind (gguard (tree_sha \<noteq> bundle_tree_sha b) ''tree_mismatch'') (\<lambda>_.
     gbind (gh_post W (Post_Commit (bundle_message b) (bundle_tree_sha b) [bundle_base_sha b]
         (author_name b) (author_email b) (authored_at b))) (\<lambda>commit.
     gbind (glift (json_string commit ''sha'')) (\<lambda>remote_commit.
     gbind (glift (commit_matches T commit b)) (\<lambda>same.
     gbind (gguard (\<not> same) ''commit_mismatch'') (\<lambda>_.
     gret (base_branch, base_head, remote_commit))))))))))))))))))))"

text \<open>The branch and the draft pull request; a pull request that is not the one asked for is closed again.\<close>

definition withdraw_pull :: "gh_world \<Rightarrow> int \<Rightarrow> string \<Rightarrow> unit gh" where
  "withdraw_pull W number code =
     gbind (gh_request W (Close_Pull number) [200]) (\<lambda>_.
     gbind (delete_ref W False) (\<lambda>_. graise (Publish_Error code)))"

definition open_pull ::
  "gh_world \<Rightarrow> publish_submission \<Rightarrow> ustr \<Rightarrow> ustr \<Rightarrow> (int \<times> ustr) gh" where
  "open_pull W sub base_branch remote_commit =
     gbind (gh_request W (Post_Ref (sub_branch sub) remote_commit) [201, 422]) (\<lambda>(ref_status, ref).
     gbind (gguard (ref_status = 422) ''branch_exists'') (\<lambda>_.
     gbind (gcreated (Some (sub_branch sub))) (\<lambda>_.
     gbind (glift (nested_string ref ''object'' ''sha'')) (\<lambda>ref_sha.
     gbind (gguard (ref_sha \<noteq> remote_commit) ''ref_mismatch'') (\<lambda>_.
     gbind (gh_request W (Post_Pull (sub_title sub) (sub_branch sub) base_branch (sub_body sub) True) [201, 422])
       (\<lambda>(pull_status, pull).
     if pull_status = 422
     then gbind (delete_ref W False) (\<lambda>_. graise (Publish_Error ''draft_unsupported_or_rejected''))
     else
       gbind (glift (json_integer pull ''number'')) (\<lambda>number.
       gbind (glift (json_string pull ''html_url'')) (\<lambda>url.
       gbind (glift (nested_string pull ''head'' ''sha'')) (\<lambda>head_sha.
       gbind (glift (nested_string pull ''base'' ''ref'')) (\<lambda>pull_base.
       gbind (if head_sha \<noteq> remote_commit \<or> pull_base \<noteq> base_branch
              then withdraw_pull W number ''pull_request_mismatch''
              else if map_of pull (lit ''draft'') \<noteq> Some (JBool True) then withdraw_pull W number ''draft_unsupported''
              else gret ()) (\<lambda>_.
       gret (number, url))))))))))))"

definition published_record ::
  "('a publish_env_scheme) \<Rightarrow> gh_world \<Rightarrow> publish_submission \<Rightarrow> ustr \<times> ustr \<times> ustr \<Rightarrow> int \<times> ustr \<Rightarrow> timestamp
     \<Rightarrow> published_change" where
  "published_record T W sub verified pull at = (case (verified, pull) of
     ((base_branch, base_head, remote_commit), (number, url)) \<Rightarrow>
       \<lparr>publication_id = env_uuid5 T 0xa7b8c9d0e1f24a3b8c4d5e6f7a8b9c0d
          (plain_text (gh_repository W @ lit '':'' @ sub_branch sub @ lit '':'' @ remote_commit)),
        pub_cycle_id = sub_cycle_id sub, pub_request_id = sub_request_id sub, pub_decision_id = sub_decision_id sub,
        pub_authority = sub_authority sub, pub_repository = gh_repository W, pub_base_branch = base_branch,
        pub_base_sha = plain_text (bundle_base_sha (sub_bundle sub)), base_head_at_publish = plain_text base_head,
        pub_branch = sub_branch sub, pub_tree_sha = plain_text (bundle_tree_sha (sub_bundle sub)),
        local_commit_sha = plain_text (bundle_commit_sha (sub_bundle sub)),
        remote_commit_sha = plain_text remote_commit, pub_diff_sha256 = sub_diff_sha256 sub,
        pull_request_number = number, pull_request_url = url, published_by = sub_published_by sub,
        published_at = at\<rparr>)"

text \<open>\<open>created_ref\<close> is cleared before the record is built and validated.\<close>

definition publish_body :: "('a publish_env_scheme) \<Rightarrow> gh_world \<Rightarrow> publish_submission \<Rightarrow> published_change gh" where
  "publish_body T W sub =
     gbind (verified_commit T W sub) (\<lambda>verified.
     gbind (open_pull W sub (fst verified) (snd (snd verified))) (\<lambda>pull.
     gbind (gcreated None) (\<lambda>_.
     case gh_clock W of
       Naive t \<Rightarrow> graise (Crash ''ValidationError'')
     | Aware at \<Rightarrow>
         let p = published_record T W sub verified pull at in
         if publication_ok p then gret p else graise (Crash ''ValidationError''))))"

text \<open>\<open>_session\<close> and \<open>_SessionContext\<close>: a token, and on any exception the removal of a branch just created.\<close>

definition with_session :: "('a publish_env_scheme) \<Rightarrow> gh_world \<Rightarrow> 'b gh \<Rightarrow> (publish_exn + 'b) \<times> gh_session" where
  "with_session T W m = (let s0 = \<lparr>gh_calls = [], created_ref = None\<rparr>; token = strip T (gh_token W) in
     if token = [] then (Inl (Publish_Error ''credentials_missing''), s0)
     else if \<not> list_all (gh_token_char W) token then (Inl (Publish_Error ''credentials_invalid''), s0)
     else case m s0 of
       (Inl e, s) \<Rightarrow> (Inl e, snd (delete_ref W False s))
     | (Inr a, s) \<Rightarrow> (Inr a, s))"

definition gh_publish ::
  "('a publish_env_scheme) \<Rightarrow> gh_world \<Rightarrow> publish_submission \<Rightarrow> (publish_exn + published_change) \<times> gh_session" where
  "gh_publish T W sub = (let s0 = \<lparr>gh_calls = [], created_ref = None\<rparr> in
     if bundle_entries (sub_bundle sub) = [] then (Inl (Publish_Error ''bundle_empty''), s0)
     else if content_bytes (sub_bundle sub) > max_bundle_bytes then (Inl (Publish_Error ''bundle_too_large''), s0)
     else if contains_credential T (sub_title sub) \<or> contains_credential T (sub_body sub)
       then (Inl (Publish_Error ''secret_blocked''), s0)
     else with_session T W (publish_body T W sub))"

definition gh_withdraw ::
  "('a publish_env_scheme) \<Rightarrow> gh_world \<Rightarrow> published_change \<Rightarrow> (publish_exn + unit) \<times> gh_session" where
  "gh_withdraw T W p =
     (if pub_repository p \<noteq> gh_repository W then (Inl (Publish_Error ''repository_mismatch''), \<lparr>gh_calls = [], created_ref = None\<rparr>)
      else with_session T W (
        gbind (gh_request W (Close_Pull (pull_request_number p)) [200]) (\<lambda>_.
        gbind (gcreated (Some (pub_branch p))) (\<lambda>_. delete_ref W True))))"

end
