(* ===== verification/EngineerApproval.thy ===== *)
theory EngineerApproval
  imports EngineerPublish EngineerTrust EngineerMemory EngineerPolicy
begin

text \<open>
  Owner decisions and the publication of approved changes (\<open>src/nexus/software_engineer/approval.py\<close> and
  \<open>record_owner_decision\<close> of \<open>cycle.py\<close>), as operations on the files under the state root and the memory.

  A file is missing, unreadable or a record. What is written is read back as canonical JSON, in normal form
  and validated again. The publisher is an argument; \<open>st_submissions\<close> is the list of what it was given.
  A write of a file may fail: \<open>disk\<close> says whether the one of the operation does not.
\<close>

section \<open>The files\<close>

datatype 'a stored = Missing | Broken | Stored 'a
datatype approval_exn = Approval_Error string | Approval_Crash string
datatype cycle_name = Latest_Cycle | Named_Cycle uuid | Not_A_Uuid

record approval_files =
  st_latest :: "cycle_record stored"
  st_records :: "uuid \<Rightarrow> cycle_record stored"
  st_decisions :: "uuid \<Rightarrow> owner_decision stored"
  st_publications :: "uuid \<Rightarrow> published_change stored"
  st_memory :: memory_db
  st_submissions :: "publish_submission list"

definition load_cycle_record :: "approval_files \<Rightarrow> cycle_name \<Rightarrow> approval_exn + cycle_record" where
  "load_cycle_record st name =
     (let load = (\<lambda>f. case f of Missing \<Rightarrow> Inl (Approval_Error ''cycle_not_found'')
        | Broken \<Rightarrow> Inl (Approval_Error ''cycle_unreadable'') | Stored r \<Rightarrow> Inr r) in
      case name of
        Latest_Cycle \<Rightarrow> load (st_latest st)
      | Named_Cycle i \<Rightarrow> load (st_records st i)
      | Not_A_Uuid \<Rightarrow> Inl (Approval_Error ''cycle_invalid''))"

definition load_owner_decision :: "approval_files \<Rightarrow> uuid \<Rightarrow> approval_exn + owner_decision option" where
  "load_owner_decision st q = (case st_decisions st q of
     Missing \<Rightarrow> Inr None | Broken \<Rightarrow> Inl (Approval_Error ''decision_unreadable'') | Stored d \<Rightarrow> Inr (Some d))"

definition load_publication :: "approval_files \<Rightarrow> uuid \<Rightarrow> approval_exn + published_change option" where
  "load_publication st q = (case st_publications st q of
     Missing \<Rightarrow> Inr None | Broken \<Rightarrow> Inl (Approval_Error ''publication_unreadable'') | Stored p \<Rightarrow> Inr (Some p))"

text \<open>\<open>_write_json\<close> of a decision and of a publication, as the next reader finds them.\<close>

definition decision_file :: "('a publish_env_scheme) \<Rightarrow> owner_decision \<Rightarrow> owner_decision stored" where
  "decision_file T d = (let d' = d\<lparr>decision_reason := env_nfc T (decision_reason d)\<rparr> in
     if owner_decision_ok d' then Stored d' else Broken)"

definition publication_file :: "('a publish_env_scheme) \<Rightarrow> published_change \<Rightarrow> published_change stored" where
  "publication_file T p = (let p' = p\<lparr>pub_repository := env_nfc T (pub_repository p),
       pub_base_branch := env_nfc T (pub_base_branch p), pub_branch := env_nfc T (pub_branch p),
       pull_request_url := env_nfc T (pull_request_url p)\<rparr> in
     if publication_ok p' then Stored p' else Broken)"

section \<open>The owner's decision\<close>

definition owner_command_ok :: "owner_command \<Rightarrow> bool" where
  "owner_command_ok c \<longleftrightarrow> actor_ok (issued_by c) \<and> bounded 1 500 (command_reason c)"

definition cycle_namespace_uuid :: uuid where
  "cycle_namespace_uuid = 0xe3f4a5b6c7d84e9fa0b1c2d3e4f5a6b7"

definition approval_namespace_uuid :: uuid where
  "approval_namespace_uuid = 0xb1c2d3e4f5a64b7c8d9e0f1a2b3c4d5e"

text \<open>An observation under another identifier; \<open>model_copy\<close> does not validate again.\<close>

definition observed_as ::
  "('a publish_env_scheme) \<Rightarrow> uuid \<Rightarrow> uuid \<Rightarrow> timestamp \<Rightarrow> observation_args \<Rightarrow> approval_exn + engineer_memory" where
  "observed_as T i cid now a = (case observation T cid 1 now a of
     Inl e \<Rightarrow> Inl (Approval_Crash ''ValidationError'') | Inr m \<Rightarrow> Inr (m\<lparr>memory_id := i\<rparr>))"

definition remember_as ::
  "('a publish_env_scheme) \<Rightarrow> memory_db \<Rightarrow> engineer_memory \<Rightarrow> approval_exn + memory_db" where
  "remember_as T db m = (case remember T db m of
     Inl e \<Rightarrow> Inl (Approval_Crash ''MemoryStoreError'') | Inr x \<Rightarrow> Inr (snd x))"

definition decision_of :: "owner_command \<Rightarrow> approval_request \<Rightarrow> owner_decision" where
  "decision_of c q = \<lparr>decision_id = command_uuid c, decision_request_id = request_id q, verdict = command_verdict c,
     decision_by = issued_by c, decision_reason = command_reason c, decision_channel = command_channel c,
     decision_at = issued_at c\<rparr>"

definition preference_args :: "approval_request \<Rightarrow> owner_decision \<Rightarrow> observation_args" where
  "preference_args q d = \<lparr>obs_category = OWNER_PREFERENCE,
     obs_content = request_title q @ lit ('': owner decided '' @ verdict_value (verdict d) @ '' ('') @ decision_reason d @ lit '')'',
     obs_confidence = 100, obs_tags = [''owner'', verdict_value (verdict d)], obs_status = OWNER_DECISION,
     obs_evidence = [], obs_owner_decision = Some (decision_id d), obs_source = FROM_OWNER_DECISION\<rparr>"

definition record_owner_decision ::
  "('a publish_env_scheme) \<Rightarrow> memory_db \<Rightarrow> approval_request \<Rightarrow> owner_command \<Rightarrow> string \<Rightarrow> timestamp
     \<Rightarrow> approval_exn + owner_decision \<times> memory_db" where
  "record_owner_decision T db q c owner_id now =
     (case authorize_owner_command c owner_id of
        Inl e \<Rightarrow> Inl (Approval_Crash ''TrustError'')
      | Inr u \<Rightarrow>
        if command_request_id c \<noteq> request_id q then Inl (Approval_Crash ''ValueError'')
        else let d = decision_of c q in
          if \<not> owner_decision_ok d then Inl (Approval_Crash ''ValidationError'')
          else rbind (observed_as T (env_uuid5 T cycle_namespace_uuid (uuid_str (command_uuid c) @ '':owner-decision''))
              (request_cycle_id q) now (preference_args q d)) (\<lambda>m.
            rbind (remember_as T db m) (\<lambda>db'. Inr (d, db'))))"

record decide_call =
  dc_owner :: string
  dc_cycle :: cycle_name
  dc_verdict :: owner_verdict
  dc_reason :: ustr
  dc_now :: timestamp
  dc_channel :: owner_channel

definition owner_actor :: "string \<Rightarrow> actor_identity" where
  "owner_actor i = \<lparr>actor_type = Human, actor_id = i\<rparr>"

definition command_of :: "('a publish_env_scheme) \<Rightarrow> decide_call \<Rightarrow> approval_request \<Rightarrow> ustr \<Rightarrow> owner_command" where
  "command_of T c q reason = \<lparr>command_uuid = env_uuid5 T approval_namespace_uuid
       (uuid_str (request_id q) @ '':'' @ verdict_value (dc_verdict c) @ '':'' @ channel_value (dc_channel c)
        @ '':'' @ pub_isoformat T (dc_now c)),
     command_request_id = request_id q, command_verdict = dc_verdict c, issued_by = owner_actor (dc_owner c),
     command_channel = dc_channel c, command_reason = take 500 reason, issued_at = dc_now c\<rparr>"

definition decide_request ::
  "('a publish_env_scheme) \<Rightarrow> decide_call \<Rightarrow> bool \<Rightarrow> approval_files
     \<Rightarrow> (approval_exn + owner_decision) \<times> approval_files" where
  "decide_request T c disk st =
     (case load_cycle_record st (dc_cycle c) of
        Inl e \<Rightarrow> (Inl e, st)
      | Inr r \<Rightarrow>
        (case cycle_request r of
           None \<Rightarrow> (Inl (Approval_Error ''no_approval_request''), st)
         | Some q \<Rightarrow>
           (case load_owner_decision st (request_id q) of
              Inl e \<Rightarrow> (Inl e, st)
            | Inr (Some d) \<Rightarrow> (Inl (Approval_Error ''already_decided''), st)
            | Inr None \<Rightarrow>
              let reason = join_with [32] (py_words (dc_reason c)); cmd = command_of T c q reason in
              if reason = [] then (Inl (Approval_Error ''reason_required''), st)
              else if \<not> owner_command_ok cmd then (Inl (Approval_Crash ''ValidationError''), st)
              else (case record_owner_decision T (st_memory st) q cmd (dc_owner c) (dc_now c) of
                  Inl e \<Rightarrow> (Inl e, st)
                | Inr (d, db) \<Rightarrow>
                    let st' = st\<lparr>st_memory := db\<rparr> in
                    if \<not> disk then (Inl (Approval_Crash ''OSError''), st')
                    else (Inr d, st'\<lparr>st_decisions := (st_decisions st)(request_id q := decision_file T d)\<rparr>)))))"

section \<open>Publication\<close>

definition publication_gates :: "validation_gate list" where
  "publication_gates = required_gates @ [SENTINEL_REVIEW]"

text \<open>\<open>_require_gates\<close>: over the last result of every gate.\<close>

definition require_gates :: "cycle_record \<Rightarrow> approval_exn + unit" where
  "require_gates r =
     (if list_ex (\<lambda>g. by_gate (cycle_gates r) g = None) publication_gates then Inl (Approval_Error ''gates_missing'')
      else if list_ex (\<lambda>x. case by_gate (cycle_gates r) (gate x) of
           None \<Rightarrow> False | Some y \<Rightarrow> gate_status y \<noteq> GATE_PASSED) (cycle_gates r)
        then Inl (Approval_Error ''gates_not_passed'')
      else Inr ())"

record publish_call =
  pc_owner :: string
  pc_cycle :: cycle_name
  pc_now :: timestamp
  pc_allow_moved :: bool
  pc_patch :: "uuid \<Rightarrow> uuid \<Rightarrow> string stored"
  pc_publisher :: "publish_submission \<Rightarrow> publish_exn + published_change"

text \<open>\<open>_read_patch\<close>: the bytes of \<open>candidate.patch\<close>, which must have the recorded digest and length.\<close>

definition read_patch ::
  "('a publish_env_scheme) \<Rightarrow> publish_call \<Rightarrow> uuid \<Rightarrow> uuid \<Rightarrow> change_summary \<Rightarrow> approval_exn + string" where
  "read_patch T c cid cand k = (case pc_patch c cid cand of
     Missing \<Rightarrow> Inl (Approval_Error ''patch_missing'')
   | Broken \<Rightarrow> Inl (Approval_Error ''patch_unreadable'')
   | Stored patch \<Rightarrow>
       if env_sha256 T patch \<noteq> diff_sha256 k \<or> int (length patch) \<noteq> diff_bytes k
       then Inl (Approval_Error ''patch_mismatch'') else Inr patch)"

text \<open>A PublishError becomes an ApprovalError; other exceptions pass.\<close>

definition approval_of :: "publish_exn + 'b \<Rightarrow> approval_exn + 'b" where
  "approval_of x = (case x of
     Inl (Publish_Error code) \<Rightarrow> Inl (Approval_Error (''publish_'' @ code))
   | Inl (Crash name) \<Rightarrow> Inl (Approval_Crash name)
   | Inr a \<Rightarrow> Inr a)"

text \<open>What \<open>publish_approved_change\<close> reads and checks before the publisher: the submission, or the refusal.\<close>

definition approved_change ::
  "publish_call \<Rightarrow> approval_files
     \<Rightarrow> approval_exn + cycle_record \<times> approval_request \<times> change_summary \<times> ustr \<times> string \<times> uuid" where
  "approved_change c st =
     rbind (load_cycle_record st (pc_cycle c)) (\<lambda>r.
     case (cycle_request r, cycle_change r, selected_candidate_id r) of
       (Some q, Some k, Some chosen) \<Rightarrow>
         (case (change_branch k, change_commit_sha k) of
            (Some branch, Some commit) \<Rightarrow> Inr (r, q, k, branch, commit, chosen)
          | _ \<Rightarrow> Inl (Approval_Error ''nothing_to_publish''))
     | _ \<Rightarrow> Inl (Approval_Error ''nothing_to_publish''))"

definition owner_approval :: "publish_call \<Rightarrow> approval_files \<Rightarrow> approval_request \<Rightarrow> approval_exn + owner_decision" where
  "owner_approval c st q =
     rbind (load_publication st (request_id q)) (\<lambda>published.
     if published \<noteq> None then Inl (Approval_Error ''already_published'')
     else rbind (load_owner_decision st (request_id q)) (\<lambda>decision.
       case decision of
         None \<Rightarrow> Inl (Approval_Error ''not_decided'')
       | Some d \<Rightarrow>
           if verdict d \<noteq> VERDICT_SHIP then Inl (Approval_Error ''not_approved'')
           else if \<not> actor_ok (owner_actor (pc_owner c)) then Inl (Approval_Crash ''ValidationError'')
           else if decision_by d \<noteq> owner_actor (pc_owner c) then Inl (Approval_Error ''decision_owner_mismatch'')
           else Inr d))"

definition prepared_submission ::
  "('a publish_env_scheme) \<Rightarrow> publish_call \<Rightarrow> approval_files
     \<Rightarrow> approval_exn + cycle_record \<times> approval_request \<times> engineering_candidate \<times> publish_submission" where
  "prepared_submission T c st =
     rbind (approved_change c st) (\<lambda>(r, q, k, branch, commit, chosen).
     rbind (owner_approval c st q) (\<lambda>d.
     rbind (require_gates r) (\<lambda>_.
     case find (\<lambda>x. candidate_id x = chosen) (cycle_candidates r) of
       None \<Rightarrow> Inl (Approval_Crash ''StopIteration'')
     | Some cand \<Rightarrow>
         rbind (read_patch T c (cycle_id r) (candidate_id cand) k) (\<lambda>patch.
         rbind (approval_of (bundle_from_branch T (lit (change_base_sha k)) (lit commit) patch)) (\<lambda>b.
         rbind (approval_of (render_pull_request T cand k (cycle_gates r) (Some q) (Some d) (cycle_id r))) (\<lambda>(title, body).
         Inr (r, q, cand, \<lparr>sub_bundle = b, sub_branch = branch, sub_title = title, sub_body = body,
           sub_cycle_id = cycle_id r, sub_diff_sha256 = diff_sha256 k, sub_published_by = owner_actor (pc_owner c),
           sub_authority = OWNER_DECISION_AUTHORITY, sub_request_id = Some (request_id q),
           sub_decision_id = Some (decision_id d), allow_moved_base = pc_allow_moved c\<rparr>)))))))"

definition authority_value :: "publication_authority \<Rightarrow> string" where
  "authority_value a = (case a of OWNER_DECISION_AUTHORITY \<Rightarrow> ''owner_decision''
     | AUTONOMOUS_AUTHORITY \<Rightarrow> ''autonomous_low_risk'' | EXERCISE_AUTHORITY \<Rightarrow> ''integration_exercise'')"

definition publication_json :: "('a publish_env_scheme) \<Rightarrow> published_change \<Rightarrow> json" where
  "publication_json T p = obj
     [(''publication_id'', jstr (uuid_str (publication_id p))), (''cycle_id'', jstr (uuid_str (pub_cycle_id p))),
      (''request_id'', jopt (\<lambda>i. jstr (uuid_str i)) (pub_request_id p)),
      (''decision_id'', jopt (\<lambda>i. jstr (uuid_str i)) (pub_decision_id p)),
      (''authority'', jstr (authority_value (pub_authority p))), (''provider'', jstr ''github''),
      (''repository'', JStr (pub_repository p)), (''base_branch'', JStr (pub_base_branch p)),
      (''base_sha'', jstr (pub_base_sha p)), (''base_head_at_publish'', jstr (base_head_at_publish p)),
      (''branch'', JStr (pub_branch p)), (''tree_sha'', jstr (pub_tree_sha p)),
      (''local_commit_sha'', jstr (local_commit_sha p)), (''remote_commit_sha'', jstr (remote_commit_sha p)),
      (''diff_sha256'', jstr (pub_diff_sha256 p)), (''pull_request_number'', JInt (pull_request_number p)),
      (''pull_request_url'', JStr (pull_request_url p)), (''draft'', JBool True),
      (''published_by'', actor_json (published_by p)), (''published_at'', jstr (env_iso T (published_at p))),
      (''attested_by'', jstr ''software_engineer.runtime'')]"

definition publication_args ::
  "('a publish_env_scheme) \<Rightarrow> engineering_candidate \<Rightarrow> published_change \<Rightarrow> uuid \<Rightarrow> observation_args" where
  "publication_args T cand p decision = \<lparr>obs_category = DECISION_MEMORY,
     obs_content = candidate_title cand @ lit ('': published as draft pull request #'' @ int_str (pull_request_number p)
       @ '' ('') @ pull_request_url p @ lit ('') after the owner decided ship; base '' @ take 12 (pub_base_sha p)
       @ '', remote commit '' @ take 12 (remote_commit_sha p) @ ''.''),
     obs_confidence = 100, obs_tags = [''published'', ''draft_pull_request'', category_value (candidate_category cand)],
     obs_status = VALIDATED_FACT,
     obs_evidence = [canonical_sha256 (env_sha256 T) (env_nfc T) (publication_json T p)],
     obs_owner_decision = Some decision, obs_source = FROM_OWNER_DECISION\<rparr>"

definition publish_approved_change ::
  "('a publish_env_scheme) \<Rightarrow> publish_call \<Rightarrow> bool \<Rightarrow> approval_files
     \<Rightarrow> (approval_exn + published_change) \<times> approval_files" where
  "publish_approved_change T c disk st =
     (case prepared_submission T c st of
        Inl e \<Rightarrow> (Inl e, st)
      | Inr (r, q, cand, sub) \<Rightarrow>
          let st1 = st\<lparr>st_submissions := st_submissions st @ [sub]\<rparr> in
          (case approval_of (pc_publisher c sub) of
             Inl e \<Rightarrow> (Inl e, st1)
           | Inr p \<Rightarrow>
               if \<not> disk then (Inl (Approval_Crash ''OSError''), st1)
               else
                 let st2 = st1\<lparr>st_publications := (st_publications st)(request_id q := publication_file T p)\<rparr> in
                 (case rbind (observed_as T (env_uuid5 T approval_namespace_uuid
                       (uuid_str (publication_id p) @ '':publication'')) (cycle_id r) (pc_now c)
                       (publication_args T cand p (the (sub_decision_id sub)))) (remember_as T (st_memory st)) of
                    Inl e \<Rightarrow> (Inl e, st2)
                  | Inr db \<Rightarrow> (Inr p, st2\<lparr>st_memory := db\<rparr>))))"

end
