(* ===== verification/EngineerShip.thy ===== *)
theory EngineerShip
  imports EngineerApproval
begin

text \<open>
  What a cycle publishes without an owner (\<open>ship\<close> of \<open>src/nexus/software_engineer/executor.py\<close>): the executor
  keeps what each cycle produced and opens a draft pull request for exactly that. The directory of the cycle, Git and
  the publisher are arguments; the submissions go to the list that the publications of approved changes use too.
\<close>

text \<open>\<open>_Produced\<close>, without the directory, and the call of \<open>ship\<close> with what it finds there.\<close>

record produced =
  prod_candidate :: engineering_candidate
  prod_change :: change_summary
  prod_gates :: "gate_result list"

type_synonym produced_map = "uuid \<Rightarrow> produced option"

record ship_call =
  sc_change :: change_summary
  sc_cycle :: uuid
  sc_patch :: "uuid \<Rightarrow> string stored"
  sc_publisher :: "(publish_submission \<Rightarrow> publish_exn + published_change) option"

datatype ship_exn = Executor_Error string | Ship_Crash string

definition ship_of :: "publish_exn + 'b \<Rightarrow> ship_exn + 'b" where
  "ship_of x = (case x of
     Inl (Publish_Error code) \<Rightarrow> Inl (Executor_Error (''Publishing refused: '' @ code))
   | Inl (Crash name) \<Rightarrow> Inl (Ship_Crash name)
   | Inr a \<Rightarrow> Inr a)"

definition agent_publisher_identity :: actor_identity where
  "agent_publisher_identity = \<lparr>actor_type = Agent, actor_id = ''software_engineer.resident''\<rparr>"

text \<open>The evidence that is checked again before anything is submitted: the last result of every gate.\<close>

definition shippable_gates :: "gate_result list \<Rightarrow> bool" where
  "shippable_gates gates \<longleftrightarrow> (\<forall>g \<in> set required_gates. by_gate gates g \<noteq> None)
     \<and> (\<forall>x \<in> set gates. case by_gate gates (gate x) of None \<Rightarrow> True | Some y \<Rightarrow> gate_status y = GATE_PASSED)"

definition local_branch :: "change_summary \<Rightarrow> (ustr \<times> string) option" where
  "local_branch k = (case (change_branch k, change_commit_sha k, publication k) of
     (Some branch, Some commit, None) \<Rightarrow> Some (branch, commit) | _ \<Rightarrow> None)"

definition ship_submission ::
  "('a publish_env_scheme) \<Rightarrow> ship_call \<Rightarrow> produced_map \<Rightarrow> ship_exn + produced \<times> publish_submission" where
  "ship_submission T c made =
     (if sc_publisher c = None
        then Inl (Executor_Error ''Shipping is not configured: no publisher can open a draft pull request'')
      else case made (sc_cycle c) of
        None \<Rightarrow> Inl (Executor_Error ''The change to ship is not the one this executor produced'')
      | Some p \<Rightarrow>
          let k = sc_change c in
          if prod_change p \<noteq> k then Inl (Executor_Error ''The change to ship is not the one this executor produced'')
          else (case local_branch k of
            None \<Rightarrow> Inl (Executor_Error ''The change has no unpublished local branch'')
          | Some (branch, commit) \<Rightarrow>
              if \<not> shippable_gates (prod_gates p)
                then Inl (Executor_Error ''The change has not passed every gate, including SentinelQA'')
              else (case sc_patch c (sc_cycle c) of
                Stored patch \<Rightarrow>
                  ship_of (rbind (bundle_from_branch T (lit (change_base_sha k)) (lit commit) patch) (\<lambda>b.
                    rbind (render_pull_request T (prod_candidate p) k (prod_gates p) None None (sc_cycle c)) (\<lambda>(title, body).
                    Inr (p, \<lparr>sub_bundle = b, sub_branch = branch, sub_title = title, sub_body = body,
                      sub_cycle_id = sc_cycle c, sub_diff_sha256 = diff_sha256 k,
                      sub_published_by = agent_publisher_identity, sub_authority = AUTONOMOUS_AUTHORITY,
                      sub_request_id = None, sub_decision_id = None, allow_moved_base = False\<rparr>))))
              | _ \<Rightarrow> Inl (Executor_Error ''Candidate patch unreadable''))))"

text \<open>The shipped change: published, and rolled back by closing the pull request; \<open>model_copy\<close> does not validate.\<close>

definition shipped_change :: "change_summary \<Rightarrow> published_change \<Rightarrow> change_summary" where
  "shipped_change k p = k\<lparr>publication := Some p, rollback_reference := take 500
     (lit (''Draft pull request #'' @ int_str (pull_request_number p) @ '' ('') @ pull_request_url p
      @ lit '') on branch '' @ pub_branch p
      @ lit ''; close it and delete the branch to roll back. Nothing reached main.'')\<rparr>"

definition executor_ship ::
  "('a publish_env_scheme) \<Rightarrow> ship_call \<Rightarrow> bool \<Rightarrow> approval_files \<Rightarrow> produced_map
     \<Rightarrow> (ship_exn + change_summary) \<times> approval_files \<times> produced_map" where
  "executor_ship T c disk st made =
     (case ship_submission T c made of
        Inl e \<Rightarrow> (Inl e, st, made)
      | Inr (p, sub) \<Rightarrow>
          let st1 = st\<lparr>st_submissions := st_submissions st @ [sub]\<rparr> in
          (case ship_of (the (sc_publisher c) sub) of
             Inl e \<Rightarrow> (Inl e, st1, made)
           | Inr pub \<Rightarrow>
               if \<not> disk then (Inl (Ship_Crash ''OSError''), st1, made)
               else let k = shipped_change (sc_change c) pub in
                 (Inr k, st1, made(sc_cycle c := Some (p\<lparr>prod_change := k\<rparr>)))))"

section \<open>What a submission without an owner rests on\<close>

lemma ship_of_Inr [simp]: "ship_of x = Inr a \<longleftrightarrow> x = Inr a"
  by (auto simp: ship_of_def split: sum.splits publish_exn.splits)

lemma ship_submission_Inr:
  assumes "ship_submission T c made = Inr (p, sub)"
  shows "made (sc_cycle c) = Some p \<and> prod_change p = sc_change c \<and> publication (prod_change p) = None
     \<and> shippable_gates (prod_gates p) \<and> sub_cycle_id sub = sc_cycle c
     \<and> sub_diff_sha256 sub = diff_sha256 (prod_change p) \<and> Some (sub_branch sub) = change_branch (prod_change p)
     \<and> sub_published_by sub = agent_publisher_identity \<and> sub_authority sub = AUTONOMOUS_AUTHORITY
     \<and> sub_request_id sub = None \<and> sub_decision_id sub = None \<and> \<not> allow_moved_base sub"
  using assms
  by (auto simp: ship_submission_def local_branch_def Let_def rbind_Inr_iff
      split: if_splits option.splits stored.splits prod.splits)

text \<open>One submission at most, and the change cannot be shipped again once it has been.\<close>

lemma executor_ship_cases:
  assumes "executor_ship T c disk st made = (x, st', made')"
  obtains (refused) "st' = st" "made' = made"
  | (sent) p sub where "ship_submission T c made = Inr (p, sub)" "st' = st\<lparr>st_submissions := st_submissions st @ [sub]\<rparr>"
      "made' = made \<or> (\<exists>k. made' = made(sc_cycle c := Some (p\<lparr>prod_change := k\<rparr>)) \<and> publication k \<noteq> None)"
proof (cases "ship_submission T c made")
  case (Inl e)
  with assms show thesis by (auto simp: executor_ship_def intro: refused)
next
  case (Inr y)
  obtain p sub where y: "y = (p, sub)" by force
  have "publication (shipped_change (sc_change c) q) \<noteq> None" for q by (simp add: shipped_change_def)
  with assms Inr y show thesis
    by (intro sent [of p sub]) (auto simp: executor_ship_def Let_def split: sum.splits if_splits)
qed

lemma executor_ship_twice:
  assumes "executor_ship T c disk st made = (Inr k, st', made')" "sc_cycle c' = sc_cycle c"
  shows "\<exists>e. executor_ship U c' disk' st' made' = (Inl e, st', made')"
proof (cases "ship_submission U c' made'")
  case (Inl e)
  then show ?thesis by (simp add: executor_ship_def)
next
  case (Inr y)
  obtain p sub where y: "y = (p, sub)" by force
  have "\<exists>p'. made' (sc_cycle c) = Some p' \<and> publication (prod_change p') \<noteq> None"
    using assms(1) by (auto simp: executor_ship_def shipped_change_def Let_def split: sum.splits if_splits prod.splits)
  with ship_submission_Inr [OF Inr [unfolded y]] assms(2) show ?thesis by auto
qed

end
