(* ===== verification/EngineerPublishFacts.thy ===== *)
theory EngineerPublishFacts
  imports EngineerPublish "HOL-Library.Sublist"
begin

text \<open>
  Which requests the publisher sends, whatever the server answers. \<open>gtriple P m Q E\<close>: from \<open>P\<close> the method
  ends in \<open>Q\<close> of its result or raises in \<open>E\<close> of the exception; the rules follow the requests with the
  history so far in the precondition.
\<close>

section \<open>Triples over histories\<close>

definition gtriple ::
  "(gh_session \<Rightarrow> bool) \<Rightarrow> 'a gh \<Rightarrow> ('a \<Rightarrow> gh_session \<Rightarrow> bool) \<Rightarrow> (publish_exn \<Rightarrow> gh_session \<Rightarrow> bool) \<Rightarrow> bool" where
  "gtriple P m Q E \<longleftrightarrow> (\<forall>s. P s \<longrightarrow> (case m s of (Inl e, s') \<Rightarrow> E e s' | (Inr a, s') \<Rightarrow> Q a s'))"

abbreviation session :: "gh_call list \<Rightarrow> ustr option \<Rightarrow> gh_session" where
  "session xs r \<equiv> \<lparr>gh_calls = xs, created_ref = r\<rparr>"

definition since :: "gh_call list \<Rightarrow> ustr option \<Rightarrow> gh_session \<Rightarrow> bool" where
  "since xs r s \<longleftrightarrow> s = session xs r"

lemma gtriple_bind:
  "gtriple P m R E \<Longrightarrow> (\<And>a. gtriple (R a) (f a) Q E) \<Longrightarrow> gtriple P (gbind m f) Q E"
  by (fastforce simp: gtriple_def gbind_def split: prod.splits sum.splits)

lemma gtriple_weaken:
  "gtriple P m Q' E' \<Longrightarrow> (\<And>a s. Q' a s \<Longrightarrow> Q a s) \<Longrightarrow> (\<And>e s. E' e s \<Longrightarrow> E e s) \<Longrightarrow> gtriple P m Q E"
  by (fastforce simp: gtriple_def split: prod.splits sum.splits)

lemma gtriple_ret: "Q a (session xs r) \<Longrightarrow> gtriple (since xs r) (gret a) Q E"
  by (simp add: gtriple_def gret_def since_def)

lemma gtriple_raise: "E e (session xs r) \<Longrightarrow> gtriple (since xs r) (graise e) Q E"
  by (simp add: gtriple_def graise_def since_def)

lemma reply_error: "reply_result reply ok = Inl e \<Longrightarrow> \<exists>c. e = Publish_Error c"
  by (auto simp: reply_result_def split: gh_reply.splits if_splits option.splits json.splits)

lemma reply_code: "reply_result reply ok = Inr (code, p) \<Longrightarrow> code \<in> set ok"
  by (auto simp: reply_result_def split: gh_reply.splits if_splits option.splits json.splits)

lemma gtriple_request:
  assumes "\<And>a. reply_result (gh_answer W (xs @ [c])) ok = Inr a \<Longrightarrow> gtriple (since (xs @ [c]) r) (f a) Q E"
    "\<And>code. reply_result (gh_answer W (xs @ [c])) ok = Inl (Publish_Error code) \<Longrightarrow> E (Publish_Error code) (session (xs @ [c]) r)"
  shows "gtriple (since xs r) (gbind (gh_request W c ok) f) Q E"
proof (cases "reply_result (gh_answer W (xs @ [c])) ok")
  case (Inl e)
  from reply_error [OF Inl] obtain code where "e = Publish_Error code" by blast
  with Inl assms(2) [of code] show ?thesis
    by (simp add: gtriple_def gbind_def gh_request_def since_def Let_def)
next
  case (Inr a)
  from assms(1) [OF Inr] Inr show ?thesis
    by (simp add: gtriple_def gbind_def gh_request_def since_def Let_def)
qed

lemma gtriple_one:
  assumes "\<And>p. reply_result (gh_answer W (xs @ [c])) [ok] = Inr (ok, p) \<Longrightarrow> gtriple (since (xs @ [c]) r) (f p) Q E"
    "\<And>code. E (Publish_Error code) (session (xs @ [c]) r)"
  shows "gtriple (since xs r) (gbind (gbind (gh_request W c [ok]) (\<lambda>(code, p). gret p)) f) Q E"
proof -
  have "gtriple (since xs r) (gbind (gh_request W c [ok]) (\<lambda>(code, p). f p)) Q E"
  proof (rule gtriple_request)
    fix a assume a: "reply_result (gh_answer W (xs @ [c])) [ok] = Inr a"
    obtain code p where x: "a = (code, p)" by force
    with a reply_code have "code = ok" by fastforce
    with assms(1) a x show "gtriple (since (xs @ [c]) r) (case a of (code, p) \<Rightarrow> f p) Q E" by simp
  qed (rule assms(2))
  then show ?thesis
    by (auto simp: gtriple_def gbind_def gret_def split: prod.splits sum.splits)
qed

lemma gtriple_get:
  assumes "\<And>p. reply_result (gh_answer W (xs @ [c])) [200] = Inr (200, p) \<Longrightarrow> gtriple (since (xs @ [c]) r) (f p) Q E"
    "\<And>code. E (Publish_Error code) (session (xs @ [c]) r)"
  shows "gtriple (since xs r) (gbind (gh_get W c) f) Q E"
  unfolding gh_get_def using assms by (rule gtriple_one)

lemma gtriple_post:
  assumes "\<And>p. reply_result (gh_answer W (xs @ [c])) [201] = Inr (201, p) \<Longrightarrow> gtriple (since (xs @ [c]) r) (f p) Q E"
    "\<And>code. E (Publish_Error code) (session (xs @ [c]) r)"
  shows "gtriple (since xs r) (gbind (gh_post W c) f) Q E"
  unfolding gh_post_def using assms by (rule gtriple_one)

lemma gtriple_lift:
  "(\<And>a. v = Inr a \<Longrightarrow> gtriple (since xs r) (f a) Q E) \<Longrightarrow> (\<And>e. v = Inl e \<Longrightarrow> E e (session xs r))
    \<Longrightarrow> gtriple (since xs r) (gbind (glift v) f) Q E"
  by (cases v) (auto simp: gtriple_def gbind_def glift_def gret_def graise_def since_def)

lemma gtriple_guard:
  "(\<not> bad \<Longrightarrow> gtriple (since xs r) (f ()) Q E) \<Longrightarrow> (bad \<Longrightarrow> E (Publish_Error code) (session xs r))
    \<Longrightarrow> gtriple (since xs r) (gbind (gguard bad code) f) Q E"
  by (auto simp: gtriple_def gbind_def gguard_def gret_def graise_def since_def)

lemma gtriple_created:
  "gtriple (since xs b) (f ()) Q E \<Longrightarrow> gtriple (since xs r) (gbind (gcreated b) f) Q E"
  by (simp add: gtriple_def gbind_def gcreated_def since_def)

lemma gtriple_case:
  "(\<And>a b. x = (a, b) \<Longrightarrow> gtriple P (f a b) Q E) \<Longrightarrow> gtriple P (case x of (a, b) \<Rightarrow> f a b) Q E"
  by (cases x) simp

lemma json_error:
  "json_string p k = Inl e \<Longrightarrow> \<exists>c. e = Publish_Error c" "json_integer p k = Inl e \<Longrightarrow> \<exists>c. e = Publish_Error c"
  "json_mapping p k = Inl e \<Longrightarrow> \<exists>c. e = Publish_Error c" "nested_string p k l = Inl e \<Longrightarrow> \<exists>c. e = Publish_Error c"
  by (auto simp: json_string_def json_integer_def json_mapping_def nested_string_def unreadable_def rbind_def
      split: option.splits json.splits if_splits sum.splits)

lemma commit_error: "commit_matches T p b = Inl e \<Longrightarrow> e = Crash ''ValueError''"
  by (auto simp: commit_matches_def split: if_splits option.splits)

lemma not_validation: "json_string p k = Inl (Crash c) \<Longrightarrow> False" "nested_string p k l = Inl (Crash c) \<Longrightarrow> False"
  "commit_matches T p b = Inl (Crash ''ValidationError'') \<Longrightarrow> False"
  by (fastforce dest: json_error commit_error)+

section \<open>The requests before the branch\<close>

definition tree_entries :: "file_entry list \<Rightarrow> (ustr \<times> string \<times> ustr option) list" where
  "tree_entries es = map (\<lambda>e. (entry_path e, entry_mode e,
     case entry_content e of None \<Rightarrow> None | Some c \<Rightarrow> Some (blob_sha e))) es"

definition blob_calls :: "file_entry list \<Rightarrow> gh_call list" where
  "blob_calls es = concat (map (\<lambda>e. case entry_content e of None \<Rightarrow> [] | Some c \<Rightarrow> [Post_Blob c]) es)"

definition verify_calls :: "publish_submission \<Rightarrow> ustr \<Rightarrow> ustr \<Rightarrow> gh_call list" where
  "verify_calls sub base_branch base_tree = (let b = sub_bundle sub in
     [Get_Repo, Get_Head base_branch, Get_Commit (bundle_base_sha b), Get_Branch (sub_branch sub)]
     @ blob_calls (bundle_entries b)
     @ [Post_Tree base_tree (tree_entries (bundle_entries b)),
        Post_Commit (bundle_message b) (bundle_tree_sha b) [bundle_base_sha b] (author_name b) (author_email b)
          (authored_at b)])"

definition early :: "publish_submission \<Rightarrow> gh_call list \<Rightarrow> bool" where
  "early sub calls \<longleftrightarrow> (\<exists>base_branch base_tree. prefix calls (verify_calls sub base_branch base_tree))"

lemma early_start: "early sub [Get_Repo]" "early sub [Get_Repo, Get_Head b]"
  "early sub [Get_Repo, Get_Head b, Get_Commit (bundle_base_sha (sub_bundle sub))]"
  "early sub [Get_Repo, Get_Head b, Get_Commit (bundle_base_sha (sub_bundle sub)), Get_Branch (sub_branch sub)]"
  unfolding early_def verify_calls_def by (auto simp: Let_def)

lemma early_blobs:
  "prefix xs (blob_calls (bundle_entries (sub_bundle sub)))
   \<Longrightarrow> early sub ([Get_Repo, Get_Head b, Get_Commit (bundle_base_sha (sub_bundle sub)), Get_Branch (sub_branch sub)] @ xs)"
  unfolding early_def verify_calls_def by (auto simp: Let_def prefix_def)

text \<open>The blobs, one after the other.\<close>

lemma post_blobs_triple:
  "gtriple (since xs r) (post_blobs W es)
     (\<lambda>ts s. s = session (xs @ blob_calls es) r \<and> ts = tree_entries es)
     (\<lambda>e s. \<exists>ys. s = session (xs @ ys) r \<and> prefix ys (blob_calls es) \<and> (\<exists>c. e = Publish_Error c))"
proof (induction es arbitrary: xs)
  case Nil
  show ?case by (auto intro!: gtriple_ret simp: blob_calls_def tree_entries_def)
next
  case (Cons e es)
  show ?case
  proof (cases "entry_content e")
    case None
    then show ?thesis
      using Cons.IH [of xs]
      by (fastforce simp: gtriple_def gbind_def gret_def blob_calls_def tree_entries_def split: prod.splits sum.splits)
  next
    case (Some content)
    have rest: "gtriple (since (xs @ [Post_Blob content]) r)
        (gbind (post_blobs W es) (\<lambda>ts. gret ((entry_path e, entry_mode e, Some (blob_sha e)) # ts)))
        (\<lambda>ts s. s = session (xs @ blob_calls (e # es)) r \<and> ts = tree_entries (e # es))
        (\<lambda>ex s. \<exists>ys. s = session (xs @ ys) r \<and> prefix ys (blob_calls (e # es)) \<and> (\<exists>c. ex = Publish_Error c))"
      using Cons.IH [of "xs @ [Post_Blob content]"] Some
      by (fastforce simp: gtriple_def gbind_def gret_def blob_calls_def tree_entries_def split: prod.splits sum.splits)
    show ?thesis
      using Some rest
      by (auto intro!: gtriple_post gtriple_lift gtriple_guard simp: blob_calls_def dest: json_error)
  qed
qed

text \<open>What the server answered about the base: the default branch, its head, which is the bundle's base unless a moved base
  is allowed, the tree of that base, which the server has, and that the new branch does not exist.\<close>

definition base_answered :: "gh_world \<Rightarrow> publish_submission \<Rightarrow> ustr \<Rightarrow> ustr \<Rightarrow> ustr \<Rightarrow> bool" where
  "base_answered W sub base_branch base_head base_tree \<longleftrightarrow>
     (let base = bundle_base_sha (sub_bundle sub); calls = [Get_Repo, Get_Head base_branch, Get_Commit base, Get_Branch (sub_branch sub)] in
      (\<exists>repo. reply_result (gh_answer W [Get_Repo]) [200] = Inr (200, repo)
         \<and> json_string repo ''default_branch'' = Inr base_branch)
      \<and> (\<exists>ref. reply_result (gh_answer W [Get_Repo, Get_Head base_branch]) [200] = Inr (200, ref)
           \<and> nested_string ref ''object'' ''sha'' = Inr base_head)
      \<and> (base_head = base \<or> allow_moved_base sub)
      \<and> (\<exists>code commit. reply_result (gh_answer W [Get_Repo, Get_Head base_branch, Get_Commit base]) [200, 404] = Inr (code, commit)
           \<and> code \<noteq> 404 \<and> nested_string commit ''tree'' ''sha'' = Inr base_tree)
      \<and> (\<exists>code body. reply_result (gh_answer W calls) [200, 404] = Inr (code, body) \<and> code \<noteq> 200))"

text \<open>Up to the commit: what was sent, and what the server's answers have been checked for.\<close>

definition verified_by ::
  "('a publish_env_scheme) \<Rightarrow> gh_world \<Rightarrow> publish_submission \<Rightarrow> ustr \<Rightarrow> ustr \<Rightarrow> ustr \<Rightarrow> ustr \<Rightarrow> bool" where
  "verified_by T W sub base_branch base_head base_tree remote \<longleftrightarrow>
     (let sent = verify_calls sub base_branch base_tree; b = sub_bundle sub in
      base_answered W sub base_branch base_head base_tree
      \<and> (\<exists>tree. reply_result (gh_answer W (butlast sent)) [201] = Inr (201, tree)
           \<and> json_string tree ''sha'' = Inr (bundle_tree_sha b))
      \<and> (\<exists>commit. reply_result (gh_answer W sent) [201] = Inr (201, commit)
           \<and> json_string commit ''sha'' = Inr remote \<and> commit_matches T commit b = Inr True))"

lemma verified_commit_triple:
  "gtriple (since [] None) (verified_commit T W sub)
     (\<lambda>(base_branch, base_head, remote) s. \<exists>base_tree. s = session (verify_calls sub base_branch base_tree) None
        \<and> verified_by T W sub base_branch base_head base_tree remote)
     (\<lambda>e s. e \<noteq> Crash ''ValidationError'' \<and> (\<exists>xs. s = session xs None \<and> early sub xs))"
proof -
  let ?E = "\<lambda>e s. e \<noteq> Crash ''ValidationError'' \<and> (\<exists>xs. s = session xs None \<and> early sub xs)"
  let ?b = "sub_bundle sub"
  have tail: "gtriple (\<lambda>s. s = session ([Get_Repo, Get_Head base_branch, Get_Commit (bundle_base_sha ?b), Get_Branch (sub_branch sub)]
        @ blob_calls (bundle_entries ?b)) None \<and> entries = tree_entries (bundle_entries ?b))
     (gbind (gh_post W (Post_Tree base_tree entries)) (\<lambda>tree.
     gbind (glift (json_string tree ''sha'')) (\<lambda>tree_sha.
     gbind (gguard (tree_sha \<noteq> bundle_tree_sha ?b) ''tree_mismatch'') (\<lambda>_.
     gbind (gh_post W (Post_Commit (bundle_message ?b) (bundle_tree_sha ?b) [bundle_base_sha ?b]
         (author_name ?b) (author_email ?b) (authored_at ?b))) (\<lambda>commit.
     gbind (glift (json_string commit ''sha'')) (\<lambda>remote_commit.
     gbind (glift (commit_matches T commit ?b)) (\<lambda>same.
     gbind (gguard (\<not> same) ''commit_mismatch'') (\<lambda>_.
     gret (base_branch, base_head, remote_commit)))))))))
     (\<lambda>(base_branch, base_head, remote) s. \<exists>base_tree. s = session (verify_calls sub base_branch base_tree) None
        \<and> verified_by T W sub base_branch base_head base_tree remote) ?E"
    if base: "base_answered W sub base_branch base_head base_tree" for base_branch base_head base_tree entries
  proof (cases "entries = tree_entries (bundle_entries ?b)")
    case True
    let ?xs = "[Get_Repo, Get_Head base_branch, Get_Commit (bundle_base_sha ?b), Get_Branch (sub_branch sub)]
        @ blob_calls (bundle_entries ?b)"
    let ?tree = "Post_Tree base_tree (tree_entries (bundle_entries ?b))"
    let ?commit = "Post_Commit (bundle_message ?b) (bundle_tree_sha ?b) [bundle_base_sha ?b]
         (author_name ?b) (author_email ?b) (authored_at ?b)"
    have sent: "verify_calls sub base_branch base_tree = (?xs @ [?tree]) @ [?commit]"
      by (simp add: verify_calls_def Let_def)
    have "early sub (?xs @ [?tree])" "early sub ((?xs @ [?tree]) @ [?commit])"
      unfolding early_def by (metis sent prefixI append.right_neutral prefix_order.refl)+
    then have err: "?E e (session (?xs @ [?tree]) None)" "?E e (session ((?xs @ [?tree]) @ [?commit]) None)" if "e \<noteq> Crash ''ValidationError''" for e using that by blast+
    have "gtriple (since ?xs None)
     (gbind (gh_post W ?tree) (\<lambda>tree.
     gbind (glift (json_string tree ''sha'')) (\<lambda>tree_sha.
     gbind (gguard (tree_sha \<noteq> bundle_tree_sha ?b) ''tree_mismatch'') (\<lambda>_.
     gbind (gh_post W ?commit) (\<lambda>commit.
     gbind (glift (json_string commit ''sha'')) (\<lambda>remote_commit.
     gbind (glift (commit_matches T commit ?b)) (\<lambda>same.
     gbind (gguard (\<not> same) ''commit_mismatch'') (\<lambda>_.
     gret (base_branch, base_head, remote_commit)))))))))
     (\<lambda>(base_branch, base_head, remote) s. \<exists>base_tree. s = session (verify_calls sub base_branch base_tree) None
        \<and> verified_by T W sub base_branch base_head base_tree remote) ?E"
      apply (rule gtriple_post, rule gtriple_lift, rule gtriple_guard, rule gtriple_post, rule gtriple_lift,
          rule gtriple_lift, rule gtriple_guard, rule gtriple_ret)
      apply (simp only: prod.case, intro exI [of _ base_tree])
      apply (simp add: verified_by_def sent butlast_append base)
      apply (rule err, force dest: not_validation)+
      done
    with True show ?thesis by (simp add: gtriple_def since_def)
  qed (simp add: gtriple_def)
  have blobs: "gtriple (since [Get_Repo, Get_Head base_branch, Get_Commit (bundle_base_sha ?b), Get_Branch (sub_branch sub)] None)
     (post_blobs W (bundle_entries ?b))
     (\<lambda>entries s. s = session ([Get_Repo, Get_Head base_branch, Get_Commit (bundle_base_sha ?b), Get_Branch (sub_branch sub)]
        @ blob_calls (bundle_entries ?b)) None \<and> entries = tree_entries (bundle_entries ?b)) ?E" for base_branch
    using post_blobs_triple [of "[Get_Repo, Get_Head base_branch, Get_Commit (bundle_base_sha ?b), Get_Branch (sub_branch sub)]" None W "bundle_entries ?b"]
    by (rule gtriple_weaken) (use early_blobs in \<open>blast, fastforce\<close>)
  show ?thesis
    unfolding verified_commit_def Let_def
    apply (rule gtriple_get)
     apply (rule gtriple_lift)
      apply (rule gtriple_get)
       apply (rule gtriple_lift, rule gtriple_guard, rule gtriple_request, rule gtriple_case, rule gtriple_guard,
         rule gtriple_lift, rule gtriple_request, rule gtriple_case, rule gtriple_guard)
                apply (simp only: append_Cons append_Nil)
                apply (rule gtriple_bind [OF blobs], rule tail, force simp: base_answered_def Let_def)
    by (use early_start in \<open>auto simp: append_Cons dest: not_validation\<close>)
qed

section \<open>The branch and the pull request\<close>

lemma gtriple_delete:
  "gtriple (since (xs @ [Delete_Ref b]) None) (f ()) Q E \<Longrightarrow> gtriple (since xs (Some b)) (gbind (delete_ref W False) f) Q E"
  by (auto simp: gtriple_def gbind_def delete_ref_def gh_request_def since_def Let_def split: prod.splits sum.splits)

lemma gtriple_if:
  "(c \<Longrightarrow> gtriple P m Q E) \<Longrightarrow> (\<not> c \<Longrightarrow> gtriple P n Q E) \<Longrightarrow> gtriple P (if c then m else n) Q E"
  by simp

text \<open>The sessions in which opening the pull request can raise.\<close>

definition stopped :: "publish_submission \<Rightarrow> gh_call list \<Rightarrow> bool \<Rightarrow> gh_call \<Rightarrow> gh_call \<Rightarrow> gh_session \<Rightarrow> bool" where
  "stopped sub v made ref pull s \<longleftrightarrow> (let b = sub_branch sub; gone = Delete_Ref b in
     s = session (v @ [ref]) None \<and> \<not> made
     \<or> made \<and> s \<in> {session (v @ [ref]) (Some b), session (v @ [ref, pull]) (Some b), session (v @ [ref, pull, gone]) None}
     \<or> made \<and> (\<exists>n. s \<in> {session (v @ [ref, pull, Close_Pull n]) (Some b), session (v @ [ref, pull, Close_Pull n, gone]) None}))"

definition ref_made :: "gh_world \<Rightarrow> gh_call list \<Rightarrow> bool" where
  "ref_made W calls \<longleftrightarrow> (\<exists>p. reply_result (gh_answer W calls) [201, 422] = Inr (201, p))"

definition opened_as :: "gh_world \<Rightarrow> gh_call list \<Rightarrow> ustr \<Rightarrow> ustr \<Rightarrow> int \<times> ustr \<Rightarrow> bool" where
  "opened_as W calls base_branch remote pull \<longleftrightarrow>
     (\<exists>p. reply_result (gh_answer W calls) [201, 422] = Inr (201, p)
        \<and> json_integer p ''number'' = Inr (fst pull) \<and> json_string p ''html_url'' = Inr (snd pull)
        \<and> nested_string p ''head'' ''sha'' = Inr remote \<and> nested_string p ''base'' ''ref'' = Inr base_branch
        \<and> map_of p (lit ''draft'') = Some (JBool True))"

definition ref_call :: "publish_submission \<Rightarrow> ustr \<Rightarrow> gh_call" where
  "ref_call sub remote = Post_Ref (sub_branch sub) remote"

definition pull_call :: "publish_submission \<Rightarrow> ustr \<Rightarrow> gh_call" where
  "pull_call sub base_branch = Post_Pull (sub_title sub) (sub_branch sub) base_branch (sub_body sub) True"

lemma open_pull_triple:
  "gtriple (since v None) (open_pull W sub base_branch remote)
     (\<lambda>x s. s = session (v @ [ref_call sub remote, pull_call sub base_branch]) (Some (sub_branch sub))
        \<and> ref_made W (v @ [ref_call sub remote]) \<and> opened_as W (v @ [ref_call sub remote, pull_call sub base_branch]) base_branch remote x)
     (\<lambda>e s. (\<exists>c. e = Publish_Error c) \<and> stopped sub v (ref_made W (v @ [ref_call sub remote])) (ref_call sub remote) (pull_call sub base_branch) s)"
    (is "gtriple _ _ ?Q ?E")
proof -
  let ?b = "sub_branch sub" and ?xs = "(v @ [ref_call sub remote]) @ [pull_call sub base_branch]"
  have withdraw: "gtriple (since ?xs (Some ?b)) (gbind (withdraw_pull W n code) f) ?Q ?E"
    if "ref_made W (v @ [ref_call sub remote])" for n code and f :: "unit \<Rightarrow> (int \<times> ustr) gh"
  proof -
    have "gtriple (since ?xs (Some ?b)) (withdraw_pull W n code) (\<lambda>_ _. False) ?E"
      unfolding withdraw_pull_def
      by (rule gtriple_request, rule gtriple_delete, rule gtriple_raise) (use that in \<open>auto simp: stopped_def\<close>)
    then show ?thesis by (rule gtriple_bind) (simp add: gtriple_def)
  qed
  have made: "ref_made W (v @ [ref_call sub remote])" if "reply_result (gh_answer W (v @ [ref_call sub remote])) [201, 422] = Inr a" "a = (c, p)" "c \<noteq> 422" for a c p
    using that reply_code [OF that(1) [unfolded that(2)]] by (auto simp: ref_made_def)
  have err: "?E (Publish_Error c) (session (v @ [ref_call sub remote]) (Some ?b))" "?E (Publish_Error c) (session ?xs (Some ?b))"
    "?E (Publish_Error c) (session (?xs @ [Delete_Ref ?b]) None)"
    if "ref_made W (v @ [ref_call sub remote])" for c
    using that by (simp_all add: stopped_def Let_def)
  have checked: "gtriple (since ?xs (Some ?b))
     (gbind (if head_sha \<noteq> remote \<or> pull_base \<noteq> base_branch then withdraw_pull W number ''pull_request_mismatch''
             else if map_of p (lit ''draft'') \<noteq> Some (JBool True) then withdraw_pull W number ''draft_unsupported''
             else gret ()) (\<lambda>_. gret (number, url))) ?Q ?E"
    if "reply_result (gh_answer W ?xs) [201, 422] = Inr (201, p)" "json_integer p ''number'' = Inr number"
      "json_string p ''html_url'' = Inr url" "nested_string p ''head'' ''sha'' = Inr head_sha"
      "nested_string p ''base'' ''ref'' = Inr pull_base" "ref_made W (v @ [ref_call sub remote])" for p head_sha pull_base number url
  proof (cases "head_sha = remote \<and> pull_base = base_branch \<and> map_of p (lit ''draft'') = Some (JBool True)")
    case True
    have "gbind (gret ()) (\<lambda>_. gret (number, url)) = gret (number, url)" by (simp add: gbind_def gret_def fun_eq_iff)
    moreover have "gtriple (since ?xs (Some ?b)) (gret (number, url)) ?Q ?E"
      by (rule gtriple_ret) (use True that in \<open>auto simp: opened_as_def\<close>)
    ultimately show ?thesis using True by simp
  next
    case False
    then show ?thesis using withdraw [OF that(6)] by auto
  qed
  show ?thesis
    unfolding open_pull_def ref_call_def [symmetric] pull_call_def [symmetric]
    apply (rule gtriple_request, rule gtriple_case, rule gtriple_guard, rule gtriple_created, rule gtriple_lift,
        rule gtriple_guard, rule gtriple_request, rule gtriple_case, rule gtriple_if, rule gtriple_delete, rule gtriple_raise)
           apply (rule err, erule (2) made)
          apply (rule gtriple_lift, rule gtriple_lift, rule gtriple_lift, rule gtriple_lift, rule checked)
                 apply (auto dest: reply_code)[1]
                apply assumption+
             apply (erule (2) made)
            apply (drule json_error, erule exE, erule ssubst, rule err, erule (2) made)+
       apply (rule err, erule (2) made)
      apply (rule err, erule (2) made)
     apply (drule json_error, erule exE, erule ssubst, rule err, erule (2) made)
    by (auto simp: stopped_def Let_def ref_made_def dest: reply_code)
qed


section \<open>A whole publication\<close>

text \<open>The requests once the commit is verified: how they can end when the publication is refused.\<close>

definition refused_tails :: "publish_submission \<Rightarrow> ustr \<Rightarrow> gh_call list set" where
  "refused_tails sub base_branch = (let gone = Delete_Ref (sub_branch sub); pull = pull_call sub base_branch in
     {[gone], [pull, gone]} \<union> {[pull, Close_Pull n, gone] | n. True})"

definition publish_refused :: "gh_world \<Rightarrow> publish_submission \<Rightarrow> gh_call list \<Rightarrow> ustr \<Rightarrow> ustr \<Rightarrow> gh_call list \<Rightarrow> bool" where
  "publish_refused W sub v base_branch remote calls \<longleftrightarrow> (let ref = ref_call sub remote in
     calls = v @ [ref] \<and> \<not> ref_made W (v @ [ref])
     \<or> ref_made W (v @ [ref]) \<and> (\<exists>tail \<in> refused_tails sub base_branch. calls = v @ [ref] @ tail))"

definition publish_opened ::
  "gh_world \<Rightarrow> publish_submission \<Rightarrow> gh_call list \<Rightarrow> ustr \<Rightarrow> ustr \<Rightarrow> int \<times> ustr \<Rightarrow> gh_call list \<Rightarrow> bool" where
  "publish_opened W sub v base_branch remote pull calls \<longleftrightarrow>
     calls = v @ [ref_call sub remote, pull_call sub base_branch] \<and> ref_made W (v @ [ref_call sub remote])
     \<and> opened_as W calls base_branch remote pull"

definition publish_outcome ::
  "('a publish_env_scheme) \<Rightarrow> gh_world \<Rightarrow> publish_submission \<Rightarrow> (publish_exn + published_change) \<times> gh_session \<Rightarrow> bool" where
  "publish_outcome T W sub res \<longleftrightarrow> (let r = fst res; calls = gh_calls (snd res) in
     (\<exists>e. r = Inl e \<and> e \<noteq> Crash ''ValidationError'' \<and> early sub calls)
     \<or> (\<exists>bb bh bt remote. verified_by T W sub bb bh bt remote \<and>
         ((\<exists>c. r = Inl (Publish_Error c)) \<and> publish_refused W sub (verify_calls sub bb bt) bb remote calls
          \<or> (\<exists>pull. publish_opened W sub (verify_calls sub bb bt) bb remote pull calls
               \<and> (r = Inl (Crash ''ValidationError'')
                  \<or> (\<exists>at. gh_clock W = Aware at \<and> r = Inr (published_record T W sub (bb, bh, remote) pull at)
                        \<and> publication_ok (published_record T W sub (bb, bh, remote) pull at)))))))"

lemma early_nil: "early sub []"
  by (simp add: early_def)

text \<open>A session whose branch is still marked is one request from the end.\<close>

lemma cleaned_stopped:
  assumes "stopped sub v (ref_made W (v @ [ref_call sub remote])) (ref_call sub remote) (pull_call sub bb) s"
  shows "publish_refused W sub v bb remote (gh_calls (snd (delete_ref W False s)))"
  using assms unfolding stopped_def publish_refused_def refused_tails_def Let_def
  by (elim disjE conjE insertE exE emptyE)
    (auto simp: delete_ref_def gh_request_def Let_def split: sum.splits)


lemma publish_body_cases:
  assumes "publish_body T W sub (session [] None) = (r, s)"
  shows "(\<exists>e. r = Inl e \<and> e \<noteq> Crash ''ValidationError'' \<and> created_ref s = None \<and> early sub (gh_calls s))
     \<or> (\<exists>bb bh bt remote. verified_by T W sub bb bh bt remote \<and>
         ((\<exists>c. r = Inl (Publish_Error c)) \<and> publish_refused W sub (verify_calls sub bb bt) bb remote (gh_calls (snd (delete_ref W False s)))
          \<or> (\<exists>pull. created_ref s = None \<and> publish_opened W sub (verify_calls sub bb bt) bb remote pull (gh_calls s)
               \<and> (r = Inl (Crash ''ValidationError'')
                  \<or> (\<exists>at. gh_clock W = Aware at \<and> r = Inr (published_record T W sub (bb, bh, remote) pull at)
                        \<and> publication_ok (published_record T W sub (bb, bh, remote) pull at))))))"
proof -
  note first = verified_commit_triple [of T W sub, unfolded gtriple_def since_def, rule_format, OF refl]
  show ?thesis
  proof (cases "verified_commit T W sub (session [] None)")
    case (Pair r1 s1)
    show ?thesis
    proof (cases r1)
      case (Inl e)
      with first Pair assms show ?thesis
        by (intro disjI1) (auto simp: publish_body_def gbind_def)
    next
      case (Inr x)
      obtain bb bh remote where x: "x = (bb, bh, remote)" by (cases x) auto
      with Inr first Pair obtain bt where v: "s1 = session (verify_calls sub bb bt) None"
          "verified_by T W sub bb bh bt remote" by auto
      note second = open_pull_triple [of "verify_calls sub bb bt" W sub bb remote, unfolded gtriple_def since_def, rule_format, OF refl]
      obtain r2 s2 where o2: "open_pull W sub bb remote (session (verify_calls sub bb bt) None) = (r2, s2)" by force
      show ?thesis
      proof (cases r2)
        case (Inl e)
        with o2 Inr Pair x v assms have "r = Inl e" "s = s2" by (simp_all add: publish_body_def gbind_def)
        with Inl second o2 v show ?thesis by (auto dest: cleaned_stopped)
      next
        case (Inr pull)
        with o2 Pair \<open>r1 = Inr x\<close> x v assms
        have rs: "(case gh_clock W of Naive t \<Rightarrow> graise (Crash ''ValidationError'')
            | Aware at \<Rightarrow> let p = published_record T W sub (bb, bh, remote) pull at in
               if publication_ok p then gret p else graise (Crash ''ValidationError'')) (s2\<lparr>created_ref := None\<rparr>) = (r, s)"
          by (simp add: publish_body_def gbind_def gcreated_def)
        have o: "publish_opened W sub (verify_calls sub bb bt) bb remote pull (gh_calls s2)"
          using second o2 Inr by (auto simp: publish_opened_def)
        from rs have s: "s = s2\<lparr>created_ref := None\<rparr>"
          by (auto simp: graise_def gret_def Let_def split: clock_value.splits if_splits)
        from rs have ends: "r = Inl (Crash ''ValidationError'')
            \<or> (\<exists>at. gh_clock W = Aware at \<and> r = Inr (published_record T W sub (bb, bh, remote) pull at)
                  \<and> publication_ok (published_record T W sub (bb, bh, remote) pull at))"
          by (auto simp: graise_def gret_def Let_def split: clock_value.splits if_splits)
        show ?thesis
          by (rule disjI2, rule exI [of _ bb], rule exI [of _ bh], rule exI [of _ bt], rule exI [of _ remote],
              rule conjI [OF v(2)], rule disjI2, rule exI [of _ pull]) (use o s ends in simp)
      qed
    qed
  qed
qed

lemma delete_ref_none: "created_ref s = None \<Longrightarrow> delete_ref W b s = (Inr (), s)"
  by (simp add: delete_ref_def)

theorem publish_outcomes: "publish_outcome T W sub (gh_publish T W sub)"
proof -
  have refused: "publish_outcome T W sub (Inl (Publish_Error c), session [] None)" for c
    by (simp add: publish_outcome_def early_nil)
  obtain r s where b: "publish_body T W sub (session [] None) = (r, s)" by force
  have "publish_outcome T W sub (case r of Inl e \<Rightarrow> (Inl e, snd (delete_ref W False s)) | Inr a \<Rightarrow> (Inr a, s))"
    using publish_body_cases [OF b]
  proof (elim disjE exE conjE, goal_cases)
    case (1 e)
    then show ?case by (simp add: publish_outcome_def delete_ref_none)
  next
    case (2 bb bh bt remote c)
    then show ?case by (simp add: publish_outcome_def Let_def del: split_paired_Ex) blast
  next
    case (3 bb bh bt remote pull)
    then show ?case by (simp add: publish_outcome_def Let_def delete_ref_none del: split_paired_Ex) blast
  next
    case (4 bb bh bt remote pull at)
    then show ?case by (simp add: publish_outcome_def Let_def del: split_paired_Ex) blast
  qed
  with refused b show ?thesis
    by (auto simp: gh_publish_def with_session_def Let_def split: prod.splits sum.splits)
qed

lemma publish_success:
  assumes "gh_publish T W sub = (Inr p, s)"
  shows "\<exists>bb bh bt remote pull at. verified_by T W sub bb bh bt remote
    \<and> publish_opened W sub (verify_calls sub bb bt) bb remote pull (gh_calls s)
    \<and> p = published_record T W sub (bb, bh, remote) pull at \<and> publication_ok p \<and> gh_clock W = Aware at"
  using publish_outcomes [of T W sub] assms by (simp add: publish_outcome_def Let_def del: split_paired_Ex) blast


text \<open>Whether the branch was made can be read off the requests.\<close>

definition branch_made :: "gh_world \<Rightarrow> publish_submission \<Rightarrow> gh_call list \<Rightarrow> bool" where
  "branch_made W sub calls \<longleftrightarrow> (\<exists>v remote. prefix (v @ [Post_Ref (sub_branch sub) remote]) calls
     \<and> ref_made W (v @ [Post_Ref (sub_branch sub) remote]))"

lemma verify_calls_shape:
  "Post_Ref b r \<notin> set (verify_calls sub bb bt)" "Delete_Ref b \<notin> set (verify_calls sub bb bt)"
  by (auto simp: verify_calls_def Let_def blob_calls_def split: option.splits)

lemma early_shape: "early sub calls \<Longrightarrow> Post_Ref b r \<notin> set calls" "early sub calls \<Longrightarrow> Delete_Ref b \<notin> set calls"
  using verify_calls_shape by (auto simp: early_def dest!: set_mono_prefix)

lemma early_cleanup:
  assumes "early sub calls"
  shows "\<not> branch_made W sub calls" "\<not> (calls \<noteq> [] \<and> last calls = Delete_Ref b)"
proof -
  show "\<not> branch_made W sub calls"
  proof
    assume "branch_made W sub calls"
    then obtain v r where "prefix (v @ [Post_Ref (sub_branch sub) r]) calls" by (auto simp: branch_made_def)
    then have "Post_Ref (sub_branch sub) r \<in> set calls" by (auto dest: set_mono_prefix)
    with early_shape [OF assms] show False by blast
  qed
  show "\<not> (calls \<noteq> [] \<and> last calls = Delete_Ref b)"
    using early_shape(2) [OF assms] last_in_set by fastforce
qed

lemma refused_cleanup:
  assumes "publish_refused W sub (verify_calls sub bb bt) bb remote calls"
  shows "branch_made W sub calls \<longleftrightarrow> calls \<noteq> [] \<and> last calls = Delete_Ref (sub_branch sub)"
proof (cases "ref_made W (verify_calls sub bb bt @ [ref_call sub remote])")
  case True
  with assms obtain tail where t: "tail \<in> refused_tails sub bb" "calls = verify_calls sub bb bt @ [ref_call sub remote] @ tail"
    by (auto simp: publish_refused_def Let_def)
  have "branch_made W sub calls"
    unfolding branch_made_def t(2)
    by (rule exI [of _ "verify_calls sub bb bt"], rule exI [of _ remote]) (use True in \<open>simp add: ref_call_def\<close>)
  with t show ?thesis by (auto simp: refused_tails_def Let_def)
next
  case False
  with assms have c: "calls = verify_calls sub bb bt @ [ref_call sub remote]"
    by (auto simp: publish_refused_def Let_def)
  have "\<not> branch_made W sub calls"
  proof
    assume "branch_made W sub calls"
    then obtain v r where p: "prefix (v @ [Post_Ref (sub_branch sub) r]) calls"
      and m: "ref_made W (v @ [Post_Ref (sub_branch sub) r])" by (auto simp: branch_made_def)
    then have "v @ [Post_Ref (sub_branch sub) r] = calls"
      using c verify_calls_shape(1) [of "sub_branch sub" r sub bb bt] set_mono_prefix [OF p] by (fastforce simp: prefix_snoc dest: set_mono_prefix)
    with m False c show False by simp
  qed
  with c show ?thesis by (simp add: ref_call_def)
qed

end
