(* ===== verification/EngineerPublishProperties.thy ===== *)
theory EngineerPublishProperties
  imports EngineerPublishFacts EngineerCycleProperties
begin

text \<open>
  The properties of publication: the requests that reach the server whatever it answers, what a published
  change has been checked for, what is cleaned up after a failure and what is not, and the limits on what is
  read from Git and put into the text of the pull request.
\<close>

section \<open>A concrete server\<close>

definition demo_publish_env :: publish_env where
  "demo_publish_env = \<lparr>env_nfc = id, env_sha256 = (\<lambda>v. replicate 64 (CHR ''a'')), env_uuid5 = (\<lambda>n v. length v),
     env_iso = (\<lambda>t. ''t''), casefold = id, strip = id, text_digest = (\<lambda>v. replicate 64 (CHR ''a'')),
     re_search = (\<lambda>p i v. False), re_match1 = (\<lambda>p v. None), format_date = (\<lambda>t. ''d''), format_spent = (\<lambda>t. ''s''),
     format_limit = (\<lambda>t. ''l''),
     git_text = (\<lambda>q. case q of Rev_Parent c \<Rightarrow> Some (replicate 40 49) | Rev_Tree c \<Rightarrow> Some (replicate 40 51)
       | Commit_Meta c \<Rightarrow> Some (lit ''n'' @ 0 # lit ''m'' @ 0 # lit ''d'' @ 0 # lit ''fix'')
       | Changed_Paths b c \<Rightarrow> Some (lit ''M'' @ 0 # lit ''docs/a.md'' @ [0])
       | Ls_Tree c p \<Rightarrow> Some (lit ''100644 blob '' @ replicate 40 52 @ lit '' 2'' @ 9 # p @ [0])),
     git_blob = (\<lambda>s. Some ''ok''), git_rederive = (\<lambda>b p. Inr (replicate 40 51)),
     normal_iso = Some, iso_instant = (\<lambda>s. Some 0), pub_isoformat = (\<lambda>t. ''t'')\<rparr>"

definition demo_bundle :: change_bundle where
  "demo_bundle = \<lparr>bundle_base_sha = replicate 40 49, bundle_tree_sha = replicate 40 51,
     bundle_commit_sha = replicate 40 50, bundle_message = lit ''fix'', author_name = lit ''n'', author_email = lit ''m'',
     authored_at = lit ''d'', bundle_entries = [\<lparr>entry_path = lit ''docs/a.md'', entry_mode = ''100644'',
       blob_sha = replicate 40 52, entry_content = Some ''ok''\<rparr>]\<rparr>"

definition demo_publisher :: actor_identity where
  "demo_publisher = \<lparr>actor_type = Human, actor_id = ''owner''\<rparr>"

definition demo_submission :: "uuid option \<Rightarrow> publish_submission" where
  "demo_submission d = \<lparr>sub_bundle = demo_bundle, sub_branch = lit ''nexus/a'', sub_title = lit ''Fix'', sub_body = lit ''B'',
     sub_cycle_id = 77, sub_diff_sha256 = replicate 64 (CHR ''a''), sub_published_by = demo_publisher,
     sub_authority = OWNER_DECISION_AUTHORITY, sub_request_id = Some 5, sub_decision_id = d, allow_moved_base = False\<rparr>"

definition json_object :: "(string \<times> json) list \<Rightarrow> json" where
  "json_object xs = JObj (map (\<lambda>(k, v). (lit k, v)) xs)"

text \<open>A server that does what it is asked; it can refuse one request.\<close>

definition demo_reply :: "bool \<Rightarrow> gh_call \<Rightarrow> gh_reply" where
  "demo_reply drafts c = (let sha = (\<lambda>x. [(''sha'', JStr x)]) in case c of
     Get_Repo \<Rightarrow> Response 200 False (Some (json_object [(''default_branch'', JStr (lit ''main''))]))
   | Get_Head b \<Rightarrow> Response 200 False (Some (json_object [(''object'', json_object (sha (replicate 40 49)))]))
   | Get_Commit s \<Rightarrow> Response 200 False (Some (json_object [(''tree'', json_object (sha (replicate 40 57)))]))
   | Get_Branch b \<Rightarrow> Response 404 False None
   | Post_Blob x \<Rightarrow> Response 201 False (Some (json_object (sha (replicate 40 52))))
   | Post_Tree b es \<Rightarrow> Response 201 False (Some (json_object (sha (replicate 40 51))))
   | Post_Commit m t ps n a d \<Rightarrow> (let person = json_object [(''name'', JStr n), (''email'', JStr a), (''date'', JStr d)] in
       Response 201 False (Some (json_object [(''sha'', JStr (replicate 40 53)), (''tree'', json_object (sha t)),
         (''parents'', JList (map (json_object \<circ> sha) ps)), (''message'', JStr m), (''author'', person), (''committer'', person)])))
   | Post_Ref b r \<Rightarrow> Response 201 False (Some (json_object [(''object'', json_object (sha r))]))
   | Post_Pull t h b body d \<Rightarrow> (if drafts then Response 201 False (Some (json_object [(''number'', JInt 7),
         (''html_url'', JStr (lit ''https://h/7'')), (''head'', json_object (sha (replicate 40 53))),
         (''base'', json_object [(''ref'', JStr b)]), (''draft'', JBool d)]))
       else Response 422 False (Some (json_object [])))
   | Close_Pull n \<Rightarrow> Response 200 False (Some (json_object []))
   | Delete_Ref b \<Rightarrow> Response 204 False None)"

definition demo_server :: "bool \<Rightarrow> gh_world" where
  "demo_server drafts = \<lparr>gh_answer = (\<lambda>calls. demo_reply drafts (last calls)), gh_repository = lit ''o/r'', gh_token = lit ''t'',
     gh_token_char = (\<lambda>c. True), gh_clock = Aware 9\<rparr>"

lemma demo_verified:
  "verified_commit demo_publish_env (demo_server drafts) (demo_submission d) (session [] None)
     = (Inr (lit ''main'', replicate 40 49, replicate 40 53),
        session (verify_calls (demo_submission d) (lit ''main'') (replicate 40 57)) None)"
  by code_simp

definition demo_calls :: "uuid option \<Rightarrow> gh_call list" where
  "demo_calls d = verify_calls (demo_submission d) (lit ''main'') (replicate 40 57)"

lemma demo_opened:
  "open_pull (demo_server True) (demo_submission d) (lit ''main'') (replicate 40 53) (session (demo_calls d) None)
     = (Inr (7, lit ''https://h/7''), session (demo_calls d @ [ref_call (demo_submission d) (replicate 40 53),
          pull_call (demo_submission d) (lit ''main'')]) (Some (lit ''nexus/a'')))"
  by code_simp

lemma demo_rejected:
  "open_pull (demo_server False) (demo_submission d) (lit ''main'') (replicate 40 53) (session (demo_calls d) None)
     = (Inl (Publish_Error ''draft_unsupported_or_rejected''), session (demo_calls d @ [ref_call (demo_submission d) (replicate 40 53),
          pull_call (demo_submission d) (lit ''main''), Delete_Ref (lit ''nexus/a'')]) None)"
  by code_simp


lemma demo_record_ok:
  "publication_ok (published_record demo_publish_env (demo_server True) (demo_submission (Some 6))
     (lit ''main'', replicate 40 49, replicate 40 53) (7, lit ''https://h/7'') 9)"
  by (simp add: published_record_def publication_ok_def publication_error_def demo_submission_def demo_publisher_def) code_simp

lemma demo_record_bad:
  "\<not> publication_ok (published_record demo_publish_env (demo_server True) (demo_submission None)
     (lit ''main'', replicate 40 49, replicate 40 53) (7, lit ''https://h/7'') 9)"
  by (simp add: published_record_def publication_ok_def publication_error_def demo_submission_def)

lemma demo_session:
  "gh_publish demo_publish_env (demo_server drafts) (demo_submission d)
     = (case publish_body demo_publish_env (demo_server drafts) (demo_submission d) (session [] None) of
          (Inl e, s) \<Rightarrow> (Inl e, snd (delete_ref (demo_server drafts) False s)) | (Inr a, s) \<Rightarrow> (Inr a, s))"
proof -
  have "bundle_entries (sub_bundle (demo_submission d)) \<noteq> []" "\<not> content_bytes (sub_bundle (demo_submission d)) > max_bundle_bytes"
    by (simp_all add: demo_submission_def demo_bundle_def content_bytes_def max_bundle_bytes_def)
  moreover have "\<not> contains_credential demo_publish_env v" for v
    by (simp add: contains_credential_def contains_secret_def demo_publish_env_def list_ex_iff)
  moreover have "strip demo_publish_env (gh_token (demo_server drafts)) \<noteq> []"
    "list_all (gh_token_char (demo_server drafts)) v" for v
    by (simp_all add: demo_publish_env_def demo_server_def lit_def list_all_iff)
  ultimately show ?thesis by (simp add: gh_publish_def with_session_def Let_def split: prod.splits)
qed

lemma demo_published:
  "\<exists>p s. gh_publish demo_publish_env (demo_server True) (demo_submission (Some 6)) = (Inr p, s)"
  using demo_record_ok
  by (simp add: demo_session publish_body_def gbind_def gret_def gcreated_def demo_verified [folded demo_calls_def]
      demo_opened demo_server_def [THEN arg_cong [of _ _ gh_clock]] Let_def)

lemma demo_unrecorded:
  "fst (gh_publish demo_publish_env (demo_server True) (demo_submission None)) = Inl (Crash ''ValidationError'')"
  using demo_record_bad
  by (simp add: demo_session publish_body_def gbind_def graise_def gcreated_def demo_verified [folded demo_calls_def]
      demo_opened demo_server_def [THEN arg_cong [of _ _ gh_clock]] Let_def)

lemma demo_sub: "sub_branch (demo_submission d) = lit ''nexus/a''" "sub_title (demo_submission d) = lit ''Fix''"
  "sub_body (demo_submission d) = lit ''B''"
  by (simp_all add: demo_submission_def)

lemma demo_refused:
  "gh_publish demo_publish_env (demo_server False) (demo_submission (Some 6))
     = (Inl (Publish_Error ''draft_unsupported_or_rejected''),
        session (demo_calls (Some 6) @ [ref_call (demo_submission (Some 6)) (replicate 40 53),
          pull_call (demo_submission (Some 6)) (lit ''main''), Delete_Ref (lit ''nexus/a'')]) None)"
  by (simp add: demo_session publish_body_def gbind_def demo_verified [folded demo_calls_def] demo_rejected delete_ref_def)


section \<open>The requests\<close>

text \<open>What may follow the creation of the branch.\<close>

definition allowed_tails :: "publish_submission \<Rightarrow> ustr \<Rightarrow> gh_call list set" where
  "allowed_tails sub base_branch =
     (let pull = Post_Pull (sub_title sub) (sub_branch sub) base_branch (sub_body sub) True;
          gone = Delete_Ref (sub_branch sub) in
      {[], [gone], [pull], [pull, gone]} \<union> {[pull, Close_Pull n, gone] | n. True})"

lemma publish_tails:
  "publish_refused W sub v bb remote calls
     \<Longrightarrow> \<exists>tail \<in> allowed_tails sub bb. calls = v @ [Post_Ref (sub_branch sub) remote] @ tail"
  "publish_opened W sub v bb remote pull calls
     \<Longrightarrow> \<exists>tail \<in> allowed_tails sub bb. calls = v @ [Post_Ref (sub_branch sub) remote] @ tail"
  by (auto simp: publish_refused_def publish_opened_def refused_tails_def allowed_tails_def ref_call_def pull_call_def Let_def)

text \<open>C20:
  Whatever the server answers, the publisher sends a beginning of the verification (the repository, its head,
  the base, the absence of the branch, the blobs, the tree and the commit that were validated), and only
  after all of it the creation of its own branch, then at most one pull request, which is a draft, and the
  cleanup. It never updates or deletes another branch and never merges.
\<close>

theorem engineer_publish_requests:
  "let calls = gh_calls (snd (gh_publish T W sub)) in
     early sub calls
     \<or> (\<exists>base_branch base_tree remote. \<exists>tail \<in> allowed_tails sub base_branch.
          calls = verify_calls sub base_branch base_tree @ [Post_Ref (sub_branch sub) remote] @ tail)"
  using publish_outcomes [of T W sub] publish_tails unfolding publish_outcome_def Let_def ref_call_def by metis

section \<open>What was published\<close>

text \<open>C21:
  A publication that is returned rests on checked answers: the base was what the server answered as the head of its default branch (or a
  moved base was allowed), the server's tree has the validated hash, its commit has exactly that tree, the
  validated base as its only parent, the message and the identities sent, the branch was new, and the pull
  request is a draft of that commit onto the default branch. The record names these and satisfies its model.
\<close>

theorem engineer_publish_verified:
  assumes "gh_publish T W sub = (Inr p, s)"
  shows "\<exists>base_branch base_head base_tree remote pull.
     verified_by T W sub base_branch base_head base_tree remote
   \<and> gh_calls s = verify_calls sub base_branch base_tree @ [Post_Ref (sub_branch sub) remote,
        Post_Pull (sub_title sub) (sub_branch sub) base_branch (sub_body sub) True]
   \<and> ref_made W (verify_calls sub base_branch base_tree @ [Post_Ref (sub_branch sub) remote])
   \<and> opened_as W (gh_calls s) base_branch remote pull
   \<and> publication_ok p \<and> pub_branch p = sub_branch sub \<and> pub_base_branch p = base_branch
   \<and> remote_commit_sha p = plain_text remote \<and> pub_tree_sha p = plain_text (bundle_tree_sha (sub_bundle sub))
   \<and> pull_request_number p = fst pull \<and> pull_request_url p = snd pull \<and> pub_cycle_id p = sub_cycle_id sub
   \<and> pub_decision_id p = sub_decision_id sub"
proof -
  from publish_success [OF assms] obtain bb bh bt remote pull at where
    *: "verified_by T W sub bb bh bt remote" "publish_opened W sub (verify_calls sub bb bt) bb remote pull (gh_calls s)"
    "p = published_record T W sub (bb, bh, remote) pull at" "publication_ok p" by blast
  then show ?thesis
    by (intro exI [of _ bb] exI [of _ bh] exI [of _ bt] exI [of _ remote] exI [of _ pull])
      (simp add: publish_opened_def ref_call_def pull_call_def published_record_def split: prod.splits)
qed

lemma engineer_publish_verified_witness:
  "\<exists>p s. gh_publish demo_publish_env (demo_server True) (demo_submission (Some 6)) = (Inr p, s)
     \<and> pub_branch p = lit ''nexus/a'' \<and> publication_ok p"
proof -
  obtain p s where "gh_publish demo_publish_env (demo_server True) (demo_submission (Some 6)) = (Inr p, s)"
    using demo_published by blast
  with engineer_publish_verified [OF this] show ?thesis by (auto simp: demo_sub)
qed

section \<open>Cleaning up\<close>

text \<open>When a publication ends in a PublishError, the last request deletes the branch exactly when the server had
  confirmed its creation: no branch of the publisher stays behind, and a branch that it did not make is never
  deleted.
\<close>

theorem engineer_publish_cleanup:
  assumes "gh_publish T W sub = (Inl (Publish_Error code), s)"
  shows "branch_made W sub (gh_calls s)
     \<longleftrightarrow> gh_calls s \<noteq> [] \<and> last (gh_calls s) = Delete_Ref (sub_branch sub)"
proof -
  have "early sub (gh_calls s)
      \<or> (\<exists>bb bt remote. publish_refused W sub (verify_calls sub bb bt) bb remote (gh_calls s))"
    using publish_outcomes [of T W sub] assms
    by (simp add: publish_outcome_def Let_def del: split_paired_Ex) blast
  then show ?thesis using early_cleanup refused_cleanup by blast
qed

text \<open>A server without draft pull requests: the branch is made and deleted again.\<close>

lemma engineer_publish_cleanup_witness:
  "branch_made (demo_server False) (demo_submission (Some 6))
     (gh_calls (snd (gh_publish demo_publish_env (demo_server False) (demo_submission (Some 6)))))"
  using engineer_publish_cleanup [OF demo_refused] by (simp add: demo_refused demo_sub)

section \<open>A record that fails\<close>

text \<open>The session forgets its branch before the record of the publication is built. When the record does not
  satisfy its model (an owner's publication that names no decision, a naive clock), the publisher raises a
  ValidationError, the branch and the pull request stay on the server, and nothing is sent to remove them.
\<close>

theorem engineer_publish_unrecorded:
  assumes "fst (gh_publish T W sub) = Inl (Crash ''ValidationError'')"
  shows "\<exists>bb bt remote pull. gh_calls (snd (gh_publish T W sub)) = verify_calls sub bb bt
      @ [Post_Ref (sub_branch sub) remote, Post_Pull (sub_title sub) (sub_branch sub) bb (sub_body sub) True]
    \<and> opened_as W (gh_calls (snd (gh_publish T W sub))) bb remote pull"
  using publish_outcomes [of T W sub] assms
  by (simp add: publish_outcome_def publish_opened_def ref_call_def pull_call_def Let_def del: split_paired_Ex) metis

lemma engineer_publish_unrecorded_witness:
  "\<exists>bb bt remote. gh_calls (snd (gh_publish demo_publish_env (demo_server True) (demo_submission None)))
     = verify_calls (demo_submission None) bb bt @ [Post_Ref (lit ''nexus/a'') remote,
         Post_Pull (lit ''Fix'') (lit ''nexus/a'') bb (lit ''B'') True]"
  using engineer_publish_unrecorded [OF demo_unrecorded] by (auto simp: demo_sub)

end
