(* ===== verification/EngineerApprovalProperties.thy ===== *)
theory EngineerApprovalProperties
  imports EngineerShip EngineerPublishProperties
begin

text \<open>
  The properties of approval: what a publication rests on, that a decision is final and a publication
  happens once, over every sequence of decisions, publications and finished cycles, and, with the GitHub
  publisher, that the pull request carries exactly the change whose evidence the owner saw.
\<close>

section \<open>One operation\<close>

lemma sum_caseI:
  "(\<And>e. x = Inl e \<Longrightarrow> P (f e)) \<Longrightarrow> (\<And>a. x = Inr a \<Longrightarrow> P (g a)) \<Longrightarrow> P (case x of Inl e \<Rightarrow> f e | Inr a \<Rightarrow> g a)"
  by (cases x) auto

definition recorded :: "('a publish_env_scheme) \<Rightarrow> decide_call \<Rightarrow> approval_files \<Rightarrow> approval_request \<Rightarrow> owner_decision \<Rightarrow> memory_db \<Rightarrow> bool" where
  "recorded T c st q d db \<longleftrightarrow> (\<exists>r. load_cycle_record st (dc_cycle c) = Inr r \<and> cycle_request r = Some q)
     \<and> st_decisions st (request_id q) = Missing
     \<and> d = decision_of (command_of T c q (join_with [32] (py_words (dc_reason c)))) q
     \<and> (\<exists>m. observed_as T (env_uuid5 T cycle_namespace_uuid (uuid_str (decision_id d) @ '':owner-decision''))
            (request_cycle_id q) (dc_now c) (preference_args q d) = Inr m
          \<and> remember_as T (st_memory st) m = Inr db)"

lemma record_owner_Inr:
  assumes "record_owner_decision T db q c owner now = Inr (d, db')"
  shows "d = decision_of c q" "\<exists>m. observed_as T (env_uuid5 T cycle_namespace_uuid (uuid_str (command_uuid c) @ '':owner-decision''))
       (request_cycle_id q) now (preference_args q d) = Inr m \<and> remember_as T db m = Inr db'"
  using assms by (auto simp: record_owner_decision_def Let_def rbind_Inr_iff split: sum.splits if_splits)

lemma decide_cases:
  assumes "decide_request T c disk st = (x, st')"
  shows "(\<exists>e. x = Inl e) \<and> st' = st
    \<or> (\<exists>q d db. recorded T c st q d db \<and> (
         \<not> disk \<and> x = Inl (Approval_Crash ''OSError'') \<and> st' = st\<lparr>st_memory := db\<rparr>
       \<or> disk \<and> x = Inr d \<and> st' = st\<lparr>st_memory := db,
            st_decisions := (st_decisions st)(request_id q := decision_file T d)\<rparr>))"
proof (cases "\<exists>r q. load_cycle_record st (dc_cycle c) = Inr r \<and> cycle_request r = Some q \<and> st_decisions st (request_id q) = Missing")
  case True
  then obtain r q where r: "load_cycle_record st (dc_cycle c) = Inr r" "cycle_request r = Some q"
    "st_decisions st (request_id q) = Missing" by blast
  let ?reason = "join_with [32] (py_words (dc_reason c))"
  let ?cmd = "command_of T c q ?reason"
  show ?thesis
  proof (cases "record_owner_decision T (st_memory st) q ?cmd (dc_owner c) (dc_now c)")
    case (Inl e)
    with assms r show ?thesis
      by (auto simp: decide_request_def load_owner_decision_def Let_def split: if_splits)
  next
    case (Inr y)
    obtain d db where y: "y = (d, db)" by force
    from record_owner_Inr [OF Inr [unfolded y]] r have "recorded T c st q d db"
      by (auto simp: recorded_def decision_of_def command_of_def)
    with assms r Inr y show ?thesis
      by (auto simp: decide_request_def load_owner_decision_def Let_def split: if_splits)
  qed
next
  case False
  with assms show ?thesis
    by (auto simp: decide_request_def load_owner_decision_def split: sum.splits option.splits stored.splits)
qed

lemma approval_of_Inr [simp]: "approval_of x = Inr a \<longleftrightarrow> x = Inr a"
  by (auto simp: approval_of_def split: sum.splits publish_exn.splits)

lemma approved_change_Inr:
  assumes "approved_change c st = Inr (r, q, k, branch, commit, chosen)"
  shows "load_cycle_record st (pc_cycle c) = Inr r \<and> cycle_request r = Some q \<and> cycle_change r = Some k
     \<and> change_branch k = Some branch \<and> change_commit_sha k = Some commit"
proof -
  from assms obtain r' where r: "load_cycle_record st (pc_cycle c) = Inr r'"
    by (auto simp: approved_change_def rbind_Inr_iff)
  show ?thesis
  proof (cases "cycle_request r' = None \<or> cycle_change r' = None \<or> selected_candidate_id r' = None")
    case True
    with assms r show ?thesis by (auto simp: approved_change_def split: option.splits)
  next
    case False
    then obtain q' k' x where "cycle_request r' = Some q'" "cycle_change r' = Some k'" "selected_candidate_id r' = Some x"
      by auto
    with assms r show ?thesis
      by (cases "change_branch k'"; cases "change_commit_sha k'") (auto simp: approved_change_def)
  qed
qed

lemma owner_approval_Inr:
  "owner_approval c st q = Inr d \<Longrightarrow> st_publications st (request_id q) = Missing \<and> st_decisions st (request_id q) = Stored d
     \<and> verdict d = VERDICT_SHIP \<and> decision_by d = owner_actor (pc_owner c)"
  by (cases "st_publications st (request_id q)"; cases "st_decisions st (request_id q)")
    (auto simp: owner_approval_def load_publication_def load_owner_decision_def split: if_splits)

lemma prepared_cases:
  assumes "prepared_submission T c st = Inr (r, q, cand, sub)"
  shows "\<exists>k branch commit d patch b. load_cycle_record st (pc_cycle c) = Inr r \<and> cycle_request r = Some q
     \<and> cycle_change r = Some k \<and> change_branch k = Some branch \<and> change_commit_sha k = Some commit
     \<and> st_publications st (request_id q) = Missing \<and> st_decisions st (request_id q) = Stored d
     \<and> verdict d = VERDICT_SHIP \<and> decision_by d = owner_actor (pc_owner c)
     \<and> require_gates r = Inr () \<and> read_patch T c (cycle_id r) (candidate_id cand) k = Inr patch
     \<and> bundle_from_branch T (lit (change_base_sha k)) (lit commit) patch = Inr b
     \<and> sub_bundle sub = b \<and> sub_branch sub = branch \<and> sub_diff_sha256 sub = diff_sha256 k
     \<and> sub_cycle_id sub = cycle_id r
     \<and> sub_published_by sub = owner_actor (pc_owner c) \<and> sub_authority sub = OWNER_DECISION_AUTHORITY
     \<and> sub_request_id sub = Some (request_id q) \<and> sub_decision_id sub = Some (decision_id d)"
proof -
  from assms obtain k branch commit chosen d patch b title body where
    "approved_change c st = Inr (r, q, k, branch, commit, chosen)" "owner_approval c st q = Inr d"
    "require_gates r = Inr ()" "read_patch T c (cycle_id r) (candidate_id cand) k = Inr patch"
    "bundle_from_branch T (lit (change_base_sha k)) (lit commit) patch = Inr b"
    "sub = \<lparr>sub_bundle = b, sub_branch = branch, sub_title = title, sub_body = body,
           sub_cycle_id = cycle_id r, sub_diff_sha256 = diff_sha256 k, sub_published_by = owner_actor (pc_owner c),
           sub_authority = OWNER_DECISION_AUTHORITY, sub_request_id = Some (request_id q),
           sub_decision_id = Some (decision_id d), allow_moved_base = pc_allow_moved c\<rparr>"
  proof -
    from assms obtain y d where 1: "approved_change c st = Inr y" "owner_approval c st (fst (snd y)) = Inr d"
      "require_gates (fst y) = Inr ()"
      by (auto simp: prepared_submission_def rbind_Inr_iff split: prod.splits)
    obtain r' q' k branch commit chosen where y: "y = (r', q', k, branch, commit, chosen)" by (cases y) auto
    from assms 1 y obtain cand' where "find (\<lambda>x. candidate_id x = chosen) (cycle_candidates r') = Some cand'"
      by (auto simp: prepared_submission_def split: option.splits)
    with assms 1 y have eqs: "r' = r" "q' = q" "cand' = cand"
      by (auto simp: prepared_submission_def rbind_Inr_iff)
    from assms 1 y \<open>find _ _ = Some cand'\<close> obtain patch b title body where
      "read_patch T c (cycle_id r) (candidate_id cand) k = Inr patch"
      "bundle_from_branch T (lit (change_base_sha k)) (lit commit) patch = Inr b"
      "sub = \<lparr>sub_bundle = b, sub_branch = branch, sub_title = title, sub_body = body,
           sub_cycle_id = cycle_id r, sub_diff_sha256 = diff_sha256 k, sub_published_by = owner_actor (pc_owner c),
           sub_authority = OWNER_DECISION_AUTHORITY, sub_request_id = Some (request_id q),
           sub_decision_id = Some (decision_id d), allow_moved_base = pc_allow_moved c\<rparr>"
      by (auto simp: prepared_submission_def rbind_Inr_iff)
    with 1 y eqs show ?thesis by (auto intro!: that)
  qed
  with approved_change_Inr owner_approval_Inr show ?thesis by fastforce
qed

lemma publish_refused_early:
  "prepared_submission T c st = Inl e \<Longrightarrow> publish_approved_change T c disk st = (Inl e, st)"
  by (simp add: publish_approved_change_def)

lemma publication_file_there [simp]: "publication_file T p \<noteq> Missing" "Missing \<noteq> publication_file T p"
  by (simp_all add: publication_file_def Let_def)

lemma decision_file_there [simp]: "decision_file T d \<noteq> Missing" "Missing \<noteq> decision_file T d"
  by (simp_all add: decision_file_def Let_def)

lemma publish_cases:
  assumes "prepared_submission T c st = Inr (r, q, cand, sub)" "publish_approved_change T c disk st = (x, st')"
  shows "st_submissions st' = st_submissions st @ [sub]" "st_decisions st' = st_decisions st"
    "st_records st' = st_records st" "st_latest st' = st_latest st"
    "st_publications st' = st_publications st
     \<or> (\<exists>p. pc_publisher c sub = Inr p \<and> disk \<and> st_publications st' = (st_publications st)(request_id q := publication_file T p))"
    "disk \<Longrightarrow> pc_publisher c sub = Inr p \<Longrightarrow> st_publications st' (request_id q) \<noteq> Missing"
    "x = Inr p' \<Longrightarrow> disk \<and> pc_publisher c sub = Inr p'"
  using assms
  by (auto simp: publish_approved_change_def approval_of_def Let_def
      split: sum.splits publish_exn.splits if_splits)

section \<open>Sequences of operations\<close>

text \<open>Decisions, publications and the records that finished cycles leave, in any order, each with its own environment.\<close>

datatype approval_op =
  Decide publish_env decide_call bool | Publish publish_env publish_call bool | Cycle_Finished cycle_record

fun approval_step :: "approval_op \<Rightarrow> approval_files \<Rightarrow> approval_files" where
  "approval_step (Decide T c disk) st = snd (decide_request T c disk st)"
| "approval_step (Publish T c disk) st = snd (publish_approved_change T c disk st)"
| "approval_step (Cycle_Finished r) st =
     st\<lparr>st_records := (st_records st)(cycle_id r := Stored r), st_latest := Stored r\<rparr>"

definition approval_run :: "approval_op list \<Rightarrow> approval_files \<Rightarrow> approval_files" where
  "approval_run ops st = fold approval_step ops st"

text \<open>What no operation undoes: a decision, a publication, and the submissions of a published request.\<close>

lemma step_decisions: "st_decisions st q \<noteq> Missing \<Longrightarrow> st_decisions (approval_step op st) q = st_decisions st q"
proof (cases op)
  case (Decide T c disk)
  assume "st_decisions st q \<noteq> Missing"
  then show ?thesis
    using decide_cases [of T c disk st "fst (decide_request T c disk st)" "snd (decide_request T c disk st)"] Decide
    by (auto simp: recorded_def)
next
  case (Publish T c disk)
  show ?thesis
  proof (cases "prepared_submission T c st")
    case (Inl e)
    with Publish show ?thesis by (simp add: publish_refused_early)
  next
    case (Inr y)
    obtain r q cand sub where "y = (r, q, cand, sub)" by (cases y) auto
    with publish_cases(2) [OF _ surjective_pairing, of T c st] Inr Publish show ?thesis by simp
  qed
qed simp

lemma step_publications: "st_publications st q \<noteq> Missing \<Longrightarrow> st_publications (approval_step op st) q \<noteq> Missing"
proof (cases op)
  case (Decide T c disk)
  assume "st_publications st q \<noteq> Missing"
  then show ?thesis
    using decide_cases [of T c disk st "fst (decide_request T c disk st)" "snd (decide_request T c disk st)"] Decide
    by auto
next
  case (Publish T c disk)
  assume a: "st_publications st q \<noteq> Missing"
  show ?thesis
  proof (cases "prepared_submission T c st")
    case (Inl e)
    with a Publish show ?thesis by (simp add: publish_refused_early)
  next
    case (Inr y)
    obtain r q' cand sub where y: "y = (r, q', cand, sub)" by (cases y) auto
    with publish_cases(5) [OF Inr [unfolded y] surjective_pairing, of disk] a Publish
    show ?thesis by (auto split: if_splits)
  qed
qed simp

lemma step_submissions:
  assumes "st_publications st q \<noteq> Missing"
  shows "filter (\<lambda>s. sub_request_id s = Some q) (st_submissions (approval_step op st))
    = filter (\<lambda>s. sub_request_id s = Some q) (st_submissions st)"
proof (cases op)
  case (Decide T c disk)
  then show ?thesis
    using decide_cases [of T c disk st "fst (decide_request T c disk st)" "snd (decide_request T c disk st)"] by auto
next
  case (Publish T c disk)
  show ?thesis
  proof (cases "prepared_submission T c st")
    case (Inl e)
    with Publish show ?thesis by (simp add: publish_refused_early)
  next
    case (Inr y)
    obtain r q' cand sub where y: "y = (r, q', cand, sub)" by (cases y) auto
    from prepared_cases [OF Inr [unfolded y]] assms have "sub_request_id sub = Some (request_id q')" "request_id q' \<noteq> q"
      by auto
    with publish_cases(1) [OF Inr [unfolded y] surjective_pairing, of disk] Publish show ?thesis by simp
  qed
qed simp

lemma run_induct:
  assumes "P st" "\<And>s op. P s \<Longrightarrow> P (approval_step op s)"
  shows "P (approval_run ops st)"
  using assms(1) unfolding approval_run_def by (induction ops arbitrary: st) (auto intro: assms(2))

lemma run_decisions: "st_decisions st q \<noteq> Missing \<Longrightarrow> st_decisions (approval_run ops st) q = st_decisions st q"
  by (rule run_induct) (simp_all add: step_decisions)

lemma run_submissions:
  assumes "st_publications st q \<noteq> Missing"
  shows "filter (\<lambda>s. sub_request_id s = Some q) (st_submissions (approval_run ops st))
    = filter (\<lambda>s. sub_request_id s = Some q) (st_submissions st)"
proof -
  have "st_publications (approval_run ops st) q \<noteq> Missing
    \<and> filter (\<lambda>s. sub_request_id s = Some q) (st_submissions (approval_run ops st))
      = filter (\<lambda>s. sub_request_id s = Some q) (st_submissions st)"
    by (rule run_induct) (use assms in \<open>simp_all add: step_submissions step_publications\<close>)
  then show ?thesis by simp
qed

section \<open>The whole engineer\<close>

text \<open>Beside the owner's operations, what the cycles themselves do: \<open>execute\<close> keeps what a cycle produced, which may be
  anything, \<open>ship\<close> opens a pull request for it, and a new process has produced nothing.\<close>

datatype engineer_op =
  Approval approval_op | Produced uuid produced | Ship publish_env ship_call bool | Restart

fun engineer_step :: "engineer_op \<Rightarrow> approval_files \<times> produced_map \<Rightarrow> approval_files \<times> produced_map" where
  "engineer_step (Approval op) (st, made) = (approval_step op st, made)"
| "engineer_step (Produced i p) (st, made) = (st, made(i := Some p))"
| "engineer_step (Ship T c disk) (st, made) = snd (executor_ship T c disk st made)"
| "engineer_step Restart (st, made) = (st, \<lambda>_. None)"

definition engineer_run :: "engineer_op list \<Rightarrow> approval_files \<times> produced_map \<Rightarrow> approval_files \<times> produced_map" where
  "engineer_run ops s = fold engineer_step ops s"

lemma engineer_run_simps [simp]:
  "engineer_run [] s = s" "engineer_run (ops @ [op]) s = engineer_step op (engineer_run ops s)"
  by (simp_all add: engineer_run_def)

text \<open>What a submission rests on: the publishing owner's decision, or a fully validated change of its own cycle.\<close>

definition owner_submission :: "approval_files \<Rightarrow> publish_submission \<Rightarrow> bool" where
  "owner_submission st sub \<longleftrightarrow> sub_authority sub = OWNER_DECISION_AUTHORITY \<and> (\<exists>q d. sub_request_id sub = Some q
     \<and> st_decisions st q = Stored d \<and> verdict d = VERDICT_SHIP \<and> sub_decision_id sub = Some (decision_id d)
     \<and> sub_published_by sub = decision_by d \<and> actor_type (decision_by d) = Human)"

definition cycle_submission :: "engineer_op list \<Rightarrow> publish_submission \<Rightarrow> bool" where
  "cycle_submission ops sub \<longleftrightarrow> sub_authority sub = AUTONOMOUS_AUTHORITY \<and> sub_published_by sub = agent_publisher_identity
     \<and> sub_request_id sub = None \<and> sub_decision_id sub = None
     \<and> (\<exists>p. Produced (sub_cycle_id sub) p \<in> set ops \<and> shippable_gates (prod_gates p)
          \<and> sub_diff_sha256 sub = diff_sha256 (prod_change p) \<and> Some (sub_branch sub) = change_branch (prod_change p))"

definition produced_known :: "engineer_op list \<Rightarrow> produced_map \<Rightarrow> bool" where
  "produced_known ops made \<longleftrightarrow> (\<forall>i p. made i = Some p \<and> publication (prod_change p) = None \<longrightarrow> Produced i p \<in> set ops)"

lemma approval_submissions:
  "sub \<in> set (st_submissions (approval_step op st)) \<Longrightarrow> sub \<in> set (st_submissions st) \<or> owner_submission (approval_step op st) sub"
proof (cases op)
  case (Decide T c disk)
  assume "sub \<in> set (st_submissions (approval_step op st))"
  with Decide show ?thesis
    using decide_cases [of T c disk st "fst (decide_request T c disk st)" "snd (decide_request T c disk st)"] by auto
next
  case (Publish T c disk)
  assume sub: "sub \<in> set (st_submissions (approval_step op st))"
  show ?thesis
  proof (cases "prepared_submission T c st")
    case (Inl e)
    with sub Publish show ?thesis by (simp add: publish_refused_early)
  next
    case (Inr y)
    obtain r q cand x where y: "y = (r, q, cand, x)" by (cases y) auto
    note cases = publish_cases [OF Inr [unfolded y] surjective_pairing, of disk]
    from prepared_cases [OF Inr [unfolded y]] cases(1,2) sub Publish show ?thesis
      by (auto simp: owner_submission_def owner_actor_def)
  qed
qed simp

lemma owner_submission_kept: "owner_submission st sub \<Longrightarrow> owner_submission (approval_step op st) sub"
  using step_decisions [of st _ op] unfolding owner_submission_def by (metis stored.distinct(3))

lemma engineer_run_grounded:
  assumes "st_submissions st = []" "engineer_run ops (st, \<lambda>_. None) = (st', made)"
  shows "produced_known ops made \<and> (\<forall>sub \<in> set (st_submissions st'). owner_submission st' sub \<or> cycle_submission ops sub)"
  using assms(2)
proof (induction ops arbitrary: st' made rule: rev_induct)
  case Nil
  with assms(1) show ?case by (auto simp: produced_known_def)
next
  case (snoc op ops)
  obtain u m where u: "engineer_run ops (st, \<lambda>_. None) = (u, m)" by force
  have known: "produced_known ops m" and old: "\<forall>sub \<in> set (st_submissions u). owner_submission u sub \<or> cycle_submission ops sub"
    using snoc.IH [OF u] by auto
  have step: "engineer_step op (u, m) = (st', made)" using snoc.prems u by simp
  have grow: "cycle_submission ops sub \<Longrightarrow> cycle_submission (ops @ [op]) sub" for sub
    by (auto simp: cycle_submission_def)
  show ?case
  proof (cases op)
    case (Approval a)
    with step have st': "st' = approval_step a u" "made = m" by auto
    have "owner_submission st' sub \<or> cycle_submission (ops @ [op]) sub" if "sub \<in> set (st_submissions st')" for sub
      using approval_submissions [of sub a u] that old grow owner_submission_kept [of u sub a] st'(1) by blast
    with known st'(2) show ?thesis by (auto simp: produced_known_def)
  next
    case (Produced i p)
    with step known old grow show ?thesis by (auto simp: produced_known_def split: if_splits)
  next
    case (Ship T c disk)
    then have ship: "executor_ship T c disk u m = (fst (executor_ship T c disk u m), st', made)"
      using step by (cases "executor_ship T c disk u m") simp
    show ?thesis
    proof (rule executor_ship_cases [OF ship])
      assume "st' = u" "made = m"
      with known old grow show ?thesis by (auto simp: produced_known_def)
    next
      fix p sub
      assume s: "ship_submission T c m = Inr (p, sub)" "st' = u\<lparr>st_submissions := st_submissions u @ [sub]\<rparr>"
        "made = m \<or> (\<exists>k. made = m(sc_cycle c := Some (p\<lparr>prod_change := k\<rparr>)) \<and> publication k \<noteq> None)"
      note f = ship_submission_Inr [OF s(1)]
      with known have "Produced (sub_cycle_id sub) p \<in> set ops" by (auto simp: produced_known_def)
      with f have "cycle_submission ops sub" by (auto simp: cycle_submission_def)
      moreover have "owner_submission st' x = owner_submission u x" for x by (simp add: s(2) owner_submission_def)
      moreover have "produced_known (ops @ [op]) made" using known s(3) by (auto simp: produced_known_def split: if_splits)
      ultimately show ?thesis using old grow s(2) by auto
    qed
  next
    case Restart
    with step old grow show ?thesis by (auto simp: produced_known_def)
  qed
qed

lemma engineer_step_decisions:
  "st_decisions (fst s) q \<noteq> Missing \<Longrightarrow> st_decisions (fst (engineer_step op s)) q = st_decisions (fst s) q"
proof (cases op)
  case (Ship T c disk)
  obtain st made where s: "s = (st, made)" by force
  obtain x st' made' where e: "executor_ship T c disk st made = (x, st', made')" by (metis prod_cases3)
  show ?thesis using Ship s e by (cases rule: executor_ship_cases [OF e]) simp_all
qed (cases s; simp add: step_decisions)+

lemma engineer_run_decisions:
  "st_decisions (fst s) q \<noteq> Missing \<Longrightarrow> st_decisions (fst (engineer_run ops s)) q = st_decisions (fst s) q"
  by (induction ops rule: rev_induct) (simp_all add: engineer_step_decisions)

section \<open>A concrete approval\<close>

definition demo_change :: change_summary where
  "demo_change = \<lparr>change_base_sha = replicate 40 (CHR ''1''), change_branch = Some (lit ''nexus/a''),
     change_commit_sha = Some (replicate 40 (CHR ''2'')), change_files = [lit ''docs/a.md''], additions = 1, deletions = 0,
     diff_bytes = 2, diff_sha256 = replicate 64 (CHR ''a''), patch_result_sha256 = None, sentinel_verdict_sha256 = None,
     rollback_reference = lit ''r'', publication = None\<rparr>"

definition demo_approval_candidate :: engineering_candidate where
  "demo_approval_candidate = \<lparr>candidate_id = 2, candidate_title = lit ''t'', candidate_rationale = lit ''r'',
     candidate_category = DOCUMENTATION_CORRECTION, expected_paths = [], candidate_signals = [3],
     candidate_estimate = \<lparr>est_value = 50, est_urgency = 50, est_confidence = 50, est_cost = 50\<rparr>,
     blockers = [], from_untrusted_text = False\<rparr>"

definition demo_finished :: cycle_record where
  "demo_finished = \<lparr>cycle_id = 1, cycle_mode = PROPOSE, cycle_model = None, repository_head = replicate 40 (CHR ''1''),
     cycle_started_at = 0, cycle_completed_at = 0, phase_reached = CLOSED, cycle_transitions = [], cycle_signals = [],
     cycle_candidates = [demo_approval_candidate], ranking = [2], selected_candidate_id = Some 2,
     abandoned_candidate_ids = [], cycle_risk = Some demo_low_risk, cycle_review = Some demo_clean_review,
     cycle_gates = demo_gates, cycle_change = Some demo_change, cycle_decision = REQUEST_APPROVAL, decision_reasons = [],
     cycle_request = Some demo_request, cycle_owner_decision = None, cycle_budget = demo_cycle_budget,
     cycle_usage = empty_usage, memory_reads = 0, memory_writes = [], cycle_notifications = [], cycle_rollback = None,
     cycle_failure = None\<rparr>"

definition demo_approval_state :: approval_files where
  "demo_approval_state = \<lparr>st_latest = Stored demo_finished, st_records = (\<lambda>i. Missing),
     st_decisions = (\<lambda>q. if q = 7 then Stored demo_owner_decision else Missing), st_publications = (\<lambda>q. Missing),
     st_memory = [], st_submissions = []\<rparr>"

definition demo_publish_call :: "(publish_submission \<Rightarrow> publish_exn + published_change) \<Rightarrow> publish_call" where
  "demo_publish_call publisher = \<lparr>pc_owner = actor_id demo_human, pc_cycle = Latest_Cycle, pc_now = 5, pc_allow_moved = False,
     pc_patch = (\<lambda>i k. Stored ''ok''), pc_publisher = publisher\<rparr>"

lemma py_words_step:
  "list_all (\<lambda>c. 33 \<le> c \<and> c \<le> 126) w \<Longrightarrow> v @ w \<noteq> [] \<Longrightarrow>
     py_words_acc v (w @ 32 # s) = (v @ w) # py_words_acc [] s"
  by (induction w arbitrary: v) (auto simp: py_space_def)

lemma py_words_end:
  "list_all (\<lambda>c. 33 \<le> c \<and> c \<le> 126) w \<Longrightarrow> v @ w \<noteq> [] \<Longrightarrow> py_words_acc v w = [v @ w]"
  by (induction w arbitrary: v) (auto simp: py_space_def)

definition py_word :: "ustr \<Rightarrow> bool" where
  "py_word w \<longleftrightarrow> w \<noteq> [] \<and> list_all (\<lambda>c. 33 \<le> c \<and> c \<le> 126) w"

lemma py_words_first: "py_word w \<Longrightarrow> py_words_acc [] (w @ 32 # s) = w # py_words_acc [] s"
  using py_words_step [of w "[]" s] by (simp add: py_word_def)

lemma py_words_last: "py_word w \<Longrightarrow> py_words_acc [] w = [w]"
  using py_words_end [of w "[]"] by (simp add: py_word_def)

lemma demo_row: "py_words (lit ''100644 blob '' @ replicate 40 52 @ lit '' 2'') =
  [lit ''100644'', lit ''blob'', replicate 40 52, lit ''2'']"
proof -
  have e: "lit ''100644 blob '' @ replicate 40 52 @ lit '' 2''
    = lit ''100644'' @ 32 # (lit ''blob'' @ 32 # (replicate 40 52 @ 32 # lit ''2''))" by (simp add: lit_def)
  have "py_word (lit ''100644'')" "py_word (lit ''blob'')" "py_word (replicate 40 (52::nat))" "py_word (lit ''2'')"
    by (simp_all add: py_word_def lit_def list_all_iff)
  then show ?thesis unfolding py_words_def e by (simp only: py_words_first py_words_last)
qed

lemma demo_entry:
  "path_entry demo_publish_env (replicate 40 50) 0 (lit ''M'') (lit ''docs/a.md'')
     = Inr (\<lparr>entry_path = lit ''docs/a.md'', entry_mode = ''100644'', blob_sha = replicate 40 52, entry_content = Some ''ok''\<rparr>, 2)"
proof -
  let ?row = "lit ''100644 blob '' @ replicate 40 52 @ lit '' 2''"
  have q: "git_ask demo_publish_env (Ls_Tree (replicate 40 50) (lit ''docs/a.md''))
      = Inr (?row @ 9 # lit ''docs/a.md'' @ [0])" by (simp add: demo_publish_env_def git_ask_def)
  have "before_sep 0 (?row @ 9 # lit ''docs/a.md'' @ [0]) = ?row @ 9 # lit ''docs/a.md''"
    "before_sep 9 (?row @ 9 # lit ''docs/a.md'') = ?row" "after_sep 9 (?row @ 9 # lit ''docs/a.md'') = lit ''docs/a.md''"
    by code_simp+
  moreover have "allowed_mode (lit ''100644'')" "hex_sha (replicate 40 52)" "decimal (lit ''2'')" "decimal_value (lit ''2'') = 2"
    "lit ''M'' \<noteq> lit ''D''" by code_simp+
  moreover have "git_blob demo_publish_env (replicate 40 52) = Some ''ok''" by (simp add: demo_publish_env_def)
  ultimately show ?thesis
    by (simp only: path_entry_def q rbind_def sum.case Let_def demo_row list.case option.case if_True if_False simp_thms
        not_True_eq_False not_False_eq_True) (simp add: max_file_bytes_def max_bundle_bytes_def)
qed

definition demo_unreachable :: "publish_submission \<Rightarrow> publish_exn + published_change" where
  "demo_unreachable s = Inl (Publish_Error ''unreachable'')"

lemma demo_bundle_read:
  "bundle_from_branch demo_publish_env (replicate 40 49) (replicate 40 50) ''ok'' = Inr demo_bundle"
proof -
  have "entries_of demo_publish_env (replicate 40 50) (lit ''M'' @ 0 # lit ''docs/a.md'' @ [0]) = Inr (bundle_entries demo_bundle)"
  proof -
    have "paired (filter (\<lambda>t. t \<noteq> []) (split_on 0 (lit ''M'' @ 0 # lit ''docs/a.md'' @ [0]))) = [(lit ''M'', lit ''docs/a.md'')]"
      "length (filter (\<lambda>t. t \<noteq> []) (split_on 0 (lit ''M'' @ 0 # lit ''docs/a.md'' @ [0]))) = 2"
      by code_simp+
    then show ?thesis
      by (simp add: entries_of_def demo_entry demo_bundle_def max_bundle_files_def)
  qed
  moreover have "hex_sha (replicate 40 49)" "hex_sha (replicate 40 50)" by code_simp+
  moreover have "split_on 0 (lit ''n'' @ 0 # lit ''m'' @ 0 # lit ''d'' @ 0 # lit ''fix'') = [lit ''n'', lit ''m'', lit ''d'', lit ''fix'']"
    by code_simp
  moreover have "normalize_iso8601 demo_publish_env (lit ''d'') = Inr (lit ''d'')"
    by (simp add: normalize_iso8601_def demo_publish_env_def)
  moreover have "git_text demo_publish_env (Rev_Parent (replicate 40 50)) = Some (replicate 40 49)"
    "git_text demo_publish_env (Rev_Tree (replicate 40 50)) = Some (replicate 40 51)"
    "git_text demo_publish_env (Commit_Meta (replicate 40 50)) = Some (lit ''n'' @ 0 # lit ''m'' @ 0 # lit ''d'' @ 0 # lit ''fix'')"
    "git_text demo_publish_env (Changed_Paths (replicate 40 49) (replicate 40 50)) = Some (lit ''M'' @ 0 # lit ''docs/a.md'' @ [0])"
    "strip demo_publish_env v = v" "git_rederive demo_publish_env x y = Inr (replicate 40 51)" for v x y
    by (simp_all add: demo_publish_env_def)
  ultimately show ?thesis
    by (simp add: bundle_from_branch_def git_ask_def join_with.simps lit_def [of "''fix''"] demo_bundle_def)
qed

lemma demo_prepared:
  "\<exists>r cand sub. prepared_submission demo_publish_env (demo_publish_call P) demo_approval_state = Inr (r, demo_request, cand, sub)
     \<and> sub_decision_id sub = Some 1 \<and> sub_bundle sub = demo_bundle
     \<and> sub_branch sub = lit ''nexus/a'' \<and> sub_published_by sub = demo_human"
proof -
  have "approved_change (demo_publish_call P) demo_approval_state
      = Inr (demo_finished, demo_request, demo_change, lit ''nexus/a'', replicate 40 (CHR ''2''), 2)"
    by (simp add: approved_change_def load_cycle_record_def demo_publish_call_def demo_approval_state_def demo_finished_def demo_change_def)
  moreover have "owner_approval (demo_publish_call P) demo_approval_state demo_request = Inr demo_owner_decision"
    by code_simp
  moreover have "require_gates demo_finished = Inr ()" by code_simp
  moreover have "find (\<lambda>x. candidate_id x = 2) (cycle_candidates demo_finished) = Some demo_approval_candidate"
    by (simp add: demo_finished_def demo_approval_candidate_def)
  moreover have "read_patch demo_publish_env (demo_publish_call P) (cycle_id demo_finished) (candidate_id demo_approval_candidate) demo_change = Inr ''ok''"
    by (simp add: read_patch_def demo_publish_call_def demo_publish_env_def demo_change_def)
  moreover have "bundle_from_branch demo_publish_env (lit (change_base_sha demo_change)) (lit (replicate 40 (CHR ''2''))) ''ok'' = Inr demo_bundle"
    using demo_bundle_read by (simp add: demo_change_def lit_def eval_nat_numeral)
  moreover obtain t where "render_pull_request demo_publish_env demo_approval_candidate demo_change (cycle_gates demo_finished)
      (Some demo_request) (Some demo_owner_decision) (cycle_id demo_finished) = Inr t"
  proof -
    have "\<not> contains_credential demo_publish_env v" for v
      by (simp add: contains_credential_def contains_secret_def demo_publish_env_def list_ex_iff)
    moreover have "splitlines (strip demo_publish_env (candidate_title demo_approval_candidate)) = [lit ''t'']"
      by (simp add: demo_publish_env_def demo_approval_candidate_def splitlines_def line_boundary_def lit_def)
    ultimately show ?thesis using that by (simp add: render_pull_request_def Let_def)
  qed
  moreover have "decision_id demo_owner_decision = 1" by (simp add: demo_owner_decision_def)
  moreover have "owner_actor (pc_owner (demo_publish_call P)) = demo_human"
    by (simp add: demo_publish_call_def owner_actor_def demo_human_def)
  ultimately show ?thesis by (cases t) (simp add: prepared_submission_def approval_of_def)
qed

section \<open>The parts of a submission\<close>

lemma require_gates_Inr:
  assumes "require_gates r = Inr ()"
  shows "\<forall>x \<in> set (cycle_gates r). \<exists>y. by_gate (cycle_gates r) (gate x) = Some y \<and> gate_status y = GATE_PASSED"
    "\<forall>g \<in> set publication_gates. \<exists>x. by_gate (cycle_gates r) g = Some x \<and> gate_status x = GATE_PASSED"
proof -
  have known: "\<exists>y. by_gate (cycle_gates r) (gate x) = Some y" if "x \<in> set (cycle_gates r)" for x
    using that by (cases "by_gate (cycle_gates r) (gate x)") (auto simp: by_gate_def find_None_iff)
  have passed: "gate_status y = GATE_PASSED" if "x \<in> set (cycle_gates r)" "by_gate (cycle_gates r) (gate x) = Some y" for x y
    using assms that by (auto simp: require_gates_def list_ex_iff split: if_splits)
  from known passed show "\<forall>x \<in> set (cycle_gates r). \<exists>y. by_gate (cycle_gates r) (gate x) = Some y \<and> gate_status y = GATE_PASSED"
    by blast
  show "\<forall>g \<in> set publication_gates. \<exists>x. by_gate (cycle_gates r) g = Some x \<and> gate_status x = GATE_PASSED"
  proof
    fix g assume "g \<in> set publication_gates"
    with assms obtain x where x: "by_gate (cycle_gates r) g = Some x"
      by (auto simp: require_gates_def list_ex_iff split: if_splits)
    then have "x \<in> set (cycle_gates r)" "gate x = g" by (auto simp: by_gate_def find_Some_iff rev_nth dest: nth_mem)
    with passed x show "\<exists>x. by_gate (cycle_gates r) g = Some x \<and> gate_status x = GATE_PASSED" by auto
  qed
qed

lemma read_patch_Inr:
  "read_patch T c i j k = Inr patch \<Longrightarrow> env_sha256 T patch = diff_sha256 k \<and> int (length patch) = diff_bytes k"
  by (auto simp: read_patch_def split: stored.splits if_splits)

lemma git_ask_Inr [simp]: "git_ask T q = Inr m \<longleftrightarrow> git_text T q = Some m"
  by (auto simp: git_ask_def split: option.splits)

lemma bundle_tree:
  assumes "bundle_from_branch T base commit patch = Inr b"
  shows "git_rederive T base patch = Inr (bundle_tree_sha b) \<and> bundle_base_sha b = base"
proof -
  from assms obtain tree meta where t: "git_rederive T base patch = Inr (strip T tree)"
    "git_text T (Rev_Tree commit) = Some tree" "git_text T (Commit_Meta commit) = Some meta"
    by (auto simp: bundle_from_branch_def rbind_Inr_iff simp del: One_nat_def split: if_splits)
  show ?thesis
  proof (cases "\<exists>n e d x xs. split_on 0 meta = n # e # d # x # xs")
    case True
    with t assms show ?thesis
      by (auto simp: bundle_from_branch_def rbind_Inr_iff Let_def split: if_splits)
  next
    case False
    have "length (split_on 0 meta) < 4"
    proof (rule ccontr)
      assume "\<not> length (split_on 0 meta) < 4"
      then have "Suc (Suc (Suc (Suc 0))) \<le> length (split_on 0 meta)" by simp
      with False show False unfolding Suc_le_length_iff by blast
    qed
    with t assms show ?thesis
      by (cases "split_on 0 meta" rule: remdups_adj.cases)
        (auto simp: bundle_from_branch_def rbind_Inr_iff split: if_splits list.splits)
  qed
qed

section \<open>What a publication rests on\<close>

text \<open>C22:
  \<open>publish_approved_change\<close> gives the publisher at most one submission, and only when the cycle's request has
  not been published, the stored decision answers it with ship and was made by the owner who publishes, every
  gate required for publication is recorded and the last result of every recorded gate is passed, the patch
  has the recorded digest and length, and the tree of the submission is what that patch gives on the base.
\<close>

theorem engineer_publication_authorised:
  assumes "st_submissions (snd (publish_approved_change T c disk st)) \<noteq> st_submissions st"
  shows "\<exists>r q k d patch sub. st_submissions (snd (publish_approved_change T c disk st)) = st_submissions st @ [sub]
     \<and> load_cycle_record st (pc_cycle c) = Inr r \<and> cycle_request r = Some q \<and> cycle_change r = Some k
     \<and> st_publications st (request_id q) = Missing
     \<and> st_decisions st (request_id q) = Stored d \<and> verdict d = VERDICT_SHIP
     \<and> decision_by d = \<lparr>actor_type = Human, actor_id = pc_owner c\<rparr>
     \<and> (\<forall>g \<in> set publication_gates. \<exists>x. by_gate (cycle_gates r) g = Some x \<and> gate_status x = GATE_PASSED)
     \<and> (\<forall>x \<in> set (cycle_gates r). \<exists>y. by_gate (cycle_gates r) (gate x) = Some y \<and> gate_status y = GATE_PASSED)
     \<and> env_sha256 T patch = diff_sha256 k \<and> int (length patch) = diff_bytes k
     \<and> git_rederive T (lit (change_base_sha k)) patch = Inr (bundle_tree_sha (sub_bundle sub))
     \<and> bundle_base_sha (sub_bundle sub) = lit (change_base_sha k) \<and> sub_decision_id sub = Some (decision_id d)"
proof (cases "prepared_submission T c st")
  case (Inl e)
  with assms show ?thesis by (simp add: publish_refused_early)
next
  case (Inr y)
  obtain r q cand sub where y: "y = (r, q, cand, sub)" by (cases y) auto
  note facts = prepared_cases [OF Inr [unfolded y]]
  note sent = publish_cases(1) [OF Inr [unfolded y] surjective_pairing, of disk]
  from facts obtain k branch commit d patch b where *:
    "load_cycle_record st (pc_cycle c) = Inr r" "cycle_request r = Some q" "cycle_change r = Some k"
    "st_publications st (request_id q) = Missing" "st_decisions st (request_id q) = Stored d"
    "verdict d = VERDICT_SHIP" "decision_by d = owner_actor (pc_owner c)" "require_gates r = Inr ()"
    "read_patch T c (cycle_id r) (candidate_id cand) k = Inr patch"
    "bundle_from_branch T (lit (change_base_sha k)) (lit commit) patch = Inr b" "sub_bundle sub = b"
    "sub_decision_id sub = Some (decision_id d)" by blast
  from require_gates_Inr [OF *(8)] read_patch_Inr [OF *(9)] bundle_tree [OF *(10)] * sent show ?thesis
    by (intro exI [of _ r] exI [of _ q] exI [of _ k] exI [of _ d] exI [of _ patch] exI [of _ sub])
      (simp add: owner_actor_def)
qed

lemma engineer_publication_authorised_witness:
  "\<exists>sub d. st_submissions (snd (publish_approved_change demo_publish_env (demo_publish_call demo_unreachable) False demo_approval_state)) = [sub]
     \<and> st_decisions demo_approval_state 7 = Stored d \<and> sub_decision_id sub = Some (decision_id d)"
proof -
  obtain r cand sub where p: "prepared_submission demo_publish_env (demo_publish_call demo_unreachable) demo_approval_state
      = Inr (r, demo_request, cand, sub)" using demo_prepared by blast
  have "st_submissions (snd (publish_approved_change demo_publish_env (demo_publish_call demo_unreachable) False demo_approval_state))
      \<noteq> st_submissions demo_approval_state"
    using publish_cases(1) [OF p surjective_pairing, of False] by simp
  from engineer_publication_authorised [OF this] show ?thesis
    by (auto simp: demo_approval_state_def load_cycle_record_def demo_publish_call_def demo_finished_def demo_request_def)
qed

text \<open>C23:
  In any sequence of decisions, publications, finished cycles and autonomous shipments, restarts included, every
  submission ever given to a publisher either answers a request that the human named as its publisher decided to ship,
  by the decision it names, or is the executor's own, made in the agent's name for a change that its cycle produced
  with every required gate and every recorded gate passed; and a decision once readable is the same for ever after.
\<close>

theorem engineer_submissions_decided:
  assumes "st_submissions st = []"
  shows "(\<forall>sub \<in> set (st_submissions (fst (engineer_run ops (st, \<lambda>_. None)))).
       (sub_authority sub = OWNER_DECISION_AUTHORITY \<and> (\<exists>q d. sub_request_id sub = Some q
         \<and> load_owner_decision (fst (engineer_run ops (st, \<lambda>_. None))) q = Inr (Some d) \<and> verdict d = VERDICT_SHIP
         \<and> sub_decision_id sub = Some (decision_id d) \<and> sub_published_by sub = decision_by d
         \<and> actor_type (decision_by d) = Human))
     \<or> (sub_authority sub = AUTONOMOUS_AUTHORITY \<and> sub_published_by sub = agent_publisher_identity
         \<and> sub_request_id sub = None \<and> sub_decision_id sub = None
         \<and> (\<exists>p. Produced (sub_cycle_id sub) p \<in> set ops \<and> shippable_gates (prod_gates p)
              \<and> sub_diff_sha256 sub = diff_sha256 (prod_change p))))
     \<and> (\<forall>q d later. load_owner_decision (fst (engineer_run ops (st, \<lambda>_. None))) q = Inr (Some d)
         \<longrightarrow> load_owner_decision (fst (engineer_run later (engineer_run ops (st, \<lambda>_. None)))) q = Inr (Some d))"
proof -
  obtain st' made where r: "engineer_run ops (st, \<lambda>_. None) = (st', made)" by force
  have "load_owner_decision (fst (engineer_run later s)) q = Inr (Some d)"
    if "load_owner_decision (fst s) q = Inr (Some d)" for later s q d
    using that engineer_run_decisions [of s q later] by (auto simp: load_owner_decision_def split: stored.splits)
  with engineer_run_grounded [OF assms r] show ?thesis
    by (fastforce simp: r owner_submission_def cycle_submission_def load_owner_decision_def)
qed

lemma engineer_submissions_decided_witness:
  "\<exists>d. load_owner_decision (fst (engineer_run [Approval (Publish demo_publish_env (demo_publish_call demo_unreachable) True), Restart]
     (demo_approval_state, \<lambda>_. None))) 7 = Inr (Some d)"
proof -
  have "st_submissions demo_approval_state = []" by (simp add: demo_approval_state_def)
  from engineer_submissions_decided [OF this, of "[]"]
  have "load_owner_decision demo_approval_state q = Inr (Some d)
     \<Longrightarrow> load_owner_decision (fst (engineer_run later (demo_approval_state, \<lambda>_. None))) q = Inr (Some d)" for later q d
    by simp
  moreover have "load_owner_decision demo_approval_state 7 = Inr (Some demo_owner_decision)"
    by (simp add: demo_approval_state_def load_owner_decision_def)
  ultimately show ?thesis by blast
qed

text \<open>A request is published once: when a publication of it has succeeded and its record is written, no later
  operation gives a publisher another submission for the same request, whatever happens in between.
\<close>

theorem engineer_publication_once:
  assumes "prepared_submission T c st = Inr (r, q, cand, sub)" "pc_publisher c sub = Inr p"
  shows "filter (\<lambda>s. sub_request_id s = Some (request_id q))
       (st_submissions (approval_run ops (snd (publish_approved_change T c True st))))
     = filter (\<lambda>s. sub_request_id s = Some (request_id q)) (st_submissions st) @ [sub]"
proof -
  note cases = publish_cases [OF assms(1) surjective_pairing, of True]
  have "st_publications (snd (publish_approved_change T c True st)) (request_id q) \<noteq> Missing"
    using cases(6) assms(2) by simp
  from run_submissions [OF this] cases(1) prepared_cases [OF assms(1)] show ?thesis by auto
qed

lemma engineer_publication_once_witness:
  "\<exists>sub. filter (\<lambda>s. sub_request_id s = Some 7) (st_submissions (approval_run [Publish demo_publish_env (demo_publish_call demo_unreachable) True]
     (snd (publish_approved_change demo_publish_env (demo_publish_call (\<lambda>s. Inr undefined)) True demo_approval_state)))) = [sub]"
proof -
  let ?c = "demo_publish_call (\<lambda>s. Inr undefined)"
  obtain r cand sub where p: "prepared_submission demo_publish_env ?c demo_approval_state
      = Inr (r, demo_request, cand, sub)" using demo_prepared by blast
  have "pc_publisher ?c sub = Inr undefined" by (simp add: demo_publish_call_def)
  from engineer_publication_once [OF p this] show ?thesis
    by (auto simp: demo_request_def demo_approval_state_def)
qed

end
