(* ===== verification/PatchForgeModels.thy ===== *)
theory PatchForgeModels
  imports EngineerRisk
begin

text \<open>
  The contracts of PatchForge (\<open>src/nexus/patchforge/models.py\<close> and \<open>policy.py\<close>): phases, tools, budgets,
  the operator's profile and policy, tool-call records, test executions, checks, diffs, reports and the
  \<open>PatchResult\<close> with its validator. Durations are exact (microseconds) where the code uses floats.
\<close>

section \<open>Vocabulary\<close>

datatype pf_phase =
  PF_CREATED | PF_PROVISIONING | PF_RECON | PF_HYPOTHESIS | PF_REPRODUCE | PF_IMPLEMENT | PF_TARGETED_VALIDATE
| PF_FULL_VALIDATE | PF_SELF_REVIEW | PF_FINALIZE | PF_REPORTED | PF_CLEANUP | PF_CLOSED

datatype patch_outcome = PATCH_PROPOSED | PARTIAL | ABORTED | CANCELLED_RUN | SANDBOX_FAILED | POLICY_VIOLATION

datatype tool_name =
  LIST_TREE | SEARCH_CODE | READ_FILE_RANGE | INSPECT_SYMBOL | GIT_STATUS | GIT_DIFF | INSPECT_DIFF | WRITE_PATCH
| CREATE_FILE | DELETE_FILE | RUN_TARGETED_TESTS | RUN_TEST_SUITE | RUN_FORMATTER | RUN_LINTER | RUN_TYPECHECK
| INSPECT_TEST_FAILURE | ADVANCE_PHASE | SUBMIT_REPORT

datatype tool_status = TOOL_SUCCEEDED | TOOL_FAILED | TOOL_DENIED | TOOL_TIMED_OUT

text \<open>\<open>CheckKind\<close> and \<open>CommandPurpose\<close> have the same values; one type serves both.\<close>

datatype check_kind = REPRODUCTION | TARGETED_TESTS | FULL_TEST_SUITE | FORMATTER | LINTER | TYPECHECK

fun check_kind_value :: "check_kind \<Rightarrow> string" where
  "check_kind_value REPRODUCTION = ''reproduction''"
| "check_kind_value TARGETED_TESTS = ''targeted_tests''"
| "check_kind_value FULL_TEST_SUITE = ''full_test_suite''"
| "check_kind_value FORMATTER = ''formatter''"
| "check_kind_value LINTER = ''linter''"
| "check_kind_value TYPECHECK = ''typecheck''"

datatype execution_status = EXEC_PASSED | EXEC_FAILED | EXEC_ERROR | EXEC_TIMED_OUT
datatype check_status = CHECK_PASSED | CHECK_FAILED | CHECK_ERROR | CHECK_NOT_RUN
datatype reproduction_status = FAIL_BEFORE_PASS_AFTER | FAIL_BEFORE_NO_PASS | PASS_BEFORE | NOT_PRACTICAL

datatype pf_failure =
  BUDGET_EXHAUSTED | POLICY_DENIED | RUN_CANCELLED | SANDBOX_ERROR | WORKSPACE_ERROR | ENGINE_ERROR
| VALIDATION_FAILED | ATTESTATION_FAILED | CLEANUP_FAILED

datatype finding_severity = SEV_INFO | SEV_WARNING | SEV_BLOCKING

section \<open>Budgets\<close>

record phase_budget =
  ph_tool_calls :: int
  ph_duration_seconds :: int
  ph_output_bytes :: int

definition phase_budget_ok :: "phase_budget \<Rightarrow> bool" where
  "phase_budget_ok b \<longleftrightarrow> 0 \<le> ph_tool_calls b \<and> ph_tool_calls b \<le> 10000
     \<and> 1 \<le> ph_duration_seconds b \<and> ph_duration_seconds b \<le> 86400
     \<and> 0 \<le> ph_output_bytes b \<and> ph_output_bytes b \<le> 100000000"

record run_budgets =
  rb_provisioning :: phase_budget
  rb_recon :: phase_budget
  rb_hypothesis :: phase_budget
  rb_reproduce :: phase_budget
  rb_implement :: phase_budget
  rb_targeted_validate :: phase_budget
  rb_full_validate :: phase_budget
  rb_self_review :: phase_budget
  rb_finalization_reserve :: phase_budget
  rb_cleanup :: phase_budget
  rb_implementation_loops :: nat
  rb_total_tool_calls :: int
  rb_total_duration_seconds :: int

definition budget_phases :: "run_budgets \<Rightarrow> phase_budget list" where
  "budget_phases b = [rb_provisioning b, rb_recon b, rb_hypothesis b, rb_reproduce b, rb_implement b,
     rb_targeted_validate b, rb_full_validate b, rb_self_review b, rb_finalization_reserve b, rb_cleanup b]"

definition run_budgets_ok :: "run_budgets \<Rightarrow> bool" where
  "run_budgets_ok b \<longleftrightarrow> list_all phase_budget_ok (budget_phases b) \<and> rb_implementation_loops b \<le> 20
     \<and> 1 \<le> rb_total_tool_calls b \<and> rb_total_tool_calls b \<le> 100000
     \<and> 1 \<le> rb_total_duration_seconds b \<and> rb_total_duration_seconds b \<le> 604800
     \<and> sum_list (map ph_tool_calls (budget_phases b)) \<le> rb_total_tool_calls b
     \<and> sum_list (map ph_duration_seconds (budget_phases b)) \<le> rb_total_duration_seconds b
     \<and> 1 \<le> ph_tool_calls (rb_finalization_reserve b) \<and> 1 \<le> ph_output_bytes (rb_finalization_reserve b)"

text \<open>\<open>RunBudgets.for_phase\<close>; no budget is its ValueError.\<close>

fun for_phase :: "run_budgets \<Rightarrow> pf_phase \<Rightarrow> phase_budget option" where
  "for_phase b PF_PROVISIONING = Some (rb_provisioning b)"
| "for_phase b PF_RECON = Some (rb_recon b)"
| "for_phase b PF_HYPOTHESIS = Some (rb_hypothesis b)"
| "for_phase b PF_REPRODUCE = Some (rb_reproduce b)"
| "for_phase b PF_IMPLEMENT = Some (rb_implement b)"
| "for_phase b PF_TARGETED_VALIDATE = Some (rb_targeted_validate b)"
| "for_phase b PF_FULL_VALIDATE = Some (rb_full_validate b)"
| "for_phase b PF_SELF_REVIEW = Some (rb_self_review b)"
| "for_phase b PF_FINALIZE = Some (rb_finalization_reserve b)"
| "for_phase b PF_CLEANUP = Some (rb_cleanup b)"
| "for_phase b PF_CREATED = None"
| "for_phase b PF_REPORTED = None"
| "for_phase b PF_CLOSED = None"

section \<open>The operator's profile and policy\<close>

record sandbox_policy =
  sp_image :: ustr
  sp_user :: ustr
  sp_cpu_millis :: int
  sp_memory_mb :: int
  sp_pids :: int
  sp_timeout_seconds :: int
  sp_output_bytes :: int

text \<open>The patterns of the image digest and the user, on code points; \<open>\s\<close> is the White_Space property.\<close>

definition space_point :: "nat \<Rightarrow> bool" where
  "space_point c \<longleftrightarrow> 9 \<le> c \<and> c \<le> 13 \<or> 8192 \<le> c \<and> c \<le> 8202 \<or> c \<in> {32, 133, 160, 5760, 8232, 8233, 8239, 8287, 12288}"

definition digit_point :: "nat \<Rightarrow> bool" where
  "digit_point c \<longleftrightarrow> 48 \<le> c \<and> c \<le> 57"

definition digest_text :: "ustr \<Rightarrow> bool" where
  "digest_text s \<longleftrightarrow> take 7 s = lit ''sha256:'' \<and> length s = 71
     \<and> list_all (\<lambda>c. digit_point c \<or> 97 \<le> c \<and> c \<le> 102) (drop 7 s)"

definition image_ok :: "ustr \<Rightarrow> bool" where
  "image_ok s \<longleftrightarrow> length s \<le> 500 \<and> (case split_on 64 s of
     [digest] \<Rightarrow> digest_text digest
   | [name, digest] \<Rightarrow> name \<noteq> [] \<and> list_all (\<lambda>c. \<not> space_point c) name \<and> digest_text digest
   | _ \<Rightarrow> False)"

definition number_text :: "ustr \<Rightarrow> bool" where
  "number_text s \<longleftrightarrow> s \<noteq> [] \<and> list_all digit_point s \<and> hd s \<noteq> 48"

definition user_ok :: "ustr \<Rightarrow> bool" where
  "user_ok s \<longleftrightarrow> (case split_on 58 s of [u, g] \<Rightarrow> number_text u \<and> number_text g | _ \<Rightarrow> False)"

definition sandbox_policy_ok :: "sandbox_policy \<Rightarrow> bool" where
  "sandbox_policy_ok p \<longleftrightarrow> image_ok (sp_image p) \<and> user_ok (sp_user p)
     \<and> 100 \<le> sp_cpu_millis p \<and> sp_cpu_millis p \<le> 64000 \<and> 64 \<le> sp_memory_mb p \<and> sp_memory_mb p \<le> 131072
     \<and> 16 \<le> sp_pids p \<and> sp_pids p \<le> 4096 \<and> 1 \<le> sp_timeout_seconds p \<and> sp_timeout_seconds p \<le> 86400
     \<and> 1 \<le> sp_output_bytes p \<and> sp_output_bytes p \<le> 100000000"

record sandbox_command =
  cmd_executable :: string
  cmd_arguments :: "ustr list"
  cmd_directory :: ustr
  cmd_timeout_seconds :: int
  cmd_output_bytes :: int

definition lower_char :: "char \<Rightarrow> char" where
  "lower_char c = (if of_char c \<in> {65 .. (90 :: nat)} then char_of (of_char c + (32 :: nat)) else c)"

definition shell_names :: "string list" where
  "shell_names = [''bash'', ''cmd'', ''cmd.exe'', ''dash'', ''fish'', ''powershell'', ''powershell.exe'', ''pwsh'', ''sh'', ''zsh'']"

definition command_ok :: "sandbox_command \<Rightarrow> bool" where
  "command_ok c \<longleftrightarrow> valid_identifier (cmd_executable c) \<and> map lower_char (cmd_executable c) \<notin> set shell_names
     \<and> bounded 0 100 (cmd_arguments c) \<and> list_all short_text (cmd_arguments c)
     \<and> (cmd_directory c = [46] \<or> path_ok (cmd_directory c))
     \<and> 1 \<le> cmd_timeout_seconds c \<and> cmd_timeout_seconds c \<le> 86400
     \<and> 1 \<le> cmd_output_bytes c \<and> cmd_output_bytes c \<le> 100000000"

record repository_profile =
  profile_id :: string
  profile_version :: int
  profile_url :: http_url
  profile_sandbox :: sandbox_policy
  profile_commands :: "(check_kind \<times> sandbox_command) list"
  protected_paths :: "ustr list"
  test_path_prefixes :: "ustr list"

definition profile_command :: "repository_profile \<Rightarrow> check_kind \<Rightarrow> sandbox_command option" where
  "profile_command p k = map_of (profile_commands p) k"

text \<open>\<open>validate_paths\<close>, \<open>reject_url_suffixes\<close> and the field constraints.\<close>

definition profile_ok :: "repository_profile \<Rightarrow> bool" where
  "profile_ok p \<longleftrightarrow> valid_identifier (profile_id p) \<and> 1 \<le> profile_version p \<and> url_plain (profile_url p)
     \<and> sandbox_policy_ok (profile_sandbox p)
     \<and> bounded 1 50 (profile_commands p) \<and> distinct (map fst (profile_commands p))
     \<and> list_all (command_ok \<circ> snd) (profile_commands p)
     \<and> bounded 0 200 (protected_paths p) \<and> list_all path_ok (protected_paths p) \<and> distinct (protected_paths p)
     \<and> bounded 0 50 (test_path_prefixes p) \<and> list_all path_ok (test_path_prefixes p) \<and> distinct (test_path_prefixes p)
     \<and> list_all (\<lambda>(k, c). cmd_timeout_seconds c \<le> sp_timeout_seconds (profile_sandbox p)
          \<and> cmd_output_bytes c \<le> sp_output_bytes (profile_sandbox p)) (profile_commands p)"

record pf_policy =
  policy_agent :: string
  policy_profile_id :: string
  policy_profile_sha256 :: string
  allowed_tools :: "tool_name list"
  policy_budgets :: run_budgets
  policy_changed_files :: int
  policy_diff_bytes :: int
  allow_test_file_changes :: bool

definition pf_policy_ok :: "pf_policy \<Rightarrow> bool" where
  "pf_policy_ok p \<longleftrightarrow> policy_agent p = ''patchforge.engineer'' \<and> valid_identifier (policy_profile_id p)
     \<and> valid_sha256 (policy_profile_sha256 p) \<and> bounded 1 50 (allowed_tools p) \<and> distinct (allowed_tools p)
     \<and> run_budgets_ok (policy_budgets p) \<and> 1 \<le> policy_changed_files p \<and> policy_changed_files p \<le> 1000
     \<and> 1 \<le> policy_diff_bytes p \<and> policy_diff_bytes p \<le> 100000000"

section \<open>Task and identity\<close>

record engineering_task =
  et_task_id :: uuid
  et_atlas_job_id :: uuid
  et_title :: ustr
  et_instructions :: ustr
  et_criteria :: "ustr list"
  et_constraints :: "ustr list"
  et_source :: source_revision
  et_profile_id :: string
  et_profile_sha256 :: string
  scope_paths :: "ustr list"
  et_created_at :: timestamp

definition engineering_task_ok :: "engineering_task \<Rightarrow> bool" where
  "engineering_task_ok t \<longleftrightarrow> short_text (et_title t) \<and> narrative (et_instructions t)
     \<and> bounded 1 50 (et_criteria t) \<and> list_all short_text (et_criteria t)
     \<and> bounded 0 50 (et_constraints t) \<and> list_all short_text (et_constraints t) \<and> source_ok (et_source t)
     \<and> valid_identifier (et_profile_id t) \<and> valid_sha256 (et_profile_sha256 t)
     \<and> bounded 0 100 (scope_paths t) \<and> list_all path_ok (scope_paths t) \<and> distinct (scope_paths t)"

record run_identity =
  run_id :: uuid
  run_task_id :: uuid
  run_atlas_job_id :: uuid
  run_execution_id :: uuid
  run_agent_id :: string
  run_source :: source_revision
  run_profile_id :: string
  run_profile_sha256 :: string
  run_task_sha256 :: string
  run_engine_kind :: string
  run_engine_version :: ustr
  run_created_at :: timestamp

definition run_identity_ok :: "run_identity \<Rightarrow> bool" where
  "run_identity_ok i \<longleftrightarrow> valid_identifier (run_agent_id i) \<and> source_ok (run_source i) \<and> valid_identifier (run_profile_id i)
     \<and> valid_sha256 (run_profile_sha256 i) \<and> valid_sha256 (run_task_sha256 i) \<and> valid_identifier (run_engine_kind i)
     \<and> bounded 1 100 (run_engine_version i)"

section \<open>Evidence\<close>

record tool_call_record =
  tc_call_id :: uuid
  tc_run_id :: uuid
  tc_sequence :: nat
  tc_phase :: pf_phase
  tc_tool :: tool_name
  tc_arguments_sha256 :: string
  tc_status :: tool_status
  tc_started_at :: timestamp
  tc_completed_at :: timestamp
  tc_output_bytes :: nat
  tc_truncated :: bool
  tc_error_code :: "string option"

definition tool_call_ok :: "tool_call_record \<Rightarrow> bool" where
  "tool_call_ok r \<longleftrightarrow> 1 \<le> tc_sequence r \<and> valid_sha256 (tc_arguments_sha256 r)
     \<and> opt_ok valid_identifier (tc_error_code r) \<and> tc_started_at r \<le> tc_completed_at r
     \<and> (tc_status r = TOOL_SUCCEEDED \<longleftrightarrow> tc_error_code r = None)"

text \<open>\<open>TestExecution\<close>, without the output artifact and the counts, which nothing sets.\<close>

record test_execution =
  te_execution_id :: uuid
  te_run_id :: uuid
  te_call_id :: uuid
  te_phase :: pf_phase
  te_kind :: check_kind
  te_command_name :: string
  te_command_sha256 :: string
  te_status :: execution_status
  te_exit_code :: "int option"
  te_started_at :: timestamp
  te_completed_at :: timestamp

definition test_execution_ok :: "test_execution \<Rightarrow> bool" where
  "test_execution_ok e \<longleftrightarrow> valid_identifier (te_command_name e) \<and> valid_sha256 (te_command_sha256 e) \<and> opt_ok (\<lambda>c. 0 \<le> c \<and> c \<le> 255) (te_exit_code e)
     \<and> te_started_at e \<le> te_completed_at e
     \<and> (te_status e = EXEC_PASSED \<longrightarrow> te_exit_code e = Some 0)
     \<and> (te_status e = EXEC_FAILED \<longrightarrow> te_exit_code e \<noteq> None \<and> te_exit_code e \<noteq> Some 0)
     \<and> (te_status e = EXEC_TIMED_OUT \<longrightarrow> te_exit_code e = None)"

record reproduction_evidence =
  re_status :: reproduction_status
  re_before :: "test_execution option"
  re_after :: "test_execution option"
  re_rationale :: ustr

text \<open>\<open>validate_evidence_shape\<close>.\<close>

definition ran_with :: "execution_status \<Rightarrow> test_execution option \<Rightarrow> bool" where
  "ran_with s x \<longleftrightarrow> (case x of None \<Rightarrow> False | Some e \<Rightarrow> te_status e = s)"

definition reproduction_ok :: "reproduction_evidence \<Rightarrow> bool" where
  "reproduction_ok r \<longleftrightarrow> short_text (re_rationale r) \<and> (case re_status r of
     FAIL_BEFORE_PASS_AFTER \<Rightarrow> ran_with EXEC_FAILED (re_before r) \<and> ran_with EXEC_PASSED (re_after r)
   | FAIL_BEFORE_NO_PASS \<Rightarrow> ran_with EXEC_FAILED (re_before r) \<and> \<not> ran_with EXEC_PASSED (re_after r)
   | PASS_BEFORE \<Rightarrow> ran_with EXEC_PASSED (re_before r) \<and> re_after r = None
   | NOT_PRACTICAL \<Rightarrow> re_before r = None \<and> re_after r = None)"

record pf_check =
  pc_kind :: check_kind
  pc_status :: check_status
  pc_execution :: "uuid option"
  pc_summary :: ustr

definition pf_check_ok :: "pf_check \<Rightarrow> bool" where
  "pf_check_ok c \<longleftrightarrow> short_text (pc_summary c) \<and> (pc_status c = CHECK_NOT_RUN \<longleftrightarrow> pc_execution c = None)"

record diff_summary =
  ds_base_sha :: string
  ds_head_sha :: string
  ds_sha256 :: string
  ds_artifact :: artifact_reference
  ds_changed_files :: "ustr list"
  ds_line_additions :: int
  ds_line_deletions :: int
  ds_binary_files :: "ustr list"
  ds_protected :: "ustr list"
  ds_scope :: "ustr list"
  ds_tests :: "ustr list"

definition diff_summary_ok :: "diff_summary \<Rightarrow> bool" where
  "diff_summary_ok d \<longleftrightarrow> valid_commit_sha (ds_base_sha d) \<and> valid_commit_sha (ds_head_sha d) \<and> valid_sha256 (ds_sha256 d)
     \<and> bounded 1 1000 (ds_changed_files d) \<and> list_all path_ok (ds_changed_files d)
     \<and> 0 \<le> ds_line_additions d \<and> 0 \<le> ds_line_deletions d
     \<and> bounded 0 100 (ds_binary_files d) \<and> bounded 0 100 (ds_protected d) \<and> bounded 0 100 (ds_scope d)
     \<and> bounded 0 500 (ds_tests d) \<and> distinct (ds_changed_files d) \<and> distinct (ds_binary_files d)
     \<and> distinct (ds_protected d) \<and> distinct (ds_scope d) \<and> distinct (ds_tests d)
     \<and> artifact_ok (ds_artifact d)
     \<and> list_all path_ok (ds_binary_files d) \<and> list_all path_ok (ds_protected d) \<and> list_all path_ok (ds_scope d)
     \<and> list_all path_ok (ds_tests d) \<and> ds_sha256 d = artifact_sha256 (ds_artifact d)"

record policy_finding =
  finding_id :: uuid
  finding_severity :: finding_severity
  finding_code :: string
  finding_detail :: ustr
  finding_path :: "ustr option"

definition policy_finding_ok :: "policy_finding \<Rightarrow> bool" where
  "policy_finding_ok f \<longleftrightarrow> valid_identifier (finding_code f) \<and> short_text (finding_detail f) \<and> opt_ok path_ok (finding_path f)"

record agent_report =
  report_summary :: ustr
  report_hypothesis :: ustr
  report_implementation :: ustr
  report_limitations :: "ustr list"
  evidence_references :: "uuid list"

definition agent_report_ok :: "agent_report \<Rightarrow> bool" where
  "agent_report_ok r \<longleftrightarrow> narrative (report_summary r) \<and> narrative (report_hypothesis r) \<and> narrative (report_implementation r)
     \<and> bounded 0 50 (report_limitations r) \<and> list_all short_text (report_limitations r)
     \<and> bounded 0 500 (evidence_references r) \<and> distinct (evidence_references r)"

record phase_usage =
  pu_phase :: pf_phase
  pu_calls :: nat
  pu_duration :: int
  pu_output :: nat

record budget_usage =
  bu_phases :: "phase_usage list"
  bu_calls :: nat
  bu_duration :: int
  bu_output :: nat
  bu_reserve_used :: bool

definition budget_usage_ok :: "budget_usage \<Rightarrow> bool" where
  "budget_usage_ok u \<longleftrightarrow> distinct (map pu_phase (bu_phases u)) \<and> sum_list (map pu_calls (bu_phases u)) = bu_calls u
     \<and> sum_list (map pu_output (bu_phases u)) = bu_output u \<and> bounded 0 20 (bu_phases u)
     \<and> list_all (\<lambda>p. 0 \<le> pu_duration p) (bu_phases u) \<and> 0 \<le> bu_duration u"

section \<open>The result\<close>

record pf_result =
  pr_identity :: run_identity
  pr_outcome :: patch_outcome
  pr_phase_reached :: pf_phase
  pr_report :: agent_report
  pr_tool_calls :: "tool_call_record list"
  pr_executions :: "test_execution list"
  pr_reproduction :: "reproduction_evidence option"
  pr_checks :: "pf_check list"
  pr_diff :: "diff_summary option"
  pr_findings :: "policy_finding list"
  pr_usage :: budget_usage
  pr_failure :: "pf_failure option"
  pr_started_at :: timestamp
  pr_completed_at :: timestamp

fun expected_status :: "check_status \<Rightarrow> execution_status \<Rightarrow> bool" where
  "expected_status CHECK_PASSED s = (s = EXEC_PASSED)"
| "expected_status CHECK_FAILED s = (s = EXEC_FAILED)"
| "expected_status CHECK_ERROR s = (s = EXEC_ERROR \<or> s = EXEC_TIMED_OUT)"
| "expected_status CHECK_NOT_RUN s = False"

definition check_matches :: "test_execution list \<Rightarrow> pf_check \<Rightarrow> bool" where
  "check_matches es c = (case pc_execution c of
     None \<Rightarrow> True
   | Some i \<Rightarrow> (case find (\<lambda>e. te_execution_id e = i) (rev es) of
       None \<Rightarrow> False
     | Some e \<Rightarrow> te_kind e = pc_kind c \<and> expected_status (pc_status c) (te_status e)))"

definition evidence_error :: "pf_result \<Rightarrow> string option" where
  "evidence_error r =
     (let calls = map tc_call_id (pr_tool_calls r); execs = map te_execution_id (pr_executions r);
          findings = map finding_id (pr_findings r); run = run_id (pr_identity r) in
      if pr_completed_at r < pr_started_at r then Some ''Patch result completion cannot precede start''
      else if list_ex (\<lambda>c. tc_run_id c \<noteq> run) (pr_tool_calls r) then Some ''Tool-call evidence belongs to a different run''
      else if list_ex (\<lambda>e. te_run_id e \<noteq> run) (pr_executions r) then Some ''Execution evidence belongs to a different run''
      else if map tc_sequence (pr_tool_calls r) \<noteq> [1 ..< Suc (length calls)]
        then Some ''Tool-call sequence must be contiguous and ordered''
      else if \<not> distinct calls then Some ''Tool-call IDs must be unique''
      else if \<not> distinct execs then Some ''Execution IDs must be unique''
      else if \<not> distinct (map pc_kind (pr_checks r)) then Some ''Check kinds must be unique''
      else if \<not> distinct findings then Some ''Policy-finding IDs must be unique''
      else if \<not> set (evidence_references (pr_report r)) \<subseteq> set calls \<union> set execs \<union> set findings
        then Some ''Agent report references unknown runtime evidence''
      else if \<not> list_all (\<lambda>e. te_call_id e \<in> set calls) (pr_executions r)
        then Some ''Execution references unknown tool-call evidence''
      else if \<not> list_all (check_matches (pr_executions r)) (pr_checks r)
        then Some ''Check does not match execution evidence''
      else if bu_calls (pr_usage r) \<noteq> length calls then Some ''Budget usage does not match recorded tool calls''
      else if (case pr_reproduction r of None \<Rightarrow> False
          | Some e \<Rightarrow> \<not> list_all (\<lambda>x. te_execution_id x \<in> set execs)
              ((case re_before e of None \<Rightarrow> [] | Some b \<Rightarrow> [b]) @ (case re_after e of None \<Rightarrow> [] | Some a \<Rightarrow> [a])))
        then Some ''Reproduction references unknown execution evidence''
      else None)"

definition outcome_error :: "pf_result \<Rightarrow> string option" where
  "outcome_error r =
     (if pr_outcome r = PATCH_PROPOSED
      then (case pr_diff r of
          None \<Rightarrow> Some ''Patch-proposed outcome requires a diff and no failure''
        | Some d \<Rightarrow>
            if pr_failure r \<noteq> None then Some ''Patch-proposed outcome requires a diff and no failure''
            else if ds_base_sha d \<noteq> commit_sha (run_source (pr_identity r))
              then Some ''Patch diff base does not match the run source SHA''
            else if pr_phase_reached r \<notin> {PF_FINALIZE, PF_REPORTED, PF_CLEANUP, PF_CLOSED}
              then Some ''Patch-proposed outcome must reach finalization''
            else if list_ex (\<lambda>f. finding_severity f = SEV_BLOCKING) (pr_findings r)
              then Some ''Patch-proposed outcome cannot contain blocking findings''
            else if pr_reproduction r = None then Some ''Patch-proposed outcome requires reproduction evidence''
            else if \<not> {TARGETED_TESTS, FULL_TEST_SUITE} \<subseteq> set (map pc_kind (pr_checks r))
              then Some ''Patch-proposed outcome requires targeted and full test checks''
            else if list_ex (\<lambda>c. pc_status c \<noteq> CHECK_PASSED) (pr_checks r)
              then Some ''Patch-proposed outcome cannot contain an unpassed check''
            else None)
      else if pr_failure r = None then Some ''Non-success PatchForge outcomes require a failure classification''
      else None)"

definition result_fields_ok :: "pf_result \<Rightarrow> bool" where
  "result_fields_ok r \<longleftrightarrow> agent_report_ok (pr_report r) \<and> bounded 0 10000 (pr_tool_calls r)
     \<and> list_all tool_call_ok (pr_tool_calls r) \<and> bounded 0 1000 (pr_executions r)
     \<and> list_all test_execution_ok (pr_executions r) \<and> opt_ok reproduction_ok (pr_reproduction r)
     \<and> bounded 0 100 (pr_checks r) \<and> list_all pf_check_ok (pr_checks r) \<and> opt_ok diff_summary_ok (pr_diff r)
     \<and> bounded 0 1000 (pr_findings r) \<and> list_all policy_finding_ok (pr_findings r) \<and> budget_usage_ok (pr_usage r)"

definition pf_result_ok :: "pf_result \<Rightarrow> bool" where
  "pf_result_ok r \<longleftrightarrow> result_fields_ok r \<and> evidence_error r = None \<and> outcome_error r = None"

text \<open>\<open>to_atlas_result\<close>: the arguments of Atlas' own \<open>PatchResult\<close>, whose validation is \<open>result_ok\<close>; no value is the ValueError.\<close>

definition to_atlas_result :: "pf_result \<Rightarrow> patch_result option" where
  "to_atlas_result r = (case pr_diff r of
     None \<Rightarrow> None
   | Some d \<Rightarrow> if pr_outcome r \<noteq> PATCH_PROPOSED then None
       else Some \<lparr>patch_summary = report_summary (pr_report r), base_sha = ds_base_sha d, proposed_head_sha = ds_head_sha d,
         patch_artifact = ds_artifact d, changed_files = ds_changed_files d,
         patch_checks = map (\<lambda>c. \<lparr>check_name = check_kind_value (pc_kind c), check_passed = (pc_status c = CHECK_PASSED),
           check_summary = pc_summary c\<rparr>) (pr_checks r)\<rparr>)"

end
