(* ===== verification/PatchForgeLifecycle.thy ===== *)
theory PatchForgeLifecycle
  imports PatchForgeModels
begin

text \<open>
  The lifecycle of a PatchForge run (\<open>runtime.py\<close>, \<open>PatchForgeLifecycle\<close> and the snapshot's validator): the
  table of transitions, every method of the controller with its refusals, and the transcript they leave. A
  refusal is the text of its RuntimeTransitionError.
\<close>

section \<open>Transitions\<close>

datatype transition_kind = KIND_PROGRESS | KIND_RETRY | KIND_FAILURE | KIND_REPORT | KIND_CLEANUP | KIND_CLOSE

definition lifecycle_transitions :: "pf_phase \<Rightarrow> pf_phase set" where
  "lifecycle_transitions p = (case p of
     PF_CREATED \<Rightarrow> {PF_PROVISIONING} | PF_PROVISIONING \<Rightarrow> {PF_RECON} | PF_RECON \<Rightarrow> {PF_HYPOTHESIS}
   | PF_HYPOTHESIS \<Rightarrow> {PF_REPRODUCE} | PF_REPRODUCE \<Rightarrow> {PF_IMPLEMENT} | PF_IMPLEMENT \<Rightarrow> {PF_TARGETED_VALIDATE}
   | PF_TARGETED_VALIDATE \<Rightarrow> {PF_IMPLEMENT, PF_FULL_VALIDATE} | PF_FULL_VALIDATE \<Rightarrow> {PF_SELF_REVIEW}
   | PF_SELF_REVIEW \<Rightarrow> {PF_FINALIZE} | PF_FINALIZE \<Rightarrow> {PF_REPORTED} | PF_REPORTED \<Rightarrow> {PF_CLEANUP}
   | PF_CLEANUP \<Rightarrow> {PF_CLOSED} | PF_CLOSED \<Rightarrow> {})"

fun failure_outcome :: "pf_failure \<Rightarrow> patch_outcome" where
  "failure_outcome BUDGET_EXHAUSTED = PARTIAL"
| "failure_outcome POLICY_DENIED = POLICY_VIOLATION"
| "failure_outcome RUN_CANCELLED = CANCELLED_RUN"
| "failure_outcome SANDBOX_ERROR = SANDBOX_FAILED"
| "failure_outcome WORKSPACE_ERROR = ABORTED"
| "failure_outcome ENGINE_ERROR = ABORTED"
| "failure_outcome VALIDATION_FAILED = PARTIAL"
| "failure_outcome ATTESTATION_FAILED = ABORTED"
| "failure_outcome CLEANUP_FAILED = ABORTED"

definition failure_to_finalize :: "pf_phase set" where
  "failure_to_finalize = {PF_CREATED, PF_PROVISIONING, PF_RECON, PF_HYPOTHESIS, PF_REPRODUCE, PF_IMPLEMENT,
     PF_TARGETED_VALIDATE, PF_FULL_VALIDATE, PF_SELF_REVIEW}"

record runtime_transition =
  rt_run_id :: uuid
  rt_sequence :: nat
  rt_source :: pf_phase
  rt_target :: pf_phase
  rt_kind :: transition_kind
  rt_loops :: nat
  rt_failure :: "pf_failure option"
  rt_at :: timestamp

definition runtime_transition_ok :: "runtime_transition \<Rightarrow> bool" where
  "runtime_transition_ok t \<longleftrightarrow> 1 \<le> rt_sequence t \<and> rt_loops t \<le> 20
     \<and> (rt_kind t = KIND_FAILURE \<longleftrightarrow> rt_failure t \<noteq> None)"

section \<open>The controller\<close>

text \<open>The fields of \<open>PatchForgeLifecycle\<close>, which are also those of its \<open>RuntimeSnapshot\<close>.\<close>

record lifecycle =
  lc_run_id :: uuid
  lc_max_loops :: nat
  lc_phase :: pf_phase
  lc_loops :: nat
  lc_outcome :: "patch_outcome option"
  lc_failure :: "pf_failure option"
  lc_cleanup_failed :: bool
  lc_report_only :: bool
  lc_transitions :: "runtime_transition list"

definition lifecycle_init :: "uuid \<Rightarrow> run_budgets \<Rightarrow> lifecycle" where
  "lifecycle_init run b = \<lparr>lc_run_id = run, lc_max_loops = rb_implementation_loops b, lc_phase = PF_CREATED, lc_loops = 0,
     lc_outcome = None, lc_failure = None, lc_cleanup_failed = False, lc_report_only = False, lc_transitions = []\<rparr>"

type_synonym lifecycle_result = "(string + runtime_transition) \<times> lifecycle"

definition lc_record :: "pf_phase \<Rightarrow> transition_kind \<Rightarrow> pf_failure option \<Rightarrow> timestamp \<Rightarrow> lifecycle \<Rightarrow> lifecycle_result" where
  "lc_record target kind failure t l =
     (let x = \<lparr>rt_run_id = lc_run_id l, rt_sequence = length (lc_transitions l) + 1, rt_source = lc_phase l,
               rt_target = target, rt_kind = kind, rt_loops = lc_loops l, rt_failure = failure, rt_at = t\<rparr> in
      (Inr x, l\<lparr>lc_transitions := lc_transitions l @ [x], lc_phase := target\<rparr>))"

definition loop_exhausted :: string where
  "loop_exhausted = ''Implementation loop budget is exhausted''"

definition lc_advance :: "pf_phase \<Rightarrow> timestamp \<Rightarrow> lifecycle \<Rightarrow> lifecycle_result" where
  "lc_advance target t l =
     (if lc_failure l \<noteq> None then (Inl ''A failed runtime cannot resume the success path'', l)
      else if lc_phase l = PF_FINALIZE then (Inl ''Finalization requires an explicit report transition'', l)
      else if lc_phase l \<in> {PF_REPORTED, PF_CLEANUP} then (Inl ''Cleanup transitions require explicit runtime methods'', l)
      else if target \<notin> lifecycle_transitions (lc_phase l) then (Inl ''Invalid PatchForge runtime transition'', l)
      else if lc_phase l = PF_TARGETED_VALIDATE \<and> target = PF_IMPLEMENT then
        (if lc_loops l \<ge> lc_max_loops l then (Inl loop_exhausted, l)
         else lc_record target KIND_RETRY None t (l\<lparr>lc_loops := lc_loops l + 1\<rparr>))
      else lc_record target KIND_PROGRESS None t l)"

definition lc_classify :: "pf_failure \<Rightarrow> lifecycle \<Rightarrow> lifecycle" where
  "lc_classify f l = l\<lparr>lc_failure := Some f, lc_outcome := Some (failure_outcome f)\<rparr>"

definition lc_fail :: "pf_failure \<Rightarrow> timestamp \<Rightarrow> lifecycle \<Rightarrow> lifecycle_result" where
  "lc_fail f t l =
     (if lc_failure l \<noteq> None then (Inl ''Runtime failure is already classified'', l)
      else if f = CLEANUP_FAILED then (Inl ''Cleanup failure requires the cleanup phase'', l)
      else if lc_phase l \<in> failure_to_finalize then lc_record PF_FINALIZE KIND_FAILURE (Some f) t (lc_classify f l)
      else if lc_phase l = PF_FINALIZE then lc_record PF_CLEANUP KIND_FAILURE (Some f) t (lc_classify f l)
      else (Inl ''Runtime failure cannot start from this phase'', l))"

definition lc_report :: "timestamp \<Rightarrow> lifecycle \<Rightarrow> lifecycle_result" where
  "lc_report t l =
     (if lc_phase l \<noteq> PF_FINALIZE then (Inl ''A report can be recorded only from finalization'', l)
      else lc_record PF_REPORTED KIND_REPORT None t l)"

definition lc_primary :: "pf_failure \<Rightarrow> lifecycle \<Rightarrow> lifecycle" where
  "lc_primary f l = (if lc_failure l = None then lc_classify f l else l)"

definition lc_reserve_refused :: "timestamp \<Rightarrow> lifecycle \<Rightarrow> lifecycle_result" where
  "lc_reserve_refused t l =
     (if lc_phase l \<noteq> PF_FINALIZE then (Inl ''A reserve refusal requires the finalization phase'', l)
      else if lc_report_only l then (Inl ''Finalization is already limited to the report'', l)
      else lc_record PF_FINALIZE KIND_FAILURE (Some BUDGET_EXHAUSTED) t
             ((lc_primary BUDGET_EXHAUSTED l)\<lparr>lc_report_only := True\<rparr>))"

definition lc_finalization_failed :: "pf_failure \<Rightarrow> timestamp \<Rightarrow> lifecycle \<Rightarrow> lifecycle_result" where
  "lc_finalization_failed f t l =
     (if lc_phase l \<noteq> PF_FINALIZE then (Inl ''Finalization failure requires the finalization phase'', l)
      else lc_record PF_CLEANUP KIND_FAILURE (Some f) t (lc_primary f l))"

definition lc_begin_cleanup :: "timestamp \<Rightarrow> lifecycle \<Rightarrow> lifecycle_result" where
  "lc_begin_cleanup t l =
     (if lc_phase l \<noteq> PF_REPORTED then (Inl ''Cleanup can begin only after a report'', l)
      else lc_record PF_CLEANUP KIND_CLEANUP None t l)"

definition lc_close :: "timestamp \<Rightarrow> lifecycle \<Rightarrow> lifecycle_result" where
  "lc_close t l =
     (if lc_phase l \<noteq> PF_CLEANUP then (Inl ''Runtime can close only after cleanup'', l)
      else lc_record PF_CLOSED KIND_CLOSE None t l)"

definition lc_fail_cleanup :: "timestamp \<Rightarrow> lifecycle \<Rightarrow> lifecycle_result" where
  "lc_fail_cleanup t l =
     (if lc_phase l \<noteq> PF_CLEANUP then (Inl ''Cleanup failure can be recorded only during cleanup'', l)
      else lc_record PF_CLOSED KIND_FAILURE (Some CLEANUP_FAILED) t ((lc_primary CLEANUP_FAILED l)\<lparr>lc_cleanup_failed := True\<rparr>))"

text \<open>The methods as one type, each with the reading of the clock it takes.\<close>

datatype lifecycle_op =
  Advance pf_phase | Fail pf_failure | Report | Reserve_Refused | Finalization_Failed pf_failure
| Begin_Cleanup | Close | Fail_Cleanup

fun lifecycle_apply :: "lifecycle_op \<Rightarrow> timestamp \<Rightarrow> lifecycle \<Rightarrow> lifecycle_result" where
  "lifecycle_apply (Advance p) = lc_advance p"
| "lifecycle_apply (Fail f) = lc_fail f"
| "lifecycle_apply Report = lc_report"
| "lifecycle_apply Reserve_Refused = lc_reserve_refused"
| "lifecycle_apply (Finalization_Failed f) = lc_finalization_failed f"
| "lifecycle_apply Begin_Cleanup = lc_begin_cleanup"
| "lifecycle_apply Close = lc_close"
| "lifecycle_apply Fail_Cleanup = lc_fail_cleanup"

fun lifecycle_run :: "(lifecycle_op \<times> timestamp) list \<Rightarrow> lifecycle \<Rightarrow> lifecycle" where
  "lifecycle_run [] l = l"
| "lifecycle_run ((op, t) # ops) l = lifecycle_run ops (snd (lifecycle_apply op t l))"

section \<open>The snapshot's validator\<close>

text \<open>\<open>validate_transcript\<close>'s loop: the phase that contiguous transitions of one run lead to.\<close>

fun transcript_end :: "uuid \<Rightarrow> nat \<Rightarrow> pf_phase \<Rightarrow> runtime_transition list \<Rightarrow> pf_phase option" where
  "transcript_end run n p [] = Some p"
| "transcript_end run n p (t # ts) =
     (if rt_sequence t \<noteq> n \<or> rt_run_id t \<noteq> run \<or> rt_source t \<noteq> p then None
      else transcript_end run (n + 1) (rt_target t) ts)"

definition retry_count :: "runtime_transition list \<Rightarrow> nat" where
  "retry_count ts = length (filter (\<lambda>t. rt_kind t = KIND_RETRY) ts)"

definition refusals :: "runtime_transition list \<Rightarrow> runtime_transition list" where
  "refusals ts = filter (\<lambda>t. rt_source t = PF_FINALIZE \<and> rt_target t = PF_FINALIZE) ts"

definition snapshot_ok :: "lifecycle \<Rightarrow> bool" where
  "snapshot_ok l \<longleftrightarrow> lc_loops l \<le> 20 \<and> lc_max_loops l \<le> 20 \<and> length (lc_transitions l) \<le> 100
     \<and> list_all runtime_transition_ok (lc_transitions l) \<and> lc_loops l \<le> lc_max_loops l
     \<and> (lc_failure l = None \<longleftrightarrow> lc_outcome l \<in> {None, Some PATCH_PROPOSED})
     \<and> transcript_end (lc_run_id l) 1 PF_CREATED (lc_transitions l) = Some (lc_phase l)
     \<and> retry_count (lc_transitions l) = lc_loops l
     \<and> length (refusals (lc_transitions l)) \<le> 1 \<and> (lc_report_only l \<longleftrightarrow> refusals (lc_transitions l) \<noteq> [])"

section \<open>Every method keeps the snapshot valid\<close>

fun phase_rank :: "pf_phase \<Rightarrow> nat" where
  "phase_rank PF_CREATED = 0" | "phase_rank PF_PROVISIONING = 1" | "phase_rank PF_RECON = 2"
| "phase_rank PF_HYPOTHESIS = 3" | "phase_rank PF_REPRODUCE = 4" | "phase_rank PF_IMPLEMENT = 5"
| "phase_rank PF_TARGETED_VALIDATE = 6" | "phase_rank PF_FULL_VALIDATE = 7" | "phase_rank PF_SELF_REVIEW = 8"
| "phase_rank PF_FINALIZE = 9" | "phase_rank PF_REPORTED = 10" | "phase_rank PF_CLEANUP = 11" | "phase_rank PF_CLOSED = 12"

text \<open>The phases that a run without a failure has left when it is in a phase after a number of retries.\<close>

definition until_implement :: "pf_phase list" where
  "until_implement = [PF_CREATED, PF_PROVISIONING, PF_RECON, PF_HYPOTHESIS, PF_REPRODUCE]"

definition implementation_rounds :: "nat \<Rightarrow> pf_phase list" where
  "implementation_rounds n = concat (replicate n [PF_IMPLEMENT, PF_TARGETED_VALIDATE])"

definition after_implement :: "pf_phase list" where
  "after_implement = [PF_FULL_VALIDATE, PF_SELF_REVIEW, PF_FINALIZE, PF_REPORTED, PF_CLEANUP]"

definition straight_path :: "pf_phase \<Rightarrow> nat \<Rightarrow> pf_phase list" where
  "straight_path p n =
     (if phase_rank p \<le> 5 then take (phase_rank p) until_implement @ implementation_rounds n
      else if p = PF_TARGETED_VALIDATE then until_implement @ implementation_rounds n @ [PF_IMPLEMENT]
      else until_implement @ implementation_rounds (Suc n) @ take (phase_rank p - 7) after_implement)"

lemma implementation_rounds_Suc: "implementation_rounds (Suc n) = implementation_rounds n @ [PF_IMPLEMENT, PF_TARGETED_VALIDATE]"
  by (simp add: implementation_rounds_def replicate_app_Cons_same [symmetric] flip: replicate_append_same)

text \<open>What holds in every state the methods reach.\<close>

definition transcript_ok :: "lifecycle \<Rightarrow> bool" where
  "transcript_ok l \<longleftrightarrow> lc_max_loops l \<le> 20 \<and> list_all runtime_transition_ok (lc_transitions l) \<and> lc_loops l \<le> lc_max_loops l
     \<and> transcript_end (lc_run_id l) 1 PF_CREATED (lc_transitions l) = Some (lc_phase l)
     \<and> retry_count (lc_transitions l) = lc_loops l
     \<and> length (refusals (lc_transitions l)) \<le> 1 \<and> (lc_report_only l \<longleftrightarrow> refusals (lc_transitions l) \<noteq> [])"

definition lifecycle_inv :: "lifecycle \<Rightarrow> bool" where
  "lifecycle_inv l \<longleftrightarrow> transcript_ok l
     \<and> length (lc_transitions l) \<le> phase_rank (lc_phase l) + 2 * lc_loops l + (if lc_report_only l then 1 else 0)
     \<and> (phase_rank (lc_phase l) < 5 \<longrightarrow> lc_loops l = 0)
     \<and> (lc_failure l \<noteq> None \<longrightarrow> 9 \<le> phase_rank (lc_phase l))
     \<and> lc_outcome l = map_option failure_outcome (lc_failure l)
     \<and> (lc_cleanup_failed l \<longrightarrow> lc_phase l = PF_CLOSED \<and> lc_failure l \<noteq> None)
     \<and> (lc_failure l = None \<longrightarrow> map rt_source (lc_transitions l) = straight_path (lc_phase l) (lc_loops l)
          \<and> list_all (\<lambda>t. rt_kind t \<noteq> KIND_FAILURE) (lc_transitions l))
     \<and> (lc_report_only l \<longrightarrow> 9 \<le> phase_rank (lc_phase l) \<and> lc_failure l \<noteq> None)
     \<and> (lc_failure l \<noteq> None \<longrightarrow> list_ex (\<lambda>t. rt_failure t = lc_failure l) (lc_transitions l))"

lemma transcript_end_append:
  "transcript_end run n p (ts @ [t]) = Some q \<longleftrightarrow>
     (\<exists>r. transcript_end run n p ts = Some r \<and> rt_sequence t = n + length ts \<and> rt_run_id t = run
        \<and> rt_source t = r \<and> rt_target t = q)"
  by (induction ts arbitrary: n p) auto

lemma retry_count_append: "retry_count (ts @ [t]) = retry_count ts + (if rt_kind t = KIND_RETRY then 1 else 0)"
  by (simp add: retry_count_def)

lemma refusals_append:
  "refusals (ts @ [t]) = refusals ts @ (if rt_source t = PF_FINALIZE \<and> rt_target t = PF_FINALIZE then [t] else [])"
  by (simp add: refusals_def)

lemma lifecycle_init_inv: "run_budgets_ok b \<Longrightarrow> lifecycle_inv (lifecycle_init run b)"
  by (simp add: lifecycle_inv_def lifecycle_init_def transcript_ok_def run_budgets_ok_def retry_count_def refusals_def
      straight_path_def implementation_rounds_def)

definition lc_moved :: "pf_phase \<Rightarrow> transition_kind \<Rightarrow> pf_failure option \<Rightarrow> timestamp \<Rightarrow> lifecycle \<Rightarrow> lifecycle" where
  "lc_moved target kind failure t l = snd (lc_record target kind failure t l)"

lemma lc_moved_simps [simp]:
  "lc_run_id (lc_moved p k f t l) = lc_run_id l" "lc_max_loops (lc_moved p k f t l) = lc_max_loops l"
  "lc_phase (lc_moved p k f t l) = p" "lc_loops (lc_moved p k f t l) = lc_loops l"
  "lc_outcome (lc_moved p k f t l) = lc_outcome l" "lc_failure (lc_moved p k f t l) = lc_failure l"
  "lc_cleanup_failed (lc_moved p k f t l) = lc_cleanup_failed l" "lc_report_only (lc_moved p k f t l) = lc_report_only l"
  by (simp_all add: lc_moved_def lc_record_def Let_def)

lemma lc_moved_transitions: "\<exists>x. lc_transitions (lc_moved p k f t l) = lc_transitions l @ [x]
    \<and> rt_sequence x = 1 + length (lc_transitions l) \<and> rt_run_id x = lc_run_id l \<and> rt_source x = lc_phase l \<and> rt_target x = p
    \<and> rt_kind x = k \<and> rt_loops x = lc_loops l \<and> rt_failure x = f \<and> rt_at x = t"
  by (simp add: lc_moved_def lc_record_def Let_def)

lemma lc_classify_simps [simp]:
  "lc_run_id (lc_classify f l) = lc_run_id l" "lc_max_loops (lc_classify f l) = lc_max_loops l"
  "lc_phase (lc_classify f l) = lc_phase l" "lc_loops (lc_classify f l) = lc_loops l"
  "lc_outcome (lc_classify f l) = Some (failure_outcome f)" "lc_failure (lc_classify f l) = Some f"
  "lc_cleanup_failed (lc_classify f l) = lc_cleanup_failed l" "lc_report_only (lc_classify f l) = lc_report_only l"
  "lc_transitions (lc_classify f l) = lc_transitions l"
  by (simp_all add: lc_classify_def)

lemma lc_primary_simps [simp]:
  "lc_run_id (lc_primary f l) = lc_run_id l" "lc_max_loops (lc_primary f l) = lc_max_loops l"
  "lc_phase (lc_primary f l) = lc_phase l" "lc_loops (lc_primary f l) = lc_loops l"
  "lc_failure (lc_primary f l) = Some (case lc_failure l of None \<Rightarrow> f | Some g \<Rightarrow> g)"
  "lc_cleanup_failed (lc_primary f l) = lc_cleanup_failed l" "lc_report_only (lc_primary f l) = lc_report_only l"
  "lc_transitions (lc_primary f l) = lc_transitions l"
  by (simp_all add: lc_primary_def split: option.splits)

lemma lc_primary_outcome:
  "lc_outcome (lc_primary f l) = (case lc_failure l of None \<Rightarrow> Some (failure_outcome f) | Some g \<Rightarrow> lc_outcome l)"
  by (simp add: lc_primary_def split: option.splits)

lemma failure_not_proposed [simp]: "failure_outcome f \<noteq> PATCH_PROPOSED"
  by (cases f) simp_all

text \<open>One step of the controller: where it leads and what it changes besides the transcript.\<close>

inductive lifecycle_step :: "lifecycle \<Rightarrow> lifecycle \<Rightarrow> bool" where
  progress: "\<lbrakk>lc_failure l = None; lc_phase l \<noteq> PF_FINALIZE; lc_phase l \<notin> {PF_REPORTED, PF_CLEANUP};
     p \<in> lifecycle_transitions (lc_phase l); \<not> (lc_phase l = PF_TARGETED_VALIDATE \<and> p = PF_IMPLEMENT)\<rbrakk>
     \<Longrightarrow> lifecycle_step l (lc_moved p KIND_PROGRESS None t l)"
| retry: "\<lbrakk>lc_failure l = None; lc_phase l = PF_TARGETED_VALIDATE; lc_loops l < lc_max_loops l\<rbrakk>
     \<Longrightarrow> lifecycle_step l (lc_moved PF_IMPLEMENT KIND_RETRY None t (l\<lparr>lc_loops := Suc (lc_loops l)\<rparr>))"
| early: "\<lbrakk>lc_failure l = None; lc_phase l \<in> failure_to_finalize\<rbrakk>
     \<Longrightarrow> lifecycle_step l (lc_moved PF_FINALIZE KIND_FAILURE (Some f) t (lc_classify f l))"
| refused: "\<lbrakk>lc_phase l = PF_FINALIZE; \<not> lc_report_only l\<rbrakk>
     \<Longrightarrow> lifecycle_step l (lc_moved PF_FINALIZE KIND_FAILURE (Some BUDGET_EXHAUSTED) t
           ((lc_primary BUDGET_EXHAUSTED l)\<lparr>lc_report_only := True\<rparr>))"
| late: "lc_phase l = PF_FINALIZE \<Longrightarrow> lifecycle_step l (lc_moved PF_CLEANUP KIND_FAILURE (Some f) t (lc_primary f l))"
| report: "lc_phase l = PF_FINALIZE \<Longrightarrow> lifecycle_step l (lc_moved PF_REPORTED KIND_REPORT None t l)"
| cleanup: "lc_phase l = PF_REPORTED \<Longrightarrow> lifecycle_step l (lc_moved PF_CLEANUP KIND_CLEANUP None t l)"
| close: "lc_phase l = PF_CLEANUP \<Longrightarrow> lifecycle_step l (lc_moved PF_CLOSED KIND_CLOSE None t l)"
| unclean: "lc_phase l = PF_CLEANUP \<Longrightarrow> lifecycle_step l (lc_moved PF_CLOSED KIND_FAILURE (Some CLEANUP_FAILED) t
     ((lc_primary CLEANUP_FAILED l)\<lparr>lc_cleanup_failed := True\<rparr>))"

lemma lc_record_Inr: "lc_record p k f t l = (x, l') \<longleftrightarrow> l' = lc_moved p k f t l \<and> x = Inr (last (lc_transitions l'))"
  by (auto simp: lc_moved_def lc_record_def Let_def)

text \<open>A method either refuses and changes nothing or takes one step.\<close>

lemma lifecycle_apply_step:
  "lifecycle_apply op t l = (x, l') \<Longrightarrow> (\<exists>e. x = Inl e) \<and> l' = l \<or> (\<exists>y. x = Inr y) \<and> lifecycle_step l l'"
proof (cases op)
  case (Fail f)
  assume "lifecycle_apply op t l = (x, l')"
  with Fail show ?thesis
    by (auto simp: lc_fail_def lc_record_Inr lc_primary_def intro: early split: if_splits)
      (use late [of l f t] in \<open>simp add: lc_primary_def\<close>)
qed (auto simp: lc_advance_def lc_report_def lc_reserve_refused_def lc_finalization_failed_def lc_begin_cleanup_def
    lc_close_def lc_fail_cleanup_def lc_record_Inr intro: lifecycle_step.intros split: if_splits)

lemma lc_moved_inv:
  assumes inv: "lifecycle_inv l"
    and base: "lc_run_id m = lc_run_id l" "lc_max_loops m = lc_max_loops l" "lc_phase m = lc_phase l"
      "lc_transitions m = lc_transitions l"
    and loops: "lc_loops m = lc_loops l + (if k = KIND_RETRY then 1 else 0)" "lc_loops m \<le> lc_max_loops l"
    and refusal: "lc_report_only m \<longleftrightarrow> lc_report_only l \<or> lc_phase l = PF_FINALIZE \<and> p = PF_FINALIZE"
      "\<not> (lc_report_only l \<and> lc_phase l = PF_FINALIZE \<and> p = PF_FINALIZE)"
    and kind: "k = KIND_FAILURE \<longleftrightarrow> f \<noteq> None"
    and rank: "Suc (phase_rank (lc_phase l) + 2 * lc_loops l + (if lc_report_only l then 1 else 0))
      \<le> phase_rank p + 2 * lc_loops m + (if lc_report_only m then 1 else 0)"
    and early: "phase_rank p < 5 \<Longrightarrow> lc_loops m = 0"
    and failed: "lc_failure m \<noteq> None \<Longrightarrow> 9 \<le> phase_rank p \<and> (lc_failure m = lc_failure l \<or> f = lc_failure m)"
    and outcome: "lc_outcome m = map_option failure_outcome (lc_failure m)"
    and cleanup: "lc_cleanup_failed m \<Longrightarrow> p = PF_CLOSED \<and> lc_failure m \<noteq> None"
    and straight: "lc_failure m = None \<Longrightarrow> lc_failure l = None \<and> k \<noteq> KIND_FAILURE
      \<and> straight_path (lc_phase l) (lc_loops l) @ [lc_phase l] = straight_path p (lc_loops m)"
    and limited: "lc_report_only m \<Longrightarrow> 9 \<le> phase_rank p \<and> lc_failure m \<noteq> None"
  shows "lifecycle_inv (lc_moved p k f t m)"
proof -
  obtain x where x: "lc_transitions (lc_moved p k f t m) = lc_transitions l @ [x]"
    "rt_sequence x = 1 + length (lc_transitions l)" "rt_run_id x = lc_run_id l" "rt_source x = lc_phase l" "rt_target x = p"
    "rt_kind x = k" "rt_loops x = lc_loops m" "rt_failure x = f"
    using lc_moved_transitions [of p k f t m] base by auto
  note inv' = inv [unfolded lifecycle_inv_def] and old = inv [unfolded lifecycle_inv_def transcript_ok_def]
  have bound: "length (lc_transitions l @ [x]) \<le> phase_rank p + 2 * lc_loops m + (if lc_report_only m then 1 else 0)"
    using inv' rank by (auto split: if_splits)
  have ok: "runtime_transition_ok x" using x kind old loops by (auto simp: runtime_transition_ok_def)
  have "transcript_ok (lc_moved p k f t m)"
    unfolding transcript_ok_def
  proof (intro conjI)
    show "transcript_end (lc_run_id (lc_moved p k f t m)) 1 PF_CREATED (lc_transitions (lc_moved p k f t m))
        = Some (lc_phase (lc_moved p k f t m))"
      using old x base by (simp add: transcript_end_append)
    show "length (refusals (lc_transitions (lc_moved p k f t m))) \<le> 1"
      using old x refusal(2) by (auto simp: refusals_append)
    show "lc_report_only (lc_moved p k f t m) = (refusals (lc_transitions (lc_moved p k f t m)) \<noteq> [])"
      using old x refusal by (auto simp: refusals_append)
  qed (use old x ok loops base in \<open>simp_all add: retry_count_append\<close>)
  then show ?thesis
    using inv' x bound early failed outcome cleanup straight limited
    by (auto simp: lifecycle_inv_def)
qed

lemma lifecycle_invD:
  assumes "lifecycle_inv l"
  shows "lc_loops l \<le> lc_max_loops l" "phase_rank (lc_phase l) < 5 \<Longrightarrow> lc_loops l = 0"
    "lc_failure l \<noteq> None \<Longrightarrow> 9 \<le> phase_rank (lc_phase l)" "lc_outcome l = map_option failure_outcome (lc_failure l)"
    "lc_cleanup_failed l \<Longrightarrow> lc_phase l = PF_CLOSED" "lc_cleanup_failed l \<Longrightarrow> lc_failure l \<noteq> None"
    "lc_report_only l \<Longrightarrow> 9 \<le> phase_rank (lc_phase l)" "lc_report_only l \<Longrightarrow> lc_failure l \<noteq> None"
  using assms unfolding lifecycle_inv_def transcript_ok_def by blast+

lemma lifecycle_inv_snapshot:
  assumes "lifecycle_inv l"
  shows "snapshot_ok l"
proof -
  have "phase_rank (lc_phase l) \<le> 12" by (cases "lc_phase l") simp_all
  then have "length (lc_transitions l) \<le> 100"
    using assms by (auto simp: lifecycle_inv_def transcript_ok_def split: if_splits)
  moreover have "(lc_failure l = None) = (lc_outcome l \<in> {None, Some PATCH_PROPOSED})"
    using lifecycle_invD(4) [OF assms] by (cases "lc_failure l") simp_all
  ultimately show ?thesis using assms unfolding lifecycle_inv_def transcript_ok_def snapshot_ok_def by simp
qed

lemma straight_advance:
  assumes "p \<in> lifecycle_transitions q" "q \<notin> {PF_FINALIZE, PF_REPORTED, PF_CLEANUP}" "\<not> (q = PF_TARGETED_VALIDATE \<and> p = PF_IMPLEMENT)"
  shows "phase_rank p = Suc (phase_rank q)" "phase_rank q < 5 \<Longrightarrow> n = 0 \<Longrightarrow> straight_path q n @ [q] = straight_path p n"
    "5 \<le> phase_rank q \<Longrightarrow> straight_path q n @ [q] = straight_path p n"
  using assms by (cases q; simp add: lifecycle_transitions_def straight_path_def until_implement_def after_implement_def
      implementation_rounds_Suc implementation_rounds_def [of 0])+

lemma lifecycle_step_inv:
  assumes "lifecycle_step l l'" "lifecycle_inv l"
  shows "lifecycle_inv l'"
  using assms
proof (induction rule: lifecycle_step.induct)
  case (progress l p t)
  have *: "phase_rank p = Suc (phase_rank (lc_phase l))" "phase_rank (lc_phase l) < 5 \<Longrightarrow> lc_loops l = 0"
    "p \<noteq> PF_FINALIZE \<or> lc_phase l \<noteq> PF_FINALIZE"
    using progress straight_advance(1) [of p "lc_phase l"] by (auto simp: lifecycle_inv_def)
  have "straight_path (lc_phase l) (lc_loops l) @ [lc_phase l] = straight_path p (lc_loops l)"
    using progress * straight_advance(2,3) [of p "lc_phase l" "lc_loops l"] by (cases "phase_rank (lc_phase l) < 5") auto
  then show ?case
    by (intro lc_moved_inv [OF progress(6)]) (use progress * in \<open>auto dest: lifecycle_invD\<close>)
next
  case (retry l t)
  then have "straight_path (lc_phase l) (lc_loops l) @ [lc_phase l] = straight_path PF_IMPLEMENT (Suc (lc_loops l))"
    by (simp add: straight_path_def until_implement_def implementation_rounds_Suc)
  with retry show ?case
    by (intro lc_moved_inv [OF retry(4)]) (auto dest: lifecycle_invD)
next
  case (early l f t)
  then have "phase_rank (lc_phase l) < 9" by (auto simp: failure_to_finalize_def)
  with early show ?case
    by (intro lc_moved_inv [OF early(3)]) (auto dest: lifecycle_invD)
next
  case (refused l t)
  then show ?case
    by (intro lc_moved_inv [OF refused(3)]) (auto simp: lc_primary_outcome dest: lifecycle_invD split: option.splits)
next
  case (late l f t)
  then show ?case
    by (intro lc_moved_inv [OF late(2)]) (auto simp: lc_primary_outcome dest: lifecycle_invD split: option.splits)
next
  case (report l t)
  then have "straight_path (lc_phase l) (lc_loops l) @ [lc_phase l] = straight_path PF_REPORTED (lc_loops l)"
    by (simp add: straight_path_def after_implement_def)
  with report show ?case
    by (intro lc_moved_inv [OF report(2)]) (auto dest: lifecycle_invD)
next
  case (cleanup l t)
  then have "straight_path (lc_phase l) (lc_loops l) @ [lc_phase l] = straight_path PF_CLEANUP (lc_loops l)"
    by (simp add: straight_path_def after_implement_def)
  with cleanup show ?case
    by (intro lc_moved_inv [OF cleanup(2)]) (auto dest: lifecycle_invD)
next
  case (close l t)
  then have "straight_path (lc_phase l) (lc_loops l) @ [lc_phase l] = straight_path PF_CLOSED (lc_loops l)"
    by (simp add: straight_path_def after_implement_def)
  with close show ?case
    by (intro lc_moved_inv [OF close(2)]) (auto dest: lifecycle_invD)
next
  case (unclean l t)
  then show ?case
    by (intro lc_moved_inv [OF unclean(2)]) (auto simp: lc_primary_outcome dest: lifecycle_invD split: option.splits)
qed

lemma lifecycle_apply_inv: "lifecycle_inv l \<Longrightarrow> lifecycle_inv (snd (lifecycle_apply op t l))"
  using lifecycle_apply_step [of op t l "fst (lifecycle_apply op t l)" "snd (lifecycle_apply op t l)"] lifecycle_step_inv
  by auto

lemma lifecycle_run_inv: "lifecycle_inv l \<Longrightarrow> lifecycle_inv (lifecycle_run ops l)"
  by (induction ops l rule: lifecycle_run.induct) (auto simp: lifecycle_apply_inv)

end
