(* ===== verification/PatchForgeTools.thy ===== *)
theory PatchForgeTools
  imports PatchForgeLifecycle EngineerReview
begin

text \<open>
  What the PatchForge gateway exchanges and how it touches the outside (\<open>gateway.py\<close>, first part): the typed
  arguments and outputs of the eighteen tools with their canonical JSON, and the operating system, Git, the
  sandbox, the clock and the random identifiers as the operations of a world that the model takes as an
  argument. An operation of the world may answer differently at every call: its state is threaded through.
\<close>

section \<open>Arguments\<close>

datatype tool_args =
  Empty_Args
| List_Tree_Args (lt_path: ustr) (lt_depth: int) (lt_entries: int)
| Search_Args (sa_query: ustr) (sa_path: ustr) (sa_case: bool) (sa_results: int)
| Read_Args (ra_path: ustr) (ra_start: int) (ra_end: int) (ra_bytes: int)
| Symbol_Args (sy_path: ustr) (sy_symbol: string)
| Diff_Args (da_bytes: int)
| Write_Args (wa_path: ustr) (wa_expected: string) (wa_content: ustr)
| Create_Args (ca_path: ustr) (ca_content: ustr)
| Delete_Args (de_path: ustr) (de_expected: string)
| Inspect_Args (ia_call: uuid) (ia_bytes: int)
| Advance_Args (aa_target: pf_phase)
| Report_Args (sr_report: agent_report)

definition root_path_ok :: "ustr \<Rightarrow> bool" where
  "root_path_ok p \<longleftrightarrow> p = [46] \<or> path_ok p"

definition letter :: "char \<Rightarrow> bool" where
  "letter c \<longleftrightarrow> is_lower c \<or> is_upper c \<or> c = CHR ''_''"

fun symbol_pattern :: "string \<Rightarrow> bool" where
  "symbol_pattern [] = False"
| "symbol_pattern (c # cs) = (letter c \<and> list_all (\<lambda>d. letter d \<or> is_digit d) cs)"

text \<open>The field constraints of the argument models.\<close>

fun args_ok :: "tool_args \<Rightarrow> bool" where
  "args_ok Empty_Args = True"
| "args_ok (List_Tree_Args p d n) = (root_path_ok p \<and> 0 \<le> d \<and> d \<le> 20 \<and> 1 \<le> n \<and> n \<le> 5000)"
| "args_ok (Search_Args q p c n) = (bounded 1 500 q \<and> root_path_ok p \<and> 1 \<le> n \<and> n \<le> 1000)"
| "args_ok (Read_Args p a b n) = (path_ok p \<and> 1 \<le> a \<and> a \<le> 10000000 \<and> 1 \<le> b \<and> b \<le> 10000000
     \<and> 1 \<le> n \<and> n \<le> 1000000 \<and> a \<le> b)"
| "args_ok (Symbol_Args p s) = (path_ok p \<and> symbol_pattern s)"
| "args_ok (Diff_Args n) = (1 \<le> n \<and> n \<le> 10000000)"
| "args_ok (Write_Args p h c) = (path_ok p \<and> valid_sha256 h \<and> bounded 0 1000000 c)"
| "args_ok (Create_Args p c) = (path_ok p \<and> bounded 0 1000000 c)"
| "args_ok (Delete_Args p h) = (path_ok p \<and> valid_sha256 h)"
| "args_ok (Inspect_Args i n) = (1 \<le> n \<and> n \<le> 1000000)"
| "args_ok (Advance_Args p) = True"
| "args_ok (Report_Args r) = agent_report_ok r"

text \<open>\<open>_ARGUMENT_TYPES\<close>: the model that the arguments of a tool must be.\<close>

fun args_match :: "tool_name \<Rightarrow> tool_args \<Rightarrow> bool" where
  "args_match LIST_TREE a = (case a of List_Tree_Args _ _ _ \<Rightarrow> True | _ \<Rightarrow> False)"
| "args_match SEARCH_CODE a = (case a of Search_Args _ _ _ _ \<Rightarrow> True | _ \<Rightarrow> False)"
| "args_match READ_FILE_RANGE a = (case a of Read_Args _ _ _ _ \<Rightarrow> True | _ \<Rightarrow> False)"
| "args_match INSPECT_SYMBOL a = (case a of Symbol_Args _ _ \<Rightarrow> True | _ \<Rightarrow> False)"
| "args_match GIT_DIFF a = (case a of Diff_Args _ \<Rightarrow> True | _ \<Rightarrow> False)"
| "args_match WRITE_PATCH a = (case a of Write_Args _ _ _ \<Rightarrow> True | _ \<Rightarrow> False)"
| "args_match CREATE_FILE a = (case a of Create_Args _ _ \<Rightarrow> True | _ \<Rightarrow> False)"
| "args_match DELETE_FILE a = (case a of Delete_Args _ _ \<Rightarrow> True | _ \<Rightarrow> False)"
| "args_match INSPECT_TEST_FAILURE a = (case a of Inspect_Args _ _ \<Rightarrow> True | _ \<Rightarrow> False)"
| "args_match ADVANCE_PHASE a = (case a of Advance_Args _ \<Rightarrow> True | _ \<Rightarrow> False)"
| "args_match SUBMIT_REPORT a = (case a of Report_Args _ \<Rightarrow> True | _ \<Rightarrow> False)"
| "args_match _ a = (a = Empty_Args)"

section \<open>Outputs\<close>

datatype sandbox_status = SANDBOX_SUCCEEDED | SANDBOX_FAILED_RUN | SANDBOX_TIMED_OUT | SANDBOX_OUTPUT_LIMIT | SANDBOX_BROKEN

fun sandbox_status_value :: "sandbox_status \<Rightarrow> string" where
  "sandbox_status_value SANDBOX_SUCCEEDED = ''succeeded''"
| "sandbox_status_value SANDBOX_FAILED_RUN = ''failed''"
| "sandbox_status_value SANDBOX_TIMED_OUT = ''timed_out''"
| "sandbox_status_value SANDBOX_OUTPUT_LIMIT = ''output_limit''"
| "sandbox_status_value SANDBOX_BROKEN = ''sandbox_error''"

record sandbox_execution =
  sx_execution_id :: uuid
  sx_run_id :: uuid
  sx_call_id :: uuid
  sx_status :: sandbox_status
  sx_exit_code :: "int option"
  sx_stdout :: string
  sx_stderr :: string
  sx_truncated :: bool
  sx_command_sha256 :: string
  sx_policy_sha256 :: string
  sx_started_at :: timestamp
  sx_completed_at :: timestamp
  sx_error_code :: "string option"

text \<open>\<open>SandboxExecution.validate_execution\<close>.\<close>

definition sandbox_execution_ok :: "sandbox_execution \<Rightarrow> bool" where
  "sandbox_execution_ok x \<longleftrightarrow> valid_sha256 (sx_command_sha256 x) \<and> valid_sha256 (sx_policy_sha256 x)
     \<and> opt_ok (\<lambda>c. 0 \<le> c \<and> c \<le> 255) (sx_exit_code x) \<and> opt_ok valid_identifier (sx_error_code x)
     \<and> sx_started_at x \<le> sx_completed_at x
     \<and> (case sx_status x of
          SANDBOX_SUCCEEDED \<Rightarrow> sx_exit_code x = Some 0 \<and> sx_error_code x = None \<and> \<not> sx_truncated x
        | SANDBOX_FAILED_RUN \<Rightarrow> sx_exit_code x \<notin> {None, Some 0} \<and> sx_error_code x \<noteq> None
        | _ \<Rightarrow> sx_exit_code x = None \<and> sx_error_code x \<noteq> None)
     \<and> (sx_status x = SANDBOX_OUTPUT_LIMIT \<longrightarrow> sx_truncated x)"

datatype entry_kind = File_Entry nat | Directory_Entry
datatype symbol_kind = FUNCTION_SYMBOL | ASYNC_SYMBOL | CLASS_SYMBOL
datatype mutation = UPDATED | CREATED_FILE | DELETED

record workspace_diff =
  wd_base_sha :: string
  wd_patch :: string
  wd_sha256 :: string
  wd_changed_files :: "ustr list"
  wd_additions :: int
  wd_deletions :: int
  wd_binary_files :: "ustr list"

datatype tool_output =
  Tree_Output "(ustr \<times> entry_kind) list" bool nat nat
| Search_Output "(ustr \<times> nat \<times> ustr) list" bool nat
| File_Output ustr int int ustr string bool
| Symbol_Output ustr string symbol_kind nat nat ustr
| Status_Output ustr bool
| Diff_Output workspace_diff ustr bool
| Inspection_Output workspace_diff "ustr list" "ustr list" "ustr list"
| Mutation_Output ustr mutation "string option" "string option"
| Execution_Output uuid string sandbox_status "int option" ustr ustr bool
| Failure_Output string ustr
| Phase_Request_Output pf_phase pf_phase
| Report_Output string "uuid list"

section \<open>Canonical JSON\<close>

fun pf_phase_value :: "pf_phase \<Rightarrow> string" where
  "pf_phase_value PF_CREATED = ''created''" | "pf_phase_value PF_PROVISIONING = ''provisioning''"
| "pf_phase_value PF_RECON = ''recon''" | "pf_phase_value PF_HYPOTHESIS = ''hypothesis''"
| "pf_phase_value PF_REPRODUCE = ''reproduce''" | "pf_phase_value PF_IMPLEMENT = ''implement''"
| "pf_phase_value PF_TARGETED_VALIDATE = ''targeted_validate''" | "pf_phase_value PF_FULL_VALIDATE = ''full_validate''"
| "pf_phase_value PF_SELF_REVIEW = ''self_review''" | "pf_phase_value PF_FINALIZE = ''finalize''"
| "pf_phase_value PF_REPORTED = ''reported''" | "pf_phase_value PF_CLEANUP = ''cleanup''"
| "pf_phase_value PF_CLOSED = ''closed''"

fun tool_value :: "tool_name \<Rightarrow> string" where
  "tool_value LIST_TREE = ''list_tree''" | "tool_value SEARCH_CODE = ''search_code''"
| "tool_value READ_FILE_RANGE = ''read_file_range''" | "tool_value INSPECT_SYMBOL = ''inspect_symbol''"
| "tool_value GIT_STATUS = ''git_status''" | "tool_value GIT_DIFF = ''git_diff''"
| "tool_value INSPECT_DIFF = ''inspect_diff''" | "tool_value WRITE_PATCH = ''write_patch''"
| "tool_value CREATE_FILE = ''create_file''" | "tool_value DELETE_FILE = ''delete_file''"
| "tool_value RUN_TARGETED_TESTS = ''run_targeted_tests''" | "tool_value RUN_TEST_SUITE = ''run_test_suite''"
| "tool_value RUN_FORMATTER = ''run_formatter''" | "tool_value RUN_LINTER = ''run_linter''"
| "tool_value RUN_TYPECHECK = ''run_typecheck''" | "tool_value INSPECT_TEST_FAILURE = ''inspect_test_failure''"
| "tool_value ADVANCE_PHASE = ''advance_phase''" | "tool_value SUBMIT_REPORT = ''submit_report''"

definition jtexts :: "ustr list \<Rightarrow> json" where "jtexts xs = JList (map JStr xs)"
definition juuid :: "uuid \<Rightarrow> json" where "juuid i = jstr (uuid_str i)"
definition jnat :: "nat \<Rightarrow> json" where "jnat n = JInt (int n)"

definition attested :: "(string \<times> json) list \<Rightarrow> json" where
  "attested kvs = obj ((''attested_by'', jstr ''patchforge.runtime'') # kvs)"

definition agent_report_json :: "agent_report \<Rightarrow> json" where
  "agent_report_json r = obj [(''summary'', JStr (report_summary r)), (''hypothesis'', JStr (report_hypothesis r)),
     (''implementation'', JStr (report_implementation r)), (''limitations'', jtexts (report_limitations r)),
     (''evidence_references'', JList (map juuid (evidence_references r)))]"

fun args_json :: "tool_args \<Rightarrow> json" where
  "args_json Empty_Args = obj []"
| "args_json (List_Tree_Args p d n) = obj [(''path'', JStr p), (''max_depth'', JInt d), (''max_entries'', JInt n)]"
| "args_json (Search_Args q p c n) =
     obj [(''query'', JStr q), (''path'', JStr p), (''case_sensitive'', JBool c), (''max_results'', JInt n)]"
| "args_json (Read_Args p a b n) =
     obj [(''path'', JStr p), (''start_line'', JInt a), (''end_line'', JInt b), (''max_output_bytes'', JInt n)]"
| "args_json (Symbol_Args p s) = obj [(''path'', JStr p), (''symbol'', jstr s)]"
| "args_json (Diff_Args n) = obj [(''max_output_bytes'', JInt n)]"
| "args_json (Write_Args p h c) = obj [(''path'', JStr p), (''expected_sha256'', jstr h), (''content'', JStr c)]"
| "args_json (Create_Args p c) = obj [(''path'', JStr p), (''content'', JStr c)]"
| "args_json (Delete_Args p h) = obj [(''path'', JStr p), (''expected_sha256'', jstr h)]"
| "args_json (Inspect_Args i n) = obj [(''tool_call_id'', juuid i), (''max_output_bytes'', JInt n)]"
| "args_json (Advance_Args p) = obj [(''target_phase'', jstr (pf_phase_value p))]"
| "args_json (Report_Args r) = obj [(''report'', agent_report_json r)]"

definition entry_json :: "ustr \<times> entry_kind \<Rightarrow> json" where
  "entry_json e = (case e of
     (p, File_Entry n) \<Rightarrow> obj [(''path'', JStr p), (''kind'', jstr ''file''), (''size_bytes'', jnat n)]
   | (p, Directory_Entry) \<Rightarrow> obj [(''path'', JStr p), (''kind'', jstr ''directory''), (''size_bytes'', JNull)])"

definition match_json :: "ustr \<times> nat \<times> ustr \<Rightarrow> json" where
  "match_json m = (case m of (p, n, t) \<Rightarrow> obj [(''path'', JStr p), (''line'', jnat n), (''text'', JStr t)])"

definition symbol_kind_value :: "symbol_kind \<Rightarrow> string" where
  "symbol_kind_value k = (case k of FUNCTION_SYMBOL \<Rightarrow> ''function'' | ASYNC_SYMBOL \<Rightarrow> ''async_function'' | CLASS_SYMBOL \<Rightarrow> ''class'')"

definition mutation_value :: "mutation \<Rightarrow> string" where
  "mutation_value m = (case m of UPDATED \<Rightarrow> ''updated'' | CREATED_FILE \<Rightarrow> ''created'' | DELETED \<Rightarrow> ''deleted'')"

definition diff_fields :: "workspace_diff \<Rightarrow> (string \<times> json) list" where
  "diff_fields d = [(''base_sha'', jstr (wd_base_sha d)), (''diff_sha256'', jstr (wd_sha256 d)),
     (''changed_files'', jtexts (wd_changed_files d)), (''binary_files'', jtexts (wd_binary_files d)),
     (''additions'', JInt (wd_additions d)), (''deletions'', JInt (wd_deletions d))]"

fun output_json :: "tool_output \<Rightarrow> json" where
  "output_json (Tree_Output es t u s) = attested [(''kind'', jstr ''tree''), (''entries'', JList (map entry_json es)),
     (''truncated'', JBool t), (''omitted_unrepresentable'', jnat u), (''omitted_sensitive'', jnat s)]"
| "output_json (Search_Output ms t s) = attested [(''kind'', jstr ''search''), (''matches'', JList (map match_json ms)),
     (''truncated'', JBool t), (''skipped_files'', jnat s)]"
| "output_json (File_Output p a b c h t) = attested [(''kind'', jstr ''file''), (''path'', JStr p), (''start_line'', JInt a),
     (''end_line'', JInt b), (''content'', JStr c), (''content_sha256'', jstr h), (''truncated'', JBool t)]"
| "output_json (Symbol_Output p s k a b src) = attested [(''kind'', jstr ''symbol''), (''path'', JStr p), (''symbol'', jstr s),
     (''symbol_kind'', jstr (symbol_kind_value k)), (''start_line'', jnat a), (''end_line'', jnat b), (''source'', JStr src)]"
| "output_json (Status_Output t c) = attested [(''kind'', jstr ''git_status''), (''porcelain'', JStr t), (''clean'', JBool c)]"
| "output_json (Diff_Output d p t) = attested ([(''kind'', jstr ''git_diff''), (''patch'', JStr p), (''truncated'', JBool t)]
     @ diff_fields d)"
| "output_json (Inspection_Output d ps ss ts) = attested ([(''kind'', jstr ''diff_inspection''),
     (''protected_path_violations'', jtexts ps), (''scope_violations'', jtexts ss), (''test_files_changed'', jtexts ts)] @ diff_fields d)"
| "output_json (Mutation_Output p m b a) = attested [(''kind'', jstr ''mutation''), (''path'', JStr p),
     (''operation'', jstr (mutation_value m)), (''before_sha256'', jopt jstr b), (''after_sha256'', jopt jstr a)]"
| "output_json (Execution_Output i n s x out err t) = attested [(''kind'', jstr ''execution''), (''execution_id'', juuid i),
     (''command_name'', jstr n), (''status'', jstr (sandbox_status_value s)), (''exit_code'', jopt JInt x), (''stdout'', JStr out),
     (''stderr'', JStr err), (''output_truncated'', JBool t)]"
| "output_json (Failure_Output c d) = attested [(''kind'', jstr ''failure''), (''code'', jstr c), (''detail'', JStr d)]"
| "output_json (Phase_Request_Output p q) = attested [(''kind'', jstr ''phase_request''),
     (''current_phase'', jstr (pf_phase_value p)), (''target_phase'', jstr (pf_phase_value q))]"
| "output_json (Report_Output h es) = attested [(''kind'', jstr ''report''), (''report_sha256'', jstr h),
     (''evidence_references'', JList (map juuid es))]"

fun output_truncated :: "tool_output \<Rightarrow> bool" where
  "output_truncated (Execution_Output i n s x out err t) = t"
| "output_truncated (Tree_Output es t u s) = t"
| "output_truncated (Search_Output ms t s) = t"
| "output_truncated (File_Output p a b c h t) = t"
| "output_truncated (Diff_Output d p t) = t"
| "output_truncated _ = False"

text \<open>The operator's commands and sandbox policy, whose digests bind an execution to the profile.\<close>

definition command_json :: "sandbox_command \<Rightarrow> json" where
  "command_json c = obj [(''executable'', jstr (cmd_executable c)), (''arguments'', jtexts (cmd_arguments c)),
     (''working_directory'', JStr (cmd_directory c)), (''timeout_seconds'', JInt (cmd_timeout_seconds c)),
     (''max_output_bytes'', JInt (cmd_output_bytes c))]"

definition sandbox_policy_json :: "sandbox_policy \<Rightarrow> json" where
  "sandbox_policy_json p = obj [(''image'', JStr (sp_image p)), (''network_disabled'', JBool True), (''secrets_allowed'', JBool False),
     (''run_as_user'', JStr (sp_user p)), (''read_only_root'', JBool True), (''git_directory_mounted'', JBool False),
     (''cpu_limit_millis'', JInt (sp_cpu_millis p)), (''memory_limit_mb'', JInt (sp_memory_mb p)),
     (''pids_limit'', JInt (sp_pids p)), (''default_timeout_seconds'', JInt (sp_timeout_seconds p)),
     (''max_output_bytes'', JInt (sp_output_bytes p))]"

definition profile_json :: "repository_profile \<Rightarrow> json" where
  "profile_json p = obj [(''schema_version'', JInt 1), (''profile_id'', jstr (profile_id p)),
     (''profile_version'', JInt (profile_version p)), (''owned_by'', jstr ''operator''),
     (''repository_url'', jstr (url_text (profile_url p))), (''sandbox'', sandbox_policy_json (profile_sandbox p)),
     (''commands'', obj (map (\<lambda>(k, c). (check_kind_value k, command_json c)) (profile_commands p))),
     (''protected_paths'', jtexts (protected_paths p)), (''test_path_prefixes'', jtexts (test_path_prefixes p))]"

definition engineering_task_json :: "(timestamp \<Rightarrow> string) \<Rightarrow> engineering_task \<Rightarrow> json" where
  "engineering_task_json date t = obj [(''schema_version'', JInt 1), (''task_id'', juuid (et_task_id t)),
     (''atlas_job_id'', juuid (et_atlas_job_id t)), (''title'', JStr (et_title t)), (''instructions'', JStr (et_instructions t)),
     (''acceptance_criteria'', jtexts (et_criteria t)), (''constraints'', jtexts (et_constraints t)),
     (''source'', source_json (et_source t)), (''repository_profile_id'', jstr (et_profile_id t)),
     (''repository_profile_sha256'', jstr (et_profile_sha256 t)), (''scope_paths'', jtexts (scope_paths t)),
     (''created_at'', jstr (date (et_created_at t)))]"

end
