(* ===== verification/PatchForgeWorktree.thy ===== *)
theory PatchForgeWorktree
  imports PatchForgeTools
begin

text \<open>
  The tools that read and change the worktree (\<open>gateway.py\<close>, from \<open>_list_tree\<close> to \<open>_relative\<close>), over the
  operations of a world that stands for the file system, Git, the sandbox, the clock and the random identifiers.
\<close>

section \<open>The world\<close>

type_synonym fs_path = "ustr list"

record workspace_record =
  wr_workspace_id :: uuid
  wr_run_id :: uuid
  wr_task_id :: uuid
  wr_source_sha :: string
  wr_branch :: ustr
  wr_active :: bool
  wr_created_at :: timestamp
  wr_expires_at :: timestamp

record workspace_handle =
  wh_record :: workspace_record
  wh_root :: fs_path
  wh_worktree :: fs_path
  wh_git_directory :: fs_path

text \<open>
  What a tool raises: a GatewayError with its text, a SandboxError, a WorkspaceError, an OSError or UnicodeError,
  or any other exception, by its name.
\<close>

datatype tool_exn = Denied ustr | Sandbox_Exn ustr | Workspace_Exn ustr | Io_Exn ustr | Other_Exn string

datatype propose_exn = No_Changes | Propose_Exn tool_exn

record proposed_commit =
  prop_commit_sha :: string
  prop_committed_at :: timestamp
  prop_diff :: workspace_diff

record ast_node =
  node_name :: ustr
  node_kind :: symbol_kind
  node_line :: nat
  node_end_line :: "nat option"

record 'w pf_env = env +
  pf_casefold :: "ustr \<Rightarrow> ustr"
  pf_strip :: "ustr \<Rightarrow> ustr"
  pf_encode :: "ustr \<Rightarrow> string"
  pf_decode :: "string \<Rightarrow> ustr option"
  pf_decode_replace :: "string \<Rightarrow> ustr"
  pf_decode_ignore :: "string \<Rightarrow> ustr"
  pf_parse :: "ustr \<Rightarrow> ast_node list option"
  pf_now :: "'w \<Rightarrow> timestamp \<times> 'w"
  pf_id :: "'w \<Rightarrow> uuid \<times> 'w"
  pf_verify :: "workspace_handle \<Rightarrow> 'w \<Rightarrow> (tool_exn + workspace_handle) \<times> 'w"
  pf_status :: "workspace_handle \<Rightarrow> 'w \<Rightarrow> (tool_exn + string) \<times> 'w"
  pf_diff :: "workspace_handle \<Rightarrow> 'w \<Rightarrow> (tool_exn + workspace_diff) \<times> 'w"
  pf_ignored :: "workspace_handle \<Rightarrow> ustr \<Rightarrow> 'w \<Rightarrow> (tool_exn + bool) \<times> 'w"
  pf_propose :: "workspace_handle \<Rightarrow> ustr \<Rightarrow> timestamp \<Rightarrow> 'w \<Rightarrow> (propose_exn + proposed_commit) \<times> 'w"
  pf_renew :: "workspace_handle \<Rightarrow> int \<Rightarrow> 'w \<Rightarrow> (tool_exn + workspace_handle) \<times> 'w"
  pf_cleanup :: "uuid \<Rightarrow> 'w \<Rightarrow> (tool_exn + bool) \<times> 'w"
  pf_sandbox :: "uuid \<Rightarrow> uuid \<Rightarrow> fs_path \<Rightarrow> sandbox_command \<Rightarrow> sandbox_policy \<Rightarrow> 'w \<Rightarrow> (tool_exn + sandbox_execution) \<times> 'w"
  fs_resolve :: "bool \<Rightarrow> fs_path \<Rightarrow> 'w \<Rightarrow> tool_exn + fs_path"
  fs_exists :: "fs_path \<Rightarrow> 'w \<Rightarrow> bool"
  fs_link :: "fs_path \<Rightarrow> 'w \<Rightarrow> bool"
  fs_file :: "fs_path \<Rightarrow> 'w \<Rightarrow> bool"
  fs_folder :: "fs_path \<Rightarrow> 'w \<Rightarrow> bool"
  fs_size :: "fs_path \<Rightarrow> 'w \<Rightarrow> tool_exn + nat"
  fs_lstat :: "fs_path \<Rightarrow> 'w \<Rightarrow> tool_exn + bool \<times> nat"
  fs_read :: "fs_path \<Rightarrow> 'w \<Rightarrow> tool_exn + string"
  fs_read_text :: "fs_path \<Rightarrow> 'w \<Rightarrow> tool_exn + ustr"
  fs_children :: "fs_path \<Rightarrow> 'w \<Rightarrow> tool_exn + ustr list"
  fs_rglob :: "fs_path \<Rightarrow> 'w \<Rightarrow> tool_exn + fs_path list"
  fs_write :: "fs_path \<Rightarrow> string \<Rightarrow> 'w \<Rightarrow> (tool_exn + unit) \<times> 'w"
  fs_copy_mode :: "fs_path \<Rightarrow> fs_path \<Rightarrow> 'w \<Rightarrow> (tool_exn + unit) \<times> 'w"
  fs_replace :: "fs_path \<Rightarrow> fs_path \<Rightarrow> 'w \<Rightarrow> (tool_exn + unit) \<times> 'w"
  fs_unlink :: "fs_path \<Rightarrow> 'w \<Rightarrow> (tool_exn + unit) \<times> 'w"

text \<open>An action on the world: it may raise, and what it did to the world before stays done.\<close>

type_synonym ('w, 'a) act = "'w \<Rightarrow> (tool_exn + 'a) \<times> 'w"

definition act_ret :: "'a \<Rightarrow> ('w, 'a) act" where "act_ret a = (\<lambda>w. (Inr a, w))"
definition act_raise :: "tool_exn \<Rightarrow> ('w, 'a) act" where "act_raise e = (\<lambda>w. (Inl e, w))"
definition act_read :: "('w \<Rightarrow> tool_exn + 'a) \<Rightarrow> ('w, 'a) act" where "act_read f = (\<lambda>w. (f w, w))"
definition act_ask :: "('w \<Rightarrow> 'a) \<Rightarrow> ('w, 'a) act" where "act_ask f = (\<lambda>w. (Inr (f w), w))"

definition act_bind :: "('w, 'a) act \<Rightarrow> ('a \<Rightarrow> ('w, 'b) act) \<Rightarrow> ('w, 'b) act" where
  "act_bind m f = (\<lambda>w. case m w of (Inl e, w') \<Rightarrow> (Inl e, w') | (Inr a, w') \<Rightarrow> f a w')"

definition act_guard :: "bool \<Rightarrow> string \<Rightarrow> ('w, unit) act" where
  "act_guard bad message = (if bad then act_raise (Denied (lit message)) else act_ret ())"

text \<open>\<open>finally\<close>: the second action runs in any case; an exception of its own replaces the first outcome.\<close>

definition act_finally :: "('w, 'a) act \<Rightarrow> ('w, unit) act \<Rightarrow> ('w, 'a) act" where
  "act_finally m c = (\<lambda>w. case m w of (x, w') \<Rightarrow> (case c w' of (Inl e, w'') \<Rightarrow> (Inl e, w'') | (Inr _, w'') \<Rightarrow> (x, w'')))"

section \<open>Paths\<close>

definition test_infrastructure_names :: "ustr list" where
  "test_infrastructure_names = map lit [''conftest.py'', ''pytest.ini'', ''tox.ini'', ''setup.cfg'', ''sitecustomize.py'',
     ''usercustomize.py'']"

definition path_in_scope :: "ustr \<Rightarrow> ustr list \<Rightarrow> bool" where
  "path_in_scope path scopes \<longleftrightarrow> scopes = [] \<or> path_matches path scopes"

definition last_component :: "ustr \<Rightarrow> ustr" where
  "last_component path = last (split_on 47 path)"

definition is_test_path :: "repository_profile \<Rightarrow> ustr \<Rightarrow> bool" where
  "is_test_path p path \<longleftrightarrow> path_matches path (test_path_prefixes p) \<or> last_component path \<in> set test_infrastructure_names
     \<or> path_suffix (last_component path) = lit ''.pth''"

definition git_control_files :: "ustr list" where
  "git_control_files = map lit [''.gitignore'', ''.gitattributes'']"

text \<open>The components below a root, as far as the length given.\<close>

definition prefix_paths :: "fs_path \<Rightarrow> fs_path \<Rightarrow> fs_path list" where
  "prefix_paths root parts = map (\<lambda>n. root @ take (Suc n) parts) [0 ..< length parts]"

definition parts_of :: "ustr \<Rightarrow> ustr list" where
  "parts_of relative = (if relative = [46] then [] else split_on 47 relative)"

definition resolve_path :: "'w pf_env \<Rightarrow> workspace_handle \<Rightarrow> bool \<Rightarrow> ustr \<Rightarrow> ('w, fs_path) act" where
  "resolve_path E h must_exist relative = (\<lambda>w.
     case fs_resolve E True (wh_worktree h) w of
       Inl e \<Rightarrow> (Inl e, w)
     | Inr root \<Rightarrow>
         if list_ex (\<lambda>current. fs_exists E current w \<and> fs_link E current w) (prefix_paths root (parts_of relative))
           then (Inl (Denied (lit ''Symbolic links are not accessible through the gateway'')), w)
         else (case fs_resolve E must_exist (root @ parts_of relative) w of
             Inl (Io_Exn _) \<Rightarrow> (Inl (Denied (lit ''Repository path does not exist'')), w)
           | Inl e \<Rightarrow> (Inl e, w)
           | Inr resolved \<Rightarrow>
               if take (length root) resolved \<noteq> root
                 then (Inl (Denied (lit ''Repository path escaped the workspace'')), w)
               else (Inr resolved, w)))"

text \<open>\<open>_relative\<close>: \<open>relative_to\<close> the worktree as it is named, a ValueError for any other path.\<close>

definition relative_path :: "workspace_handle \<Rightarrow> fs_path \<Rightarrow> tool_exn + ustr" where
  "relative_path h path =
     (let n = length (wh_worktree h) in
      if take n path \<noteq> wh_worktree h then Inl (Other_Exn ''ValueError'')
      else Inr (if drop n path = [] then [46] else join_with [47] (drop n path)))"

definition sensitive :: "'w pf_env \<Rightarrow> ustr \<Rightarrow> bool" where
  "sensitive E = is_sensitive_path (pf_casefold E)"

section \<open>Reading\<close>

record tree_state =
  ts_entries :: "(ustr \<times> entry_kind) list"
  ts_omitted :: nat
  ts_unrepresentable :: nat
  ts_truncated :: bool

text \<open>\<open>visit\<close> of one directory; the recursion into a directory is the argument.\<close>

fun tree_children ::
  "'w pf_env \<Rightarrow> workspace_handle \<Rightarrow> int \<Rightarrow> 'w \<Rightarrow> (fs_path \<Rightarrow> tree_state \<Rightarrow> tool_exn + tree_state)
     \<Rightarrow> fs_path \<Rightarrow> ustr list \<Rightarrow> tree_state \<Rightarrow> tool_exn + tree_state" where
  "tree_children E h limit w deeper dir [] s = Inr s"
| "tree_children E h limit w deeper dir (name # names) s =
     (if int (length (ts_entries s)) \<ge> limit then Inr (s\<lparr>ts_truncated := True\<rparr>)
      else rbind (relative_path h (dir @ [name])) (\<lambda>relative.
        if sensitive E relative then tree_children E h limit w deeper dir names (s\<lparr>ts_omitted := ts_omitted s + 1\<rparr>)
        else if \<not> path_ok relative
          then tree_children E h limit w deeper dir names (s\<lparr>ts_unrepresentable := ts_unrepresentable s + 1\<rparr>)
        else rbind (fs_lstat E (dir @ [name]) w) (\<lambda>(link, size).
          if link then tree_children E h limit w deeper dir names s
          else if fs_folder E (dir @ [name]) w
            then rbind (deeper (dir @ [name]) (s\<lparr>ts_entries := ts_entries s @ [(relative, Directory_Entry)]\<rparr>))
                   (tree_children E h limit w deeper dir names)
          else if fs_file E (dir @ [name]) w
            then tree_children E h limit w deeper dir names (s\<lparr>ts_entries := ts_entries s @ [(relative, File_Entry size)]\<rparr>)
          else tree_children E h limit w deeper dir names s)))"

primrec tree_visit ::
  "'w pf_env \<Rightarrow> workspace_handle \<Rightarrow> int \<Rightarrow> 'w \<Rightarrow> nat \<Rightarrow> fs_path \<Rightarrow> tree_state \<Rightarrow> tool_exn + tree_state" where
  "tree_visit E h limit w 0 dir s = rbind (fs_children E dir w) (\<lambda>names.
     tree_children E h limit w (\<lambda>d s'. Inr s') dir (sort names) s)"
| "tree_visit E h limit w (Suc depth) dir s = rbind (fs_children E dir w) (\<lambda>names.
     tree_children E h limit w (tree_visit E h limit w depth) dir (sort names) s)"

definition list_tree :: "'w pf_env \<Rightarrow> workspace_handle \<Rightarrow> ustr \<Rightarrow> int \<Rightarrow> int \<Rightarrow> ('w, tool_output) act" where
  "list_tree E h path depth limit =
     act_bind (resolve_path E h True path) (\<lambda>root.
     act_bind (act_ask (fs_folder E root)) (\<lambda>folder.
     act_bind (act_guard (\<not> folder) ''Tree path is not a directory'') (\<lambda>_.
     act_bind (act_read (\<lambda>w. tree_visit E h limit w (nat depth) root
        \<lparr>ts_entries = [], ts_omitted = 0, ts_unrepresentable = 0, ts_truncated = False\<rparr>)) (\<lambda>s.
     act_ret (Tree_Output (ts_entries s) (ts_truncated s) (ts_unrepresentable s) (ts_omitted s))))))"

definition text_in :: "ustr \<Rightarrow> ustr \<Rightarrow> bool" where
  "text_in q s \<longleftrightarrow> list_ex (\<lambda>i. take (length q) (drop i s) = q) [0 ..< Suc (length s)]"

text \<open>The matching lines of one file; the second part says that the limit was reached.\<close>

fun search_lines :: "int \<Rightarrow> (ustr \<Rightarrow> bool) \<Rightarrow> ustr \<Rightarrow> nat \<Rightarrow> ustr list \<Rightarrow> (ustr \<times> nat \<times> ustr) list \<Rightarrow> (ustr \<times> nat \<times> ustr) list \<times> bool" where
  "search_lines limit hit path n [] ms = (ms, False)"
| "search_lines limit hit path n (line # ls) ms =
     (if hit line
      then (let ms' = ms @ [(path, n, take 2000 line)] in
            if int (length ms') \<ge> limit then (ms', True) else search_lines limit hit path (n + 1) ls ms')
      else search_lines limit hit path (n + 1) ls ms)"

text \<open>The loop over the candidates: matches, whether truncated, skipped files.\<close>

fun search_files ::
  "'w pf_env \<Rightarrow> workspace_handle \<Rightarrow> int \<Rightarrow> (ustr \<Rightarrow> bool) \<Rightarrow> 'w \<Rightarrow> fs_path list \<Rightarrow> (ustr \<times> nat \<times> ustr) list \<times> bool \<times> nat
     \<Rightarrow> tool_exn + (ustr \<times> nat \<times> ustr) list \<times> bool \<times> nat" where
  "search_files E h limit hit w [] acc = Inr acc"
| "search_files E h limit hit w (c # cs) (ms, truncated, skipped) =
     (if int (length ms) \<ge> limit then Inr (ms, True, skipped)
      else if \<not> fs_file E c w \<or> fs_link E c w then search_files E h limit hit w cs (ms, truncated, skipped)
      else rbind (relative_path h c) (\<lambda>relative.
        if sensitive E relative \<or> \<not> path_ok relative then search_files E h limit hit w cs (ms, truncated, skipped + 1)
        else rbind (fs_size E c w) (\<lambda>size.
          if size > 1000000 then search_files E h limit hit w cs (ms, truncated, skipped + 1)
          else (case fs_read_text E c w of
              Inl (Io_Exn _) \<Rightarrow> search_files E h limit hit w cs (ms, truncated, skipped + 1)
            | Inl e \<Rightarrow> Inl e
            | Inr text \<Rightarrow>
                (case search_lines limit hit relative 1 (splitlines text) ms of
                   (ms', full) \<Rightarrow> search_files E h limit hit w cs (ms', truncated \<or> full, skipped))))))"

definition search_code :: "'w pf_env \<Rightarrow> workspace_handle \<Rightarrow> ustr \<Rightarrow> ustr \<Rightarrow> bool \<Rightarrow> int \<Rightarrow> ('w, tool_output) act" where
  "search_code E h query path case_sensitive limit =
     act_bind (resolve_path E h True path) (\<lambda>root.
     act_bind (act_read (\<lambda>w. if fs_file E root w then Inr [root] else fs_rglob E root w)) (\<lambda>candidates.
     let hit = (\<lambda>line. if case_sensitive then text_in query line else text_in (pf_casefold E query) (pf_casefold E line)) in
     act_bind (act_read (\<lambda>w. search_files E h limit hit w candidates ([], False, 0))) (\<lambda>(ms, truncated, skipped).
     act_ret (Search_Output ms truncated skipped))))"

definition readable_file :: "'w pf_env \<Rightarrow> workspace_handle \<Rightarrow> ustr \<Rightarrow> ('w, fs_path) act" where
  "readable_file E h path =
     act_bind (act_guard (sensitive E path) ''Sensitive paths cannot be read'') (\<lambda>_.
     act_bind (resolve_path E h True path) (\<lambda>resolved.
     act_bind (act_ask (fs_file E resolved)) (\<lambda>regular.
     act_bind (act_guard (\<not> regular) ''Read target is not a regular file'') (\<lambda>_.
     act_bind (act_read (fs_size E resolved)) (\<lambda>size.
     act_bind (act_guard (size > 1000000) ''Read target exceeds the file-size limit'') (\<lambda>_.
     act_ret resolved))))))"

text \<open>\<open>splitlines(keepends=True)\<close>: each line with the boundary that ends it.\<close>

fun keep_lines :: "ustr \<Rightarrow> ustr \<Rightarrow> ustr list" where
  "keep_lines cur [] = (if cur = [] then [] else [rev cur])"
| "keep_lines cur (c # cs) =
     (if c = 13 \<and> cs \<noteq> [] \<and> hd cs = 10 then (rev cur @ [13, 10]) # keep_lines [] (tl cs)
      else if line_boundary c then (rev cur @ [c]) # keep_lines [] cs
      else keep_lines (c # cur) cs)"

definition read_file_range :: "'w pf_env \<Rightarrow> workspace_handle \<Rightarrow> ustr \<Rightarrow> int \<Rightarrow> int \<Rightarrow> int \<Rightarrow> ('w, tool_output) act" where
  "read_file_range E h path first final limit =
     act_bind (readable_file E h path) (\<lambda>resolved.
     act_bind (act_read (fs_read E resolved)) (\<lambda>raw.
     case pf_decode E raw of
       None \<Rightarrow> act_raise (Denied (lit ''File is not UTF-8 text''))
     | Some text \<Rightarrow>
         let selected = drop (nat (first - 1)) (take (nat final) (keep_lines [] text));
             content = concat selected; encoded = pf_encode E content;
             truncated = int (length encoded) > limit;
             shown = (if truncated then pf_decode_ignore E (take (nat limit) encoded) else content) in
         act_ret (File_Output path first (first + int (length selected) - 1) shown (env_sha256 E raw) truncated)))"

definition inspect_symbol :: "'w pf_env \<Rightarrow> workspace_handle \<Rightarrow> ustr \<Rightarrow> string \<Rightarrow> ('w, tool_output) act" where
  "inspect_symbol E h path symbol =
     act_bind (readable_file E h path) (\<lambda>resolved.
     act_bind (act_guard (path_suffix (last resolved) \<noteq> lit ''.py'') ''Symbol inspection supports Python files only'') (\<lambda>_.
     act_bind (act_read (fs_read_text E resolved)) (\<lambda>source.
     case pf_parse E source of
       None \<Rightarrow> act_raise (Denied (lit ''Python source cannot be parsed''))
     | Some nodes \<Rightarrow>
         (case find (\<lambda>x. node_name x = lit symbol) nodes of
            None \<Rightarrow> act_raise (Denied (lit ''Symbol was not found''))
          | Some x \<Rightarrow>
              let end_line = (case node_end_line x of Some n \<Rightarrow> (if n = 0 then node_line x else n) | None \<Rightarrow> node_line x) in
              act_ret (Symbol_Output path symbol (node_kind x) (node_line x) end_line
                (concat (drop (node_line x - 1) (take end_line (keep_lines [] source)))))))))"

definition git_status :: "'w pf_env \<Rightarrow> workspace_handle \<Rightarrow> ('w, tool_output) act" where
  "git_status E h = act_bind (pf_status E h) (\<lambda>raw.
     case pf_decode E raw of
       None \<Rightarrow> act_raise (Io_Exn (lit ''UnicodeDecodeError''))
     | Some text \<Rightarrow> act_ret (Status_Output (map (\<lambda>c. if c = 0 then 10 else c) text) (raw = [])))"

text \<open>The fields of a diff that \<open>DiffOutput\<close> and \<open>DiffInspectionOutput\<close> validate: every path is a \<open>RepositoryPath\<close>,
  stored normalised, the digest is a \<open>Sha256\<close> and the counts are not negative. Git can report a path that is none
  (a backslash is normalised, a colon in the first component is refused); the \<open>ValidationError\<close> is not caught by
  \<open>invoke\<close>.\<close>

definition path_field :: "ustr \<Rightarrow> string + ustr" where
  "path_field p = (if bounded 1 500 p then repository_path p else Inl ''Path length'')"

definition diff_paths :: "ustr list \<Rightarrow> ('w, ustr list) act" where
  "diff_paths ps = (case map_results path_field ps of
     Inl _ \<Rightarrow> act_raise (Other_Exn ''ValidationError'') | Inr qs \<Rightarrow> act_ret qs)"

definition checked_diff :: "workspace_diff \<Rightarrow> ('w, workspace_diff) act" where
  "checked_diff d =
     (if valid_sha256 (wd_sha256 d) \<and> 0 \<le> wd_additions d \<and> 0 \<le> wd_deletions d
      then act_bind (diff_paths (wd_changed_files d)) (\<lambda>changed.
           act_bind (diff_paths (wd_binary_files d)) (\<lambda>binary.
           act_ret (d\<lparr>wd_changed_files := changed, wd_binary_files := binary\<rparr>)))
      else act_raise (Other_Exn ''ValidationError''))"

definition git_diff :: "'w pf_env \<Rightarrow> workspace_handle \<Rightarrow> int \<Rightarrow> ('w, tool_output) act" where
  "git_diff E h limit = act_bind (pf_diff E h) (\<lambda>d.
     let patch = take (nat limit) (wd_patch d) in
     act_bind (checked_diff d) (\<lambda>checked.
     act_ret (Diff_Output checked (pf_decode_replace E patch) (length patch \<noteq> length (wd_patch d)))))"

definition inspect_diff :: "'w pf_env \<Rightarrow> repository_profile \<Rightarrow> engineering_task \<Rightarrow> workspace_handle \<Rightarrow> ('w, tool_output) act" where
  "inspect_diff E profile task h = act_bind (pf_diff E h) (\<lambda>d.
     act_bind (checked_diff d) (\<lambda>checked.
     act_bind (diff_paths (filter (\<lambda>p. path_matches p (protected_paths profile)) (wd_changed_files d))) (\<lambda>protected.
     act_bind (diff_paths (filter (\<lambda>p. \<not> path_in_scope p (scope_paths task)) (wd_changed_files d))) (\<lambda>outside.
     act_bind (diff_paths (filter (is_test_path profile) (wd_changed_files d))) (\<lambda>tests.
     act_ret (Inspection_Output checked protected outside tests))))))"

section \<open>Writing\<close>

definition authorize_write ::
  "'w pf_env \<Rightarrow> repository_profile \<Rightarrow> engineering_task \<Rightarrow> pf_policy \<Rightarrow> workspace_handle \<Rightarrow> ustr \<Rightarrow> ('w, unit) act" where
  "authorize_write E profile task policy h path =
     act_bind (act_guard (sensitive E path) ''Sensitive paths cannot be modified'') (\<lambda>_.
     act_bind (act_guard (last_component path \<in> set git_control_files) ''Git ignore and attribute files cannot be modified'') (\<lambda>_.
     act_bind (act_guard (path_matches path (protected_paths profile)) ''Protected paths cannot be modified'') (\<lambda>_.
     act_bind (act_guard (\<not> path_in_scope path (scope_paths task)) ''Path is outside the engineering task scope'') (\<lambda>_.
     act_bind (act_guard (\<not> allow_test_file_changes policy \<and> is_test_path profile path) ''Test-file changes are disabled by policy'') (\<lambda>_.
     act_bind (pf_ignored E h path) (\<lambda>ignored.
     act_guard ignored ''Git-ignored paths cannot be modified because diffs would hide them''))))))"

definition temporary_name :: "uuid \<Rightarrow> ustr" where
  "temporary_name i = lit (''.nexus-write-'' @ filter (\<lambda>c. c \<noteq> CHR ''-'') (uuid_str i) @ ''.tmp'')"

text \<open>\<open>_atomic_write\<close>: a temporary file beside the target replaces it, and never stays behind.\<close>

definition atomic_write :: "'w pf_env \<Rightarrow> fs_path \<Rightarrow> string \<Rightarrow> bool \<Rightarrow> ('w, unit) act" where
  "atomic_write E path content preserve_mode =
     (\<lambda>w. case pf_id E w of (i, w') \<Rightarrow>
       let temporary = butlast path @ [temporary_name i] in
       act_finally
         (act_bind (fs_write E temporary content) (\<lambda>_.
          act_bind (if preserve_mode then fs_copy_mode E path temporary else act_ret ()) (\<lambda>_.
          fs_replace E temporary path)))
         (\<lambda>v. if fs_exists E temporary v then fs_unlink E temporary v else (Inr (), v)) w')"

definition write_patch ::
  "'w pf_env \<Rightarrow> repository_profile \<Rightarrow> engineering_task \<Rightarrow> pf_policy \<Rightarrow> workspace_handle \<Rightarrow> ustr \<Rightarrow> string \<Rightarrow> ustr \<Rightarrow> ('w, tool_output) act" where
  "write_patch E profile task policy h path expected content =
     act_bind (authorize_write E profile task policy h path) (\<lambda>_.
     act_bind (resolve_path E h True path) (\<lambda>target.
     act_bind (act_ask (fs_file E target)) (\<lambda>regular.
     act_bind (act_guard (\<not> regular) ''Patch target is not a regular file'') (\<lambda>_.
     act_bind (act_read (fs_read E target)) (\<lambda>old.
     act_bind (act_guard (env_sha256 E old \<noteq> expected) ''Patch target hash does not match'') (\<lambda>_.
     act_bind (atomic_write E target (pf_encode E content) True) (\<lambda>_.
     act_ret (Mutation_Output path UPDATED (Some (env_sha256 E old)) (Some (env_sha256 E (pf_encode E content)))))))))))"

definition create_file ::
  "'w pf_env \<Rightarrow> repository_profile \<Rightarrow> engineering_task \<Rightarrow> pf_policy \<Rightarrow> workspace_handle \<Rightarrow> ustr \<Rightarrow> ustr \<Rightarrow> ('w, tool_output) act" where
  "create_file E profile task policy h path content =
     act_bind (authorize_write E profile task policy h path) (\<lambda>_.
     act_bind (resolve_path E h False path) (\<lambda>target.
     act_bind (act_ask (fs_exists E target)) (\<lambda>present.
     act_bind (act_guard present ''Create target already exists'') (\<lambda>_.
     act_bind (act_ask (fs_folder E (butlast target))) (\<lambda>parent.
     act_bind (act_guard (\<not> parent) ''Create target parent does not exist'') (\<lambda>_.
     act_bind (atomic_write E target (pf_encode E content) False) (\<lambda>_.
     act_ret (Mutation_Output path CREATED_FILE None (Some (env_sha256 E (pf_encode E content)))))))))))"

definition delete_file ::
  "'w pf_env \<Rightarrow> repository_profile \<Rightarrow> engineering_task \<Rightarrow> pf_policy \<Rightarrow> workspace_handle \<Rightarrow> ustr \<Rightarrow> string \<Rightarrow> ('w, tool_output) act" where
  "delete_file E profile task policy h path expected =
     act_bind (authorize_write E profile task policy h path) (\<lambda>_.
     act_bind (resolve_path E h True path) (\<lambda>target.
     act_bind (act_ask (fs_file E target)) (\<lambda>regular.
     act_bind (act_guard (\<not> regular) ''Delete target is not a regular file'') (\<lambda>_.
     act_bind (act_read (fs_read E target)) (\<lambda>old.
     act_bind (act_guard (env_sha256 E old \<noteq> expected) ''Delete target hash does not match'') (\<lambda>_.
     act_bind (fs_unlink E target) (\<lambda>_.
     act_ret (Mutation_Output path DELETED (Some (env_sha256 E old)) None))))))))"

end
