(* ===== verification/PatchForgeGateway.thy ===== *)
theory PatchForgeGateway
  imports PatchForgeWorktree
begin

text \<open>
  The tool gateway of PatchForge (\<open>gateway.py\<close>, class \<open>ToolGateway\<close>): its binding to one run, the budgets that are
  checked before a call, the authorisation of a tool in a phase, the dispatch and the record that every call
  leaves. Durations are whole microseconds.
\<close>

section \<open>Tools and phases\<close>

definition read_phases :: "pf_phase set" where
  "read_phases = {PF_RECON, PF_HYPOTHESIS, PF_REPRODUCE, PF_IMPLEMENT, PF_TARGETED_VALIDATE, PF_FULL_VALIDATE, PF_SELF_REVIEW}"

fun phases_by_tool :: "tool_name \<Rightarrow> pf_phase set" where
  "phases_by_tool LIST_TREE = read_phases"
| "phases_by_tool SEARCH_CODE = read_phases"
| "phases_by_tool READ_FILE_RANGE = read_phases"
| "phases_by_tool INSPECT_SYMBOL = read_phases"
| "phases_by_tool GIT_STATUS = insert PF_FINALIZE read_phases"
| "phases_by_tool GIT_DIFF = insert PF_FINALIZE read_phases"
| "phases_by_tool INSPECT_DIFF = insert PF_FINALIZE read_phases"
| "phases_by_tool WRITE_PATCH = {PF_IMPLEMENT}"
| "phases_by_tool CREATE_FILE = {PF_IMPLEMENT}"
| "phases_by_tool DELETE_FILE = {PF_IMPLEMENT}"
| "phases_by_tool RUN_TARGETED_TESTS = {PF_REPRODUCE, PF_TARGETED_VALIDATE}"
| "phases_by_tool RUN_TEST_SUITE = {PF_FULL_VALIDATE}"
| "phases_by_tool RUN_FORMATTER = {PF_TARGETED_VALIDATE, PF_FULL_VALIDATE}"
| "phases_by_tool RUN_LINTER = {PF_TARGETED_VALIDATE, PF_FULL_VALIDATE}"
| "phases_by_tool RUN_TYPECHECK = {PF_TARGETED_VALIDATE, PF_FULL_VALIDATE}"
| "phases_by_tool INSPECT_TEST_FAILURE = {PF_REPRODUCE, PF_TARGETED_VALIDATE, PF_FULL_VALIDATE}"
| "phases_by_tool ADVANCE_PHASE = read_phases"
| "phases_by_tool SUBMIT_REPORT = {PF_FINALIZE}"

definition requires_workspace :: "tool_name \<Rightarrow> bool" where
  "requires_workspace tool \<longleftrightarrow> tool \<notin> {INSPECT_TEST_FAILURE, ADVANCE_PHASE, SUBMIT_REPORT}"

fun command_by_tool :: "tool_name \<Rightarrow> check_kind option" where
  "command_by_tool RUN_TARGETED_TESTS = Some TARGETED_TESTS"
| "command_by_tool RUN_TEST_SUITE = Some FULL_TEST_SUITE"
| "command_by_tool RUN_FORMATTER = Some FORMATTER"
| "command_by_tool RUN_LINTER = Some LINTER"
| "command_by_tool RUN_TYPECHECK = Some TYPECHECK"
| "command_by_tool _ = None"

definition command_purpose_for :: "tool_name \<Rightarrow> pf_phase \<Rightarrow> check_kind option" where
  "command_purpose_for tool phase =
     (if tool = RUN_TARGETED_TESTS \<and> phase = PF_REPRODUCE then Some REPRODUCTION else command_by_tool tool)"

definition budget_failure_codes :: "string set" where
  "budget_failure_codes = {''output_budget_exceeded'', ''duration_budget_exceeded''}"

section \<open>The gateway\<close>

text \<open>What the gateway is bound to.\<close>

record pf_binding =
  pb_identity :: run_identity
  pb_task :: engineering_task
  pb_profile :: repository_profile
  pb_policy :: pf_policy

record pf_gateway =
  gw_workspace :: workspace_handle
  gw_records :: "tool_call_record list"
  gw_executions :: "(uuid \<times> sandbox_execution) list"
  gw_duration :: "pf_phase \<Rightarrow> int"
  gw_output :: "pf_phase \<Rightarrow> nat"

datatype gateway_exn = Request_Error | Budget_Error | Reserve_Refusal | Escaped string

definition object_digest :: "('w, 'b) pf_env_scheme \<Rightarrow> json \<Rightarrow> string" where
  "object_digest E j = canonical_sha256 (env_sha256 E) (env_nfc E) j"

text \<open>\<open>__init__\<close>: every part must belong to the same run, task, profile and source.\<close>

definition gateway_bound :: "'w pf_env \<Rightarrow> pf_binding \<Rightarrow> workspace_handle \<Rightarrow> bool" where
  "gateway_bound E B h =
     (let i = pb_identity B; t = pb_task B; p = pb_policy B; r = wh_record h; pid = profile_id (pb_profile B);
          digest = object_digest E (profile_json (pb_profile B)) in
      run_id i = wr_run_id r \<and> run_task_id i = et_task_id t \<and> et_task_id t = wr_task_id r
      \<and> run_atlas_job_id i = et_atlas_job_id t \<and> run_agent_id i = policy_agent p \<and> run_source i = et_source t
      \<and> wr_source_sha r = commit_sha (et_source t)
      \<and> et_profile_id t = pid \<and> run_profile_id i = pid \<and> policy_profile_id p = pid
      \<and> et_profile_sha256 t = digest \<and> run_profile_sha256 i = digest \<and> policy_profile_sha256 p = digest
      \<and> url_text (repository_url (et_source t)) = url_text (profile_url (pb_profile B))
      \<and> run_task_sha256 i = object_digest E (engineering_task_json (env_iso E) t))"

text \<open>A WorkspaceError of \<open>verify_active\<close> becomes a GatewayRequestError.\<close>

definition request_exn :: "tool_exn \<Rightarrow> gateway_exn" where
  "request_exn e = (case e of Workspace_Exn _ \<Rightarrow> Request_Error | Other_Exn n \<Rightarrow> Escaped n
     | Io_Exn _ \<Rightarrow> Escaped ''OSError'' | _ \<Rightarrow> Escaped ''RuntimeError'')"

definition gateway_init :: "'w pf_env \<Rightarrow> pf_binding \<Rightarrow> workspace_handle \<Rightarrow> 'w \<Rightarrow> (gateway_exn + pf_gateway) \<times> 'w" where
  "gateway_init E B h w =
     (if \<not> gateway_bound E B h then (Inl Request_Error, w)
      else (case pf_verify E h w of
          (Inl e, w') \<Rightarrow> (Inl (request_exn e), w')
        | (Inr h', w') \<Rightarrow> (Inr \<lparr>gw_workspace = h', gw_records = [], gw_executions = [], gw_duration = (\<lambda>_. 0),
             gw_output = (\<lambda>_. 0)\<rparr>, w')))"

definition refresh_workspace :: "'w pf_env \<Rightarrow> workspace_handle \<Rightarrow> pf_gateway \<Rightarrow> 'w \<Rightarrow> (gateway_exn + unit) \<times> pf_gateway \<times> 'w" where
  "refresh_workspace E h g w =
     (let c = gw_workspace g in
      if wr_workspace_id (wh_record h) \<noteq> wr_workspace_id (wh_record c) \<or> wr_run_id (wh_record h) \<noteq> wr_run_id (wh_record c)
         \<or> wr_task_id (wh_record h) \<noteq> wr_task_id (wh_record c) \<or> wr_source_sha (wh_record h) \<noteq> wr_source_sha (wh_record c)
         \<or> wh_root h \<noteq> wh_root c \<or> wh_worktree h \<noteq> wh_worktree c \<or> wh_git_directory h \<noteq> wh_git_directory c
        then (Inl Request_Error, g, w)
      else (case pf_verify E h w of
          (Inl e, w') \<Rightarrow> (Inl (request_exn e), g, w')
        | (Inr h', w') \<Rightarrow> (Inr (), g\<lparr>gw_workspace := h'\<rparr>, w')))"

subsection \<open>Budgets\<close>

definition min_envelope :: int where "min_envelope = 512"

definition second :: int where "second = 1000000"

definition phase_calls :: "pf_gateway \<Rightarrow> pf_phase \<Rightarrow> nat" where
  "phase_calls g p = length (filter (\<lambda>r. tc_phase r = p) (gw_records g))"

definition all_phases :: "pf_phase list" where
  "all_phases = [PF_CREATED, PF_PROVISIONING, PF_RECON, PF_HYPOTHESIS, PF_REPRODUCE, PF_IMPLEMENT, PF_TARGETED_VALIDATE,
     PF_FULL_VALIDATE, PF_SELF_REVIEW, PF_FINALIZE, PF_REPORTED, PF_CLEANUP, PF_CLOSED]"

text \<open>A phase without an entry counts as zero.\<close>

definition spent_duration :: "pf_gateway \<Rightarrow> int" where
  "spent_duration g = sum_list (map (gw_duration g) all_phases)"

definition report_output_reserve :: "tool_name \<Rightarrow> pf_phase \<Rightarrow> int" where
  "report_output_reserve tool phase = (if phase = PF_FINALIZE \<and> tool \<noteq> SUBMIT_REPORT then min_envelope else 0)"

definition check_budget :: "run_budgets \<Rightarrow> pf_gateway \<Rightarrow> tool_name \<Rightarrow> pf_phase \<Rightarrow> gateway_exn + phase_budget" where
  "check_budget b g tool phase =
     (case for_phase b phase of
        None \<Rightarrow> Inl Request_Error
      | Some budget \<Rightarrow>
          let reserve = report_output_reserve tool phase; calls = int (phase_calls g phase);
              remaining = ph_output_bytes budget - int (gw_output g phase) in
          if calls \<ge> ph_tool_calls budget then Inl Budget_Error
          else if reserve \<noteq> 0 \<and> calls + 1 \<ge> ph_tool_calls budget then Inl Reserve_Refusal
          else if remaining - reserve < min_envelope then (if reserve \<noteq> 0 then Inl Reserve_Refusal else Inl Budget_Error)
          else if int (length (gw_records g)) \<ge> rb_total_tool_calls b
             - (if phase \<noteq> PF_FINALIZE then ph_tool_calls (rb_finalization_reserve b) else 0) then Inl Budget_Error
          else if spent_duration g \<ge> second * (rb_total_duration_seconds b
             - (if phase \<noteq> PF_FINALIZE then ph_duration_seconds (rb_finalization_reserve b) else 0)) then Inl Budget_Error
          else Inr budget)"

subsection \<open>Dispatch\<close>

definition execute_command ::
  "'w pf_env \<Rightarrow> pf_binding \<Rightarrow> pf_gateway \<Rightarrow> check_kind \<Rightarrow> pf_phase \<Rightarrow> uuid \<Rightarrow> ('w, sandbox_execution) act" where
  "execute_command E B g purpose phase call =
     (case profile_command (pb_profile B) purpose of
        None \<Rightarrow> act_raise (Denied (lit (''Repository profile has no '' @ check_kind_value purpose @ '' command'')))
      | Some c \<Rightarrow>
          (case for_phase (policy_budgets (pb_policy B)) phase of
             None \<Rightarrow> act_raise (Other_Exn ''ValueError'')
           | Some budget \<Rightarrow>
               if second * cmd_timeout_seconds c > second * ph_duration_seconds budget - gw_duration g phase
                 then act_raise (Denied (lit ''Repository command does not fit the remaining phase duration''))
               else pf_sandbox E (run_id (pb_identity B)) call (wh_worktree (gw_workspace g)) c (profile_sandbox (pb_profile B))))"

definition execution_output :: "'w pf_env \<Rightarrow> check_kind \<Rightarrow> sandbox_execution \<Rightarrow> tool_output" where
  "execution_output E purpose x = Execution_Output (sx_execution_id x) (check_kind_value purpose) (sx_status x) (sx_exit_code x)
     (pf_decode_replace E (sx_stdout x)) (pf_decode_replace E (sx_stderr x)) (sx_truncated x)"

definition bounded_texts :: "'w pf_env \<Rightarrow> string \<Rightarrow> string \<Rightarrow> int \<Rightarrow> ustr \<times> ustr \<times> bool" where
  "bounded_texts E out err limit =
     (let o' = take (nat limit) out; e' = take (nat (limit - int (length o'))) err in
      (pf_decode_replace E o', pf_decode_replace E e', int (length out + length err) > limit))"

definition inspect_test_failure :: "'w pf_env \<Rightarrow> pf_gateway \<Rightarrow> uuid \<Rightarrow> int \<Rightarrow> tool_exn + tool_output" where
  "inspect_test_failure E g call limit =
     (case map_of (gw_executions g) call of
        None \<Rightarrow> Inl (Denied (lit ''Referenced execution tool call is unknown''))
      | Some x \<Rightarrow>
          if sx_status x = SANDBOX_SUCCEEDED then Inl (Denied (lit ''Referenced execution did not fail''))
          else (case bounded_texts E (sx_stdout x) (sx_stderr x) limit of
             (out, err, truncated) \<Rightarrow> Inr (Execution_Output (sx_execution_id x) ''failure_inspection'' (sx_status x)
                (sx_exit_code x) out err (sx_truncated x \<or> truncated))))"

definition known_evidence :: "pf_gateway \<Rightarrow> uuid set" where
  "known_evidence g = set (map tc_call_id (gw_records g)) \<union> set (map (sx_execution_id \<circ> snd) (gw_executions g))"

definition report_output :: "'w pf_env \<Rightarrow> pf_gateway \<Rightarrow> agent_report \<Rightarrow> tool_exn + tool_output" where
  "report_output E g r =
     (let unknown = filter (\<lambda>i. i \<notin> known_evidence g) (remdups (evidence_references r)) in
      if unknown \<noteq> []
        then Inl (Denied (lit ''Report references '' @ lit (nat_str (length unknown)) @ lit '' unknown runtime evidence identifiers''))
      else Inr (Report_Output (object_digest E (agent_report_json r)) (evidence_references r)))"

text \<open>An output without a sandbox execution, and one with.\<close>

definition plain :: "('w, tool_output) act \<Rightarrow> ('w, tool_output \<times> sandbox_execution option) act" where
  "plain m = act_bind m (\<lambda>x. act_ret (x, None))"

definition dispatch ::
  "'w pf_env \<Rightarrow> pf_binding \<Rightarrow> pf_gateway \<Rightarrow> tool_args \<Rightarrow> tool_name \<Rightarrow> pf_phase \<Rightarrow> uuid
     \<Rightarrow> ('w, tool_output \<times> sandbox_execution option) act" where
  "dispatch E B g args tool phase call =
     (let h = gw_workspace g; p = pb_profile B; t = pb_task B; y = pb_policy B in
      case args of
        List_Tree_Args path depth n \<Rightarrow> plain (list_tree E h path depth n)
      | Search_Args q path c n \<Rightarrow> plain (search_code E h q path c n)
      | Read_Args path a b n \<Rightarrow> plain (read_file_range E h path a b n)
      | Symbol_Args path s \<Rightarrow> plain (inspect_symbol E h path s)
      | Diff_Args n \<Rightarrow> plain (git_diff E h n)
      | Write_Args path x c \<Rightarrow> plain (write_patch E p t y h path x c)
      | Create_Args path c \<Rightarrow> plain (create_file E p t y h path c)
      | Delete_Args path x \<Rightarrow> plain (delete_file E p t y h path x)
      | Inspect_Args i n \<Rightarrow> plain (\<lambda>w. (inspect_test_failure E g i n, w))
      | Advance_Args q \<Rightarrow> plain (act_ret (Phase_Request_Output phase q))
      | Report_Args r \<Rightarrow> plain (\<lambda>w. (report_output E g r, w))
      | Empty_Args \<Rightarrow>
          if tool = GIT_STATUS then plain (git_status E h)
          else if tool = INSPECT_DIFF then plain (inspect_diff E p t h)
          else (case command_purpose_for tool phase of
              None \<Rightarrow> act_raise (Denied (lit ''Unsupported tool''))
            | Some purpose \<Rightarrow> act_bind (execute_command E B g purpose phase call)
                (\<lambda>x. act_ret (execution_output E purpose x, Some x))))"

section \<open>One call\<close>

definition authorize :: "pf_policy \<Rightarrow> tool_name \<Rightarrow> pf_phase \<Rightarrow> tool_exn + unit" where
  "authorize y tool phase =
     (if tool \<notin> set (allowed_tools y) then Inl (Denied (lit (''Tool is not allowed by policy: '' @ tool_value tool)))
      else if phase \<notin> phases_by_tool tool
        then Inl (Denied (lit (''Tool '' @ tool_value tool @ '' is not allowed during '' @ pf_phase_value phase)))
      else Inr ())"

definition status_for_execution :: "sandbox_execution option \<Rightarrow> tool_status \<times> string option" where
  "status_for_execution x = (case x of
     None \<Rightarrow> (TOOL_SUCCEEDED, None)
   | Some e \<Rightarrow> (case sx_status e of
       SANDBOX_SUCCEEDED \<Rightarrow> (TOOL_SUCCEEDED, None)
     | SANDBOX_TIMED_OUT \<Rightarrow> (TOOL_TIMED_OUT, Some ''timeout'')
     | _ \<Rightarrow> (TOOL_FAILED, Some (case sx_error_code e of Some c \<Rightarrow> c | None \<Rightarrow> ''sandbox_error''))))"

definition failure_detail :: "'w pf_env \<Rightarrow> ustr \<Rightarrow> string \<Rightarrow> ustr" where
  "failure_detail E message fallback = take 500 (if pf_strip E message = [] then lit fallback else pf_strip E message)"

text \<open>What a call produced: output, execution, status and error code.\<close>

record call_outcome =
  co_output :: tool_output
  co_execution :: "sandbox_execution option"
  co_status :: tool_status
  co_code :: "string option"

definition failed_call :: "tool_status \<Rightarrow> string \<Rightarrow> ustr \<Rightarrow> call_outcome" where
  "failed_call s code detail = \<lparr>co_output = Failure_Output code detail, co_execution = None, co_status = s, co_code = Some code\<rparr>"

text \<open>The \<open>try\<close> of \<open>invoke\<close>: authorisation, the workspace's verification and the dispatch, with its handlers.\<close>

definition attempt ::
  "'w pf_env \<Rightarrow> pf_binding \<Rightarrow> tool_name \<Rightarrow> tool_args \<Rightarrow> pf_phase \<Rightarrow> uuid \<Rightarrow> pf_gateway \<Rightarrow> 'w
     \<Rightarrow> (gateway_exn + call_outcome) \<times> pf_gateway \<times> 'w" where
  "attempt E B tool args phase call g w =
     (let handle = (\<lambda>e g w. case e of
          Denied m \<Rightarrow> (Inr (failed_call TOOL_DENIED ''policy_denied'' m), g, w)
        | Sandbox_Exn m \<Rightarrow> (Inr (failed_call TOOL_FAILED ''sandbox_error'' (failure_detail E m ''Sandbox execution failed'')), g, w)
        | Workspace_Exn m \<Rightarrow> (Inr (failed_call TOOL_FAILED ''tool_error'' (failure_detail E m ''Tool execution failed'')), g, w)
        | Io_Exn m \<Rightarrow> (Inr (failed_call TOOL_FAILED ''tool_error'' (failure_detail E m ''Tool execution failed'')), g, w)
        | Other_Exn n \<Rightarrow> (Inl (Escaped n), g, w)) in
      case authorize (pb_policy B) tool phase of
        Inl e \<Rightarrow> handle e g w
      | Inr _ \<Rightarrow>
          (case (if requires_workspace tool then pf_verify E (gw_workspace g) w else (Inr (gw_workspace g), w)) of
             (Inl e, w1) \<Rightarrow> handle e g w1
           | (Inr h, w1) \<Rightarrow>
               let g1 = g\<lparr>gw_workspace := h\<rparr> in
               (case dispatch E B g1 args tool phase call w1 of
                  (Inl e, w2) \<Rightarrow> handle e g1 w2
                | (Inr (out, x), w2) \<Rightarrow>
                    (Inr \<lparr>co_output = out, co_execution = x, co_status = fst (status_for_execution x),
                          co_code = snd (status_for_execution x)\<rparr>, g1, w2))))"

definition output_size :: "'w pf_env \<Rightarrow> tool_output \<Rightarrow> nat" where
  "output_size E out = length (canonical_json (env_nfc E) (output_json out))"

definition output_exceeded :: tool_output where
  "output_exceeded = Failure_Output ''output_budget_exceeded'' (lit ''Tool output exceeded the remaining phase output budget.'')"

definition duration_exceeded :: tool_output where
  "duration_exceeded = Failure_Output ''duration_budget_exceeded'' (lit ''Tool execution exceeded the remaining phase duration budget.'')"

text \<open>The two replacements: an output or a duration beyond the phase's budget becomes a failure; truncation sticks.\<close>

definition within_output :: "'w pf_env \<Rightarrow> pf_gateway \<Rightarrow> phase_budget \<Rightarrow> tool_name \<Rightarrow> pf_phase \<Rightarrow> call_outcome \<Rightarrow> call_outcome \<times> bool" where
  "within_output E g budget tool phase c =
     (if int (gw_output g phase + output_size E (co_output c)) > ph_output_bytes budget - report_output_reserve tool phase
      then (c\<lparr>co_output := output_exceeded, co_status := TOOL_FAILED, co_code := Some ''output_budget_exceeded''\<rparr>, True)
      else (c, output_truncated (co_output c)))"

definition within_duration :: "pf_gateway \<Rightarrow> phase_budget \<Rightarrow> pf_phase \<Rightarrow> int \<Rightarrow> call_outcome \<Rightarrow> call_outcome" where
  "within_duration g budget phase elapsed c =
     (if gw_duration g phase + elapsed > second * ph_duration_seconds budget
      then c\<lparr>co_output := duration_exceeded, co_status := TOOL_FAILED, co_code := Some ''duration_budget_exceeded''\<rparr>
      else c)"

record gateway_result =
  gr_record :: tool_call_record
  gr_output :: tool_output
  gr_execution :: "sandbox_execution option"

fun is_execution :: "tool_output \<Rightarrow> bool" where
  "is_execution (Execution_Output i n s x out err t) = True"
| "is_execution _ = False"

fun is_budget_failure :: "tool_output \<Rightarrow> bool" where
  "is_budget_failure (Failure_Output code d) = (code \<in> budget_failure_codes)"
| "is_budget_failure _ = False"

definition gateway_result_ok :: "gateway_result \<Rightarrow> bool" where
  "gateway_result_ok r = (case gr_execution r of
     None \<Rightarrow> True
   | Some x \<Rightarrow> sx_call_id x = tc_call_id (gr_record r) \<and> sx_run_id x = tc_run_id (gr_record r)
       \<and> (is_execution (gr_output r) \<or> is_budget_failure (gr_output r)))"

text \<open>Python's dict keeps the position of a key that it has.\<close>

definition dict_put :: "'k \<Rightarrow> 'v \<Rightarrow> ('k \<times> 'v) list \<Rightarrow> ('k \<times> 'v) list" where
  "dict_put k v kvs = (if k \<in> fst ` set kvs then map (\<lambda>(l, u). (l, if l = k then v else u)) kvs else kvs @ [(k, v)])"

text \<open>What a call ends as: the outcome within its phase's budget, and whether it counts as truncated.\<close>

definition settle ::
  "'w pf_env \<Rightarrow> pf_gateway \<Rightarrow> phase_budget \<Rightarrow> tool_name \<Rightarrow> pf_phase \<Rightarrow> int \<Rightarrow> call_outcome \<Rightarrow> call_outcome \<times> bool" where
  "settle E g budget tool phase elapsed c =
     (case within_output E g budget tool phase c of
        (c', truncated) \<Rightarrow> (within_duration g budget phase elapsed c', truncated))"

definition ledger :: "pf_gateway \<Rightarrow> tool_call_record \<Rightarrow> int \<Rightarrow> sandbox_execution option \<Rightarrow> pf_gateway" where
  "ledger g r elapsed x = g\<lparr>gw_records := gw_records g @ [r],
     gw_duration := (gw_duration g)(tc_phase r := gw_duration g (tc_phase r) + elapsed),
     gw_output := (gw_output g)(tc_phase r := gw_output g (tc_phase r) + tc_output_bytes r),
     gw_executions := (case x of None \<Rightarrow> gw_executions g | Some e \<Rightarrow> dict_put (tc_call_id r) e (gw_executions g))\<rparr>"

text \<open>From the outcome to the record: the ledgers change only when the record satisfies its model.\<close>

definition record_call ::
  "'w pf_env \<Rightarrow> pf_binding \<Rightarrow> phase_budget \<Rightarrow> tool_name \<Rightarrow> tool_args \<Rightarrow> pf_phase \<Rightarrow> uuid \<Rightarrow> timestamp \<Rightarrow> timestamp
     \<Rightarrow> call_outcome \<Rightarrow> pf_gateway \<Rightarrow> (gateway_exn + gateway_result) \<times> pf_gateway" where
  "record_call E B budget tool args phase call started completed c0 g =
     (let elapsed = max 0 (completed - started) in
      case settle E g budget tool phase elapsed c0 of (c, truncated) \<Rightarrow>
      let r = \<lparr>tc_call_id = call, tc_run_id = run_id (pb_identity B), tc_sequence = length (gw_records g) + 1,
               tc_phase = phase, tc_tool = tool, tc_arguments_sha256 = object_digest E (args_json args),
               tc_status = co_status c, tc_started_at = started, tc_completed_at = completed,
               tc_output_bytes = output_size E (co_output c), tc_truncated = truncated, tc_error_code = co_code c\<rparr> in
      if \<not> tool_call_ok r then (Inl (Escaped ''ValidationError''), g)
      else
        let g' = ledger g r elapsed (co_execution c);
            result = \<lparr>gr_record = r, gr_output = co_output c, gr_execution = co_execution c\<rparr> in
        if gateway_result_ok result then (Inr result, g') else (Inl (Escaped ''ValidationError''), g'))"

definition invoke ::
  "'w pf_env \<Rightarrow> pf_binding \<Rightarrow> tool_name \<Rightarrow> tool_args \<Rightarrow> pf_phase \<Rightarrow> pf_gateway \<Rightarrow> 'w
     \<Rightarrow> (gateway_exn + gateway_result) \<times> pf_gateway \<times> 'w" where
  "invoke E B tool args phase g w =
     (if \<not> args_match tool args \<or> \<not> args_ok args then (Inl Request_Error, g, w)
      else (case check_budget (policy_budgets (pb_policy B)) g tool phase of
          Inl e \<Rightarrow> (Inl e, g, w)
        | Inr budget \<Rightarrow>
            (case pf_id E w of (call, w1) \<Rightarrow>
             (case pf_now E w1 of (started, w2) \<Rightarrow>
              (case attempt E B tool args phase call g w2 of
                 (Inl e, g1, w3) \<Rightarrow> (Inl e, g1, w3)
               | (Inr c, g1, w3) \<Rightarrow>
                   (case pf_now E w3 of (completed, w4) \<Rightarrow>
                    (case record_call E B budget tool args phase call started completed c g1 of
                       (x, g2) \<Rightarrow> (x, g2, w4))))))))"

definition usage_of :: "pf_gateway \<Rightarrow> pf_phase \<Rightarrow> phase_usage" where
  "usage_of g p = \<lparr>pu_phase = p, pu_calls = phase_calls g p, pu_duration = gw_duration g p, pu_output = gw_output g p\<rparr>"

definition gateway_usage :: "pf_gateway \<Rightarrow> budget_usage" where
  "gateway_usage g = \<lparr>bu_phases = map (usage_of g)
       (filter (\<lambda>p. phase_calls g p \<noteq> 0 \<or> gw_duration g p \<noteq> 0 \<or> gw_output g p \<noteq> 0) all_phases),
     bu_calls = length (gw_records g), bu_duration = spent_duration g,
     bu_output = sum_list (map tc_output_bytes (gw_records g)),
     bu_reserve_used = list_ex (\<lambda>r. tc_phase r = PF_FINALIZE) (gw_records g)\<rparr>"

end
