(* ===== verification/PatchForgeRuntime.thy ===== *)
theory PatchForgeRuntime
  imports PatchForgeGateway
begin

text \<open>
  The PatchForge runtime (\<open>runtime.py\<close>, class \<open>PatchForgeRuntime\<close>): the loop that asks an engine for one action at
  a time and carries it out through the gateway, the evidence it keeps, and the cleanup that ends every run. The
  engine is any function of the turn it is shown and of the world. The loop takes fuel; how much is always enough
  is a theorem.
\<close>

section \<open>Evidence\<close>

datatype state_kind = INITIAL_STATE | BEFORE_CALL | AFTER_CALL

record state_record =
  st_run_id :: uuid
  st_sequence :: nat
  st_kind :: state_kind
  st_call_sequence :: "nat option"
  st_diff_sha256 :: string
  st_changed_files :: nat
  st_captured_at :: timestamp

definition state_record_ok :: "state_record \<Rightarrow> bool" where
  "state_record_ok s \<longleftrightarrow> 1 \<le> st_sequence s \<and> opt_ok (\<lambda>n. 1 \<le> n) (st_call_sequence s) \<and> valid_sha256 (st_diff_sha256 s)
     \<and> (st_kind s = INITIAL_STATE \<longleftrightarrow> st_call_sequence s = None)"

record lease_renewal =
  ln_run_id :: uuid
  ln_sequence :: nat
  ln_workspace_id :: uuid
  ln_previous :: timestamp
  ln_renewed :: timestamp
  ln_occurred_at :: timestamp

record final_capture =
  fc_run_id :: uuid
  fc_base_sha :: string
  fc_head_sha :: string
  fc_diff_sha256 :: string
  fc_patch :: string
  fc_changed_files :: "ustr list"
  fc_binary_files :: "ustr list"
  fc_additions :: int
  fc_deletions :: int
  fc_committed_at :: timestamp

definition final_capture_ok :: "('w, 'b) pf_env_scheme \<Rightarrow> final_capture \<Rightarrow> bool" where
  "final_capture_ok E c \<longleftrightarrow> valid_commit_sha (fc_base_sha c) \<and> valid_commit_sha (fc_head_sha c) \<and> valid_sha256 (fc_diff_sha256 c)
     \<and> bounded 1 1000 (fc_changed_files c) \<and> list_all path_ok (fc_changed_files c)
     \<and> bounded 0 1000 (fc_binary_files c) \<and> list_all path_ok (fc_binary_files c)
     \<and> 0 \<le> fc_additions c \<and> 0 \<le> fc_deletions c \<and> env_sha256 E (fc_patch c) = fc_diff_sha256 c"

definition capture_of :: "uuid \<Rightarrow> proposed_commit \<Rightarrow> final_capture" where
  "capture_of run p = (let d = prop_diff p in \<lparr>fc_run_id = run, fc_base_sha = wd_base_sha d, fc_head_sha = prop_commit_sha p,
     fc_diff_sha256 = wd_sha256 d, fc_patch = wd_patch d, fc_changed_files = wd_changed_files d,
     fc_binary_files = wd_binary_files d, fc_additions = wd_additions d, fc_deletions = wd_deletions d,
     fc_committed_at = prop_committed_at p\<rparr>)"

datatype capture_error = CAPTURE_NO_CHANGES | CAPTURE_WORKSPACE_ERROR

record reserve_refusal =
  rf_run_id :: uuid
  rf_tool :: tool_name
  rf_call_sequence :: nat
  rf_occurred_at :: timestamp

record runtime_completion =
  cp_identity :: run_identity
  cp_snapshot :: lifecycle
  cp_report :: "agent_report option"
  cp_results :: "gateway_result list"
  cp_tool_calls :: "tool_call_record list"
  cp_executions :: "sandbox_execution list"
  cp_usage :: budget_usage
  cp_renewals :: "lease_renewal list"
  cp_states :: "state_record list"
  cp_capture :: "final_capture option"
  cp_capture_error :: "capture_error option"
  cp_refusal :: "reserve_refusal option"
  cp_cleaned :: bool

fun report_evidence :: "tool_output \<Rightarrow> (string \<times> uuid list) option" where
  "report_evidence (Report_Output h es) = Some (h, es)"
| "report_evidence _ = None"

text \<open>\<open>validate_completion\<close> and the lengths its fields allow.\<close>

definition completion_ok :: "('w, 'b) pf_env_scheme \<Rightarrow> runtime_completion \<Rightarrow> bool" where
  "completion_ok E c \<longleftrightarrow> snapshot_ok (cp_snapshot c)
     \<and> length (cp_results c) \<le> 10000 \<and> length (cp_tool_calls c) \<le> 10000 \<and> length (cp_executions c) \<le> 1000
     \<and> length (cp_renewals c) \<le> 10000 \<and> length (cp_states c) \<le> 30000
     \<and> budget_usage_ok (cp_usage c)
     \<and> lc_run_id (cp_snapshot c) = run_id (cp_identity c) \<and> lc_phase (cp_snapshot c) = PF_CLOSED
     \<and> lc_cleanup_failed (cp_snapshot c) \<noteq> cp_cleaned c
     \<and> list_all (\<lambda>r. tc_run_id (gr_record r) = run_id (cp_identity c)) (cp_results c)
     \<and> map gr_record (cp_results c) = cp_tool_calls c
     \<and> list_all (\<lambda>x. sx_run_id x = run_id (cp_identity c)) (cp_executions c)
     \<and> bu_calls (cp_usage c) = length (cp_tool_calls c)
     \<and> list_all (\<lambda>x. ln_run_id x = run_id (cp_identity c)) (cp_renewals c)
     \<and> list_all (\<lambda>x. st_run_id x = run_id (cp_identity c)) (cp_states c)
     \<and> map st_sequence (cp_states c) = [1 ..< Suc (length (cp_states c))]
     \<and> (cp_capture c = None \<or> cp_capture_error c = None)
     \<and> (case cp_capture c of None \<Rightarrow> True
        | Some k \<Rightarrow> fc_run_id k = run_id (cp_identity c) \<and> fc_base_sha k = commit_sha (run_source (cp_identity c)))
     \<and> (cp_refusal c \<noteq> None \<longleftrightarrow> lc_report_only (cp_snapshot c))
     \<and> (case cp_refusal c of None \<Rightarrow> True | Some f \<Rightarrow> rf_run_id f = run_id (cp_identity c))
     \<and> (cp_report c = None \<longrightarrow> cp_capture c = None \<and> cp_capture_error c = None)
     \<and> (let outputs = List.map_filter (report_evidence \<circ> gr_output) (cp_results c) in
         (cp_report c = None \<longleftrightarrow> outputs = []) \<and> length outputs \<le> 1
         \<and> (case cp_report c of None \<Rightarrow> True
            | Some r \<Rightarrow> outputs = [(object_digest E (agent_report_json r), evidence_references r)]))"

section \<open>State\<close>

record 'w runtime =
  rn_lifecycle :: lifecycle
  rn_gateway :: pf_gateway
  rn_world :: 'w
  rn_results :: "gateway_result list"
  rn_renewals :: "lease_renewal list"
  rn_report :: "agent_report option"
  rn_states :: "state_record list"
  rn_capture :: "final_capture option"
  rn_capture_error :: "capture_error option"
  rn_refusal :: "reserve_refusal option"
  rn_cleaned :: bool
  rn_previous :: "gateway_result option"

record runtime_turn =
  tn_run_id :: uuid
  tn_phase :: pf_phase
  tn_task :: engineering_task
  tn_previous :: "gateway_result option"
  tn_failure :: "pf_failure option"
  tn_loops :: nat
  tn_max_loops :: nat

text \<open>
  What the engine answers: an action, RuntimeCancelledError, any other Exception, or an exception that is no
  Exception (an interrupt), which is not caught.
\<close>

datatype engine_answer = Act tool_name tool_args | Engine_Cancelled | Engine_Raises | Engine_Interrupted

type_synonym 'w engine = "runtime_turn \<Rightarrow> 'w \<Rightarrow> engine_answer \<times> 'w"

record 'w run_config =
  rc_env :: "'w pf_env"
  rc_binding :: pf_binding
  rc_engine :: "'w engine"
  rc_lease :: int

text \<open>\<open>__init__\<close>, after its checks of the binding.\<close>

definition runtime_init :: "'w run_config \<Rightarrow> pf_gateway \<Rightarrow> 'w \<Rightarrow> 'w runtime" where
  "runtime_init R g w = \<lparr>rn_lifecycle = lifecycle_init (run_id (pb_identity (rc_binding R))) (policy_budgets (pb_policy (rc_binding R))),
     rn_gateway = g, rn_world = w, rn_results = [], rn_renewals = [], rn_report = None, rn_states = [], rn_capture = None,
     rn_capture_error = None, rn_refusal = None, rn_cleaned = False, rn_previous = None\<rparr>"

definition runtime_accepts :: "'w run_config \<Rightarrow> pf_gateway \<Rightarrow> bool" where
  "runtime_accepts R g \<longleftrightarrow> rc_lease R > 0 \<and> run_id (pb_identity (rc_binding R)) = wr_run_id (wh_record (gw_workspace g))
     \<and> gw_records g = [] \<and> gw_executions g = []"

section \<open>Steps\<close>

text \<open>
  A step that may raise: \<open>Raised_Transition\<close> is RuntimeTransitionError (with its text), \<open>Raised_Workspace\<close> a
  WorkspaceError, \<open>Raised\<close> any other exception. What was done before it stays.
\<close>

datatype step_exn = Raised_Transition string | Raised_Workspace | Raised string

type_synonym ('w, 'a) step = "'w runtime \<Rightarrow> (step_exn + 'a) \<times> 'w runtime"

definition step_ret :: "'a \<Rightarrow> ('w, 'a) step" where "step_ret a = (\<lambda>s. (Inr a, s))"
definition step_raise :: "step_exn \<Rightarrow> ('w, 'a) step" where "step_raise e = (\<lambda>s. (Inl e, s))"

definition step_bind :: "('w, 'a) step \<Rightarrow> ('a \<Rightarrow> ('w, 'b) step) \<Rightarrow> ('w, 'b) step" where
  "step_bind m f = (\<lambda>s. case m s of (Inl e, s') \<Rightarrow> (Inl e, s') | (Inr a, s') \<Rightarrow> f a s')"

text \<open>The clock, read by the runtime.\<close>

definition read_clock :: "'w run_config \<Rightarrow> ('w, timestamp) step" where
  "read_clock R = (\<lambda>s. case pf_now (rc_env R) (rn_world s) of (t, w) \<Rightarrow> (Inr t, s\<lparr>rn_world := w\<rparr>))"

text \<open>A method of the lifecycle; the clock is read only by the one that records a transition.\<close>

definition lifecycle_do :: "'w run_config \<Rightarrow> lifecycle_op \<Rightarrow> ('w, unit) step" where
  "lifecycle_do R op = (\<lambda>s. case pf_now (rc_env R) (rn_world s) of (t, w) \<Rightarrow>
     (case lifecycle_apply op t (rn_lifecycle s) of
        (Inl e, l) \<Rightarrow> (Inl (Raised_Transition e), s\<lparr>rn_lifecycle := l\<rparr>)
      | (Inr x, l) \<Rightarrow> (Inr (), s\<lparr>rn_lifecycle := l, rn_world := w\<rparr>)))"

definition record_failure :: "'w run_config \<Rightarrow> pf_failure \<Rightarrow> ('w, unit) step" where
  "record_failure R f = (\<lambda>s. let p = lc_phase (rn_lifecycle s) in
     if p = PF_FINALIZE then lifecycle_do R (Finalization_Failed f) s
     else if p \<notin> {PF_CLEANUP, PF_CLOSED, PF_REPORTED} then lifecycle_do R (Fail f) s
     else (Inr (), s))"

definition run_id_of :: "'w run_config \<Rightarrow> uuid" where
  "run_id_of R = run_id (pb_identity (rc_binding R))"

definition step_of :: "tool_exn \<Rightarrow> step_exn" where
  "step_of e = (case e of Workspace_Exn _ \<Rightarrow> Raised_Workspace | Io_Exn _ \<Rightarrow> Raised ''OSError'' | Other_Exn n \<Rightarrow> Raised n
     | Denied _ \<Rightarrow> Raised ''GatewayError'' | Sandbox_Exn _ \<Rightarrow> Raised ''SandboxError'')"

definition capture_state :: "'w run_config \<Rightarrow> state_kind \<Rightarrow> ('w, unit) step" where
  "capture_state R kind = (\<lambda>s. case pf_diff (rc_env R) (gw_workspace (rn_gateway s)) (rn_world s) of
     (Inl e, w) \<Rightarrow> (Inl (step_of e), s\<lparr>rn_world := w\<rparr>)
   | (Inr d, w) \<Rightarrow> (case pf_now (rc_env R) w of (t, w') \<Rightarrow>
       let x = \<lparr>st_run_id = run_id_of R, st_sequence = length (rn_states s) + 1, st_kind = kind,
            st_call_sequence = (case kind of INITIAL_STATE \<Rightarrow> None
              | BEFORE_CALL \<Rightarrow> Some (length (gw_records (rn_gateway s)) + 1)
              | AFTER_CALL \<Rightarrow> Some (tc_sequence (last (gw_records (rn_gateway s))))),
            st_diff_sha256 = wd_sha256 d, st_changed_files = length (wd_changed_files d), st_captured_at = t\<rparr> in
       if state_record_ok x then (Inr (), s\<lparr>rn_world := w', rn_states := rn_states s @ [x]\<rparr>)
       else (Inl (Raised ''ValidationError''), s\<lparr>rn_world := w'\<rparr>)))"

definition renew_workspace :: "'w run_config \<Rightarrow> ('w, unit) step" where
  "renew_workspace R = (\<lambda>s. let current = gw_workspace (rn_gateway s) in
     case pf_renew (rc_env R) current (rc_lease R) (rn_world s) of
       (Inl e, w) \<Rightarrow> (Inl (step_of e), s\<lparr>rn_world := w\<rparr>)
     | (Inr renewed, w) \<Rightarrow>
         (case refresh_workspace (rc_env R) renewed (rn_gateway s) w of
            (Inl (Escaped n), g, w') \<Rightarrow> (Inl (Raised n), s\<lparr>rn_world := w', rn_gateway := g\<rparr>)
          | (Inl e, g, w') \<Rightarrow> (Inl Raised_Workspace, s\<lparr>rn_world := w', rn_gateway := g\<rparr>)
          | (Inr _, g, w') \<Rightarrow>
              (case pf_now (rc_env R) w' of (t, w'') \<Rightarrow>
                let x = \<lparr>ln_run_id = run_id_of R, ln_sequence = length (rn_renewals s) + 1,
                     ln_workspace_id = wr_workspace_id (wh_record renewed), ln_previous = wr_expires_at (wh_record current),
                     ln_renewed = wr_expires_at (wh_record renewed), ln_occurred_at = t\<rparr> in
                if ln_renewed x < ln_previous x then (Inl (Raised ''ValidationError''), s\<lparr>rn_world := w'', rn_gateway := g\<rparr>)
                else (Inr (), s\<lparr>rn_world := w'', rn_gateway := g, rn_renewals := rn_renewals s @ [x]\<rparr>))))"

definition classify_failure :: "string \<Rightarrow> pf_failure" where
  "classify_failure code = (if code \<in> budget_failure_codes then BUDGET_EXHAUSTED
     else if code = ''policy_denied'' then POLICY_DENIED
     else if code = ''sandbox_error'' then SANDBOX_ERROR
     else if code = ''tool_error'' then WORKSPACE_ERROR
     else ENGINE_ERROR)"

definition accept_result :: "'w run_config \<Rightarrow> tool_name \<Rightarrow> tool_args \<Rightarrow> tool_output \<Rightarrow> ('w, unit) step" where
  "accept_result R tool args out = (case out of
     Failure_Output code d \<Rightarrow> record_failure R (classify_failure code)
   | Execution_Output i n status x o' e t \<Rightarrow>
       (if status \<in> {SANDBOX_TIMED_OUT, SANDBOX_OUTPUT_LIMIT} then record_failure R BUDGET_EXHAUSTED
        else if status = SANDBOX_BROKEN then record_failure R SANDBOX_ERROR else step_ret ())
   | Phase_Request_Output current target \<Rightarrow> (\<lambda>s.
       if current \<noteq> lc_phase (rn_lifecycle s)
         then (Inl (Raised_Transition ''Phase request does not match runtime state''), s)
       else lifecycle_do R (Advance target) s)
   | Report_Output h es \<Rightarrow>
       (if tool \<noteq> SUBMIT_REPORT then step_raise (Raised_Transition ''Report evidence came from another tool'')
        else (case args of
            Report_Args r \<Rightarrow> (\<lambda>s. lifecycle_do R Report (s\<lparr>rn_report := Some r\<rparr>))
          | _ \<Rightarrow> step_raise (Raised_Transition ''Report action arguments are not typed'')))
   | _ \<Rightarrow> step_ret ())"

definition state_tracked :: "tool_name \<Rightarrow> bool" where
  "state_tracked tool \<longleftrightarrow> tool \<in> {WRITE_PATCH, CREATE_FILE, DELETE_FILE, RUN_TARGETED_TESTS, RUN_TEST_SUITE, RUN_FORMATTER,
     RUN_LINTER, RUN_TYPECHECK}"

text \<open>\<open>except WorkspaceError\<close>: record the failure and go to the next iteration, otherwise go on.\<close>

definition or_workspace_failure :: "'w run_config \<Rightarrow> ('w, unit) step \<Rightarrow> ('w, unit) step \<Rightarrow> ('w, unit) step" where
  "or_workspace_failure R m next = (\<lambda>s. case m s of
     (Inl Raised_Workspace, s') \<Rightarrow> record_failure R WORKSPACE_ERROR s'
   | (Inl e, s') \<Rightarrow> (Inl e, s')
   | (Inr _, s') \<Rightarrow> next s')"

definition step_when :: "bool \<Rightarrow> ('w, unit) step \<Rightarrow> ('w, unit) step" where
  "step_when c m = (if c then m else step_ret ())"

text \<open>The last \<open>try\<close> of an iteration: a transition that is refused is a failure of the run.\<close>

definition transition_failure :: "string \<Rightarrow> pf_failure" where
  "transition_failure text = (if text = loop_exhausted then BUDGET_EXHAUSTED else POLICY_DENIED)"

definition accept_or_fail :: "'w run_config \<Rightarrow> tool_name \<Rightarrow> tool_args \<Rightarrow> tool_output \<Rightarrow> ('w, unit) step" where
  "accept_or_fail R tool args out = (\<lambda>s. case accept_result R tool args out s of
     (Inl (Raised_Transition text), s') \<Rightarrow> record_failure R (transition_failure text) s'
   | r \<Rightarrow> r)"

definition refuse_reserve :: "'w run_config \<Rightarrow> tool_name \<Rightarrow> ('w, unit) step" where
  "refuse_reserve R tool = (\<lambda>s. if lc_phase (rn_lifecycle s) = PF_FINALIZE
     then step_bind (read_clock R) (\<lambda>t s'. if tool = SUBMIT_REPORT then (Inl (Raised ''ValidationError''), s')
        else lifecycle_do R Reserve_Refused (s'\<lparr>rn_refusal := Some \<lparr>rf_run_id = run_id_of R, rf_tool = tool,
           rf_call_sequence = length (gw_records (rn_gateway s')) + 1, rf_occurred_at = t\<rparr>\<rparr>)) s
     else record_failure R BUDGET_EXHAUSTED s)"

text \<open>The gateway's call and what follows it.\<close>

definition invoke_step :: "'w run_config \<Rightarrow> tool_name \<Rightarrow> tool_args \<Rightarrow> ('w, unit) step" where
  "invoke_step R tool args = (\<lambda>s.
     case invoke (rc_env R) (rc_binding R) tool args (lc_phase (rn_lifecycle s)) (rn_gateway s) (rn_world s) of
       (x, g, w) \<Rightarrow>
       let s' = s\<lparr>rn_gateway := g, rn_world := w\<rparr> in
       (case x of
          Inl Reserve_Refusal \<Rightarrow> refuse_reserve R tool s'
        | Inl Budget_Error \<Rightarrow> record_failure R BUDGET_EXHAUSTED s'
        | Inl Request_Error \<Rightarrow> record_failure R POLICY_DENIED s'
        | Inl (Escaped n) \<Rightarrow> (Inl (Raised n), s')
        | Inr r \<Rightarrow>
            or_workspace_failure R (step_when (state_tracked tool) (capture_state R AFTER_CALL))
              (accept_or_fail R tool args (gr_output r)) (s'\<lparr>rn_results := rn_results s' @ [r], rn_previous := Some r\<rparr>)))"

definition act_step :: "'w run_config \<Rightarrow> tool_name \<Rightarrow> tool_args \<Rightarrow> ('w, unit) step" where
  "act_step R tool args = (\<lambda>s.
     if lc_report_only (rn_lifecycle s) \<and> tool \<noteq> SUBMIT_REPORT
       then lifecycle_do R (Finalization_Failed BUDGET_EXHAUSTED) s
     else or_workspace_failure R
       (step_bind (step_when (requires_workspace tool) (renew_workspace R))
          (\<lambda>_. step_when (state_tracked tool) (capture_state R BEFORE_CALL)))
       (invoke_step R tool args) s)"

definition turn_of :: "'w run_config \<Rightarrow> 'w runtime \<Rightarrow> runtime_turn" where
  "turn_of R s = (let l = rn_lifecycle s in \<lparr>tn_run_id = run_id_of R, tn_phase = lc_phase l, tn_task = pb_task (rc_binding R),
     tn_previous = rn_previous s, tn_failure = lc_failure l, tn_loops = lc_loops l, tn_max_loops = lc_max_loops l\<rparr>)"

text \<open>One iteration of the loop; the snapshot it builds must satisfy its model.\<close>

definition iteration :: "'w run_config \<Rightarrow> ('w, unit) step" where
  "iteration R = (\<lambda>s.
     if \<not> snapshot_ok (rn_lifecycle s) then (Inl (Raised ''ValidationError''), s)
     else (case rc_engine R (turn_of R s) (rn_world s) of (reply, w) \<Rightarrow>
       let s' = s\<lparr>rn_world := w\<rparr> in
       (case reply of
          Act tool args \<Rightarrow> act_step R tool args s'
        | Engine_Cancelled \<Rightarrow> record_failure R RUN_CANCELLED s'
        | Engine_Raises \<Rightarrow> record_failure R ENGINE_ERROR s'
        | Engine_Interrupted \<Rightarrow> (Inl (Raised ''BaseException''), s'))))"

definition ended :: "pf_phase \<Rightarrow> bool" where
  "ended p \<longleftrightarrow> p \<in> {PF_REPORTED, PF_CLEANUP, PF_CLOSED}"

fun runtime_loop :: "'w run_config \<Rightarrow> nat \<Rightarrow> 'w runtime \<Rightarrow> ((step_exn + unit) \<times> 'w runtime) option" where
  "runtime_loop R fuel s =
     (if ended (lc_phase (rn_lifecycle s)) then Some (Inr (), s)
      else (case fuel of
          0 \<Rightarrow> None
        | Suc n \<Rightarrow> (case iteration R s of
             (Inl e, s') \<Rightarrow> Some (Inl e, s')
           | (Inr _, s') \<Rightarrow> runtime_loop R n s')))"

declare runtime_loop.simps [simp del]

definition start_run :: "'w run_config \<Rightarrow> ('w, unit) step" where
  "start_run R =
     step_bind (lifecycle_do R (Advance PF_PROVISIONING)) (\<lambda>_.
     step_bind (lifecycle_do R (Advance PF_RECON)) (\<lambda>_.
     or_workspace_failure R (capture_state R INITIAL_STATE) (step_ret ())))"

section \<open>The end of a run\<close>

definition proposal_message :: "run_identity \<Rightarrow> ustr" where
  "proposal_message i = lit (''PatchForge proposal for task '' @ uuid_str (run_task_id i)) @ [10, 10]
     @ lit (''Run: '' @ uuid_str (run_id i)) @ [10] @ lit (''Atlas job: '' @ uuid_str (run_atlas_job_id i))"

definition capture_final :: "'w run_config \<Rightarrow> ('w, unit) step" where
  "capture_final R = step_bind (read_clock R) (\<lambda>t s.
     case pf_propose (rc_env R) (gw_workspace (rn_gateway s)) (proposal_message (pb_identity (rc_binding R))) t (rn_world s) of
       (x, w) \<Rightarrow>
       let s' = s\<lparr>rn_world := w\<rparr> in
       (case x of
          Inl No_Changes \<Rightarrow> (Inr (), s'\<lparr>rn_capture_error := Some CAPTURE_NO_CHANGES\<rparr>)
        | Inl (Propose_Exn (Workspace_Exn _)) \<Rightarrow> (Inr (), s'\<lparr>rn_capture_error := Some CAPTURE_WORKSPACE_ERROR\<rparr>)
        | Inl (Propose_Exn (Io_Exn _)) \<Rightarrow> (Inr (), s'\<lparr>rn_capture_error := Some CAPTURE_WORKSPACE_ERROR\<rparr>)
        | Inl (Propose_Exn e) \<Rightarrow> (Inl (step_of e), s')
        | Inr p \<Rightarrow>
            let c = capture_of (run_id_of R) p in
            if final_capture_ok (rc_env R) c then (Inr (), s'\<lparr>rn_capture := Some c\<rparr>)
            else (Inr (), s'\<lparr>rn_capture_error := Some CAPTURE_WORKSPACE_ERROR\<rparr>)))"

definition remove_workspace :: "'w run_config \<Rightarrow> ('w, unit) step" where
  "remove_workspace R = (\<lambda>s.
     if lc_phase (rn_lifecycle s) \<noteq> PF_CLEANUP then (Inr (), s)
     else (case pf_cleanup (rc_env R) (wr_workspace_id (wh_record (gw_workspace (rn_gateway s)))) (rn_world s) of
         (Inr _, w) \<Rightarrow> lifecycle_do R Close (s\<lparr>rn_world := w, rn_cleaned := True\<rparr>)
       | (Inl (Workspace_Exn _), w) \<Rightarrow> lifecycle_do R Fail_Cleanup (s\<lparr>rn_world := w\<rparr>)
       | (Inl (Io_Exn _), w) \<Rightarrow> lifecycle_do R Fail_Cleanup (s\<lparr>rn_world := w\<rparr>)
       | (Inl e, w) \<Rightarrow> (Inl (step_of e), s\<lparr>rn_world := w\<rparr>)))"

definition finish_cleanup :: "'w run_config \<Rightarrow> ('w, unit) step" where
  "finish_cleanup R = (\<lambda>s.
     let p = lc_phase (rn_lifecycle s) in
     step_bind
       (if p = PF_REPORTED then step_bind (capture_final R) (\<lambda>_. lifecycle_do R Begin_Cleanup)
        else if p = PF_FINALIZE then lifecycle_do R (Finalization_Failed ENGINE_ERROR)
        else if p \<notin> {PF_CLEANUP, PF_CLOSED} then
          step_bind (record_failure R ENGINE_ERROR) (\<lambda>_ s'.
            if lc_phase (rn_lifecycle s') = PF_FINALIZE then lifecycle_do R (Finalization_Failed ENGINE_ERROR) s' else (Inr (), s'))
        else step_ret ())
       (\<lambda>_. remove_workspace R) s)"

definition completion_of :: "'w run_config \<Rightarrow> 'w runtime \<Rightarrow> runtime_completion" where
  "completion_of R s = \<lparr>cp_identity = pb_identity (rc_binding R), cp_snapshot = rn_lifecycle s, cp_report = rn_report s,
     cp_results = rn_results s, cp_tool_calls = gw_records (rn_gateway s), cp_executions = map snd (gw_executions (rn_gateway s)),
     cp_usage = gateway_usage (rn_gateway s), cp_renewals = rn_renewals s, cp_states = rn_states s, cp_capture = rn_capture s,
     cp_capture_error = rn_capture_error s, cp_refusal = rn_refusal s, cp_cleaned = rn_cleaned s\<rparr>"

text \<open>\<open>execute\<close>: the loop, the cleanup in every case, and the completion, which must satisfy its model.\<close>

definition execute :: "'w run_config \<Rightarrow> nat \<Rightarrow> 'w runtime \<Rightarrow> ((step_exn + runtime_completion) \<times> 'w runtime) option" where
  "execute R fuel s =
     (case (case start_run R s of (Inl e, s1) \<Rightarrow> Some (Inl e, s1) | (Inr _, s1) \<Rightarrow> runtime_loop R fuel s1) of
        None \<Rightarrow> None
      | Some (x, s2) \<Rightarrow>
          (case finish_cleanup R s2 of
             (Inl e, s3) \<Rightarrow> Some (Inl e, s3)
           | (Inr _, s3) \<Rightarrow>
               (case x of
                  Inl e \<Rightarrow> Some (Inl e, s3)
                | Inr _ \<Rightarrow>
                    if completion_ok (rc_env R) (completion_of R s3) then Some (Inr (completion_of R s3), s3)
                    else Some (Inl (Raised ''ValidationError''), s3))))"

end
