(* ===== verification/PatchForgeGatewayFacts.thy ===== *)
theory PatchForgeGatewayFacts
  imports PatchForgeRuntime
begin

text \<open>
  Facts about the gateway: what a call can change, what its record says, and the ledgers that stay within the
  budgets over every sequence of calls.
\<close>

section \<open>The size of the failure envelopes\<close>

text \<open>NFC leaves ASCII text as it is.\<close>

definition ascii_stable :: "('w, 'b) pf_env_scheme \<Rightarrow> bool" where
  "ascii_stable E \<longleftrightarrow> (\<forall>s. env_nfc E (lit s) = lit s)"

definition plain_text :: "ustr \<Rightarrow> bool" where
  "plain_text s \<longleftrightarrow> list_all (\<lambda>c. 32 \<le> c \<and> c \<le> 126 \<and> c \<noteq> 34 \<and> c \<noteq> 92) s"

lemma quote_plain: "plain_text s \<Longrightarrow> length (quote_str s) = length s + 2"
  unfolding quote_str_def plain_text_def by (induction s) (auto simp: escape_char_def)

lemma failure_sorted:
  "sort_json (output_json (Failure_Output code d)) = JObj [(lit ''attested_by'', jstr ''patchforge.runtime''), (lit ''code'', jstr code),
     (lit ''detail'', JStr d), (lit ''kind'', jstr ''failure'')]"
  by (simp add: attested_def obj_def jstr_def lit_def)

lemma failure_normalized:
  "ascii_stable E \<Longrightarrow> normalize_json (env_nfc E) (output_json (Failure_Output code (lit d))) = output_json (Failure_Output code (lit d))"
  by (simp add: ascii_stable_def attested_def obj_def jstr_def)

lemma failure_size:
  assumes "ascii_stable E" "plain_text (lit code)" "plain_text (lit d)"
  shows "output_size E (Failure_Output code (lit d)) = 75 + length code + length d"
proof -
  have "plain_text (lit ''attested_by'')" "plain_text (lit ''patchforge.runtime'')" "plain_text (lit ''code'')"
    "plain_text (lit ''detail'')" "plain_text (lit ''kind'')" "plain_text (lit ''failure'')"
    by (simp_all add: plain_text_def lit_def)
  with assms(2,3) show ?thesis
    by (simp add: output_size_def canonical_json_def failure_normalized [OF assms(1)] failure_sorted jstr_def quote_plain
        del: output_json.simps)
qed

lemma exceeded_fit:
  assumes "ascii_stable E"
  shows "output_size E output_exceeded < 512" "output_size E duration_exceeded < 512"
proof -
  have "plain_text (lit ''output_budget_exceeded'')" "plain_text (lit ''Tool output exceeded the remaining phase output budget.'')"
    "plain_text (lit ''duration_budget_exceeded'')" "plain_text (lit ''Tool execution exceeded the remaining phase duration budget.'')"
    by (simp_all add: plain_text_def lit_def)
  then show "output_size E output_exceeded < 512" "output_size E duration_exceeded < 512"
    by (simp_all only: output_exceeded_def duration_exceeded_def failure_size [OF assms]) simp_all
qed

section \<open>One call\<close>

lemma check_budget_Inr:
  "check_budget b g tool phase = Inr budget \<longleftrightarrow>
     for_phase b phase = Some budget
     \<and> int (phase_calls g phase) < ph_tool_calls budget
     \<and> (report_output_reserve tool phase \<noteq> 0 \<longrightarrow> int (phase_calls g phase) + 1 < ph_tool_calls budget)
     \<and> int (gw_output g phase) + report_output_reserve tool phase + 512 \<le> ph_output_bytes budget
     \<and> int (length (gw_records g)) < rb_total_tool_calls b - (if phase \<noteq> PF_FINALIZE then ph_tool_calls (rb_finalization_reserve b) else 0)
     \<and> spent_duration g < second * (rb_total_duration_seconds b - (if phase \<noteq> PF_FINALIZE then ph_duration_seconds (rb_finalization_reserve b) else 0))"
  by (auto simp: check_budget_def Let_def min_envelope_def split: option.splits if_splits)

text \<open>What the attempt leaves alone.\<close>

definition same_ledgers :: "pf_gateway \<Rightarrow> pf_gateway \<Rightarrow> bool" where
  "same_ledgers g h \<longleftrightarrow> gw_records h = gw_records g \<and> gw_executions h = gw_executions g
     \<and> gw_duration h = gw_duration g \<and> gw_output h = gw_output g"

lemma attempt_ledgers: "attempt E B tool args phase call g w = (x, g', w') \<Longrightarrow> same_ledgers g g'"
  by (auto simp: attempt_def Let_def same_ledgers_def split: sum.splits prod.splits tool_exn.splits if_splits)

lemma attempt_authorized:
  assumes "attempt E B tool args phase call g w = (Inr c, g', w')" "co_code c = None \<or> co_execution c \<noteq> None"
  shows "tool \<in> set (allowed_tools (pb_policy B)) \<and> phase \<in> phases_by_tool tool"
  using assms
  by (auto simp: attempt_def Let_def authorize_def failed_call_def split: sum.splits prod.splits tool_exn.splits if_splits)

lemma attempt_code:
  assumes "attempt E B tool args phase call g w = (Inr c, g', w')"
  shows "co_status c = TOOL_SUCCEEDED \<longleftrightarrow> co_code c = None"
  using assms
  by (auto simp: attempt_def Let_def failed_call_def status_for_execution_def
      split: sum.splits prod.splits tool_exn.splits if_splits option.splits sandbox_status.splits)

text \<open>What an execution comes from: the operator's command for the purpose that the tool has in the phase, run by the
  sandbox for this run and this call under the operator's policy, in the worktree that was verified for the call.\<close>

definition operator_run ::
  "'w pf_env \<Rightarrow> pf_binding \<Rightarrow> tool_name \<Rightarrow> pf_phase \<Rightarrow> uuid \<Rightarrow> sandbox_execution \<Rightarrow> bool" where
  "operator_run E B tool phase call x \<longleftrightarrow> (\<exists>purpose cmd h h' w w1 w2.
     command_purpose_for tool phase = Some purpose \<and> profile_command (pb_profile B) purpose = Some cmd
     \<and> pf_verify E h w = (Inr h', w1)
     \<and> pf_sandbox E (run_id (pb_identity B)) call (wh_worktree h') cmd (profile_sandbox (pb_profile B)) w1 = (Inr x, w2))"

lemma plain_none: "plain m w = (Inr (out, x), w') \<Longrightarrow> x = None"
  by (auto simp: plain_def act_bind_def act_ret_def split: prod.splits sum.splits)

lemma purpose_workspace: "command_purpose_for tool phase = Some purpose \<Longrightarrow> requires_workspace tool"
  by (cases tool) (auto simp: command_purpose_for_def requires_workspace_def)

lemma dispatch_runs:
  assumes "dispatch E B g args tool phase call w = (Inr (out, Some x), w')"
  obtains purpose cmd where "command_purpose_for tool phase = Some purpose" "profile_command (pb_profile B) purpose = Some cmd"
    "pf_sandbox E (run_id (pb_identity B)) call (wh_worktree (gw_workspace g)) cmd (profile_sandbox (pb_profile B)) w = (Inr x, w')"
proof -
  from assms obtain purpose where purpose: "command_purpose_for tool phase = Some purpose"
    and run: "act_bind (execute_command E B g purpose phase call) (\<lambda>x. act_ret (execution_output E purpose x, Some x)) w
      = (Inr (out, Some x), w')"
    by (auto simp: dispatch_def Let_def act_raise_def dest!: plain_none split: tool_args.splits if_splits option.splits)
  from run have "execute_command E B g purpose phase call w = (Inr x, w')"
    by (auto simp: act_bind_def act_ret_def split: prod.splits sum.splits)
  then obtain cmd where "profile_command (pb_profile B) purpose = Some cmd"
    "pf_sandbox E (run_id (pb_identity B)) call (wh_worktree (gw_workspace g)) cmd (profile_sandbox (pb_profile B)) w = (Inr x, w')"
    by (auto simp: execute_command_def act_raise_def split: option.splits if_splits)
  with purpose show thesis by (rule that)
qed

lemma attempt_runs:
  assumes "attempt E B tool args phase call g w = (Inr c, g', w')" "co_execution c = Some x"
  shows "operator_run E B tool phase call x"
proof -
  obtain h w1 w2 out where v: "(if requires_workspace tool then pf_verify E (gw_workspace g) w else (Inr (gw_workspace g), w)) = (Inr h, w1)"
    and d: "dispatch E B (g\<lparr>gw_workspace := h\<rparr>) args tool phase call w1 = (Inr (out, Some x), w2)"
    using assms by (auto simp: attempt_def Let_def failed_call_def split: sum.splits prod.splits tool_exn.splits)
  show ?thesis
  proof (rule dispatch_runs [OF d])
    fix purpose cmd
    assume "command_purpose_for tool phase = Some purpose" "profile_command (pb_profile B) purpose = Some cmd"
      "pf_sandbox E (run_id (pb_identity B)) call (wh_worktree (gw_workspace (g\<lparr>gw_workspace := h\<rparr>))) cmd
         (profile_sandbox (pb_profile B)) w1 = (Inr x, w2)"
    with v purpose_workspace show ?thesis unfolding operator_run_def by fastforce
  qed
qed

text \<open>The facts of one recorded call, for the invariants.\<close>

inductive gateway_call ::
  "'w pf_env \<Rightarrow> pf_binding \<Rightarrow> pf_gateway \<Rightarrow> tool_call_record \<Rightarrow> int \<Rightarrow> sandbox_execution option \<Rightarrow> tool_output \<Rightarrow> pf_gateway \<Rightarrow> bool"
  for E B g where
  "\<lbrakk>check_budget (policy_budgets (pb_policy B)) g (tc_tool r) (tc_phase r) = Inr budget; same_ledgers g g1;
    tool_call_ok r; tc_run_id r = run_id (pb_identity B); tc_sequence r = length (gw_records g) + 1;
    elapsed = max 0 (tc_completed_at r - tc_started_at r); tc_output_bytes r = output_size E out;
    int (gw_output g (tc_phase r) + output_size E out) \<le> ph_output_bytes budget - report_output_reserve (tc_tool r) (tc_phase r)
      \<or> out = output_exceeded \<or> out = duration_exceeded;
    tc_status r = TOOL_SUCCEEDED \<or> x \<noteq> None \<longrightarrow> tc_tool r \<in> set (allowed_tools (pb_policy B)) \<and> tc_phase r \<in> phases_by_tool (tc_tool r);
    h = ledger g1 r elapsed x;
    \<forall>y. x = Some y \<longrightarrow> operator_run E B (tc_tool r) (tc_phase r) (tc_call_id r) y\<rbrakk>
   \<Longrightarrow> gateway_call E B g r elapsed x out h"

lemma record_call_cases:
  assumes "record_call E B budget tool args phase call started completed c0 g = (x, g')"
  shows "(x = Inl (Escaped ''ValidationError'') \<and> g' = g)
    \<or> (\<exists>c t r. settle E g budget tool phase (max 0 (completed - started)) c0 = (c, t)
        \<and> r = \<lparr>tc_call_id = call, tc_run_id = run_id (pb_identity B), tc_sequence = length (gw_records g) + 1,
               tc_phase = phase, tc_tool = tool, tc_arguments_sha256 = object_digest E (args_json args),
               tc_status = co_status c, tc_started_at = started, tc_completed_at = completed,
               tc_output_bytes = output_size E (co_output c), tc_truncated = t, tc_error_code = co_code c\<rparr>
        \<and> tool_call_ok r \<and> g' = ledger g r (max 0 (completed - started)) (co_execution c)
        \<and> x = (if gateway_result_ok \<lparr>gr_record = r, gr_output = co_output c, gr_execution = co_execution c\<rparr>
               then Inr \<lparr>gr_record = r, gr_output = co_output c, gr_execution = co_execution c\<rparr>
               else Inl (Escaped ''ValidationError'')))"
proof (cases "settle E g budget tool phase (max 0 (completed - started)) c0")
  case (Pair c t)
  with assms show ?thesis
    unfolding record_call_def Let_def by (auto split: if_splits)
qed

lemma settle_cases:
  assumes "settle E g budget tool phase elapsed c0 = (c, t)"
  shows "co_execution c = co_execution c0"
    "int (gw_output g phase + output_size E (co_output c)) \<le> ph_output_bytes budget - report_output_reserve tool phase
       \<or> co_output c = output_exceeded \<or> co_output c = duration_exceeded"
    "co_status c = co_status c0 \<and> co_code c = co_code c0 \<and> co_output c = co_output c0
       \<or> co_status c = TOOL_FAILED \<and> co_code c \<noteq> None \<and> is_budget_failure (co_output c)"
  using assms
  by (auto simp: settle_def within_output_def within_duration_def output_exceeded_def duration_exceeded_def
      budget_failure_codes_def split: if_splits)

text \<open>A call refuses before it does anything, or its ledgers stay the same, or it is recorded.\<close>

lemma invoke_cases:
  assumes "invoke E B tool args phase g w = (x, g', w')"
  shows "(\<exists>e. x = Inl e) \<and> same_ledgers g g'
    \<or> (\<exists>r elapsed xo out. gateway_call E B g r elapsed xo out g' \<and> tc_tool r = tool \<and> tc_phase r = phase
         \<and> args_match tool args \<and> args_ok args
         \<and> (x = Inr \<lparr>gr_record = r, gr_output = out, gr_execution = xo\<rparr> \<and> gateway_result_ok \<lparr>gr_record = r, gr_output = out, gr_execution = xo\<rparr>
            \<or> x = Inl (Escaped ''ValidationError'')))"
proof (cases "args_match tool args \<and> args_ok args")
  case False
  with assms show ?thesis by (auto simp: invoke_def same_ledgers_def split: if_splits)
next
  case True
  show ?thesis
  proof (cases "check_budget (policy_budgets (pb_policy B)) g tool phase")
    case (Inl e)
    with assms True show ?thesis by (auto simp: invoke_def same_ledgers_def)
  next
    case (Inr budget)
    obtain call w1 where 1: "pf_id E w = (call, w1)" by force
    obtain started w2 where 2: "pf_now E w1 = (started, w2)" by force
    obtain y g1 w3 where 3: "attempt E B tool args phase call g w2 = (y, g1, w3)" by (metis prod_cases3)
    note same = attempt_ledgers [OF 3]
    show ?thesis
    proof (cases y)
      case (Inl e)
      with assms True Inr 1 2 3 same show ?thesis by (auto simp: invoke_def)
    next
      case y: (Inr c0)
      obtain completed w4 where 4: "pf_now E w3 = (completed, w4)" by force
      from assms True Inr 1 2 3 4 y have r: "record_call E B budget tool args phase call started completed c0 g1 = (x, g')"
        by (auto simp: invoke_def split: prod.splits)
      from record_call_cases [OF r] show ?thesis
      proof (elim disjE conjE exE)
        assume "x = Inl (Escaped ''ValidationError'')" "g' = g1"
        with same show ?thesis by simp
      next
        fix c t rec
        assume s: "settle E g1 budget tool phase (max 0 (completed - started)) c0 = (c, t)"
          and rec: "rec = \<lparr>tc_call_id = call, tc_run_id = run_id (pb_identity B), tc_sequence = length (gw_records g1) + 1,
               tc_phase = phase, tc_tool = tool, tc_arguments_sha256 = object_digest E (args_json args),
               tc_status = co_status c, tc_started_at = started, tc_completed_at = completed,
               tc_output_bytes = output_size E (co_output c), tc_truncated = t, tc_error_code = co_code c\<rparr>"
          and ok: "tool_call_ok rec" and g': "g' = ledger g1 rec (max 0 (completed - started)) (co_execution c)"
          and x: "x = (if gateway_result_ok \<lparr>gr_record = rec, gr_output = co_output c, gr_execution = co_execution c\<rparr>
               then Inr \<lparr>gr_record = rec, gr_output = co_output c, gr_execution = co_execution c\<rparr>
               else Inl (Escaped ''ValidationError''))"
        note settled = settle_cases [OF s]
        have auth: "co_status c = TOOL_SUCCEEDED \<or> co_execution c \<noteq> None
            \<Longrightarrow> tool \<in> set (allowed_tools (pb_policy B)) \<and> phase \<in> phases_by_tool tool"
          using settled attempt_authorized [OF 3 [unfolded y]] attempt_code [OF 3 [unfolded y]] by auto
        have ran: "\<forall>y. co_execution c = Some y \<longrightarrow> operator_run E B tool phase call y"
          using settled(1) attempt_runs [OF 3 [unfolded y]] by simp
        have "gateway_call E B g rec (max 0 (completed - started)) (co_execution c) (co_output c) g'"
          by (rule gateway_call.intros [of B g rec budget g1])
            (use Inr same ok settled auth g' ran in \<open>auto simp: rec same_ledgers_def\<close>)
        moreover have "tc_tool rec = tool" "tc_phase rec = phase" by (simp_all add: rec)
        moreover have "x = Inr \<lparr>gr_record = rec, gr_output = co_output c, gr_execution = co_execution c\<rparr>
            \<and> gateway_result_ok \<lparr>gr_record = rec, gr_output = co_output c, gr_execution = co_execution c\<rparr>
            \<or> x = Inl (Escaped ''ValidationError'')" using x by (auto split: if_splits)
        ultimately show ?thesis using True by blast
      qed
    qed
  qed
qed

section \<open>The ledgers\<close>

definition phase_records :: "pf_gateway \<Rightarrow> pf_phase \<Rightarrow> tool_call_record list" where
  "phase_records g p = filter (\<lambda>r. tc_phase r = p) (gw_records g)"

definition early_records :: "pf_gateway \<Rightarrow> tool_call_record list" where
  "early_records g = filter (\<lambda>r. tc_phase r \<noteq> PF_FINALIZE) (gw_records g)"

text \<open>What every sequence of calls keeps.\<close>

definition ledgers_ok :: "pf_binding \<Rightarrow> pf_gateway \<Rightarrow> bool" where
  "ledgers_ok B g \<longleftrightarrow>
     map tc_sequence (gw_records g) = [1 ..< Suc (length (gw_records g))]
     \<and> (\<forall>r \<in> set (gw_records g). tool_call_ok r \<and> tc_run_id r = run_id (pb_identity B)
          \<and> for_phase (policy_budgets (pb_policy B)) (tc_phase r) \<noteq> None
          \<and> (tc_status r = TOOL_SUCCEEDED \<longrightarrow> tc_tool r \<in> set (allowed_tools (pb_policy B)) \<and> tc_phase r \<in> phases_by_tool (tc_tool r)))
     \<and> (\<forall>p. gw_output g p = sum_list (map tc_output_bytes (phase_records g p)))
     \<and> (\<forall>p. gw_duration g p = sum_list (map (\<lambda>r. max 0 (tc_completed_at r - tc_started_at r)) (phase_records g p)))
     \<and> (\<forall>p. 0 \<le> gw_duration g p)
     \<and> (\<forall>p. phase_records g p = [] \<longrightarrow> gw_duration g p = 0)"

definition within_budgets :: "run_budgets \<Rightarrow> pf_gateway \<Rightarrow> bool" where
  "within_budgets b g \<longleftrightarrow>
     (\<forall>p pb. for_phase b p = Some pb \<longrightarrow> phase_records g p = [] \<or> int (length (phase_records g p)) \<le> ph_tool_calls pb)
     \<and> int (length (early_records g)) \<le> rb_total_tool_calls b - ph_tool_calls (rb_finalization_reserve b)
     \<and> int (length (gw_records g)) \<le> rb_total_tool_calls b
     \<and> (\<forall>p pb. for_phase b p = Some pb \<longrightarrow> gw_output g p = 0 \<or> int (gw_output g p) \<le> ph_output_bytes pb)"

text \<open>In finalization, other tools leave a call and an envelope to the report.\<close>

definition report_reserved :: "run_budgets \<Rightarrow> pf_gateway \<Rightarrow> bool" where
  "report_reserved b g \<longleftrightarrow>
     (\<forall>r \<in> set (phase_records g PF_FINALIZE). tc_tool r \<noteq> SUBMIT_REPORT) \<longrightarrow> phase_records g PF_FINALIZE \<noteq> [] \<longrightarrow>
       int (length (phase_records g PF_FINALIZE)) < ph_tool_calls (rb_finalization_reserve b)
       \<and> int (gw_output g PF_FINALIZE) + 512 \<le> ph_output_bytes (rb_finalization_reserve b)"

lemma ledger_simps [simp]:
  "gw_records (ledger g r e x) = gw_records g @ [r]" "gw_workspace (ledger g r e x) = gw_workspace g"
  "gw_duration (ledger g r e x) = (gw_duration g)(tc_phase r := gw_duration g (tc_phase r) + e)"
  "gw_output (ledger g r e x) = (gw_output g)(tc_phase r := gw_output g (tc_phase r) + tc_output_bytes r)"
  by (simp_all add: ledger_def)

lemma phase_records_ledger:
  "phase_records (ledger g r e x) p = phase_records g p @ (if tc_phase r = p then [r] else [])"
  by (simp add: phase_records_def)

lemma early_records_ledger: "early_records (ledger g r e x) = early_records g @ (if tc_phase r = PF_FINALIZE then [] else [r])"
  by (simp add: early_records_def)

lemma phase_calls_records: "phase_calls g p = length (phase_records g p)"
  by (simp add: phase_calls_def phase_records_def)

lemma same_ledgers_records: "same_ledgers g h \<Longrightarrow> phase_records h p = phase_records g p \<and> early_records h = early_records g"
  by (simp add: same_ledgers_def phase_records_def early_records_def)

lemma same_ledgers_ok:
  assumes "same_ledgers g h"
  shows "ledgers_ok B h = ledgers_ok B g" "within_budgets b h = within_budgets b g" "report_reserved b h = report_reserved b g"
  using assms same_ledgers_records [OF assms] by (simp_all add: ledgers_ok_def within_budgets_def report_reserved_def same_ledgers_def)

lemma gateway_call_ledgers:
  assumes "gateway_call E B g r elapsed x out h" "ledgers_ok B g"
  shows "ledgers_ok B h"
  using assms(1)
proof (cases rule: gateway_call.cases)
  case (1 budget g1)
  have eq: "gw_records g1 = gw_records g" "gw_duration g1 = gw_duration g" "gw_output g1 = gw_output g"
    "phase_records g1 = phase_records g"
    using 1(2) same_ledgers_records [OF 1(2)] by (auto simp: same_ledgers_def)
  note old = assms(2) [unfolded ledgers_ok_def]
  have "for_phase (policy_budgets (pb_policy B)) (tc_phase r) \<noteq> None" using 1(1) by (auto simp: check_budget_Inr)
  moreover have "0 \<le> elapsed" using 1(6) by simp
  moreover have "map tc_sequence (gw_records h) = [1 ..< Suc (length (gw_records h))]"
    using old 1 eq by simp
  ultimately show ?thesis
    using old 1 eq unfolding ledgers_ok_def 1(10) phase_records_ledger eq ledger_simps by (auto simp: add_nonneg_nonneg)
qed

text \<open>Every execution the gateway keeps belongs to a recorded call that was allowed to run it.\<close>

definition executions_ok :: "'w pf_env \<Rightarrow> pf_binding \<Rightarrow> pf_gateway \<Rightarrow> bool" where
  "executions_ok E B g \<longleftrightarrow> (\<forall>(call, x) \<in> set (gw_executions g). \<exists>r \<in> set (gw_records g). tc_call_id r = call
     \<and> tc_tool r \<in> set (allowed_tools (pb_policy B)) \<and> tc_phase r \<in> phases_by_tool (tc_tool r)
     \<and> operator_run E B (tc_tool r) (tc_phase r) call x)"

lemma dict_put_set: "set (dict_put k v kvs) \<subseteq> insert (k, v) (set kvs)"
  by (auto simp: dict_put_def split: if_splits)

lemma gateway_call_executions:
  assumes "gateway_call E B g r elapsed x out h" "executions_ok E B g"
  shows "executions_ok E B h"
  using assms(1)
proof (cases rule: gateway_call.cases)
  case (1 budget g1)
  have old: "gw_executions g1 = gw_executions g" "gw_records h = gw_records g @ [r]"
    using 1(2,10) by (simp_all add: same_ledgers_def)
  have "set (gw_executions h) \<subseteq> (case x of None \<Rightarrow> set (gw_executions g) | Some y \<Rightarrow> insert (tc_call_id r, y) (set (gw_executions g)))"
    by (cases x) (simp_all add: 1(10) ledger_def old(1) dict_put_set)
  then show ?thesis
    using assms(2) 1(9,11) unfolding executions_ok_def old(2) by (cases x) (fastforce)+
qed

lemma gateway_call_output:
  assumes "gateway_call E B g r elapsed x out h" "ascii_stable E"
    "for_phase (policy_budgets (pb_policy B)) (tc_phase r) = Some pb"
  shows "int (gw_output h (tc_phase r)) + report_output_reserve (tc_tool r) (tc_phase r) \<le> ph_output_bytes pb"
  using assms(1)
proof (cases rule: gateway_call.cases)
  case (1 budget g1)
  have "pb = budget" using 1(1) assms(3) by (auto simp: check_budget_Inr)
  moreover have "gw_output h (tc_phase r) = gw_output g (tc_phase r) + output_size E out"
    using 1 by (simp add: same_ledgers_def)
  moreover have "out = output_exceeded \<or> out = duration_exceeded \<Longrightarrow> output_size E out < 512"
    using exceeded_fit [OF assms(2)] by auto
  moreover have "int (gw_output g (tc_phase r)) + report_output_reserve (tc_tool r) (tc_phase r) + 512 \<le> ph_output_bytes budget"
    using 1(1) by (simp add: check_budget_Inr)
  ultimately show ?thesis using 1(8) by auto
qed

lemma gateway_call_budgets:
  assumes "gateway_call E B g r elapsed x out h" "b = policy_budgets (pb_policy B)" "run_budgets_ok b" "ascii_stable E"
    "within_budgets b g"
  shows "within_budgets b h"
  using assms(1)
proof (cases rule: gateway_call.cases)
  case (1 budget g1)
  have eq: "phase_records g1 = phase_records g" "early_records g1 = early_records g" "gw_records g1 = gw_records g"
    "gw_output g1 = gw_output g"
    using 1(2) same_ledgers_records [OF 1(2)] by (auto simp: same_ledgers_def)
  have check: "for_phase b (tc_phase r) = Some budget" "int (length (phase_records g (tc_phase r))) < ph_tool_calls budget"
    "int (length (gw_records g)) < rb_total_tool_calls b - (if tc_phase r \<noteq> PF_FINALIZE then ph_tool_calls (rb_finalization_reserve b) else 0)"
    using 1(1) assms(2) by (auto simp: check_budget_Inr phase_calls_records)
  have reserve: "0 \<le> ph_tool_calls (rb_finalization_reserve b)" using assms(3) by (simp add: run_budgets_ok_def)
  have out: "int (gw_output h (tc_phase r)) \<le> ph_output_bytes budget"
    using gateway_call_output [OF assms(1,4)] check(1) assms(2) by (force simp: report_output_reserve_def min_envelope_def split: if_splits)
  have early: "length (early_records g) \<le> length (gw_records g)" by (simp add: early_records_def)
  note old = assms(5) [unfolded within_budgets_def]
  show ?thesis
    unfolding within_budgets_def
  proof (intro conjI allI impI)
    fix p pb assume p: "for_phase b p = Some pb"
    show "phase_records h p = [] \<or> int (length (phase_records h p)) \<le> ph_tool_calls pb"
      using old p check 1(10) by (auto simp: phase_records_ledger eq)
    show "gw_output h p = 0 \<or> int (gw_output h p) \<le> ph_output_bytes pb"
      using old p check out 1(10) by (cases "p = tc_phase r") (auto simp: eq)
  qed (use old check early reserve 1(10) in \<open>auto simp: early_records_ledger eq split: if_splits\<close>)
qed

lemma gateway_call_reserved:
  assumes "gateway_call E B g r elapsed x out h" "b = policy_budgets (pb_policy B)" "ascii_stable E" "report_reserved b g"
  shows "report_reserved b h"
  using assms(1)
proof (cases rule: gateway_call.cases)
  case (1 budget g1)
  have eq: "phase_records g1 = phase_records g" "gw_output g1 = gw_output g"
    using 1(2) same_ledgers_records [OF 1(2)] by (auto simp: same_ledgers_def)
  show ?thesis
  proof (cases "tc_phase r = PF_FINALIZE \<and> tc_tool r \<noteq> SUBMIT_REPORT")
    case True
    then have "for_phase (policy_budgets (pb_policy B)) (tc_phase r) = Some (rb_finalization_reserve b)"
      using assms(2) by simp
    from gateway_call_output [OF assms(1,3) this] 1(1) True assms(2) show ?thesis
      by (auto simp: report_reserved_def check_budget_Inr phase_calls_records report_output_reserve_def min_envelope_def
          phase_records_ledger eq 1(10))
  next
    case False
    with assms(4) show ?thesis
      by (auto simp: report_reserved_def 1(10) phase_records_ledger eq)
  qed
qed

text \<open>Only the time limit of the run can refuse the report when the reserve is large enough for its envelope.\<close>

lemma report_possible:
  assumes "run_budgets_ok b" "within_budgets b g" "report_reserved b g" "gw_output g PF_FINALIZE = 0 \<or> phase_records g PF_FINALIZE \<noteq> []"
    "512 \<le> ph_output_bytes (rb_finalization_reserve b)" "\<forall>r \<in> set (phase_records g PF_FINALIZE). tc_tool r \<noteq> SUBMIT_REPORT"
    "spent_duration g < second * rb_total_duration_seconds b"
  shows "check_budget b g SUBMIT_REPORT PF_FINALIZE = Inr (rb_finalization_reserve b)"
proof -
  have count: "length (gw_records g) = length (early_records g) + length (phase_records g PF_FINALIZE)"
    using sum_length_filter_compl [of "\<lambda>r. tc_phase r = PF_FINALIZE" "gw_records g"]
    by (simp add: early_records_def phase_records_def)
  have calls: "int (length (phase_records g PF_FINALIZE)) < ph_tool_calls (rb_finalization_reserve b)
      \<and> int (gw_output g PF_FINALIZE) + 512 \<le> ph_output_bytes (rb_finalization_reserve b)"
    using assms by (cases "phase_records g PF_FINALIZE = []") (auto simp: report_reserved_def run_budgets_ok_def)
  with assms count show ?thesis
    by (auto simp: check_budget_Inr phase_calls_records report_output_reserve_def within_budgets_def)
qed

section \<open>Every sequence of calls\<close>

inductive gateway_reaches :: "'w pf_env \<Rightarrow> pf_binding \<Rightarrow> pf_gateway \<Rightarrow> pf_gateway \<Rightarrow> bool" for E B g where
  start: "gateway_reaches E B g g"
| call: "gateway_reaches E B g h \<Longrightarrow> invoke E B tool args phase h w = (x, h', w') \<Longrightarrow> gateway_reaches E B g h'"
| refresh: "gateway_reaches E B g h \<Longrightarrow> refresh_workspace E d h w = (x, h', w') \<Longrightarrow> gateway_reaches E B g h'"

definition gateway_inv :: "pf_binding \<Rightarrow> pf_gateway \<Rightarrow> bool" where
  "gateway_inv B g \<longleftrightarrow> ledgers_ok B g \<and> within_budgets (policy_budgets (pb_policy B)) g
     \<and> report_reserved (policy_budgets (pb_policy B)) g"

lemma refresh_ledgers: "refresh_workspace E d g w = (x, g', w') \<Longrightarrow> same_ledgers g g'"
  by (auto simp: refresh_workspace_def same_ledgers_def Let_def split: if_splits sum.splits prod.splits)

lemma invoke_inv:
  assumes "invoke E B tool args phase g w = (x, g', w')" "gateway_inv B g" "ascii_stable E" "run_budgets_ok (policy_budgets (pb_policy B))"
  shows "gateway_inv B g'"
  using invoke_cases [OF assms(1)]
proof (elim disjE conjE exE)
  assume "same_ledgers g g'"
  with assms(2) show ?thesis by (simp add: gateway_inv_def same_ledgers_ok)
next
  fix r elapsed xo out assume c: "gateway_call E B g r elapsed xo out g'"
  from gateway_call_ledgers [OF c] gateway_call_budgets [OF c refl assms(4,3)] gateway_call_reserved [OF c refl assms(3)] assms(2)
  show ?thesis by (simp add: gateway_inv_def)
next
  fix r elapsed xo out assume c: "gateway_call E B g r elapsed xo out g'"
  from gateway_call_ledgers [OF c] gateway_call_budgets [OF c refl assms(4,3)] gateway_call_reserved [OF c refl assms(3)] assms(2)
  show ?thesis by (simp add: gateway_inv_def)
qed

lemma empty_gateway_inv:
  assumes "gw_records g = []" "gw_duration g = (\<lambda>_. 0)" "gw_output g = (\<lambda>_. 0)" "run_budgets_ok (policy_budgets (pb_policy B))"
  shows "gateway_inv B g"
proof -
  have "0 \<le> rb_total_tool_calls b - ph_tool_calls (rb_finalization_reserve b)" if "run_budgets_ok b" for b
    using that by (auto simp: run_budgets_ok_def budget_phases_def phase_budget_ok_def)
  with assms show ?thesis
    by (auto simp: gateway_inv_def ledgers_ok_def within_budgets_def report_reserved_def phase_records_def early_records_def run_budgets_ok_def)
qed

lemma gateway_init_inv:
  "gateway_init E B h w = (Inr g, w') \<Longrightarrow> run_budgets_ok (policy_budgets (pb_policy B)) \<Longrightarrow> gateway_inv B g"
  by (auto simp: gateway_init_def intro!: empty_gateway_inv split: if_splits sum.splits prod.splits)

lemma gateway_reaches_inv:
  assumes "gateway_reaches E B g h" "gateway_inv B g" "ascii_stable E" "run_budgets_ok (policy_budgets (pb_policy B))"
  shows "gateway_inv B h"
  using assms(1)
proof induction
  case start
  show ?case by (rule assms(2))
next
  case (call h tool args phase w x h' w')
  show ?case by (rule invoke_inv [OF call(2,3) assms(3,4)])
next
  case (refresh h d w x h' w')
  with refresh_ledgers show ?case by (metis gateway_inv_def same_ledgers_ok)
qed

text \<open>Identifiers and execution evidence of an accepted call.\<close>

lemma report_evidence_iff: "report_evidence out = Some (h, es) \<longleftrightarrow> out = Report_Output h es"
  by (cases out) auto

end
