(* ===== verification/PatchForgeRuntimeFacts.thy ===== *)
theory PatchForgeRuntimeFacts
  imports PatchForgeGatewayFacts
begin

text \<open>
  Facts about the runtime: every iteration is a sequence of a few kinds of events, and what these keep (the
  lifecycle's invariant, the evidence, the report) holds at the end of every run; the measure that bounds the loop.
\<close>

section \<open>Stages\<close>

text \<open>How far a run is from its end: only failures and the report change it, and never upwards.\<close>

definition stage :: "lifecycle \<Rightarrow> nat" where
  "stage l = (if phase_rank (lc_phase l) < 9 then 3 else if lc_phase l = PF_FINALIZE then (if lc_report_only l then 1 else 2) else 0)"

lemma stage_ended: "stage l = 0 \<longleftrightarrow> ended (lc_phase l)"
  by (cases "lc_phase l") (simp_all add: stage_def ended_def)

lemma lifecycle_step_stage: "lifecycle_step l l' \<Longrightarrow> stage l' \<le> stage l"
proof (induction rule: lifecycle_step.induct)
  case (progress l p t)
  then show ?case by (cases "lc_phase l") (auto simp: stage_def lifecycle_transitions_def)
qed (auto simp: stage_def failure_to_finalize_def)

text \<open>Recording a failure always succeeds and moves to a later stage.\<close>

lemma record_failure_ok:
  assumes "lifecycle_inv (rn_lifecycle s)" "\<not> ended (lc_phase (rn_lifecycle s))" "f \<noteq> CLEANUP_FAILED"
  obtains op t y l w where "record_failure R f s = (Inr (), s\<lparr>rn_lifecycle := l, rn_world := w\<rparr>)"
    "op \<in> {Fail f, Finalization_Failed f}" "lifecycle_apply op t (rn_lifecycle s) = (Inr y, l)"
    "stage l < stage (rn_lifecycle s)" "lc_failure l \<noteq> None"
proof -
  let ?l = "rn_lifecycle s"
  obtain t w where now: "pf_now (rc_env R) (rn_world s) = (t, w)" by force
  show thesis
  proof (cases "lc_phase ?l = PF_FINALIZE")
    case True
    obtain y l where a: "lifecycle_apply (Finalization_Failed f) t ?l = (Inr y, l)" "lc_phase l = PF_CLEANUP" "lc_failure l \<noteq> None"
      using True by (auto simp: lc_finalization_failed_def lc_record_Inr)
    moreover have "stage l < stage ?l" using a(2) True by (simp add: stage_def)
    moreover have "record_failure R f s = (Inr (), s\<lparr>rn_lifecycle := l, rn_world := w\<rparr>)"
      using True a(1) now by (simp add: record_failure_def lifecycle_do_def)
    ultimately show thesis by (intro that [of w l "Finalization_Failed f" t y]) auto
  next
    case False
    then have early: "phase_rank (lc_phase ?l) < 9" "lc_phase ?l \<in> failure_to_finalize"
      using assms(2) by (cases "lc_phase ?l"; simp add: ended_def failure_to_finalize_def)+
    then have "lc_failure ?l = None" using lifecycle_invD(3) [OF assms(1)] by fastforce
    with early assms(3) obtain y l where a: "lifecycle_apply (Fail f) t ?l = (Inr y, l)" "lc_phase l = PF_FINALIZE" "lc_failure l \<noteq> None"
      by (auto simp: lc_fail_def lc_record_Inr)
    moreover have "stage l < stage ?l" using a(2) early by (simp add: stage_def)
    moreover have "record_failure R f s = (Inr (), s\<lparr>rn_lifecycle := l, rn_world := w\<rparr>)"
      using False assms(2) a(1) now by (simp add: record_failure_def lifecycle_do_def ended_def)
    ultimately show thesis by (intro that [of w l "Fail f" t y]) auto
  qed
qed

section \<open>Events\<close>

definition env_of :: "'w run_config \<Rightarrow> 'w pf_env" where "env_of R = rc_env R"

inductive run_event :: "'w run_config \<Rightarrow> 'w runtime \<Rightarrow> 'w runtime \<Rightarrow> bool" for R where
  ev_world: "run_event R s (s\<lparr>rn_world := w\<rparr>)"
| ev_lifecycle: "\<lbrakk>lifecycle_apply op t (rn_lifecycle s) = (Inr y, l); op \<notin> {Report, Reserve_Refused, Begin_Cleanup, Close, Fail_Cleanup}\<rbrakk>
    \<Longrightarrow> run_event R s (s\<lparr>rn_lifecycle := l, rn_world := w\<rparr>)"
| ev_renewed: "\<lbrakk>same_ledgers (rn_gateway s) g; ln_run_id x = run_id_of R\<rbrakk>
    \<Longrightarrow> run_event R s (s\<lparr>rn_world := w, rn_gateway := g, rn_renewals := rn_renewals s @ [x]\<rparr>)"
| ev_workspace: "same_ledgers (rn_gateway s) g \<Longrightarrow> run_event R s (s\<lparr>rn_world := w, rn_gateway := g\<rparr>)"
| ev_state: "\<lbrakk>st_run_id x = run_id_of R; st_sequence x = length (rn_states s) + 1; state_record_ok x\<rbrakk>
    \<Longrightarrow> run_event R s (s\<lparr>rn_world := w, rn_states := rn_states s @ [x]\<rparr>)"
| ev_call: "\<lbrakk>invoke (rc_env R) (rc_binding R) tool args (lc_phase (rn_lifecycle s)) (rn_gateway s) v = (Inr r, g, w);
     \<not> state_tracked tool; report_evidence (gr_output r) = None\<rbrakk>
    \<Longrightarrow> run_event R s (s\<lparr>rn_gateway := g, rn_world := w, rn_results := rn_results s @ [r], rn_previous := Some r\<rparr>)"
| ev_observed: "\<lbrakk>invoke (rc_env R) (rc_binding R) tool args (lc_phase (rn_lifecycle s)) (rn_gateway s) v = (Inr r, g, w);
     state_tracked tool; report_evidence (gr_output r) = None;
     \<exists>b \<in> set (rn_states s). st_kind b = BEFORE_CALL \<and> st_call_sequence b = Some (tc_sequence (gr_record r));
     st_run_id x = run_id_of R; st_sequence x = length (rn_states s) + 1; state_record_ok x; st_kind x = AFTER_CALL;
     st_call_sequence x = Some (tc_sequence (gr_record r))\<rbrakk>
    \<Longrightarrow> run_event R s (s\<lparr>rn_gateway := g, rn_world := w', rn_results := rn_results s @ [r], rn_previous := Some r,
          rn_states := rn_states s @ [x]\<rparr>)"
| ev_unobserved: "\<lbrakk>invoke (rc_env R) (rc_binding R) tool args (lc_phase (rn_lifecycle s)) (rn_gateway s) v = (Inr r, g, w);
     report_evidence (gr_output r) = None;
     lifecycle_apply op t (rn_lifecycle s) = (Inr y, l); op \<in> {Fail f, Finalization_Failed f}; lc_failure l \<noteq> None\<rbrakk>
    \<Longrightarrow> run_event R s (s\<lparr>rn_gateway := g, rn_world := w', rn_results := rn_results s @ [r], rn_previous := Some r, rn_lifecycle := l\<rparr>)"
| ev_report: "\<lbrakk>invoke (rc_env R) (rc_binding R) SUBMIT_REPORT (Report_Args rep) PF_FINALIZE (rn_gateway s) v = (Inr r, g, w);
     lc_phase (rn_lifecycle s) = PF_FINALIZE;
     report_evidence (gr_output r) = Some (object_digest (rc_env R) (agent_report_json rep), evidence_references rep);
     lifecycle_apply Report t (rn_lifecycle s) = (Inr y, l)\<rbrakk>
    \<Longrightarrow> run_event R s (s\<lparr>rn_gateway := g, rn_world := w', rn_results := rn_results s @ [r], rn_previous := Some r,
          rn_report := Some rep, rn_lifecycle := l\<rparr>)"
| ev_refused: "\<lbrakk>lifecycle_apply Reserve_Refused t (rn_lifecycle s) = (Inr y, l); rf_run_id f = run_id_of R\<rbrakk>
    \<Longrightarrow> run_event R s (s\<lparr>rn_refusal := Some f, rn_lifecycle := l, rn_world := w\<rparr>)"

definition run_events :: "'w run_config \<Rightarrow> 'w runtime \<Rightarrow> 'w runtime \<Rightarrow> bool" where
  "run_events R = (run_event R)\<^sup>*\<^sup>*"

lemma run_events_refl [intro, simp]: "run_events R s s"
  by (simp add: run_events_def)

lemma run_events_one: "run_event R s s' \<Longrightarrow> run_events R s s'"
  by (auto simp: run_events_def)

lemma run_events_trans: "run_events R s u \<Longrightarrow> run_events R u v \<Longrightarrow> run_events R s v"
  by (simp add: run_events_def)

section \<open>Where report evidence comes from\<close>

text \<open>Every result of an action satisfies a predicate.\<close>

definition gives :: "('w, 'a) act \<Rightarrow> ('a \<Rightarrow> bool) \<Rightarrow> bool" where
  "gives m Q \<longleftrightarrow> (\<forall>w a w'. m w = (Inr a, w') \<longrightarrow> Q a)"

named_theorems gives_intros "introduction rules for what an action gives"

lemma gives_bind [gives_intros]: "(\<And>a. gives (f a) Q) \<Longrightarrow> gives (act_bind m f) Q"
  by (fastforce simp: gives_def act_bind_def split: prod.splits sum.splits)

lemma gives_ret [gives_intros]: "Q a \<Longrightarrow> gives (act_ret a) Q"
  by (simp add: gives_def act_ret_def)

lemma gives_raise [gives_intros]: "gives (act_raise e) Q"
  by (simp add: gives_def act_raise_def)

lemma gives_pure: "(\<And>a. x = Inr a \<Longrightarrow> Q a) \<Longrightarrow> gives (\<lambda>w. (x, w)) Q"
  by (simp add: gives_def)

lemma gives_plain:
  "gives m Q \<Longrightarrow> gives (plain m) (\<lambda>(out, x). Q out \<and> x = None)"
  by (fastforce simp: gives_def plain_def act_bind_def act_ret_def split: prod.splits sum.splits)

lemma givesD: "gives m Q \<Longrightarrow> m w = (Inr a, w') \<Longrightarrow> Q a"
  unfolding gives_def by blast

text \<open>No tool of the worktree gives report evidence.\<close>

definition no_report :: "tool_output \<Rightarrow> bool" where
  "no_report out \<longleftrightarrow> report_evidence out = None"

lemma worktree_outputs [gives_intros]:
  "gives (list_tree E h path d n) no_report"
  "gives (search_code E h q path c n) no_report"
  "gives (read_file_range E h path a b n) no_report"
  "gives (inspect_symbol E h path sy) no_report"
  "gives (git_status E h) no_report"
  "gives (git_diff E h n) no_report"
  "gives (inspect_diff E p t h) no_report"
  "gives (write_patch E p t y h path x content) no_report"
  "gives (create_file E p t y h path content) no_report"
  "gives (delete_file E p t y h path x) no_report"
  unfolding list_tree_def search_code_def read_file_range_def inspect_symbol_def git_status_def git_diff_def
    inspect_diff_def checked_diff_def diff_paths_def write_patch_def create_file_def delete_file_def Let_def
  by (auto simp: no_report_def intro!: gives_intros split: option.splits)

definition from_report :: "'w pf_env \<Rightarrow> tool_args \<Rightarrow> tool_output \<Rightarrow> bool" where
  "from_report E args out \<longleftrightarrow> (\<forall>h es. report_evidence out = Some (h, es)
     \<longrightarrow> (\<exists>r. args = Report_Args r \<and> h = object_digest E (agent_report_json r) \<and> es = evidence_references r))"

lemma gives_mono: "gives m Q \<Longrightarrow> (\<And>a. Q a \<Longrightarrow> P a) \<Longrightarrow> gives m P"
  by (simp add: gives_def)

lemma plain_no_report: "gives m no_report \<Longrightarrow> gives (plain m) (\<lambda>(out, x). from_report E args out)"
  by (rule gives_mono [OF gives_plain]) (auto simp: no_report_def from_report_def)

lemma dispatch_report: "gives (dispatch E B g args tool phase call) (\<lambda>(out, x). from_report E args out)"
proof (cases args)
  case (Report_Args r)
  have "gives (plain (\<lambda>w. (report_output E g r, w))) (\<lambda>(out, x). from_report E args out)"
    by (rule gives_mono [OF gives_plain [OF gives_pure [where Q = "from_report E args"]]])
      (auto simp: report_output_def from_report_def Let_def Report_Args split: if_splits)
  with Report_Args show ?thesis by (simp add: dispatch_def Let_def)
next
  case (Inspect_Args i n)
  have "gives (\<lambda>w. (inspect_test_failure E g i n, w)) no_report"
    by (rule gives_pure) (auto simp: inspect_test_failure_def bounded_texts_def no_report_def Let_def split: option.splits if_splits)
  from plain_no_report [OF this] Inspect_Args show ?thesis by (simp add: dispatch_def Let_def)
next
  case (Advance_Args q)
  have "gives (act_ret (Phase_Request_Output phase q)) no_report" by (rule gives_ret) (simp add: no_report_def)
  from plain_no_report [OF this] Advance_Args show ?thesis by (simp add: dispatch_def Let_def)
next
  case Empty_Args
  have "gives (act_bind (execute_command E B g purpose phase call) (\<lambda>x. act_ret (execution_output E purpose x, Some x)))
      (\<lambda>(out, x). from_report E args out)" for purpose
    by (intro gives_intros) (simp add: execution_output_def from_report_def)
  with Empty_Args show ?thesis
    by (auto simp: dispatch_def Let_def intro: gives_intros plain_no_report split: option.splits)
qed (simp add: dispatch_def Let_def; rule plain_no_report; rule worktree_outputs)+

lemma attempt_report:
  assumes "attempt E B tool args phase call g w = (Inr c, g', w')" "report_evidence (co_output c) = Some (h, es)"
  shows "(\<exists>r. args = Report_Args r \<and> h = object_digest E (agent_report_json r) \<and> es = evidence_references r)
     \<and> phase \<in> phases_by_tool tool"
proof -
  have no: "report_evidence (co_output (failed_call st code d)) = None" for st code d by (simp add: failed_call_def)
  from assms no obtain g1 w1 w2 out x where "dispatch E B g1 args tool phase call w1 = (Inr (out, x), w2)" "co_output c = out"
    "authorize (pb_policy B) tool phase = Inr ()"
    by (auto simp: attempt_def Let_def split: sum.splits prod.splits tool_exn.splits)
  with givesD [OF dispatch_report this(1)] assms(2) show ?thesis
    by (auto simp: from_report_def authorize_def split: if_splits)
qed

lemma invoke_report:
  assumes "invoke E B tool args phase g w = (Inr r, g', w')" "report_evidence (gr_output r) = Some (h, es)"
  shows "\<exists>rep. tool = SUBMIT_REPORT \<and> args = Report_Args rep \<and> phase = PF_FINALIZE
     \<and> h = object_digest E (agent_report_json rep) \<and> es = evidence_references rep"
proof -
  from assms(1) obtain budget call w1 started w2 c0 g1 w3 completed w4 where
    match: "args_match tool args" and a: "attempt E B tool args phase call g w2 = (Inr c0, g1, w3)"
    and r: "record_call E B budget tool args phase call started completed c0 g1 = (Inr r, g')"
    by (auto simp: invoke_def split: if_splits sum.splits prod.splits)
  from record_call_cases [OF r] obtain c t where
    c: "settle E g1 budget tool phase (max 0 (completed - started)) c0 = (c, t)" "gr_output r = co_output c"
    by (auto split: if_splits)
  from settle_cases(3) [OF c(1)] c(2) assms(2) have "report_evidence (co_output c0) = Some (h, es)"
    by (cases "co_output c") auto
  from attempt_report [OF a this] match show ?thesis by (cases tool) auto
qed

section \<open>Steps are events\<close>

definition call_limit :: "'w run_config \<Rightarrow> nat" where
  "call_limit R = nat (rb_total_tool_calls (policy_budgets (pb_policy (rc_binding R))))"

text \<open>What is left of a run: its stage and the calls its budget still has.\<close>

definition remaining :: "'w run_config \<Rightarrow> 'w runtime \<Rightarrow> nat" where
  "remaining R s = stage (rn_lifecycle s) + (call_limit R - length (gw_records (rn_gateway s)))"

lemma invoke_records:
  assumes "invoke E B tool args phase g w = (Inr r, g', w')"
  shows "gw_records g' = gw_records g @ [gr_record r]" "tc_sequence (gr_record r) = length (gw_records g) + 1"
    "tc_run_id (gr_record r) = run_id (pb_identity B)"
    "int (length (gw_records g)) < rb_total_tool_calls (policy_budgets (pb_policy B))
       - (if phase \<noteq> PF_FINALIZE then ph_tool_calls (rb_finalization_reserve (policy_budgets (pb_policy B))) else 0)"
    "tc_phase (gr_record r) = phase" "tc_tool (gr_record r) = tool"
proof -
  from invoke_cases [OF assms] obtain elapsed out xo where
    c: "gateway_call E B g (gr_record r) elapsed xo out g'" "tc_tool (gr_record r) = tool" "tc_phase (gr_record r) = phase"
    by fastforce
  from c(1) show "gw_records g' = gw_records g @ [gr_record r]" "tc_sequence (gr_record r) = length (gw_records g) + 1"
    "tc_run_id (gr_record r) = run_id (pb_identity B)"
    "int (length (gw_records g)) < rb_total_tool_calls (policy_budgets (pb_policy B))
       - (if phase \<noteq> PF_FINALIZE then ph_tool_calls (rb_finalization_reserve (policy_budgets (pb_policy B))) else 0)"
    by (cases rule: gateway_call.cases; use c(3) in \<open>simp add: same_ledgers_def check_budget_Inr\<close>)+
qed (use invoke_cases [OF assms] in \<open>fastforce\<close>)+

lemma invoke_refused:
  assumes "invoke E B tool args phase g w = (Inl Reserve_Refusal, g', w')"
  shows "g' = g \<and> w' = w \<and> tool \<noteq> SUBMIT_REPORT \<and> phase = PF_FINALIZE"
proof -
  have no: "fst (attempt E B tool args phase call h v) \<noteq> Inl Reserve_Refusal" for call h v
    by (auto simp: attempt_def Let_def split: sum.splits prod.splits tool_exn.splits)
  have no': "fst (record_call E B budget tool args phase call t u c h) \<noteq> Inl Reserve_Refusal" for budget call t u c h
    by (auto simp: record_call_def Let_def split: prod.splits)
  from assms no no' have "check_budget (policy_budgets (pb_policy B)) g tool phase = Inl Reserve_Refusal \<and> g' = g \<and> w' = w"
    by (auto simp: invoke_def split: if_splits sum.splits prod.splits) (metis fst_conv)+
  then show ?thesis
    by (auto simp: check_budget_def Let_def report_output_reserve_def split: option.splits if_splits)
qed

lemma capture_state_cases:
  assumes "capture_state R k s = (x, s')"
  shows "(\<exists>e w. x = Inl e \<and> s' = s\<lparr>rn_world := w\<rparr>)
    \<or> (\<exists>y w. x = Inr () \<and> s' = s\<lparr>rn_world := w, rn_states := rn_states s @ [y]\<rparr> \<and> st_run_id y = run_id_of R
         \<and> st_sequence y = length (rn_states s) + 1 \<and> state_record_ok y \<and> st_kind y = k
         \<and> st_call_sequence y = (case k of INITIAL_STATE \<Rightarrow> None | BEFORE_CALL \<Rightarrow> Some (length (gw_records (rn_gateway s)) + 1)
              | AFTER_CALL \<Rightarrow> Some (tc_sequence (last (gw_records (rn_gateway s))))))"
  using assms unfolding capture_state_def Let_def
  by (auto split: prod.splits sum.splits if_splits)

lemma renew_workspace_cases:
  assumes "renew_workspace R s = (x, s')"
  shows "(\<exists>e w g. x = Inl e \<and> same_ledgers (rn_gateway s) g \<and> s' = s\<lparr>rn_world := w, rn_gateway := g\<rparr>)
    \<or> (\<exists>y w g. x = Inr () \<and> same_ledgers (rn_gateway s) g \<and> ln_run_id y = run_id_of R
         \<and> s' = s\<lparr>rn_world := w, rn_gateway := g, rn_renewals := rn_renewals s @ [y]\<rparr>)"
proof -
  have same: "same_ledgers g g" for g by (simp add: same_ledgers_def)
  obtain y w where 1: "pf_renew (rc_env R) (gw_workspace (rn_gateway s)) (rc_lease R) (rn_world s) = (y, w)" by force
  show ?thesis
  proof (cases y)
    case (Inl e)
    with assms 1 have "x = Inl (step_of e)" "s' = s\<lparr>rn_world := w, rn_gateway := rn_gateway s\<rparr>"
      by (auto simp: renew_workspace_def Let_def)
    with same show ?thesis by blast
  next
    case (Inr h)
    obtain z g w' where 2: "refresh_workspace (rc_env R) h (rn_gateway s) w = (z, g, w')" by (metis prod_cases3)
    note same' = refresh_ledgers [OF 2]
    obtain t w'' where 3: "pf_now (rc_env R) w' = (t, w'')" by force
    show ?thesis
    proof (cases z)
      case z: (Inl e)
      with same' assms 1 2 Inr show ?thesis
        by (cases e) (auto simp: renew_workspace_def Let_def)
    next
      case z: (Inr u)
      define y where "y = \<lparr>ln_run_id = run_id_of R, ln_sequence = length (rn_renewals s) + 1,
        ln_workspace_id = wr_workspace_id (wh_record h), ln_previous = wr_expires_at (wh_record (gw_workspace (rn_gateway s))),
        ln_renewed = wr_expires_at (wh_record h), ln_occurred_at = t\<rparr>"
      show ?thesis
      proof (cases "ln_renewed y < ln_previous y")
        case True
        with same' assms 1 2 3 Inr z show ?thesis by (auto simp: renew_workspace_def Let_def y_def)
      next
        case False
        with assms 1 2 3 Inr z have "x = Inr ()"
          "s' = s\<lparr>rn_world := w'', rn_gateway := g, rn_renewals := rn_renewals s @ [y]\<rparr>"
          by (simp_all add: renew_workspace_def Let_def y_def)
        moreover have "ln_run_id y = run_id_of R" by (simp add: y_def)
        ultimately show ?thesis using same' by blast
      qed
    qed
  qed
qed

definition raised :: "'w run_config \<Rightarrow> 'w runtime \<Rightarrow> 'w runtime \<Rightarrow> bool" where
  "raised R s s' \<longleftrightarrow> (\<exists>u. run_events R s u \<and> rn_lifecycle s' = rn_lifecycle u \<and> rn_cleaned s' = rn_cleaned u)"

text \<open>The outcome of a step: events in any case, and progress when the step returns.\<close>

definition stepped :: "'w run_config \<Rightarrow> 'w runtime \<Rightarrow> (step_exn + unit) \<times> 'w runtime \<Rightarrow> bool" where
  "stepped R s r = (case r of (Inl e, s') \<Rightarrow> raised R s s' | (Inr _, s') \<Rightarrow> run_events R s s')"

lemma run_event_mono:
  "run_event R s s' \<Longrightarrow> stage (rn_lifecycle s') \<le> stage (rn_lifecycle s)
     \<and> length (gw_records (rn_gateway s)) \<le> length (gw_records (rn_gateway s'))"
proof (induction rule: run_event.induct)
  case (ev_lifecycle op t s y l w)
  then show ?case using lifecycle_apply_step [of op t "rn_lifecycle s" "Inr y" l] lifecycle_step_stage by auto
next
  case (ev_unobserved tool args s v r g w op t y l f w')
  then show ?case
    using lifecycle_apply_step [of op t "rn_lifecycle s" "Inr y" l] lifecycle_step_stage invoke_records(1) by force
next
  case (ev_report rep s v r g w t y l w')
  then show ?case
    using lifecycle_apply_step [of Report t "rn_lifecycle s" "Inr y" l] lifecycle_step_stage invoke_records(1) by force
next
  case (ev_refused t s y l f w)
  then show ?case using lifecycle_apply_step [of Reserve_Refused t "rn_lifecycle s" "Inr y" l] lifecycle_step_stage by auto
qed (auto simp: same_ledgers_def dest: invoke_records(1))

lemma run_events_mono:
  "run_events R s s' \<Longrightarrow> stage (rn_lifecycle s') \<le> stage (rn_lifecycle s)
     \<and> length (gw_records (rn_gateway s)) \<le> length (gw_records (rn_gateway s'))"
  unfolding run_events_def by (induction rule: rtranclp_induct) (use run_event_mono le_trans in blast)+

lemma run_event_lifecycle:
  "run_event R s s' \<Longrightarrow> lifecycle_inv (rn_lifecycle s) \<Longrightarrow> lifecycle_inv (rn_lifecycle s')"
proof (induction rule: run_event.induct)
  case (ev_lifecycle op t s y l w)
  then show ?case using lifecycle_apply_inv [of "rn_lifecycle s" op t] by simp
next
  case (ev_unobserved tool args s v r g w op t y l f w')
  then show ?case using lifecycle_apply_inv [of "rn_lifecycle s" op t] by simp
next
  case (ev_report rep s v r g w t y l w')
  then show ?case using lifecycle_apply_inv [of "rn_lifecycle s" Report t] by simp
next
  case (ev_refused t s y l f w)
  then show ?case using lifecycle_apply_inv [of "rn_lifecycle s" Reserve_Refused t] by simp
qed auto

lemma run_events_lifecycle:
  "run_events R s s' \<Longrightarrow> lifecycle_inv (rn_lifecycle s) \<Longrightarrow> lifecycle_inv (rn_lifecycle s')"
  unfolding run_events_def by (induction rule: rtranclp_induct) (auto intro: run_event_lifecycle)

lemma progressed:
  assumes "run_events R s u" "run_event R u v" "run_events R v s'"
    "stage (rn_lifecycle v) < stage (rn_lifecycle u)
     \<or> length (gw_records (rn_gateway u)) < length (gw_records (rn_gateway v)) \<and> length (gw_records (rn_gateway u)) < call_limit R"
  shows "remaining R s' < remaining R s"
  using run_events_mono [OF assms(1)] run_events_mono [OF assms(3)] run_event_mono [OF assms(2)] assms(4)
  by (auto simp: remaining_def)

end
