(* ===== verification/PatchForgeRunFacts.thy ===== *)
theory PatchForgeRunFacts
  imports PatchForgeRuntimeFacts
begin

text \<open>
  The iteration as events and progress, the loop's bound, and the invariant of the evidence that a run keeps from
  its first event to its completion.
\<close>

section \<open>One iteration\<close>

lemma failure_stepped:
  assumes "lifecycle_inv (rn_lifecycle s)" "\<not> ended (lc_phase (rn_lifecycle s))" "f \<noteq> CLEANUP_FAILED"
  obtains s' where "record_failure R f s = (Inr (), s')" "run_event R s s'" "stage (rn_lifecycle s') < stage (rn_lifecycle s)"
proof -
  obtain op t y l w where r: "record_failure R f s = (Inr (), s\<lparr>rn_lifecycle := l, rn_world := w\<rparr>)"
    "op \<in> {Fail f, Finalization_Failed f}" "lifecycle_apply op t (rn_lifecycle s) = (Inr y, l)"
    "stage l < stage (rn_lifecycle s)"
    by (rule record_failure_ok [OF assms])
  have "run_event R s (s\<lparr>rn_lifecycle := l, rn_world := w\<rparr>)"
    using r(2,3) by (intro ev_lifecycle) auto
  with r that show thesis by simp
qed

lemma failure_events:
  assumes "lifecycle_inv (rn_lifecycle s)" "\<not> ended (lc_phase (rn_lifecycle s))" "f \<noteq> CLEANUP_FAILED"
  shows "stepped R s (record_failure R f s)"
  by (rule failure_stepped [OF assms, of R]) (simp add: stepped_def run_events_one)

lemma raised_same: "rn_lifecycle s' = rn_lifecycle s \<Longrightarrow> rn_cleaned s' = rn_cleaned s \<Longrightarrow> raised R s s'"
  unfolding raised_def by (intro exI [of _ s]) simp

lemma classify_not_cleanup [simp]: "classify_failure code \<noteq> CLEANUP_FAILED" "transition_failure m \<noteq> CLEANUP_FAILED"
  by (simp_all add: classify_failure_def transition_failure_def)

text \<open>Accepting an output that is no report, in a run that has not ended.\<close>

lemma accept_events:
  assumes "lifecycle_inv (rn_lifecycle s)" "\<not> ended (lc_phase (rn_lifecycle s))" "report_evidence out = None"
  shows "stepped R s (accept_or_fail R tool args out s)"
proof -
  note failed = failure_events [OF assms(1,2)]
  have ret: "stepped R s (accept_or_fail R tool args out s)" if "accept_result R tool args out s = (Inr (), s)"
    using that by (simp add: accept_or_fail_def stepped_def)
  have failing: "stepped R s (accept_or_fail R tool args out s)"
    if a: "accept_result R tool args out s = record_failure R f s" "f \<noteq> CLEANUP_FAILED" for f
  proof (rule failure_stepped [OF assms(1,2) a(2), of R])
    fix s' assume "record_failure R f s = (Inr (), s')" "run_event R s s'"
    with a show ?thesis by (simp add: accept_or_fail_def stepped_def run_events_one)
  qed
  have refused: "stepped R s (accept_or_fail R tool args out s)" if "accept_result R tool args out s = (Inl (Raised_Transition msg), s)" for msg
    using that failed [of "transition_failure msg"] by (simp add: accept_or_fail_def)
  show ?thesis
  proof (cases out)
    case (Failure_Output code d)
    then show ?thesis by (intro failing [of "classify_failure code"]) (simp_all add: accept_result_def)
  next
    case (Execution_Output i n status x o' e t)
    show ?thesis
    proof (cases "status \<in> {SANDBOX_TIMED_OUT, SANDBOX_OUTPUT_LIMIT}")
      case True
      with Execution_Output show ?thesis by (intro failing [of BUDGET_EXHAUSTED]) (simp_all add: accept_result_def)
    next
      case False
      show ?thesis
      proof (cases "status = SANDBOX_BROKEN")
        case True
        with Execution_Output show ?thesis by (intro failing [of SANDBOX_ERROR]) (simp_all add: accept_result_def)
      next
        case no: False
        with False Execution_Output show ?thesis by (intro ret) (simp add: accept_result_def step_ret_def)
      qed
    qed
  next
    case (Phase_Request_Output current target)
    show ?thesis
    proof (cases "current = lc_phase (rn_lifecycle s)")
      case False
      with Phase_Request_Output show ?thesis by (intro refused) (simp add: accept_result_def)
    next
      case True
      obtain t w where now: "pf_now (rc_env R) (rn_world s) = (t, w)" by force
      obtain y l where a: "lifecycle_apply (Advance target) t (rn_lifecycle s) = (y, l)" by force
      show ?thesis
      proof (cases y)
        case (Inl e)
        then have "l = rn_lifecycle s" using lifecycle_apply_step [OF a] by auto
        with True Phase_Request_Output now a Inl show ?thesis
          by (intro refused [of e]) (simp add: accept_result_def lifecycle_do_def)
      next
        case (Inr z)
        have "run_event R s (s\<lparr>rn_lifecycle := l, rn_world := w\<rparr>)"
          by (rule ev_lifecycle [of "Advance target" t s z]) (use a Inr in auto)
        with True Phase_Request_Output now a Inr show ?thesis
          by (simp add: accept_result_def lifecycle_do_def accept_or_fail_def stepped_def run_events_one)
      qed
    qed
  qed (use assms(3) ret in \<open>simp_all add: accept_result_def step_ret_def\<close>)
qed

lemma stepped_trans: "run_events R s u \<Longrightarrow> stepped R u r \<Longrightarrow> stepped R s r"
  unfolding stepped_def raised_def by (auto split: prod.splits sum.splits intro: run_events_trans)

text \<open>A step with progress: when it returns, less remains.\<close>

definition advanced :: "'w run_config \<Rightarrow> 'w runtime \<Rightarrow> (step_exn + unit) \<times> 'w runtime \<Rightarrow> bool" where
  "advanced R s r \<longleftrightarrow> stepped R s r \<and> (\<forall>u s'. r = (Inr u, s') \<longrightarrow> remaining R s' < remaining R s)"

lemma failure_advanced:
  assumes "lifecycle_inv (rn_lifecycle s)" "\<not> ended (lc_phase (rn_lifecycle s))" "f \<noteq> CLEANUP_FAILED"
  shows "advanced R s (record_failure R f s)"
proof (rule failure_stepped [OF assms, of R])
  fix s' assume "record_failure R f s = (Inr (), s')" "run_event R s s'" "stage (rn_lifecycle s') < stage (rn_lifecycle s)"
  then show ?thesis
    using progressed [of R s s s' s'] by (simp add: advanced_def stepped_def run_events_one)
qed

lemma advanced_trans:
  assumes "run_events R s u" "advanced R u r"
  shows "advanced R s r"
proof -
  have "remaining R u \<le> remaining R s" using run_events_mono [OF assms(1)] by (auto simp: remaining_def)
  with assms stepped_trans show ?thesis by (fastforce simp: advanced_def)
qed

text \<open>After an event that makes progress, any step is progress.\<close>

lemma advanced_after:
  assumes "run_event R s u" "stepped R u r"
    "stage (rn_lifecycle u) < stage (rn_lifecycle s)
     \<or> length (gw_records (rn_gateway s)) < length (gw_records (rn_gateway u)) \<and> length (gw_records (rn_gateway s)) < call_limit R"
  shows "advanced R s r"
  using stepped_trans [OF run_events_one [OF assms(1)] assms(2)] progressed [OF run_events_refl assms(1) _ assms(3)] assms(2)
  by (auto simp: advanced_def stepped_def split: prod.splits sum.splits)

lemma call_progress:
  assumes "invoke (rc_env R) (rc_binding R) tool args phase g v = (Inr r, g', w)" "run_budgets_ok (policy_budgets (pb_policy (rc_binding R)))"
  shows "length (gw_records g) < length (gw_records g') \<and> length (gw_records g) < call_limit R"
  using invoke_records(1,4) [OF assms(1)] assms(2) by (auto simp: call_limit_def run_budgets_ok_def split: if_splits)

lemma reserve_advanced:
  assumes "lc_phase (rn_lifecycle s) = PF_FINALIZE" "\<not> lc_report_only (rn_lifecycle s)" "tool \<noteq> SUBMIT_REPORT"
  shows "advanced R s (refuse_reserve R tool s)"
proof -
  obtain t w where 1: "pf_now (rc_env R) (rn_world s) = (t, w)" by force
  obtain t' w' where 2: "pf_now (rc_env R) w = (t', w')" by force
  define f where "f = \<lparr>rf_run_id = run_id_of R, rf_tool = tool, rf_call_sequence = length (gw_records (rn_gateway s)) + 1, rf_occurred_at = t\<rparr>"
  obtain y l where a: "lifecycle_apply Reserve_Refused t' (rn_lifecycle s) = (Inr y, l)" "lc_phase l = PF_FINALIZE" "lc_report_only l"
    using assms(1,2) by (auto simp: lc_reserve_refused_def lc_record_Inr)
  let ?v = "s\<lparr>rn_refusal := Some f, rn_lifecycle := l, rn_world := w'\<rparr>"
  have e: "run_event R s ?v" using a(1) by (intro ev_refused) (auto simp: f_def)
  have "refuse_reserve R tool s = (Inr (), ?v)"
    using assms 1 2 a(1) by (simp add: refuse_reserve_def step_bind_def read_clock_def lifecycle_do_def f_def)
  moreover have "stage l < stage (rn_lifecycle s)" using a(2,3) assms(1,2) by (simp add: stage_def)
  ultimately show ?thesis
    using e progressed [OF run_events_refl e run_events_refl] by (simp add: advanced_def stepped_def run_events_one)
qed

lemma report_advanced:
  assumes i: "invoke (rc_env R) (rc_binding R) tool args (lc_phase (rn_lifecycle s)) (rn_gateway s) v = (Inr r, g, w)"
    and e: "report_evidence (gr_output r) = Some (h, es)" and b: "run_budgets_ok (policy_budgets (pb_policy (rc_binding R)))"
  shows "advanced R s (or_workspace_failure R (step_when (state_tracked tool) (capture_state R AFTER_CALL))
     (accept_or_fail R tool args (gr_output r)) (s\<lparr>rn_gateway := g, rn_world := w, rn_results := rn_results s @ [r], rn_previous := Some r\<rparr>))"
proof -
  from invoke_report [OF i e] obtain rep where rep: "tool = SUBMIT_REPORT" "args = Report_Args rep" "lc_phase (rn_lifecycle s) = PF_FINALIZE"
    "h = object_digest (rc_env R) (agent_report_json rep)" "es = evidence_references rep" by blast
  obtain t w' where 1: "pf_now (rc_env R) w = (t, w')" by force
  obtain y l where a: "lifecycle_apply Report t (rn_lifecycle s) = (Inr y, l)"
    using rep(3) by (auto simp: lc_report_def lc_record_Inr)
  let ?v = "s\<lparr>rn_gateway := g, rn_world := w', rn_results := rn_results s @ [r], rn_previous := Some r, rn_report := Some rep, rn_lifecycle := l\<rparr>"
  have ev: "run_event R s ?v" by (rule ev_report) (use i e rep a in auto)
  have "gr_output r = Report_Output h es" using e by (simp add: report_evidence_iff)
  then have "or_workspace_failure R (step_when (state_tracked tool) (capture_state R AFTER_CALL))
     (accept_or_fail R tool args (gr_output r)) (s\<lparr>rn_gateway := g, rn_world := w, rn_results := rn_results s @ [r], rn_previous := Some r\<rparr>)
     = (Inr (), ?v)"
    using rep(1,2) a 1 by (simp add: or_workspace_failure_def step_when_def state_tracked_def step_ret_def accept_or_fail_def
        accept_result_def lifecycle_do_def)
  moreover have "length (gw_records (rn_gateway s)) < length (gw_records g) \<and> length (gw_records (rn_gateway s)) < call_limit R"
    using call_progress [OF i b] .
  ultimately show ?thesis
    using ev progressed [OF run_events_refl ev run_events_refl] by (simp add: advanced_def stepped_def run_events_one)
qed

lemma tracked_advanced:
  assumes i: "invoke (rc_env R) (rc_binding R) tool args (lc_phase (rn_lifecycle s)) (rn_gateway s) v = (Inr r, g, w)"
    and e: "report_evidence (gr_output r) = None" and b: "run_budgets_ok (policy_budgets (pb_policy (rc_binding R)))"
    and inv: "lifecycle_inv (rn_lifecycle s)" "\<not> ended (lc_phase (rn_lifecycle s))" and t: "state_tracked tool"
    and before: "\<exists>x \<in> set (rn_states s). st_kind x = BEFORE_CALL \<and> st_call_sequence x = Some (length (gw_records (rn_gateway s)) + 1)"
  shows "advanced R s (or_workspace_failure R (capture_state R AFTER_CALL)
     (accept_or_fail R tool args (gr_output r)) (s\<lparr>rn_gateway := g, rn_world := w, rn_results := rn_results s @ [r], rn_previous := Some r\<rparr>))"
proof -
  let ?u = "s\<lparr>rn_gateway := g, rn_world := w, rn_results := rn_results s @ [r], rn_previous := Some r\<rparr>"
  note records = invoke_records(1,2) [OF i] and progress = call_progress [OF i b]
  obtain x u where c: "capture_state R AFTER_CALL ?u = (x, u)" by force
  from capture_state_cases [OF c] show ?thesis
  proof (elim disjE exE conjE)
    fix e' w' assume x: "x = Inl e'" and u: "u = ?u\<lparr>rn_world := w'\<rparr>"
    show ?thesis
    proof (cases "e' = Raised_Workspace")
      case True
      have inv': "lifecycle_inv (rn_lifecycle u)" "\<not> ended (lc_phase (rn_lifecycle u))" using inv u by simp_all
      obtain op t y l w'' where f: "record_failure R WORKSPACE_ERROR u = (Inr (), u\<lparr>rn_lifecycle := l, rn_world := w''\<rparr>)"
        "op \<in> {Fail WORKSPACE_ERROR, Finalization_Failed WORKSPACE_ERROR}" "lifecycle_apply op t (rn_lifecycle u) = (Inr y, l)"
        "stage l < stage (rn_lifecycle u)" "lc_failure l \<noteq> None"
        by (rule record_failure_ok [OF inv', of WORKSPACE_ERROR R]) auto
      let ?v = "s\<lparr>rn_gateway := g, rn_world := w'', rn_results := rn_results s @ [r], rn_previous := Some r, rn_lifecycle := l\<rparr>"
      have v: "u\<lparr>rn_lifecycle := l, rn_world := w''\<rparr> = ?v" using u by simp
      have ev: "run_event R s ?v" by (rule ev_unobserved [OF i e, of op t y l WORKSPACE_ERROR]) (use f u in auto)
      have "or_workspace_failure R (capture_state R AFTER_CALL) (accept_or_fail R tool args (gr_output r)) ?u = (Inr (), ?v)"
        using c x True f(1) v by (simp add: or_workspace_failure_def)
      then show ?thesis
        using ev progressed [OF run_events_refl ev run_events_refl] progress by (simp add: advanced_def stepped_def run_events_one)
    next
      case False
      then have "or_workspace_failure R (capture_state R AFTER_CALL) (accept_or_fail R tool args (gr_output r)) ?u = (Inl e', u)"
        using c x by (cases e') (simp_all add: or_workspace_failure_def)
      then show ?thesis using u by (simp add: advanced_def stepped_def raised_same)
    qed
  next
    fix y w' assume x: "x = Inr ()" and u: "u = ?u\<lparr>rn_world := w', rn_states := rn_states ?u @ [y]\<rparr>"
      and y: "st_run_id y = run_id_of R" "st_sequence y = length (rn_states ?u) + 1" "state_record_ok y" "st_kind y = AFTER_CALL"
      "st_call_sequence y = (case AFTER_CALL of INITIAL_STATE \<Rightarrow> None | BEFORE_CALL \<Rightarrow> Some (length (gw_records (rn_gateway ?u)) + 1)
              | AFTER_CALL \<Rightarrow> Some (tc_sequence (last (gw_records (rn_gateway ?u)))))"
    let ?v = "s\<lparr>rn_gateway := g, rn_world := w', rn_results := rn_results s @ [r], rn_previous := Some r, rn_states := rn_states s @ [y]\<rparr>"
    have v: "u = ?v" using u by simp
    have ev: "run_event R s ?v"
      by (rule ev_observed [OF i t e]) (use before records y in auto)
    have "stepped R ?v (accept_or_fail R tool args (gr_output r) ?v)"
      by (rule accept_events) (use inv e in simp_all)
    moreover have "or_workspace_failure R (capture_state R AFTER_CALL) (accept_or_fail R tool args (gr_output r)) ?u
        = accept_or_fail R tool args (gr_output r) ?v"
      using c x v by (simp add: or_workspace_failure_def)
    ultimately show ?thesis using advanced_after [OF ev] progress by simp
  qed
qed

lemma invoke_step_advanced:
  assumes "run_budgets_ok (policy_budgets (pb_policy (rc_binding R)))"
    "lifecycle_inv (rn_lifecycle s)" "\<not> ended (lc_phase (rn_lifecycle s))" "tool \<noteq> SUBMIT_REPORT \<Longrightarrow> \<not> lc_report_only (rn_lifecycle s)"
    "state_tracked tool \<Longrightarrow> \<exists>x \<in> set (rn_states s). st_kind x = BEFORE_CALL \<and> st_call_sequence x = Some (length (gw_records (rn_gateway s)) + 1)"
  shows "advanced R s (invoke_step R tool args s)"
proof -
  obtain x g w where i: "invoke (rc_env R) (rc_binding R) tool args (lc_phase (rn_lifecycle s)) (rn_gateway s) (rn_world s) = (x, g, w)"
    by (metis prod_cases3)
  let ?s = "s\<lparr>rn_gateway := g, rn_world := w\<rparr>"
  show ?thesis
  proof (cases x)
    case (Inl e)
    have ws: "run_event R s ?s" if "same_ledgers (rn_gateway s) g"
    proof -
      have e: "?s = s\<lparr>rn_world := w, rn_gateway := g\<rparr>" by (cases s) simp
      show ?thesis unfolding e by (rule ev_workspace [OF that])
    qed
    have fail: "advanced R s (record_failure R f ?s)" if "same_ledgers (rn_gateway s) g" "f \<noteq> CLEANUP_FAILED" for f
      using advanced_trans [OF run_events_one [OF ws [OF that(1)]] failure_advanced [of ?s f R]] assms(2,3) that(2) by simp
    have same: "same_ledgers (rn_gateway s) g" if "e \<noteq> Escaped ''ValidationError''"
      using invoke_cases [OF i] Inl that by auto
    show ?thesis
    proof (cases e)
      case Reserve_Refusal
      from invoke_refused [OF i [unfolded Inl Reserve_Refusal]]
      have r: "tool \<noteq> SUBMIT_REPORT" "lc_phase (rn_lifecycle s) = PF_FINALIZE" by auto
      with assms(4) have a: "advanced R ?s (refuse_reserve R tool ?s)" by (intro reserve_advanced) simp_all
      have "same_ledgers (rn_gateway s) g" by (rule same) (simp add: Reserve_Refusal)
      then have "advanced R s (refuse_reserve R tool ?s)" by (rule advanced_trans [OF run_events_one [OF ws] a])
      with i Inl Reserve_Refusal show ?thesis by (simp add: invoke_step_def Let_def)
    next
      case (Escaped n)
      with i Inl show ?thesis by (simp add: invoke_step_def Let_def advanced_def stepped_def raised_same)
    next
      case Request_Error
      have "invoke_step R tool args s = record_failure R POLICY_DENIED ?s" using i Inl Request_Error by (simp add: invoke_step_def Let_def)
      moreover have "same_ledgers (rn_gateway s) g" by (rule same) (simp add: Request_Error)
      ultimately show ?thesis using fail [of POLICY_DENIED] by simp
    next
      case Budget_Error
      have "invoke_step R tool args s = record_failure R BUDGET_EXHAUSTED ?s" using i Inl Budget_Error by (simp add: invoke_step_def Let_def)
      moreover have "same_ledgers (rn_gateway s) g" by (rule same) (simp add: Budget_Error)
      ultimately show ?thesis using fail [of BUDGET_EXHAUSTED] by simp
    qed
  next
    case (Inr r)
    note i' = i [unfolded Inr]
    let ?u = "s\<lparr>rn_gateway := g, rn_world := w, rn_results := rn_results s @ [r], rn_previous := Some r\<rparr>"
    have eq: "invoke_step R tool args s = or_workspace_failure R (step_when (state_tracked tool) (capture_state R AFTER_CALL))
       (accept_or_fail R tool args (gr_output r)) ?u"
      using i' by (simp add: invoke_step_def Let_def)
    show ?thesis
    proof (cases "report_evidence (gr_output r)")
      case (Some he)
      obtain h es where "he = (h, es)" by force
      with report_advanced [OF i' _ assms(1), of h es] Some eq show ?thesis by simp
    next
      case None
      show ?thesis
      proof (cases "state_tracked tool")
        case True
        with tracked_advanced [OF i' None assms(1,2,3) True] assms(5) eq show ?thesis by (simp add: step_when_def)
      next
        case False
        have ev: "run_event R s ?u" by (rule ev_call [OF i' False None])
        have "stepped R ?u (accept_or_fail R tool args (gr_output r) ?u)"
          by (rule accept_events) (use assms(2,3) None in simp_all)
        with advanced_after [OF ev] call_progress [OF i' assms(1)] eq False show ?thesis
          by (simp add: step_when_def step_ret_def or_workspace_failure_def)
      qed
    qed
  qed
qed

lemma act_step_advanced:
  assumes "run_budgets_ok (policy_budgets (pb_policy (rc_binding R)))"
    "lifecycle_inv (rn_lifecycle s)" "\<not> ended (lc_phase (rn_lifecycle s))"
  shows "advanced R s (act_step R tool args s)"
proof (cases "lc_report_only (rn_lifecycle s) \<and> tool \<noteq> SUBMIT_REPORT")
  case True
  then have "lc_phase (rn_lifecycle s) = PF_FINALIZE"
    using lifecycle_invD(7) [OF assms(2)] assms(3) by (cases "lc_phase (rn_lifecycle s)") (simp_all add: ended_def)
  then have "act_step R tool args s = record_failure R BUDGET_EXHAUSTED s"
    using True by (simp add: act_step_def record_failure_def)
  with failure_advanced [OF assms(2,3), of BUDGET_EXHAUSTED R] show ?thesis by simp
next
  case False
  let ?renew = "step_when (requires_workspace tool) (renew_workspace R)"
  let ?before = "step_when (state_tracked tool) (capture_state R BEFORE_CALL)"
  have renewed: "\<exists>e w g. x = Inl e \<and> s1 = s\<lparr>rn_world := w, rn_gateway := g\<rparr> \<and> same_ledgers (rn_gateway s) g"
    if "?renew s = (x, s1)" "x \<noteq> Inr ()" for x s1
    using that renew_workspace_cases [of R s x s1] by (auto simp: step_when_def step_ret_def split: if_splits)
  have renewed': "run_events R s s1 \<and> rn_lifecycle s1 = rn_lifecycle s \<and> gw_records (rn_gateway s1) = gw_records (rn_gateway s)"
    if "?renew s = (Inr (), s1)" for s1
    using that renew_workspace_cases [of R s "Inr ()" s1]
    by (auto simp: step_when_def step_ret_def same_ledgers_def split: if_splits intro!: run_events_one ev_renewed)
  obtain x s1 where 1: "?renew s = (x, s1)" by force
  have eq: "act_step R tool args s = or_workspace_failure R (step_bind ?renew (\<lambda>_. ?before)) (invoke_step R tool args) s"
    using False unfolding act_step_def by (rule if_not_P)
  show ?thesis
  proof (cases x)
    case (Inl e)
    from renewed [OF 1] Inl obtain w g where s1: "s1 = s\<lparr>rn_world := w, rn_gateway := g\<rparr>" "same_ledgers (rn_gateway s) g" by blast
    have ev: "run_event R s s1" using s1 by (simp add: ev_workspace)
    show ?thesis
    proof (cases "e = Raised_Workspace")
      case True
      have "advanced R s1 (record_failure R WORKSPACE_ERROR s1)"
        by (rule failure_advanced) (use assms(2,3) s1(1) in simp_all)
      from advanced_trans [OF run_events_one [OF ev] this] True eq 1 Inl show ?thesis
        by (simp add: or_workspace_failure_def step_bind_def)
    next
      case False
      with eq 1 Inl have "act_step R tool args s = (Inl e, s1)"
        by (cases e) (simp_all add: or_workspace_failure_def step_bind_def)
      with s1(1) show ?thesis by (simp add: advanced_def stepped_def raised_same)
    qed
  next
    case (Inr u)
    have "?renew s = (Inr (), s1)" using 1 Inr by simp
    note s1 = renewed' [OF this]
    have inv1: "lifecycle_inv (rn_lifecycle s1)" "\<not> ended (lc_phase (rn_lifecycle s1))" using s1 assms by simp_all
    obtain y s2 where 2: "?before s1 = (y, s2)" by force
    show ?thesis
    proof (cases y)
      case (Inl e)
      then have "state_tracked tool" using 2 by (auto simp: step_when_def step_ret_def split: if_splits)
      with 2 Inl capture_state_cases [of R BEFORE_CALL s1 y s2] obtain w where s2: "s2 = s1\<lparr>rn_world := w\<rparr>"
        by (auto simp: step_when_def)
      have ev: "run_events R s s2" using s1 ev_world [of R s1 w] s2 by (auto intro: run_events_trans run_events_one)
      show ?thesis
      proof (cases "e = Raised_Workspace")
        case True
        have "advanced R s2 (record_failure R WORKSPACE_ERROR s2)"
          by (rule failure_advanced) (use inv1 s2 in simp_all)
        from advanced_trans [OF ev this] True eq 1 2 Inr Inl show ?thesis
          by (simp add: or_workspace_failure_def step_bind_def)
      next
        case False
        with eq 1 2 Inr Inl have "act_step R tool args s = (Inl e, s2)"
          by (cases e) (simp_all add: or_workspace_failure_def step_bind_def)
        with ev show ?thesis by (auto simp: advanced_def stepped_def raised_def)
      qed
    next
      case y: (Inr u')
      have s2: "run_events R s1 s2 \<and> rn_lifecycle s2 = rn_lifecycle s1 \<and> gw_records (rn_gateway s2) = gw_records (rn_gateway s1)
        \<and> (state_tracked tool \<longrightarrow> (\<exists>b \<in> set (rn_states s2). st_kind b = BEFORE_CALL
             \<and> st_call_sequence b = Some (length (gw_records (rn_gateway s2)) + 1)))"
        using 2 y capture_state_cases [of R BEFORE_CALL s1 y s2]
        by (auto simp: step_when_def step_ret_def split: if_splits intro!: run_events_one ev_state)
      have "advanced R s2 (invoke_step R tool args s2)"
        by (rule invoke_step_advanced) (use assms(1) s1 s2 inv1 False in auto)
      from advanced_trans [OF run_events_trans [of R s s1 s2] this] s1 s2 eq 1 2 Inr y show ?thesis
        by (simp add: or_workspace_failure_def step_bind_def)
    qed
  qed
qed

lemma iteration_advanced:
  assumes "run_budgets_ok (policy_budgets (pb_policy (rc_binding R)))"
    "lifecycle_inv (rn_lifecycle s)" "\<not> ended (lc_phase (rn_lifecycle s))"
  shows "advanced R s (iteration R s)"
proof -
  obtain a w where e: "rc_engine R (turn_of R s) (rn_world s) = (a, w)" by force
  let ?s = "s\<lparr>rn_world := w\<rparr>"
  have ev: "run_events R s ?s" by (intro run_events_one ev_world)
  have inv: "lifecycle_inv (rn_lifecycle ?s)" "\<not> ended (lc_phase (rn_lifecycle ?s))" using assms by simp_all
  have eq: "iteration R s = (case a of Act tool args \<Rightarrow> act_step R tool args ?s
      | Engine_Cancelled \<Rightarrow> record_failure R RUN_CANCELLED ?s | Engine_Raises \<Rightarrow> record_failure R ENGINE_ERROR ?s
      | Engine_Interrupted \<Rightarrow> (Inl (Raised ''BaseException''), ?s))"
    using e lifecycle_inv_snapshot [OF assms(2)] by (simp add: iteration_def Let_def)
  show ?thesis
  proof (cases a)
    case (Act tool args)
    with advanced_trans [OF ev act_step_advanced [OF assms(1) inv]] eq show ?thesis by simp
  next
    case Engine_Cancelled
    with advanced_trans [OF ev failure_advanced [OF inv, of RUN_CANCELLED R]] eq show ?thesis by simp
  next
    case Engine_Raises
    with advanced_trans [OF ev failure_advanced [OF inv, of ENGINE_ERROR R]] eq show ?thesis by simp
  next
    case Engine_Interrupted
    with eq show ?thesis by (simp add: advanced_def stepped_def raised_same)
  qed
qed

section \<open>The loop\<close>

lemma runtime_loop_ends:
  assumes "run_budgets_ok (policy_budgets (pb_policy (rc_binding R)))" "lifecycle_inv (rn_lifecycle s)" "remaining R s \<le> fuel"
  shows "\<exists>x s'. runtime_loop R fuel s = Some (x, s') \<and> stepped R s (x, s') \<and> (x = Inr () \<longrightarrow> ended (lc_phase (rn_lifecycle s')))"
  using assms(2,3)
proof (induction fuel arbitrary: s)
  case 0
  then have "ended (lc_phase (rn_lifecycle s))" using stage_ended by (simp add: remaining_def)
  then show ?case by (simp add: runtime_loop.simps stepped_def)
next
  case (Suc n)
  show ?case
  proof (cases "ended (lc_phase (rn_lifecycle s))")
    case True
    then show ?thesis by (simp add: runtime_loop.simps stepped_def)
  next
    case False
    note adv = iteration_advanced [OF assms(1) Suc(2) False]
    obtain x s' where i: "iteration R s = (x, s')" by force
    show ?thesis
    proof (cases x)
      case (Inl e)
      with False i adv show ?thesis by (simp add: runtime_loop.simps [of R "Suc n"] advanced_def)
    next
      case (Inr u)
      with adv i have s': "run_events R s s'" "remaining R s' < remaining R s" by (auto simp: advanced_def stepped_def)
      have "lifecycle_inv (rn_lifecycle s')" "remaining R s' \<le> n" using run_events_lifecycle [OF s'(1) Suc(2)] s'(2) Suc(3) by auto
      from Suc(1) [OF this] obtain y v where "runtime_loop R n s' = Some (y, v)" "stepped R s' (y, v)"
        "y = Inr () \<longrightarrow> ended (lc_phase (rn_lifecycle v))" by blast
      with False i Inr stepped_trans [OF s'(1)] show ?thesis by (simp add: runtime_loop.simps [of R "Suc n"])
    qed
  qed
qed

section \<open>The evidence of a run\<close>

lemma lifecycle_step_failure: "lifecycle_step l l' \<Longrightarrow> lc_failure l' = None \<Longrightarrow> lc_failure l = None"
  by (induction rule: lifecycle_step.induct) auto

lemma lifecycle_step_run: "lifecycle_step l l' \<Longrightarrow> lc_run_id l' = lc_run_id l"
  by (induction rule: lifecycle_step.induct) auto

text \<open>The operations of the loop never leave the reported phase, never close, and only the refusal limits the report.\<close>

lemma loop_op_phase:
  assumes "lifecycle_apply op t l = (Inr y, l')" "op \<notin> {Report, Reserve_Refused, Begin_Cleanup, Close, Fail_Cleanup}"
  shows "lc_phase l \<noteq> PF_REPORTED \<and> lc_phase l' \<noteq> PF_REPORTED"
    "lc_phase l \<noteq> PF_CLOSED \<Longrightarrow> lc_phase l' \<noteq> PF_CLOSED" "lc_report_only l' = lc_report_only l"
    "lc_phase l' = PF_CLEANUP \<Longrightarrow> lc_failure l' \<noteq> None"
proof -
  have "lc_phase l \<noteq> PF_REPORTED \<and> lc_phase l' \<noteq> PF_REPORTED \<and> (lc_phase l \<noteq> PF_CLOSED \<longrightarrow> lc_phase l' \<noteq> PF_CLOSED)
     \<and> lc_report_only l' = lc_report_only l \<and> (lc_phase l' = PF_CLEANUP \<longrightarrow> lc_failure l' \<noteq> None)"
  proof (cases op)
    case (Advance p)
    with assms show ?thesis
      by (cases "lc_phase l") (auto simp: lc_advance_def lc_record_Inr lifecycle_transitions_def split: if_splits)
  qed (use assms in \<open>auto simp: lc_fail_def lc_finalization_failed_def lc_record_Inr failure_to_finalize_def split: if_splits\<close>)
  then show "lc_phase l \<noteq> PF_REPORTED \<and> lc_phase l' \<noteq> PF_REPORTED"
    "lc_phase l \<noteq> PF_CLOSED \<Longrightarrow> lc_phase l' \<noteq> PF_CLOSED" "lc_report_only l' = lc_report_only l"
    "lc_phase l' = PF_CLEANUP \<Longrightarrow> lc_failure l' \<noteq> None" by auto
qed

definition bracketed_by :: "state_record list \<Rightarrow> tool_call_record \<Rightarrow> bool" where
  "bracketed_by ss r \<longleftrightarrow> (\<exists>b \<in> set ss. st_kind b = BEFORE_CALL \<and> st_call_sequence b = Some (tc_sequence r))
     \<and> (\<exists>a \<in> set ss. st_kind a = AFTER_CALL \<and> st_call_sequence a = Some (tc_sequence r))"

definition report_outputs :: "gateway_result list \<Rightarrow> (string \<times> uuid list) list" where
  "report_outputs rs = List.map_filter (report_evidence \<circ> gr_output) rs"

lemma report_outputs_append: "report_outputs (rs @ [r]) = report_outputs rs @ (case report_evidence (gr_output r) of None \<Rightarrow> [] | Some x \<Rightarrow> [x])"
  by (simp add: report_outputs_def map_filter_def split: option.splits)

definition evidence_inv :: "'w run_config \<Rightarrow> 'w runtime \<Rightarrow> bool" where
  "evidence_inv R s \<longleftrightarrow>
     ledgers_ok (rc_binding R) (rn_gateway s) \<and> lc_run_id (rn_lifecycle s) = run_id_of R
     \<and> map gr_record (rn_results s) = gw_records (rn_gateway s)
     \<and> map st_sequence (rn_states s) = [1 ..< Suc (length (rn_states s))] \<and> (\<forall>x \<in> set (rn_states s). st_run_id x = run_id_of R)
     \<and> (\<forall>x \<in> set (rn_renewals s). ln_run_id x = run_id_of R)
     \<and> (lc_failure (rn_lifecycle s) = None \<longrightarrow>
          (\<forall>r \<in> set (gw_records (rn_gateway s)). state_tracked (tc_tool r) \<longrightarrow> bracketed_by (rn_states s) r))
     \<and> (rn_report s = None \<longrightarrow> report_outputs (rn_results s) = [] \<and> lc_phase (rn_lifecycle s) \<noteq> PF_REPORTED)
     \<and> (\<forall>rep. rn_report s = Some rep \<longrightarrow>
          report_outputs (rn_results s) = [(object_digest (rc_env R) (agent_report_json rep), evidence_references rep)]
          \<and> lc_phase (rn_lifecycle s) = PF_REPORTED)
     \<and> lc_phase (rn_lifecycle s) \<noteq> PF_CLOSED
     \<and> (lc_phase (rn_lifecycle s) = PF_CLEANUP \<longrightarrow> lc_failure (rn_lifecycle s) \<noteq> None)
     \<and> (rn_refusal s \<noteq> None \<longleftrightarrow> lc_report_only (rn_lifecycle s))
     \<and> (\<forall>f. rn_refusal s = Some f \<longrightarrow> rf_run_id f = run_id_of R)
     \<and> rn_capture s = None \<and> rn_capture_error s = None \<and> \<not> rn_cleaned s"

lemma bracketed_mono: "bracketed_by ss r \<Longrightarrow> bracketed_by (ss @ [x]) r"
  by (auto simp: bracketed_by_def)

lemma invoke_ledgers:
  "invoke E B tool args phase g w = (x, g', w') \<Longrightarrow> ledgers_ok B g \<Longrightarrow> ledgers_ok B g'"
  using invoke_cases [of E B tool args phase g w x g' w'] gateway_call_ledgers same_ledgers_ok(1) by blast

lemma run_event_evidence:
  assumes "run_event R s s'" "evidence_inv R s"
  shows "evidence_inv R s'"
  using assms
proof (induction rule: run_event.induct)
  case (ev_world s w)
  then show ?case by (simp add: evidence_inv_def)
next
  case (ev_lifecycle op t s y l w)
  have step: "lifecycle_step (rn_lifecycle s) l" using lifecycle_apply_step [OF ev_lifecycle(1)] by simp
  note facts = loop_op_phase [OF ev_lifecycle(1,2)] lifecycle_step_failure [OF step] lifecycle_step_run [OF step]
  then show ?case using ev_lifecycle(3) by (auto simp: evidence_inv_def split: option.splits)
next
  case (ev_renewed s g x w)
  then show ?case using same_ledgers_ok(1) [OF ev_renewed(1)] by (auto simp: evidence_inv_def same_ledgers_def)
next
  case (ev_workspace s g w)
  then show ?case using same_ledgers_ok(1) [OF ev_workspace(1)] by (auto simp: evidence_inv_def same_ledgers_def)
next
  case (ev_state x s w)
  then show ?case by (auto simp: evidence_inv_def intro: bracketed_mono)
next
  case (ev_call tool args s v r g w)
  then show ?case
    using invoke_ledgers [OF ev_call(1)] invoke_records [OF ev_call(1)]
    by (auto simp: evidence_inv_def report_outputs_append split: option.splits)
next
  case (ev_observed tool args s v r g w x w')
  have "bracketed_by (rn_states s @ [x]) (gr_record r)" using ev_observed by (auto simp: bracketed_by_def)
  then show ?case
    using ev_observed invoke_ledgers [OF ev_observed(1)] invoke_records [OF ev_observed(1)]
    by (auto simp: evidence_inv_def report_outputs_append intro: bracketed_mono split: option.splits)
next
  case (ev_unobserved tool args s v r g w op t y l f w')
  have op: "op \<notin> {Report, Reserve_Refused, Begin_Cleanup, Close, Fail_Cleanup}" using ev_unobserved(4) by auto
  have step: "lifecycle_step (rn_lifecycle s) l" using lifecycle_apply_step [OF ev_unobserved(3)] by simp
  note facts = loop_op_phase [OF ev_unobserved(3) op] lifecycle_step_run [OF step]
  then show ?case
    using ev_unobserved invoke_ledgers [OF ev_unobserved(1)] invoke_records [OF ev_unobserved(1)]
    by (auto simp: evidence_inv_def report_outputs_append split: option.splits)
next
  case (ev_report rep s v r g w t y l w')
  have step: "lifecycle_step (rn_lifecycle s) l" using lifecycle_apply_step [OF ev_report(4)] by simp
  have l: "lc_phase l = PF_REPORTED" "lc_report_only l = lc_report_only (rn_lifecycle s)"
    using ev_report(2,4) by (auto simp: lc_report_def lc_record_Inr)
  have none: "rn_report s = None" using ev_report(2,5) by (auto simp: evidence_inv_def split: option.splits)
  have "\<not> state_tracked SUBMIT_REPORT" by (simp add: state_tracked_def)
  then show ?case
    using ev_report none l invoke_ledgers [OF ev_report(1)] invoke_records [OF ev_report(1)]
      lifecycle_step_run [OF step] lifecycle_step_failure [OF step]
    by (auto simp: evidence_inv_def report_outputs_append)
next
  case (ev_refused t s y l f w)
  have step: "lifecycle_step (rn_lifecycle s) l" using lifecycle_apply_step [OF ev_refused(1)] by simp
  have l: "lc_phase l = PF_FINALIZE" "lc_report_only l" "lc_failure l \<noteq> None" "lc_phase (rn_lifecycle s) = PF_FINALIZE"
    using ev_refused(1) by (auto simp: lc_reserve_refused_def lc_record_Inr split: if_splits)
  then show ?case
    using ev_refused lifecycle_step_run [OF step] by (auto simp: evidence_inv_def split: option.splits)
qed

lemma run_events_evidence: "run_events R s s' \<Longrightarrow> evidence_inv R s \<Longrightarrow> evidence_inv R s'"
  unfolding run_events_def by (induction rule: rtranclp_induct) (auto intro: run_event_evidence)

section \<open>From the first transition to the last\<close>

lemma lifecycle_do_ok:
  assumes "\<And>t. \<exists>y l. lifecycle_apply op t (rn_lifecycle s) = (Inr y, l) \<and> Q l" "lifecycle_inv (rn_lifecycle s)"
  obtains l w t y where "lifecycle_do R op s = (Inr (), s\<lparr>rn_lifecycle := l, rn_world := w\<rparr>)"
    "lifecycle_apply op t (rn_lifecycle s) = (Inr y, l)" "Q l" "lifecycle_inv l"
proof -
  obtain t w where now: "pf_now (rc_env R) (rn_world s) = (t, w)" by force
  obtain y l where a: "lifecycle_apply op t (rn_lifecycle s) = (Inr y, l)" "Q l" using assms(1) by blast
  have "lifecycle_do R op s = (Inr (), s\<lparr>rn_lifecycle := l, rn_world := w\<rparr>)" using now a(1) by (simp add: lifecycle_do_def)
  moreover have "lifecycle_inv l" using lifecycle_apply_inv [OF assms(2), of op t] a(1) by simp
  ultimately show thesis using a by (intro that)
qed

lemma start_stepped:
  assumes "lifecycle_inv (rn_lifecycle s)" "lc_phase (rn_lifecycle s) = PF_CREATED"
  shows "stepped R s (start_run R s)"
proof -
  have "lc_failure (rn_lifecycle s) = None" using lifecycle_invD(3) [OF assms(1)] assms(2) by fastforce
  then have 1: "\<exists>y l. lifecycle_apply (Advance PF_PROVISIONING) t (rn_lifecycle s) = (Inr y, l) \<and> lc_phase l = PF_PROVISIONING \<and> lc_failure l = None" for t
    using assms(2) by (simp add: lc_advance_def lifecycle_transitions_def lc_record_Inr)
  obtain l w t y where a: "lifecycle_do R (Advance PF_PROVISIONING) s = (Inr (), s\<lparr>rn_lifecycle := l, rn_world := w\<rparr>)"
    "lifecycle_apply (Advance PF_PROVISIONING) t (rn_lifecycle s) = (Inr y, l)" "lc_phase l = PF_PROVISIONING" "lc_failure l = None" "lifecycle_inv l"
    by (rule lifecycle_do_ok [OF 1 assms(1), of R]) blast
  let ?s = "s\<lparr>rn_lifecycle := l, rn_world := w\<rparr>"
  have 2: "\<exists>y l. lifecycle_apply (Advance PF_RECON) t (rn_lifecycle ?s) = (Inr y, l) \<and> lc_phase l = PF_RECON" for t
    using a(3,4) by (simp add: lc_advance_def lifecycle_transitions_def lc_record_Inr)
  have inv: "lifecycle_inv (rn_lifecycle ?s)" using a(5) by simp
  obtain l' w' t' y' where b: "lifecycle_do R (Advance PF_RECON) ?s = (Inr (), ?s\<lparr>rn_lifecycle := l', rn_world := w'\<rparr>)"
    "lifecycle_apply (Advance PF_RECON) t' (rn_lifecycle ?s) = (Inr y', l')" "lc_phase l' = PF_RECON" "lifecycle_inv l'"
    by (rule lifecycle_do_ok [OF 2 inv, of R]) blast
  let ?u = "?s\<lparr>rn_lifecycle := l', rn_world := w'\<rparr>"
  have "run_event R s ?s" by (rule ev_lifecycle [OF a(2)]) simp
  moreover have "run_event R ?s ?u" by (rule ev_lifecycle [OF b(2)]) simp
  ultimately have ev: "run_events R s ?u" by (blast intro: run_events_one run_events_trans)
  have inv': "lifecycle_inv (rn_lifecycle ?u)" "\<not> ended (lc_phase (rn_lifecycle ?u))" using b(3,4) by (simp_all add: ended_def)
  obtain x v where c: "capture_state R INITIAL_STATE ?u = (x, v)" by force
  have eq: "start_run R s = or_workspace_failure R (capture_state R INITIAL_STATE) (step_ret ()) ?u"
    using a(1) b(1) by (simp add: start_run_def step_bind_def)
  have "stepped R ?u (or_workspace_failure R (capture_state R INITIAL_STATE) (step_ret ()) ?u)"
    using capture_state_cases [OF c]
  proof (elim disjE exE conjE)
    fix e w'' assume x: "x = Inl e" and v: "v = ?u\<lparr>rn_world := w''\<rparr>"
    have ev': "run_event R ?u v" unfolding v by (rule ev_world)
    have "stepped R ?u (record_failure R WORKSPACE_ERROR v)"
      by (rule stepped_trans [OF run_events_one [OF ev'] failure_events]) (use v inv' in simp_all)
    then show ?thesis using c x v by (cases e) (simp_all add: or_workspace_failure_def stepped_def raised_same)
  next
    fix z w'' assume "x = Inr ()" and v: "v = ?u\<lparr>rn_world := w'', rn_states := rn_states ?u @ [z]\<rparr>"
      and z: "st_run_id z = run_id_of R" "st_sequence z = length (rn_states ?u) + 1" "state_record_ok z"
    have "run_event R ?u v" unfolding v by (rule ev_state [OF z])
    with c \<open>x = Inr ()\<close> show ?thesis by (simp add: or_workspace_failure_def stepped_def step_ret_def run_events_one)
  qed
  with stepped_trans [OF ev] eq show ?thesis by simp
qed

text \<open>The errors the proposal and the removal of the workspace document: a WorkspaceError or an OSError.\<close>

definition documented :: "tool_exn \<Rightarrow> bool" where
  "documented e \<longleftrightarrow> (case e of Workspace_Exn _ \<Rightarrow> True | Io_Exn _ \<Rightarrow> True | _ \<Rightarrow> False)"

definition orderly :: "'w pf_env \<Rightarrow> bool" where
  "orderly E \<longleftrightarrow> (\<forall>h m t w e w'. pf_propose E h m t w = (Inl (Propose_Exn e), w') \<longrightarrow> documented e)
     \<and> (\<forall>i w e w'. pf_cleanup E i w = (Inl e, w') \<longrightarrow> documented e)"

definition same_evidence :: "'w runtime \<Rightarrow> 'w runtime \<Rightarrow> bool" where
  "same_evidence s s' \<longleftrightarrow> rn_gateway s' = rn_gateway s \<and> rn_results s' = rn_results s \<and> rn_renewals s' = rn_renewals s
     \<and> rn_report s' = rn_report s \<and> rn_states s' = rn_states s \<and> rn_refusal s' = rn_refusal s
     \<and> lc_run_id (rn_lifecycle s') = lc_run_id (rn_lifecycle s)
     \<and> lc_report_only (rn_lifecycle s') = lc_report_only (rn_lifecycle s)"

lemma remove_closes:
  assumes "orderly (rc_env R)" "lifecycle_inv (rn_lifecycle s)" "lc_phase (rn_lifecycle s) = PF_CLEANUP" "\<not> rn_cleaned s"
  obtains s' where "remove_workspace R s = (Inr (), s')" "lc_phase (rn_lifecycle s') = PF_CLOSED" "lifecycle_inv (rn_lifecycle s')"
    "rn_cleaned s' \<longleftrightarrow> \<not> lc_cleanup_failed (rn_lifecycle s')" "same_evidence s s'" "rn_capture s' = rn_capture s"
    "rn_capture_error s' = rn_capture_error s" "lc_failure (rn_lifecycle s') = None \<Longrightarrow> lc_failure (rn_lifecycle s) = None"
proof -
  have ncf: "\<not> lc_cleanup_failed (rn_lifecycle s)" using lifecycle_invD(5) [OF assms(2)] assms(3) by auto
  obtain x w where c: "pf_cleanup (rc_env R) (wr_workspace_id (wh_record (gw_workspace (rn_gateway s)))) (rn_world s) = (x, w)" by force
  show thesis
  proof (cases x)
    case (Inr b)
    let ?s = "s\<lparr>rn_world := w, rn_cleaned := True\<rparr>"
    have "\<exists>y l. lifecycle_apply Close t (rn_lifecycle ?s) = (Inr y, l) \<and> (lc_phase l = PF_CLOSED \<and> lc_cleanup_failed l = False
        \<and> lc_run_id l = lc_run_id (rn_lifecycle s) \<and> lc_report_only l = lc_report_only (rn_lifecycle s) \<and> lc_failure l = lc_failure (rn_lifecycle s))" for t
      using assms(3) ncf by (simp add: lc_close_def lc_record_Inr)
    then obtain l v where "lifecycle_do R Close ?s = (Inr (), ?s\<lparr>rn_lifecycle := l, rn_world := v\<rparr>)"
      "lc_phase l = PF_CLOSED \<and> lc_cleanup_failed l = False \<and> lc_run_id l = lc_run_id (rn_lifecycle s)
         \<and> lc_report_only l = lc_report_only (rn_lifecycle s) \<and> lc_failure l = lc_failure (rn_lifecycle s)" "lifecycle_inv l"
      by (rule lifecycle_do_ok [of Close ?s _ R]) (use assms(2) in auto)
    with c Inr assms(3) show thesis
      by (intro that [of "?s\<lparr>rn_lifecycle := l, rn_world := v\<rparr>"]) (simp_all add: remove_workspace_def same_evidence_def)
  next
    case (Inl e)
    then have e: "documented e" using assms(1) c unfolding orderly_def by blast
    let ?s = "s\<lparr>rn_world := w\<rparr>"
    have "\<exists>y l. lifecycle_apply Fail_Cleanup t (rn_lifecycle ?s) = (Inr y, l) \<and> (lc_phase l = PF_CLOSED \<and> lc_cleanup_failed l
        \<and> lc_run_id l = lc_run_id (rn_lifecycle s) \<and> lc_report_only l = lc_report_only (rn_lifecycle s) \<and> lc_failure l \<noteq> None)" for t
      using assms(3) by (simp add: lc_fail_cleanup_def lc_record_Inr)
    then obtain l v where "lifecycle_do R Fail_Cleanup ?s = (Inr (), ?s\<lparr>rn_lifecycle := l, rn_world := v\<rparr>)"
      "lc_phase l = PF_CLOSED \<and> lc_cleanup_failed l \<and> lc_run_id l = lc_run_id (rn_lifecycle s)
         \<and> lc_report_only l = lc_report_only (rn_lifecycle s) \<and> lc_failure l \<noteq> None" "lifecycle_inv l"
      by (rule lifecycle_do_ok [of Fail_Cleanup ?s _ R]) (use assms(2) in auto)
    with c Inl e assms(3,4) show thesis
      by (intro that [of "?s\<lparr>rn_lifecycle := l, rn_world := v\<rparr>"])
        (auto simp: remove_workspace_def same_evidence_def documented_def split: tool_exn.splits)
  qed
qed

text \<open>What the workspace manager answers to the proposal of a run: asked with the run's own workspace, the message
  made from its identity, and the time and the world that the run has reached.\<close>

definition proposal_answer :: "'w run_config \<Rightarrow> 'w runtime \<Rightarrow> propose_exn + proposed_commit" where
  "proposal_answer R s = (case pf_now (rc_env R) (rn_world s) of (t, w) \<Rightarrow>
     fst (pf_propose (rc_env R) (gw_workspace (rn_gateway s)) (proposal_message (pb_identity (rc_binding R))) t w))"

text \<open>The capture such an answer gives: the proposal, if it is one and its record is valid.\<close>

definition capture_from :: "'w run_config \<Rightarrow> (propose_exn + proposed_commit) \<Rightarrow> final_capture option" where
  "capture_from R x = (case x of Inl _ \<Rightarrow> None
     | Inr p \<Rightarrow> if final_capture_ok (rc_env R) (capture_of (run_id_of R) p) then Some (capture_of (run_id_of R) p) else None)"

definition captured :: "'w run_config \<Rightarrow> 'w runtime \<Rightarrow> 'w runtime \<Rightarrow> bool" where
  "captured R s u \<longleftrightarrow> (case capture_from R (proposal_answer R s) of
       Some k \<Rightarrow> rn_capture u = Some k \<and> rn_capture_error u = rn_capture_error s
     | None \<Rightarrow> rn_capture u = rn_capture s \<and> rn_capture_error u \<noteq> None)"

lemma captured_cong:
  "rn_capture v = rn_capture u \<Longrightarrow> rn_capture_error v = rn_capture_error u \<Longrightarrow> captured R s v = captured R s u"
  by (simp add: captured_def split: option.split)

lemma captured_from:
  assumes "captured R s u" "rn_capture s = None" "rn_capture_error s = None"
  shows "rn_capture u = capture_from R (proposal_answer R s) \<and> (rn_capture_error u = None \<longleftrightarrow> rn_capture u \<noteq> None)"
  using assms by (auto simp: captured_def split: option.splits)

lemma capture_from_Some: "capture_from R x = Some k \<longleftrightarrow>
    (\<exists>p. x = Inr p \<and> k = capture_of (run_id_of R) p \<and> final_capture_ok (rc_env R) k)"
  by (auto simp: capture_from_def split: sum.splits)

lemma capture_final_ok:
  assumes "orderly (rc_env R)"
  obtains s' where "capture_final R s = (Inr (), s')" "same_evidence s s'" "rn_lifecycle s' = rn_lifecycle s" "rn_cleaned s' = rn_cleaned s"
    "captured R s s'"
proof -
  obtain t w where 1: "pf_now (rc_env R) (rn_world s) = (t, w)" by force
  let ?s = "s\<lparr>rn_world := w\<rparr>"
  obtain x v where 2: "pf_propose (rc_env R) (gw_workspace (rn_gateway s)) (proposal_message (pb_identity (rc_binding R))) t w = (x, v)" by force
  let ?v = "?s\<lparr>rn_world := v\<rparr>"
  have ans: "proposal_answer R s = x" using 1 2 by (simp add: proposal_answer_def)
  note out = that
  have err: thesis if c: "capture_final R s = (Inr (), ?v\<lparr>rn_capture_error := Some e\<rparr>)" "capture_from R x = None" for e
    by (rule out [OF c(1)]) (simp_all add: same_evidence_def captured_def ans c(2))
  show thesis
  proof (cases x)
    case (Inl e)
    then have none: "capture_from R x = None" by (simp add: capture_from_def)
    show thesis
    proof (cases e)
      case No_Changes
      with 1 2 Inl show thesis
        by (intro err [OF _ none, of CAPTURE_NO_CHANGES]) (simp add: capture_final_def step_bind_def read_clock_def Let_def)
    next
      case (Propose_Exn e')
      then have "documented e'" using assms 2 Inl unfolding orderly_def by blast
      with 1 2 Inl Propose_Exn show thesis
        by (intro err [OF _ none, of CAPTURE_WORKSPACE_ERROR])
          (auto simp: capture_final_def step_bind_def read_clock_def Let_def documented_def split: tool_exn.splits)
    qed
  next
    case (Inr p)
    show thesis
    proof (cases "final_capture_ok (rc_env R) (capture_of (run_id_of R) p)")
      case True
      then have k: "capture_from R x = Some (capture_of (run_id_of R) p)" by (simp add: capture_from_def Inr)
      with 1 2 Inr True show thesis
        by (intro that [of "?v\<lparr>rn_capture := Some (capture_of (run_id_of R) p)\<rparr>"])
          (simp_all add: capture_final_def step_bind_def read_clock_def Let_def same_evidence_def captured_def ans)
    next
      case False
      then have none: "capture_from R x = None" by (simp add: capture_from_def Inr)
      with 1 2 Inr False show thesis
        by (intro err [OF _ none, of CAPTURE_WORKSPACE_ERROR]) (simp add: capture_final_def step_bind_def read_clock_def Let_def)
    qed
  qed
qed

lemma same_evidence_trans: "same_evidence s u \<Longrightarrow> same_evidence u v \<Longrightarrow> same_evidence s v"
  by (simp add: same_evidence_def)

text \<open>The end of a run whose world is orderly: the phase is closed and the workspace removed, or its removal failed.\<close>

definition closed_after :: "'w run_config \<Rightarrow> 'w runtime \<Rightarrow> 'w runtime \<Rightarrow> bool" where
  "closed_after R s s' \<longleftrightarrow> lc_phase (rn_lifecycle s') = PF_CLOSED \<and> lifecycle_inv (rn_lifecycle s')
     \<and> (rn_cleaned s' \<longleftrightarrow> \<not> lc_cleanup_failed (rn_lifecycle s')) \<and> same_evidence s s'
     \<and> (lc_failure (rn_lifecycle s') = None \<longrightarrow> lc_failure (rn_lifecycle s) = None \<and> lc_phase (rn_lifecycle s) \<noteq> PF_FINALIZE)
     \<and> (if lc_phase (rn_lifecycle s) = PF_REPORTED then captured R s s'
        else rn_capture s' = rn_capture s \<and> rn_capture_error s' = rn_capture_error s)"

text \<open>Removing the workspace after a step that led to the cleanup phase.\<close>

lemma removed_after:
  assumes "orderly (rc_env R)" "lifecycle_inv (rn_lifecycle u)" "lc_phase (rn_lifecycle u) = PF_CLEANUP" "\<not> rn_cleaned u"
    "same_evidence s u" "lc_failure (rn_lifecycle u) = None \<Longrightarrow> lc_failure (rn_lifecycle s) = None \<and> lc_phase (rn_lifecycle s) \<noteq> PF_FINALIZE"
    "if lc_phase (rn_lifecycle s) = PF_REPORTED then captured R s u
     else rn_capture u = rn_capture s \<and> rn_capture_error u = rn_capture_error s"
  shows "\<exists>s'. remove_workspace R u = (Inr (), s') \<and> closed_after R s s'"
proof -
  have c: "captured R s v = captured R s u" if "rn_capture v = rn_capture u" "rn_capture_error v = rn_capture_error u" for v
    using that by (rule captured_cong)
  show ?thesis
  proof (rule remove_closes [OF assms(1-4)])
    fix s'
    assume r: "remove_workspace R u = (Inr (), s')" "lc_phase (rn_lifecycle s') = PF_CLOSED" "lifecycle_inv (rn_lifecycle s')"
      "rn_cleaned s' \<longleftrightarrow> \<not> lc_cleanup_failed (rn_lifecycle s')" "same_evidence u s'" "rn_capture s' = rn_capture u"
      "rn_capture_error s' = rn_capture_error u" "lc_failure (rn_lifecycle s') = None \<Longrightarrow> lc_failure (rn_lifecycle u) = None"
    have "lc_failure (rn_lifecycle s) = None \<and> lc_phase (rn_lifecycle s) \<noteq> PF_FINALIZE" if "lc_failure (rn_lifecycle s') = None"
      by (rule assms(6) [OF r(8) [OF that]])
    moreover have "if lc_phase (rn_lifecycle s) = PF_REPORTED then captured R s s'
        else rn_capture s' = rn_capture s \<and> rn_capture_error s' = rn_capture_error s"
      using assms(7) unfolding c [OF r(6,7)] r(6,7) .
    ultimately have "closed_after R s s'"
      unfolding closed_after_def using r(2-4) same_evidence_trans [OF assms(5) r(5)] by (intro conjI impI) simp_all
    with r(1) show ?thesis by blast
  qed
qed

lemma lifecycle_to_cleanup:
  assumes "\<And>t. \<exists>y l. lifecycle_apply op t (rn_lifecycle s) = (Inr y, l) \<and> lc_phase l = PF_CLEANUP \<and> (lc_failure l = None \<longrightarrow> ok)
      \<and> lc_run_id l = lc_run_id (rn_lifecycle s) \<and> lc_report_only l = lc_report_only (rn_lifecycle s)"
    and "lifecycle_inv (rn_lifecycle s)"
  obtains l w where "lifecycle_do R op s = (Inr (), s\<lparr>rn_lifecycle := l, rn_world := w\<rparr>)" "lifecycle_inv l"
    "lc_phase l = PF_CLEANUP" "lc_failure l = None \<Longrightarrow> ok" "lc_run_id l = lc_run_id (rn_lifecycle s)"
    "lc_report_only l = lc_report_only (rn_lifecycle s)"
proof -
  let ?Q = "\<lambda>l. lc_phase l = PF_CLEANUP \<and> (lc_failure l = None \<longrightarrow> ok)
      \<and> lc_run_id l = lc_run_id (rn_lifecycle s) \<and> lc_report_only l = lc_report_only (rn_lifecycle s)"
  obtain l w t y where "lifecycle_do R op s = (Inr (), s\<lparr>rn_lifecycle := l, rn_world := w\<rparr>)" "?Q l" "lifecycle_inv l"
    by (rule lifecycle_do_ok [of op s ?Q R, OF assms])
  then show thesis using that by simp
qed

lemma finalization_failed_ok:
  assumes "lifecycle_inv (rn_lifecycle s)" "lc_phase (rn_lifecycle s) = PF_FINALIZE"
  obtains l w where "lifecycle_do R (Finalization_Failed f) s = (Inr (), s\<lparr>rn_lifecycle := l, rn_world := w\<rparr>)" "lifecycle_inv l"
    "lc_phase l = PF_CLEANUP" "lc_failure l = None \<Longrightarrow> False" "lc_run_id l = lc_run_id (rn_lifecycle s)"
    "lc_report_only l = lc_report_only (rn_lifecycle s)"
proof -
  have "\<exists>y l. lifecycle_apply (Finalization_Failed f) t (rn_lifecycle s) = (Inr y, l) \<and> lc_phase l = PF_CLEANUP \<and> (lc_failure l = None \<longrightarrow> False)
      \<and> lc_run_id l = lc_run_id (rn_lifecycle s) \<and> lc_report_only l = lc_report_only (rn_lifecycle s)" for t
    using assms(2) by (simp add: lc_finalization_failed_def lc_record_Inr)
  then show thesis by (rule lifecycle_to_cleanup [OF _ assms(1)]) (rule that)
qed

lemma begin_cleanup_ok:
  assumes "lifecycle_inv (rn_lifecycle s)" "lc_phase (rn_lifecycle s) = PF_REPORTED"
  obtains l w where "lifecycle_do R Begin_Cleanup s = (Inr (), s\<lparr>rn_lifecycle := l, rn_world := w\<rparr>)" "lifecycle_inv l"
    "lc_phase l = PF_CLEANUP" "lc_failure l = None \<Longrightarrow> lc_failure (rn_lifecycle s) = None" "lc_run_id l = lc_run_id (rn_lifecycle s)"
    "lc_report_only l = lc_report_only (rn_lifecycle s)"
proof -
  have "\<exists>y l. lifecycle_apply Begin_Cleanup t (rn_lifecycle s) = (Inr y, l) \<and> lc_phase l = PF_CLEANUP
      \<and> (lc_failure l = None \<longrightarrow> lc_failure (rn_lifecycle s) = None)
      \<and> lc_run_id l = lc_run_id (rn_lifecycle s) \<and> lc_report_only l = lc_report_only (rn_lifecycle s)" for t
    using assms(2) by (simp add: lc_begin_cleanup_def lc_record_Inr)
  then show thesis by (rule lifecycle_to_cleanup [OF _ assms(1)]) (rule that)
qed

text \<open>The finalization failure of an open run, then the removal of its workspace.\<close>

lemma failed_closed:
  assumes "orderly (rc_env R)" "lifecycle_inv (rn_lifecycle u)" "lc_phase (rn_lifecycle u) = PF_FINALIZE" "\<not> rn_cleaned u"
    "same_evidence s u" "rn_capture u = rn_capture s" "rn_capture_error u = rn_capture_error s" "lc_phase (rn_lifecycle s) \<noteq> PF_REPORTED"
  shows "\<exists>s'. step_bind (lifecycle_do R (Finalization_Failed ENGINE_ERROR)) (\<lambda>_. remove_workspace R) u = (Inr (), s') \<and> closed_after R s s'"
proof (rule finalization_failed_ok [OF assms(2,3), of R ENGINE_ERROR])
  fix l w
  assume f: "lifecycle_do R (Finalization_Failed ENGINE_ERROR) u = (Inr (), u\<lparr>rn_lifecycle := l, rn_world := w\<rparr>)" "lifecycle_inv l"
    "lc_phase l = PF_CLEANUP" "lc_failure l = None \<Longrightarrow> False" "lc_run_id l = lc_run_id (rn_lifecycle u)"
    "lc_report_only l = lc_report_only (rn_lifecycle u)"
  let ?v = "u\<lparr>rn_lifecycle := l, rn_world := w\<rparr>"
  have "same_evidence s ?v" using assms(5) f(5,6) by (simp add: same_evidence_def)
  moreover have "lc_failure l \<noteq> None" using f(4) by blast
  ultimately have "\<exists>s'. remove_workspace R ?v = (Inr (), s') \<and> closed_after R s s'"
    using assms f(2,3) by (intro removed_after) simp_all
  then show ?thesis by (simp add: step_bind_def f(1))
qed

lemma finish_closed:
  assumes "orderly (rc_env R)" "lifecycle_inv (rn_lifecycle s)" "lc_phase (rn_lifecycle s) \<noteq> PF_CLOSED" "\<not> rn_cleaned s"
  shows "\<exists>s'. finish_cleanup R s = (Inr (), s') \<and> closed_after R s s'"
proof -
  have same: "same_evidence s s" by (simp add: same_evidence_def)
  consider (reported) "lc_phase (rn_lifecycle s) = PF_REPORTED" | (cleanup) "lc_phase (rn_lifecycle s) = PF_CLEANUP"
    | (finalize) "lc_phase (rn_lifecycle s) = PF_FINALIZE" | (early) "\<not> ended (lc_phase (rn_lifecycle s))" "lc_phase (rn_lifecycle s) \<noteq> PF_FINALIZE"
    using assms(3) by (auto simp: ended_def)
  then show ?thesis
  proof cases
    case reported
    show ?thesis
    proof (rule capture_final_ok [OF assms(1), of s])
      fix u
      assume u: "capture_final R s = (Inr (), u)" "same_evidence s u" "rn_lifecycle u = rn_lifecycle s" "rn_cleaned u = rn_cleaned s"
        "captured R s u"
      show ?thesis
      proof (rule begin_cleanup_ok [of u R])
        fix l w
        assume b: "lifecycle_do R Begin_Cleanup u = (Inr (), u\<lparr>rn_lifecycle := l, rn_world := w\<rparr>)" "lifecycle_inv l"
          "lc_phase l = PF_CLEANUP" "lc_failure l = None \<Longrightarrow> lc_failure (rn_lifecycle u) = None"
          "lc_run_id l = lc_run_id (rn_lifecycle u)" "lc_report_only l = lc_report_only (rn_lifecycle u)"
        let ?v = "u\<lparr>rn_lifecycle := l, rn_world := w\<rparr>"
        have "same_evidence s ?v" using u(2) b(5,6) by (simp add: same_evidence_def)
        moreover have "captured R s ?v" using u(5) captured_cong [of ?v u R s] by simp
        ultimately have "\<exists>s'. remove_workspace R ?v = (Inr (), s') \<and> closed_after R s s'"
          using assms b(2-4) u(3,4) reported by (intro removed_after) simp_all
        then show ?thesis using reported u(1) b(1) by (simp add: finish_cleanup_def step_bind_def Let_def)
      qed (use assms(2) u(3) reported in simp_all)
    qed
  next
    case cleanup
    have "lc_failure (rn_lifecycle s) = None \<Longrightarrow> lc_failure (rn_lifecycle s) = None \<and> lc_phase (rn_lifecycle s) \<noteq> PF_FINALIZE"
      using cleanup by simp
    then have "\<exists>s'. remove_workspace R s = (Inr (), s') \<and> closed_after R s s'"
      using assms cleanup same by (intro removed_after) simp_all
    with cleanup show ?thesis by (simp add: finish_cleanup_def step_bind_def step_ret_def Let_def)
  next
    case finalize
    then show ?thesis using failed_closed [OF assms(1,2) finalize assms(4) same] by (simp add: finish_cleanup_def Let_def)
  next
    case early
    show ?thesis
    proof (rule record_failure_ok [OF assms(2) early(1), of ENGINE_ERROR R])
      fix op t y l w
      assume r: "record_failure R ENGINE_ERROR s = (Inr (), s\<lparr>rn_lifecycle := l, rn_world := w\<rparr>)"
        "op \<in> {Fail ENGINE_ERROR, Finalization_Failed ENGINE_ERROR}" "lifecycle_apply op t (rn_lifecycle s) = (Inr y, l)"
      have l: "lc_phase l = PF_FINALIZE" "lc_run_id l = lc_run_id (rn_lifecycle s)" "lc_report_only l = lc_report_only (rn_lifecycle s)"
        using r(2,3) early(2) by (auto simp: lc_fail_def lc_finalization_failed_def lc_record_Inr split: if_splits)
      let ?u = "s\<lparr>rn_lifecycle := l, rn_world := w\<rparr>"
      have "lifecycle_inv l" using lifecycle_apply_inv [OF assms(2), of op t] r(3) by simp
      moreover have "same_evidence s ?u" using l by (simp add: same_evidence_def)
      moreover have "lc_phase (rn_lifecycle s) \<noteq> PF_REPORTED" using early(1) by (auto simp: ended_def)
      ultimately have "\<exists>s'. step_bind (lifecycle_do R (Finalization_Failed ENGINE_ERROR)) (\<lambda>_. remove_workspace R) ?u = (Inr (), s') \<and> closed_after R s s'"
        using assms(1,4) l(1) by (intro failed_closed) simp_all
      with early r(1) l(1) show ?thesis by (auto simp: finish_cleanup_def step_bind_def Let_def ended_def)
    qed simp
  qed
qed

end
