(* ===== verification/PatchForgeDemo.thy ===== *)
theory PatchForgeDemo
  imports PatchForgeRunFacts
begin

text \<open>
  A small run of PatchForge on which the properties are tried: an engine that follows the phases, creates one file,
  runs the targeted tests and the full suite once and reports. The world counts the turns and knows whether the
  file is written; its other answers are the simplest ones. The run and its attestation are evaluated by rewriting.
\<close>

section \<open>The small run\<close>

definition demo_sha :: string where "demo_sha = replicate 64 (CHR ''a'')"
definition demo_clean_sha :: string where "demo_clean_sha = replicate 64 (CHR ''c'')"
definition demo_commit :: string where "demo_commit = replicate 40 (CHR ''b'')"

definition demo_source :: source_revision where
  "demo_source = \<lparr>repository_url = \<lparr>url_text = ''https://h/n'', url_username = None, url_password = None, url_query = None,
     url_fragment = None\<rparr>, commit_sha = demo_commit, source_ref = None\<rparr>"

definition demo_phase_budget :: phase_budget where
  "demo_phase_budget = \<lparr>ph_tool_calls = 3, ph_duration_seconds = 100, ph_output_bytes = 10000\<rparr>"

definition demo_budgets :: run_budgets where
  "demo_budgets = \<lparr>rb_provisioning = demo_phase_budget, rb_recon = demo_phase_budget, rb_hypothesis = demo_phase_budget,
     rb_reproduce = demo_phase_budget, rb_implement = demo_phase_budget, rb_targeted_validate = demo_phase_budget,
     rb_full_validate = demo_phase_budget, rb_self_review = demo_phase_budget, rb_finalization_reserve = demo_phase_budget,
     rb_cleanup = demo_phase_budget, rb_implementation_loops = 2, rb_total_tool_calls = 40, rb_total_duration_seconds = 2000\<rparr>"

definition demo_sandbox :: sandbox_policy where
  "demo_sandbox = \<lparr>sp_image = lit ''i'', sp_user = lit ''u'', sp_cpu_millis = 100, sp_memory_mb = 64, sp_pids = 16,
     sp_timeout_seconds = 60, sp_output_bytes = 1000\<rparr>"

definition demo_profile :: repository_profile where
  "demo_profile = \<lparr>profile_id = ''p'', profile_version = 1, profile_url = repository_url demo_source, profile_sandbox = demo_sandbox,
     profile_commands = [(TARGETED_TESTS, \<lparr>cmd_executable = ''pytest'', cmd_arguments = [], cmd_directory = [46],
       cmd_timeout_seconds = 60, cmd_output_bytes = 1000\<rparr>),
       (FULL_TEST_SUITE, \<lparr>cmd_executable = ''pytest'', cmd_arguments = [], cmd_directory = [46], cmd_timeout_seconds = 60,
         cmd_output_bytes = 1000\<rparr>)], protected_paths = [], test_path_prefixes = []\<rparr>"

definition demo_pf_policy :: pf_policy where
  "demo_pf_policy = \<lparr>policy_agent = ''patchforge.engineer'', policy_profile_id = ''p'', policy_profile_sha256 = demo_sha,
     allowed_tools = [CREATE_FILE, RUN_TARGETED_TESTS, RUN_TEST_SUITE, ADVANCE_PHASE, SUBMIT_REPORT], policy_budgets = demo_budgets, policy_changed_files = 10,
     policy_diff_bytes = 1000, allow_test_file_changes = False\<rparr>"

definition demo_pf_task :: engineering_task where
  "demo_pf_task = \<lparr>et_task_id = 1, et_atlas_job_id = 2, et_title = lit ''t'', et_instructions = lit ''i'', et_criteria = [],
     et_constraints = [], et_source = demo_source, et_profile_id = ''p'', et_profile_sha256 = demo_sha, scope_paths = [],
     et_created_at = 0\<rparr>"

definition demo_identity :: run_identity where
  "demo_identity = \<lparr>run_id = 3, run_task_id = 1, run_atlas_job_id = 2, run_execution_id = 4, run_agent_id = ''patchforge.engineer'',
     run_source = demo_source, run_profile_id = ''p'', run_profile_sha256 = demo_sha, run_task_sha256 = demo_sha,
     run_engine_kind = ''scripted'', run_engine_version = lit ''1'', run_created_at = 0\<rparr>"

definition demo_binding :: pf_binding where
  "demo_binding = \<lparr>pb_identity = demo_identity, pb_task = demo_pf_task, pb_profile = demo_profile, pb_policy = demo_pf_policy\<rparr>"

definition demo_handle :: workspace_handle where
  "demo_handle = \<lparr>wh_record = \<lparr>wr_workspace_id = 5, wr_run_id = 3, wr_task_id = 1, wr_source_sha = demo_commit, wr_branch = lit ''b'',
     wr_active = True, wr_created_at = 0, wr_expires_at = 1000\<rparr>, wh_root = [lit ''r''], wh_worktree = [lit ''r'', lit ''w''],
     wh_git_directory = [lit ''g'']\<rparr>"

definition demo_diff :: workspace_diff where
  "demo_diff = \<lparr>wd_base_sha = demo_commit, wd_patch = ''d'', wd_sha256 = demo_sha, wd_changed_files = [lit ''a.py''],
     wd_additions = 1, wd_deletions = 0, wd_binary_files = []\<rparr>"

definition demo_clean_diff :: workspace_diff where
  "demo_clean_diff = \<lparr>wd_base_sha = demo_commit, wd_patch = [], wd_sha256 = demo_clean_sha, wd_changed_files = [],
     wd_additions = 0, wd_deletions = 0, wd_binary_files = []\<rparr>"

definition demo_execution :: "uuid \<Rightarrow> sandbox_execution" where
  "demo_execution c = \<lparr>sx_execution_id = c + 100, sx_run_id = 3, sx_call_id = c, sx_status = SANDBOX_SUCCEEDED, sx_exit_code = Some 0,
     sx_stdout = [], sx_stderr = [], sx_truncated = False, sx_command_sha256 = demo_sha, sx_policy_sha256 = demo_sha,
     sx_started_at = 0, sx_completed_at = 0, sx_error_code = None\<rparr>"

type_synonym demo_world = "nat \<times> bool"

definition demo_pf_env :: "demo_world pf_env" where
  "demo_pf_env = \<lparr>env_nfc = id, env_sha256 = (\<lambda>_. demo_sha), env_uuid5 = (\<lambda>i s. length s), env_iso = (\<lambda>t. ''t''),
     pf_casefold = id, pf_strip = id, pf_encode = (\<lambda>s. map char_of s), pf_decode = (\<lambda>s. Some (lit s)),
     pf_decode_replace = lit, pf_decode_ignore = lit, pf_parse = (\<lambda>s. Some []), pf_now = (\<lambda>w. (0, w)), pf_id = (\<lambda>w. (10 + fst w, w)),
     pf_verify = (\<lambda>h w. (Inr h, w)), pf_status = (\<lambda>h w. (Inr [], w)),
     pf_diff = (\<lambda>h w. (Inr (if snd w then demo_diff else demo_clean_diff), w)), pf_ignored = (\<lambda>h p w. (Inr False, w)),
     pf_propose = (\<lambda>h m t w. (Inr \<lparr>prop_commit_sha = demo_commit, prop_committed_at = t, prop_diff = demo_diff\<rparr>, w)),
     pf_renew = (\<lambda>h n w. (Inr h, w)), pf_cleanup = (\<lambda>i w. (Inr True, w)),
     pf_sandbox = (\<lambda>r c d m p w. (Inr (demo_execution c), w)),
     fs_resolve = (\<lambda>b p w. Inr p), fs_exists = (\<lambda>p w. False), fs_link = (\<lambda>p w. False), fs_file = (\<lambda>p w. False),
     fs_folder = (\<lambda>p w. True), fs_size = (\<lambda>p w. Inr 0), fs_lstat = (\<lambda>p w. Inr (False, 0)), fs_read = (\<lambda>p w. Inr []),
     fs_read_text = (\<lambda>p w. Inr []), fs_children = (\<lambda>p w. Inr []), fs_rglob = (\<lambda>p w. Inr []), fs_write = (\<lambda>p s w. (Inr (), w)),
     fs_copy_mode = (\<lambda>p q w. (Inr (), w)), fs_replace = (\<lambda>p q w. (Inr (), (fst w, True))), fs_unlink = (\<lambda>p w. (Inr (), w))\<rparr>"

definition demo_report :: agent_report where
  "demo_report = \<lparr>report_summary = lit ''s'', report_hypothesis = lit ''h'', report_implementation = lit ''i'',
     report_limitations = [], evidence_references = []\<rparr>"

text \<open>The phase that follows on the way without retries.\<close>

fun demo_next :: "pf_phase \<Rightarrow> pf_phase" where
  "demo_next PF_RECON = PF_HYPOTHESIS" | "demo_next PF_HYPOTHESIS = PF_REPRODUCE" | "demo_next PF_REPRODUCE = PF_IMPLEMENT"
| "demo_next PF_IMPLEMENT = PF_TARGETED_VALIDATE" | "demo_next PF_TARGETED_VALIDATE = PF_FULL_VALIDATE"
| "demo_next PF_FULL_VALIDATE = PF_SELF_REVIEW" | "demo_next PF_SELF_REVIEW = PF_FINALIZE" | "demo_next p = p"

definition demo_engine :: "demo_world engine" where
  "demo_engine turn w = ((if tn_phase turn = PF_FINALIZE then Act SUBMIT_REPORT (Report_Args demo_report)
     else if fst w = 3 then Act CREATE_FILE (Create_Args (lit ''a.py'') (lit ''x''))
     else if fst w = 5 then Act RUN_TARGETED_TESTS Empty_Args
     else if fst w = 7 then Act RUN_TEST_SUITE Empty_Args
     else Act ADVANCE_PHASE (Advance_Args (demo_next (tn_phase turn)))), (fst w + 1, snd w))"

definition demo_config :: "demo_world run_config" where
  "demo_config = \<lparr>rc_env = demo_pf_env, rc_binding = demo_binding, rc_engine = demo_engine, rc_lease = 60\<rparr>"

definition demo_gateway :: pf_gateway where
  "demo_gateway = \<lparr>gw_workspace = demo_handle, gw_records = [], gw_executions = [], gw_duration = (\<lambda>_. 0), gw_output = (\<lambda>_. 0)\<rparr>"

section \<open>The sizes of its outputs\<close>

lemma demo_stable: "ascii_stable demo_pf_env"
  by (simp add: ascii_stable_def demo_pf_env_def)

lemma plain_append: "plain_text (lit (s @ t)) \<longleftrightarrow> plain_text (lit s) \<and> plain_text (lit t)"
  by (simp add: plain_text_def lit_def)

lemma uuid_text_size: "length (uuid_str i) = 36"
proof -
  have "length (hex_digits n i) = n" for n i by (induction n i rule: hex_digits.induct) simp_all
  then show ?thesis by (simp add: uuid_str_def Let_def)
qed

lemma uuid_text_plain: "plain_text (lit (uuid_str i))"
proof -
  have plain_hex: "plain_text (lit [hex_char d])" if "d < 16" for d
    using that by (auto simp: plain_text_def lit_def hex_char_def)
  have hex: "plain_text (lit (hex_digits n i))" for n i
    by (induction n i rule: hex_digits.induct) (auto simp: plain_append plain_hex, simp add: plain_text_def lit_def)
  have "plain_text (lit (take n s))" "plain_text (lit (drop n s))" if "plain_text (lit s)" for n s
    using that by (auto simp: plain_text_def lit_def list_all_iff dest: in_set_takeD in_set_dropD)
  moreover have "plain_text (lit ''-'')" by (simp add: plain_text_def lit_def)
  ultimately show ?thesis by (simp add: uuid_str_def Let_def plain_append hex del: append.simps append_Cons)
qed

lemma plain_words:
  "plain_text (lit ''attested_by'')" "plain_text (lit ''patchforge.runtime'')" "plain_text (lit ''kind'')"
  "plain_text (lit ''current_phase'')" "plain_text (lit ''target_phase'')" "plain_text (lit ''phase_request'')"
  "plain_text (lit ''evidence_references'')" "plain_text (lit ''report_sha256'')" "plain_text (lit ''report'')"
  "plain_text (lit ''command_name'')" "plain_text (lit ''execution_id'')" "plain_text (lit ''exit_code'')"
  "plain_text (lit ''execution'')" "plain_text (lit ''output_truncated'')" "plain_text (lit ''status'')" "plain_text (lit ''succeeded'')"
  "plain_text (lit ''stderr'')" "plain_text (lit ''stdout'')" "plain_text []" "plain_text (lit ''after_sha256'')"
  "plain_text (lit ''before_sha256'')" "plain_text (lit ''mutation'')" "plain_text (lit ''operation'')" "plain_text (lit ''created'')"
  "plain_text (lit ''path'')" "plain_text (lit (pf_phase_value p))" "plain_text (lit (check_kind_value k))" "plain_text (lit demo_sha)"
  by (simp_all add: plain_text_def lit_def demo_sha_def list_all_iff) (cases p; simp; fail | cases k; simp)+

lemma demo_normal: "normalize_json (env_nfc demo_pf_env) j = j"
proof -
  have "normalize_json (\<lambda>x. x) j = j" by (induction j) (auto simp: map_idI split_beta intro!: map_idI)
  then show ?thesis by (simp add: demo_pf_env_def id_def)
qed

lemma request_size:
  "output_size demo_pf_env (Phase_Request_Output p q) = 96 + length (pf_phase_value p) + length (pf_phase_value q)"
proof -
  have "sort_json (output_json (Phase_Request_Output p q)) = JObj [(lit ''attested_by'', jstr ''patchforge.runtime''),
     (lit ''current_phase'', jstr (pf_phase_value p)), (lit ''kind'', jstr ''phase_request''), (lit ''target_phase'', jstr (pf_phase_value q))]"
    by (simp add: attested_def obj_def jstr_def lit_def)
  then show ?thesis
    by (simp add: output_size_def canonical_json_def demo_normal quote_plain plain_words jstr_def del: output_json.simps)
qed

lemma report_size: "output_size demo_pf_env (Report_Output demo_sha []) = 160"
proof -
  have "sort_json (output_json (Report_Output demo_sha [])) = JObj [(lit ''attested_by'', jstr ''patchforge.runtime''),
     (lit ''evidence_references'', JList []), (lit ''kind'', jstr ''report''), (lit ''report_sha256'', jstr demo_sha)]"
    by (simp add: attested_def obj_def jstr_def lit_def)
  then have "output_size demo_pf_env (Report_Output demo_sha []) = 96 + length demo_sha"
    by (simp add: output_size_def canonical_json_def demo_normal quote_plain plain_words jstr_def del: output_json.simps)
  then show ?thesis by (simp add: demo_sha_def)
qed

lemma mutation_size: "output_size demo_pf_env (Mutation_Output (lit ''a.py'') CREATED_FILE None (Some demo_sha)) = 193"
proof -
  have "sort_json (output_json (Mutation_Output (lit ''a.py'') CREATED_FILE None (Some demo_sha))) = JObj [(lit ''after_sha256'', jstr demo_sha),
     (lit ''attested_by'', jstr ''patchforge.runtime''), (lit ''before_sha256'', JNull), (lit ''kind'', jstr ''mutation''),
     (lit ''operation'', jstr ''created''), (lit ''path'', JStr (lit ''a.py''))]"
    by (simp add: attested_def obj_def jstr_def lit_def mutation_value_def jopt_def)
  moreover have "plain_text (lit ''a.py'')" by (simp add: plain_text_def lit_def)
  ultimately have "output_size demo_pf_env (Mutation_Output (lit ''a.py'') CREATED_FILE None (Some demo_sha)) = 129 + length demo_sha"
    by (simp add: output_size_def canonical_json_def demo_normal quote_plain plain_words jstr_def del: output_json.simps)
  then show ?thesis by (simp add: demo_sha_def)
qed

lemma execution_size:
  "output_size demo_pf_env (Execution_Output i (check_kind_value k) SANDBOX_SUCCEEDED (Some 0) [] [] False) = 211 + length (check_kind_value k)"
proof -
  have "sort_json (output_json (Execution_Output i (check_kind_value k) SANDBOX_SUCCEEDED (Some 0) [] [] False)) =
     JObj [(lit ''attested_by'', jstr ''patchforge.runtime''), (lit ''command_name'', jstr (check_kind_value k)), (lit ''execution_id'', juuid i),
     (lit ''exit_code'', JInt 0), (lit ''kind'', jstr ''execution''), (lit ''output_truncated'', JBool False),
     (lit ''status'', jstr ''succeeded''), (lit ''stderr'', JStr []), (lit ''stdout'', JStr [])]"
    by (simp add: attested_def obj_def jstr_def lit_def juuid_def jopt_def)
  moreover have "int_str 0 = [digit_char 0]" by (simp add: int_str_def nat_str.simps)
  ultimately show ?thesis
    by (simp add: output_size_def canonical_json_def demo_normal quote_plain plain_words uuid_text_plain uuid_text_size jstr_def juuid_def
        del: output_json.simps)
qed

section \<open>What it returns\<close>

definition demo_result :: "nat \<Rightarrow> pf_phase \<Rightarrow> tool_name \<Rightarrow> nat \<Rightarrow> tool_output \<Rightarrow> sandbox_execution option \<Rightarrow> gateway_result" where
  "demo_result n phase tool bytes out x = \<lparr>gr_record = \<lparr>tc_call_id = 10 + n, tc_run_id = 3, tc_sequence = n, tc_phase = phase,
     tc_tool = tool, tc_arguments_sha256 = demo_sha, tc_status = TOOL_SUCCEEDED, tc_started_at = 0, tc_completed_at = 0,
     tc_output_bytes = bytes, tc_truncated = False, tc_error_code = None\<rparr>, gr_output = out, gr_execution = x\<rparr>"

definition demo_results :: "gateway_result list" where
  "demo_results = [demo_result 1 PF_RECON ADVANCE_PHASE 111 (Phase_Request_Output PF_RECON PF_HYPOTHESIS) None,
    demo_result 2 PF_HYPOTHESIS ADVANCE_PHASE 115 (Phase_Request_Output PF_HYPOTHESIS PF_REPRODUCE) None,
    demo_result 3 PF_REPRODUCE ADVANCE_PHASE 114 (Phase_Request_Output PF_REPRODUCE PF_IMPLEMENT) None,
    demo_result 4 PF_IMPLEMENT CREATE_FILE 193 (Mutation_Output (lit ''a.py'') CREATED_FILE None (Some demo_sha)) None,
    demo_result 5 PF_IMPLEMENT ADVANCE_PHASE 122 (Phase_Request_Output PF_IMPLEMENT PF_TARGETED_VALIDATE) None,
    demo_result 6 PF_TARGETED_VALIDATE RUN_TARGETED_TESTS 225 (Execution_Output 116 ''targeted_tests'' SANDBOX_SUCCEEDED (Some 0) [] [] False) (Some (demo_execution 16)),
    demo_result 7 PF_TARGETED_VALIDATE ADVANCE_PHASE 126 (Phase_Request_Output PF_TARGETED_VALIDATE PF_FULL_VALIDATE) None,
    demo_result 8 PF_FULL_VALIDATE RUN_TEST_SUITE 226 (Execution_Output 118 ''full_test_suite'' SANDBOX_SUCCEEDED (Some 0) [] [] False) (Some (demo_execution 18)),
    demo_result 9 PF_FULL_VALIDATE ADVANCE_PHASE 120 (Phase_Request_Output PF_FULL_VALIDATE PF_SELF_REVIEW) None,
    demo_result 10 PF_SELF_REVIEW ADVANCE_PHASE 115 (Phase_Request_Output PF_SELF_REVIEW PF_FINALIZE) None,
    demo_result 11 PF_FINALIZE SUBMIT_REPORT 160 (Report_Output demo_sha []) None]"

definition demo_move :: "nat \<Rightarrow> pf_phase \<Rightarrow> pf_phase \<Rightarrow> transition_kind \<Rightarrow> runtime_transition" where
  "demo_move n p q k = \<lparr>rt_run_id = 3, rt_sequence = n, rt_source = p, rt_target = q, rt_kind = k, rt_loops = 0, rt_failure = None,
     rt_at = 0\<rparr>"

definition demo_snapshot :: lifecycle where
  "demo_snapshot = \<lparr>lc_run_id = 3, lc_max_loops = 2, lc_phase = PF_CLOSED, lc_loops = 0, lc_outcome = None, lc_failure = None,
     lc_cleanup_failed = False, lc_report_only = False, lc_transitions =
    [demo_move 1 PF_CREATED PF_PROVISIONING KIND_PROGRESS, demo_move 2 PF_PROVISIONING PF_RECON KIND_PROGRESS,
     demo_move 3 PF_RECON PF_HYPOTHESIS KIND_PROGRESS, demo_move 4 PF_HYPOTHESIS PF_REPRODUCE KIND_PROGRESS,
     demo_move 5 PF_REPRODUCE PF_IMPLEMENT KIND_PROGRESS, demo_move 6 PF_IMPLEMENT PF_TARGETED_VALIDATE KIND_PROGRESS,
     demo_move 7 PF_TARGETED_VALIDATE PF_FULL_VALIDATE KIND_PROGRESS, demo_move 8 PF_FULL_VALIDATE PF_SELF_REVIEW KIND_PROGRESS,
     demo_move 9 PF_SELF_REVIEW PF_FINALIZE KIND_PROGRESS, demo_move 10 PF_FINALIZE PF_REPORTED KIND_REPORT,
     demo_move 11 PF_REPORTED PF_CLEANUP KIND_CLEANUP, demo_move 12 PF_CLEANUP PF_CLOSED KIND_CLOSE]\<rparr>"

definition demo_state :: "nat \<Rightarrow> state_kind \<Rightarrow> nat option \<Rightarrow> bool \<Rightarrow> state_record" where
  "demo_state n kind call written = \<lparr>st_run_id = 3, st_sequence = n, st_kind = kind, st_call_sequence = call,
     st_diff_sha256 = (if written then demo_sha else demo_clean_sha), st_changed_files = (if written then 1 else 0), st_captured_at = 0\<rparr>"

definition demo_states :: "state_record list" where
  "demo_states = [demo_state 1 INITIAL_STATE None False, demo_state 2 BEFORE_CALL (Some 4) False, demo_state 3 AFTER_CALL (Some 4) True,
    demo_state 4 BEFORE_CALL (Some 6) True, demo_state 5 AFTER_CALL (Some 6) True, demo_state 6 BEFORE_CALL (Some 8) True,
    demo_state 7 AFTER_CALL (Some 8) True]"

definition demo_renewal :: "nat \<Rightarrow> lease_renewal" where
  "demo_renewal n = \<lparr>ln_run_id = 3, ln_sequence = n, ln_workspace_id = 5, ln_previous = 1000, ln_renewed = 1000, ln_occurred_at = 0\<rparr>"

definition demo_capture :: final_capture where
  "demo_capture = \<lparr>fc_run_id = 3, fc_base_sha = demo_commit, fc_head_sha = demo_commit, fc_diff_sha256 = demo_sha, fc_patch = ''d'',
     fc_changed_files = [lit ''a.py''], fc_binary_files = [], fc_additions = 1, fc_deletions = 0, fc_committed_at = 0\<rparr>"

definition demo_usage :: budget_usage where
  "demo_usage = \<lparr>bu_phases = [\<lparr>pu_phase = PF_RECON, pu_calls = 1, pu_duration = 0, pu_output = 111\<rparr>,
      \<lparr>pu_phase = PF_HYPOTHESIS, pu_calls = 1, pu_duration = 0, pu_output = 115\<rparr>,
      \<lparr>pu_phase = PF_REPRODUCE, pu_calls = 1, pu_duration = 0, pu_output = 114\<rparr>,
      \<lparr>pu_phase = PF_IMPLEMENT, pu_calls = 2, pu_duration = 0, pu_output = 315\<rparr>,
      \<lparr>pu_phase = PF_TARGETED_VALIDATE, pu_calls = 2, pu_duration = 0, pu_output = 351\<rparr>,
      \<lparr>pu_phase = PF_FULL_VALIDATE, pu_calls = 2, pu_duration = 0, pu_output = 346\<rparr>,
      \<lparr>pu_phase = PF_SELF_REVIEW, pu_calls = 1, pu_duration = 0, pu_output = 115\<rparr>,
      \<lparr>pu_phase = PF_FINALIZE, pu_calls = 1, pu_duration = 0, pu_output = 160\<rparr>],
     bu_calls = 11, bu_duration = 0, bu_output = 1627, bu_reserve_used = True\<rparr>"

definition demo_completion :: runtime_completion where
  "demo_completion = \<lparr>cp_identity = demo_identity, cp_snapshot = demo_snapshot, cp_report = Some demo_report, cp_results = demo_results,
     cp_tool_calls = map gr_record demo_results, cp_executions = [demo_execution 16, demo_execution 18], cp_usage = demo_usage,
     cp_renewals = map demo_renewal [1, 2, 3], cp_states = demo_states, cp_capture = Some demo_capture, cp_capture_error = None,
     cp_refusal = None, cp_cleaned = True\<rparr>"

section \<open>Evaluation\<close>

lemma demo_digest: "object_digest demo_pf_env j = demo_sha"
  by (simp add: object_digest_def canonical_sha256_def demo_pf_env_def)

lemma demo_answers:
  "pf_now demo_pf_env w = (0, w)" "pf_id demo_pf_env w = (10 + fst w, w)" "pf_verify demo_pf_env h w = (Inr h, w)"
  "pf_diff demo_pf_env h w = (Inr (if snd w then demo_diff else demo_clean_diff), w)" "pf_ignored demo_pf_env h p w = (Inr False, w)"
  "pf_propose demo_pf_env h m t w = (Inr \<lparr>prop_commit_sha = demo_commit, prop_committed_at = t, prop_diff = demo_diff\<rparr>, w)"
  "pf_renew demo_pf_env h n w = (Inr h, w)" "pf_cleanup demo_pf_env i w = (Inr True, w)"
  "pf_sandbox demo_pf_env r c d cm sp w = (Inr (demo_execution c), w)"
  "fs_resolve demo_pf_env b f w = Inr f" "fs_exists demo_pf_env f w = False" "fs_link demo_pf_env f w = False"
  "fs_folder demo_pf_env f w = True" "fs_write demo_pf_env f s w = (Inr (), w)" "fs_replace demo_pf_env f f' w = (Inr (), (fst w, True))"
  "pf_decode_replace demo_pf_env = lit" "pf_casefold demo_pf_env = id" "env_sha256 demo_pf_env s = demo_sha"
  "rc_env demo_config = demo_pf_env" "rc_binding demo_config = demo_binding" "rc_engine demo_config = demo_engine" "rc_lease demo_config = 60"
  by (simp_all add: demo_pf_env_def demo_config_def)

lemma demo_hashes: "valid_sha256 demo_sha" "valid_sha256 demo_clean_sha" "valid_commit_sha demo_commit"
  by (simp_all add: valid_sha256_def demo_sha_def demo_clean_sha_def valid_commit_sha_def demo_commit_def list_all_iff is_lower_hex_def)

lemma demo_path:
  "path_ok (lit ''a.py'')" "\<not> sensitive demo_pf_env (lit ''a.py'')" "last_component (lit ''a.py'') = lit ''a.py''"
  "lit ''a.py'' \<notin> set git_control_files" "\<not> path_matches (lit ''a.py'') []" "path_in_scope (lit ''a.py'') []"
  "split_on 47 (lit ''a.py'') = [lit ''a.py'']" "is_test_path demo_profile (lit ''a.py'') = False" "lit ''a.py'' \<noteq> [46]"
  "length (lit ''x'') = 1"
  subgoal by code_simp
  subgoal by (simp add: sensitive_def) code_simp
  by code_simp+

definition demo_command :: sandbox_command where
  "demo_command = \<lparr>cmd_executable = ''pytest'', cmd_arguments = [], cmd_directory = [46], cmd_timeout_seconds = 60, cmd_output_bytes = 1000\<rparr>"

lemma demo_profile_parts:
  "protected_paths demo_profile = []" "profile_command demo_profile TARGETED_TESTS = Some demo_command"
  "profile_command demo_profile FULL_TEST_SUITE = Some demo_command" "profile_command demo_profile REPRODUCTION = None"
  "profile_command demo_profile FORMATTER = None" "profile_command demo_profile LINTER = None" "profile_command demo_profile TYPECHECK = None"
  "cmd_timeout_seconds demo_command = 60"
  by (simp_all add: demo_profile_def profile_command_def demo_command_def)

lemmas demo_sizes = request_size report_size mutation_size execution_size [where k = TARGETED_TESTS, unfolded check_kind_value.simps]
  execution_size [where k = FULL_TEST_SUITE, unfolded check_kind_value.simps]

lemmas demo_data = demo_binding_def demo_pf_policy_def demo_budgets_def demo_phase_budget_def demo_identity_def demo_pf_task_def
  demo_source_def demo_sandbox_def demo_handle_def demo_diff_def demo_clean_diff_def demo_execution_def demo_report_def demo_gateway_def
  demo_engine_def demo_answers demo_hashes demo_path demo_profile_parts demo_digest demo_sizes

lemmas lifecycle_code = lifecycle_do_def lc_advance_def lc_record_def lc_report_def lc_begin_cleanup_def lc_close_def lifecycle_init_def
  lifecycle_transitions_def snapshot_ok_def runtime_transition_ok_def retry_count_def refusals_def

lemmas gateway_code = refresh_workspace_def invoke_def check_budget_def attempt_def authorize_def dispatch_def plain_def act_bind_def act_ret_def
  act_guard_def act_ask_def act_read_def act_finally_def record_call_def settle_def within_output_def within_duration_def ledger_def
  tool_call_ok_def gateway_result_ok_def status_for_execution_def report_output_reserve_def phase_calls_def min_envelope_def second_def
  spent_duration_def all_phases_def report_output_def known_evidence_def create_file_def authorize_write_def resolve_path_def
  prefix_paths_def parts_of_def atomic_write_def temporary_name_def execute_command_def execution_output_def command_purpose_for_def
  dict_put_def read_phases_def requires_workspace_def gateway_usage_def usage_of_def

lemmas runtime_code = start_run_def step_bind_def step_ret_def step_raise_def runtime_init_def or_workspace_failure_def capture_state_def
  state_record_ok_def Let_def run_id_of_def opt_ok_def ended_def iteration_def turn_of_def act_step_def step_when_def renew_workspace_def
  state_tracked_def invoke_step_def accept_or_fail_def accept_result_def finish_cleanup_def capture_final_def remove_workspace_def
  read_clock_def capture_of_def completion_of_def final_capture_ok_def

lemmas model_code = agent_report_ok_def narrative_def bounded_def bounded_text_def short_text_def budget_usage_ok_def

lemma runtime_loop_step:
  "\<not> ended (lc_phase (rn_lifecycle s)) \<Longrightarrow> runtime_loop R (numeral k) s =
     (case iteration R s of (Inl e, s') \<Rightarrow> Some (Inl e, s') | (Inr _, s') \<Rightarrow> runtime_loop R (pred_numeral k) s')"
  "ended (lc_phase (rn_lifecycle s)) \<Longrightarrow> runtime_loop R n s = Some (Inr (), s)"
  by (subst runtime_loop.simps; simp add: numeral_eq_Suc)+

lemmas demo_outcome = demo_completion_def demo_results_def demo_result_def demo_snapshot_def demo_move_def demo_states_def
  demo_state_def demo_renewal_def demo_capture_def demo_usage_def

lemma demo_completion_ok: "completion_ok demo_pf_env demo_completion"
  by (simp add: completion_ok_def demo_outcome Let_def lifecycle_code model_code demo_data map_filter_simps upt_rec opt_ok_def)

text \<open>From the first transition to the last one, by rewriting alone.\<close>

lemma demo_ends:
  "case (case start_run demo_config (runtime_init demo_config demo_gateway (0, False)) of
       (Inl e, s) \<Rightarrow> Some (Inl e, s) | (Inr _, s) \<Rightarrow> runtime_loop demo_config 13 s) of
     Some (Inr x, s) \<Rightarrow> (case finish_cleanup demo_config s of (Inr y, t) \<Rightarrow> completion_of demo_config t = demo_completion | _ \<Rightarrow> False)
   | _ \<Rightarrow> False"
  by (simp add: runtime_loop_step lifecycle_code gateway_code runtime_code model_code demo_data demo_outcome)

lemma demo_run: "\<exists>s. execute demo_config 13 (runtime_init demo_config demo_gateway (0, False)) = Some (Inr demo_completion, s)"
  using demo_ends demo_completion_ok unfolding execute_def
  by (auto simp: demo_answers split: option.splits sum.splits prod.splits)

lemma demo_budgets_ok: "run_budgets_ok (policy_budgets (pb_policy (rc_binding demo_config)))"
  by (simp add: demo_data run_budgets_ok_def budget_phases_def phase_budget_ok_def)

lemma demo_orderly: "orderly (rc_env demo_config)"
  by (simp add: orderly_def demo_answers)

end
