(* ===== verification/PatchForgeProperties.thy ===== *)
theory PatchForgeProperties
  imports PatchForgeDemo
begin

text \<open>
  The properties of PatchForge's lifecycle, gateway and runtime. The environment, the engine and the world are
  arguments, so each property holds for every engine and every answer of the file system, Git, the sandbox and the
  clock that its hypotheses allow.
\<close>

section \<open>The lifecycle\<close>

lemma lifecycle_run_loops: "lc_max_loops (lifecycle_run ops l) = lc_max_loops l"
proof -
  have "lc_max_loops (snd (lifecycle_apply op t l)) = lc_max_loops l" for op t l
    by (cases op) (auto simp: lc_advance_def lc_fail_def lc_report_def lc_reserve_refused_def lc_finalization_failed_def
        lc_begin_cleanup_def lc_close_def lc_fail_cleanup_def lc_record_def lc_primary_def lc_classify_def Let_def)
  then show ?thesis by (induction ops l rule: lifecycle_run.induct) simp_all
qed

text \<open>C17: Whatever methods of the lifecycle are called, in any order and with any clock, the snapshot satisfies
  its model: the transcript is contiguous, starts at creation and leads to the current phase, the retries are
  counted and stay within the budget. A run that is closed without a failure went through every phase in order,
  with one more implementation round than it had retries.\<close>

lemma patchforge_transcript:
  assumes "run_budgets_ok b" "l = lifecycle_run ops (lifecycle_init run b)"
  shows "snapshot_ok l \<and> lc_loops l \<le> rb_implementation_loops b
     \<and> (lc_phase l = PF_CLOSED \<and> lc_failure l = None \<longrightarrow>
          map rt_source (lc_transitions l) = [PF_CREATED, PF_PROVISIONING, PF_RECON, PF_HYPOTHESIS, PF_REPRODUCE]
            @ concat (replicate (Suc (lc_loops l)) [PF_IMPLEMENT, PF_TARGETED_VALIDATE])
            @ [PF_FULL_VALIDATE, PF_SELF_REVIEW, PF_FINALIZE, PF_REPORTED, PF_CLEANUP])"
proof -
  have inv: "lifecycle_inv l" unfolding assms(2) by (intro lifecycle_run_inv lifecycle_init_inv assms(1))
  have "lc_max_loops l = rb_implementation_loops b" by (simp add: assms(2) lifecycle_run_loops lifecycle_init_def)
  moreover have "lc_loops l \<le> lc_max_loops l" by (rule lifecycle_invD(1) [OF inv])
  moreover have "lc_failure l = None \<longrightarrow> map rt_source (lc_transitions l) = straight_path (lc_phase l) (lc_loops l)"
    using inv unfolding lifecycle_inv_def by blast
  ultimately show ?thesis
    using lifecycle_inv_snapshot [OF inv]
    by (auto simp: straight_path_def until_implement_def implementation_rounds_def after_implement_def)
qed

lemma patchforge_transcript_witness:
  "snapshot_ok (lifecycle_run (map (\<lambda>p. (Advance p, 0)) [PF_PROVISIONING, PF_RECON, PF_HYPOTHESIS, PF_REPRODUCE, PF_IMPLEMENT,
       PF_TARGETED_VALIDATE, PF_IMPLEMENT, PF_TARGETED_VALIDATE, PF_FULL_VALIDATE, PF_SELF_REVIEW, PF_FINALIZE]
     @ [(Report, 0), (Begin_Cleanup, 0), (Close, 0)]) (lifecycle_init 3 demo_budgets))
   \<and> map rt_source (lc_transitions (lifecycle_run (map (\<lambda>p. (Advance p, 0)) [PF_PROVISIONING, PF_RECON, PF_HYPOTHESIS, PF_REPRODUCE,
       PF_IMPLEMENT, PF_TARGETED_VALIDATE, PF_IMPLEMENT, PF_TARGETED_VALIDATE, PF_FULL_VALIDATE, PF_SELF_REVIEW, PF_FINALIZE]
     @ [(Report, 0), (Begin_Cleanup, 0), (Close, 0)]) (lifecycle_init 3 demo_budgets)))
     = [PF_CREATED, PF_PROVISIONING, PF_RECON, PF_HYPOTHESIS, PF_REPRODUCE, PF_IMPLEMENT, PF_TARGETED_VALIDATE, PF_IMPLEMENT,
        PF_TARGETED_VALIDATE, PF_FULL_VALIDATE, PF_SELF_REVIEW, PF_FINALIZE, PF_REPORTED, PF_CLEANUP]"
  (is "snapshot_ok ?l \<and> _")
proof -
  have b: "run_budgets_ok demo_budgets" using demo_budgets_ok by (simp add: demo_answers demo_binding_def demo_pf_policy_def)
  have "lc_phase ?l = PF_CLOSED" "lc_failure ?l = None" "lc_loops ?l = 1"
    by (simp_all add: lifecycle_code Let_def demo_budgets_def)
  with patchforge_transcript [OF b refl, of "map (\<lambda>p. (Advance p, 0)) [PF_PROVISIONING, PF_RECON, PF_HYPOTHESIS, PF_REPRODUCE, PF_IMPLEMENT,
       PF_TARGETED_VALIDATE, PF_IMPLEMENT, PF_TARGETED_VALIDATE, PF_FULL_VALIDATE, PF_SELF_REVIEW, PF_FINALIZE]
     @ [(Report, 0), (Begin_Cleanup, 0), (Close, 0)]" 3]
  show ?thesis by (simp add: numeral_2_eq_2)
qed

section \<open>The gateway\<close>

text \<open>C14: Over every sequence of calls and workspace renewals of a gateway, whatever the tools answer, no phase
  exceeds its number of calls or its output bytes, the calls outside finalization leave the finalization reserve
  untouched, the records are numbered without a gap, and the ledgers are exact: what is charged to a phase is the
  sum of the bytes and of the durations of its records.\<close>

lemma patchforge_budgets:
  assumes "gateway_init E B h w = (Inr g, w')" "gateway_reaches E B g g'" "b = policy_budgets (pb_policy B)"
    "run_budgets_ok b" "ascii_stable E"
  shows "(\<forall>p pb. for_phase b p = Some pb \<longrightarrow> int (phase_calls g' p) \<le> ph_tool_calls pb \<and> int (gw_output g' p) \<le> ph_output_bytes pb)
     \<and> int (length (filter (\<lambda>r. tc_phase r \<noteq> PF_FINALIZE) (gw_records g')))
          \<le> rb_total_tool_calls b - ph_tool_calls (rb_finalization_reserve b)
     \<and> int (length (gw_records g')) \<le> rb_total_tool_calls b
     \<and> map tc_sequence (gw_records g') = [1 ..< Suc (length (gw_records g'))]
     \<and> (\<forall>p. gw_output g' p = sum_list (map tc_output_bytes (filter (\<lambda>r. tc_phase r = p) (gw_records g')))
           \<and> gw_duration g' p = sum_list (map (\<lambda>r. max 0 (tc_completed_at r - tc_started_at r))
                (filter (\<lambda>r. tc_phase r = p) (gw_records g'))))"
proof -
  have inv: "gateway_inv B g'"
    using gateway_reaches_inv [OF assms(2) gateway_init_inv [OF assms(1)] assms(5)] assms(3,4) by simp
  have "phase_budget_ok pb" if "for_phase b p = Some pb" for p pb
    using assms(4) that by (cases p) (auto simp: run_budgets_ok_def budget_phases_def)
  then have "0 \<le> ph_tool_calls pb" "0 \<le> ph_output_bytes pb" if "for_phase b p = Some pb" for p pb
    using that by (auto simp: phase_budget_ok_def)
  moreover have "within_budgets b g'" "map tc_sequence (gw_records g') = [1 ..< Suc (length (gw_records g'))]"
    using inv unfolding gateway_inv_def ledgers_ok_def assms(3) by blast+
  moreover have exact: "\<forall>p. gw_output g' p = sum_list (map tc_output_bytes (filter (\<lambda>r. tc_phase r = p) (gw_records g')))
      \<and> gw_duration g' p = sum_list (map (\<lambda>r. max 0 (tc_completed_at r - tc_started_at r)) (filter (\<lambda>r. tc_phase r = p) (gw_records g')))"
    using inv by (simp add: gateway_inv_def ledgers_ok_def phase_records_def)
  ultimately have phase: "int (phase_calls g' p) \<le> ph_tool_calls pb \<and> int (gw_output g' p) \<le> ph_output_bytes pb" if "for_phase b p = Some pb" for p pb
    using that unfolding within_budgets_def phase_calls_records by (metis list.size(3) of_nat_0)
  show ?thesis
    using phase \<open>within_budgets b g'\<close> \<open>map tc_sequence _ = _\<close> exact unfolding within_budgets_def early_records_def by simp
qed

lemma demo_gateway_init: "gateway_init demo_pf_env demo_binding demo_handle (0, False) = (Inr demo_gateway, (0, False))"
  by (simp add: gateway_init_def gateway_bound_def Let_def demo_data demo_profile_def)

text \<open>The second call of the small run, on its gateway.\<close>

definition demo_called :: pf_gateway where
  "demo_called = fst (snd (invoke demo_pf_env demo_binding ADVANCE_PHASE (Advance_Args PF_HYPOTHESIS) PF_RECON demo_gateway (1, False)))"

definition demo_first :: tool_call_record where
  "demo_first = gr_record (demo_result 1 PF_RECON ADVANCE_PHASE 111 (Phase_Request_Output PF_RECON PF_HYPOTHESIS) None)"

lemma demo_called_parts: "gw_records demo_called = [demo_first]"
  "gw_output demo_called PF_RECON = 111" "gw_output demo_called PF_FINALIZE = 0" "spent_duration demo_called = 0"
  by (simp_all add: demo_called_def gateway_code model_code demo_data demo_first_def demo_result_def Let_def opt_ok_def)

lemma demo_called_reached: "gateway_reaches demo_pf_env demo_binding demo_gateway demo_called"
proof -
  obtain x w where i: "invoke demo_pf_env demo_binding ADVANCE_PHASE (Advance_Args PF_HYPOTHESIS) PF_RECON demo_gateway (1, False) = (x, demo_called, w)"
    by (metis demo_called_def prod.collapse)
  show ?thesis by (rule gateway_reaches.call [OF gateway_reaches.start i])
qed

lemma patchforge_budgets_witness: "int (phase_calls demo_called PF_RECON) \<le> 3 \<and> length (gw_records demo_called) = 1
    \<and> gw_output demo_called PF_RECON = tc_output_bytes demo_first"
proof -
  have "run_budgets_ok (policy_budgets (pb_policy demo_binding))" using demo_budgets_ok by (simp add: demo_answers)
  moreover have "for_phase (policy_budgets (pb_policy demo_binding)) PF_RECON = Some demo_phase_budget" by (simp add: demo_data)
  ultimately have "int (phase_calls demo_called PF_RECON) \<le> ph_tool_calls demo_phase_budget"
    using patchforge_budgets [OF demo_gateway_init demo_called_reached refl _ demo_stable] by blast
  moreover have "gw_output demo_called PF_RECON = sum_list (map tc_output_bytes (filter (\<lambda>r. tc_phase r = PF_RECON) (gw_records demo_called)))"
    using patchforge_budgets [OF demo_gateway_init demo_called_reached refl _ demo_stable] \<open>run_budgets_ok _\<close> by blast
  moreover have "tc_phase demo_first = PF_RECON" by (simp add: demo_first_def demo_result_def)
  ultimately show ?thesis by (simp add: demo_phase_budget_def demo_called_parts(1))
qed

lemma reaches_executions: "gateway_reaches E B g g' \<Longrightarrow> executions_ok E B g \<Longrightarrow> executions_ok E B g'"
proof (induction rule: gateway_reaches.induct)
  case (call h tool args phase w x h' w')
  have "executions_ok E B h' = executions_ok E B h" if "same_ledgers h h'"
    using that by (simp add: executions_ok_def same_ledgers_def)
  then show ?case
    using invoke_cases [OF call(2)] gateway_call_executions call(3) [OF call(4)] by blast
next
  case (refresh h d w x h' w')
  then show ?case using refresh_ledgers [OF refresh(2)] by (simp add: executions_ok_def same_ledgers_def)
qed

text \<open>C24: Whatever was asked of the gateway before: every record belongs to the run of its identity; a recorded call that
  succeeded used a tool that the policy allows, in a phase that allows the tool; and every execution in the
  gateway's ledger is that of a recorded, allowed call and came from the operator's command for the purpose of its
  tool in its phase, run for this run and call under the operator's sandbox policy in the worktree verified for it.\<close>

lemma patchforge_calls_authorised:
  assumes "gateway_init E B h w = (Inr g, w')" "gateway_reaches E B g g'"
  shows "(\<forall>r \<in> set (gw_records g'). tc_run_id r = run_id (pb_identity B)
       \<and> (tc_status r = TOOL_SUCCEEDED \<longrightarrow> tc_tool r \<in> set (allowed_tools (pb_policy B)) \<and> tc_phase r \<in> phases_by_tool (tc_tool r)))
     \<and> (\<forall>(call, x) \<in> set (gw_executions g'). \<exists>r \<in> set (gw_records g'). tc_call_id r = call
          \<and> tc_tool r \<in> set (allowed_tools (pb_policy B)) \<and> tc_phase r \<in> phases_by_tool (tc_tool r)
          \<and> (\<exists>purpose cmd h0 h1 w0 w1 w2. command_purpose_for (tc_tool r) (tc_phase r) = Some purpose
               \<and> profile_command (pb_profile B) purpose = Some cmd \<and> pf_verify E h0 w0 = (Inr h1, w1)
               \<and> pf_sandbox E (run_id (pb_identity B)) call (wh_worktree h1) cmd (profile_sandbox (pb_profile B)) w1 = (Inr x, w2)))"
proof -
  have "ledgers_ok B g" "executions_ok E B g"
    using assms(1) by (auto simp: gateway_init_def ledgers_ok_def phase_records_def executions_ok_def split: if_splits sum.splits prod.splits)
  note start = this
  have "ledgers_ok B g'"
    using assms(2) start(1)
  proof (induction rule: gateway_reaches.induct)
    case (call h tool args phase w x h' w')
    show ?case by (rule invoke_ledgers [OF call(2) call(3) [OF call(4)]])
  next
    case (refresh h d w x h' w')
    show ?case unfolding same_ledgers_ok(1) [OF refresh_ledgers [OF refresh(2)]] by (rule refresh(3) [OF refresh(4)])
  qed
  moreover have "executions_ok E B g'" by (rule reaches_executions [OF assms(2) start(2)])
  ultimately show ?thesis unfolding ledgers_ok_def executions_ok_def operator_run_def by blast
qed

lemma patchforge_calls_authorised_witness:
  "\<exists>r. gw_records demo_called = [r] \<and> tc_status r = TOOL_SUCCEEDED \<and> tc_tool r \<in> set (allowed_tools demo_pf_policy)
     \<and> tc_phase r \<in> phases_by_tool (tc_tool r)"
proof -
  have "tc_status demo_first = TOOL_SUCCEEDED" by (simp add: demo_first_def demo_result_def)
  with patchforge_calls_authorised [OF demo_gateway_init demo_called_reached] demo_called_parts(1) show ?thesis by (simp add: demo_binding_def)
qed

text \<open>C25: The finalization reserve is kept for the report: over every sequence of calls, while no report has been
  recorded, the budget check admits it in the finalization phase, provided that the run's time is not spent, that the
  reserve holds the smallest envelope of 512 bytes (the budget model asks for one byte only, and below 512 no report
  can ever be made), and that NFC leaves ASCII text as it is.\<close>

lemma patchforge_report_reserved:
  assumes "gateway_init E B h w = (Inr g, w')" "gateway_reaches E B g g'" "b = policy_budgets (pb_policy B)"
    "run_budgets_ok b" "ascii_stable E" "512 \<le> ph_output_bytes (rb_finalization_reserve b)"
    "\<forall>r \<in> set (gw_records g'). tc_phase r = PF_FINALIZE \<longrightarrow> tc_tool r \<noteq> SUBMIT_REPORT"
    "spent_duration g' < second * rb_total_duration_seconds b"
  shows "check_budget b g' SUBMIT_REPORT PF_FINALIZE = Inr (rb_finalization_reserve b)"
proof -
  have inv: "gateway_inv B g'"
    using gateway_reaches_inv [OF assms(2) gateway_init_inv [OF assms(1)] assms(5)] assms(3,4) by simp
  then have "gw_output g' PF_FINALIZE = sum_list (map tc_output_bytes (phase_records g' PF_FINALIZE))"
    by (simp add: gateway_inv_def ledgers_ok_def)
  then have "gw_output g' PF_FINALIZE = 0 \<or> phase_records g' PF_FINALIZE \<noteq> []" by (cases "phase_records g' PF_FINALIZE") simp_all
  then show ?thesis
    using inv assms(3-8) by (intro report_possible) (auto simp: gateway_inv_def phase_records_def)
qed

lemma patchforge_report_reserved_witness:
  "check_budget demo_budgets demo_called SUBMIT_REPORT PF_FINALIZE = Inr demo_phase_budget"
proof -
  have b: "policy_budgets (pb_policy demo_binding) = demo_budgets" by (simp add: demo_binding_def demo_pf_policy_def)
  have "run_budgets_ok demo_budgets" using demo_budgets_ok by (simp add: demo_answers b)
  then have "check_budget demo_budgets demo_called SUBMIT_REPORT PF_FINALIZE = Inr (rb_finalization_reserve demo_budgets)"
    by (rule patchforge_report_reserved [OF demo_gateway_init demo_called_reached b [symmetric] _ demo_stable])
      (simp_all add: demo_called_parts demo_first_def demo_result_def demo_budgets_def demo_phase_budget_def second_def)
  then show ?thesis by (simp add: demo_budgets_def)
qed

section \<open>The whole run\<close>

lemma runtime_loop_mono: "runtime_loop R n s = Some r \<Longrightarrow> n \<le> m \<Longrightarrow> runtime_loop R m s = Some r"
proof (induction n arbitrary: s m)
  case 0
  then show ?case by (simp add: runtime_loop.simps split: if_splits)
next
  case (Suc n)
  from Suc.prems(2) obtain k where m: "m = Suc k" "n \<le> k" by (cases m) auto
  show ?case
  proof (cases "ended (lc_phase (rn_lifecycle s))")
    case True
    with Suc.prems show ?thesis by (simp add: runtime_loop.simps)
  next
    case False
    with Suc.prems(1) have l: "(case iteration R s of (Inl e, s') \<Rightarrow> Some (Inl e, s') | (Inr _, s') \<Rightarrow> runtime_loop R n s') = Some r"
      by (simp add: runtime_loop.simps [of R "Suc n"])
    then show ?thesis
      unfolding m(1) using False Suc.IH [OF _ m(2)] by (auto simp: runtime_loop.simps [of R "Suc k"] split: prod.splits sum.splits)
  qed
qed

text \<open>The loop of \<open>execute\<close>, after the transitions that start the run.\<close>

definition run_loop :: "'w run_config \<Rightarrow> nat \<Rightarrow> 'w runtime \<Rightarrow> ((step_exn + unit) \<times> 'w runtime) option" where
  "run_loop R fuel s = (case start_run R s of (Inl e, s1) \<Rightarrow> Some (Inl e, s1) | (Inr _, s1) \<Rightarrow> runtime_loop R fuel s1)"

lemma run_loop_mono: "run_loop R n s = Some r \<Longrightarrow> n \<le> m \<Longrightarrow> run_loop R m s = Some r"
  by (auto simp: run_loop_def intro: runtime_loop_mono split: prod.splits sum.splits)

lemma run_loop_ends:
  assumes "run_budgets_ok (policy_budgets (pb_policy (rc_binding R)))" "call_limit R + 3 \<le> fuel"
  shows "\<exists>x s. run_loop R fuel (runtime_init R g w) = Some (x, s) \<and> stepped R (runtime_init R g w) (x, s)
    \<and> (x = Inr () \<longrightarrow> ended (lc_phase (rn_lifecycle s)))"
proof -
  let ?s = "runtime_init R g w"
  have inv: "lifecycle_inv (rn_lifecycle ?s)" "lc_phase (rn_lifecycle ?s) = PF_CREATED"
    using lifecycle_init_inv [OF assms(1)] by (simp_all add: runtime_init_def lifecycle_init_def)
  obtain x u where u: "start_run R ?s = (x, u)" by force
  have step: "stepped R ?s (x, u)" using start_stepped [OF inv, of R] u by simp
  show ?thesis
  proof (cases x)
    case (Inl e)
    with u step show ?thesis by (simp add: run_loop_def)
  next
    case (Inr y)
    with step have ev: "run_events R ?s u" by (simp add: stepped_def)
    have "stage (rn_lifecycle u) \<le> 3" by (simp add: stage_def)
    then have "remaining R u \<le> fuel" using assms(2) by (simp add: remaining_def)
    from runtime_loop_ends [OF assms(1) run_events_lifecycle [OF ev inv(1)] this] u Inr stepped_trans [OF ev]
    show ?thesis by (auto simp: run_loop_def)
  qed
qed

lemma execute_loop:
  "execute R fuel s = (case run_loop R fuel s of None \<Rightarrow> None
     | Some (x, s2) \<Rightarrow> (case finish_cleanup R s2 of
         (Inl e, s3) \<Rightarrow> Some (Inl e, s3)
       | (Inr _, s3) \<Rightarrow> (case x of
           Inl e \<Rightarrow> Some (Inl e, s3)
         | Inr _ \<Rightarrow> if completion_ok (rc_env R) (completion_of R s3) then Some (Inr (completion_of R s3), s3)
                    else Some (Inl (Raised ''ValidationError''), s3))))"
  by (simp add: execute_def run_loop_def)

text \<open>C13: Every run ends. Whatever the engine asks and whatever the world answers, the loop of a run within valid
  budgets takes at most one iteration per budgeted call and three more: there is one outcome that \<open>execute\<close> has with
  that much fuel and with any more, so the code's unbounded loop returns or raises.\<close>

lemma patchforge_terminates:
  assumes "run_budgets_ok (policy_budgets (pb_policy (rc_binding R)))"
  shows "\<exists>r. \<forall>fuel \<ge> nat (rb_total_tool_calls (policy_budgets (pb_policy (rc_binding R)))) + 3.
    execute R fuel (runtime_init R g w) = Some r"
proof -
  let ?s = "runtime_init R g w"
  obtain x s where l: "run_loop R (call_limit R + 3) ?s = Some (x, s)" using run_loop_ends [OF assms] by blast
  have "execute R fuel ?s = execute R (call_limit R + 3) ?s" if "call_limit R + 3 \<le> fuel" for fuel
    using run_loop_mono [OF l that] l by (simp add: execute_loop)
  moreover have "\<exists>r. execute R (call_limit R + 3) ?s = Some r"
  proof -
    obtain y t where "finish_cleanup R s = (y, t)" by force
    with l show ?thesis by (cases y; cases x) (simp_all add: execute_loop)
  qed
  ultimately show ?thesis unfolding call_limit_def by metis
qed

lemma patchforge_terminates_witness:
  "\<exists>r. execute demo_config 43 (runtime_init demo_config demo_gateway (0, False)) = Some r
     \<and> execute demo_config 1000 (runtime_init demo_config demo_gateway (0, False)) = Some r"
proof -
  have "nat (rb_total_tool_calls (policy_budgets (pb_policy (rc_binding demo_config)))) + 3 = 43"
    by (simp add: demo_answers demo_binding_def demo_pf_policy_def demo_budgets_def)
  then show ?thesis using patchforge_terminates [OF demo_budgets_ok, of demo_gateway "(0, False)"] by auto
qed

text \<open>The state in which the loop leaves a run, and the one after the cleanup.\<close>

lemma init_evidence:
  assumes "run_budgets_ok (policy_budgets (pb_policy (rc_binding R)))" "gateway_init E (rc_binding R) h v = (Inr g, v')"
  shows "evidence_inv R (runtime_init R g w)"
proof -
  have g: "gw_records g = []" "gw_duration g = (\<lambda>_. 0)" "gw_output g = (\<lambda>_. 0)"
    using assms(2) by (auto simp: gateway_init_def split: if_splits sum.splits prod.splits)
  have "ledgers_ok (rc_binding R) g" using empty_gateway_inv [OF g assms(1)] by (simp add: gateway_inv_def)
  with g show ?thesis
    by (simp add: evidence_inv_def runtime_init_def lifecycle_init_def report_outputs_def run_id_of_def map_filter_simps)
qed

lemma run_closed:
  assumes "run_budgets_ok (policy_budgets (pb_policy (rc_binding R)))" "orderly (rc_env R)"
    "gateway_init E (rc_binding R) h v = (Inr g, v')" "run_loop R fuel (runtime_init R g w) = Some (x, s)"
  obtains s' where "finish_cleanup R s = (Inr (), s')" "closed_after R s s'"
    "x = Inr () \<Longrightarrow> evidence_inv R s \<and> ended (lc_phase (rn_lifecycle s)) \<and> lifecycle_inv (rn_lifecycle s)"
proof -
  let ?s = "runtime_init R g w"
  have inv: "lifecycle_inv (rn_lifecycle ?s)" using lifecycle_init_inv [OF assms(1)] by (simp add: runtime_init_def)
  note start = init_evidence [OF assms(1,3), of w]
  obtain y u where "run_loop R (max fuel (call_limit R + 3)) ?s = Some (y, u)" "stepped R ?s (y, u)" "y = Inr () \<longrightarrow> ended (lc_phase (rn_lifecycle u))"
    using run_loop_ends [OF assms(1), of "max fuel (call_limit R + 3)" g w] by auto
  moreover have "run_loop R (max fuel (call_limit R + 3)) ?s = Some (x, s)" by (rule run_loop_mono [OF assms(4)]) simp
  ultimately have st: "stepped R ?s (x, s)" "x = Inr () \<longrightarrow> ended (lc_phase (rn_lifecycle s))" by auto
  obtain m where m: "run_events R ?s m" "rn_lifecycle s = rn_lifecycle m" "rn_cleaned s = rn_cleaned m" "x = Inr () \<Longrightarrow> m = s"
    using st(1) by (cases x) (auto simp: stepped_def raised_def)
  have ev: "evidence_inv R m" and l: "lifecycle_inv (rn_lifecycle m)"
    using run_events_evidence [OF m(1) start] run_events_lifecycle [OF m(1) inv] by auto
  have s: "lifecycle_inv (rn_lifecycle s)" "lc_phase (rn_lifecycle s) \<noteq> PF_CLOSED" "\<not> rn_cleaned s"
    using ev l unfolding m(2,3) evidence_inv_def by simp_all
  obtain s' where f: "finish_cleanup R s = (Inr (), s')" "closed_after R s s'"
    using finish_closed [OF assms(2) s] by auto
  show thesis
  proof (rule that [OF f])
    assume "x = Inr ()"
    with ev s(1) st(2) m(4) show "evidence_inv R s \<and> ended (lc_phase (rn_lifecycle s)) \<and> lifecycle_inv (rn_lifecycle s)" by simp
  qed
qed

text \<open>C16: Every run is cleaned up. If proposing the commit and removing the workspace raise nothing but the errors
  they document, then a run with enough fuel ends in the closed phase with a valid transcript, however it went:
  with a result, a failure, or an exception that escapes, an interrupt included; and the workspace is removed
  exactly when the cleanup is not recorded as failed.\<close>

lemma patchforge_cleanup:
  assumes "run_budgets_ok (policy_budgets (pb_policy (rc_binding R)))" "orderly (rc_env R)"
    "gateway_init E (rc_binding R) h v = (Inr g, v')" "nat (rb_total_tool_calls (policy_budgets (pb_policy (rc_binding R)))) + 3 \<le> fuel"
  shows "\<exists>x s. execute R fuel (runtime_init R g w) = Some (x, s) \<and> lc_phase (rn_lifecycle s) = PF_CLOSED
     \<and> snapshot_ok (rn_lifecycle s) \<and> (rn_cleaned s \<longleftrightarrow> \<not> lc_cleanup_failed (rn_lifecycle s))"
proof -
  obtain x s where l: "run_loop R fuel (runtime_init R g w) = Some (x, s)"
    using run_loop_ends [OF assms(1), of fuel g w] assms(4) by (auto simp: call_limit_def)
  obtain s' where f: "finish_cleanup R s = (Inr (), s')" "closed_after R s s'" by (rule run_closed [OF assms(1-3) l]) blast
  then have "lc_phase (rn_lifecycle s') = PF_CLOSED \<and> snapshot_ok (rn_lifecycle s') \<and> (rn_cleaned s' \<longleftrightarrow> \<not> lc_cleanup_failed (rn_lifecycle s'))"
    by (simp add: closed_after_def lifecycle_inv_snapshot)
  moreover have "\<exists>y. execute R fuel (runtime_init R g w) = Some (y, s')"
    using l f(1) by (cases x) (simp_all add: execute_loop)
  ultimately show ?thesis by blast
qed

lemma patchforge_cleanup_witness:
  "\<exists>x s. execute demo_config 43 (runtime_init demo_config demo_gateway (0, False)) = Some (x, s) \<and> lc_phase (rn_lifecycle s) = PF_CLOSED"
proof -
  have "gateway_init demo_pf_env (rc_binding demo_config) demo_handle (0, False) = (Inr demo_gateway, (0, False))"
    using demo_gateway_init by (simp add: demo_answers)
  then show ?thesis
    using patchforge_cleanup [OF demo_budgets_ok demo_orderly, of demo_pf_env demo_handle "(0, False)" demo_gateway "(0, False)" 43 "(0, False)"]
    by (auto simp: demo_answers demo_binding_def demo_pf_policy_def demo_budgets_def)
qed

lemma run_evidence:
  assumes "run_budgets_ok (policy_budgets (pb_policy (rc_binding R)))" "orderly (rc_env R)"
    "gateway_init E (rc_binding R) h v = (Inr g, v')" "execute R fuel (runtime_init R g w) = Some (Inr c, s')"
    "lc_failure (cp_snapshot c) = None"
  shows "lc_phase (cp_snapshot c) = PF_CLOSED \<and> map rt_source (lc_transitions (cp_snapshot c)) = straight_path PF_CLOSED (lc_loops (cp_snapshot c))
     \<and> cp_cleaned c
     \<and> (\<exists>r. cp_report c = Some r \<and> List.map_filter (report_evidence \<circ> gr_output) (cp_results c)
          = [(object_digest (rc_env R) (agent_report_json r), evidence_references r)])
     \<and> (\<exists>l. run_loop R fuel (runtime_init R g w) = Some (Inr (), l) \<and> cp_capture c = capture_from R (proposal_answer R l)
          \<and> (cp_capture_error c = None \<longleftrightarrow> cp_capture c \<noteq> None))
     \<and> (\<forall>r \<in> set (cp_tool_calls c). tc_run_id r = run_id_of R \<and> (state_tracked (tc_tool r) \<longrightarrow> bracketed_by (cp_states c) r))
     \<and> map gr_record (cp_results c) = cp_tool_calls c"
proof -
  obtain x s where l: "run_loop R fuel (runtime_init R g w) = Some (x, s)" using assms(4) by (auto simp: execute_loop split: option.splits)
  obtain t where f: "finish_cleanup R s = (Inr (), t)" "closed_after R s t"
    "x = Inr () \<Longrightarrow> evidence_inv R s \<and> ended (lc_phase (rn_lifecycle s)) \<and> lifecycle_inv (rn_lifecycle s)"
    by (rule run_closed [OF assms(1-3) l]) (rule that)
  have x: "x = Inr ()" and c: "c = completion_of R t"
    using assms(4) l f(1) by (auto simp: execute_loop split: sum.splits if_splits)
  note ev = f(3) [OF x]
  have cl: "lc_phase (rn_lifecycle t) = PF_CLOSED" "lifecycle_inv (rn_lifecycle t)" "rn_cleaned t \<longleftrightarrow> \<not> lc_cleanup_failed (rn_lifecycle t)"
    "same_evidence s t" "lc_failure (rn_lifecycle s) = None" "lc_phase (rn_lifecycle s) \<noteq> PF_FINALIZE"
    using f(2) assms(5) by (simp_all add: closed_after_def c completion_of_def)
  have rep: "lc_phase (rn_lifecycle s) = PF_REPORTED" using ev cl(5) by (auto simp: ended_def evidence_inv_def)
  then have cap: "captured R s t" using f(2) by (simp add: closed_after_def)
  obtain r where r: "rn_report s = Some r" using ev rep by (auto simp: evidence_inv_def)
  have out: "report_outputs (rn_results s) = [(object_digest (rc_env R) (agent_report_json r), evidence_references r)]"
    using ev r by (simp add: evidence_inv_def)
  have "lc_failure (rn_lifecycle t) = None" using assms(5) by (simp add: c completion_of_def)
  then have "map rt_source (lc_transitions (rn_lifecycle t)) = straight_path PF_CLOSED (lc_loops (rn_lifecycle t))" "rn_cleaned t"
    using cl(1-3) lifecycle_invD(6) [OF cl(2)] unfolding lifecycle_inv_def by auto
  moreover have "\<forall>q \<in> set (gw_records (rn_gateway s)). tc_run_id q = run_id_of R \<and> (state_tracked (tc_tool q) \<longrightarrow> bracketed_by (rn_states s) q)"
    using ev cl(5) by (auto simp: evidence_inv_def ledgers_ok_def run_id_of_def)
  moreover have "rn_capture t = capture_from R (proposal_answer R s) \<and> (rn_capture_error t = None \<longleftrightarrow> rn_capture t \<noteq> None)"
    using ev by (intro captured_from [OF cap]) (simp_all add: evidence_inv_def)
  moreover have "map gr_record (rn_results s) = gw_records (rn_gateway s)" using ev by (simp add: evidence_inv_def)
  ultimately show ?thesis
    using cl(1,4) r out l x by (simp add: c completion_of_def same_evidence_def report_outputs_def)
qed

text \<open>C15: A completion that is returned without a failure carries its evidence: the run went through every phase,
  the report was accepted and is the one whose digest the gateway recorded; the capture is what the workspace
  manager proposed when it was asked about this run's workspace in the state in which the loop left the run, if it
  proposed a commit and its record is valid, and otherwise an error is recorded instead (a run without a failure can
  thus end without a capture, and then carries the error); every writing or executing call has a fingerprint of the
  workspace before and after it, and the results are exactly the recorded calls of the run.\<close>

lemma patchforge_evidence:
  assumes "run_budgets_ok (policy_budgets (pb_policy (rc_binding R)))" "orderly (rc_env R)"
    "gateway_init E (rc_binding R) h v = (Inr g, v')" "execute R fuel (runtime_init R g w) = Some (Inr c, s')"
    "lc_failure (cp_snapshot c) = None"
  shows "lc_phase (cp_snapshot c) = PF_CLOSED \<and> map rt_source (lc_transitions (cp_snapshot c)) = straight_path PF_CLOSED (lc_loops (cp_snapshot c))
     \<and> cp_cleaned c
     \<and> (\<exists>r. cp_report c = Some r \<and> List.map_filter (report_evidence \<circ> gr_output) (cp_results c)
          = [(object_digest (rc_env R) (agent_report_json r), evidence_references r)])
     \<and> (\<exists>l. run_loop R fuel (runtime_init R g w) = Some (Inr (), l) \<and> cp_capture c = capture_from R (proposal_answer R l)
          \<and> (cp_capture_error c = None \<longleftrightarrow> cp_capture c \<noteq> None))
     \<and> (\<forall>r \<in> set (cp_tool_calls c). tc_run_id r = run_id_of R \<and> (state_tracked (tc_tool r) \<longrightarrow> bracketed_by (cp_states c) r))
     \<and> map gr_record (cp_results c) = cp_tool_calls c"
  by (rule run_evidence [OF assms])

lemma patchforge_evidence_witness:
  "(\<exists>r. cp_report demo_completion = Some r \<and> List.map_filter (report_evidence \<circ> gr_output) (cp_results demo_completion)
      = [(object_digest demo_pf_env (agent_report_json r), evidence_references r)])
   \<and> (\<exists>r \<in> set (cp_tool_calls demo_completion). state_tracked (tc_tool r) \<and> bracketed_by (cp_states demo_completion) r)"
proof -
  obtain s where s: "execute demo_config 13 (runtime_init demo_config demo_gateway (0, False)) = Some (Inr demo_completion, s)"
    using demo_run by blast
  have g: "gateway_init demo_pf_env (rc_binding demo_config) demo_handle (0, False) = (Inr demo_gateway, (0, False))"
    using demo_gateway_init by (simp add: demo_answers)
  have "lc_failure (cp_snapshot demo_completion) = None" by (simp add: demo_completion_def demo_snapshot_def)
  note e = patchforge_evidence [OF demo_budgets_ok demo_orderly g s this]
  have "\<exists>r \<in> set (cp_tool_calls demo_completion). state_tracked (tc_tool r)"
    by (simp add: demo_completion_def demo_results_def demo_result_def state_tracked_def)
  with e show ?thesis by (auto simp: demo_answers)
qed

end
