(* ===== verification/PatchForgeAttestor.thy ===== *)
theory PatchForgeAttestor
  imports PatchForgeRuntime
begin

text \<open>
  The attestor of PatchForge (\<open>attestor.py\<close>): from the completion of a run, the operator's task, profile and
  policy and nothing else, the \<open>PatchResult\<close>. Each of its methods is a function to its value and the
  findings it adds, in order; \<open>attest\<close> composes them. What it may raise is its own error, a ValueError or
  ArtifactStoreError, or the ValidationError of the result.
\<close>

section \<open>Findings\<close>

datatype finding_category = TAMPER | POLICY_BREACH | VALIDATION

fun category_rank :: "finding_category \<Rightarrow> nat" where
  "category_rank TAMPER = 0" | "category_rank POLICY_BREACH = 1" | "category_rank VALIDATION = 2"

fun category_failure :: "finding_category \<Rightarrow> pf_failure" where
  "category_failure TAMPER = ATTESTATION_FAILED"
| "category_failure POLICY_BREACH = POLICY_DENIED"
| "category_failure VALIDATION = VALIDATION_FAILED"

record attest_finding =
  af_code :: string
  af_severity :: finding_severity
  af_category :: finding_category
  af_detail :: ustr
  af_path :: "ustr option"

definition finding_of :: "string \<Rightarrow> finding_severity \<Rightarrow> finding_category \<Rightarrow> ustr \<Rightarrow> attest_finding" where
  "finding_of code severity category detail = \<lparr>af_code = code, af_severity = severity, af_category = category,
     af_detail = detail, af_path = None\<rparr>"

definition tampered :: "string \<Rightarrow> string \<Rightarrow> attest_finding" where
  "tampered code detail = finding_of code SEV_BLOCKING TAMPER (lit detail)"

section \<open>The states of the workspace\<close>

text \<open>\<open>_StateIndex\<close>: the last record of a kind for a call, and the first initial one.\<close>

definition state_at :: "state_kind \<Rightarrow> state_record list \<Rightarrow> nat \<Rightarrow> state_record option" where
  "state_at kind ss n = find (\<lambda>x. st_kind x = kind \<and> st_call_sequence x = Some n) (rev ss)"

definition initial_state :: "state_record list \<Rightarrow> state_record option" where
  "initial_state ss = find (\<lambda>x. st_kind x = INITIAL_STATE) ss"

definition state_bracketed :: "state_record list \<Rightarrow> nat \<Rightarrow> bool" where
  "state_bracketed ss n \<longleftrightarrow> state_at BEFORE_CALL ss n \<noteq> None \<and> state_at AFTER_CALL ss n \<noteq> None"

definition pristine_before :: "state_record list \<Rightarrow> nat \<Rightarrow> bool" where
  "pristine_before ss n = (case (initial_state ss, state_at BEFORE_CALL ss n) of
     (Some i, Some b) \<Rightarrow> st_changed_files b = 0 \<and> st_diff_sha256 b = st_diff_sha256 i
   | _ \<Rightarrow> False)"

definition on_final_tree :: "state_record list \<Rightarrow> string option \<Rightarrow> nat \<Rightarrow> bool" where
  "on_final_tree ss final n = (case (final, state_at BEFORE_CALL ss n, state_at AFTER_CALL ss n) of
     (Some sha, Some b, Some a) \<Rightarrow> st_diff_sha256 b = st_diff_sha256 a \<and> st_diff_sha256 a = sha
   | _ \<Rightarrow> False)"

section \<open>Executions\<close>

record attested_execution =
  ax_record :: tool_call_record
  ax_sandbox :: sandbox_execution
  ax_purpose :: check_kind
  ax_evidence :: test_execution

fun execution_status_of :: "sandbox_status \<Rightarrow> execution_status" where
  "execution_status_of SANDBOX_SUCCEEDED = EXEC_PASSED"
| "execution_status_of SANDBOX_FAILED_RUN = EXEC_FAILED"
| "execution_status_of SANDBOX_TIMED_OUT = EXEC_TIMED_OUT"
| "execution_status_of SANDBOX_OUTPUT_LIMIT = EXEC_ERROR"
| "execution_status_of SANDBOX_BROKEN = EXEC_ERROR"

fun check_status_of :: "execution_status \<Rightarrow> check_status" where
  "check_status_of EXEC_PASSED = CHECK_PASSED"
| "check_status_of EXEC_FAILED = CHECK_FAILED"
| "check_status_of EXEC_ERROR = CHECK_ERROR"
| "check_status_of EXEC_TIMED_OUT = CHECK_ERROR"

definition evidence_of :: "tool_call_record \<Rightarrow> check_kind \<Rightarrow> sandbox_execution \<Rightarrow> test_execution" where
  "evidence_of r purpose x =
     (let status = execution_status_of (sx_status x) in
      \<lparr>te_execution_id = sx_execution_id x, te_run_id = sx_run_id x, te_call_id = sx_call_id x, te_phase = tc_phase r,
       te_kind = purpose, te_command_name = check_kind_value purpose, te_command_sha256 = sx_command_sha256 x, te_status = status,
       te_exit_code = (if status \<in> {EXEC_PASSED, EXEC_FAILED} then sx_exit_code x else None),
       te_started_at = sx_started_at x, te_completed_at = sx_completed_at x\<rparr>)"

definition command_detail :: "check_kind \<Rightarrow> string" where
  "command_detail purpose = ''Execution did not run the operator profile'' @ [CHR 0x27] @ ''s '' @ check_kind_value purpose @ '' command.''"

text \<open>
  One execution: a finding or attested evidence. A tool is in \<open>EXECUTION_TOOLS\<close> when it has a command. The
  record found under a call id is the last one.
\<close>

definition attest_execution ::
  "'w pf_env \<Rightarrow> repository_profile \<Rightarrow> tool_call_record list \<Rightarrow> sandbox_execution \<Rightarrow> attest_finding + attested_execution" where
  "attest_execution E p rs x =
     (case find (\<lambda>r. tc_call_id r = sx_call_id x) (rev rs) of
        None \<Rightarrow> Inl (tampered ''execution_evidence_mismatch'' ''Sandbox evidence does not belong to a recorded execution tool call.'')
      | Some r \<Rightarrow>
          (case (command_by_tool (tc_tool r), command_purpose_for (tc_tool r) (tc_phase r)) of
             (Some _, Some purpose) \<Rightarrow>
               (case profile_command p purpose of
                  None \<Rightarrow> Inl (tampered ''command_hash_mismatch''
                    (command_detail purpose))
                | Some c \<Rightarrow>
                    if object_digest E (command_json c) \<noteq> sx_command_sha256 x
                      then Inl (tampered ''command_hash_mismatch''
                        (command_detail purpose))
                    else if sx_policy_sha256 x \<noteq> object_digest E (sandbox_policy_json (profile_sandbox p))
                      then Inl (tampered ''sandbox_policy_mismatch'' (''Execution did not use the operator profile'' @ [CHR 0x27] @ ''s sandbox policy.''))
                    else Inr \<lparr>ax_record = r, ax_sandbox = x, ax_purpose = purpose, ax_evidence = evidence_of r purpose x\<rparr>)
           | _ \<Rightarrow> Inl (tampered ''execution_evidence_mismatch''
                ''Sandbox evidence does not belong to a recorded execution tool call.'')))"

fun lefts :: "('a + 'b) list \<Rightarrow> 'a list" where
  "lefts [] = []" | "lefts (Inl a # xs) = a # lefts xs" | "lefts (Inr b # xs) = lefts xs"

fun rights :: "('a + 'b) list \<Rightarrow> 'b list" where
  "rights [] = []" | "rights (Inl a # xs) = rights xs" | "rights (Inr b # xs) = b # rights xs"

definition attest_executions :: "'w pf_env \<Rightarrow> repository_profile \<Rightarrow> runtime_completion \<Rightarrow> attested_execution list \<times> attest_finding list" where
  "attest_executions E p c = (let xs = map (attest_execution E p (cp_tool_calls c)) (cp_executions c) in (rights xs, lefts xs))"

text \<open>\<open>_latest_final\<close>: \<open>max\<close> keeps the first of equal keys.\<close>

fun first_max :: "('a \<Rightarrow> nat) \<Rightarrow> 'a list \<Rightarrow> 'a option" where
  "first_max f [] = None"
| "first_max f (x # xs) = (case first_max f xs of None \<Rightarrow> Some x | Some y \<Rightarrow> Some (if f x < f y then y else x))"

definition latest_final :: "attested_execution list \<Rightarrow> check_kind \<Rightarrow> state_record list \<Rightarrow> string option \<Rightarrow> attested_execution option" where
  "latest_final xs purpose ss final =
     first_max (\<lambda>x. tc_sequence (ax_record x)) (filter (\<lambda>x. ax_purpose x = purpose \<and> on_final_tree ss final (tc_sequence (ax_record x))) xs)"

section \<open>The chain of states\<close>

definition explained :: "state_record \<Rightarrow> state_record \<Rightarrow> bool" where
  "explained a b \<longleftrightarrow> st_kind a = BEFORE_CALL \<and> st_kind b = AFTER_CALL \<and> st_call_sequence a = st_call_sequence b"

fun out_of_band :: "state_record list \<Rightarrow> bool" where
  "out_of_band (a # b # ss) = (\<not> explained a b \<and> st_diff_sha256 a \<noteq> st_diff_sha256 b \<or> out_of_band (b # ss))"
| "out_of_band _ = False"

definition check_state_chain :: "runtime_completion \<Rightarrow> string option \<Rightarrow> attest_finding list" where
  "check_state_chain c final =
     (let ss = cp_states c in
      (if ss = [] \<or> st_kind (hd ss) \<noteq> INITIAL_STATE
        then [tampered ''workspace_initial_state_missing'' ''The run has no runtime fingerprint of its starting workspace.'']
       else if st_changed_files (hd ss) \<noteq> 0
        then [tampered ''workspace_not_pristine'' ''The workspace differed from the source commit before any tool call.''] else [])
      @ (if out_of_band ss
         then [tampered ''workspace_changed_out_of_band'' ''The workspace changed between recorded tool calls.''] else [])
      @ (if list_ex (\<lambda>r. state_tracked (tc_tool r) \<and> \<not> state_bracketed ss (tc_sequence r)) (cp_tool_calls c)
         then [tampered ''unfingerprinted_mutation'' ''A write or execution call has no before/after workspace fingerprint.''] else [])
      @ (case final of None \<Rightarrow> []
         | Some sha \<Rightarrow> if ss \<noteq> [] \<and> st_diff_sha256 (last ss) \<noteq> sha
             then [tampered ''final_state_unobserved'' ''The workspace changed after the last recorded tool call.''] else []))"

section \<open>Reproduction and checks\<close>

definition attest_reproduction ::
  "repository_profile \<Rightarrow> attested_execution list \<Rightarrow> state_record list \<Rightarrow> string option
     \<Rightarrow> reproduction_evidence option \<times> attest_finding list" where
  "attest_reproduction p xs ss final =
     (if profile_command p REPRODUCTION = None
      then (Some \<lparr>re_status = NOT_PRACTICAL, re_before = None, re_after = None,
              re_rationale = lit ''The operator repository profile defines no reproduction command.''\<rparr>, [])
      else (case find (\<lambda>x. ax_purpose x = REPRODUCTION \<and> pristine_before ss (tc_sequence (ax_record x))
             \<and> te_status (ax_evidence x) \<in> {EXEC_PASSED, EXEC_FAILED}) xs of
          None \<Rightarrow> (None, [finding_of ''reproduction_missing'' SEV_BLOCKING VALIDATION
            (lit ''No conclusive reproduction ran on the unmodified source tree.'')])
        | Some before \<Rightarrow>
            if te_status (ax_evidence before) = EXEC_PASSED
            then (Some \<lparr>re_status = PASS_BEFORE, re_before = Some (ax_evidence before), re_after = None,
                    re_rationale = lit ''The reproduction command passed on the unmodified source tree.''\<rparr>,
                  [finding_of ''reproduction_not_demonstrated'' SEV_WARNING VALIDATION
                    (lit ''The reproduction command passed before any change.'')])
            else
              (let after = latest_final xs TARGETED_TESTS ss final in
               (if (case after of None \<Rightarrow> False | Some a \<Rightarrow> te_status (ax_evidence a) = EXEC_PASSED)
                then Some \<lparr>re_status = FAIL_BEFORE_PASS_AFTER, re_before = Some (ax_evidence before),
                   re_after = map_option ax_evidence after, re_rationale =
                   lit ''The reproduction command failed on the source tree and the targeted tests passed on the final tree.''\<rparr>
                else Some \<lparr>re_status = FAIL_BEFORE_NO_PASS, re_before = Some (ax_evidence before),
                   re_after = map_option ax_evidence after,
                   re_rationale = lit ''The reproduction failed, but no targeted run passed on the final tree.''\<rparr>, []))))"

definition required_checks :: "check_kind list" where "required_checks = [TARGETED_TESTS, FULL_TEST_SUITE]"
definition optional_checks :: "check_kind list" where "optional_checks = [FORMATTER, LINTER, TYPECHECK]"

definition check_status_value :: "check_status \<Rightarrow> string" where
  "check_status_value s = (case s of CHECK_PASSED \<Rightarrow> ''passed'' | CHECK_FAILED \<Rightarrow> ''failed'' | CHECK_ERROR \<Rightarrow> ''error''
     | CHECK_NOT_RUN \<Rightarrow> ''not_run'')"

definition attest_check ::
  "repository_profile \<Rightarrow> attested_execution list \<Rightarrow> state_record list \<Rightarrow> string option \<Rightarrow> check_kind
     \<Rightarrow> pf_check list \<times> attest_finding list" where
  "attest_check p xs ss final kind =
     (let name = check_kind_value kind in
      case latest_final xs kind ss final of
        Some x \<Rightarrow>
          (let status = check_status_of (te_status (ax_evidence x)) in
           ([\<lparr>pc_kind = kind, pc_status = status, pc_execution = Some (te_execution_id (ax_evidence x)),
              pc_summary = lit (name @ '' '' @ check_status_value status @ '' on the final tree.'')\<rparr>], []))
      | None \<Rightarrow>
          (let stale = (if list_ex (\<lambda>x. ax_purpose x = kind) xs
             then [finding_of ''stale_validation'' SEV_WARNING VALIDATION (lit (name @ '' ran, but not on the final tree.''))] else []) in
           if kind \<in> set required_checks
             then ([\<lparr>pc_kind = kind, pc_status = CHECK_NOT_RUN, pc_execution = None,
                     pc_summary = lit (name @ '' did not run on the final tree.'')\<rparr>], stale)
           else if profile_command p kind \<noteq> None
             then ([], stale @ [finding_of ''optional_check_not_run'' SEV_INFO VALIDATION
               (lit (''The profile defines '' @ name @ '', but it did not run on the final tree.''))])
           else ([], stale)))"

definition attest_checks ::
  "repository_profile \<Rightarrow> attested_execution list \<Rightarrow> state_record list \<Rightarrow> string option \<Rightarrow> pf_check list \<times> attest_finding list" where
  "attest_checks p xs ss final =
     (let rs = map (attest_check p xs ss final) (required_checks @ optional_checks) in (concat (map fst rs), concat (map snd rs)))"

section \<open>The diff\<close>

datatype attest_exn = Attest_Value_Error string | Artifact_Store_Error string | Attest_Validation_Error | Attest_Os_Error
| Attest_Assertion | Attest_Index_Error

text \<open>A finding for paths that break a rule, on the first of them.\<close>

definition path_finding :: "string \<Rightarrow> finding_severity \<Rightarrow> string \<Rightarrow> ustr list \<Rightarrow> attest_finding list" where
  "path_finding code severity detail ps = (if ps = [] then []
     else [(finding_of code severity POLICY_BREACH (lit detail))\<lparr>af_path := Some (hd ps)\<rparr>])"

definition counted :: "string \<Rightarrow> ustr list \<Rightarrow> string" where
  "counted detail ps = detail @ '' ('' @ nat_str (length ps) @ '' path(s))''"

definition diff_findings :: "'w pf_env \<Rightarrow> repository_profile \<Rightarrow> engineering_task \<Rightarrow> pf_policy \<Rightarrow> final_capture \<Rightarrow> attest_finding list" where
  "diff_findings E p t y k =
     (let changed = fc_changed_files k;
          protected = filter (\<lambda>f. path_matches f (protected_paths p)) changed;
          scope = filter (\<lambda>f. \<not> path_in_scope f (scope_paths t)) changed;
          tests = filter (is_test_path p) changed;
          hidden = filter (sensitive E) changed;
          barred = (if allow_test_file_changes y then [] else tests) in
      path_finding ''protected_path_changed'' SEV_BLOCKING (counted ''The patch changes an operator-protected path.'' protected) protected
      @ path_finding ''scope_violation'' SEV_BLOCKING (counted ''The patch changes a path outside the task scope.'' scope) scope
      @ path_finding ''sensitive_path_changed'' SEV_BLOCKING (counted ''The patch changes a sensitive path.'' hidden) hidden
      @ path_finding ''test_change_not_allowed'' SEV_BLOCKING
          (counted ''The patch changes test files, which the policy forbids.'' barred) barred
      @ (if int (length changed) > policy_changed_files y
         then [finding_of ''too_many_changed_files'' SEV_BLOCKING POLICY_BREACH
           (lit (''The patch changes '' @ nat_str (length changed) @ '' files; the policy allows '' @ int_str (policy_changed_files y) @ ''.''))]
         else [])
      @ (if int (length (fc_patch k)) > policy_diff_bytes y
         then [finding_of ''diff_too_large'' SEV_BLOCKING POLICY_BREACH
           (lit (''The patch is '' @ nat_str (length (fc_patch k)) @ '' bytes; the policy allows '' @ int_str (policy_diff_bytes y) @ ''.''))]
         else [])
      @ path_finding ''binary_files_changed'' SEV_WARNING
          (''The patch changes '' @ nat_str (length (fc_binary_files k)) @ '' binary file(s).'') (fc_binary_files k))"

text \<open>The artifact store is the caller's: it takes a content and a type and answers a reference, or raises.\<close>

type_synonym 's artifact_put = "string \<Rightarrow> string \<Rightarrow> 's \<Rightarrow> (attest_exn + artifact_reference) \<times> 's"

definition summary_of :: "repository_profile \<Rightarrow> engineering_task \<Rightarrow> final_capture \<Rightarrow> artifact_reference \<Rightarrow> diff_summary" where
  "summary_of p t k a =
     (let changed = fc_changed_files k in
      \<lparr>ds_base_sha = fc_base_sha k, ds_head_sha = fc_head_sha k, ds_sha256 = fc_diff_sha256 k, ds_artifact = a,
       ds_changed_files = changed, ds_line_additions = fc_additions k, ds_line_deletions = fc_deletions k,
       ds_binary_files = take 100 (fc_binary_files k),
       ds_protected = take 100 (filter (\<lambda>f. path_matches f (protected_paths p)) changed),
       ds_scope = take 100 (filter (\<lambda>f. \<not> path_in_scope f (scope_paths t)) changed),
       ds_tests = take 500 (filter (is_test_path p) changed)\<rparr>)"

definition attest_diff ::
  "'w pf_env \<Rightarrow> 's artifact_put \<Rightarrow> repository_profile \<Rightarrow> engineering_task \<Rightarrow> pf_policy \<Rightarrow> runtime_completion \<Rightarrow> 's
     \<Rightarrow> (attest_exn + diff_summary option \<times> attest_finding list) \<times> 's" where
  "attest_diff E put p t y c s =
     (case cp_capture c of
        None \<Rightarrow> (Inr (None, case cp_capture_error c of
            Some CAPTURE_NO_CHANGES \<Rightarrow> [finding_of ''no_changes'' SEV_BLOCKING VALIDATION
              (lit ''The reported workspace has no changes to propose.'')]
          | Some CAPTURE_WORKSPACE_ERROR \<Rightarrow>
              [tampered ''final_capture_failed'' ''The reported workspace could not be committed and attested.'']
          | None \<Rightarrow> []), s)
      | Some k \<Rightarrow>
          if env_sha256 E (fc_patch k) \<noteq> fc_diff_sha256 k
            then (Inl (Attest_Value_Error ''Final capture patch does not match its hash''), s)
          else (case put (fc_patch k) ''patchforge_patch'' s of
              (Inl e, s') \<Rightarrow> (Inl e, s')
            | (Inr a, s') \<Rightarrow>
                if artifact_sha256 a \<noteq> fc_diff_sha256 k
                  then (Inl (Artifact_Store_Error ''Stored patch artifact does not match the attested diff''), s')
                else if diff_summary_ok (summary_of p t k a)
                  then (Inr (Some (summary_of p t k a), diff_findings E p t y k), s')
                else (Inl Attest_Validation_Error, s')))"

section \<open>The report\<close>

definition placeholder_report :: agent_report where
  "placeholder_report = \<lparr>report_summary = lit ''Runtime placeholder: no verifiable agent report was accepted.'',
     report_hypothesis = lit ''Not provided by the agent.'', report_implementation = lit ''Not provided by the agent.'',
     report_limitations = [], evidence_references = []\<rparr>"

definition attest_report :: "runtime_completion \<Rightarrow> attested_execution list \<Rightarrow> agent_report \<times> attest_finding list" where
  "attest_report c xs =
     (let known = set (map tc_call_id (cp_tool_calls c)) \<union> set (map (te_execution_id \<circ> ax_evidence) xs) in
      case cp_report c of
        None \<Rightarrow> (placeholder_report, [])
      | Some r \<Rightarrow> if set (evidence_references r) \<subseteq> known then (r, [])
          else (placeholder_report,
            [tampered ''report_evidence_unknown'' ''The agent report references evidence the attestor cannot verify.'']))"

section \<open>The result\<close>

text \<open>The most serious of the blocking findings: tampering, then policy, then validation.\<close>

definition blocking_failure :: "attest_finding list \<Rightarrow> pf_failure option" where
  "blocking_failure fs = (case map af_category (filter (\<lambda>f. af_severity f = SEV_BLOCKING) fs) of
     [] \<Rightarrow> None
   | cs \<Rightarrow> Some (category_failure (if TAMPER \<in> set cs then TAMPER else if POLICY_BREACH \<in> set cs then POLICY_BREACH else VALIDATION)))"

definition attest_failure ::
  "pf_failure option \<Rightarrow> attest_finding list \<Rightarrow> reproduction_evidence option \<Rightarrow> diff_summary option \<Rightarrow> pf_check list \<Rightarrow> pf_failure option" where
  "attest_failure failure fs reproduction diff checks =
     (case failure of Some f \<Rightarrow> Some f
      | None \<Rightarrow> (case blocking_failure fs of Some f \<Rightarrow> Some f
         | None \<Rightarrow> if reproduction = None \<or> diff = None \<or> list_ex (\<lambda>k. pc_status k \<noteq> CHECK_PASSED) checks
             then Some VALIDATION_FAILED else None))"

definition finding_namespace :: uuid where
  "finding_namespace = 0x5f0e8a524a3f4b0e9d2f6b1f3c1a7e10"

definition policy_finding_of :: "'w pf_env \<Rightarrow> uuid \<Rightarrow> nat \<Rightarrow> attest_finding \<Rightarrow> policy_finding" where
  "policy_finding_of E run n f = \<lparr>finding_id = env_uuid5 E finding_namespace
       (uuid_str run @ '':'' @ nat_str n @ '':'' @ af_code f),
     finding_severity = af_severity f, finding_code = af_code f, finding_detail = take 500 (af_detail f), finding_path = af_path f\<rparr>"

text \<open>\<open>__init__\<close>, and \<open>attest\<close> itself; the artifact store is written only by the diff.\<close>

definition attestor_accepts :: "'w pf_env \<Rightarrow> repository_profile \<Rightarrow> engineering_task \<Rightarrow> pf_policy \<Rightarrow> bool" where
  "attestor_accepts E p t y \<longleftrightarrow> object_digest E (profile_json p) = et_profile_sha256 t \<and> policy_profile_sha256 y = et_profile_sha256 t"

definition result_record ::
  "'w pf_env \<Rightarrow> runtime_completion \<Rightarrow> attested_execution list \<Rightarrow> reproduction_evidence option \<Rightarrow> pf_check list \<Rightarrow> diff_summary option
     \<Rightarrow> agent_report \<Rightarrow> attest_finding list \<Rightarrow> pf_failure option \<Rightarrow> patch_outcome \<Rightarrow> pf_result" where
  "result_record E c xs reproduction checks diff report fs failure outcome =
     (let ts = lc_transitions (cp_snapshot c) in
      \<lparr>pr_identity = cp_identity c, pr_outcome = outcome,
       pr_phase_reached = (case find (\<lambda>t. rt_kind t = KIND_FAILURE) ts of Some t \<Rightarrow> rt_source t | None \<Rightarrow> PF_CLOSED), pr_report = report,
       pr_tool_calls = cp_tool_calls c, pr_executions = map ax_evidence xs, pr_reproduction = reproduction, pr_checks = checks,
       pr_diff = diff, pr_findings = map2 (policy_finding_of E (run_id (cp_identity c))) [0 ..< length fs] fs,
       pr_usage = cp_usage c, pr_failure = failure, pr_started_at = rt_at (hd ts), pr_completed_at = rt_at (last ts)\<rparr>)"

definition outcome_for :: "lifecycle \<Rightarrow> pf_failure option \<Rightarrow> patch_outcome option" where
  "outcome_for l failure = (if failure = None then Some PATCH_PROPOSED
     else if lc_failure l = None then map_option failure_outcome failure else lc_outcome l)"

definition result_of ::
  "'w pf_env \<Rightarrow> runtime_completion \<Rightarrow> attested_execution list \<Rightarrow> reproduction_evidence option \<Rightarrow> pf_check list \<Rightarrow> diff_summary option
     \<Rightarrow> agent_report \<Rightarrow> attest_finding list \<Rightarrow> attest_exn + pf_result" where
  "result_of E c xs reproduction checks diff report fs =
     (let failure = attest_failure (lc_failure (cp_snapshot c)) fs reproduction diff checks in
      case outcome_for (cp_snapshot c) failure of
        None \<Rightarrow> Inl Attest_Assertion
      | Some outcome \<Rightarrow>
          if lc_transitions (cp_snapshot c) = [] then Inl Attest_Index_Error
          else let r = result_record E c xs reproduction checks diff report fs failure outcome in
            if pf_result_ok r then Inr r else Inl Attest_Validation_Error)"

definition attest ::
  "'w pf_env \<Rightarrow> 's artifact_put \<Rightarrow> repository_profile \<Rightarrow> engineering_task \<Rightarrow> pf_policy \<Rightarrow> runtime_completion \<Rightarrow> 's
     \<Rightarrow> (attest_exn + pf_result) \<times> 's" where
  "attest E put p t y c s =
     (let i = cp_identity c; ss = cp_states c; final = map_option fc_diff_sha256 (cp_capture c) in
      if run_task_id i \<noteq> et_task_id t \<or> run_task_sha256 i \<noteq> object_digest E (engineering_task_json (env_iso E) t)
        then (Inl (Attest_Value_Error ''Runtime completion belongs to another task''), s)
      else (case attest_executions E p c of (xs, found) \<Rightarrow>
        if \<not> list_all (test_execution_ok \<circ> ax_evidence) xs then (Inl Attest_Validation_Error, s)
        else (case attest_reproduction p xs ss final of (reproduction, found') \<Rightarrow>
         (case attest_checks p xs ss final of (checks, found'') \<Rightarrow>
          (case attest_diff E put p t y c s of
             (Inl e, s') \<Rightarrow> (Inl e, s')
           | (Inr (diff, found3), s') \<Rightarrow>
               (case attest_report c xs of (report, found4) \<Rightarrow>
                 (result_of E c xs reproduction checks diff report
                    (found @ check_state_chain c final @ found' @ found'' @ found3 @ found4), s')))))))"

section \<open>The local artifact store\<close>

text \<open>
  \<open>LocalArtifactStore\<close>: the files of its directory by name. The temporary file that \<open>put\<close> replaces the
  target with is of this process alone and is gone afterwards; a failure of the disk is an OSError, which leaves
  the store as it was.
\<close>

type_synonym local_store = "string \<rightharpoonup> string"

definition store_name :: "string \<Rightarrow> string \<Rightarrow> string" where
  "store_name digest kind = digest @ ''.'' @ kind"

definition local_put :: "(string \<Rightarrow> string) \<Rightarrow> (string \<Rightarrow> bool) \<Rightarrow> local_store artifact_put" where
  "local_put hash writable content kind s =
     (let digest = hash content;
          ref = \<lparr>artifact_type = kind, artifact_uri = lit (''nexus-artifact:sha256:'' @ digest), artifact_sha256 = digest\<rparr> in
      case s (store_name digest kind) of
        Some old \<Rightarrow> if hash old \<noteq> digest then (Inl (Artifact_Store_Error ''Stored artifact does not match its content address''), s)
          else if artifact_ok ref then (Inr ref, s) else (Inl Attest_Validation_Error, s)
      | None \<Rightarrow> if \<not> writable (store_name digest kind) then (Inl Attest_Os_Error, s)
          else if artifact_ok ref then (Inr ref, s(store_name digest kind \<mapsto> content))
          else (Inl Attest_Validation_Error, s(store_name digest kind \<mapsto> content)))"

definition local_read :: "(string \<Rightarrow> string) \<Rightarrow> artifact_reference \<Rightarrow> local_store \<Rightarrow> attest_exn + string" where
  "local_read hash a s =
     (case s (store_name (artifact_sha256 a) (artifact_type a)) of
        None \<Rightarrow> Inl Attest_Os_Error
      | Some content \<Rightarrow> if hash content \<noteq> artifact_sha256 a
          then Inl (Artifact_Store_Error ''Stored artifact does not match its content address'') else Inr content)"

end
