(* ===== verification/PatchForgeAttestorFacts.thy ===== *)
theory PatchForgeAttestorFacts
  imports PatchForgeAttestor
begin

text \<open>
  What a returned attestation rests on: the lists of findings without a blocking entry, read back as statements on
  the evidence of the completion.
\<close>

section \<open>Findings\<close>

definition no_blocking :: "attest_finding list \<Rightarrow> bool" where
  "no_blocking fs \<longleftrightarrow> (\<forall>f \<in> set fs. af_severity f \<noteq> SEV_BLOCKING)"

lemma no_blocking_simps [simp]:
  "no_blocking []" "no_blocking (f # fs) \<longleftrightarrow> af_severity f \<noteq> SEV_BLOCKING \<and> no_blocking fs"
  "no_blocking (fs @ gs) \<longleftrightarrow> no_blocking fs \<and> no_blocking gs"
  by (auto simp: no_blocking_def)

lemma finding_simps [simp]:
  "af_severity (finding_of code v cat d) = v" "af_category (finding_of code v cat d) = cat"
  "af_severity (tampered code e) = SEV_BLOCKING" "af_category (tampered code e) = TAMPER"
  by (simp_all add: finding_of_def tampered_def)

lemma path_finding_blocking [simp]:
  "no_blocking (path_finding code v d ps) \<longleftrightarrow> ps = [] \<or> v \<noteq> SEV_BLOCKING"
  by (simp add: path_finding_def finding_of_def)

lemma blocking_failure_None: "blocking_failure fs = None \<longleftrightarrow> no_blocking fs"
proof -
  have "filter (\<lambda>f. af_severity f = SEV_BLOCKING) fs = [] \<longleftrightarrow> no_blocking fs" by (auto simp: no_blocking_def filter_empty_conv)
  then show ?thesis by (auto simp: blocking_failure_def split: list.splits)
qed

lemma blocking_failure_tamper:
  assumes "f \<in> set fs" "af_severity f = SEV_BLOCKING" "af_category f = TAMPER"
  shows "blocking_failure fs = Some ATTESTATION_FAILED"
proof -
  let ?cs = "map af_category (filter (\<lambda>f. af_severity f = SEV_BLOCKING) fs)"
  have "TAMPER \<in> set ?cs" using assms by force
  then show ?thesis by (cases ?cs) (auto simp: blocking_failure_def)
qed

lemma blocking_failure_policy:
  assumes "f \<in> set fs" "af_severity f = SEV_BLOCKING" "af_category f = POLICY_BREACH"
  shows "blocking_failure fs \<in> {Some ATTESTATION_FAILED, Some POLICY_DENIED}"
proof -
  let ?cs = "map af_category (filter (\<lambda>f. af_severity f = SEV_BLOCKING) fs)"
  have "POLICY_BREACH \<in> set ?cs" using assms by force
  then show ?thesis by (cases ?cs) (auto simp: blocking_failure_def)
qed

section \<open>Executions\<close>

lemma lefts_map: "set (lefts (map f xs)) = {e. \<exists>x \<in> set xs. f x = Inl e}"
proof (induction xs)
  case (Cons x xs)
  then show ?case by (cases "f x") auto
qed simp

lemma rights_map: "set (rights (map f xs)) = {a. \<exists>x \<in> set xs. f x = Inr a}"
proof (induction xs)
  case (Cons x xs)
  then show ?case by (cases "f x") auto
qed simp

text \<open>The call an execution belongs to, and what it must have run.\<close>

definition call_of :: "runtime_completion \<Rightarrow> sandbox_execution \<Rightarrow> tool_call_record option" where
  "call_of c x = find (\<lambda>r. tc_call_id r = sx_call_id x) (rev (cp_tool_calls c))"

definition operator_execution :: "'w pf_env \<Rightarrow> repository_profile \<Rightarrow> runtime_completion \<Rightarrow> check_kind \<Rightarrow> sandbox_execution \<Rightarrow> bool" where
  "operator_execution E p c kind x \<longleftrightarrow> (\<exists>r cmd. call_of c x = Some r \<and> command_by_tool (tc_tool r) \<noteq> None
     \<and> command_purpose_for (tc_tool r) (tc_phase r) = Some kind \<and> profile_command p kind = Some cmd
     \<and> sx_command_sha256 x = object_digest E (command_json cmd)
     \<and> sx_policy_sha256 x = object_digest E (sandbox_policy_json (profile_sandbox p)))"

lemma attest_execution_Inr:
  assumes "attest_execution E p (cp_tool_calls c) x = Inr a"
  shows "call_of c x = Some (ax_record a)" "operator_execution E p c (ax_purpose a) x" "ax_sandbox a = x"
    "ax_evidence a = evidence_of (ax_record a) (ax_purpose a) x"
  using assms by (auto simp: attest_execution_def call_of_def operator_execution_def split: option.splits if_splits)

lemma attest_execution_Inl:
  "attest_execution E p rs x = Inl f \<Longrightarrow> af_severity f = SEV_BLOCKING \<and> af_category f = TAMPER"
  by (auto simp: attest_execution_def split: option.splits if_splits)

lemma no_blocking_executions:
  assumes "attest_executions E p c = (xs, fs)" "no_blocking fs"
  shows "\<forall>x \<in> set (cp_executions c). \<exists>a. attest_execution E p (cp_tool_calls c) x = Inr a"
proof
  fix x assume x: "x \<in> set (cp_executions c)"
  show "\<exists>a. attest_execution E p (cp_tool_calls c) x = Inr a"
  proof (cases "attest_execution E p (cp_tool_calls c) x")
    case (Inl f)
    with x assms(1) have "f \<in> set fs" by (auto simp: attest_executions_def Let_def lefts_map)
    with assms(2) attest_execution_Inl [OF Inl] show ?thesis by (simp add: no_blocking_def)
  qed simp
qed

lemma first_max_Some:
  "first_max f xs = Some y \<Longrightarrow> y \<in> set xs \<and> (\<forall>x \<in> set xs. f x \<le> f y)"
proof (induction xs arbitrary: y)
  case (Cons x xs)
  show ?case
  proof (cases "first_max f xs")
    case None
    then have "xs = []" by (cases xs) (auto split: option.splits)
    with None Cons.prems show ?thesis by simp
  next
    case (Some z)
    with Cons show ?thesis by (fastforce split: if_splits)
  qed
qed simp

text \<open>An execution on the final tree: the last of its kind there.\<close>

definition last_on_final :: "'w pf_env \<Rightarrow> repository_profile \<Rightarrow> runtime_completion \<Rightarrow> string \<Rightarrow> check_kind \<Rightarrow> sandbox_execution \<Rightarrow> bool" where
  "last_on_final E p c sha kind x \<longleftrightarrow> x \<in> set (cp_executions c) \<and> operator_execution E p c kind x
     \<and> (\<exists>r. call_of c x = Some r \<and> on_final_tree (cp_states c) (Some sha) (tc_sequence r)
          \<and> (\<forall>z \<in> set (cp_executions c). \<forall>q. operator_execution E p c kind z \<and> call_of c z = Some q
               \<and> on_final_tree (cp_states c) (Some sha) (tc_sequence q) \<longrightarrow> tc_sequence q \<le> tc_sequence r))"

lemma operator_execution_attested:
  assumes "operator_execution E p c kind x" "call_of c x = Some r"
  shows "attest_execution E p (cp_tool_calls c) x = Inr \<lparr>ax_record = r, ax_sandbox = x, ax_purpose = kind, ax_evidence = evidence_of r kind x\<rparr>"
  using assms by (auto simp: operator_execution_def attest_execution_def call_of_def split: option.splits)

lemma latest_final_Some:
  assumes "latest_final xs kind (cp_states c) (Some sha) = Some a" "attest_executions E p c = (xs, fs)"
  shows "last_on_final E p c sha kind (ax_sandbox a)" "ax_evidence a = evidence_of (ax_record a) kind (ax_sandbox a)"
proof -
  let ?on = "\<lambda>a. ax_purpose a = kind \<and> on_final_tree (cp_states c) (Some sha) (tc_sequence (ax_record a))"
  note m = first_max_Some [OF assms(1) [unfolded latest_final_def]]
  have a: "a \<in> set xs" "?on a" using m by auto
  obtain x where x: "x \<in> set (cp_executions c)" "attest_execution E p (cp_tool_calls c) x = Inr a"
    using a(1) assms(2) by (auto simp: attest_executions_def Let_def rights_map)
  note e = attest_execution_Inr [OF x(2)]
  have "tc_sequence q \<le> tc_sequence (ax_record a)"
    if "z \<in> set (cp_executions c)" "operator_execution E p c kind z" "call_of c z = Some q"
      "on_final_tree (cp_states c) (Some sha) (tc_sequence q)" for z q
  proof -
    let ?b = "\<lparr>ax_record = q, ax_sandbox = z, ax_purpose = kind, ax_evidence = evidence_of q kind z\<rparr>"
    have "?b \<in> set xs"
      using operator_execution_attested [OF that(2,3)] that(1) assms(2) by (auto simp: attest_executions_def Let_def rights_map)
    then show ?thesis using m that(4) by force
  qed
  with x e a(2) show "last_on_final E p c sha kind (ax_sandbox a)"
    unfolding last_on_final_def by (auto intro!: exI [of _ "ax_record a"])
  show "ax_evidence a = evidence_of (ax_record a) kind (ax_sandbox a)" using e a(2) by simp
qed

section \<open>The chain of states and the patch\<close>

lemma out_of_band_iff:
  "out_of_band ss \<longleftrightarrow> (\<exists>i. Suc i < length ss \<and> \<not> explained (ss ! i) (ss ! Suc i) \<and> st_diff_sha256 (ss ! i) \<noteq> st_diff_sha256 (ss ! Suc i))"
proof (induction ss rule: out_of_band.induct)
  case (1 a b ss)
  have "(\<exists>i. Suc i < length (a # b # ss) \<and> P i) \<longleftrightarrow> P 0 \<or> (\<exists>i. Suc i < length (b # ss) \<and> P (Suc i))" for P
    by (metis (no_types, lifting) Suc_less_eq length_Cons not0_implies_Suc zero_less_Suc)
  with 1 show ?case by simp
qed simp_all

text \<open>
  From a pristine start to the attested patch: a change between two records happens only inside a recorded call,
  every writing or executing call is bracketed, and the last record is the tree of the patch.
\<close>

definition chain_intact :: "runtime_completion \<Rightarrow> string \<Rightarrow> bool" where
  "chain_intact c sha \<longleftrightarrow> (let ss = cp_states c in ss \<noteq> [] \<and> st_kind (hd ss) = INITIAL_STATE \<and> st_changed_files (hd ss) = 0
     \<and> (\<forall>i. Suc i < length ss \<longrightarrow> explained (ss ! i) (ss ! Suc i) \<or> st_diff_sha256 (ss ! i) = st_diff_sha256 (ss ! Suc i))
     \<and> (\<forall>r \<in> set (cp_tool_calls c). state_tracked (tc_tool r) \<longrightarrow> state_bracketed ss (tc_sequence r))
     \<and> st_diff_sha256 (last ss) = sha)"

lemma no_blocking_chain: "no_blocking (check_state_chain c (Some sha)) \<Longrightarrow> chain_intact c sha"
  by (auto simp: check_state_chain_def chain_intact_def Let_def out_of_band_iff list_ex_iff split: if_splits)

lemma broken_chain:
  assumes "out_of_band (cp_states c)"
  shows "\<exists>f \<in> set (check_state_chain c final). af_severity f = SEV_BLOCKING \<and> af_category f = TAMPER"
  using assms by (auto simp: check_state_chain_def Let_def)

definition patch_allowed :: "'w pf_env \<Rightarrow> repository_profile \<Rightarrow> engineering_task \<Rightarrow> pf_policy \<Rightarrow> final_capture \<Rightarrow> bool" where
  "patch_allowed E p t y k \<longleftrightarrow>
     (\<forall>f \<in> set (fc_changed_files k). \<not> path_matches f (protected_paths p) \<and> path_in_scope f (scope_paths t) \<and> \<not> sensitive E f
        \<and> (allow_test_file_changes y \<or> \<not> is_test_path p f))
     \<and> int (length (fc_changed_files k)) \<le> policy_changed_files y \<and> int (length (fc_patch k)) \<le> policy_diff_bytes y"

lemma no_blocking_diff: "no_blocking (diff_findings E p t y k) \<longleftrightarrow> patch_allowed E p t y k"
  by (auto simp: diff_findings_def patch_allowed_def Let_def filter_empty_conv)

lemma path_finding_policy: "f \<in> set (path_finding code v d ps) \<Longrightarrow> af_category f = POLICY_BREACH"
  by (simp add: path_finding_def finding_of_def split: if_splits)

lemma diff_findings_policy:
  assumes "f \<in> set (diff_findings E p t y k)"
  shows "af_category f = POLICY_BREACH"
proof -
  have "f \<in> set (if b then [finding_of code v POLICY_BREACH d] else []) \<Longrightarrow> af_category f = POLICY_BREACH" for b code v d
    by (simp split: if_splits)
  with assms show ?thesis unfolding diff_findings_def Let_def set_append by (elim UnE) (auto dest: path_finding_policy simp del: set_simps)
qed

section \<open>The result\<close>

lemma attest_parts:
  assumes "attest E put p t y c s = (Inr r, s')"
  obtains xs found reproduction found' checks found'' diff found3 report found4
  where "attest_executions E p c = (xs, found)" "list_all (test_execution_ok \<circ> ax_evidence) xs"
    "attest_reproduction p xs (cp_states c) (map_option fc_diff_sha256 (cp_capture c)) = (reproduction, found')"
    "attest_checks p xs (cp_states c) (map_option fc_diff_sha256 (cp_capture c)) = (checks, found'')"
    "attest_diff E put p t y c s = (Inr (diff, found3), s')" "attest_report c xs = (report, found4)"
    "result_of E c xs reproduction checks diff report
       (found @ check_state_chain c (map_option fc_diff_sha256 (cp_capture c)) @ found' @ found'' @ found3 @ found4) = Inr r"
  using assms by (auto simp: attest_def Let_def split: prod.splits if_splits sum.splits)

lemma result_record_simps [simp]:
  "pr_failure (result_record E c xs re ks d rep fs f o') = f" "pr_outcome (result_record E c xs re ks d rep fs f o') = o'"
  "pr_checks (result_record E c xs re ks d rep fs f o') = ks" "pr_diff (result_record E c xs re ks d rep fs f o') = d"
  "pr_report (result_record E c xs re ks d rep fs f o') = rep" "pr_reproduction (result_record E c xs re ks d rep fs f o') = re"
  "pr_executions (result_record E c xs re ks d rep fs f o') = map ax_evidence xs"
  "pr_identity (result_record E c xs re ks d rep fs f o') = cp_identity c"
  "pr_tool_calls (result_record E c xs re ks d rep fs f o') = cp_tool_calls c"
  by (simp_all add: result_record_def Let_def)

lemma result_of_Inr:
  assumes "result_of E c xs reproduction checks diff report fs = Inr r"
  shows "\<exists>outcome. outcome_for (cp_snapshot c) (attest_failure (lc_failure (cp_snapshot c)) fs reproduction diff checks) = Some outcome
     \<and> r = result_record E c xs reproduction checks diff report fs
         (attest_failure (lc_failure (cp_snapshot c)) fs reproduction diff checks) outcome \<and> pf_result_ok r"
  using assms by (auto simp: result_of_def Let_def split: option.splits if_splits)

lemma result_ok_outcome: "pf_result_ok r \<Longrightarrow> pr_outcome r = PATCH_PROPOSED \<longleftrightarrow> pr_failure r = None"
  by (auto simp: pf_result_ok_def outcome_error_def split: if_splits option.splits)

end
