(* ===== verification/PatchForgeAttestation.thy ===== *)
theory PatchForgeAttestation
  imports PatchForgeAttestorFacts PatchForgeDemo
begin

text \<open>
  The properties of the attestor: what a proposed patch rests on, which failure a finding leads to, that the
  agent's narrative decides nothing, the way of a proposal to Atlas, and the artifact store behind an interface.
\<close>

section \<open>Proposals\<close>

lemma attest_diff_Some:
  assumes "attest_diff E put p t y c s = (Inr (Some d, fs), s')"
  obtains k a where "cp_capture c = Some k" "env_sha256 E (fc_patch k) = fc_diff_sha256 k" "d = summary_of p t k a"
    "fs = diff_findings E p t y k" "put (fc_patch k) ''patchforge_patch'' s = (Inr a, s')" "artifact_sha256 a = fc_diff_sha256 k"
  using assms that by (auto simp: attest_diff_def split: option.splits if_splits prod.splits sum.splits capture_error.splits)

lemma attest_checks_required:
  assumes "attest_checks p xs ss final = (checks, fs)" "\<forall>k \<in> set checks. pc_status k = CHECK_PASSED" "kind \<in> set required_checks"
  shows "\<exists>a. latest_final xs kind ss final = Some a \<and> te_status (ax_evidence a) = EXEC_PASSED"
proof -
  obtain ks gs where k: "attest_check p xs ss final kind = (ks, gs)" by force
  have "kind \<in> set (required_checks @ optional_checks)" using assms(3) by simp
  then have "set ks \<subseteq> set checks" using assms(1) k by (force simp: attest_checks_def Let_def)
  moreover have "\<exists>c \<in> set ks. (latest_final xs kind ss final = None \<longrightarrow> pc_status c = CHECK_NOT_RUN)
      \<and> (\<forall>a. latest_final xs kind ss final = Some a \<longrightarrow> pc_status c = check_status_of (te_status (ax_evidence a)))"
    using k assms(3) by (auto simp: attest_check_def Let_def split: option.splits if_splits)
  ultimately obtain c where "c \<in> set checks" and c: "latest_final xs kind ss final = None \<longrightarrow> pc_status c = CHECK_NOT_RUN"
    "\<forall>a. latest_final xs kind ss final = Some a \<longrightarrow> pc_status c = check_status_of (te_status (ax_evidence a))"
    by (meson in_mono)
  with assms(2) have "pc_status c = CHECK_PASSED" by simp
  note c = this c
  then obtain a where a: "latest_final xs kind ss final = Some a" by (cases "latest_final xs kind ss final") auto
  with c have "check_status_of (te_status (ax_evidence a)) = CHECK_PASSED" by simp
  then have "te_status (ax_evidence a) = EXEC_PASSED" by (cases "te_status (ax_evidence a)") simp_all
  with a show ?thesis by blast
qed

lemma proposed_evidence:
  assumes "attest E put p t y c s = (Inr r, s')" "pr_outcome r = PATCH_PROPOSED"
  shows "lc_failure (cp_snapshot c) = None
     \<and> (\<forall>x \<in> set (cp_executions c). \<exists>kind. operator_execution E p c kind x)
     \<and> (\<exists>k d. cp_capture c = Some k \<and> pr_diff r = Some d \<and> env_sha256 E (fc_patch k) = fc_diff_sha256 k
          \<and> ds_sha256 d = fc_diff_sha256 k \<and> artifact_sha256 (ds_artifact d) = fc_diff_sha256 k
          \<and> fc_base_sha k = commit_sha (run_source (cp_identity c)) \<and> patch_allowed E p t y k \<and> chain_intact c (fc_diff_sha256 k)
          \<and> (\<forall>kind \<in> {TARGETED_TESTS, FULL_TEST_SUITE}. \<exists>x. last_on_final E p c (fc_diff_sha256 k) kind x \<and> sx_status x = SANDBOX_SUCCEEDED))
     \<and> (\<exists>e. pr_reproduction r = Some e \<and> re_status e \<noteq> FAIL_BEFORE_NO_PASS)"
proof (rule attest_parts [OF assms(1)])
  fix xs found re found' checks found'' diff found3 report found4
  let ?final = "map_option fc_diff_sha256 (cp_capture c)"
  let ?fs = "found @ check_state_chain c ?final @ found' @ found'' @ found3 @ found4"
  assume ex: "attest_executions E p c = (xs, found)"
    and re: "attest_reproduction p xs (cp_states c) ?final = (re, found')"
    and ch: "attest_checks p xs (cp_states c) ?final = (checks, found'')"
    and df: "attest_diff E put p t y c s = (Inr (diff, found3), s')"
    and res: "result_of E c xs re checks diff report ?fs = Inr r"
  obtain o' where r: "r = result_record E c xs re checks diff report ?fs (attest_failure (lc_failure (cp_snapshot c)) ?fs re diff checks) o'"
    "pf_result_ok r" using result_of_Inr [OF res] by blast
  then have "attest_failure (lc_failure (cp_snapshot c)) ?fs re diff checks = None"
    using assms(2) result_ok_outcome [OF r(2)] by simp
  then have nf: "lc_failure (cp_snapshot c) = None" "no_blocking ?fs" "re \<noteq> None" "diff \<noteq> None" "\<forall>k \<in> set checks. pc_status k = CHECK_PASSED"
    by (auto simp: attest_failure_def blocking_failure_None list_ex_iff split: option.splits if_splits)
  obtain d where d: "diff = Some d" using nf(4) by auto
  obtain k a where k: "cp_capture c = Some k" "env_sha256 E (fc_patch k) = fc_diff_sha256 k" "d = summary_of p t k a"
    "found3 = diff_findings E p t y k" "artifact_sha256 a = fc_diff_sha256 k"
    using attest_diff_Some [OF df [unfolded d]] by metis
  have final: "?final = Some (fc_diff_sha256 k)" by (simp add: k(1))
  have allowed: "patch_allowed E p t y k" and chain: "chain_intact c (fc_diff_sha256 k)"
    using nf(2) no_blocking_chain [of c "fc_diff_sha256 k"] by (simp_all add: final k(4) no_blocking_diff)
  have base: "fc_base_sha k = commit_sha (run_source (cp_identity c))"
    using r assms(2) d by (auto simp: pf_result_ok_def outcome_error_def k(3) summary_of_def Let_def split: if_splits)
  have runs: "\<exists>kind. operator_execution E p c kind x" if "x \<in> set (cp_executions c)" for x
    using no_blocking_executions [OF ex] nf(2) that attest_execution_Inr(2) by fastforce
  have last: "\<exists>b. latest_final xs kind (cp_states c) (Some (fc_diff_sha256 k)) = Some b \<and> te_status (ax_evidence b) = EXEC_PASSED"
    if "kind \<in> {TARGETED_TESTS, FULL_TEST_SUITE}" for kind
    using attest_checks_required [OF ch nf(5), of kind] that by (simp add: required_checks_def final)
  have "\<exists>x. last_on_final E p c (fc_diff_sha256 k) kind x \<and> sx_status x = SANDBOX_SUCCEEDED"
    if kind: "kind \<in> {TARGETED_TESTS, FULL_TEST_SUITE}" for kind
  proof -
    obtain b where b: "latest_final xs kind (cp_states c) (Some (fc_diff_sha256 k)) = Some b" "te_status (ax_evidence b) = EXEC_PASSED"
      using last [OF kind] by blast
    have "execution_status_of (sx_status (ax_sandbox b)) = EXEC_PASSED"
      using b(2) latest_final_Some(2) [OF b(1) ex] by (simp add: evidence_of_def Let_def)
    then have "sx_status (ax_sandbox b) = SANDBOX_SUCCEEDED" by (cases "sx_status (ax_sandbox b)") simp_all
    with latest_final_Some(1) [OF b(1) ex] show ?thesis by blast
  qed
  moreover have "\<exists>e. re = Some e \<and> re_status e \<noteq> FAIL_BEFORE_NO_PASS"
    using re nf(3) last [of TARGETED_TESTS] by (auto simp: attest_reproduction_def Let_def final split: if_splits option.splits)
  ultimately show ?thesis
    using nf(1) runs k base allowed chain d r(1) by (auto simp: summary_of_def Let_def)
qed

text \<open>C2: A patch is proposed only on evidence of the runtime: the run did not fail; every recorded execution ran
  the operator's command under the operator's sandbox policy; the patch hashes to its digest, starts at the run's
  commit and breaks no rule on paths, files and bytes; the fingerprints lead without a gap from a pristine
  workspace to the tree of the patch, with every writing or executing call between two of them; and the last
  targeted tests and the last full suite that ran on exactly that tree, which they did not change, succeeded.\<close>

lemma attest_proposed:
  assumes "attest E put p t y c s = (Inr r, s')" "pr_outcome r = PATCH_PROPOSED"
  shows "lc_failure (cp_snapshot c) = None
     \<and> (\<forall>x \<in> set (cp_executions c). \<exists>kind. operator_execution E p c kind x)
     \<and> (\<exists>k d. cp_capture c = Some k \<and> pr_diff r = Some d \<and> env_sha256 E (fc_patch k) = fc_diff_sha256 k
          \<and> ds_sha256 d = fc_diff_sha256 k \<and> artifact_sha256 (ds_artifact d) = fc_diff_sha256 k
          \<and> fc_base_sha k = commit_sha (run_source (cp_identity c)) \<and> patch_allowed E p t y k \<and> chain_intact c (fc_diff_sha256 k)
          \<and> (\<forall>kind \<in> {TARGETED_TESTS, FULL_TEST_SUITE}. \<exists>x. last_on_final E p c (fc_diff_sha256 k) kind x \<and> sx_status x = SANDBOX_SUCCEEDED))
     \<and> (\<exists>e. pr_reproduction r = Some e \<and> re_status e \<noteq> FAIL_BEFORE_NO_PASS)"
  by (rule proposed_evidence [OF assms])

text \<open>The small run, attested against an empty local store.\<close>

abbreviation demo_put :: "local_store artifact_put" where
  "demo_put \<equiv> local_put (env_sha256 demo_pf_env) (\<lambda>_. True)"

definition demo_attested :: "(attest_exn + pf_result) \<times> local_store" where
  "demo_attested = attest demo_pf_env demo_put demo_profile demo_pf_task demo_pf_policy demo_completion Map.empty"

lemmas attestor_code = attest_def attest_executions_def attest_execution_def evidence_of_def check_state_chain_def attest_reproduction_def
  attest_checks_def attest_check_def required_checks_def optional_checks_def latest_final_def on_final_tree_def state_at_def state_bracketed_def
  attest_diff_def summary_of_def diff_findings_def path_finding_def attest_report_def result_of_def result_record_def outcome_for_def
  attest_failure_def blocking_failure_def explained_def check_status_value_def

lemmas result_model = pf_result_ok_def result_fields_ok_def evidence_error_def outcome_error_def test_execution_ok_def reproduction_ok_def
  pf_check_ok_def diff_summary_ok_def tool_call_ok_def check_matches_def artifact_ok_def policy_finding_ok_def

lemma demo_words: "valid_identifier ''patchforge_patch''" "valid_identifier ''full_test_suite''" "valid_identifier ''targeted_tests''"
  "valid_identifier ''sandbox_policy_mismatch''" "length demo_sha = 64"
  by (code_simp, code_simp, code_simp, code_simp, simp add: demo_sha_def)

lemma demo_proposed: "\<exists>r s. demo_attested = (Inr r, s) \<and> pr_outcome r = PATCH_PROPOSED"
  by (simp add: demo_attested_def attestor_code demo_outcome demo_data state_tracked_def command_purpose_for_def local_put_def
      store_name_def Let_def) (simp add: result_model model_code demo_data demo_words opt_ok_def Let_def)

lemma attest_proposed_witness:
  "\<exists>r d x. fst demo_attested = Inr r \<and> pr_diff r = Some d \<and> ds_sha256 d = demo_sha
     \<and> last_on_final demo_pf_env demo_profile demo_completion demo_sha FULL_TEST_SUITE x \<and> sx_status x = SANDBOX_SUCCEEDED"
proof -
  obtain r s where r: "demo_attested = (Inr r, s)" "pr_outcome r = PATCH_PROPOSED" using demo_proposed by blast
  have k: "cp_capture demo_completion = Some demo_capture" "fc_diff_sha256 demo_capture = demo_sha"
    by (simp_all add: demo_completion_def demo_capture_def)
  obtain d x where "pr_diff r = Some d" "ds_sha256 d = demo_sha"
    "last_on_final demo_pf_env demo_profile demo_completion demo_sha FULL_TEST_SUITE x" "sx_status x = SANDBOX_SUCCEEDED"
    using attest_proposed [OF r(1) [unfolded demo_attested_def] r(2)] k by auto
  moreover have "fst demo_attested = Inr r" by (simp add: r(1))
  ultimately show ?thesis by blast
qed

section \<open>Failures\<close>

text \<open>C26: Which failure an attestation reports. A failure of the run stays the failure and the outcome of the
  result. In a run without one, a change of the workspace outside the recorded calls or an execution that is not
  the operator's makes the attestation fail, whatever else was found, and a patch that breaks the policy is
  refused as tampering or as a breach of policy, never as a mere validation failure.\<close>

lemma attest_failures:
  assumes "attest E put p t y c s = (Inr r, s')"
  shows "(\<forall>f. lc_failure (cp_snapshot c) = Some f \<longrightarrow> pr_failure r = Some f \<and> lc_outcome (cp_snapshot c) = Some (pr_outcome r))
     \<and> (lc_failure (cp_snapshot c) = None \<and> (out_of_band (cp_states c) \<or> (\<exists>x \<in> set (cp_executions c). \<forall>kind. \<not> operator_execution E p c kind x))
          \<longrightarrow> pr_failure r = Some ATTESTATION_FAILED \<and> pr_outcome r = ABORTED)
     \<and> (lc_failure (cp_snapshot c) = None \<and> (\<exists>k. cp_capture c = Some k \<and> \<not> patch_allowed E p t y k)
          \<longrightarrow> pr_failure r \<in> {Some ATTESTATION_FAILED, Some POLICY_DENIED})"
proof (rule attest_parts [OF assms])
  fix xs found re found' checks found'' diff found3 report found4
  let ?final = "map_option fc_diff_sha256 (cp_capture c)"
  let ?fs = "found @ check_state_chain c ?final @ found' @ found'' @ found3 @ found4"
  assume ex: "attest_executions E p c = (xs, found)"
    and df: "attest_diff E put p t y c s = (Inr (diff, found3), s')"
    and res: "result_of E c xs re checks diff report ?fs = Inr r"
  let ?f = "attest_failure (lc_failure (cp_snapshot c)) ?fs re diff checks"
  obtain o' where r: "outcome_for (cp_snapshot c) ?f = Some o'" "r = result_record E c xs re checks diff report ?fs ?f o'"
    using result_of_Inr [OF res] by blast
  have tamper: "pr_failure r = Some ATTESTATION_FAILED \<and> pr_outcome r = ABORTED"
    if "lc_failure (cp_snapshot c) = None" "f \<in> set ?fs" "af_severity f = SEV_BLOCKING" "af_category f = TAMPER" for f
    using r that(1) blocking_failure_tamper [OF that(2-4)] by (auto simp: attest_failure_def outcome_for_def)
  have one: "pr_failure r = Some f \<and> lc_outcome (cp_snapshot c) = Some (pr_outcome r)" if "lc_failure (cp_snapshot c) = Some f" for f
    using r that by (simp add: attest_failure_def outcome_for_def)
  have two: "pr_failure r = Some ATTESTATION_FAILED \<and> pr_outcome r = ABORTED"
    if n: "lc_failure (cp_snapshot c) = None" and "out_of_band (cp_states c) \<or> (\<exists>x \<in> set (cp_executions c). \<forall>kind. \<not> operator_execution E p c kind x)"
    using that(2)
  proof
    assume "out_of_band (cp_states c)"
    then show ?thesis using broken_chain [of c ?final] tamper [OF n] by auto
  next
    assume "\<exists>x \<in> set (cp_executions c). \<forall>kind. \<not> operator_execution E p c kind x"
    then obtain x where x: "x \<in> set (cp_executions c)" "\<And>kind. \<not> operator_execution E p c kind x" by blast
    then obtain f where f: "attest_execution E p (cp_tool_calls c) x = Inl f"
      using attest_execution_Inr(2) by (cases "attest_execution E p (cp_tool_calls c) x") blast+
    then have "f \<in> set found" using x(1) ex by (auto simp: attest_executions_def Let_def lefts_map)
    then show ?thesis using tamper [OF n, of f] attest_execution_Inl [OF f] by simp
  qed
  have three: "pr_failure r \<in> {Some ATTESTATION_FAILED, Some POLICY_DENIED}"
    if n: "lc_failure (cp_snapshot c) = None" and k: "cp_capture c = Some k" "\<not> patch_allowed E p t y k" for k
  proof -
    have "found3 = diff_findings E p t y k" using df k(1) by (auto simp: attest_diff_def split: if_splits prod.splits sum.splits)
    then obtain f where "f \<in> set found3" "af_severity f = SEV_BLOCKING" "af_category f = POLICY_BREACH"
      using k(2) no_blocking_diff [of E p t y k] diff_findings_policy [of _ E p t y k] by (auto simp: no_blocking_def)
    then have "blocking_failure ?fs \<in> {Some ATTESTATION_FAILED, Some POLICY_DENIED}" by (intro blocking_failure_policy [of f]) auto
    then show ?thesis using r(2) n by (auto simp: attest_failure_def)
  qed
  from one two three show ?thesis by blast
qed

text \<open>The small run with an execution under another sandbox policy.\<close>

definition demo_tampered :: runtime_completion where
  "demo_tampered = demo_completion\<lparr>cp_executions := [(demo_execution 16)\<lparr>sx_policy_sha256 := demo_clean_sha\<rparr>, demo_execution 18]\<rparr>"

lemma demo_shas: "demo_clean_sha \<noteq> demo_sha"
  by (simp add: demo_clean_sha_def demo_sha_def)

lemma demo_path_points: "path_ok [97, 46, 112, 121]"
  using demo_path(1) by (simp add: lit_def)

lemma demo_tampered_attested:
  "\<exists>r s. attest demo_pf_env demo_put demo_profile demo_pf_task demo_pf_policy demo_tampered Map.empty = (Inr r, s)"
  by (simp add: demo_tampered_def attestor_code demo_outcome demo_data state_tracked_def command_purpose_for_def local_put_def
      store_name_def tampered_def finding_of_def Let_def) (simp add: result_model model_code demo_data demo_words opt_ok_def Let_def policy_finding_of_def finding_of_def lit_def demo_path_points)

lemma attest_failures_witness:
  "\<exists>r. fst (attest demo_pf_env demo_put demo_profile demo_pf_task demo_pf_policy demo_tampered Map.empty) = Inr r
     \<and> pr_failure r = Some ATTESTATION_FAILED"
proof -
  obtain r s where r: "attest demo_pf_env demo_put demo_profile demo_pf_task demo_pf_policy demo_tampered Map.empty = (Inr r, s)"
    using demo_tampered_attested by blast
  let ?x = "(demo_execution 16)\<lparr>sx_policy_sha256 := demo_clean_sha\<rparr>"
  have "?x \<in> set (cp_executions demo_tampered)" "\<forall>kind. \<not> operator_execution demo_pf_env demo_profile demo_tampered kind ?x"
    by (simp_all add: demo_tampered_def operator_execution_def demo_digest demo_shas)
  moreover have "lc_failure (cp_snapshot demo_tampered) = None" by (simp add: demo_tampered_def demo_outcome)
  ultimately show ?thesis using attest_failures [OF r] r by auto
qed

section \<open>The narrative decides nothing\<close>

text \<open>C27: The attestor does not trust the agent's words: two completions that differ only in the text of the report,
  with the same evidence references, get the same outcome, failure, checks, reproduction, executions, diff and
  findings, and leave the same artifact store.\<close>

lemma attest_narrative:
  assumes "attest E put p t y c s = (Inr r, s')" "cp_report c = Some rep" "evidence_references rep' = evidence_references rep"
    "attest E put p t y (c\<lparr>cp_report := Some rep'\<rparr>) s = (Inr q, s'')"
  shows "pr_outcome q = pr_outcome r \<and> pr_failure q = pr_failure r \<and> pr_checks q = pr_checks r \<and> pr_reproduction q = pr_reproduction r
     \<and> pr_executions q = pr_executions r \<and> pr_diff q = pr_diff r \<and> pr_findings q = pr_findings r \<and> s'' = s'"
proof -
  let ?c = "c\<lparr>cp_report := Some rep'\<rparr>"
  have same: "attest_executions E p ?c = attest_executions E p c" "check_state_chain ?c f = check_state_chain c f"
    "attest_diff E put p t y ?c s = attest_diff E put p t y c s" "snd (attest_report ?c xs) = snd (attest_report c xs)" for f xs
    using assms(2,3) by (simp_all add: attest_executions_def check_state_chain_def attest_diff_def attest_report_def Let_def cong: option.case_cong)
  show ?thesis
  proof (rule attest_parts [OF assms(1)])
    fix xs found re found' checks found'' diff found3 report found4
    let ?final = "map_option fc_diff_sha256 (cp_capture c)"
    let ?fs = "found @ check_state_chain c ?final @ found' @ found'' @ found3 @ found4"
    let ?f = "attest_failure (lc_failure (cp_snapshot c)) ?fs re diff checks"
    assume parts: "attest_executions E p c = (xs, found)" "attest_reproduction p xs (cp_states c) ?final = (re, found')"
      "attest_checks p xs (cp_states c) ?final = (checks, found'')" "attest_diff E put p t y c s = (Inr (diff, found3), s')"
      "attest_report c xs = (report, found4)"
      and res: "result_of E c xs re checks diff report ?fs = Inr r"
    obtain report' where "attest_report ?c xs = (report', found4)" using same(4) [of xs] parts(5) by (metis prod.collapse snd_conv)
    with assms(4) parts have "result_of E ?c xs re checks diff report' ?fs = Inr q" "s'' = s'"
      by (auto simp: attest_def same Let_def split: if_splits)
    then obtain o' where q: "outcome_for (cp_snapshot c) ?f = Some o'" "q = result_record E ?c xs re checks diff report' ?fs ?f o'" "s'' = s'"
      using result_of_Inr [of E ?c xs re checks diff report' ?fs q] by auto
    obtain o'' where r: "outcome_for (cp_snapshot c) ?f = Some o''" "r = result_record E c xs re checks diff report ?fs ?f o''"
      using result_of_Inr [OF res] by blast
    from q r show ?thesis by (simp add: result_record_def Let_def)
  qed
qed

definition demo_boast :: agent_report where
  "demo_boast = demo_report\<lparr>report_summary := lit ''all tests pass''\<rparr>"

lemma demo_boast_attested:
  "\<exists>q s. attest demo_pf_env demo_put demo_profile demo_pf_task demo_pf_policy (demo_completion\<lparr>cp_report := Some demo_boast\<rparr>) Map.empty = (Inr q, s)"
  by (simp add: demo_boast_def attestor_code demo_outcome demo_data state_tracked_def command_purpose_for_def local_put_def
      store_name_def Let_def) (simp add: result_model model_code demo_data demo_words opt_ok_def Let_def)

lemma attest_narrative_witness:
  "\<exists>r q s. demo_attested = (Inr r, s) \<and> fst (attest demo_pf_env demo_put demo_profile demo_pf_task demo_pf_policy
       (demo_completion\<lparr>cp_report := Some demo_boast\<rparr>) Map.empty) = Inr q \<and> pr_outcome q = pr_outcome r"
proof -
  obtain r s where r: "demo_attested = (Inr r, s)" using demo_proposed by blast
  obtain q s' where q: "attest demo_pf_env demo_put demo_profile demo_pf_task demo_pf_policy
      (demo_completion\<lparr>cp_report := Some demo_boast\<rparr>) Map.empty = (Inr q, s')"
    using demo_boast_attested by blast
  have "cp_report demo_completion = Some demo_report" by (simp add: demo_completion_def)
  then show ?thesis
    using attest_narrative [OF r [unfolded demo_attested_def] _ _ q] r q by (auto simp: demo_boast_def)
qed

end

