(* ===== verification/PatchForgeHandover.thy ===== *)
theory PatchForgeHandover
  imports PatchForgeProperties PatchForgeAttestation
begin

text \<open>
  What leaves PatchForge: the artifact store as an interface with its laws, the local store
  (\<open>src/nexus/patchforge/attestor.py\<close>) as its instance, and the conversion of a proposed patch to the result that Atlas
  validates (\<open>PatchResult.to_atlas_result\<close>); then the composition of the runtime, the attestor and that conversion.
\<close>

section \<open>The artifact store\<close>

text \<open>Later writes to a store.\<close>

definition store_later :: "'s artifact_put \<Rightarrow> (string \<times> string) list \<Rightarrow> 's \<Rightarrow> 's" where
  "store_later put xs s = fold (\<lambda>(content, kind) s. snd (put content kind s)) xs s"

locale artifact_store =
  fixes hash :: "string \<Rightarrow> string"
    and put :: "'s artifact_put"
    and read :: "artifact_reference \<Rightarrow> 's \<Rightarrow> attest_exn + string"
  assumes put_digest: "put content kind s = (Inr a, s') \<Longrightarrow> artifact_sha256 a = hash content"
    and put_read: "put content kind s = (Inr a, s') \<Longrightarrow> \<exists>text. read a s' = Inr text"
    and put_keeps: "read a s = Inr text \<Longrightarrow> read a (snd (put content kind s)) = Inr text"
    and read_digest: "read a s = Inr text \<Longrightarrow> hash text = artifact_sha256 a"

context artifact_store
begin

lemma later_keeps: "read a s = Inr text \<Longrightarrow> read a (store_later put xs s) = Inr text"
  by (induction xs arbitrary: s) (auto simp: store_later_def intro: put_keeps)

lemma stored:
  assumes "put content kind s = (Inr a, s')"
  shows "\<exists>text. read a (store_later put xs s') = Inr text \<and> hash text = hash content"
  using put_read [OF assms] put_digest [OF assms] later_keeps read_digest by metis

lemma attested_patch:
  assumes "env_sha256 E = hash" "attest E put p t y c s = (Inr r, s')" "pr_diff r = Some d"
  shows "\<exists>k text. cp_capture c = Some k \<and> read (ds_artifact d) (store_later put xs s') = Inr text \<and> hash text = hash (fc_patch k)
     \<and> hash text = ds_sha256 d"
proof (rule attest_parts [OF assms(2)])
  fix xs' found re found' checks found'' diff found3 report found4
  let ?final = "map_option fc_diff_sha256 (cp_capture c)"
  let ?fs = "found @ check_state_chain c ?final @ found' @ found'' @ found3 @ found4"
  assume d: "attest_diff E put p t y c s = (Inr (diff, found3), s')"
    and res: "result_of E c xs' re checks diff report ?fs = Inr r"
  have "diff = Some d" using result_of_Inr [OF res] assms(3) by (auto simp: result_record_def Let_def)
  with d obtain k a where k: "cp_capture c = Some k" "d = summary_of p t k a" "put (fc_patch k) ''patchforge_patch'' s = (Inr a, s')"
    "env_sha256 E (fc_patch k) = fc_diff_sha256 k" using attest_diff_Some [of E put p t y c s d found3 s'] by blast
  obtain b where "read a (store_later put xs s') = Inr b" "hash b = hash (fc_patch k)" using stored [OF k(3)] by blast
  with k assms(1) show ?thesis by (auto simp: summary_of_def Let_def)
qed

end

lemma local_put_result:
  assumes "local_put hash writable content name s = (Inr a, s')"
  shows "artifact_sha256 a = hash content" "\<exists>b. local_read hash a s' = Inr b"
proof -
  have a: "artifact_sha256 a = hash content" "artifact_type a = name"
    using assms by (auto simp: local_put_def Let_def split: option.splits if_splits)
  then show "artifact_sha256 a = hash content" by simp
  have "\<exists>b. s' (store_name (hash content) name) = Some b \<and> hash b = hash content"
  proof (cases "s (store_name (hash content) name)")
    case None
    with assms show ?thesis by (auto simp: local_put_def Let_def split: if_splits)
  next
    case (Some old)
    with assms show ?thesis by (simp add: local_put_def Let_def split: if_splits)
  qed
  then obtain b where "s' (store_name (artifact_sha256 a) (artifact_type a)) = Some b" "hash b = artifact_sha256 a"
    unfolding a by blast
  then have "local_read hash a s' = Inr b" by (simp add: local_read_def)
  then show "\<exists>b. local_read hash a s' = Inr b" ..
qed

lemma local_put_other: "s n = Some b \<Longrightarrow> snd (local_put hash writable content name s) n = Some b"
  by (cases "s (store_name (hash content) name)"; cases "n = store_name (hash content) name") (simp_all add: local_put_def Let_def)

lemma local_put_keeps:
  "local_read hash a s = Inr b \<Longrightarrow> local_read hash a (snd (local_put hash writable content name s)) = Inr b"
proof -
  assume r: "local_read hash a s = Inr b"
  then obtain c where c: "s (store_name (artifact_sha256 a) (artifact_type a)) = Some c"
    by (auto simp: local_read_def split: option.splits)
  have "snd (local_put hash writable content name s) (store_name (artifact_sha256 a) (artifact_type a)) = Some c"
    by (rule local_put_other) (rule c)
  with r c show ?thesis by (simp add: local_read_def)
qed

lemma local_read_digest: "local_read hash a s = Inr text \<Longrightarrow> hash text = artifact_sha256 a"
  by (auto simp: local_read_def split: option.splits if_splits)

interpretation local_files: artifact_store hash "local_put hash writable" "local_read hash" for hash writable
  by unfold_locales (auto intro: local_put_result local_put_keeps local_read_digest)

text \<open>C29: The patch that a result refers to can be fetched: after an attestation with a diff, and after any further
  writes to the local artifact store, reading the reference of the diff succeeds, and what is read has the digest of
  the result's diff and of the patch the runtime captured; without a collision on that patch it is that patch.\<close>

lemma patchforge_patch_stored:
  assumes "attest E (local_put (env_sha256 E) writable) p t y c s = (Inr r, s')" "pr_diff r = Some d"
  shows "\<exists>k text. cp_capture c = Some k \<and> local_read (env_sha256 E) (ds_artifact d) (store_later (local_put (env_sha256 E) writable) xs s') = Inr text
     \<and> env_sha256 E text = ds_sha256 d \<and> env_sha256 E text = env_sha256 E (fc_patch k)
     \<and> ((\<forall>x. env_sha256 E x = env_sha256 E (fc_patch k) \<longrightarrow> x = fc_patch k) \<longrightarrow> text = fc_patch k)"
  using local_files.attested_patch [OF refl assms, of xs] by blast

lemma patchforge_patch_stored_witness:
  "\<exists>r s d text. demo_attested = (Inr r, s) \<and> pr_diff r = Some d
     \<and> local_read (env_sha256 demo_pf_env) (ds_artifact d) (store_later demo_put [(''other'', ''note'')] s) = Inr text
     \<and> env_sha256 demo_pf_env text = ds_sha256 d"
proof -
  obtain r s where r: "demo_attested = (Inr r, s)" "pr_outcome r = PATCH_PROPOSED" using demo_proposed by blast
  obtain d where d: "pr_diff r = Some d" using proposed_evidence [OF r(1) [unfolded demo_attested_def] r(2)] by auto
  show ?thesis using patchforge_patch_stored [OF r(1) [unfolded demo_attested_def] d, of "[(''other'', ''note'')]"] r(1) d by blast
qed

section \<open>The result that Atlas gets\<close>

lemma path_relative:
  assumes "path_ok p"
  shows "bounded 1 500 p" "AtlasModels.relative_path p"
  using assms by (auto simp: path_ok_def repository_path_def AtlasModels.relative_path_def Let_def list_ex_iff split: if_splits)

lemma check_kind_words: "valid_identifier (check_kind_value k)"
  by (cases k) (simp_all, code_simp+)

lemma atlas_result_of:
  assumes "pf_result_ok r" "to_atlas_result r = Some a"
  shows "\<exists>d. pr_diff r = Some d \<and> pr_outcome r = PATCH_PROPOSED \<and> base_sha a = commit_sha (run_source (pr_identity r))
     \<and> proposed_head_sha a = ds_head_sha d \<and> patch_artifact a = ds_artifact d \<and> changed_files a = ds_changed_files d
     \<and> (\<forall>c \<in> set (patch_checks a). check_passed c) \<and> {''targeted_tests'', ''full_test_suite''} \<subseteq> check_name ` set (patch_checks a)
     \<and> (result_ok (Patch_Result a) \<longleftrightarrow> length (report_summary (pr_report r)) \<le> 2000 \<and> length (changed_files a) \<le> 500)"
proof -
  obtain d where d: "pr_diff r = Some d" "pr_outcome r = PATCH_PROPOSED"
    and a: "a = \<lparr>patch_summary = report_summary (pr_report r), base_sha = ds_base_sha d, proposed_head_sha = ds_head_sha d,
         patch_artifact = ds_artifact d, changed_files = ds_changed_files d,
         patch_checks = map (\<lambda>c. \<lparr>check_name = check_kind_value (pc_kind c), check_passed = (pc_status c = CHECK_PASSED),
           check_summary = pc_summary c\<rparr>) (pr_checks r)\<rparr>"
    using assms(2) by (auto simp: to_atlas_result_def split: option.splits if_splits)
  have o: "ds_base_sha d = commit_sha (run_source (pr_identity r))" "{TARGETED_TESTS, FULL_TEST_SUITE} \<subseteq> set (map pc_kind (pr_checks r))"
    "\<forall>c \<in> set (pr_checks r). pc_status c = CHECK_PASSED"
    using assms(1) d by (auto simp: pf_result_ok_def outcome_error_def list_ex_iff split: if_splits)
  have f: "diff_summary_ok d" "agent_report_ok (pr_report r)" "bounded 0 100 (pr_checks r)" "list_all pf_check_ok (pr_checks r)"
    using assms(1) d by (simp_all add: pf_result_ok_def result_fields_ok_def opt_ok_def)
  have "{''targeted_tests'', ''full_test_suite''} \<subseteq> check_name ` set (patch_checks a)"
    using imageI [of TARGETED_TESTS "set (map pc_kind (pr_checks r))" check_kind_value]
      imageI [of FULL_TEST_SUITE "set (map pc_kind (pr_checks r))" check_kind_value] o(2) by (simp add: a image_image)
  moreover have "relative_paths (ds_changed_files d)" "list_all (bounded 1 500) (ds_changed_files d)"
    using f(1) path_relative by (auto simp: relative_paths_def diff_summary_ok_def list_all_iff)
  moreover have "bounded_text (report_summary (pr_report r)) \<longleftrightarrow> length (report_summary (pr_report r)) \<le> 2000"
    using f(2) by (auto simp: agent_report_ok_def narrative_def bounded_text_def bounded_def)
  moreover have "list_all check_ok (patch_checks a)" "bounded 0 100 (patch_checks a)"
    using f(3,4) check_kind_words by (auto simp: a check_ok_def pf_check_ok_def list_all_iff bounded_def)
  moreover have "valid_commit_sha (ds_base_sha d)" "valid_commit_sha (ds_head_sha d)" "artifact_ok (ds_artifact d)"
    "bounded 1 500 (ds_changed_files d) \<longleftrightarrow> length (ds_changed_files d) \<le> 500"
    using f(1) by (auto simp: diff_summary_ok_def bounded_def)
  ultimately show ?thesis using d o(1,3) by (simp add: a)
qed

text \<open>C28: What Atlas gets. A valid result is convertible exactly when it proposes a patch; its base is the commit the
  run started from, every check in it passed, the targeted tests and the full suite are among them; and Atlas accepts
  it exactly when the summary has at most 2,000 characters and at most 500 files changed, although a valid result may
  carry 4,000 and 1,000.\<close>

lemma patchforge_atlas_result:
  assumes "pf_result_ok r"
  shows "(case to_atlas_result r of
      None \<Rightarrow> pr_outcome r \<noteq> PATCH_PROPOSED
    | Some a \<Rightarrow> pr_outcome r = PATCH_PROPOSED \<and> base_sha a = commit_sha (run_source (pr_identity r))
        \<and> (\<forall>c \<in> set (patch_checks a). check_passed c) \<and> {''targeted_tests'', ''full_test_suite''} \<subseteq> check_name ` set (patch_checks a)
        \<and> (result_ok (Patch_Result a) \<longleftrightarrow> length (report_summary (pr_report r)) \<le> 2000 \<and> length (changed_files a) \<le> 500))"
proof (cases "to_atlas_result r")
  case None
  then show ?thesis
    using assms by (auto simp: to_atlas_result_def pf_result_ok_def outcome_error_def split: option.splits if_splits)
next
  case (Some a)
  then show ?thesis using atlas_result_of [OF assms Some] by auto
qed

text \<open>The result of the small run.\<close>

lemma demo_valid_result: "\<exists>r s. demo_attested = (Inr r, s) \<and> pf_result_ok r \<and> pr_outcome r = PATCH_PROPOSED"
proof -
  obtain r s where r: "demo_attested = (Inr r, s)" "pr_outcome r = PATCH_PROPOSED" using demo_proposed by blast
  have "pf_result_ok r"
  proof (rule attest_parts [OF r(1) [unfolded demo_attested_def]])
    fix xs found re found' checks found'' diff found3 report found4
    assume "result_of demo_pf_env demo_completion xs re checks diff report
       (found @ check_state_chain demo_completion (map_option fc_diff_sha256 (cp_capture demo_completion)) @ found' @ found'' @ found3 @ found4) = Inr r"
    then show ?thesis using result_of_Inr by blast
  qed
  with r show ?thesis by blast
qed

lemma patchforge_atlas_result_witness:
  "\<exists>r s. demo_attested = (Inr r, s) \<and> (\<exists>a. to_atlas_result r = Some a
     \<and> (result_ok (Patch_Result a) \<longleftrightarrow> length (report_summary (pr_report r)) \<le> 2000 \<and> length (changed_files a) \<le> 500))"
proof -
  obtain r s where r: "demo_attested = (Inr r, s)" "pf_result_ok r" "pr_outcome r = PATCH_PROPOSED" using demo_valid_result by blast
  show ?thesis using patchforge_atlas_result [OF r(2)] r by (cases "to_atlas_result r") auto
qed

section \<open>A run, its attestation and its result\<close>

lemma proposed_report:
  assumes "attest E put p t y c s = (Inr r, s')" "pr_outcome r = PATCH_PROPOSED" "cp_report c = Some rep"
  shows "pr_report r = rep \<and> pf_result_ok r \<and> pr_identity r = cp_identity c"
proof (rule attest_parts [OF assms(1)])
  fix xs found re found' checks found'' diff found3 report found4
  let ?fs = "found @ check_state_chain c (map_option fc_diff_sha256 (cp_capture c)) @ found' @ found'' @ found3 @ found4"
  assume rep: "attest_report c xs = (report, found4)" and res: "result_of E c xs re checks diff report ?fs = Inr r"
  note r = result_of_Inr [OF res]
  then have "attest_failure (lc_failure (cp_snapshot c)) ?fs re diff checks = None"
    using assms(2) result_ok_outcome [of r] by auto
  then have "blocking_failure ?fs = None" by (auto simp: attest_failure_def split: if_splits option.splits)
  then have "\<forall>f \<in> set found4. af_severity f \<noteq> SEV_BLOCKING"
    by (auto simp: blocking_failure_def filter_empty_conv split: list.splits)
  then have "report = rep" using rep assms(3) by (auto simp: attest_report_def tampered_def finding_of_def Let_def split: if_splits)
  then show ?thesis using r by (auto simp: result_record_def Let_def)
qed

lemma attested_summary:
  assumes "attest E put p t y c s = (Inr r, s')" "pr_diff r = Some d" "cp_capture c = Some k"
  shows "ds_head_sha d = fc_head_sha k \<and> ds_changed_files d = fc_changed_files k"
proof (rule attest_parts [OF assms(1)])
  fix xs found re found' checks found'' diff found3 report found4
  let ?fs = "found @ check_state_chain c (map_option fc_diff_sha256 (cp_capture c)) @ found' @ found'' @ found3 @ found4"
  assume d: "attest_diff E put p t y c s = (Inr (diff, found3), s')" and res: "result_of E c xs re checks diff report ?fs = Inr r"
  have "diff = Some d" using result_of_Inr [OF res] assms(2) by (auto simp: result_record_def Let_def)
  with d obtain a where "d = summary_of p t k a" using attest_diff_Some [of E put p t y c s d found3 s'] assms(3) by force
  then show ?thesis by (simp add: summary_of_def Let_def)
qed

text \<open>C1: From a run to Atlas. If a run returns a completion that the attestor turns into a result that converts for
  Atlas, then the run went through every phase and its workspace is removed; the commit, the files and the patch digest
  that Atlas gets are those that the workspace manager proposed for this run's workspace in the state in which the
  loop left the run, on the commit of the run's identity; the summary is that of the report whose digest the gateway recorded; and the last full test suite
  on exactly the proposed tree was the operator's command and succeeded.\<close>

lemma patchforge_end_to_end:
  assumes "run_budgets_ok (policy_budgets (pb_policy (rc_binding R)))" "orderly (rc_env R)"
    "gateway_init E (rc_binding R) h v = (Inr g, v')" "execute R fuel (runtime_init R g w) = Some (Inr c, u)"
    "attest (rc_env R) put p t y c s = (Inr r, s')" "to_atlas_result r = Some a"
  shows "cp_cleaned c \<and> map rt_source (lc_transitions (cp_snapshot c)) = straight_path PF_CLOSED (lc_loops (cp_snapshot c))
     \<and> base_sha a = commit_sha (run_source (pb_identity (rc_binding R)))
     \<and> (\<exists>l q. run_loop R fuel (runtime_init R g w) = Some (Inr (), l) \<and> proposal_answer R l = Inr q
          \<and> proposed_head_sha a = prop_commit_sha q
          \<and> changed_files a = wd_changed_files (prop_diff q) \<and> artifact_sha256 (patch_artifact a) = wd_sha256 (prop_diff q)
          \<and> (\<exists>x. last_on_final (rc_env R) p c (wd_sha256 (prop_diff q)) FULL_TEST_SUITE x \<and> sx_status x = SANDBOX_SUCCEEDED))
     \<and> (\<exists>rep. patch_summary a = report_summary rep \<and> List.map_filter (report_evidence \<circ> gr_output) (cp_results c)
          = [(object_digest (rc_env R) (agent_report_json rep), evidence_references rep)])"
proof -
  have o: "pr_outcome r = PATCH_PROPOSED" using assms(6) by (auto simp: to_atlas_result_def split: option.splits if_splits)
  note p = proposed_evidence [OF assms(5) o]
  then have "lc_failure (cp_snapshot c) = None" by simp
  note e = run_evidence [OF assms(1-4) this]
  obtain rep where rep: "cp_report c = Some rep" "List.map_filter (report_evidence \<circ> gr_output) (cp_results c)
      = [(object_digest (rc_env R) (agent_report_json rep), evidence_references rep)]" using e by blast
  have r: "pr_report r = rep" "pf_result_ok r" "pr_identity r = cp_identity c" using proposed_report [OF assms(5) o rep(1)] by simp_all
  have i: "cp_identity c = pb_identity (rc_binding R)"
    using assms(4) by (auto simp: execute_def completion_of_def split: option.splits prod.splits sum.splits if_splits)
  obtain d where d: "pr_diff r = Some d" "base_sha a = commit_sha (run_source (pr_identity r))" "proposed_head_sha a = ds_head_sha d"
    "patch_artifact a = ds_artifact d" "changed_files a = ds_changed_files d" using atlas_result_of [OF r(2) assms(6)] by blast
  obtain k where k: "cp_capture c = Some k" "ds_sha256 d = fc_diff_sha256 k" "artifact_sha256 (ds_artifact d) = fc_diff_sha256 k"
    "\<exists>x. last_on_final (rc_env R) p c (fc_diff_sha256 k) FULL_TEST_SUITE x \<and> sx_status x = SANDBOX_SUCCEEDED" using p d(1) by auto
  obtain l where l: "run_loop R fuel (runtime_init R g w) = Some (Inr (), l)" "capture_from R (proposal_answer R l) = Some k"
    using e k(1) by auto
  obtain q where q: "proposal_answer R l = Inr q" "k = capture_of (run_id_of R) q" using l(2) by (auto simp: capture_from_Some)
  have f: "ds_head_sha d = fc_head_sha k" "ds_changed_files d = fc_changed_files k"
    using attested_summary [OF assms(5) d(1) k(1)] by simp_all
  have s: "patch_summary a = report_summary rep" using assms(6) r(1) by (auto simp: to_atlas_result_def split: option.splits if_splits)
  have "cp_cleaned c" "map rt_source (lc_transitions (cp_snapshot c)) = straight_path PF_CLOSED (lc_loops (cp_snapshot c))" using e by simp_all
  moreover have "base_sha a = commit_sha (run_source (pb_identity (rc_binding R)))" using d(2) r(3) i by simp
  moreover have "proposed_head_sha a = prop_commit_sha q" "changed_files a = wd_changed_files (prop_diff q)"
    "artifact_sha256 (patch_artifact a) = wd_sha256 (prop_diff q)" "fc_diff_sha256 k = wd_sha256 (prop_diff q)"
    using d(3-5) f k(3) q(2) by (simp_all add: capture_of_def Let_def)
  ultimately show ?thesis using l(1) q(1) k(4) s rep(2) by metis
qed

lemma patchforge_end_to_end_witness:
  "\<exists>r s a. demo_attested = (Inr r, s) \<and> to_atlas_result r = Some a
     \<and> (\<exists>x. last_on_final demo_pf_env demo_profile demo_completion (artifact_sha256 (patch_artifact a)) FULL_TEST_SUITE x \<and> sx_status x = SANDBOX_SUCCEEDED)"
proof -
  obtain r s where r: "demo_attested = (Inr r, s)" "pf_result_ok r" "pr_outcome r = PATCH_PROPOSED" using demo_valid_result by blast
  obtain a where a: "to_atlas_result r = Some a" using r(2,3)
    by (auto simp: to_atlas_result_def pf_result_ok_def outcome_error_def split: option.splits if_splits)
  obtain u where u: "execute demo_config 13 (runtime_init demo_config demo_gateway (0, False)) = Some (Inr demo_completion, u)"
    using demo_run by blast
  have g: "gateway_init demo_pf_env (rc_binding demo_config) demo_handle (0, False) = (Inr demo_gateway, (0, False))"
    using demo_gateway_init by (simp add: demo_answers)
  have env: "rc_env demo_config = demo_pf_env" by (simp add: demo_config_def)
  have "\<exists>x. last_on_final demo_pf_env demo_profile demo_completion (artifact_sha256 (patch_artifact a)) FULL_TEST_SUITE x
      \<and> sx_status x = SANDBOX_SUCCEEDED"
    using patchforge_end_to_end [OF demo_budgets_ok demo_orderly g u r(1) [unfolded demo_attested_def, folded env] a]
    unfolding env by (elim conjE exE) metis
  with r(1) a show ?thesis by blast
qed

end
