(* ===== verification/SentinelModels.thy ===== *)
theory SentinelModels
  imports PatchForgeTools
begin

text \<open>
  The contracts of SentinelQA (\<open>src/nexus/sentinelqa/models.py\<close>): the specification lock, the test counts, the runs
  with their runner canary, the findings with their meaning for the verdict, the integrity comparison and the
  \<open>SentinelVerdict\<close> with its validator and its conversion to the review that Atlas records.
\<close>

section \<open>The specification lock\<close>

datatype specification_kind = SPEC_TEST | SPEC_EVALUATION_CONFIG | SPEC_OPERATOR

fun specification_kind_value :: "specification_kind \<Rightarrow> string" where
  "specification_kind_value SPEC_TEST = ''test''"
| "specification_kind_value SPEC_EVALUATION_CONFIG = ''evaluation_config''"
| "specification_kind_value SPEC_OPERATOR = ''operator''"

text \<open>\<open>FileMode\<close>: whether the mode is 100755.\<close>

record specification_entry =
  en_path :: ustr
  en_kind :: specification_kind
  en_executable :: bool
  en_sha256 :: string
  en_size :: nat

definition mode_text :: "bool \<Rightarrow> string" where
  "mode_text x = (if x then ''100755'' else ''100644'')"

record specification_lock =
  lk_url :: http_url
  lk_source_sha :: string
  lk_profile_id :: string
  lk_profile_sha256 :: string
  lk_prefixes :: "ustr list"
  lk_entries :: "specification_entry list"
  lk_captured_at :: timestamp

definition entry_ok :: "specification_entry \<Rightarrow> bool" where
  "entry_ok e \<longleftrightarrow> path_ok (en_path e) \<and> valid_sha256 (en_sha256 e)"

text \<open>\<open>validate_entries\<close> compares with \<open>sorted(set(paths))\<close>: strictly ascending.\<close>

definition lock_ok :: "specification_lock \<Rightarrow> bool" where
  "lock_ok k \<longleftrightarrow> valid_commit_sha (lk_source_sha k) \<and> valid_identifier (lk_profile_id k) \<and> valid_sha256 (lk_profile_sha256 k)
     \<and> bounded 0 50 (lk_prefixes k) \<and> list_all path_ok (lk_prefixes k)
     \<and> bounded 0 5000 (lk_entries k) \<and> list_all entry_ok (lk_entries k)
     \<and> sorted_wrt (<) (map en_path (lk_entries k))"

definition spec_entry_json :: "specification_entry \<Rightarrow> json" where
  "spec_entry_json e = obj [(''path'', JStr (en_path e)), (''kind'', jstr (specification_kind_value (en_kind e))),
     (''mode'', jstr (mode_text (en_executable e))), (''sha256'', jstr (en_sha256 e)), (''size_bytes'', jnat (en_size e))]"

text \<open>\<open>lock_sha256\<close>: without the time of the capture.\<close>

definition lock_json :: "specification_lock \<Rightarrow> json" where
  "lock_json k = obj [(''schema_version'', JInt 1), (''contract_version'', jstr ''sentinelqa-contract-v1''),
     (''repository_url'', jstr (url_text (lk_url k))), (''source_sha'', jstr (lk_source_sha k)),
     (''profile_id'', jstr (lk_profile_id k)), (''profile_sha256'', jstr (lk_profile_sha256 k)),
     (''test_path_prefixes'', jtexts (lk_prefixes k)), (''entries'', JList (map spec_entry_json (lk_entries k))),
     (''attested_by'', jstr ''sentinelqa.runtime'')]"

definition digest_of :: "('a env_scheme) \<Rightarrow> json \<Rightarrow> string" where
  "digest_of E j = canonical_sha256 (env_sha256 E) (env_nfc E) j"

definition lock_sha256 :: "('a env_scheme) \<Rightarrow> specification_lock \<Rightarrow> string" where
  "lock_sha256 E k = digest_of E (lock_json k)"

definition entry_for :: "specification_lock \<Rightarrow> ustr \<Rightarrow> specification_entry option" where
  "entry_for k path = find (\<lambda>e. en_path e = path) (rev (lk_entries k))"

definition locked_paths :: "specification_lock \<Rightarrow> ustr list" where
  "locked_paths k = map en_path (lk_entries k)"

section \<open>Runs\<close>

record specification_counts =
  ct_passed :: nat
  ct_failed :: nat
  ct_errors :: nat
  ct_skipped :: nat
  ct_xfailed :: nat
  ct_xpassed :: nat
  ct_deselected :: nat
  ct_warnings :: nat

definition no_counts :: specification_counts where
  "no_counts = \<lparr>ct_passed = 0, ct_failed = 0, ct_errors = 0, ct_skipped = 0, ct_xfailed = 0, ct_xpassed = 0,
     ct_deselected = 0, ct_warnings = 0\<rparr>"

definition total_tests :: "specification_counts \<Rightarrow> nat" where
  "total_tests c = ct_passed c + ct_failed c + ct_errors c + ct_skipped c + ct_xfailed c + ct_xpassed c"

datatype specification_tree = PRISTINE_TREE | VERIFICATION_TREE

fun specification_tree_value :: "specification_tree \<Rightarrow> string" where
  "specification_tree_value PRISTINE_TREE = ''pristine''"
| "specification_tree_value VERIFICATION_TREE = ''verification''"

record canary_record =
  cr_path :: ustr
  cr_sha256 :: string
  cr_reported_failed :: bool

record specification_run =
  sr_review_id :: uuid
  sr_sequence :: nat
  sr_tree :: specification_tree
  sr_purpose :: check_kind
  sr_command_sha256 :: string
  sr_policy_sha256 :: string
  sr_status :: execution_status
  sr_exit_code :: "int option"
  sr_counts :: "specification_counts option"
  sr_before :: string
  sr_after :: string
  sr_stdout_sha256 :: string
  sr_stderr_sha256 :: string
  sr_truncated :: bool
  sr_started_at :: timestamp
  sr_completed_at :: timestamp
  sr_canary :: "canary_record option"

text \<open>\<open>validate_run\<close> and the field constraints.\<close>

definition canary_record_ok :: "canary_record \<Rightarrow> bool" where
  "canary_record_ok c \<longleftrightarrow> path_ok (cr_path c) \<and> valid_sha256 (cr_sha256 c)"

definition run_ok :: "specification_run \<Rightarrow> bool" where
  "run_ok r \<longleftrightarrow> 1 \<le> sr_sequence r \<and> list_all valid_sha256 [sr_command_sha256 r, sr_policy_sha256 r, sr_before r, sr_after r,
       sr_stdout_sha256 r, sr_stderr_sha256 r]
     \<and> opt_ok (\<lambda>c. 0 \<le> c \<and> c \<le> 255) (sr_exit_code r) \<and> opt_ok canary_record_ok (sr_canary r)
     \<and> sr_started_at r \<le> sr_completed_at r
     \<and> (sr_canary r \<noteq> None \<longrightarrow> sr_purpose r = FULL_TEST_SUITE)
     \<and> (sr_status r = EXEC_PASSED \<longrightarrow> sr_exit_code r = Some 0)
     \<and> (sr_status r = EXEC_FAILED \<longrightarrow> sr_exit_code r \<notin> {None, Some 0})
     \<and> (sr_status r \<in> {EXEC_TIMED_OUT, EXEC_ERROR} \<longrightarrow> sr_exit_code r = None)"

definition tree_unchanged :: "specification_run \<Rightarrow> bool" where
  "tree_unchanged r \<longleftrightarrow> sr_before r = sr_after r"

definition integrity_demonstrated :: "specification_run \<Rightarrow> bool" where
  "integrity_demonstrated r \<longleftrightarrow> (case (sr_canary r, sr_counts r) of
     (Some c, Some k) \<Rightarrow> cr_reported_failed c \<and> sr_status r = EXEC_FAILED \<and> sr_exit_code r = Some 1
       \<and> ct_failed k = 1 \<and> ct_errors k = 0 \<and> tree_unchanged r
   | _ \<Rightarrow> False)"

section \<open>Findings\<close>

datatype finding_meaning = REJECTION | UNVERIFIABLE | ADVISORY

datatype sentinel_code =
  SPECIFICATION_MODIFIED | SPECIFICATION_DELETED | SPECIFICATION_NOT_REGULAR_FILE | EVALUATION_CONFIG_ALTERED
| PROTECTED_PATH_CHANGED | SENSITIVE_PATH_CHANGED | PATCH_APPLY_FAILED | PRISTINE_TESTS_FAILED | TESTS_SKIPPED
| TESTS_MISSING | VERIFICATION_TREE_MUTATED | HARNESS_TAMPERING | RUNNER_INTEGRITY_VIOLATED
| INDEPENDENT_VALIDATION_DISAGREES | UNRECORDED_CHANGE | NO_CODE_CHANGE
| NOT_A_PROPOSAL | IDENTITY_MISMATCH | PRISTINE_REFERENCE_UNVERIFIABLE | EVIDENCE_INCOMPLETE | EXECUTOR_UNAVAILABLE
| RUNNER_INTEGRITY_UNPROVEN
| REPRODUCTION_NOT_DEMONSTRATED | CANDIDATE_TESTS_EXCLUDED

definition finding_meaning_of :: "sentinel_code \<Rightarrow> finding_meaning" where
  "finding_meaning_of c =
     (if c \<in> {NOT_A_PROPOSAL, IDENTITY_MISMATCH, PRISTINE_REFERENCE_UNVERIFIABLE, EVIDENCE_INCOMPLETE, EXECUTOR_UNAVAILABLE,
         RUNNER_INTEGRITY_UNPROVEN} then UNVERIFIABLE
      else if c \<in> {REPRODUCTION_NOT_DEMONSTRATED, CANDIDATE_TESTS_EXCLUDED} then ADVISORY
      else REJECTION)"

fun sentinel_code_value :: "sentinel_code \<Rightarrow> string" where
  "sentinel_code_value SPECIFICATION_MODIFIED = ''specification_modified''"
| "sentinel_code_value SPECIFICATION_DELETED = ''specification_deleted''"
| "sentinel_code_value SPECIFICATION_NOT_REGULAR_FILE = ''specification_not_regular_file''"
| "sentinel_code_value EVALUATION_CONFIG_ALTERED = ''evaluation_config_altered''"
| "sentinel_code_value PROTECTED_PATH_CHANGED = ''protected_path_changed''"
| "sentinel_code_value SENSITIVE_PATH_CHANGED = ''sensitive_path_changed''"
| "sentinel_code_value PATCH_APPLY_FAILED = ''patch_apply_failed''"
| "sentinel_code_value PRISTINE_TESTS_FAILED = ''pristine_tests_failed''"
| "sentinel_code_value TESTS_SKIPPED = ''tests_skipped''"
| "sentinel_code_value TESTS_MISSING = ''tests_missing''"
| "sentinel_code_value VERIFICATION_TREE_MUTATED = ''verification_tree_mutated''"
| "sentinel_code_value HARNESS_TAMPERING = ''harness_tampering''"
| "sentinel_code_value RUNNER_INTEGRITY_VIOLATED = ''runner_integrity_violated''"
| "sentinel_code_value INDEPENDENT_VALIDATION_DISAGREES = ''independent_validation_disagrees''"
| "sentinel_code_value UNRECORDED_CHANGE = ''unrecorded_change''"
| "sentinel_code_value NO_CODE_CHANGE = ''no_code_change''"
| "sentinel_code_value NOT_A_PROPOSAL = ''not_a_proposal''"
| "sentinel_code_value IDENTITY_MISMATCH = ''identity_mismatch''"
| "sentinel_code_value PRISTINE_REFERENCE_UNVERIFIABLE = ''pristine_reference_unverifiable''"
| "sentinel_code_value EVIDENCE_INCOMPLETE = ''evidence_incomplete''"
| "sentinel_code_value EXECUTOR_UNAVAILABLE = ''executor_unavailable''"
| "sentinel_code_value RUNNER_INTEGRITY_UNPROVEN = ''runner_integrity_unproven''"
| "sentinel_code_value REPRODUCTION_NOT_DEMONSTRATED = ''reproduction_not_demonstrated''"
| "sentinel_code_value CANDIDATE_TESTS_EXCLUDED = ''candidate_tests_excluded''"

record sentinel_finding =
  sf_id :: uuid
  sf_code :: sentinel_code
  sf_meaning :: finding_meaning
  sf_severity :: finding_severity
  sf_detail :: ustr
  sf_path :: "ustr option"

definition sentinel_finding_ok :: "sentinel_finding \<Rightarrow> bool" where
  "sentinel_finding_ok f \<longleftrightarrow> short_text (sf_detail f) \<and> opt_ok path_ok (sf_path f)
     \<and> finding_meaning_of (sf_code f) = sf_meaning f
     \<and> (sf_meaning f \<noteq> ADVISORY \<longleftrightarrow> sf_severity f = SEV_BLOCKING)"

section \<open>Integrity\<close>

record specification_integrity =
  si_locked :: nat
  si_unchanged :: int
  si_modified :: "ustr list"
  si_deleted :: "ustr list"
  si_not_regular :: "ustr list"
  si_added_tests :: "ustr list"
  si_config_changes :: "ustr list"
  si_restored :: "ustr list"
  si_candidate_changes :: "ustr list"
  si_verification_changes :: "ustr list"

definition integrity_ok :: "specification_integrity \<Rightarrow> bool" where
  "integrity_ok i \<longleftrightarrow> 0 \<le> si_unchanged i
     \<and> list_all (\<lambda>xs. bounded 0 500 xs \<and> list_all path_ok xs)
         [si_modified i, si_deleted i, si_not_regular i, si_added_tests i, si_config_changes i, si_restored i]
     \<and> list_all (\<lambda>xs. bounded 0 1000 xs \<and> list_all path_ok xs) [si_candidate_changes i, si_verification_changes i]
     \<and> si_unchanged i + int (length (si_modified i) + length (si_deleted i) + length (si_not_regular i)) = int (si_locked i)"

definition specification_intact :: "specification_integrity \<Rightarrow> bool" where
  "specification_intact i \<longleftrightarrow> si_modified i = [] \<and> si_deleted i = [] \<and> si_not_regular i = [] \<and> si_config_changes i = []"

section \<open>The verdict\<close>

definition verdict_for :: "finding_meaning set \<Rightarrow> review_verdict" where
  "verdict_for ms = (if UNVERIFIABLE \<in> ms then Review_Inconclusive else if REJECTION \<in> ms then Review_Failed else Review_Passed)"

record sentinel_verdict =
  sv_review_id :: uuid
  sv_task_id :: uuid
  sv_run_id :: uuid
  sv_atlas_job_id :: uuid
  sv_source_sha :: string
  sv_lock_sha256 :: string
  sv_patch_sha256 :: "string option"
  sv_head_sha :: "string option"
  sv_verdict :: review_verdict
  sv_summary :: ustr
  sv_findings :: "sentinel_finding list"
  sv_integrity :: "specification_integrity option"
  sv_runs :: "specification_run list"
  sv_agree :: "bool option"
  sv_started_at :: timestamp
  sv_completed_at :: timestamp

text \<open>A run that counts as a pass of the pristine specification.\<close>

definition clean_pass :: "specification_run \<Rightarrow> bool" where
  "clean_pass r \<longleftrightarrow> sr_tree r = VERIFICATION_TREE \<and> sr_canary r = None \<and> sr_status r = EXEC_PASSED \<and> tree_unchanged r
     \<and> (case sr_counts r of None \<Rightarrow> False | Some k \<Rightarrow> ct_failed k = 0 \<and> ct_errors k = 0 \<and> 1 \<le> ct_passed k)"

text \<open>\<open>validate_verdict\<close>: the first violated rule.\<close>

definition verdict_error :: "sentinel_verdict \<Rightarrow> string option" where
  "verdict_error v =
     (if sv_completed_at v < sv_started_at v then Some ''Verdict completion cannot precede start''
      else if \<not> distinct (map sf_id (sv_findings v)) then Some ''Finding IDs must be unique''
      else if list_ex (\<lambda>r. sr_review_id r \<noteq> sv_review_id v) (sv_runs v) then Some ''Specification run belongs to another review''
      else if map sr_sequence (sv_runs v) \<noteq> [1 ..< Suc (length (sv_runs v))]
        then Some ''Specification runs must be contiguous and ordered''
      else if sv_verdict v \<noteq> verdict_for (set (map sf_meaning (sv_findings v)))
        then Some ''Verdict does not follow from its findings''
      else if sv_verdict v = Review_Passed then
        (if (case sv_integrity v of None \<Rightarrow> True | Some i \<Rightarrow> \<not> specification_intact i)
           then Some ''A passed verdict requires an intact specification''
         else if \<not> {TARGETED_TESTS, FULL_TEST_SUITE} \<subseteq> set (map sr_purpose (filter clean_pass (sv_runs v)))
           then Some ''A passed verdict requires passing pristine targeted and full runs''
         else if \<not> list_ex (\<lambda>r. sr_tree r = VERIFICATION_TREE \<and> integrity_demonstrated r) (sv_runs v)
           then Some ''A passed verdict requires demonstrated runner integrity''
         else if sv_patch_sha256 v = None \<or> sv_head_sha v = None
           then Some ''A passed verdict must name the candidate it verified''
         else None)
      else None)"

definition verdict_fields_ok :: "sentinel_verdict \<Rightarrow> bool" where
  "verdict_fields_ok v \<longleftrightarrow> valid_commit_sha (sv_source_sha v) \<and> valid_sha256 (sv_lock_sha256 v)
     \<and> opt_ok valid_sha256 (sv_patch_sha256 v) \<and> opt_ok valid_commit_sha (sv_head_sha v) \<and> bounded_text (sv_summary v)
     \<and> bounded 0 1000 (sv_findings v) \<and> list_all sentinel_finding_ok (sv_findings v) \<and> opt_ok integrity_ok (sv_integrity v)
     \<and> bounded 0 20 (sv_runs v) \<and> list_all run_ok (sv_runs v)"

definition sentinel_verdict_ok :: "sentinel_verdict \<Rightarrow> bool" where
  "sentinel_verdict_ok v \<longleftrightarrow> verdict_fields_ok v \<and> verdict_error v = None"

text \<open>\<open>to_atlas_review\<close>; the digest of the verdict is an argument, no value is the ValueError.\<close>

definition to_atlas_review :: "(sentinel_verdict \<Rightarrow> string) \<Rightarrow> sentinel_verdict \<Rightarrow> artifact_reference \<Rightarrow> review_result option" where
  "to_atlas_review digest v e =
     (if artifact_sha256 e \<noteq> digest v then None
      else Some \<lparr>review_id = sv_review_id v, reviewer_of_review = ''sentinelqa.reviewer'', review_verdict = sv_verdict v,
        review_summary = sv_summary v, review_evidence = [e], review_created_at = sv_completed_at v\<rparr>)"

end
