(* ===== verification/SentinelText.thy ===== *)
theory SentinelText
  imports SentinelModels EngineerTrust
begin

text \<open>
  What SentinelQA reads from text: the last summary line of the test runner (\<open>sentinelqa/pytest_summary.py\<close>), added
  lines that reach into the test harness (\<open>sentinelqa/tamper.py\<close>) and the text of the runner canary
  (\<open>sentinelqa/canary.py\<close>). The patterns of the summary are recursive functions; those of the tamper scan stay patterns
  of Python's \<open>re\<close>, searched by an argument. \<open>digit\<close> gives the value of a character that \<open>\d\<close> matches, as \<open>int\<close> reads it.
\<close>

section \<open>Whitespace\<close>

text \<open>\<open>str.isspace\<close>, which is also what \<open>\s\<close> matches, and \<open>str.strip\<close>.\<close>

definition py_space :: "nat \<Rightarrow> bool" where
  "py_space c \<longleftrightarrow> 9 \<le> c \<and> c \<le> 13 \<or> 28 \<le> c \<and> c \<le> 32 \<or> 8192 \<le> c \<and> c \<le> 8202
     \<or> c \<in> {133, 160, 5760, 8232, 8233, 8239, 8287, 12288}"

definition strip_of :: "(nat \<Rightarrow> bool) \<Rightarrow> ustr \<Rightarrow> ustr" where
  "strip_of P s = rev (dropWhile P (rev (dropWhile P s)))"

definition py_strip :: "ustr \<Rightarrow> ustr" where
  "py_strip = strip_of py_space"

section \<open>The summary line\<close>

text \<open>The text after \<open>\d+(?:\.\d+)?s\<close>, if it starts there.\<close>

definition after_digits :: "(nat \<Rightarrow> nat option) \<Rightarrow> ustr \<Rightarrow> ustr option" where
  "after_digits digit s = (if s = [] \<or> digit (hd s) = None then None else Some (dropWhile (\<lambda>c. digit c \<noteq> None) s))"

definition after_char :: "nat \<Rightarrow> ustr \<Rightarrow> ustr option" where
  "after_char c s = (case s of [] \<Rightarrow> None | d # ds \<Rightarrow> if d = c then Some ds else None)"

definition after_spaces :: "ustr \<Rightarrow> ustr option" where
  "after_spaces s = (if s = [] \<or> \<not> py_space (hd s) then None else Some (dropWhile py_space s))"

definition after_word :: "string \<Rightarrow> ustr \<Rightarrow> ustr option" where
  "after_word w s = (if starts_with (lit w) s then Some (drop (length w) s) else None)"

definition after_seconds :: "(nat \<Rightarrow> nat option) \<Rightarrow> ustr \<Rightarrow> ustr option" where
  "after_seconds digit s = Option.bind (after_digits digit s) (\<lambda>t.
     case after_char 46 t of
       None \<Rightarrow> after_char 115 t
     | Some u \<Rightarrow> Option.bind (after_digits digit u) (after_char 115))"

text \<open>\<open>\s+in\s+\d+(?:\.\d+)?s\<close> at the start.\<close>

definition after_duration :: "(nat \<Rightarrow> nat option) \<Rightarrow> ustr \<Rightarrow> ustr option" where
  "after_duration digit s = Option.bind (after_spaces s) (\<lambda>t. Option.bind (after_word ''in'' t) (\<lambda>u.
     Option.bind (after_spaces u) (after_seconds digit)))"

text \<open>\<open>(?:\s+\([^)]*\))?$\<close>.\<close>

definition parenthesised_end :: "ustr \<Rightarrow> bool" where
  "parenthesised_end s \<longleftrightarrow> s = [] \<or> (case after_spaces s of
     None \<Rightarrow> False
   | Some t \<Rightarrow> (case after_char 40 t of None \<Rightarrow> False | Some u \<Rightarrow> dropWhile (\<lambda>c. c \<noteq> 41) u = [41]))"

definition duration_suffix :: "(nat \<Rightarrow> nat option) \<Rightarrow> ustr \<Rightarrow> bool" where
  "duration_suffix digit s = (case after_duration digit s of None \<Rightarrow> False | Some t \<Rightarrow> parenthesised_end t)"

text \<open>\<open>_DURATION.sub\<close>: the leftmost match that reaches the end is cut off.\<close>

fun cut_duration :: "(nat \<Rightarrow> nat option) \<Rightarrow> ustr \<Rightarrow> ustr" where
  "cut_duration digit [] = []"
| "cut_duration digit (c # cs) = (if duration_suffix digit (c # cs) then [] else c # cut_duration digit cs)"

definition no_tests_line :: "(nat \<Rightarrow> nat option) \<Rightarrow> ustr \<Rightarrow> bool" where
  "no_tests_line digit s = (case after_word ''no tests ran'' s of
     None \<Rightarrow> False
   | Some t \<Rightarrow> t = [] \<or> after_duration digit t = Some [])"

text \<open>\<open>line.split(", ")\<close>.\<close>

fun split_comma :: "ustr \<Rightarrow> ustr \<Rightarrow> ustr list" where
  "split_comma cur [] = [rev cur]"
| "split_comma cur (c # cs) =
     (if c = 44 \<and> cs \<noteq> [] \<and> hd cs = 32 then rev cur # split_comma [] (tl cs) else split_comma (c # cur) cs)"

datatype count_field =
  F_PASSED | F_FAILED | F_ERRORS | F_SKIPPED | F_XFAILED | F_XPASSED | F_DESELECTED | F_WARNINGS

text \<open>\<open>_FIELD\<close>, with the alternatives of \<open>_TOKEN\<close>.\<close>

definition field_words :: "(string \<times> count_field) list" where
  "field_words = [(''passed'', F_PASSED), (''failed'', F_FAILED), (''error'', F_ERRORS), (''errors'', F_ERRORS),
     (''skipped'', F_SKIPPED), (''xfailed'', F_XFAILED), (''xpassed'', F_XPASSED), (''deselected'', F_DESELECTED),
     (''warning'', F_WARNINGS), (''warnings'', F_WARNINGS)]"

definition field_of :: "ustr \<Rightarrow> count_field option" where
  "field_of s = map_option snd (find (\<lambda>(w, f). lit w = s) field_words)"

text \<open>The value that \<open>int\<close> reads.\<close>

definition digits_value :: "(nat \<Rightarrow> nat option) \<Rightarrow> ustr \<Rightarrow> nat" where
  "digits_value digit s = foldl (\<lambda>n c. 10 * n + (case digit c of None \<Rightarrow> 0 | Some d \<Rightarrow> d)) 0 s"

definition parse_token :: "(nat \<Rightarrow> nat option) \<Rightarrow> ustr \<Rightarrow> (count_field \<times> nat) option" where
  "parse_token digit s =
     Option.bind (after_digits digit s) (\<lambda>t. Option.bind (after_char 32 t) (\<lambda>u.
     map_option (\<lambda>f. (f, digits_value digit (takeWhile (\<lambda>c. digit c \<noteq> None) s))) (field_of u)))"

fun parse_tokens :: "(nat \<Rightarrow> nat option) \<Rightarrow> ustr list \<Rightarrow> (count_field \<times> nat) list \<Rightarrow> (count_field \<times> nat) list option" where
  "parse_tokens digit [] values = Some values"
| "parse_tokens digit (token # tokens) values = (case parse_token digit (py_strip token) of
     None \<Rightarrow> None
   | Some (f, n) \<Rightarrow> if f \<in> set (map fst values) then None else parse_tokens digit tokens (values @ [(f, n)]))"

definition counted_as :: "(count_field \<times> nat) list \<Rightarrow> count_field \<Rightarrow> nat" where
  "counted_as values f = (case map_of values f of None \<Rightarrow> 0 | Some n \<Rightarrow> n)"

definition counts_of :: "(count_field \<times> nat) list \<Rightarrow> specification_counts" where
  "counts_of vs = \<lparr>ct_passed = counted_as vs F_PASSED, ct_failed = counted_as vs F_FAILED, ct_errors = counted_as vs F_ERRORS,
     ct_skipped = counted_as vs F_SKIPPED, ct_xfailed = counted_as vs F_XFAILED, ct_xpassed = counted_as vs F_XPASSED,
     ct_deselected = counted_as vs F_DESELECTED, ct_warnings = counted_as vs F_WARNINGS\<rparr>"

definition parse_summary_line :: "(nat \<Rightarrow> nat option) \<Rightarrow> ustr \<Rightarrow> specification_counts option" where
  "parse_summary_line digit line = (case parse_tokens digit (split_comma [] line) [] of
     None \<Rightarrow> None
   | Some values \<Rightarrow> if values = [] \<or> set (map fst values) = {F_WARNINGS} then None else Some (counts_of values))"

fun summary_of_lines :: "(nat \<Rightarrow> nat option) \<Rightarrow> ustr list \<Rightarrow> specification_counts option" where
  "summary_of_lines digit [] = None"
| "summary_of_lines digit (raw # raws) =
     (let line = py_strip (strip_of (\<lambda>c. c = 61) (py_strip raw)) in
      if line = [] then summary_of_lines digit raws
      else let cut = cut_duration digit line in
        if no_tests_line digit cut then Some no_counts
        else (case parse_summary_line digit cut of Some c \<Rightarrow> Some c | None \<Rightarrow> summary_of_lines digit raws))"

text \<open>\<open>parse_pytest_summary\<close> of the decoded output: the last 200 lines from the last one back.\<close>

definition parse_pytest_summary :: "(nat \<Rightarrow> nat option) \<Rightarrow> ustr \<Rightarrow> specification_counts option" where
  "parse_pytest_summary digit text = summary_of_lines digit (take 200 (rev (splitlines text)))"

text \<open>\<open>canary._format_summary\<close>.\<close>

definition count_parts :: "specification_counts \<Rightarrow> (nat \<times> string) list" where
  "count_parts c = filter (\<lambda>(n, w). n \<noteq> 0) [(ct_failed c, ''failed''), (ct_passed c, ''passed''), (ct_skipped c, ''skipped''),
     (ct_deselected c, ''deselected''), (ct_xfailed c, ''xfailed''), (ct_xpassed c, ''xpassed''), (ct_errors c, ''error'')]"

definition format_summary :: "specification_counts \<Rightarrow> string" where
  "format_summary c = join_with '', '' (map (\<lambda>(n, w). nat_str n @ '' '' @ w) (count_parts c)) @ '' in 0.01s''"

section \<open>Harness tampering\<close>

definition harness_patterns :: "(string \<times> string) list" where
  "harness_patterns =
     [(''imports_test_harness'', rx ''^~s*(?:import|from)~s+(?:pytest|_pytest|pluggy|unittest)~b''),
      (''edits_sys_modules'', rx ''~bsys~.modules~s*(?:~[|~.(?:pop|update|setdefault|clear)~b)''),
      (''replaces_import'', rx ''~b(?:builtins~.)?__import__~s*=|~bbuiltins~.__import__~b''),
      (''registers_pytest_plugin'', rx ''~bpytest_plugins~b|~bpytest_(?:configure|collection|runtest)''),
      (''reads_pytest_environment'', rx ''~bPYTEST_(?:ADDOPTS|PLUGINS|DISABLE_PLUGIN_AUTOLOAD|CURRENT_TEST)~b''),
      (''hooks_assertion_rewriting'', rx ''~bassertion~.rewrite~b|~bAssertionRewritingHook~b''),
      (''installs_tracer'', rx ''~bsys~.(?:settrace|setprofile|addaudithook)~s*~(''),
      (''rebinds_excepthook'', rx ''~bsys~.excepthook~s*='')]"

definition max_tamper_findings :: nat where "max_tamper_findings = 20"

text \<open>\<open>seen\<close> is the set of path and pattern of the findings; the third part of a finding is its detail.\<close>

type_synonym tamper_finding = "ustr \<times> string \<times> ustr"

definition remove_prefix :: "ustr \<Rightarrow> ustr \<Rightarrow> ustr" where
  "remove_prefix p s = (if starts_with p s then drop (length p) s else s)"

definition target_of :: "ustr \<Rightarrow> ustr option" where
  "target_of raw = (let target = py_strip (drop 4 raw) in
     if target = lit ''/dev/null'' then None else Some (remove_prefix (lit ''b/'') target))"

text \<open>The patterns on one added line; the second part says that the limit was reached.\<close>

fun tamper_patterns ::
  "(string \<Rightarrow> ustr \<Rightarrow> bool) \<Rightarrow> ustr \<Rightarrow> ustr \<Rightarrow> (string \<times> string) list \<Rightarrow> tamper_finding list \<Rightarrow> tamper_finding list \<times> bool" where
  "tamper_patterns search path line [] fs = (fs, False)"
| "tamper_patterns search path line ((name, pattern) # ps) fs =
     (if search pattern line \<and> (path, name) \<notin> set (map (\<lambda>(p, n, d). (p, n)) fs)
      then (let fs' = fs @ [(path, name, take 160 (py_strip line))] in
            if length fs' \<ge> max_tamper_findings then (fs', True) else tamper_patterns search path line ps fs')
      else tamper_patterns search path line ps fs)"

fun tamper_lines ::
  "(string \<Rightarrow> ustr \<Rightarrow> bool) \<Rightarrow> (ustr \<Rightarrow> bool) \<Rightarrow> ustr option \<Rightarrow> ustr list \<Rightarrow> tamper_finding list \<Rightarrow> tamper_finding list" where
  "tamper_lines search spec current [] fs = fs"
| "tamper_lines search spec current (raw # raws) fs =
     (if starts_with (lit ''+++ '') raw then tamper_lines search spec (target_of raw) raws fs
      else if starts_with (lit ''--- '') raw \<or> starts_with (lit ''diff --git'') raw then tamper_lines search spec current raws fs
      else (case current of
          None \<Rightarrow> tamper_lines search spec current raws fs
        | Some path \<Rightarrow>
            if \<not> starts_with [43] raw \<or> spec path then tamper_lines search spec current raws fs
            else (case tamper_patterns search path (tl raw) harness_patterns fs of
                (fs', True) \<Rightarrow> fs'
              | (fs', False) \<Rightarrow> tamper_lines search spec current raws fs')))"

definition harness_tampering_lines ::
  "(string \<Rightarrow> ustr \<Rightarrow> bool) \<Rightarrow> (ustr \<Rightarrow> bool) \<Rightarrow> ustr \<Rightarrow> tamper_finding list" where
  "harness_tampering_lines search spec patch = tamper_lines search spec None (splitlines patch) []"

definition tamper_detail :: "tamper_finding \<Rightarrow> ustr" where
  "tamper_detail f = (case f of (path, name, line) \<Rightarrow> lit name @ lit '': '' @ line)"

section \<open>The runner canary\<close>

record runner_canary =
  ca_directory :: ustr
  ca_token :: string

text \<open>\<open>__post_init__\<close>.\<close>

definition canary_ok :: "runner_canary \<Rightarrow> bool" where
  "canary_ok c \<longleftrightarrow> length (ca_token c) = 16 \<and> list_all is_lower_hex (ca_token c)
     \<and> filter (\<lambda>p. p \<noteq> [] \<and> p \<noteq> [46]) (split_on 47 (ca_directory c)) \<noteq> [] \<and> [46, 46] \<notin> set (split_on 47 (ca_directory c))
     \<and> \<not> starts_with [47] (ca_directory c)"

definition canary_function :: "runner_canary \<Rightarrow> string" where
  "canary_function c = ''test_sentinelqa_canary_'' @ ca_token c"

definition canary_path :: "runner_canary \<Rightarrow> ustr" where
  "canary_path c = ca_directory c @ [47] @ lit (canary_function c) @ lit ''.py''"

definition newline :: string where "newline = [CHR 0x0A]"
definition quotes :: string where "quotes = [CHR 0x22, CHR 0x22, CHR 0x22]"

definition canary_content :: "runner_canary \<Rightarrow> string" where
  "canary_content c =
     quotes @ ''SentinelQA runner-integrity canary, planted for one review and removed '' @ ''afterwards.'' @ newline @ newline
     @ ''This test must fail. A runner that reports it as anything but '' @ ''failed cannot be'' @ newline
     @ ''trusted to report the specification'' @ [CHR 0x27] @ ''s failures either.'' @ newline @ quotes @ newline @ newline @ newline
     @ ''def '' @ canary_function c @ ''() -> None:'' @ newline
     @ ''    raise AssertionError('' @ [CHR 0x22] @ ''SentinelQA runner-integrity canary: this failure is expected'' @ [CHR 0x22]
     @ '')'' @ newline"

text \<open>The node that a line of the short summary reports as failed.\<close>

definition failed_node :: "ustr \<Rightarrow> ustr option" where
  "failed_node line =
     (case after_word ''FAILED '' line of
        None \<Rightarrow> None
      | Some t \<Rightarrow>
          let node = takeWhile (\<lambda>c. \<not> py_space c) t; rest = dropWhile (\<lambda>c. \<not> py_space c) t in
          if node \<noteq> [] \<and> (rest = [] \<or> starts_with (lit '' - '') rest) then Some node else None)"

definition canary_node :: "runner_canary \<Rightarrow> ustr" where
  "canary_node c = canary_path c @ lit ''::'' @ lit (canary_function c)"

definition reported_failed :: "runner_canary \<Rightarrow> ustr \<Rightarrow> bool" where
  "reported_failed c out \<longleftrightarrow> list_ex (\<lambda>raw. case failed_node (py_strip raw) of
       None \<Rightarrow> False
     | Some node \<Rightarrow> node = canary_node c \<or> ends_with (47 # canary_node c) node) (rev (take 2000 (rev (splitlines out))))"

text \<open>The directories of the locked test modules, with how often each occurs, in the order of the lock.\<close>

definition test_module :: "ustr \<Rightarrow> bool" where
  "test_module name \<longleftrightarrow> ends_with (lit ''.py'') name \<and> (starts_with (lit ''test_'') name \<or> ends_with (lit ''_test.py'') name)"

definition module_directories :: "specification_lock \<Rightarrow> ustr list" where
  "module_directories k = map (\<lambda>e. join_with [47] (butlast (split_on 47 (en_path e))))
     (filter (\<lambda>e. en_kind e = SPEC_TEST \<and> test_module (last (split_on 47 (en_path e))) \<and> length (split_on 47 (en_path e)) \<ge> 2) (lk_entries k))"

text \<open>\<open>min\<close> by descending count, then by name; no canary when no module shows where to put it.\<close>

definition canary_directory :: "ustr list \<Rightarrow> ustr option" where
  "canary_directory ds = (case sort_key (\<lambda>d. - int (count_list ds d)) (sort (remdups ds)) of [] \<Rightarrow> None | d # _ \<Rightarrow> Some d)"

definition review_canary :: "(string \<Rightarrow> string) \<Rightarrow> uuid \<Rightarrow> specification_lock \<Rightarrow> runner_canary option" where
  "review_canary hash review k =
     map_option (\<lambda>d. \<lparr>ca_directory = d, ca_token = take 16 (hash (''sentinelqa-runner-canary:'' @ uuid_str review))\<rparr>)
       (canary_directory (module_directories k))"

end
