(* ===== verification/SentinelTree.thy ===== *)
theory SentinelTree
  imports SentinelText
begin

text \<open>
  The trees that SentinelQA builds and how it reads and changes them (\<open>sentinelqa/lock.py\<close>, the file operations of
  \<open>canary.py\<close>) and the runner of operator commands (\<open>sentinelqa/executor.py\<close>). A tree maps repository paths to files,
  links and folders; Git, the sandbox, the clock and what lies behind a symbolic link are operations of a world.
  Reading SentinelQA's own trees does not fail; sockets and devices are left out.
\<close>

section \<open>The world\<close>

text \<open>A link knows whether it resolves to a folder.\<close>

datatype sq_node = Regular_Node string bool | Link_Node string bool | Folder_Node

type_synonym sq_tree = "(ustr \<times> sq_node) list"

text \<open>
  What is raised: SpecificationExecutionError, SentinelReferenceError, SpecificationLockError, CanaryError, or by the name
  of its class a SandboxError, a GitCommandError, another WorkspaceError, an OSError or any other exception.
\<close>

datatype sq_exn =
  Sq_Execution | Sq_Reference | Sq_Lock | Sq_Canary
| Sq_Sandbox string | Sq_Git string | Sq_Workspace string | Sq_Os string | Sq_Other string

definition exn_name :: "sq_exn \<Rightarrow> string" where
  "exn_name e = (case e of Sq_Execution \<Rightarrow> ''SpecificationExecutionError'' | Sq_Reference \<Rightarrow> ''SentinelReferenceError''
     | Sq_Lock \<Rightarrow> ''SpecificationLockError'' | Sq_Canary \<Rightarrow> ''CanaryError'' | Sq_Sandbox n \<Rightarrow> n | Sq_Git n \<Rightarrow> n
     | Sq_Workspace n \<Rightarrow> n | Sq_Os n \<Rightarrow> n | Sq_Other n \<Rightarrow> n)"

datatype linked_operation = Linked_Remove | Linked_Write string bool

record 'w sq_env = env +
  sq_casefold :: "ustr \<Rightarrow> ustr"
  sq_decode :: "string \<Rightarrow> ustr option"
  sq_decode_replace :: "string \<Rightarrow> ustr"
  sq_digit :: "nat \<Rightarrow> nat option"
  sq_integer :: "string \<Rightarrow> int option"
  sq_search :: "string \<Rightarrow> ustr \<Rightarrow> bool"
  sq_now :: "'w \<Rightarrow> timestamp \<times> 'w"
  sq_git :: "ustr \<Rightarrow> ustr list \<Rightarrow> sq_tree \<Rightarrow> 'w \<Rightarrow> (sq_exn + string) \<times> sq_tree \<times> 'w"
  sq_bare_git :: "ustr \<Rightarrow> ustr list \<Rightarrow> 'w \<Rightarrow> (sq_exn + string) \<times> 'w"
  sq_folders :: "ustr \<Rightarrow> 'w \<Rightarrow> (sq_exn + unit) \<times> 'w"
  sq_save_patch :: "string \<Rightarrow> 'w \<Rightarrow> (sq_exn + unit) \<times> 'w"
  sq_artifact :: "artifact_reference \<Rightarrow> 'w \<Rightarrow> (sq_exn + string) \<times> 'w"
  sq_sandbox :: "uuid \<Rightarrow> uuid \<Rightarrow> sandbox_command \<Rightarrow> sandbox_policy \<Rightarrow> sq_tree \<Rightarrow> 'w \<Rightarrow> (sq_exn + sandbox_execution) \<times> sq_tree \<times> 'w"
  sq_linked :: "linked_operation \<Rightarrow> ustr \<Rightarrow> sq_tree \<Rightarrow> 'w \<Rightarrow> (sq_exn + unit) \<times> sq_tree \<times> 'w"

section \<open>Paths in a tree\<close>

definition tree_get :: "sq_tree \<Rightarrow> ustr \<Rightarrow> sq_node option" where
  "tree_get t p = map_of t p"

definition tree_delete :: "ustr \<Rightarrow> sq_tree \<Rightarrow> sq_tree" where
  "tree_delete p t = filter (\<lambda>(q, n). q \<noteq> p) t"

definition tree_set :: "ustr \<Rightarrow> sq_node \<Rightarrow> sq_tree \<Rightarrow> sq_tree" where
  "tree_set p n t = (p, n) # tree_delete p t"

text \<open>The proper ancestors of a path, outermost first.\<close>

definition ancestors :: "ustr \<Rightarrow> ustr list" where
  "ancestors p = (let parts = split_on 47 p in map (\<lambda>n. join_with [47] (take (Suc n) parts)) [0 ..< length parts - 1])"

definition is_link :: "sq_tree \<Rightarrow> ustr \<Rightarrow> bool" where
  "is_link t p = (case tree_get t p of Some (Link_Node target folder) \<Rightarrow> True | _ \<Rightarrow> False)"

definition is_folder :: "sq_tree \<Rightarrow> ustr \<Rightarrow> bool" where
  "is_folder t p \<longleftrightarrow> tree_get t p = Some Folder_Node"

definition through_link :: "sq_tree \<Rightarrow> ustr \<Rightarrow> bool" where
  "through_link t p \<longleftrightarrow> list_ex (is_link t) (ancestors p)"

section \<open>\<open>inspect_file\<close>\<close>

datatype file_state = File_Absent | File_Irregular | File_Regular string bool

definition inspect_file :: "sq_tree \<Rightarrow> ustr \<Rightarrow> file_state" where
  "inspect_file t p =
     (if through_link t p \<or> is_link t p then File_Irregular
      else (case tree_get t p of
          None \<Rightarrow> File_Absent
        | Some (Regular_Node content x) \<Rightarrow> File_Regular content x
        | Some _ \<Rightarrow> File_Irregular))"

section \<open>\<open>walk_tree\<close>\<close>

definition ignored_directories :: "ustr list" where
  "ignored_directories = map lit [''.mypy_cache'', ''.pytest_cache'', ''.ruff_cache'', ''__pycache__'', ''.git'']"

text \<open>
  \<open>os.walk\<close> does not enter ignored directories; compiled files are skipped unless they are links to directories, which
  are listed separately. A record is path, mode and content or link target.
\<close>

definition entered :: "ustr \<Rightarrow> bool" where
  "entered p \<longleftrightarrow> list_all (\<lambda>part. part \<notin> set ignored_directories) (butlast (split_on 47 p))"

definition compiled :: "ustr \<Rightarrow> bool" where
  "compiled p \<longleftrightarrow> ends_with (lit ''.pyc'') p \<or> ends_with (lit ''.pyo'') p"

definition walk_record :: "ustr \<times> sq_node \<Rightarrow> (ustr \<times> string \<times> string) option" where
  "walk_record f = (case f of
     (p, Regular_Node content x) \<Rightarrow> if entered p \<and> \<not> compiled p then Some (p, mode_text x, content) else None
   | (p, Link_Node target folder) \<Rightarrow> if entered p \<and> (folder \<or> \<not> compiled p) then Some (p, ''120000'', target) else None
   | (p, Folder_Node) \<Rightarrow> None)"

text \<open>
  The place of an entry in the walk: within a directory first its files and links to files, then its links to
  directories, then its subdirectories in order of their names.
\<close>

definition walk_key :: "ustr \<times> sq_node \<Rightarrow> nat list list" where
  "walk_key f = (case f of (p, n) \<Rightarrow>
     let parts = split_on 47 p; rank = (case n of Link_Node target True \<Rightarrow> 1 | _ \<Rightarrow> 0) in
     map (\<lambda>part. 2 # part) (butlast parts) @ [rank # last parts])"

definition max_tree_files :: nat where "max_tree_files = 200000"

text \<open>The bound is checked after each regular file.\<close>

definition too_many :: "(ustr \<times> string \<times> string) list \<Rightarrow> bool" where
  "too_many rs \<longleftrightarrow> list_ex (\<lambda>(p, m, c). m \<noteq> ''120000'') (drop max_tree_files rs)"

definition walk_tree :: "sq_tree \<Rightarrow> sq_exn + (ustr \<times> string \<times> string) list" where
  "walk_tree t = (let rs = List.map_filter walk_record (sort_key walk_key t) in
     if too_many rs then Inl Sq_Lock else Inr (sort_key fst rs))"

definition tree_json :: "(string \<Rightarrow> string) \<Rightarrow> (ustr \<times> string \<times> string) list \<Rightarrow> json" where
  "tree_json hash rs = obj [(''files'', JList (map (\<lambda>(p, m, c). obj [(''path'', JStr p), (''mode'', jstr m), (''sha256'', jstr (hash c))]) rs))]"

definition tree_sha256 :: "('a env_scheme) \<Rightarrow> sq_tree \<Rightarrow> sq_exn + string" where
  "tree_sha256 E t = rbind (walk_tree t) (\<lambda>rs. Inr (digest_of E (tree_json (env_sha256 E) rs)))"

section \<open>The specification in a tree\<close>

definition classify_specification_path :: "repository_profile \<Rightarrow> ustr list \<Rightarrow> ustr \<Rightarrow> specification_kind option" where
  "classify_specification_path p additional path =
     (if path_matches path (test_path_prefixes p) then Some SPEC_TEST
      else if is_evaluation_config_path path then Some SPEC_EVALUATION_CONFIG
      else if path_matches path additional then Some SPEC_OPERATOR
      else None)"

definition specification_files :: "repository_profile \<Rightarrow> ustr list \<Rightarrow> sq_tree \<Rightarrow> sq_exn + ustr list" where
  "specification_files p additional t = rbind (walk_tree t) (\<lambda>rs.
     Inr (filter (\<lambda>path. classify_specification_path p additional path \<noteq> None) (map fst rs)))"

text \<open>\<open>compare_tree_with_lock\<close>: modified, deleted and not regular, in the order of the lock.\<close>

definition entry_state :: "('a env_scheme) \<Rightarrow> sq_tree \<Rightarrow> specification_entry \<Rightarrow> file_state option" where
  "entry_state E t e = (case inspect_file t (en_path e) of
     File_Regular content x \<Rightarrow>
       if env_sha256 E content = en_sha256 e \<and> x = en_executable e then None else Some (File_Regular content x)
   | s \<Rightarrow> Some s)"

definition compare_tree ::
  "('a env_scheme) \<Rightarrow> specification_lock \<Rightarrow> sq_tree \<Rightarrow> ustr list \<times> ustr list \<times> ustr list" where
  "compare_tree E k t =
     (map en_path (filter (\<lambda>e. case entry_state E t e of Some (File_Regular c x) \<Rightarrow> True | _ \<Rightarrow> False) (lk_entries k)),
      map en_path (filter (\<lambda>e. entry_state E t e = Some File_Absent) (lk_entries k)),
      map en_path (filter (\<lambda>e. entry_state E t e = Some File_Irregular) (lk_entries k)))"

section \<open>Capturing a lock\<close>

definition max_specification_entries :: nat where "max_specification_entries = 5000"
definition max_specification_bytes :: nat where "max_specification_bytes = 50000000"

record tree_object =
  to_mode :: string
  to_type :: string
  to_name :: string
  to_path :: ustr

text \<open>\<open>bytes.split\<close> on whitespace of an ASCII text.\<close>

fun ascii_words :: "string \<Rightarrow> string \<Rightarrow> string list" where
  "ascii_words cur [] = (if cur = [] then [] else [rev cur])"
| "ascii_words cur (c # cs) = (if py_space (of_char c) then (if cur = [] then [] else [rev cur]) @ ascii_words [] cs
     else ascii_words (c # cur) cs)"

text \<open>One record of \<open>git ls-tree -l -z\<close>.\<close>

definition parse_tree_record :: "'w sq_env \<Rightarrow> string \<Rightarrow> sq_exn + tree_object" where
  "parse_tree_record E record_bytes =
     (let meta = takeWhile (\<lambda>c. c \<noteq> CHR 0x09) record_bytes; rest = dropWhile (\<lambda>c. c \<noteq> CHR 0x09) record_bytes in
      if rest = [] \<or> \<not> list_all (\<lambda>c. of_char c < (128 :: nat)) meta then Inl Sq_Lock
      else (case ascii_words [] meta of
          [mode, kind, name, bytes] \<Rightarrow>
            (case sq_decode E (tl rest) of
               None \<Rightarrow> Inl Sq_Lock
             | Some path \<Rightarrow> if bytes \<noteq> ''-'' \<and> sq_integer E bytes = None then Inl (Sq_Other ''ValueError'')
                 else Inr \<lparr>to_mode = mode, to_type = kind, to_name = name, to_path = path\<rparr>)
        | _ \<Rightarrow> Inl Sq_Lock))"

type_synonym 'w git_call = "ustr list \<Rightarrow> 'w \<Rightarrow> (sq_exn + string) \<times> 'w"

text \<open>The loop over the objects: entries and bytes so far.\<close>

fun capture_entries ::
  "'w sq_env \<Rightarrow> repository_profile \<Rightarrow> ustr list \<Rightarrow> 'w git_call \<Rightarrow> tree_object list \<Rightarrow> specification_entry list \<Rightarrow> nat \<Rightarrow> 'w
     \<Rightarrow> (sq_exn + specification_entry list) \<times> 'w" where
  "capture_entries E p additional git [] es used w = (Inr es, w)"
| "capture_entries E p additional git (x # xs) es used w =
     (case classify_specification_path p additional (to_path x) of
        None \<Rightarrow> capture_entries E p additional git xs es used w
      | Some kind \<Rightarrow>
          (case (if bounded 1 500 (to_path x) then repository_path (to_path x) else Inl '''') of
             Inl _ \<Rightarrow> (Inl Sq_Lock, w)
           | Inr path \<Rightarrow>
               if to_type x \<noteq> ''blob'' \<or> to_mode x \<notin> {''100644'', ''100755''} then (Inl Sq_Lock, w)
               else (case git [lit ''cat-file'', lit ''blob'', lit (to_name x)] w of
                   (Inl e, w') \<Rightarrow> (Inl e, w')
                 | (Inr content, w') \<Rightarrow>
                     if used + length content > max_specification_bytes then (Inl Sq_Lock, w')
                     else let es' = es @ [\<lparr>en_path = path, en_kind = kind, en_executable = (to_mode x = ''100755''),
                            en_sha256 = env_sha256 E content, en_size = length content\<rparr>] in
                       if length es' > max_specification_entries then (Inl Sq_Lock, w')
                       else capture_entries E p additional git xs es' (used + length content) w')))"

definition capture_lock ::
  "'w sq_env \<Rightarrow> repository_profile \<Rightarrow> ustr list \<Rightarrow> string \<Rightarrow> timestamp \<Rightarrow> 'w git_call \<Rightarrow> 'w
     \<Rightarrow> (sq_exn + specification_lock) \<times> 'w" where
  "capture_lock E p additional source_sha captured_at git w =
     (case git [lit ''rev-parse'', lit ''--verify'', lit (source_sha @ ''^{commit}'')] w of
        (Inl e, w1) \<Rightarrow> (Inl (case e of Sq_Git n \<Rightarrow> Sq_Lock | _ \<Rightarrow> e), w1)
      | (Inr head, w1) \<Rightarrow>
          if sq_decode E head = None then (Inl (Sq_Other ''UnicodeDecodeError''), w1)
          else if map_option py_strip (sq_decode E head) \<noteq> Some (lit source_sha) then (Inl Sq_Lock, w1)
          else (case git [lit ''ls-tree'', lit ''-r'', lit ''-l'', lit ''-z'', lit source_sha, lit ''--''] w1 of
              (Inl e, w2) \<Rightarrow> (Inl e, w2)
            | (Inr listing, w2) \<Rightarrow>
                (case map_results (parse_tree_record E) (filter (\<lambda>r. r \<noteq> []) (split_on (CHR 0x00) listing)) of
                   Inl e \<Rightarrow> (Inl e, w2)
                 | Inr xs \<Rightarrow>
                     (case capture_entries E p additional git xs [] 0 w2 of
                        (Inl e, w3) \<Rightarrow> (Inl e, w3)
                      | (Inr es, w3) \<Rightarrow>
                          let k = \<lparr>lk_url = profile_url p, lk_source_sha = source_sha, lk_profile_id = profile_id p,
                                lk_profile_sha256 = digest_of E (profile_json p),
                                lk_prefixes = test_path_prefixes p, lk_entries = sort_key en_path es, lk_captured_at = captured_at\<rparr> in
                          if lock_ok k then (Inr k, w3) else (Inl (Sq_Other ''ValidationError''), w3)))))"

end
