(* ===== verification/SentinelVerifier.thy ===== *)
theory SentinelVerifier
  imports SentinelTree
begin

text \<open>
  The verification of one candidate (\<open>sentinelqa/executor.py\<close>, class \<open>SpecificationRunner\<close>, and
  \<open>sentinelqa/verifier.py\<close>, class \<open>SentinelQAVerifier\<close>), stage by stage. A stage may stop the review, which still gives a
  verdict, or let an exception escape, which gives none.
\<close>

section \<open>State\<close>

record sq_config =
  sc_task :: engineering_task
  sc_profile :: repository_profile
  sc_lock :: specification_lock
  sc_review_id :: uuid
  sc_additional :: "ustr list"

record noted_finding =
  nf_code :: sentinel_code
  nf_detail :: ustr
  nf_path :: "ustr option"

record 'w sentinel =
  sq_world :: 'w
  sq_pristine :: sq_tree
  sq_candidate :: sq_tree
  sq_findings :: "noted_finding list"
  sq_runs :: "specification_run list"
  sq_integrity :: "specification_integrity option"
  sq_agree :: "bool option"

datatype sq_raise = Stop_Review | Escape sq_exn

type_synonym ('w, 'a) stage = "'w sentinel \<Rightarrow> (sq_raise + 'a) \<times> 'w sentinel"

definition stage_ret :: "'a \<Rightarrow> ('w, 'a) stage" where "stage_ret a = (\<lambda>s. (Inr a, s))"
definition stage_escape :: "sq_exn \<Rightarrow> ('w, 'a) stage" where "stage_escape e = (\<lambda>s. (Inl (Escape e), s))"

definition stage_bind :: "('w, 'a) stage \<Rightarrow> ('a \<Rightarrow> ('w, 'b) stage) \<Rightarrow> ('w, 'b) stage" where
  "stage_bind m f = (\<lambda>s. case m s of (Inl e, s') \<Rightarrow> (Inl e, s') | (Inr a, s') \<Rightarrow> f a s')"

definition stage_when :: "bool \<Rightarrow> ('w, unit) stage \<Rightarrow> ('w, unit) stage" where
  "stage_when c m = (if c then m else stage_ret ())"

definition note_finding :: "sentinel_code \<Rightarrow> ustr \<Rightarrow> ustr option \<Rightarrow> ('w, unit) stage" where
  "note_finding code detail path = (\<lambda>s. (Inr (), s\<lparr>sq_findings := sq_findings s @
     [\<lparr>nf_code = code, nf_detail = detail, nf_path = path\<rparr>]\<rparr>))"

text \<open>\<open>raise self._stop(...)\<close>.\<close>

definition stop_review :: "sentinel_code \<Rightarrow> ustr \<Rightarrow> ustr option \<Rightarrow> ('w, 'a) stage" where
  "stop_review code detail path = stage_bind (note_finding code detail path) (\<lambda>_ s. (Inl Stop_Review, s))"

definition stop_if_unverifiable :: "('w, unit) stage" where
  "stop_if_unverifiable = (\<lambda>s. (if list_ex (\<lambda>f. finding_meaning_of (nf_code f) = UNVERIFIABLE) (sq_findings s)
     then Inl Stop_Review else Inr (), s))"

fun stage_each :: "('a \<Rightarrow> ('w, unit) stage) \<Rightarrow> 'a list \<Rightarrow> ('w, unit) stage" where
  "stage_each f [] = stage_ret ()"
| "stage_each f (x # xs) = stage_bind (f x) (\<lambda>_. stage_each f xs)"

text \<open>A result of the world that may be an exception: it escapes.\<close>

definition stage_result :: "sq_exn + 'a \<Rightarrow> ('w, 'a) stage" where
  "stage_result r = (\<lambda>s. (case r of Inl e \<Rightarrow> Inl (Escape e) | Inr a \<Rightarrow> Inr a, s))"

text \<open>\<open>except <class> as exc: raise self._stop(...)\<close>.\<close>

definition stopping_on :: "(sq_exn \<Rightarrow> bool) \<Rightarrow> sentinel_code \<Rightarrow> (sq_exn \<Rightarrow> ustr) \<Rightarrow> ('w, 'a) stage \<Rightarrow> ('w, 'a) stage" where
  "stopping_on caught code detail m = (\<lambda>s. case m s of
     (Inl (Escape e), s') \<Rightarrow> if caught e then stop_review code (detail e) None s' else (Inl (Escape e), s')
   | r \<Rightarrow> r)"

section \<open>The runner\<close>

fun run_status :: "sandbox_status \<Rightarrow> execution_status" where
  "run_status SANDBOX_SUCCEEDED = EXEC_PASSED"
| "run_status SANDBOX_FAILED_RUN = EXEC_FAILED"
| "run_status SANDBOX_TIMED_OUT = EXEC_TIMED_OUT"
| "run_status SANDBOX_OUTPUT_LIMIT = EXEC_ERROR"
| "run_status SANDBOX_BROKEN = EXEC_ERROR"

definition plant_canary :: "runner_canary \<Rightarrow> sq_tree \<Rightarrow> sq_exn + sq_tree" where
  "plant_canary c t =
     (if \<not> list_all (is_folder t) (ancestors (canary_path c)) then Inl Sq_Canary
      else if tree_get t (canary_path c) \<noteq> None then Inl Sq_Canary
      else Inr (tree_set (canary_path c) (Regular_Node (canary_content c) False) t))"

text \<open>Unlinking what is a file or a link; through a link it happens where the link leads.\<close>

definition unlink_file :: "'w sq_env \<Rightarrow> ustr \<Rightarrow> sq_tree \<Rightarrow> 'w \<Rightarrow> (sq_exn + unit) \<times> sq_tree \<times> 'w" where
  "unlink_file E p t w =
     (if through_link t p then sq_linked E Linked_Remove p t w
      else (case tree_get t p of
          None \<Rightarrow> (Inr (), t, w)
        | Some Folder_Node \<Rightarrow> (Inr (), t, w)
        | Some _ \<Rightarrow> (Inr (), tree_delete p t, w)))"

definition run_namespace :: uuid where "run_namespace = 0x2c8a7d1e5b3f4e0a9c6d7f1e2a3b4c5d"

text \<open>The \<open>try\<close> body: the tree is fingerprinted, the sandbox runs, the tree is fingerprinted again.\<close>

definition fingerprinted_run ::
  "'w sq_env \<Rightarrow> sq_config \<Rightarrow> uuid \<Rightarrow> sandbox_command \<Rightarrow> sq_tree \<Rightarrow> 'w
     \<Rightarrow> (sq_exn + string \<times> timestamp \<times> sandbox_execution \<times> string) \<times> sq_tree \<times> 'w" where
  "fingerprinted_run E C call command t w =
     (case tree_sha256 E t of
        Inl e \<Rightarrow> (Inl e, t, w)
      | Inr first \<Rightarrow>
          (case sq_now E w of (started, w1) \<Rightarrow>
          (case sq_sandbox E (sc_review_id C) call command (profile_sandbox (sc_profile C)) t w1 of
             (Inl e, t2, w2) \<Rightarrow> (Inl (case e of Sq_Sandbox n \<Rightarrow> Sq_Execution | _ \<Rightarrow> e), t2, w2)
           | (Inr x, t2, w2) \<Rightarrow>
               (case tree_sha256 E t2 of
                  Inl e \<Rightarrow> (Inl e, t2, w2)
                | Inr final \<Rightarrow> (Inr (first, started, x, final), t2, w2)))))"

definition run_record ::
  "'w sq_env \<Rightarrow> sq_config \<Rightarrow> nat \<Rightarrow> specification_tree \<Rightarrow> check_kind \<Rightarrow> sandbox_command \<Rightarrow> runner_canary option
     \<Rightarrow> string \<Rightarrow> timestamp \<Rightarrow> sandbox_execution \<Rightarrow> string \<Rightarrow> timestamp \<Rightarrow> specification_run" where
  "run_record E C sequence tree purpose command canary first started x final now =
     (let status = run_status (sx_status x); conclusive = status \<in> {EXEC_PASSED, EXEC_FAILED};
          out = sq_decode_replace E (sx_stdout x) in
      \<lparr>sr_review_id = sc_review_id C, sr_sequence = sequence, sr_tree = tree, sr_purpose = purpose,
       sr_command_sha256 = digest_of E (command_json command),
       sr_policy_sha256 = digest_of E (sandbox_policy_json (profile_sandbox (sc_profile C))), sr_status = status,
       sr_exit_code = (if conclusive then sx_exit_code x else None),
       sr_counts = (if conclusive then parse_pytest_summary (sq_digit E) out else None), sr_before = first, sr_after = final,
       sr_stdout_sha256 = env_sha256 E (sx_stdout x), sr_stderr_sha256 = env_sha256 E (sx_stderr x),
       sr_truncated = sx_truncated x, sr_started_at = started,
       sr_completed_at = max started (max now (sx_completed_at x)),
       sr_canary = map_option (\<lambda>c. \<lparr>cr_path = canary_path c, cr_sha256 = env_sha256 E (canary_content c),
         cr_reported_failed = conclusive \<and> reported_failed c out\<rparr>) canary\<rparr>)"

definition tree_of :: "specification_tree \<Rightarrow> 'w sentinel \<Rightarrow> sq_tree" where
  "tree_of tree s = (case tree of PRISTINE_TREE \<Rightarrow> sq_pristine s | VERIFICATION_TREE \<Rightarrow> sq_candidate s)"

definition set_tree :: "specification_tree \<Rightarrow> sq_tree \<Rightarrow> 'w sentinel \<Rightarrow> 'w sentinel" where
  "set_tree tree t s = (case tree of PRISTINE_TREE \<Rightarrow> s\<lparr>sq_pristine := t\<rparr> | VERIFICATION_TREE \<Rightarrow> s\<lparr>sq_candidate := t\<rparr>)"

text \<open>\<open>SpecificationRunner.run\<close>. The canary is removed whatever happened; its removal's exception wins.\<close>

definition runner_run ::
  "'w sq_env \<Rightarrow> sq_config \<Rightarrow> specification_tree \<Rightarrow> check_kind \<Rightarrow> runner_canary option \<Rightarrow> ('w, specification_run) stage" where
  "runner_run E C tree purpose canary = (\<lambda>s.
     case profile_command (sc_profile C) purpose of
       None \<Rightarrow> (Inl (Escape Sq_Execution), s)
     | Some command \<Rightarrow>
         if canary \<noteq> None \<and> purpose \<noteq> FULL_TEST_SUITE then (Inl (Escape Sq_Execution), s)
         else let sequence = length (sq_runs s) + 1;
                call = env_uuid5 E run_namespace (uuid_str (sc_review_id C) @ '':'' @ nat_str sequence) in
         (case (case canary of None \<Rightarrow> Inr (tree_of tree s) | Some c \<Rightarrow> plant_canary c (tree_of tree s)) of
            Inl e \<Rightarrow> (Inl (Escape Sq_Execution), s)
          | Inr t \<Rightarrow>
              (case fingerprinted_run E C call command t (sq_world s) of
                 (x, t1, w1) \<Rightarrow>
                 (case (case canary of None \<Rightarrow> (Inr (), t1, w1) | Some c \<Rightarrow> unlink_file E (canary_path c) t1 w1) of
                    (Inl e, t2, w2) \<Rightarrow> (Inl (Escape e), set_tree tree t2 (s\<lparr>sq_world := w2\<rparr>))
                  | (Inr _, t2, w2) \<Rightarrow>
                      (case x of
                         Inl e \<Rightarrow> (Inl (Escape e), set_tree tree t2 (s\<lparr>sq_world := w2\<rparr>))
                       | Inr (first, started, ex, final) \<Rightarrow>
                           (case sq_now E w2 of (now, w3) \<Rightarrow>
                            let r = run_record E C sequence tree purpose command canary first started ex final now;
                                s' = set_tree tree t2 (s\<lparr>sq_world := w3\<rparr>) in
                            if run_ok r then (Inr r, s'\<lparr>sq_runs := sq_runs s' @ [r]\<rparr>)
                            else (Inl (Escape (Sq_Other ''ValidationError'')), s')))))))"

text \<open>Operations on one tree, and on the world alone, as stages.\<close>

definition on_tree :: "specification_tree \<Rightarrow> (sq_tree \<Rightarrow> 'w \<Rightarrow> (sq_exn + 'a) \<times> sq_tree \<times> 'w) \<Rightarrow> ('w, 'a) stage" where
  "on_tree tree f = (\<lambda>s. case f (tree_of tree s) (sq_world s) of (r, t, w) \<Rightarrow>
     (case r of Inl e \<Rightarrow> Inl (Escape e) | Inr a \<Rightarrow> Inr a, set_tree tree t (s\<lparr>sq_world := w\<rparr>)))"

definition on_world :: "('w \<Rightarrow> (sq_exn + 'a) \<times> 'w) \<Rightarrow> ('w, 'a) stage" where
  "on_world f = (\<lambda>s. case f (sq_world s) of (r, w) \<Rightarrow> (case r of Inl e \<Rightarrow> Inl (Escape e) | Inr a \<Rightarrow> Inr a, s\<lparr>sq_world := w\<rparr>))"

definition reading :: "('w sentinel \<Rightarrow> 'a) \<Rightarrow> ('w, 'a) stage" where
  "reading f = (\<lambda>s. (Inr (f s), s))"

section \<open>Identity and patch\<close>

text \<open>\<open>str.capitalize\<close> of an ASCII text.\<close>

definition capitalize :: "string \<Rightarrow> string" where
  "capitalize s = (case s of [] \<Rightarrow> []
     | c # cs \<Rightarrow> (if of_char c \<in> {97 .. (122 :: nat)} then char_of (of_char c - (32 :: nat)) else c) # map lower_char cs)"

definition problem_if :: "bool \<Rightarrow> string \<Rightarrow> string list" where
  "problem_if c p = (if c then [p] else [])"

definition identity_problems :: "'w sq_env \<Rightarrow> sq_config \<Rightarrow> pf_result \<Rightarrow> diff_summary \<Rightarrow> string list" where
  "identity_problems E C r d =
     (let t = sc_task C; k = sc_lock C; i = pr_identity r in
      problem_if (run_task_id i \<noteq> et_task_id t \<or> run_task_sha256 i \<noteq> digest_of E (engineering_task_json (env_iso E) t))
        ''the PatchForge run belongs to another task''
      @ problem_if (digest_of E (profile_json (sc_profile C)) \<noteq> et_profile_sha256 t)
        ''the operator profile does not match the task binding''
      @ problem_if (lk_profile_sha256 k \<noteq> et_profile_sha256 t \<or> lk_profile_id k \<noteq> et_profile_id t)
        ''the specification lock was captured under another profile''
      @ problem_if (lk_prefixes k \<noteq> test_path_prefixes (sc_profile C))
        ''the specification lock names different test prefixes''
      @ problem_if (url_text (lk_url k) \<noteq> url_text (repository_url (et_source t)))
        ''the specification lock names another repository''
      @ problem_if (lk_source_sha k \<noteq> commit_sha (et_source t))
        ''the specification lock was captured at another source commit''
      @ problem_if (ds_base_sha d \<noteq> commit_sha (et_source t) \<or> run_source i \<noteq> et_source t)
        (''the candidate is not rooted at the task'' @ [CHR 0x27] @ ''s source commit''))"

definition check_identity :: "'w sq_env \<Rightarrow> sq_config \<Rightarrow> pf_result \<Rightarrow> diff_summary \<Rightarrow> ('w, unit) stage" where
  "check_identity E C r d =
     stage_each (\<lambda>p. note_finding IDENTITY_MISMATCH (lit (capitalize p @ ''.'')) None) (identity_problems E C r d)"

text \<open>\<open>except Exception\<close> around the read.\<close>

definition read_patch :: "'w sq_env \<Rightarrow> diff_summary \<Rightarrow> ('w, string) stage" where
  "read_patch E d =
     stage_bind (stopping_on (\<lambda>e. True) EVIDENCE_INCOMPLETE
         (\<lambda>e. lit ''The patch artifact cannot be read: '' @ lit (exn_name e) @ lit ''.'') (on_world (sq_artifact E (ds_artifact d))))
       (\<lambda>patch. if env_sha256 E patch \<noteq> ds_sha256 d \<or> env_sha256 E patch \<noteq> artifact_sha256 (ds_artifact d)
          then stop_review EVIDENCE_INCOMPLETE (lit ''The patch artifact does not match the attested diff hash.'') None
        else if patch = [] then stop_review EVIDENCE_INCOMPLETE (lit ''The patch artifact is empty.'') None
        else stage_ret patch)"

section \<open>The two trees\<close>

definition tree_name :: "specification_tree \<Rightarrow> ustr" where
  "tree_name tree = (case tree of PRISTINE_TREE \<Rightarrow> lit ''pristine'' | VERIFICATION_TREE \<Rightarrow> lit ''candidate'')"

text \<open>\<open>_git\<close>; the name of the tree stands for the paths of its control directory and worktree.\<close>

definition git_in :: "'w sq_env \<Rightarrow> specification_tree \<Rightarrow> ustr list \<Rightarrow> ('w, string) stage" where
  "git_in E tree args = on_tree tree (sq_git E (tree_name tree)
     (map lit [''-c'', ''core.hooksPath=/dev/null'', ''-c'', ''core.autocrlf=false''] @ args))"

definition materialize :: "'w sq_env \<Rightarrow> string \<Rightarrow> specification_tree \<Rightarrow> ('w, unit) stage" where
  "materialize E base tree =
     stage_bind (on_world (sq_folders E (tree_name tree))) (\<lambda>_.
     stage_bind (on_world (sq_bare_git E (tree_name tree) (map lit [''clone'', ''--bare'', ''--no-hardlinks'', ''--no-tags'', ''--'']))) (\<lambda>_.
     stage_bind (git_in E tree [lit ''rev-parse'', lit ''--verify'', lit (base @ ''^{commit}'')]) (\<lambda>_.
     stage_bind (git_in E tree [lit ''checkout'', lit ''--force'', lit ''--detach'', lit base, lit ''--'']) (\<lambda>_.
     stage_bind (git_in E tree [lit ''rev-parse'', lit ''HEAD'']) (\<lambda>head.
     case sq_decode E head of
       None \<Rightarrow> stage_escape (Sq_Other ''UnicodeDecodeError'')
     | Some t \<Rightarrow> if py_strip t \<noteq> lit base then stage_escape Sq_Reference
         else stage_bind (reading (\<lambda>s. tree_get (tree_of tree s) (lit ''.git''))) (\<lambda>g.
           if g \<noteq> None then stage_escape Sq_Reference else stage_ret ()))))))"

definition reference_error :: "sq_exn \<Rightarrow> bool" where
  "reference_error e = (case e of Sq_Reference \<Rightarrow> True | Sq_Git n \<Rightarrow> True | Sq_Workspace n \<Rightarrow> True | Sq_Os n \<Rightarrow> True | _ \<Rightarrow> False)"

definition materialize_trees :: "'w sq_env \<Rightarrow> string \<Rightarrow> ('w, unit) stage" where
  "materialize_trees E base = stage_each (\<lambda>tree. stopping_on reference_error PRISTINE_REFERENCE_UNVERIFIABLE
       (\<lambda>e. lit ''The source commit could not be materialized: '' @ lit (exn_name e)) (materialize E base tree))
     [PRISTINE_TREE, VERIFICATION_TREE]"

definition capture_error :: "sq_exn \<Rightarrow> bool" where
  "capture_error e = (case e of Sq_Lock \<Rightarrow> True | Sq_Git n \<Rightarrow> True | Sq_Workspace n \<Rightarrow> True | _ \<Rightarrow> False)"

definition problem_finding :: "ustr list \<Rightarrow> ('w, unit) stage" where
  "problem_finding problems = (case problems of
     [] \<Rightarrow> stage_ret ()
   | p # ps \<Rightarrow> stop_review PRISTINE_REFERENCE_UNVERIFIABLE
       (lit ''The pristine source tree does not match the specification lock ('' @ lit (nat_str (length problems)) @ lit '' difference(s)).'')
       (if starts_with (lit ''<'') p then None else Some p))"

definition verify_pristine_reference :: "'w sq_env \<Rightarrow> sq_config \<Rightarrow> ('w, unit) stage" where
  "verify_pristine_reference E C =
     (let k = sc_lock C in
      stage_bind (reading (\<lambda>s. compare_tree E k (sq_pristine s))) (\<lambda>(modified, deleted, irregular).
      stage_bind (stopping_on capture_error PRISTINE_REFERENCE_UNVERIFIABLE
          (\<lambda>e. lit ''The specification could not be re-derived from the source commit: '' @ lit (exn_name e))
          (on_world (capture_lock E (sc_profile C) (sc_additional C) (lk_source_sha k) (lk_captured_at k)
             (sq_bare_git E (tree_name PRISTINE_TREE))))) (\<lambda>again.
      problem_finding (modified @ deleted @ irregular
        @ (if lk_entries again \<noteq> lk_entries k then [lit ''<lock entries differ from the source commit>''] else [])))))"

end
