(* ===== verification/SentinelReview.thy ===== *)
theory SentinelReview
  imports SentinelVerifier
begin

text \<open>
  The review itself (\<open>sentinelqa/verifier.py\<close>): the runs on the pristine tree, the patch and what it changes, the
  verification tree, the runs on it, the probe of the runner and the verdict.
\<close>

section \<open>Runs\<close>

definition verification_purposes :: "check_kind list" where
  "verification_purposes = [TARGETED_TESTS, FULL_TEST_SUITE]"

fun patch_outcome_value :: "patch_outcome \<Rightarrow> string" where
  "patch_outcome_value PATCH_PROPOSED = ''patch_proposed''"
| "patch_outcome_value PARTIAL = ''partial''"
| "patch_outcome_value ABORTED = ''aborted''"
| "patch_outcome_value CANCELLED_RUN = ''cancelled''"
| "patch_outcome_value SANDBOX_FAILED = ''sandbox_failed''"
| "patch_outcome_value POLICY_VIOLATION = ''policy_violation''"

fun execution_status_value :: "execution_status \<Rightarrow> string" where
  "execution_status_value EXEC_PASSED = ''passed''"
| "execution_status_value EXEC_FAILED = ''failed''"
| "execution_status_value EXEC_ERROR = ''error''"
| "execution_status_value EXEC_TIMED_OUT = ''timed_out''"

definition run_label :: "specification_tree \<Rightarrow> string \<Rightarrow> string \<Rightarrow> ustr" where
  "run_label tree purpose rest = lit (''The '' @ specification_tree_value tree @ '' '' @ purpose @ rest)"

definition execution_refused :: "sq_exn \<Rightarrow> bool" where "execution_refused e \<longleftrightarrow> e = Sq_Execution"

definition checked_run :: "'w sq_env \<Rightarrow> sq_config \<Rightarrow> specification_tree \<Rightarrow> check_kind \<Rightarrow> ('w, specification_run) stage" where
  "checked_run E C tree purpose =
     (let name = check_kind_value purpose in
      stage_bind (stopping_on execution_refused EXECUTOR_UNAVAILABLE
          (\<lambda>e. lit (''The '' @ name @ '' command could not be executed: '' @ exn_name e)) (runner_run E C tree purpose None)) (\<lambda>r.
      if sr_status r \<notin> {EXEC_PASSED, EXEC_FAILED}
        then stop_review EVIDENCE_INCOMPLETE (run_label tree name ('' run ended with '' @ execution_status_value (sr_status r) @ ''.'')) None
      else if sr_counts r = None \<and> purpose \<in> set verification_purposes
        then stop_review EVIDENCE_INCOMPLETE (run_label tree name '' run produced no parseable test summary.'') None
      else if sr_status r = EXEC_PASSED \<and> (case sr_counts r of None \<Rightarrow> False | Some k \<Rightarrow> ct_failed k \<noteq> 0 \<or> ct_errors k \<noteq> 0)
        then stop_review EVIDENCE_INCOMPLETE (run_label tree name
          '' run exited successfully although its summary reports failures.'') None
      else stage_ret r))"

type_synonym runs_by_purpose = "(check_kind \<times> specification_run) list"

fun baseline_loop :: "'w sq_env \<Rightarrow> sq_config \<Rightarrow> check_kind list \<Rightarrow> runs_by_purpose \<Rightarrow> ('w, runs_by_purpose) stage" where
  "baseline_loop E C [] done_runs = stage_ret done_runs"
| "baseline_loop E C (purpose # ps) done_runs =
     stage_bind (checked_run E C PRISTINE_TREE purpose) (\<lambda>r.
     if \<not> tree_unchanged r
       then stop_review EVIDENCE_INCOMPLETE (lit (''The pristine '' @ check_kind_value purpose @ '' run changed the tree it ran on.'')) None
     else stage_bind (stage_when (purpose = REPRODUCTION \<and> sr_status r = EXEC_PASSED)
         (note_finding REPRODUCTION_NOT_DEMONSTRATED (lit ''The reproduction command already passes on the pristine source tree.'') None))
       (\<lambda>_. baseline_loop E C ps (done_runs @ [(purpose, r)])))"

definition baseline_runs :: "'w sq_env \<Rightarrow> sq_config \<Rightarrow> ('w, runs_by_purpose) stage" where
  "baseline_runs E C =
     (let purposes = filter (\<lambda>p. profile_command (sc_profile C) p \<noteq> None) (REPRODUCTION # verification_purposes) in
      if \<not> set verification_purposes \<subseteq> set purposes
        then stop_review EVIDENCE_INCOMPLETE (lit ''The operator profile lacks a targeted or full-suite command to verify with.'') None
      else baseline_loop E C purposes [])"

section \<open>The candidate\<close>

definition git_refused :: "sq_exn \<Rightarrow> bool" where
  "git_refused e = (case e of Sq_Git n \<Rightarrow> True | _ \<Rightarrow> False)"

definition apply_patch_file :: "'w sq_env \<Rightarrow> string \<Rightarrow> ('w, unit) stage" where
  "apply_patch_file E patch =
     stage_bind (on_world (sq_save_patch E patch)) (\<lambda>_.
     stage_bind (stopping_on git_refused PATCH_APPLY_FAILED
         (\<lambda>e. lit ''The patch does not apply to its own base commit: '' @ lit (exn_name e))
         (git_in E VERIFICATION_TREE (map lit [''apply'', ''--binary'', ''--whitespace=nowarn'', ''--'', ''candidate.patch''])))
       (\<lambda>_. stage_ret ()))"

text \<open>\<open>_changed_files\<close>; the set is kept as its sorted list.\<close>

definition decoded_names :: "'w sq_env \<Rightarrow> string \<Rightarrow> sq_exn + ustr list" where
  "decoded_names E out = map_results (\<lambda>n. case sq_decode E n of None \<Rightarrow> Inl (Sq_Other ''UnicodeDecodeError'') | Some p \<Rightarrow> Inr p)
     (filter (\<lambda>n. n \<noteq> []) (split_on (CHR 0x00) out))"

definition candidate_changes :: "'w sq_env \<Rightarrow> ('w, ustr list) stage" where
  "candidate_changes E =
     stage_bind (git_in E VERIFICATION_TREE (map lit [''read-tree'', ''HEAD''])) (\<lambda>_.
     stage_bind (git_in E VERIFICATION_TREE (map lit [''add'', ''--intent-to-add'', ''--'', ''.''])) (\<lambda>_.
     stage_bind (git_in E VERIFICATION_TREE (map lit [''diff'', ''--name-only'', ''-z'', ''HEAD'', ''--''])) (\<lambda>out.
     stage_bind (stage_result (decoded_names E out)) (\<lambda>names. stage_ret (sort (remdups names))))))"

definition max_paths_per_finding :: nat where "max_paths_per_finding = 20"

definition check_recorded_changes :: "diff_summary \<Rightarrow> ustr list \<Rightarrow> ('w, unit) stage" where
  "check_recorded_changes d changed =
     (let recorded = sort (remdups (ds_changed_files d)) in
      stage_bind (stage_each (\<lambda>p. note_finding EVIDENCE_INCOMPLETE
            (lit ''The attested diff lists a change the applied patch does not make.'') (Some p))
          (take max_paths_per_finding (filter (\<lambda>p. p \<notin> set changed) recorded))) (\<lambda>_.
      stage_bind (stage_each (\<lambda>p. note_finding UNRECORDED_CHANGE
            (lit ''The applied patch changes a path the attested diff does not list.'') (Some p))
          (take max_paths_per_finding (filter (\<lambda>p. p \<notin> set recorded) changed))) (\<lambda>_.
      stop_if_unverifiable)))"

text \<open>\<open>_add_paths\<close>.\<close>

definition add_paths :: "sentinel_code \<Rightarrow> ustr list \<Rightarrow> string \<Rightarrow> ('w, unit) stage" where
  "add_paths code paths detail =
     stage_bind (stage_each (\<lambda>p. note_finding code (lit detail) (Some p)) (take max_paths_per_finding paths)) (\<lambda>_.
     stage_when (max_paths_per_finding < length paths)
       (note_finding code (lit (detail @ '' ('' @ nat_str (length paths - max_paths_per_finding) @ '' more path(s))'')) None))"

record inspection =
  is_modified :: "ustr list"
  is_deleted :: "ustr list"
  is_irregular :: "ustr list"
  is_added :: "ustr list"
  is_added_tests :: "ustr list"
  is_config :: "ustr list"

text \<open>What is compared, before anything is reported; \<open>by_path\<close> finds the entry of a locked path.\<close>

definition inspect_candidate ::
  "'w sq_env \<Rightarrow> sq_config \<Rightarrow> ustr list \<Rightarrow> ustr list \<Rightarrow> ustr list \<times> ustr list \<times> ustr list \<Rightarrow> inspection" where
  "inspect_candidate E C changed present differing =
     (case differing of (modified, deleted, irregular) \<Rightarrow>
      let k = sc_lock C; added = filter (\<lambda>p. p \<notin> set (locked_paths k)) present;
          test_file = (\<lambda>p. classify_specification_path (sc_profile C) (sc_additional C) p = Some SPEC_TEST);
          config = (\<lambda>p. map_option en_kind (entry_for k p) = Some SPEC_EVALUATION_CONFIG) in
      \<lparr>is_modified = modified, is_deleted = deleted, is_irregular = irregular, is_added = added,
       is_added_tests = filter test_file added,
       is_config = sort (remdups (filter is_evaluation_config_path changed @ filter config (modified @ deleted @ irregular)
         @ filter (\<lambda>p. \<not> test_file p) added))\<rparr>)"

definition inspection_integrity :: "sq_config \<Rightarrow> ustr list \<Rightarrow> inspection \<Rightarrow> specification_integrity" where
  "inspection_integrity C changed i =
     (let n = length (lk_entries (sc_lock C)) in
      \<lparr>si_locked = n,
       si_unchanged = int n - int (length (is_modified i)) - int (length (is_deleted i)) - int (length (is_irregular i)),
       si_modified = take 500 (is_modified i), si_deleted = take 500 (is_deleted i), si_not_regular = take 500 (is_irregular i),
       si_added_tests = take 500 (is_added_tests i), si_config_changes = take 500 (is_config i), si_restored = [],
       si_candidate_changes = take 1000 changed, si_verification_changes = []\<rparr>)"

definition report_integrity :: "'w sq_env \<Rightarrow> sq_config \<Rightarrow> ustr list \<Rightarrow> inspection \<Rightarrow> ('w, unit) stage" where
  "report_integrity E C changed i =
     (let other = filter (\<lambda>p. p \<notin> set (is_config i)) in
      stage_bind (add_paths SPECIFICATION_MODIFIED (other (is_modified i)) ''The candidate changes a locked specification file.'') (\<lambda>_.
      stage_bind (add_paths SPECIFICATION_DELETED (other (is_deleted i)) ''The candidate deletes a locked specification file.'') (\<lambda>_.
      stage_bind (add_paths SPECIFICATION_NOT_REGULAR_FILE (other (is_irregular i))
        ''The candidate replaces a locked specification file with a non-regular file.'') (\<lambda>_.
      stage_bind (add_paths EVALUATION_CONFIG_ALTERED (is_config i)
        ''The candidate adds, changes, or removes evaluation configuration.'') (\<lambda>_.
      stage_bind (add_paths PROTECTED_PATH_CHANGED (filter (\<lambda>p. path_matches p (protected_paths (sc_profile C))) changed)
        ''The candidate changes an operator-protected path.'') (\<lambda>_.
      stage_bind (add_paths SENSITIVE_PATH_CHANGED (filter (is_sensitive_path (sq_casefold E)) changed)
        ''The candidate changes a sensitive path.'') (\<lambda>_.
      case is_added_tests i of
        [] \<Rightarrow> stage_ret ()
      | p # ps \<Rightarrow> note_finding CANDIDATE_TESTS_EXCLUDED (lit (nat_str (length (p # ps))
          @ '' candidate-added test file(s) are excluded from verification; only the pristine specification is evidence.'')) (Some p))))))))"

definition set_integrity :: "specification_integrity \<Rightarrow> ('w, unit) stage" where
  "set_integrity i = (\<lambda>s. (Inr (), s\<lparr>sq_integrity := Some i\<rparr>))"

text \<open>\<open>_inspect_integrity\<close>: the integrity, what to restore and what to remove. The comparison is validated as it is built.\<close>

definition inspect_integrity ::
  "'w sq_env \<Rightarrow> sq_config \<Rightarrow> ustr list \<Rightarrow> ('w, specification_integrity \<times> ustr list \<times> ustr list) stage" where
  "inspect_integrity E C changed =
     stage_bind (reading (\<lambda>s. compare_tree E (sc_lock C) (sq_candidate s))) (\<lambda>differing.
     stage_bind (reading sq_candidate) (\<lambda>t.
     stage_bind (stage_result (specification_files (sc_profile C) (sc_additional C) t)) (\<lambda>present.
     let i = inspect_candidate E C changed present differing; g = inspection_integrity C changed i in
     stage_bind (report_integrity E C changed i) (\<lambda>_.
     if \<not> integrity_ok g then stage_escape (Sq_Other ''ValidationError'')
     else stage_bind (set_integrity g) (\<lambda>_.
       stage_ret (g, sort (remdups (is_modified i @ is_deleted i @ is_irregular i)), is_added i))))))"

text \<open>\<open>_check_harness_tampering\<close>; the patch is decoded with replacement.\<close>

definition is_specification :: "sq_config \<Rightarrow> ustr \<Rightarrow> bool" where
  "is_specification C p \<longleftrightarrow> is_evaluation_config_path p \<or> path_matches p (test_path_prefixes (sc_profile C))"

definition check_harness_tampering :: "'w sq_env \<Rightarrow> sq_config \<Rightarrow> string \<Rightarrow> ('w, unit) stage" where
  "check_harness_tampering E C patch =
     stage_each (\<lambda>f. note_finding HARNESS_TAMPERING
         (lit ''The candidate'' @ [39] @ lit ''s code reaches into the test harness ('' @ tamper_detail f @ lit '').'') (Some (fst f)))
       (harness_tampering_lines (sq_search E) (is_specification C) (sq_decode_replace E patch))"

section \<open>The verification tree\<close>

text \<open>\<open>_remove_path\<close>: like \<open>unlink_file\<close>, but a directory is refused.\<close>

definition remove_path :: "'w sq_env \<Rightarrow> ustr \<Rightarrow> sq_tree \<Rightarrow> 'w \<Rightarrow> (sq_exn + unit) \<times> sq_tree \<times> 'w" where
  "remove_path E p t w =
     (if \<not> through_link t p \<and> is_folder t p then (Inl Sq_Reference, t, w) else unlink_file E p t w)"

definition read_pristine :: "'w sq_env \<Rightarrow> ustr \<Rightarrow> string \<Rightarrow> sq_tree \<Rightarrow> sq_exn + string" where
  "read_pristine E p expected t = (case inspect_file t p of
     File_Regular content x \<Rightarrow> if env_sha256 E content = expected then Inr content else Inl Sq_Reference
   | _ \<Rightarrow> Inl Sq_Reference)"

text \<open>\<open>mkdir(parents=True)\<close>, the write and the mode.\<close>

definition make_folders :: "ustr \<Rightarrow> sq_tree \<Rightarrow> sq_tree" where
  "make_folders p t = fold (\<lambda>q t. if tree_get t q = None then tree_set q Folder_Node t else t) (ancestors p) t"

definition write_file :: "'w sq_env \<Rightarrow> ustr \<Rightarrow> string \<Rightarrow> bool \<Rightarrow> sq_tree \<Rightarrow> 'w \<Rightarrow> (sq_exn + unit) \<times> sq_tree \<times> 'w" where
  "write_file E p content x t w =
     (if through_link t p then sq_linked E (Linked_Write content x) p t w
      else if \<not> list_all (\<lambda>q. tree_get t q = None \<or> is_folder t q) (ancestors p) then (Inl (Sq_Os ''FileExistsError''), t, w)
      else (Inr (), tree_set p (Regular_Node content x) (make_folders p t), w))"

definition restore_path :: "'w sq_env \<Rightarrow> sq_config \<Rightarrow> ustr \<Rightarrow> ('w, unit) stage" where
  "restore_path E C p = (case entry_for (sc_lock C) p of
     None \<Rightarrow> stage_escape (Sq_Other ''KeyError'')
   | Some e \<Rightarrow>
       stage_bind (on_tree VERIFICATION_TREE (remove_path E p)) (\<lambda>_.
       stage_bind (reading (\<lambda>s. read_pristine E p (en_sha256 e) (sq_pristine s))) (\<lambda>r.
       stage_bind (stage_result r) (\<lambda>content.
       on_tree VERIFICATION_TREE (write_file E p content (en_executable e))))))"

definition build_error :: "sq_exn \<Rightarrow> bool" where
  "build_error e = (case e of Sq_Reference \<Rightarrow> True | Sq_Os n \<Rightarrow> True | _ \<Rightarrow> False)"

definition build_verification_tree ::
  "'w sq_env \<Rightarrow> sq_config \<Rightarrow> specification_integrity \<Rightarrow> ustr list \<Rightarrow> ustr list \<Rightarrow> ('w, specification_integrity) stage" where
  "build_verification_tree E C g restore remove =
     stage_bind (stopping_on build_error EVIDENCE_INCOMPLETE
         (\<lambda>e. lit ''The verification tree could not be built: '' @ lit (exn_name e))
         (stage_bind (stage_each (\<lambda>p. on_tree VERIFICATION_TREE (remove_path E p)) remove) (\<lambda>_.
          stage_each (restore_path E C) restore))) (\<lambda>_.
     stage_bind (reading (\<lambda>s. compare_tree E (sc_lock C) (sq_candidate s))) (\<lambda>differing.
     stage_bind (reading sq_candidate) (\<lambda>t.
     stage_bind (stage_result (specification_files (sc_profile C) (sc_additional C) t)) (\<lambda>present.
     if differing \<noteq> ([], [], []) \<or> set present \<noteq> set (locked_paths (sc_lock C))
       then stop_review EVIDENCE_INCOMPLETE (lit ''The verification tree does not reproduce the pristine specification.'') None
     else stage_bind (candidate_changes E) (\<lambda>remaining.
       let g' = g\<lparr>si_restored := take 500 restore, si_verification_changes := take 1000 remaining\<rparr> in
       stage_bind (set_integrity g') (\<lambda>_. stage_ret g'))))))"

section \<open>The runs on it\<close>

definition mutated_note :: "string \<Rightarrow> specification_run \<Rightarrow> ('w, unit) stage" where
  "mutated_note label r = stage_when (\<not> tree_unchanged r)
     (note_finding VERIFICATION_TREE_MUTATED (lit (''The '' @ label @ '' run changed the verification tree.'')) None)"

definition failed_note :: "string \<Rightarrow> specification_run \<Rightarrow> specification_counts \<Rightarrow> ('w, unit) stage" where
  "failed_note label r k = stage_when (sr_status r = EXEC_FAILED \<or> ct_failed k \<noteq> 0 \<or> ct_errors k \<noteq> 0)
     (note_finding PRISTINE_TESTS_FAILED (lit (''The pristine '' @ label @ '' fail on the candidate: '' @ nat_str (ct_failed k)
        @ '' failed, '' @ nat_str (ct_errors k) @ '' error(s), '' @ nat_str (ct_passed k) @ '' passed.'')) None)"

definition skipped_note :: "string \<Rightarrow> specification_counts \<Rightarrow> specification_counts \<Rightarrow> ('w, unit) stage" where
  "skipped_note label k b = stage_when (ct_skipped b < ct_skipped k \<or> ct_xfailed b < ct_xfailed k)
     (note_finding TESTS_SKIPPED (lit (''The '' @ label @ '' run skipped '' @ nat_str (ct_skipped k) @ '' and xfailed ''
        @ nat_str (ct_xfailed k) @ '' test(s); the pristine tree skipped '' @ nat_str (ct_skipped b) @ '' and xfailed ''
        @ nat_str (ct_xfailed b) @ ''.'')) None)"

definition missing_note :: "string \<Rightarrow> specification_counts \<Rightarrow> specification_counts \<Rightarrow> ('w, unit) stage" where
  "missing_note label k b = stage_when (total_tests k < total_tests b \<or> ct_deselected b < ct_deselected k \<or> total_tests k = 0)
     (note_finding TESTS_MISSING (lit (''The '' @ label @ '' run accounted for '' @ nat_str (total_tests k) @ '' test(s) with ''
        @ nat_str (ct_deselected k) @ '' deselected; the pristine tree accounted for '' @ nat_str (total_tests b) @ '' with ''
        @ nat_str (ct_deselected b) @ '' deselected.'')) None)"

fun verification_loop :: "'w sq_env \<Rightarrow> sq_config \<Rightarrow> runs_by_purpose \<Rightarrow> check_kind list \<Rightarrow> runs_by_purpose \<Rightarrow> ('w, runs_by_purpose) stage" where
  "verification_loop E C baseline [] done_runs = stage_ret done_runs"
| "verification_loop E C baseline (purpose # ps) done_runs =
     stage_bind (checked_run E C VERIFICATION_TREE purpose) (\<lambda>r.
     case map_of baseline purpose of
       None \<Rightarrow> stage_escape (Sq_Other ''KeyError'')
     | Some b \<Rightarrow> (case (sr_counts r, sr_counts b) of
           (Some k, Some base) \<Rightarrow>
             (let label = check_kind_value purpose in
              stage_bind (mutated_note label r) (\<lambda>_. stage_bind (failed_note label r k) (\<lambda>_.
              stage_bind (skipped_note label k base) (\<lambda>_. stage_bind (missing_note label k base) (\<lambda>_.
              verification_loop E C baseline ps (done_runs @ [(purpose, r)]))))))
         | _ \<Rightarrow> stage_escape (Sq_Other ''AssertionError'')))"

section \<open>Cross-check\<close>

definition disagreement_detail :: "string \<Rightarrow> bool \<Rightarrow> ustr" where
  "disagreement_detail purpose intact =
     lit (''PatchForge attested passing '' @ purpose @ '', but the pristine specification fails independently: ''
       @ (if intact then ''PatchForge'' @ [CHR 0x27] @ ''s passing evidence does not reproduce on a fresh tree''
          else ''the candidate passed only with its own changes to the specification'') @ ''.'')"

fun cross_check_loop :: "pf_result \<Rightarrow> specification_integrity \<Rightarrow> runs_by_purpose \<Rightarrow> bool \<Rightarrow> ('w, bool) stage" where
  "cross_check_loop r g [] agree = stage_ret agree"
| "cross_check_loop r g ((purpose, x) # rest) agree =
     (case find (\<lambda>c. pc_kind c = purpose) (rev (pr_checks r)) of
        None \<Rightarrow> cross_check_loop r g rest agree
      | Some c \<Rightarrow> (case pc_execution c of
          None \<Rightarrow> cross_check_loop r g rest agree
        | Some i \<Rightarrow> (case find (\<lambda>e. te_execution_id e = i) (rev (pr_executions r)) of
            None \<Rightarrow> stage_escape (Sq_Other ''KeyError'')
          | Some e \<Rightarrow>
              if te_command_sha256 e \<noteq> sr_command_sha256 x
                then stage_bind (note_finding IDENTITY_MISMATCH
                    (lit (''PatchForge ran a different '' @ check_kind_value purpose @ '' command than the profile.'')) None)
                  (\<lambda>_. cross_check_loop r g rest agree)
              else if pc_status c = CHECK_PASSED \<and> sr_status x \<noteq> EXEC_PASSED
                then stage_bind (note_finding INDEPENDENT_VALIDATION_DISAGREES
                    (disagreement_detail (check_kind_value purpose) (specification_intact g)) None)
                  (\<lambda>_. cross_check_loop r g rest False)
              else cross_check_loop r g rest agree)))"

definition cross_check :: "pf_result \<Rightarrow> runs_by_purpose \<Rightarrow> specification_integrity \<Rightarrow> ('w, unit) stage" where
  "cross_check r verification g =
     stage_bind (cross_check_loop r g verification True) (\<lambda>agree s. (Inr (), s\<lparr>sq_agree := Some agree\<rparr>))"

section \<open>The probe of the runner\<close>

definition probe_run ::
  "'w sq_env \<Rightarrow> sq_config \<Rightarrow> specification_tree \<Rightarrow> runner_canary \<Rightarrow> ('w, specification_run) stage" where
  "probe_run E C tree c =
     stage_bind (stopping_on execution_refused EXECUTOR_UNAVAILABLE
         (\<lambda>e. lit ''The runner-integrity run could not be executed: '' @ lit (exn_name e)) (runner_run E C tree FULL_TEST_SUITE (Some c))) (\<lambda>r.
     if sr_status r \<notin> {EXEC_PASSED, EXEC_FAILED}
       then stop_review EVIDENCE_INCOMPLETE (run_label tree ''runner-integrity'' ('' run ended with '' @ execution_status_value (sr_status r) @ ''.'')) None
     else stage_ret r)"

definition canary_reported :: "specification_run \<Rightarrow> bool" where
  "canary_reported r \<longleftrightarrow> (case sr_canary r of None \<Rightarrow> False | Some c \<Rightarrow> cr_reported_failed c)"

text \<open>The run of the control: the canary on the pristine tree.\<close>

definition control_run :: "'w sq_env \<Rightarrow> sq_config \<Rightarrow> runner_canary \<Rightarrow> ('w, unit) stage" where
  "control_run E C c =
     stage_bind (probe_run E C PRISTINE_TREE c) (\<lambda>r.
     if \<not> tree_unchanged r
       then stop_review EVIDENCE_INCOMPLETE (lit ''The pristine runner-integrity run changed the tree it ran on.'') None
     else if canary_reported r \<and> sr_status r = EXEC_FAILED
       then note_finding RUNNER_INTEGRITY_VIOLATED (lit (''The runner reports a planted failing test on the pristine tree but not on the candidate: the candidate''
         @ [CHR 0x27] @ ''s code changes how test results are reported.'')) (Some (canary_path c))
     else stop_review RUNNER_INTEGRITY_UNPROVEN (lit (''The full-suite command does not report a planted failing test even on the ''
         @ ''pristine tree, so this profile cannot demonstrate runner integrity.'')) (Some (canary_path c)))"

definition check_runner_integrity :: "'w sq_env \<Rightarrow> sq_config \<Rightarrow> ('w, unit) stage" where
  "check_runner_integrity E C = (case review_canary (env_sha256 E) (sc_review_id C) (sc_lock C) of
     None \<Rightarrow> stop_review RUNNER_INTEGRITY_UNPROVEN (lit (''The locked specification has no pytest module beside which a ''
       @ ''runner-integrity canary could be planted.'')) None
   | Some c \<Rightarrow>
       stage_bind (probe_run E C VERIFICATION_TREE c) (\<lambda>r.
       if integrity_demonstrated r then stage_ret ()
       else if \<not> tree_unchanged r
         then note_finding VERIFICATION_TREE_MUTATED (lit ''The runner-integrity run changed the verification tree.'') None
       else (case sr_counts r of
           Some k \<Rightarrow>
             if canary_reported r \<and> (1 < ct_failed k \<or> ct_errors k \<noteq> 0)
               then note_finding PRISTINE_TESTS_FAILED (lit (''With the runner-integrity canary planted, the pristine full suite fails on the candidate: ''
                 @ int_str (int (ct_failed k) - 1) @ '' failed besides the canary, '' @ nat_str (ct_errors k) @ '' error(s).'')) None
             else control_run E C c
         | None \<Rightarrow> control_run E C c)))"

section \<open>The verdict\<close>

definition finding_namespace :: uuid where "finding_namespace = 0x7a1d4c2b3e5f4a6b8c9d0e1f2a3b4c5e"

definition typed_finding :: "'w sq_env \<Rightarrow> sq_config \<Rightarrow> nat \<times> noted_finding \<Rightarrow> sentinel_finding" where
  "typed_finding E C f = (case f of (index, n) \<Rightarrow>
     let m = finding_meaning_of (nf_code n) in
     \<lparr>sf_id = env_uuid5 E finding_namespace (uuid_str (sc_review_id C) @ '':'' @ nat_str index @ '':'' @ sentinel_code_value (nf_code n)),
      sf_code = nf_code n, sf_meaning = m, sf_severity = (if m = ADVISORY then SEV_WARNING else SEV_BLOCKING),
      sf_detail = take 500 (nf_detail n), sf_path = nf_path n\<rparr>)"

definition sentinel_summary :: "review_verdict \<Rightarrow> sentinel_finding list \<Rightarrow> specification_integrity option \<Rightarrow> string" where
  "sentinel_summary v fs g =
     (let codes = sort (remdups (map (sentinel_code_value \<circ> sf_code) (filter (\<lambda>f. sf_meaning f \<noteq> ADVISORY) fs))) in
      case v of
        Review_Passed \<Rightarrow> ''The candidate passes the pristine specification ('' @ nat_str (case g of None \<Rightarrow> 0 | Some i \<Rightarrow> si_locked i)
          @ '' locked file(s) unchanged; targeted and full-suite runs passed on a fresh tree, and the runner ''
          @ ''reported a planted failing test).''
      | Review_Failed \<Rightarrow> ''The candidate is rejected: '' @ join_with '', '' codes @ ''.''
      | Review_Inconclusive \<Rightarrow> ''The candidate could not be verified: '' @ join_with '', '' codes @ ''.'')"

definition sentinel_verdict_of ::
  "'w sq_env \<Rightarrow> sq_config \<Rightarrow> pf_result \<Rightarrow> 'w sentinel \<Rightarrow> timestamp \<Rightarrow> timestamp \<Rightarrow> sentinel_verdict" where
  "sentinel_verdict_of E C r s started now =
     (let typed = map (typed_finding E C) (enumerate 0 (sq_findings s)); t = sc_task C;
          v = verdict_for (set (map sf_meaning typed)) in
      \<lparr>sv_review_id = sc_review_id C, sv_task_id = et_task_id t, sv_run_id = run_id (pr_identity r),
       sv_atlas_job_id = et_atlas_job_id t, sv_source_sha = commit_sha (et_source t), sv_lock_sha256 = lock_sha256 E (sc_lock C),
       sv_patch_sha256 = map_option ds_sha256 (pr_diff r), sv_head_sha = map_option ds_head_sha (pr_diff r), sv_verdict = v,
       sv_summary = lit (sentinel_summary v typed (sq_integrity s)), sv_findings = typed, sv_integrity = sq_integrity s,
       sv_runs = sq_runs s, sv_agree = sq_agree s, sv_started_at = started, sv_completed_at = max started now\<rparr>)"

text \<open>The constructor validates the verdict; the integrity is taken as it is.\<close>

definition verdict_built :: "sentinel_verdict \<Rightarrow> bool" where
  "verdict_built v \<longleftrightarrow> verdict_fields_ok (v\<lparr>sv_integrity := None\<rparr>) \<and> verdict_error v = None"

section \<open>\<open>review\<close>\<close>

definition review_stages :: "'w sq_env \<Rightarrow> sq_config \<Rightarrow> pf_result \<Rightarrow> ('w, unit) stage" where
  "review_stages E C r =
     (case (pr_outcome r, pr_diff r) of
        (PATCH_PROPOSED, Some d) \<Rightarrow>
          stage_bind (check_identity E C r d) (\<lambda>_.
          stage_bind stop_if_unverifiable (\<lambda>_.
          stage_bind (read_patch E d) (\<lambda>patch.
          stage_bind (materialize_trees E (ds_base_sha d)) (\<lambda>_.
          stage_bind (verify_pristine_reference E C) (\<lambda>_.
          stage_bind (baseline_runs E C) (\<lambda>baseline.
          stage_bind (apply_patch_file E patch) (\<lambda>_.
          stage_bind (candidate_changes E) (\<lambda>changed.
          stage_bind (check_recorded_changes d changed) (\<lambda>_.
          stage_bind (inspect_integrity E C changed) (\<lambda>(g, restore, remove).
          stage_bind (check_harness_tampering E C patch) (\<lambda>_.
          stage_bind (build_verification_tree E C g restore remove) (\<lambda>g'.
          if si_verification_changes g' = []
            then stop_review NO_CODE_CHANGE (lit ''Once the pristine specification is restored, the candidate changes nothing.'') None
          else stage_bind (verification_loop E C baseline verification_purposes []) (\<lambda>verification.
            stage_bind (cross_check r verification g') (\<lambda>_.
            stage_bind (reading sq_findings) (\<lambda>fs.
            stage_when (list_all (\<lambda>f. finding_meaning_of (nf_code f) = ADVISORY) fs) (check_runner_integrity E C))))))))))))))))
      | _ \<Rightarrow> stop_review NOT_A_PROPOSAL (lit (''PatchForge outcome '' @ patch_outcome_value (pr_outcome r) @ '' proposes no patch to verify.'')) None)"

definition sentinel_review ::
  "'w sq_env \<Rightarrow> sq_config \<Rightarrow> pf_result \<Rightarrow> 'w \<Rightarrow> (sq_exn + sentinel_verdict) \<times> 'w sentinel" where
  "sentinel_review E C r w =
     (case sq_now E w of (started, w1) \<Rightarrow>
      let s = \<lparr>sq_world = w1, sq_pristine = [], sq_candidate = [], sq_findings = [], sq_runs = [], sq_integrity = None, sq_agree = None\<rparr> in
      case review_stages E C r s of
        (Inl (Escape e), s') \<Rightarrow> (Inl e, s')
      | (_, s') \<Rightarrow>
          if \<not> list_all sentinel_finding_ok (map (typed_finding E C) (enumerate 0 (sq_findings s'))) then (Inl (Sq_Other ''ValidationError''), s')
          else (case sq_now E (sq_world s') of (now, w2) \<Rightarrow>
            let v = sentinel_verdict_of E C r s' started now; s2 = s'\<lparr>sq_world := w2\<rparr> in
            if verdict_built v then (Inr v, s2) else (Inl (Sq_Other ''ValidationError''), s2)))"

end
