(* ===== verification/SentinelFacts.thy ===== *)
theory SentinelFacts
  imports SentinelReview
begin

text \<open>
  What the stages of a review keep and what follows when nothing is held against the candidate. Findings and runs only
  grow, and a review that stops has a finding that decides; so a review that ends without one went through every stage,
  and each stage found what it looked for.
\<close>

section \<open>Stages\<close>

definition decisive :: "noted_finding \<Rightarrow> bool" where
  "decisive f \<longleftrightarrow> finding_meaning_of (nf_code f) \<noteq> ADVISORY"

definition clean :: "'w sentinel \<Rightarrow> bool" where
  "clean s \<longleftrightarrow> list_all (\<lambda>f. \<not> decisive f) (sq_findings s)"

definition extends :: "'w sentinel \<Rightarrow> 'w sentinel \<Rightarrow> bool" where
  "extends s s' \<longleftrightarrow> (\<exists>fs. sq_findings s' = sq_findings s @ fs) \<and> (\<exists>rs. sq_runs s' = sq_runs s @ rs)"

text \<open>What every stage keeps of the state, for a relation that the elementary steps keep.\<close>

definition kept :: "('w sentinel \<Rightarrow> 'w sentinel \<Rightarrow> bool) \<Rightarrow> ('w, 'a) stage \<Rightarrow> bool" where
  "kept R m \<longleftrightarrow> (\<forall>s x s'. m s = (x, s') \<longrightarrow> R s s')"

named_theorems frame_intro

locale stage_frame =
  fixes R :: "'w sentinel \<Rightarrow> 'w sentinel \<Rightarrow> bool"
  assumes stays: "R s s"
    and goes_on: "R s t \<Longrightarrow> R t u \<Longrightarrow> R s u"
    and notes_more: "R s (s\<lparr>sq_findings := sq_findings s @ fs\<rparr>)"
    and runs_more: "R s (s\<lparr>sq_runs := sq_runs s @ rs\<rparr>)"
    and world_moves: "R s (s\<lparr>sq_world := w\<rparr>)"
    and tree_moves: "R s (set_tree tree files s)"
    and agreement_moves: "R s (s\<lparr>sq_agree := a\<rparr>)"
begin

lemma kept_ret [frame_intro]: "kept R (stage_ret a)"
  by (simp add: kept_def stage_ret_def stays)

lemma kept_escape [frame_intro]: "kept R (stage_escape e)"
  by (simp add: kept_def stage_escape_def stays)

lemma kept_bind [frame_intro]: "kept R m \<Longrightarrow> (\<And>a. kept R (f a)) \<Longrightarrow> kept R (stage_bind m f)"
  unfolding kept_def stage_bind_def by (auto split: prod.splits sum.splits) (metis goes_on)

lemma kept_if [frame_intro]: "kept R m \<Longrightarrow> kept R n \<Longrightarrow> kept R (if c then m else n)"
  by simp

lemma kept_option [frame_intro]: "kept R m \<Longrightarrow> (\<And>a. kept R (f a)) \<Longrightarrow> kept R (case x of None \<Rightarrow> m | Some a \<Rightarrow> f a)"
  by (cases x) auto

lemma kept_list [frame_intro]: "kept R m \<Longrightarrow> (\<And>a as. kept R (f a as)) \<Longrightarrow> kept R (case x of [] \<Rightarrow> m | a # as \<Rightarrow> f a as)"
  by (cases x) auto

lemma kept_pair [frame_intro]: "(\<And>a b. kept R (f a b)) \<Longrightarrow> kept R (case x of (a, b) \<Rightarrow> f a b)"
  by (cases x) auto

lemma kept_agreement [frame_intro]: "kept R (\<lambda>s. (Inr (), s\<lparr>sq_agree := a\<rparr>))"
  by (simp add: kept_def agreement_moves)

lemma kept_when [frame_intro]: "kept R m \<Longrightarrow> kept R (stage_when c m)"
  by (simp add: stage_when_def kept_ret)

lemma kept_note [frame_intro]: "kept R (note_finding code detail path)"
  by (simp add: kept_def note_finding_def notes_more)

lemma kept_stop [frame_intro]: "kept R (stop_review code detail path)"
  by (simp add: kept_def stop_review_def stage_bind_def note_finding_def notes_more)

lemma kept_unverifiable [frame_intro]: "kept R stop_if_unverifiable"
  by (simp add: kept_def stop_if_unverifiable_def stays)

lemma kept_each [frame_intro]: "(\<And>x. kept R (f x)) \<Longrightarrow> kept R (stage_each f xs)"
  by (induction xs) (auto intro: kept_ret kept_bind)

lemma kept_result [frame_intro]: "kept R (stage_result r)"
  by (simp add: kept_def stage_result_def stays)

lemma kept_reading [frame_intro]: "kept R (reading f)"
  by (simp add: kept_def reading_def stays)

lemma kept_world [frame_intro]: "kept R (on_world f)"
  by (auto simp: kept_def on_world_def world_moves split: prod.splits)

lemma moves: "R s (set_tree tree t (s\<lparr>sq_world := w\<rparr>))"
  by (rule goes_on [OF world_moves tree_moves])

lemma kept_tree [frame_intro]: "kept R (on_tree tree f)"
  by (auto simp: kept_def on_tree_def moves split: prod.splits)

lemma kept_stopping [frame_intro]:
  assumes "kept R m" shows "kept R (stopping_on caught code detail m)"
  unfolding kept_def
proof (intro allI impI)
  fix s x s' assume run: "stopping_on caught code detail m s = (x, s')"
  obtain y t where first: "m s = (y, t)" by (cases "m s")
  have "R s t" using assms first by (simp add: kept_def)
  moreover have "R t s'" using run first
    by (auto simp: stopping_on_def stop_review_def stage_bind_def note_finding_def stays notes_more split: sum.splits sq_raise.splits if_splits)
  ultimately show "R s s'" by (rule goes_on)
qed

lemma kept_runner [frame_intro]: "kept R (runner_run E C tree purpose canary)"
  unfolding kept_def
proof (intro allI impI)
  fix s x s' assume "runner_run E C tree purpose canary s = (x, s')"
  then consider "s' = s" | t w where "s' = set_tree tree t (s\<lparr>sq_world := w\<rparr>)"
    | t w r where "s' = (set_tree tree t (s\<lparr>sq_world := w\<rparr>))\<lparr>sq_runs := sq_runs (set_tree tree t (s\<lparr>sq_world := w\<rparr>)) @ [r]\<rparr>"
    unfolding runner_run_def Let_def by (auto split: option.splits sum.splits prod.splits if_splits)
  then show "R s s'" by cases (auto intro: stays moves goes_on [OF moves runs_more])
qed

lemma kept_identity [frame_intro]: "kept R (check_identity E C r d)"
  unfolding check_identity_def by (intro frame_intro)

lemma kept_patch [frame_intro]: "kept R (read_patch E d)"
  unfolding read_patch_def by (intro frame_intro)

lemma kept_git [frame_intro]: "kept R (git_in E tree args)"
  unfolding git_in_def by (intro frame_intro)

lemma kept_materialize [frame_intro]: "kept R (materialize E base tree)"
  unfolding materialize_def by (intro frame_intro)

lemma kept_trees [frame_intro]: "kept R (materialize_trees E base)"
  unfolding materialize_trees_def by (intro frame_intro)

lemma kept_reference [frame_intro]: "kept R (verify_pristine_reference E C)"
  unfolding verify_pristine_reference_def problem_finding_def Let_def by (intro frame_intro)

lemma kept_checked [frame_intro]: "kept R (checked_run E C tree purpose)"
  unfolding checked_run_def Let_def by (intro frame_intro)

lemma kept_baseline_loop [frame_intro]: "kept R (baseline_loop E C ps ds)"
  by (induction ps arbitrary: ds) (auto intro!: frame_intro)

lemma kept_baseline [frame_intro]: "kept R (baseline_runs E C)"
  unfolding baseline_runs_def Let_def by (intro frame_intro)

lemma kept_apply [frame_intro]: "kept R (apply_patch_file E patch)"
  unfolding apply_patch_file_def by (intro frame_intro)

lemma kept_changes [frame_intro]: "kept R (candidate_changes E)"
  unfolding candidate_changes_def by (intro frame_intro)

lemma kept_recorded [frame_intro]: "kept R (check_recorded_changes d changed)"
  unfolding check_recorded_changes_def Let_def by (intro frame_intro)

lemma kept_paths [frame_intro]: "kept R (add_paths code paths detail)"
  unfolding add_paths_def by (intro frame_intro)

lemma kept_report [frame_intro]: "kept R (report_integrity E C changed i)"
  unfolding report_integrity_def Let_def by (intro frame_intro)

lemma kept_tampering [frame_intro]: "kept R (check_harness_tampering E C patch)"
  unfolding check_harness_tampering_def by (intro frame_intro)

lemma kept_restore [frame_intro]: "kept R (restore_path E C p)"
  unfolding restore_path_def by (intro frame_intro)

lemma kept_verification [frame_intro]: "kept R (verification_loop E C bs ps ds)"
proof (induction ps arbitrary: ds)
  case (Cons purpose ps)
  show ?case
    unfolding verification_loop.simps mutated_note_def failed_note_def skipped_note_def missing_note_def Let_def
    by (intro frame_intro Cons)
qed (auto intro: frame_intro)

lemma kept_cross_loop [frame_intro]: "kept R (cross_check_loop r g vs a)"
  by (induction vs arbitrary: a) (auto intro!: frame_intro)

lemma kept_cross [frame_intro]: "kept R (cross_check r vs g)"
  unfolding cross_check_def by (intro frame_intro)

lemma kept_probe [frame_intro]: "kept R (probe_run E C tree c)"
  unfolding probe_run_def by (intro frame_intro)

lemma kept_control [frame_intro]: "kept R (control_run E C c)"
  unfolding control_run_def by (intro frame_intro)

lemma kept_integrity_check [frame_intro]: "kept R (check_runner_integrity E C)"
  unfolding check_runner_integrity_def by (intro frame_intro)

end

lemma tree_frame [simp]:
  "sq_findings (set_tree tree t s) = sq_findings s" "sq_runs (set_tree tree t s) = sq_runs s"
  "sq_world (set_tree tree t s) = sq_world s" "sq_integrity (set_tree tree t s) = sq_integrity s"
  by (simp_all add: set_tree_def split: specification_tree.splits)

lemma extends_trans: "extends s t \<Longrightarrow> extends t u \<Longrightarrow> extends s u"
  by (auto simp: extends_def)

interpretation growing: stage_frame extends
  by unfold_locales (auto simp: extends_def)

interpretation comparing: stage_frame "\<lambda>s t. sq_integrity s = sq_integrity t"
  by unfold_locales auto

lemma clean_back: "extends s s' \<Longrightarrow> clean s' \<Longrightarrow> clean s"
  by (auto simp: extends_def clean_def)

lemma runs_kept: "extends s s' \<Longrightarrow> set (sq_runs s) \<subseteq> set (sq_runs s')"
  by (auto simp: extends_def)

lemma kept_integrity [frame_intro]: "kept extends (set_integrity g)"
  by (simp add: kept_def set_integrity_def extends_def)

lemma kept_inspect [frame_intro]: "kept extends (inspect_integrity E C changed)"
  unfolding inspect_integrity_def Let_def by (intro frame_intro)

lemma kept_build [frame_intro]: "kept extends (build_verification_tree E C g restore remove)"
  unfolding build_verification_tree_def Let_def by (intro frame_intro)

section \<open>Stops\<close>

text \<open>When a stage stops the review the reason is on record.\<close>

definition explained :: "('w, 'a) stage \<Rightarrow> bool" where
  "explained m \<longleftrightarrow> (\<forall>s s'. m s = (Inl Stop_Review, s') \<longrightarrow> \<not> clean s')"

named_theorems explained_intro

lemma explained_ret [explained_intro]: "explained (stage_ret a)"
  and explained_escape [explained_intro]: "explained (stage_escape e)"
  and explained_note [explained_intro]: "explained (note_finding code detail path)"
  and explained_result [explained_intro]: "explained (stage_result r)"
  and explained_reading [explained_intro]: "explained (reading f)"
  and explained_integrity [explained_intro]: "explained (set_integrity g)"
  and explained_world [explained_intro]: "explained (on_world h)"
  and explained_tree [explained_intro]: "explained (on_tree tree k)"
  by (auto simp: explained_def stage_ret_def stage_escape_def note_finding_def stage_result_def reading_def set_integrity_def
      on_world_def on_tree_def split: sum.splits prod.splits)

lemma explained_bind [explained_intro]: "explained m \<Longrightarrow> (\<And>a. explained (f a)) \<Longrightarrow> explained (stage_bind m f)"
  by (auto simp: explained_def stage_bind_def split: sum.splits prod.splits)

lemma explained_when [explained_intro]: "explained m \<Longrightarrow> explained (stage_when c m)"
  by (simp add: stage_when_def explained_ret)

lemma explained_stop [explained_intro]: "finding_meaning_of code \<noteq> ADVISORY \<Longrightarrow> explained (stop_review code detail path)"
  by (simp add: explained_def stop_review_def stage_bind_def note_finding_def clean_def decisive_def)

lemma explained_unverifiable [explained_intro]: "explained stop_if_unverifiable"
  by (auto simp: explained_def stop_if_unverifiable_def clean_def decisive_def list_ex_iff list_all_iff split: if_splits)
    (metis finding_meaning.distinct(5))

lemma explained_each [explained_intro]: "(\<And>x. explained (f x)) \<Longrightarrow> explained (stage_each f xs)"
  by (induction xs) (auto intro: explained_ret explained_bind)

lemma explained_stopping [explained_intro]:
  "explained m \<Longrightarrow> finding_meaning_of code \<noteq> ADVISORY \<Longrightarrow> explained (stopping_on caught code detail m)"
  by (auto simp: explained_def stopping_on_def stop_review_def stage_bind_def note_finding_def clean_def decisive_def
      split: sum.splits prod.splits sq_raise.splits if_splits)

lemma explained_runner [explained_intro]: "explained (runner_run E C tree purpose canary)"
  by (auto simp: explained_def runner_run_def Let_def split: option.splits sum.splits prod.splits if_splits)

text \<open>The step of the argument: a stage that does not raise and leaves nothing decisive returned.\<close>

lemma bind_clean:
  assumes "stage_bind m f s = (x, s')" "kept extends m" "explained m" "\<And>a. kept extends (f a)" "clean s'" "\<forall>e. x \<noteq> Inl (Escape e)"
  obtains a t where "m s = (Inr a, t)" "clean t" "f a t = (x, s')" "extends s t" "extends t s'"
proof -
  obtain y t where first: "m s = (y, t)" by (cases "m s")
  show ?thesis
  proof (cases y)
    case (Inl e)
    then have "x = Inl e" "s' = t" using assms(1) first by (auto simp: stage_bind_def)
    then show ?thesis using assms(3,5,6) first Inl by (cases e) (auto simp: explained_def)
  next
    case (Inr a)
    then have second: "f a t = (x, s')" using assms(1) first by (simp add: stage_bind_def)
    then have "extends t s'" using assms(4) by (auto simp: kept_def)
    moreover have "extends s t" using assms(2) first by (auto simp: kept_def)
    ultimately show ?thesis using that first second Inr clean_back [of t s'] assms(5) by blast
  qed
qed

section \<open>What each stage finds\<close>

lemma each_note:
  "stage_each (\<lambda>x. note_finding code (d x) (p x)) xs s =
     (Inr (), s\<lparr>sq_findings := sq_findings s @ map (\<lambda>x. \<lparr>nf_code = code, nf_detail = d x, nf_path = p x\<rparr>) xs\<rparr>)"
  by (induction xs arbitrary: s) (simp_all add: stage_ret_def stage_bind_def note_finding_def)

lemma each_note_clean:
  assumes "stage_each (\<lambda>x. note_finding code (d x) (p x)) xs s = (y, t)" "clean t" "finding_meaning_of code \<noteq> ADVISORY"
  shows "xs = []" "t = s"
proof -
  have t: "t = s\<lparr>sq_findings := sq_findings s @ map (\<lambda>x. \<lparr>nf_code = code, nf_detail = d x, nf_path = p x\<rparr>) xs\<rparr>"
    using assms(1) unfolding each_note by simp
  then show "xs = []" using assms(2,3) by (cases xs) (simp_all add: clean_def decisive_def)
  then show "t = s" using t by simp
qed

lemma note_clean:
  assumes "stage_when c (note_finding code d p) s = (y, t)" "clean t" "finding_meaning_of code \<noteq> ADVISORY"
  shows "\<not> c" "t = s"
  using assms by (auto simp: stage_when_def stage_ret_def note_finding_def clean_def decisive_def split: if_splits)

lemma identity_clean:
  assumes "check_identity E C r d s = (y, t)" "clean t"
  shows "identity_problems E C r d = []"
  using each_note_clean [OF assms(1) [unfolded check_identity_def]] assms(2) by (simp add: finding_meaning_of_def)

lemma stop_not_returned [simp]: "stop_review code d p s \<noteq> (Inr a, t)"
  by (simp add: stop_review_def stage_bind_def note_finding_def)

lemma bind_returned:
  assumes "stage_bind m f s = (Inr b, t)"
  obtains a u where "m s = (Inr a, u)" "f a u = (Inr b, t)"
  using assms by (auto simp: stage_bind_def split: sum.splits prod.splits)

lemma patch_read:
  assumes "read_patch E d s = (Inr patch, t)"
  shows "env_sha256 E patch = ds_sha256 d" "patch \<noteq> []"
  using assms unfolding read_patch_def by (auto elim!: bind_returned simp: stage_ret_def split: if_splits)

definition path_notes :: "sentinel_code \<Rightarrow> ustr list \<Rightarrow> string \<Rightarrow> noted_finding list" where
  "path_notes code paths detail =
     map (\<lambda>p. \<lparr>nf_code = code, nf_detail = lit detail, nf_path = Some p\<rparr>) (take max_paths_per_finding paths)
     @ (if max_paths_per_finding < length paths
        then [\<lparr>nf_code = code, nf_detail = lit (detail @ '' ('' @ nat_str (length paths - max_paths_per_finding) @ '' more path(s))''), nf_path = None\<rparr>]
        else [])"

lemma add_paths_notes: "add_paths code paths detail s = (Inr (), s\<lparr>sq_findings := sq_findings s @ path_notes code paths detail\<rparr>)"
  unfolding add_paths_def stage_bind_def path_notes_def each_note
  by (simp add: stage_when_def stage_ret_def note_finding_def)

lemma path_notes_clean:
  assumes "finding_meaning_of code \<noteq> ADVISORY"
  shows "list_all (\<lambda>f. \<not> decisive f) (path_notes code paths detail) \<longleftrightarrow> paths = []"
  using assms by (cases paths) (auto simp: path_notes_def decisive_def max_paths_per_finding_def)

lemma recorded_clean:
  assumes "check_recorded_changes d changed s = (y, t)" "clean t"
  shows "set changed = set (ds_changed_files d)"
proof -
  let ?missing = "take max_paths_per_finding (filter (\<lambda>p. p \<notin> set changed) (sort (remdups (ds_changed_files d))))"
  let ?extra = "take max_paths_per_finding (filter (\<lambda>p. p \<notin> set (sort (remdups (ds_changed_files d)))) changed)"
  obtain a b where "sq_findings t = sq_findings s
      @ map (\<lambda>x. \<lparr>nf_code = EVIDENCE_INCOMPLETE, nf_detail = a x, nf_path = Some x\<rparr>) ?missing
      @ map (\<lambda>x. \<lparr>nf_code = UNRECORDED_CHANGE, nf_detail = b x, nf_path = Some x\<rparr>) ?extra"
    using assms(1) unfolding check_recorded_changes_def Let_def stage_bind_def each_note stop_if_unverifiable_def by force
  then have all: "list_all (\<lambda>f. \<not> decisive f) (map (\<lambda>x. \<lparr>nf_code = EVIDENCE_INCOMPLETE, nf_detail = a x, nf_path = Some x\<rparr>) ?missing)"
    "list_all (\<lambda>f. \<not> decisive f) (map (\<lambda>x. \<lparr>nf_code = UNRECORDED_CHANGE, nf_detail = b x, nf_path = Some x\<rparr>) ?extra)"
    using assms(2) by (simp_all add: clean_def)
  have "?missing = []" "?extra = []"
    subgoal using all(1) by (cases ?missing) (simp_all add: decisive_def finding_meaning_of_def)
    using all(2) by (cases ?extra) (simp_all add: decisive_def finding_meaning_of_def)
  then show ?thesis by (auto simp: max_paths_per_finding_def filter_empty_conv)
qed

lemma tampering_clean:
  assumes "check_harness_tampering E C patch s = (y, t)" "clean t"
  shows "harness_tampering_lines (sq_search E) (is_specification C) (sq_decode_replace E patch) = []" "t = s"
  using each_note_clean [OF assms(1) [unfolded check_harness_tampering_def]] assms(2) by (simp_all add: finding_meaning_of_def)

lemma report_clean:
  assumes "report_integrity E C changed i s = (y, t)" "clean t"
  shows "is_config i = []" "is_modified i = []" "is_deleted i = []" "is_irregular i = []"
    "filter (\<lambda>p. path_matches p (protected_paths (sc_profile C))) changed = []"
    "filter (is_sensitive_path (sq_casefold E)) changed = []"
proof -
  let ?other = "filter (\<lambda>p. p \<notin> set (is_config i))"
  obtain a b c d e f rest where "sq_findings t = sq_findings s @ path_notes SPECIFICATION_MODIFIED (?other (is_modified i)) a
      @ path_notes SPECIFICATION_DELETED (?other (is_deleted i)) b @ path_notes SPECIFICATION_NOT_REGULAR_FILE (?other (is_irregular i)) c
      @ path_notes EVALUATION_CONFIG_ALTERED (is_config i) d
      @ path_notes PROTECTED_PATH_CHANGED (filter (\<lambda>p. path_matches p (protected_paths (sc_profile C))) changed) e
      @ path_notes SENSITIVE_PATH_CHANGED (filter (is_sensitive_path (sq_casefold E)) changed) f @ rest"
    using assms(1) unfolding report_integrity_def Let_def
    by (cases "is_added_tests i") (force simp: stage_bind_def add_paths_notes stage_ret_def note_finding_def)+
  then have "list_all (\<lambda>f. \<not> decisive f) (path_notes SPECIFICATION_MODIFIED (?other (is_modified i)) a)"
    "list_all (\<lambda>f. \<not> decisive f) (path_notes SPECIFICATION_DELETED (?other (is_deleted i)) b)"
    "list_all (\<lambda>f. \<not> decisive f) (path_notes SPECIFICATION_NOT_REGULAR_FILE (?other (is_irregular i)) c)"
    "list_all (\<lambda>f. \<not> decisive f) (path_notes EVALUATION_CONFIG_ALTERED (is_config i) d)"
    "list_all (\<lambda>f. \<not> decisive f) (path_notes PROTECTED_PATH_CHANGED (filter (\<lambda>p. path_matches p (protected_paths (sc_profile C))) changed) e)"
    "list_all (\<lambda>f. \<not> decisive f) (path_notes SENSITIVE_PATH_CHANGED (filter (is_sensitive_path (sq_casefold E)) changed) f)"
    using assms(2) by (simp_all add: clean_def)
  moreover have "finding_meaning_of SPECIFICATION_MODIFIED \<noteq> ADVISORY" "finding_meaning_of SPECIFICATION_DELETED \<noteq> ADVISORY"
    "finding_meaning_of SPECIFICATION_NOT_REGULAR_FILE \<noteq> ADVISORY" "finding_meaning_of EVALUATION_CONFIG_ALTERED \<noteq> ADVISORY"
    "finding_meaning_of PROTECTED_PATH_CHANGED \<noteq> ADVISORY" "finding_meaning_of SENSITIVE_PATH_CHANGED \<noteq> ADVISORY"
    by (simp_all add: finding_meaning_of_def)
  ultimately show "is_config i = []" "is_modified i = []" "is_deleted i = []" "is_irregular i = []"
    "filter (\<lambda>p. path_matches p (protected_paths (sc_profile C))) changed = []"
    "filter (is_sensitive_path (sq_casefold E)) changed = []"
    by (auto simp: path_notes_clean)
qed

section \<open>Every stop of the review\<close>

lemma explained_if [explained_intro]: "explained m \<Longrightarrow> explained n \<Longrightarrow> explained (if c then m else n)"
  by simp

lemma explained_option [explained_intro]: "explained m \<Longrightarrow> (\<And>a. explained (f a)) \<Longrightarrow> explained (case x of None \<Rightarrow> m | Some a \<Rightarrow> f a)"
  by (cases x) auto

lemma explained_list [explained_intro]: "explained m \<Longrightarrow> (\<And>a as. explained (f a as)) \<Longrightarrow> explained (case x of [] \<Rightarrow> m | a # as \<Rightarrow> f a as)"
  by (cases x) auto

lemma explained_pair [explained_intro]: "(\<And>a b. explained (f a b)) \<Longrightarrow> explained (case x of (a, b) \<Rightarrow> f a b)"
  by (cases x) auto

lemma explained_agreement [explained_intro]: "explained (\<lambda>s. (Inr (), s\<lparr>sq_agree := a\<rparr>))"
  by (simp add: explained_def)

lemma codes_decide [simp]:
  "finding_meaning_of EVIDENCE_INCOMPLETE \<noteq> ADVISORY" "finding_meaning_of PRISTINE_REFERENCE_UNVERIFIABLE \<noteq> ADVISORY"
  "finding_meaning_of EXECUTOR_UNAVAILABLE \<noteq> ADVISORY" "finding_meaning_of PATCH_APPLY_FAILED \<noteq> ADVISORY"
  "finding_meaning_of NO_CODE_CHANGE \<noteq> ADVISORY" "finding_meaning_of NOT_A_PROPOSAL \<noteq> ADVISORY"
  "finding_meaning_of RUNNER_INTEGRITY_UNPROVEN \<noteq> ADVISORY"
  by (simp_all add: finding_meaning_of_def)

lemma explained_git [explained_intro]: "explained (git_in E tree args)"
  unfolding git_in_def by (intro explained_intro)

lemma explained_identity [explained_intro]: "explained (check_identity E C r d)"
  and explained_patch [explained_intro]: "explained (read_patch E d)"
  and explained_materialize [explained_intro]: "explained (materialize E base tree)"
  unfolding check_identity_def read_patch_def materialize_def by (intro explained_intro; simp)+

lemma explained_trees [explained_intro]: "explained (materialize_trees E base)"
  and explained_reference [explained_intro]: "explained (verify_pristine_reference E C)"
  and explained_checked [explained_intro]: "explained (checked_run E C tree purpose)"
  unfolding materialize_trees_def verify_pristine_reference_def problem_finding_def checked_run_def Let_def
  by (intro explained_intro; simp)+

lemma explained_baseline_loop [explained_intro]: "explained (baseline_loop E C ps ds)"
  by (induction ps arbitrary: ds) (auto intro!: explained_intro)

lemma explained_baseline [explained_intro]: "explained (baseline_runs E C)"
  and explained_apply [explained_intro]: "explained (apply_patch_file E patch)"
  and explained_changes [explained_intro]: "explained (candidate_changes E)"
  and explained_recorded [explained_intro]: "explained (check_recorded_changes d changed)"
  and explained_paths [explained_intro]: "explained (add_paths code paths detail)"
  unfolding baseline_runs_def apply_patch_file_def candidate_changes_def check_recorded_changes_def add_paths_def Let_def
  by (intro explained_intro; simp)+

lemma explained_report [explained_intro]: "explained (report_integrity E C changed i)"
  unfolding report_integrity_def Let_def by (intro explained_intro)

lemma explained_inspect [explained_intro]: "explained (inspect_integrity E C changed)"
  and explained_tampering [explained_intro]: "explained (check_harness_tampering E C patch)"
  and explained_restore [explained_intro]: "explained (restore_path E C p)"
  unfolding inspect_integrity_def check_harness_tampering_def restore_path_def Let_def by (intro explained_intro)+

lemma explained_build [explained_intro]: "explained (build_verification_tree E C g restore remove)"
  unfolding build_verification_tree_def Let_def by (intro explained_intro; simp)

lemma explained_verification [explained_intro]: "explained (verification_loop E C bs ps ds)"
proof (induction ps arbitrary: ds)
  case (Cons purpose ps)
  show ?case
    unfolding verification_loop.simps mutated_note_def failed_note_def skipped_note_def missing_note_def Let_def
    by (intro explained_intro Cons)
qed (auto intro: explained_intro)

lemma explained_cross_loop [explained_intro]: "explained (cross_check_loop r g vs a)"
  by (induction vs arbitrary: a) (auto intro!: explained_intro)

lemma explained_cross [explained_intro]: "explained (cross_check r vs g)"
  and explained_probe [explained_intro]: "explained (probe_run E C tree c)"
  unfolding cross_check_def probe_run_def by (intro explained_intro; simp)+

lemma explained_control [explained_intro]: "explained (control_run E C c)"
  unfolding control_run_def by (intro explained_intro; simp)

lemma explained_integrity_check [explained_intro]: "explained (check_runner_integrity E C)"
  unfolding check_runner_integrity_def by (intro explained_intro; simp)

end
