(* ===== verification/SentinelPassed.thy ===== *)
theory SentinelPassed
  imports SentinelFacts
begin

text \<open>
  What a passed verdict means: which changes the candidate makes, what ran on which tree and how the runs compare with
  those on the pristine tree.
\<close>

section \<open>The stages that decide\<close>

lemma keptD: "kept R m \<Longrightarrow> m s = (x, t) \<Longrightarrow> R s t"
  by (simp add: kept_def)

lemma inspected:
  assumes "inspect_integrity E C changed s = (Inr (g, restore, remove), t)" "clean t"
  shows "filter is_evaluation_config_path changed = []"
    "filter (\<lambda>p. path_matches p (protected_paths (sc_profile C))) changed = []"
    "filter (is_sensitive_path (sq_casefold E)) changed = []"
    "restore = []" "sq_integrity t = Some g" "si_candidate_changes g = take 1000 changed"
proof -
  obtain differing present u v where
      report: "report_integrity E C changed (inspect_candidate E C changed present differing) u = (Inr (), v)"
    and t: "t = v\<lparr>sq_integrity := Some g\<rparr>"
    and g: "g = inspection_integrity C changed (inspect_candidate E C changed present differing)"
    and restore: "restore = (let i = inspect_candidate E C changed present differing in sort (remdups (is_modified i @ is_deleted i @ is_irregular i)))"
    using assms(1) unfolding inspect_integrity_def Let_def
    by (elim bind_returned) (auto simp: reading_def stage_escape_def set_integrity_def stage_ret_def split: if_splits elim!: bind_returned)
  have "clean v" using assms(2) t by (simp add: clean_def)
  note found = report_clean [OF report this]
  show "filter (\<lambda>p. path_matches p (protected_paths (sc_profile C))) changed = []"
    "filter (is_sensitive_path (sq_casefold E)) changed = []" by (rule found)+
  show "restore = []" using found restore by (simp add: Let_def)
  show "filter is_evaluation_config_path changed = []"
    using found(1) by (cases differing) (auto simp: inspect_candidate_def Let_def filter_empty_conv)
  show "sq_integrity t = Some g" "si_candidate_changes g = take 1000 changed"
    using t g by (simp_all add: inspection_integrity_def Let_def)
qed

lemma built:
  assumes "build_verification_tree E C g restore remove s = (Inr g', t)"
  shows "sq_integrity t = Some g'" "si_candidate_changes g' = si_candidate_changes g"
  using assms unfolding build_verification_tree_def Let_def
  by (auto simp: set_integrity_def stage_ret_def split: if_splits elim!: bind_returned)

text \<open>A run that is on record.\<close>

definition recorded_run :: "'w sentinel \<Rightarrow> specification_tree \<Rightarrow> check_kind \<Rightarrow> specification_run \<Rightarrow> bool" where
  "recorded_run s tree purpose r \<longleftrightarrow> r \<in> set (sq_runs s) \<and> sr_tree r = tree \<and> sr_purpose r = purpose \<and> sr_canary r = None"

lemma recorded_later: "extends s t \<Longrightarrow> recorded_run s tree purpose r \<Longrightarrow> recorded_run t tree purpose r"
  using runs_kept by (auto simp: recorded_run_def)

lemma runner_records:
  assumes "runner_run E C tree purpose None s = (Inr r, t)"
  shows "recorded_run t tree purpose r"
  using assms unfolding runner_run_def Let_def
  by (auto simp: recorded_run_def run_record_def Let_def split: option.splits sum.splits prod.splits if_splits)

lemma stopping_returned: "stopping_on caught code detail m s = (Inr a, t) \<Longrightarrow> m s = (Inr a, t)"
  by (auto simp: stopping_on_def split: sum.splits prod.splits sq_raise.splits if_splits)

lemma checked_records:
  assumes "checked_run E C tree purpose s = (Inr r, t)"
  shows "recorded_run t tree purpose r" "sr_status r \<in> {EXEC_PASSED, EXEC_FAILED}"
    "sr_status r = EXEC_PASSED \<Longrightarrow> sr_counts r = Some k \<Longrightarrow> ct_failed k = 0 \<and> ct_errors k = 0"
proof -
  obtain r' u where first: "runner_run E C tree purpose None s = (Inr r', u)" and r: "r' = r" "u = t"
    and facts: "sr_status r \<in> {EXEC_PASSED, EXEC_FAILED}"
      "\<not> (sr_status r = EXEC_PASSED \<and> (case sr_counts r of None \<Rightarrow> False | Some k \<Rightarrow> ct_failed k \<noteq> 0 \<or> ct_errors k \<noteq> 0))"
    using assms unfolding checked_run_def Let_def
    by (auto simp: stage_ret_def dest!: stopping_returned split: if_splits elim!: bind_returned)
  show "recorded_run t tree purpose r" using runner_records [OF first] r by simp
  show "sr_status r \<in> {EXEC_PASSED, EXEC_FAILED}" by (rule facts)
  show "ct_failed k = 0 \<and> ct_errors k = 0" if "sr_status r = EXEC_PASSED" "sr_counts r = Some k"
    using facts(2) that by simp
qed

lemma baseline_records:
  assumes "baseline_loop E C ps ds s = (Inr bs, t)"
    and "\<forall>(p, r) \<in> set ds. recorded_run s PRISTINE_TREE p r \<and> tree_unchanged r"
  shows "\<forall>(p, r) \<in> set bs. recorded_run t PRISTINE_TREE p r \<and> tree_unchanged r"
  using assms
proof (induction ps arbitrary: ds s)
  case Nil
  then show ?case by (auto simp: stage_ret_def)
next
  case (Cons p ps)
  obtain r u v where run: "checked_run E C PRISTINE_TREE p s = (Inr r, u)" and same: "tree_unchanged r"
    and noted: "stage_when (p = REPRODUCTION \<and> sr_status r = EXEC_PASSED)
      (note_finding REPRODUCTION_NOT_DEMONSTRATED (lit ''The reproduction command already passes on the pristine source tree.'') None) u = (Inr (), v)"
    and rest: "baseline_loop E C ps (ds @ [(p, r)]) v = (Inr bs, t)"
    using Cons.prems(1) unfolding baseline_loop.simps by (auto split: if_splits elim!: bind_returned)
  have su: "extends s u" by (rule keptD [OF growing.kept_checked run])
  have uv: "extends u v" by (rule keptD [OF growing.kept_when [OF growing.kept_note] noted])
  show ?case
  proof (rule Cons.IH [OF rest])
    show "\<forall>(q, x) \<in> set (ds @ [(p, r)]). recorded_run v PRISTINE_TREE q x \<and> tree_unchanged x"
      using Cons.prems(2) same recorded_later [OF uv checked_records(1) [OF run]] recorded_later [OF extends_trans [OF su uv]]
      by auto
  qed
qed

text \<open>How a passed run on the candidate compares with the run on the pristine tree.\<close>

definition no_worse :: "specification_run \<Rightarrow> specification_run \<Rightarrow> bool" where
  "no_worse b r \<longleftrightarrow> (case (sr_counts b, sr_counts r) of
     (Some base, Some k) \<Rightarrow> ct_failed k = 0 \<and> ct_errors k = 0 \<and> 0 < total_tests k \<and> total_tests base \<le> total_tests k
       \<and> ct_skipped k \<le> ct_skipped base \<and> ct_xfailed k \<le> ct_xfailed base \<and> ct_deselected k \<le> ct_deselected base
   | _ \<Rightarrow> False)"

definition accepted_run :: "runs_by_purpose \<Rightarrow> 'w sentinel \<Rightarrow> check_kind \<Rightarrow> bool" where
  "accepted_run bs s p \<longleftrightarrow> (\<exists>b r. map_of bs p = Some b \<and> recorded_run s VERIFICATION_TREE p r \<and> sr_status r = EXEC_PASSED
     \<and> tree_unchanged r \<and> no_worse b r)"

lemma accepted_later: "extends s t \<Longrightarrow> accepted_run bs s p \<Longrightarrow> accepted_run bs t p"
  unfolding accepted_run_def using recorded_later by blast

lemma note_step:
  assumes "stage_when c (note_finding code d p) s = (Inr a, t)"
  shows "extends s t" "clean t \<Longrightarrow> finding_meaning_of code \<noteq> ADVISORY \<Longrightarrow> \<not> c"
  using keptD [OF growing.kept_when [OF growing.kept_note] assms] note_clean [OF assms] by auto

lemma verification_records:
  assumes "verification_loop E C bs ps ds s = (Inr vs, t)" "clean t"
  shows "\<forall>p \<in> set ps. accepted_run bs t p"
  using assms(1)
proof (induction ps arbitrary: ds s)
  case (Cons p ps)
  obtain r s1 b k base s2 s3 s4 s5 where run: "checked_run E C VERIFICATION_TREE p s = (Inr r, s1)"
    and b: "map_of bs p = Some b" and k: "sr_counts r = Some k" and base: "sr_counts b = Some base"
    and n1: "mutated_note (check_kind_value p) r s1 = (Inr (), s2)" and n2: "failed_note (check_kind_value p) r k s2 = (Inr (), s3)"
    and n3: "skipped_note (check_kind_value p) k base s3 = (Inr (), s4)"
    and n4: "missing_note (check_kind_value p) k base s4 = (Inr (), s5)"
    and rest: "verification_loop E C bs ps (ds @ [(p, r)]) s5 = (Inr vs, t)"
    using Cons.prems unfolding verification_loop.simps Let_def
    by (auto simp: stage_escape_def split: option.splits prod.splits elim!: bind_returned)
  have last: "extends s5 t" by (rule keptD [OF growing.kept_verification rest])
  note e4 = note_step [OF n4 [unfolded missing_note_def]] and e3 = note_step [OF n3 [unfolded skipped_note_def]]
    and e2 = note_step [OF n2 [unfolded failed_note_def]] and e1 = note_step [OF n1 [unfolded mutated_note_def]]
  have c5: "clean s5" using last assms(2) clean_back by blast
  then have c4: "clean s4" using e4(1) clean_back by blast
  then have c3: "clean s3" using e3(1) clean_back by blast
  then have c2: "clean s2" using e2(1) clean_back by blast
  have checks: "tree_unchanged r" "\<not> (sr_status r = EXEC_FAILED \<or> ct_failed k \<noteq> 0 \<or> ct_errors k \<noteq> 0)"
    "\<not> (ct_skipped base < ct_skipped k \<or> ct_xfailed base < ct_xfailed k)"
    "\<not> (total_tests k < total_tests base \<or> ct_deselected base < ct_deselected k \<or> total_tests k = 0)"
    using e1(2) [OF c2] e2(2) [OF c3] e3(2) [OF c4] e4(2) [OF c5] by (simp_all add: finding_meaning_of_def)
  have "no_worse b r" using checks by (auto simp: no_worse_def k base)
  moreover have "sr_status r = EXEC_PASSED" using checked_records(2) [OF run] checks(2) by auto
  moreover have "extends s1 t" using e1(1) e2(1) e3(1) e4(1) last extends_trans by blast
  ultimately have "accepted_run bs t p"
    using b checks(1) recorded_later [OF _ checked_records(1) [OF run]] unfolding accepted_run_def by blast
  then show ?case using Cons.IH [OF rest] by simp
qed simp

section \<open>The whole review\<close>

lemma unescaped_review:
  assumes "sentinel_review E C r w = (Inr v, s)" "sv_verdict v = Review_Passed"
  obtains s0 s' started now where "review_stages E C r s0 = (Inr (), s')" "clean s'" "v = sentinel_verdict_of E C r s' started now" "verdict_error v = None"
proof -
  obtain started w1 x s' now where
      stages: "review_stages E C r \<lparr>sq_world = w1, sq_pristine = [], sq_candidate = [], sq_findings = [], sq_runs = [],
        sq_integrity = None, sq_agree = None\<rparr> = (x, s')" (is "_ ?init = _")
    and x: "\<forall>e. x \<noteq> Inl (Escape e)" and v: "v = sentinel_verdict_of E C r s' started now" and ok: "verdict_built v"
    using assms(1) unfolding sentinel_review_def Let_def
    by (auto split: prod.splits sum.splits sq_raise.splits if_splits)
  have "verdict_for (set (map sf_meaning (sv_findings v))) = Review_Passed"
    using assms(2) by (simp add: v sentinel_verdict_of_def Let_def image_image)
  then have advisory: "UNVERIFIABLE \<notin> set (map sf_meaning (sv_findings v))" "REJECTION \<notin> set (map sf_meaning (sv_findings v))"
    by (auto simp: verdict_for_def split: if_splits)
  have clean: "clean s'"
    unfolding clean_def list_all_iff decisive_def
  proof (intro ballI notI)
    fix f assume f: "f \<in> set (sq_findings s')" and "finding_meaning_of (nf_code f) \<noteq> ADVISORY"
    moreover have "finding_meaning_of (nf_code f) \<in> set (map sf_meaning (sv_findings v))"
    proof -
      have "f \<in> snd ` set (enumerate 0 (sq_findings s'))" using f by (metis map_snd_enumerate list.set_map)
      then obtain i where "(i, f) \<in> set (enumerate 0 (sq_findings s'))" by auto
      then have "sf_meaning (typed_finding E C (i, f)) \<in> set (map sf_meaning (sv_findings v))"
        by (simp add: v sentinel_verdict_of_def Let_def)
      then show ?thesis by (simp add: typed_finding_def Let_def)
    qed
    ultimately show False using advisory by (metis finding_meaning.exhaust)
  qed
  have "explained (review_stages E C r)"
    unfolding review_stages_def by (auto split: patch_outcome.splits option.splits intro!: explained_intro)
  then have unstopped: "x \<noteq> Inl Stop_Review" using stages clean by (auto simp: explained_def)
  have "x = Inr ()"
  proof (cases x)
    case (Inl e)
    then show ?thesis using x unstopped by (cases e) auto
  qed simp
  then show ?thesis using that stages clean v ok by (auto simp: verdict_built_def)
qed

lemma same_comparison: "kept (\<lambda>s t. sq_integrity s = sq_integrity t) m \<Longrightarrow> m s = (x, t) \<Longrightarrow> sq_integrity t = sq_integrity s"
  by (simp add: kept_def)

definition within_bounds :: "'w sq_env \<Rightarrow> sq_config \<Rightarrow> ustr \<Rightarrow> bool" where
  "within_bounds E C p \<longleftrightarrow> \<not> path_matches p (protected_paths (sc_profile C)) \<and> \<not> is_sensitive_path (sq_casefold E) p
     \<and> \<not> is_evaluation_config_path p"

lemma review_chain:
  assumes "review_stages E C r s0 = (Inr (), s')" "clean s'"
  obtains d patch g bs where "pr_outcome r = PATCH_PROPOSED" "pr_diff r = Some d" "identity_problems E C r d = []"
    "env_sha256 E patch = ds_sha256 d"
    "harness_tampering_lines (sq_search E) (is_specification C) (sq_decode_replace E patch) = []"
    "\<forall>p \<in> set (ds_changed_files d). within_bounds E C p" "sq_integrity s' = Some g"
    "set (si_candidate_changes g) \<subseteq> set (ds_changed_files d)"
    "\<forall>(p, b) \<in> set bs. recorded_run s' PRISTINE_TREE p b \<and> tree_unchanged b" "\<forall>p \<in> set verification_purposes. accepted_run bs s' p"
proof -
  obtain d where d: "pr_outcome r = PATCH_PROPOSED" "pr_diff r = Some d"
    using assms(1) by (auto simp: review_stages_def split: patch_outcome.splits option.splits)
  obtain s1 s2 patch s3 s4 s5 bs s6 s7 changed s8 s9 g restore remove s10 s11 g' s12 vs s13 s14 where
      r1: "check_identity E C r d s0 = (Inr (), s1)" and r2: "stop_if_unverifiable s1 = (Inr (), s2)"
    and r3: "read_patch E d s2 = (Inr patch, s3)" and r4: "materialize_trees E (ds_base_sha d) s3 = (Inr (), s4)"
    and r5: "verify_pristine_reference E C s4 = (Inr (), s5)" and r6: "baseline_runs E C s5 = (Inr bs, s6)"
    and r7: "apply_patch_file E patch s6 = (Inr (), s7)" and r8: "candidate_changes E s7 = (Inr changed, s8)"
    and r9: "check_recorded_changes d changed s8 = (Inr (), s9)"
    and r10: "inspect_integrity E C changed s9 = (Inr (g, restore, remove), s10)"
    and r11: "check_harness_tampering E C patch s10 = (Inr (), s11)"
    and r12: "build_verification_tree E C g restore remove s11 = (Inr g', s12)"
    and r13: "verification_loop E C bs verification_purposes [] s12 = (Inr vs, s13)"
    and r14: "cross_check r vs g' s13 = (Inr (), s14)"
    and r15: "stage_when (list_all (\<lambda>f. finding_meaning_of (nf_code f) = ADVISORY) (sq_findings s14)) (check_runner_integrity E C) s14 = (Inr (), s')"
    using assms(1) d by atomize_elim (auto simp: review_stages_def reading_def split: if_splits elim!: bind_returned)
  have last: "kept extends (stage_when c (check_runner_integrity E C))" for c by (intro frame_intro)
  have e15: "extends s14 s'" by (rule keptD [OF last r15])
  have e14: "extends s13 s'" using extends_trans [OF keptD [OF growing.kept_cross r14] e15] .
  have e13: "extends s12 s'" using extends_trans [OF keptD [OF growing.kept_verification r13] e14] .
  have e12: "extends s11 s'" using extends_trans [OF keptD [OF kept_build r12] e13] .
  have e11: "extends s10 s'" using extends_trans [OF keptD [OF growing.kept_tampering r11] e12] .
  have e10: "extends s9 s'" using extends_trans [OF keptD [OF kept_inspect r10] e11] .
  have e9: "extends s8 s'" using extends_trans [OF keptD [OF growing.kept_recorded r9] e10] .
  have e8: "extends s7 s'" using extends_trans [OF keptD [OF growing.kept_changes r8] e9] .
  have e7: "extends s6 s'" using extends_trans [OF keptD [OF growing.kept_apply r7] e8] .
  have e6: "extends s5 s'" using extends_trans [OF keptD [OF growing.kept_baseline r6] e7] .
  have e5: "extends s4 s'" using extends_trans [OF keptD [OF growing.kept_reference r5] e6] .
  have e4: "extends s3 s'" using extends_trans [OF keptD [OF growing.kept_trees r4] e5] .
  have e3: "extends s2 s'" using extends_trans [OF keptD [OF growing.kept_patch r3] e4] .
  have e2: "extends s1 s'" using extends_trans [OF keptD [OF growing.kept_unverifiable r2] e3] .
  note clean_at = clean_back [OF _ assms(2)]
  note found = inspected [OF r10 clean_at [OF e11]]
  have changed: "set changed = set (ds_changed_files d)" by (rule recorded_clean [OF r9 clean_at [OF e10]])
  have "sq_integrity s12 = Some g'" "si_candidate_changes g' = take 1000 changed" using built [OF r12] found by simp_all
  moreover have "sq_integrity s13 = sq_integrity s12" by (rule same_comparison [OF comparing.kept_verification r13])
  moreover have "sq_integrity s14 = sq_integrity s13" by (rule same_comparison [OF comparing.kept_cross r14])
  moreover have "sq_integrity s' = sq_integrity s14"
    by (rule same_comparison [OF comparing.kept_when [OF comparing.kept_integrity_check] r15])
  ultimately have g: "sq_integrity s' = Some g'" "set (si_candidate_changes g') \<subseteq> set (ds_changed_files d)"
    using changed set_take_subset by fastforce+
  have within: "\<forall>p \<in> set (ds_changed_files d). within_bounds E C p"
    using found(1-3) by (auto simp: within_bounds_def filter_empty_conv simp flip: changed)
  have base: "\<forall>(p, b) \<in> set bs. recorded_run s6 PRISTINE_TREE p b \<and> tree_unchanged b"
  proof -
    obtain ps where "baseline_loop E C ps [] s5 = (Inr bs, s6)"
      using r6 unfolding baseline_runs_def Let_def by (simp del: baseline_loop.simps filter.simps split: if_splits)
    then show ?thesis by (rule baseline_records) simp
  qed
  then have base': "\<forall>(p, b) \<in> set bs. recorded_run s' PRISTINE_TREE p b \<and> tree_unchanged b"
    using recorded_later [OF e7] by blast
  have "\<forall>p \<in> set verification_purposes. accepted_run bs s' p"
    using verification_records [OF r13 clean_at [OF e14]] accepted_later [OF e14] by blast
  from that [OF d identity_clean [OF r1 clean_at [OF e2]] patch_read(1) [OF r3] tampering_clean(1) [OF r11 clean_at [OF e12]]
    within g base' this] show ?thesis .
qed

end
