(* ===== verification/SentinelDemo.thy ===== *)
theory SentinelDemo
  imports SentinelPassed PatchForgeDemo
begin

text \<open>
  A small review that passes, on which the properties are tried: one locked test, a candidate that adds one file, a
  runner that reports one passed test and the planted failure. Git answers by its subcommand, the digest is constant.
\<close>

section \<open>The small review\<close>

definition demo_spec_path :: ustr where "demo_spec_path = lit ''t/test_a.py''"

definition demo_base_tree :: sq_tree where
  "demo_base_tree = [(lit ''t'', Folder_Node), (demo_spec_path, Regular_Node ''x'' False)]"

definition demo_candidate_tree :: sq_tree where
  "demo_candidate_tree = (lit ''a.py'', Regular_Node ''y'' False) # demo_base_tree"

definition demo_sq_profile :: repository_profile where
  "demo_sq_profile = demo_profile\<lparr>test_path_prefixes := [lit ''t'']\<rparr>"

definition demo_lock :: specification_lock where
  "demo_lock = \<lparr>lk_url = repository_url demo_source, lk_source_sha = demo_commit, lk_profile_id = ''p'', lk_profile_sha256 = demo_sha,
     lk_prefixes = [lit ''t''], lk_entries = [\<lparr>en_path = demo_spec_path, en_kind = SPEC_TEST, en_executable = False, en_sha256 = demo_sha,
       en_size = 1\<rparr>], lk_captured_at = 0\<rparr>"

definition demo_sq_config :: sq_config where
  "demo_sq_config = \<lparr>sc_task = demo_pf_task, sc_profile = demo_sq_profile, sc_lock = demo_lock, sc_review_id = 7, sc_additional = []\<rparr>"

definition demo_canary :: runner_canary where
  "demo_canary = \<lparr>ca_directory = lit ''t'', ca_token = ''aaaaaaaaaaaaaaaa''\<rparr>"

definition demo_passing :: string where "demo_passing = ''1 passed in 0.01s''"

definition demo_failing :: string where
  "demo_failing = ''FAILED t/test_sentinelqa_canary_aaaaaaaaaaaaaaaa.py::test_sentinelqa_canary_aaaaaaaaaaaaaaaa''
     @ newline @ ''1 failed, 1 passed in 0.01s'' @ newline"

definition demo_run_of :: "uuid \<Rightarrow> uuid \<Rightarrow> bool \<Rightarrow> sandbox_execution" where
  "demo_run_of r c planted = \<lparr>sx_execution_id = c, sx_run_id = r, sx_call_id = c,
     sx_status = (if planted then SANDBOX_FAILED_RUN else SANDBOX_SUCCEEDED), sx_exit_code = Some (if planted then 1 else 0),
     sx_stdout = (if planted then demo_failing else demo_passing), sx_stderr = [], sx_truncated = False, sx_command_sha256 = demo_sha,
     sx_policy_sha256 = demo_sha, sx_started_at = 0, sx_completed_at = 0, sx_error_code = None\<rparr>"

definition demo_sq_env :: "unit sq_env" where
  "demo_sq_env = \<lparr>env_nfc = id, env_sha256 = (\<lambda>_. demo_sha), env_uuid5 = (\<lambda>i s. length s), env_iso = (\<lambda>t. ''t''),
     sq_casefold = id, sq_decode = (\<lambda>s. Some (lit s)), sq_decode_replace = lit,
     sq_digit = (\<lambda>c. if 48 \<le> c \<and> c \<le> 57 then Some (c - 48) else None), sq_integer = (\<lambda>s. Some 1), sq_search = (\<lambda>p s. False),
     sq_now = (\<lambda>w. (0, w)),
     sq_git = (\<lambda>name args t w. if lit ''checkout'' \<in> set args then (Inr [], demo_base_tree, w)
        else if lit ''apply'' \<in> set args then (Inr [], demo_candidate_tree, w)
        else if lit ''diff'' \<in> set args then (Inr (''a.py'' @ [CHR 0x00]), t, w) else (Inr demo_commit, t, w)),
     sq_bare_git = (\<lambda>name args w. (if lit ''ls-tree'' \<in> set args then Inr (''100644 blob b 1'' @ [CHR 0x09] @ ''t/test_a.py'' @ [CHR 0x00])
        else if lit ''cat-file'' \<in> set args then Inr ''x'' else Inr demo_commit, w)),
     sq_folders = (\<lambda>name w. (Inr (), w)), sq_save_patch = (\<lambda>s w. (Inr (), w)), sq_artifact = (\<lambda>a w. (Inr ''d'', w)),
     sq_sandbox = (\<lambda>r c cmd p t w. (Inr (demo_run_of r c (tree_get t (canary_path demo_canary) \<noteq> None)), t, w)),
     sq_linked = (\<lambda>op p t w. (Inr (), t, w))\<rparr>"

definition demo_summary :: diff_summary where
  "demo_summary = \<lparr>ds_base_sha = demo_commit, ds_head_sha = demo_commit, ds_sha256 = demo_sha,
     ds_artifact = \<lparr>artifact_type = ''patch'', artifact_uri = lit ''u'', artifact_sha256 = demo_sha\<rparr>, ds_changed_files = [lit ''a.py''],
     ds_line_additions = 1, ds_line_deletions = 0, ds_binary_files = [], ds_protected = [], ds_scope = [], ds_tests = []\<rparr>"

definition demo_candidate :: pf_result where
  "demo_candidate = \<lparr>pr_identity = demo_identity, pr_outcome = PATCH_PROPOSED, pr_phase_reached = PF_CLOSED, pr_report = demo_report,
     pr_tool_calls = [], pr_executions = [], pr_reproduction = None, pr_checks = [], pr_diff = Some demo_summary, pr_findings = [],
     pr_usage = demo_usage, pr_failure = None, pr_started_at = 0, pr_completed_at = 0\<rparr>"

section \<open>Its parts\<close>

definition one_passed :: specification_counts where "one_passed = no_counts\<lparr>ct_passed := 1\<rparr>"

lemma review_digit: "sq_digit demo_sq_env = (\<lambda>c. if 48 \<le> c \<and> c \<le> 57 then Some (c - 48) else None)"
  by (simp add: demo_sq_env_def)

lemmas text_code = lit_def py_strip_def strip_of_def py_space_def splitlines_def line_boundary_def after_digits_def after_char_def
  after_spaces_def after_word_def after_seconds_def after_duration_def parenthesised_end_def duration_suffix_def ends_with_def

lemmas summary_code = text_code parse_pytest_summary_def no_tests_line_def field_words_def field_of_def digits_value_def parse_token_def
  counted_as_def counts_of_def parse_summary_line_def

lemma review_counts:
  "parse_pytest_summary (sq_digit demo_sq_env) (lit demo_passing) = Some one_passed"
  "parse_pytest_summary (sq_digit demo_sq_env) (lit demo_failing) = Some (one_passed\<lparr>ct_failed := 1\<rparr>)"
  unfolding review_digit
  by (simp_all add: summary_code demo_passing_def demo_failing_def newline_def one_passed_def no_counts_def)

lemma review_reported: "reported_failed demo_canary (lit demo_failing)"
  by (simp add: text_code reported_failed_def failed_node_def demo_failing_def newline_def canary_node_def canary_path_def
      canary_function_def demo_canary_def)

lemma review_token: "take 16 demo_sha = ''aaaaaaaaaaaaaaaa''"
  by (simp add: demo_sha_def numeral_eq_Suc)

lemma review_plants: "review_canary (\<lambda>_. demo_sha) 7 demo_lock = Some demo_canary"
  by (simp add: review_canary_def demo_canary_def review_token canary_directory_def module_directories_def demo_lock_def demo_spec_path_def
      test_module_def text_code)


lemma sq_answers:
  "env_sha256 demo_sq_env s = demo_sha" "sq_now demo_sq_env w = (0, w)" "sq_folders demo_sq_env name w = (Inr (), w)"
  "sq_save_patch demo_sq_env s w = (Inr (), w)" "sq_artifact demo_sq_env a w = (Inr ''d'', w)" "sq_decode demo_sq_env s = Some (lit s)"
  "sq_decode_replace demo_sq_env s = lit s" "sq_search demo_sq_env p u = False" "sq_casefold demo_sq_env = id"
  "sq_sandbox demo_sq_env r c cmd sp t w = (Inr (demo_run_of r c (tree_get t (canary_path demo_canary) \<noteq> None)), t, w)"
  by (simp_all add: demo_sq_env_def)

lemma review_digest: "digest_of demo_sq_env j = demo_sha"
  by (simp add: digest_of_def canonical_sha256_def sq_answers)

lemma commit_head: "CHR ''c'' # s \<noteq> demo_commit @ t" "CHR ''a'' # s \<noteq> demo_commit @ t" "CHR ''d'' # s \<noteq> demo_commit @ t"
  "CHR ''c'' # s \<noteq> demo_commit"
  by (simp_all add: demo_commit_def numeral_eq_Suc)

lemma unit_world: "s\<lparr>sq_world := ()\<rparr> = s" for s :: "unit sentinel"
  by (cases s) simp

lemma git_answers:
  "git_in demo_sq_env tree args s =
     (if lit ''checkout'' \<in> set args then (Inr [], set_tree tree demo_base_tree s)
      else if lit ''apply'' \<in> set args then (Inr [], set_tree tree demo_candidate_tree s)
      else if lit ''diff'' \<in> set args then (Inr (''a.py'' @ [CHR 0x00]), s) else (Inr demo_commit, s))"
proof -
  have same: "set_tree tree (tree_of tree s) s = s" by (simp add: set_tree_def tree_of_def split: specification_tree.splits)
  have git: "sq_git demo_sq_env name all t w = (if lit ''checkout'' \<in> set all then (Inr [], demo_base_tree, w)
        else if lit ''apply'' \<in> set all then (Inr [], demo_candidate_tree, w)
        else if lit ''diff'' \<in> set all then (Inr (''a.py'' @ [CHR 0x00]), t, w) else (Inr demo_commit, t, w))" for name all t w
    by (simp add: demo_sq_env_def)
  show ?thesis by (simp add: git_in_def on_tree_def git same unit_world)
qed

lemma review_git:
  "git_in demo_sq_env tree [lit ''rev-parse'', lit ''--verify'', lit (demo_commit @ s)] x = (Inr demo_commit, x)"
  "git_in demo_sq_env tree [lit ''rev-parse'', lit ''HEAD''] x = (Inr demo_commit, x)"
  "git_in demo_sq_env tree [lit ''checkout'', lit ''--force'', lit ''--detach'', lit demo_commit, lit ''--''] x = (Inr [], set_tree tree demo_base_tree x)"
  "git_in demo_sq_env tree (map lit [''apply'', ''--binary'', ''--whitespace=nowarn'', ''--'', ''candidate.patch'']) x
     = (Inr [], set_tree tree demo_candidate_tree x)"
  "git_in demo_sq_env tree (map lit [''read-tree'', ''HEAD'']) x = (Inr demo_commit, x)"
  "git_in demo_sq_env tree (map lit [''add'', ''--intent-to-add'', ''--'', ''.'']) x = (Inr demo_commit, x)"
  "git_in demo_sq_env tree (map lit [''diff'', ''--name-only'', ''-z'', ''HEAD'', ''--'']) x = (Inr (''a.py'' @ [CHR 0x00]), x)"
  by (simp_all add: git_answers commit_head)

lemma demo_commit_text: "py_strip (lit demo_commit) = lit demo_commit"
proof -
  have none: "strip_of P u = u" if "\<forall>c \<in> set u. \<not> P c" for P u
  proof -
    have drop: "dropWhile P v = v" if "\<forall>c \<in> set v. \<not> P c" for v using that by (cases v) auto
    show ?thesis using that by (simp add: strip_of_def drop)
  qed
  show ?thesis unfolding py_strip_def by (rule none) (simp add: demo_commit_def lit_def py_space_def)
qed

lemma few_files: "length rs \<le> max_tree_files \<Longrightarrow> \<not> too_many rs"
  by (simp add: too_many_def)

lemmas walk_code = walk_tree_def few_files max_tree_files_def map_filter_simps walk_record_def entered_def compiled_def mode_text_def
  ignored_directories_def walk_key_def text_code sort_key_def insort_key_def demo_base_tree_def demo_candidate_tree_def demo_spec_path_def

lemma review_walks:
  "walk_tree demo_base_tree = Inr [(demo_spec_path, ''100644'', ''x'')]"
  "walk_tree demo_candidate_tree = Inr [(lit ''a.py'', ''100644'', ''y''), (demo_spec_path, ''100644'', ''x'')]"
  "\<exists>rs. walk_tree ((canary_path demo_canary, Regular_Node c False) # demo_candidate_tree) = Inr rs"
  by (simp_all add: walk_code canary_path_def demo_canary_def canary_function_def)

lemma review_compare:
  "compare_tree demo_sq_env demo_lock demo_base_tree = ([], [], [])"
  "compare_tree demo_sq_env demo_lock demo_candidate_tree = ([], [], [])"
  by (simp_all add: compare_tree_def demo_lock_def entry_state_def inspect_file_def through_link_def ancestors_def is_link_def tree_get_def
      demo_base_tree_def demo_candidate_tree_def demo_spec_path_def lit_def sq_answers)

lemma review_specification:
  "specification_files demo_sq_profile [] demo_base_tree = Inr [demo_spec_path]"
  "specification_files demo_sq_profile [] demo_candidate_tree = Inr [demo_spec_path]"
  by (simp_all add: specification_files_def review_walks rbind_def classify_specification_path_def demo_sq_profile_def path_matches_def
      is_evaluation_config_path_def evaluation_config_names_def evaluation_config_directories_def demo_spec_path_def text_code)

lemma review_fingerprint:
  "tree_sha256 demo_sq_env demo_base_tree = Inr demo_sha"
  "tree_sha256 demo_sq_env demo_candidate_tree = Inr demo_sha"
  "tree_sha256 demo_sq_env ((canary_path demo_canary, Regular_Node c False) # demo_candidate_tree) = Inr demo_sha"
  using review_walks(3) [of c] by (auto simp: tree_sha256_def review_walks(1,2) rbind_def review_digest)

section \<open>Its runs\<close>

definition demo_spec_run :: "nat \<Rightarrow> specification_tree \<Rightarrow> check_kind \<Rightarrow> bool \<Rightarrow> specification_run" where
  "demo_spec_run n tree purpose planted = \<lparr>sr_review_id = 7, sr_sequence = n, sr_tree = tree, sr_purpose = purpose,
     sr_command_sha256 = demo_sha, sr_policy_sha256 = demo_sha, sr_status = (if planted then EXEC_FAILED else EXEC_PASSED),
     sr_exit_code = Some (if planted then 1 else 0), sr_counts = Some (if planted then one_passed\<lparr>ct_failed := 1\<rparr> else one_passed),
     sr_before = demo_sha, sr_after = demo_sha, sr_stdout_sha256 = demo_sha, sr_stderr_sha256 = demo_sha, sr_truncated = False,
     sr_started_at = 0, sr_completed_at = 0,
     sr_canary = (if planted then Some \<lparr>cr_path = canary_path demo_canary, cr_sha256 = demo_sha, cr_reported_failed = True\<rparr> else None)\<rparr>"

lemma review_config:
  "sc_review_id demo_sq_config = 7" "sc_lock demo_sq_config = demo_lock" "sc_profile demo_sq_config = demo_sq_profile"
  "sc_additional demo_sq_config = []" "sc_task demo_sq_config = demo_pf_task"
  by (simp_all add: demo_sq_config_def)

lemma review_commands:
  "profile_command demo_sq_profile TARGETED_TESTS = Some demo_command" "profile_command demo_sq_profile FULL_TEST_SUITE = Some demo_command"
  "profile_command demo_sq_profile REPRODUCTION = None"
  by (simp_all add: demo_sq_profile_def profile_command_def demo_profile_def demo_command_def)

lemma no_canary: "tree_get demo_base_tree (canary_path demo_canary) = None" "tree_get demo_candidate_tree (canary_path demo_canary) = None"
  by (simp_all add: tree_get_def demo_base_tree_def demo_candidate_tree_def demo_spec_path_def canary_path_def demo_canary_def
      canary_function_def lit_def)

lemma canary_path_ok: "path_ok (canary_path demo_canary)"
  by code_simp

lemma demo_run_ok: "run_ok (demo_spec_run (Suc n) tree purpose False)" "run_ok (demo_spec_run (Suc n) tree FULL_TEST_SUITE True)"
  by (simp_all add: run_ok_def demo_spec_run_def demo_hashes opt_ok_def canary_record_ok_def canary_path_ok)

lemma review_run:
  assumes "tree_of tree s \<in> {demo_base_tree, demo_candidate_tree}" "purpose \<in> set verification_purposes"
  shows "runner_run demo_sq_env demo_sq_config tree purpose None s =
     (Inr (demo_spec_run (Suc (length (sq_runs s))) tree purpose False),
      s\<lparr>sq_runs := sq_runs s @ [demo_spec_run (Suc (length (sq_runs s))) tree purpose False]\<rparr>)"
proof -
  have sha: "tree_sha256 demo_sq_env (tree_of tree s) = Inr demo_sha" "tree_get (tree_of tree s) (canary_path demo_canary) = None"
    using assms(1) by (auto simp: review_fingerprint no_canary)
  have command: "profile_command demo_sq_profile purpose = Some demo_command"
    using assms(2) by (auto simp: verification_purposes_def review_commands)
  have same: "set_tree tree (tree_of tree s) s = s" by (simp add: set_tree_def tree_of_def split: specification_tree.splits)
  show ?thesis
    by (simp add: runner_run_def review_config command fingerprinted_run_def sha sq_answers demo_run_of_def run_record_def Let_def
        review_digest review_counts demo_run_ok [unfolded demo_spec_run_def, simplified] demo_spec_run_def same unit_world)
qed

lemma review_probe:
  assumes "sq_candidate s = demo_candidate_tree"
  shows "runner_run demo_sq_env demo_sq_config VERIFICATION_TREE FULL_TEST_SUITE (Some demo_canary) s =
     (Inr (demo_spec_run (Suc (length (sq_runs s))) VERIFICATION_TREE FULL_TEST_SUITE True),
      s\<lparr>sq_runs := sq_runs s @ [demo_spec_run (Suc (length (sq_runs s))) VERIFICATION_TREE FULL_TEST_SUITE True]\<rparr>)"
proof -
  have link: "\<not> through_link t (canary_path demo_canary)" if "t = demo_candidate_tree \<or> t = (canary_path demo_canary, n) # demo_candidate_tree" for t n
    using that by (auto simp: through_link_def ancestors_def is_link_def tree_get_def demo_candidate_tree_def demo_base_tree_def
      canary_path_def demo_canary_def canary_function_def lit_def)
  have plant: "plant_canary demo_canary demo_candidate_tree = Inr ((canary_path demo_canary, Regular_Node (canary_content demo_canary) False) # demo_candidate_tree)"
    by (simp add: plant_canary_def no_canary is_folder_def tree_get_def ancestors_def tree_set_def tree_delete_def demo_candidate_tree_def
      demo_base_tree_def demo_spec_path_def canary_path_def demo_canary_def canary_function_def lit_def)
  have unlink: "unlink_file demo_sq_env (canary_path demo_canary) ((canary_path demo_canary, Regular_Node x False) # demo_candidate_tree) w
     = (Inr (), demo_candidate_tree, w)" for x w
    using link no_canary(2) by (simp add: unlink_file_def tree_get_def tree_delete_def)
      (simp add: demo_candidate_tree_def demo_base_tree_def demo_spec_path_def canary_path_def demo_canary_def canary_function_def lit_def)
  have same: "s\<lparr>sq_candidate := demo_candidate_tree\<rparr> = s" using assms by (cases s) simp
  show ?thesis
    by (simp add: runner_run_def review_config review_commands fingerprinted_run_def plant unlink assms review_fingerprint sq_answers
        demo_run_of_def run_record_def Let_def tree_get_def review_reported tree_of_def set_tree_def
        review_digest review_counts demo_run_ok [unfolded demo_spec_run_def, simplified] demo_spec_run_def same unit_world)
qed

section \<open>Its stages\<close>

lemmas stage_code = stage_bind_def stage_ret_def stage_when_def reading_def on_world_def stopping_on_def unit_world

lemma review_identity: "check_identity demo_sq_env demo_sq_config demo_candidate demo_summary s = (Inr (), s)"
  by (simp add: check_identity_def identity_problems_def problem_if_def Let_def review_config review_digest demo_candidate_def demo_summary_def
      demo_identity_def demo_pf_task_def demo_lock_def demo_sq_profile_def demo_source_def stage_ret_def)

lemma review_patch: "read_patch demo_sq_env demo_summary s = (Inr ''d'', s)"
  by (simp add: read_patch_def stage_code sq_answers demo_summary_def)

lemma review_materialize:
  "materialize_trees demo_sq_env demo_commit s = (Inr (), s\<lparr>sq_pristine := demo_base_tree, sq_candidate := demo_base_tree\<rparr>)"
proof -
  have bare: "sq_bare_git demo_sq_env name (map lit [''clone'', ''--bare'', ''--no-hardlinks'', ''--no-tags'', ''--'']) w = (Inr demo_commit, w)" for name w
    by (simp add: demo_sq_env_def)
  have control: "tree_get demo_base_tree (lit ''.git'') = None"
    by (simp add: tree_get_def demo_base_tree_def demo_spec_path_def)
  show ?thesis
    by (simp add: materialize_trees_def materialize_def stage_code sq_answers bare [simplified] review_git demo_commit_text control tree_of_def
        set_tree_def lit_append [symmetric] del: lit_append) 
qed

lemma listing_parsed:
  "map_results (parse_tree_record demo_sq_env) (filter (\<lambda>r. r \<noteq> []) (split_on (CHR 0x00) (''100644 blob b 1'' @ [CHR 0x09] @ ''t/test_a.py'' @ [CHR 0x00])))
     = Inr [\<lparr>to_mode = ''100644'', to_type = ''blob'', to_name = ''b'', to_path = demo_spec_path\<rparr>]"
  by (simp add: parse_tree_record_def Let_def py_space_def sq_answers demo_spec_path_def) (simp add: demo_sq_env_def)

lemma demo_spec_path_ok: "path_ok demo_spec_path" "repository_path demo_spec_path = Inr demo_spec_path" "bounded 1 500 demo_spec_path"
  by code_simp+

lemma demo_spec_kind: "classify_specification_path demo_sq_profile [] demo_spec_path = Some SPEC_TEST"
  by (simp add: classify_specification_path_def demo_sq_profile_def path_matches_def demo_spec_path_def lit_def)

lemma demo_lock_ok: "lock_ok demo_lock"
  by (simp add: lock_ok_def demo_lock_def demo_hashes bounded_def entry_ok_def demo_spec_path_ok valid_identifier_def) code_simp

lemma review_lock:
  "capture_lock demo_sq_env demo_sq_profile [] demo_commit 0 (sq_bare_git demo_sq_env name) w = (Inr demo_lock, w)"
proof -
  have git: "sq_bare_git demo_sq_env name args w = (if lit ''ls-tree'' \<in> set args then Inr (''100644 blob b 1'' @ [CHR 0x09] @ ''t/test_a.py'' @ [CHR 0x00])
        else if lit ''cat-file'' \<in> set args then Inr ''x'' else Inr demo_commit, w)" for args w
    by (simp add: demo_sq_env_def)
  have other: "''ls-tree'' \<noteq> demo_commit @ t" "''cat-file'' \<noteq> demo_commit @ t" for t by (simp_all add: demo_commit_def numeral_eq_Suc)
  have head: "sq_bare_git demo_sq_env name [lit ''rev-parse'', lit ''--verify'', lit (demo_commit @ ''^{commit}'')] v = (Inr demo_commit, v)" for v
    unfolding git by (simp add: other)
  have tree: "sq_bare_git demo_sq_env name [lit ''ls-tree'', lit ''-r'', lit ''-l'', lit ''-z'', lit demo_commit, lit ''--''] v
      = (Inr (''100644 blob b 1'' @ [CHR 0x09] @ ''t/test_a.py'' @ [CHR 0x00]), v)" for v
    unfolding git by simp
  have blob: "sq_bare_git demo_sq_env name [lit ''cat-file'', lit ''blob'', lit ''b''] v = (Inr ''x'', v)" for v
    unfolding git by simp
  have made: "\<lparr>lk_url = profile_url demo_sq_profile, lk_source_sha = demo_commit, lk_profile_id = profile_id demo_sq_profile,
      lk_profile_sha256 = demo_sha, lk_prefixes = test_path_prefixes demo_sq_profile,
      lk_entries = [\<lparr>en_path = demo_spec_path, en_kind = SPEC_TEST, en_executable = False, en_sha256 = demo_sha, en_size = 1\<rparr>], lk_captured_at = 0\<rparr> = demo_lock"
    by (simp add: demo_lock_def demo_sq_profile_def demo_profile_def)
  show ?thesis
    unfolding capture_lock_def
    by (simp add: head tree [simplified] sq_answers demo_commit_text listing_parsed [simplified] demo_spec_kind demo_spec_path_ok demo_spec_path_ok(3) [simplified] blob max_specification_bytes_def
        max_specification_entries_def review_digest made [simplified] demo_lock_ok Let_def)
qed

lemma lock_parts: "lk_source_sha demo_lock = demo_commit" "lk_captured_at demo_lock = 0" "locked_paths demo_lock = [demo_spec_path]"
  by (simp_all add: demo_lock_def locked_paths_def)

lemma review_reference:
  "sq_pristine s = demo_base_tree \<Longrightarrow> verify_pristine_reference demo_sq_env demo_sq_config s = (Inr (), s)"
  by (simp add: verify_pristine_reference_def Let_def stage_code review_config review_compare lock_parts review_lock [simplified]
      problem_finding_def)

lemma review_changes: "candidate_changes demo_sq_env s = (Inr [lit ''a.py''], s)"
  by (simp add: candidate_changes_def stage_code review_git [simplified] stage_result_def decoded_names_def sq_answers)

lemma checked_once:
  assumes "tree_of tree s \<in> {demo_base_tree, demo_candidate_tree}" "purpose \<in> set verification_purposes"
  shows "checked_run demo_sq_env demo_sq_config tree purpose s =
     (Inr (demo_spec_run (Suc (length (sq_runs s))) tree purpose False),
      s\<lparr>sq_runs := sq_runs s @ [demo_spec_run (Suc (length (sq_runs s))) tree purpose False]\<rparr>)"
  by (simp add: checked_run_def Let_def stopping_on_def stage_bind_def review_run [OF assms] stage_ret_def)
    (simp add: demo_spec_run_def one_passed_def no_counts_def)

definition demo_run_pair :: "specification_tree \<Rightarrow> nat \<Rightarrow> runs_by_purpose" where
  "demo_run_pair tree n = [(TARGETED_TESTS, demo_spec_run n tree TARGETED_TESTS False), (FULL_TEST_SUITE, demo_spec_run (Suc n) tree FULL_TEST_SUITE False)]"

lemma unchanged_run: "tree_unchanged (demo_spec_run n tree purpose p)"
  by (simp add: tree_unchanged_def demo_spec_run_def)

lemma review_baseline:
  assumes "sq_pristine s = demo_base_tree" "sq_runs s = []"
  shows "baseline_runs demo_sq_env demo_sq_config s =
     (Inr (demo_run_pair PRISTINE_TREE 1), s\<lparr>sq_runs := map snd (demo_run_pair PRISTINE_TREE 1)\<rparr>)"
  using assms
  by (simp add: baseline_runs_def review_config review_commands verification_purposes_def stage_bind_def stage_when_def stage_ret_def
      checked_once tree_of_def unchanged_run demo_run_pair_def numeral_2_eq_2)

lemma review_apply:
  "apply_patch_file demo_sq_env patch s = (Inr (), s\<lparr>sq_candidate := demo_candidate_tree\<rparr>)"
  by (simp add: apply_patch_file_def stage_code sq_answers review_git [simplified] set_tree_def)

lemma review_recorded: "check_recorded_changes demo_summary [lit ''a.py''] s = (Inr (), s)" if "sq_findings s = []"
  using that by (simp add: check_recorded_changes_def demo_summary_def stage_bind_def stage_ret_def stop_if_unverifiable_def)

definition demo_integrity :: specification_integrity where
  "demo_integrity = \<lparr>si_locked = 1, si_unchanged = 1, si_modified = [], si_deleted = [], si_not_regular = [], si_added_tests = [],
     si_config_changes = [], si_restored = [], si_candidate_changes = [lit ''a.py''], si_verification_changes = []\<rparr>"

lemma plain_path: "\<not> is_evaluation_config_path (lit ''a.py'')" "\<not> is_sensitive_path id (lit ''a.py'')"
  by (simp_all add: is_evaluation_config_path_def evaluation_config_names_def evaluation_config_directories_def is_sensitive_path_def
      path_suffix_def text_code)

lemma demo_integrity_ok: "integrity_ok demo_integrity"
  using demo_path(1) by (simp add: integrity_ok_def demo_integrity_def bounded_def)

lemma review_inspect:
  assumes "sq_candidate s = demo_candidate_tree" "sq_findings s = []"
  shows "inspect_integrity demo_sq_env demo_sq_config [lit ''a.py''] s = (Inr (demo_integrity, [], []), s\<lparr>sq_integrity := Some demo_integrity\<rparr>)"
proof -
  have i: "inspect_candidate demo_sq_env demo_sq_config [lit ''a.py''] [demo_spec_path] ([], [], [])
     = \<lparr>is_modified = [], is_deleted = [], is_irregular = [], is_added = [], is_added_tests = [], is_config = []\<rparr>"
    by (simp add: inspect_candidate_def Let_def review_config lock_parts plain_path)
  have g: "inspection_integrity demo_sq_config [lit ''a.py''] \<lparr>is_modified = [], is_deleted = [], is_irregular = [], is_added = [], is_added_tests = [], is_config = []\<rparr> = demo_integrity"
    by (simp add: inspection_integrity_def Let_def review_config demo_integrity_def demo_lock_def)
  have protect: "protected_paths demo_sq_profile = []" by (simp add: demo_sq_profile_def demo_profile_def)
  show ?thesis using assms
    by (simp add: inspect_integrity_def stage_bind_def reading_def review_config review_compare review_specification stage_result_def Let_def i g
        report_integrity_def add_paths_def max_paths_per_finding_def stage_when_def stage_ret_def path_matches_def plain_path sq_answers
        protect demo_integrity_ok set_integrity_def)
qed

lemma review_tampering: "check_harness_tampering demo_sq_env demo_sq_config ''d'' s = (Inr (), s)"
  by (simp add: check_harness_tampering_def harness_tampering_lines_def sq_answers text_code stage_ret_def)

definition demo_final_integrity :: specification_integrity where
  "demo_final_integrity = demo_integrity\<lparr>si_verification_changes := [lit ''a.py'']\<rparr>"

lemma review_build:
  assumes "sq_candidate s = demo_candidate_tree"
  shows "build_verification_tree demo_sq_env demo_sq_config demo_integrity [] [] s = (Inr demo_final_integrity, s\<lparr>sq_integrity := Some demo_final_integrity\<rparr>)"
  using assms by (simp add: build_verification_tree_def Let_def stage_code stage_result_def review_config review_compare review_specification lock_parts
      review_changes set_integrity_def demo_final_integrity_def demo_integrity_def)

lemma demo_pass_facts:
  "sr_counts (demo_spec_run n tree purpose False) = Some one_passed" "sr_status (demo_spec_run n tree purpose False) = EXEC_PASSED"
  by (simp_all add: demo_spec_run_def)

lemma review_verification:
  assumes "sq_candidate s = demo_candidate_tree" "sq_runs s = map snd (demo_run_pair PRISTINE_TREE 1)"
  shows "verification_loop demo_sq_env demo_sq_config (demo_run_pair PRISTINE_TREE 1) verification_purposes [] s =
     (Inr (demo_run_pair VERIFICATION_TREE 3), s\<lparr>sq_runs := map snd (demo_run_pair PRISTINE_TREE 1 @ demo_run_pair VERIFICATION_TREE 3)\<rparr>)"
  using assms
  by (simp add: verification_purposes_def stage_bind_def checked_once tree_of_def demo_run_pair_def demo_pass_facts Let_def mutated_note_def
      failed_note_def skipped_note_def missing_note_def stage_when_def stage_ret_def unchanged_run one_passed_def no_counts_def total_tests_def
      numeral_3_eq_3 numeral_2_eq_2)

lemma review_cross: "cross_check demo_candidate vs demo_final_integrity s = (Inr (), s\<lparr>sq_agree := Some True\<rparr>)"
proof -
  have "cross_check_loop demo_candidate g vs True s = (Inr True, s)" for g
    by (induction vs arbitrary: s) (auto simp: demo_candidate_def stage_ret_def)
  then show ?thesis by (simp add: cross_check_def stage_bind_def)
qed

lemma review_integrity:
  assumes "sq_candidate s = demo_candidate_tree" "length (sq_runs s) = 4"
  shows "check_runner_integrity demo_sq_env demo_sq_config s = (Inr (), s\<lparr>sq_runs := sq_runs s @ [demo_spec_run 5 VERIFICATION_TREE FULL_TEST_SUITE True]\<rparr>)"
proof -
  have shown: "integrity_demonstrated (demo_spec_run 5 VERIFICATION_TREE FULL_TEST_SUITE True)"
    by (simp add: integrity_demonstrated_def demo_spec_run_def one_passed_def no_counts_def tree_unchanged_def)
  have canary: "review_canary (env_sha256 demo_sq_env) (sc_review_id demo_sq_config) (sc_lock demo_sq_config) = Some demo_canary"
    using review_plants by (simp add: demo_sq_env_def review_config)
  have status: "sr_status (demo_spec_run 5 VERIFICATION_TREE FULL_TEST_SUITE True) = EXEC_FAILED" by (simp add: demo_spec_run_def)
  show ?thesis using assms(2)
    by (simp add: check_runner_integrity_def canary probe_run_def stage_bind_def stopping_on_def review_probe [OF assms(1)] status shown stage_ret_def)
qed

definition demo_review_end :: "unit sentinel" where
  "demo_review_end = \<lparr>sq_world = (), sq_pristine = demo_base_tree, sq_candidate = demo_candidate_tree, sq_findings = [],
     sq_runs = map snd (demo_run_pair PRISTINE_TREE 1 @ demo_run_pair VERIFICATION_TREE 3) @ [demo_spec_run 5 VERIFICATION_TREE FULL_TEST_SUITE True],
     sq_integrity = Some demo_final_integrity, sq_agree = Some True\<rparr>"

lemma review_ends:
  "review_stages demo_sq_env demo_sq_config demo_candidate \<lparr>sq_world = (), sq_pristine = [], sq_candidate = [], sq_findings = [], sq_runs = [],
     sq_integrity = None, sq_agree = None\<rparr> = (Inr (), demo_review_end)"
proof -
  have d: "pr_outcome demo_candidate = PATCH_PROPOSED" "pr_diff demo_candidate = Some demo_summary" "ds_base_sha demo_summary = demo_commit"
    "si_verification_changes demo_final_integrity = [lit ''a.py'']"
    by (simp_all add: demo_candidate_def demo_summary_def demo_final_integrity_def)
  have two: "length (demo_run_pair tree n) = 2" for tree n by (simp add: demo_run_pair_def)
  show ?thesis
    unfolding review_stages_def d
    by (simp add: d stage_bind_def review_identity stop_if_unverifiable_def review_patch review_materialize review_reference review_baseline [simplified]
        review_apply review_changes review_recorded review_inspect review_tampering review_build review_verification [simplified] review_cross reading_def
        stage_when_def review_integrity two demo_review_end_def)
qed

section \<open>Its verdict\<close>

abbreviation demo_sq_verdict :: sentinel_verdict where
  "demo_sq_verdict \<equiv> sentinel_verdict_of demo_sq_env demo_sq_config demo_candidate demo_review_end 0 0"

lemma demo_review_passed: "sv_verdict demo_sq_verdict = Review_Passed" "sv_findings demo_sq_verdict = []"
  by (simp_all add: sentinel_verdict_of_def demo_review_end_def verdict_for_def Let_def)

lemma demo_sq_runs: "sv_runs demo_sq_verdict = [demo_spec_run 1 PRISTINE_TREE TARGETED_TESTS False, demo_spec_run 2 PRISTINE_TREE FULL_TEST_SUITE False,
    demo_spec_run 3 VERIFICATION_TREE TARGETED_TESTS False, demo_spec_run 4 VERIFICATION_TREE FULL_TEST_SUITE False,
    demo_spec_run 5 VERIFICATION_TREE FULL_TEST_SUITE True]"
  by (simp add: sentinel_verdict_of_def demo_review_end_def demo_run_pair_def Let_def numeral_2_eq_2)

lemma demo_sq_integrity: "sv_integrity demo_sq_verdict = Some demo_final_integrity"
  by (simp add: sentinel_verdict_of_def demo_review_end_def Let_def)

lemma demo_sq_times: "sv_completed_at demo_sq_verdict = 0" "sv_started_at demo_sq_verdict = 0" "sv_review_id demo_sq_verdict = 7"
  by (simp_all add: sentinel_verdict_of_def Let_def review_config)

lemma demo_sq_hashes: "sv_source_sha demo_sq_verdict = demo_commit" "sv_lock_sha256 demo_sq_verdict = demo_sha"
  "sv_patch_sha256 demo_sq_verdict = Some demo_sha" "sv_head_sha demo_sq_verdict = Some demo_commit"
  by (simp_all add: sentinel_verdict_of_def Let_def review_config lock_sha256_def review_digest demo_pf_task_def demo_source_def
      demo_candidate_def demo_summary_def)

lemma demo_sq_text: "bounded_text (sv_summary demo_sq_verdict)"
proof -
  have "length (nat_str 1) = 1" by (simp add: nat_str.simps)
  then show ?thesis
    by (simp add: sentinel_verdict_of_def Let_def verdict_for_def demo_review_end_def sentinel_summary_def demo_final_integrity_def demo_integrity_def
        bounded_text_def bounded_def lit_def)
qed

lemma spec_run_facts:
  "sr_review_id (demo_spec_run n tree purpose p) = 7" "sr_sequence (demo_spec_run n tree purpose p) = n" "sr_tree (demo_spec_run n tree purpose p) = tree"
  "sr_purpose (demo_spec_run n tree purpose p) = purpose" "clean_pass (demo_spec_run n VERIFICATION_TREE purpose False)"
  "integrity_demonstrated (demo_spec_run n tree purpose True)"
  by (simp_all add: demo_spec_run_def clean_pass_def tree_unchanged_def integrity_demonstrated_def one_passed_def no_counts_def)

lemma demo_sq_consistent: "verdict_error demo_sq_verdict = None"
proof -
  have intact: "specification_intact demo_final_integrity" by (simp add: specification_intact_def demo_final_integrity_def demo_integrity_def)
  have order: "map sr_sequence (sv_runs demo_sq_verdict) = [1 ..< Suc (length (sv_runs demo_sq_verdict))]"
    by (simp add: demo_sq_runs spec_run_facts upt_rec)
  have own: "\<not> list_ex (\<lambda>r. sr_review_id r \<noteq> sv_review_id demo_sq_verdict) (sv_runs demo_sq_verdict)"
    by (simp add: demo_sq_runs spec_run_facts demo_sq_times)
  have both: "{TARGETED_TESTS, FULL_TEST_SUITE} \<subseteq> set (map sr_purpose (filter clean_pass (sv_runs demo_sq_verdict)))"
    by (simp add: demo_sq_runs spec_run_facts)
  have probe: "list_ex (\<lambda>r. sr_tree r = VERIFICATION_TREE \<and> integrity_demonstrated r) (sv_runs demo_sq_verdict)"
    by (simp add: demo_sq_runs spec_run_facts)
  have "verdict_for (set (map sf_meaning (sv_findings demo_sq_verdict))) = Review_Passed"
    by (simp add: demo_review_passed verdict_for_def)
  then show ?thesis
    unfolding verdict_error_def using order own both probe intact
    by (simp add: demo_review_passed demo_sq_times demo_sq_integrity demo_sq_hashes)
qed

lemma demo_review_built: "verdict_built demo_sq_verdict"
proof -
  have "list_all run_ok (sv_runs demo_sq_verdict)"
    using demo_run_ok(1) [of 0] demo_run_ok(1) [of 1] demo_run_ok(1) [of 2] demo_run_ok(1) [of 3] demo_run_ok(2) [of 4]
    by (simp add: demo_sq_runs eval_nat_numeral)
  moreover have "bounded 0 20 (sv_runs demo_sq_verdict)" by (simp add: demo_sq_runs bounded_def)
  ultimately show ?thesis
    by (simp add: verdict_built_def verdict_fields_ok_def demo_sq_consistent demo_sq_hashes demo_hashes demo_sq_text demo_review_passed
        bounded_def opt_ok_def)
qed

lemma demo_sq_review:
  "sentinel_review demo_sq_env demo_sq_config demo_candidate () = (Inr demo_sq_verdict, demo_review_end)"
  using demo_review_built unfolding sentinel_review_def
  by (simp add: sq_answers review_ends Let_def) (simp add: demo_review_end_def)

end
