(* ===== verification/SentinelScan.thy ===== *)
theory SentinelScan
  imports SentinelText
begin

text \<open>
  The scan for harness tampering against a reference that separates the reading of the patch from the patterns, and the
  summary line of the test runner as it is written and read back.
\<close>

section \<open>The scan of the added lines\<close>

text \<open>The added lines of a patch with the file they belong to, as the scan reads the patch.\<close>

fun scanned_lines :: "(ustr \<Rightarrow> bool) \<Rightarrow> ustr option \<Rightarrow> ustr list \<Rightarrow> (ustr \<times> ustr) list" where
  "scanned_lines spec current [] = []"
| "scanned_lines spec current (raw # raws) =
     (if starts_with (lit ''+++ '') raw then scanned_lines spec (target_of raw) raws
      else if starts_with (lit ''--- '') raw \<or> starts_with (lit ''diff --git'') raw then scanned_lines spec current raws
      else (case current of
          None \<Rightarrow> scanned_lines spec current raws
        | Some path \<Rightarrow> (if starts_with [43] raw \<and> \<not> spec path then [(path, tl raw)] else []) @ scanned_lines spec current raws))"

definition pattern_hits :: "(string \<Rightarrow> ustr \<Rightarrow> bool) \<Rightarrow> (string \<times> string) list \<Rightarrow> ustr \<times> ustr \<Rightarrow> tamper_finding list" where
  "pattern_hits search ps pl = (case pl of (path, line) \<Rightarrow>
     map (\<lambda>(name, p). (path, name, take 160 (py_strip line))) (filter (\<lambda>(name, p). search p line) ps))"

definition finding_key :: "tamper_finding \<Rightarrow> ustr \<times> string" where
  "finding_key f = (case f of (path, name, line) \<Rightarrow> (path, name))"

text \<open>One finding per file and pattern, the first one.\<close>

fun first_findings :: "(ustr \<times> string) set \<Rightarrow> tamper_finding list \<Rightarrow> tamper_finding list" where
  "first_findings seen [] = []"
| "first_findings seen (f # fs) =
     (if finding_key f \<in> seen then first_findings seen fs else f # first_findings (insert (finding_key f) seen) fs)"

definition reference_scan :: "(string \<Rightarrow> ustr \<Rightarrow> bool) \<Rightarrow> (ustr \<Rightarrow> bool) \<Rightarrow> ustr \<Rightarrow> tamper_finding list" where
  "reference_scan search spec patch =
     take max_tamper_findings (first_findings {} (concat (map (pattern_hits search harness_patterns) (scanned_lines spec None (splitlines patch)))))"

lemma key_function: "(\<lambda>(p, n, d). (p, n)) = finding_key"
  by (simp add: fun_eq_iff finding_key_def)

lemma keys_found: "S \<union> finding_key ` set (first_findings S fs) = S \<union> finding_key ` set fs"
proof (induction fs arbitrary: S)
  case (Cons f fs)
  show ?case
  proof (cases "finding_key f \<in> S")
    case True
    then show ?thesis using Cons [of S] by auto
  next
    case False
    then show ?thesis using Cons [of "insert (finding_key f) S"] by simp
  qed
qed simp

lemma first_findings_append:
  "first_findings S (fs @ gs) = first_findings S fs @ first_findings (S \<union> finding_key ` set fs) gs"
  by (induction fs arbitrary: S) (auto simp: insert_absorb)

lemma tamper_patterns_reference:
  assumes "length fs < max_tamper_findings"
  shows "tamper_patterns search path line ps fs =
    (let gs = fs @ first_findings (finding_key ` set fs) (pattern_hits search ps (path, line)) in
     (take max_tamper_findings gs, max_tamper_findings \<le> length gs))"
  using assms
proof (induction ps arbitrary: fs)
  case (Cons np ps)
  obtain name p where np: "np = (name, p)" by (cases np)
  let ?f = "(path, name, take 160 (py_strip line))"
  have key: "finding_key ?f = (path, name)" by (simp add: finding_key_def)
  show ?case
  proof (cases "search p line \<and> (path, name) \<notin> finding_key ` set fs")
    case True
    show ?thesis
    proof (cases "max_tamper_findings \<le> length (fs @ [?f])")
      case full: True
      then have "max_tamper_findings - length fs = 1" using Cons.prems by simp
      then show ?thesis using True full Cons.prems by (simp add: np key_function key pattern_hits_def Let_def)
    next
      case False
      then show ?thesis using True Cons.IH [of "fs @ [?f]"] by (simp add: np key_function key pattern_hits_def Let_def)
    qed
  next
    case False
    then show ?thesis using Cons.IH [OF Cons.prems] by (auto simp add: np key_function key pattern_hits_def Let_def)
  qed
qed (simp add: pattern_hits_def)

lemma tamper_lines_reference:
  assumes "length fs < max_tamper_findings"
  shows "tamper_lines search spec current raws fs = take max_tamper_findings (fs @ first_findings (finding_key ` set fs)
    (concat (map (pattern_hits search harness_patterns) (scanned_lines spec current raws))))"
  using assms
proof (induction raws arbitrary: current fs)
  case (Cons raw raws)
  show ?case
  proof (cases "starts_with (lit ''+++ '') raw \<or> starts_with (lit ''--- '') raw \<or> starts_with (lit ''diff --git'') raw
      \<or> current = None \<or> \<not> starts_with [43] raw \<or> spec (the current)")
    case True
    then show ?thesis using Cons by (auto split: option.splits)
  next
    case False
    then obtain path where path: "current = Some path" by auto
    let ?gs = "fs @ first_findings (finding_key ` set fs) (pattern_hits search harness_patterns (path, tl raw))"
    have scan: "tamper_patterns search path (tl raw) harness_patterns fs = (take max_tamper_findings ?gs, max_tamper_findings \<le> length ?gs)"
      by (simp add: tamper_patterns_reference [OF Cons.prems] Let_def)
    show ?thesis
    proof (cases "max_tamper_findings \<le> length ?gs")
      case True
      then show ?thesis using False scan by (simp add: path first_findings_append)
    next
      case more: False
      have "finding_key ` set ?gs = finding_key ` set fs \<union> finding_key ` set (pattern_hits search harness_patterns (path, tl raw))"
        using keys_found [of "finding_key ` set fs"] by (simp add: image_Un)
      then show ?thesis using False scan more Cons.IH [of ?gs] by (simp add: path first_findings_append)
    qed
  qed
qed simp

lemma tamper_scan: "harness_tampering_lines search spec patch = reference_scan search spec patch"
  using tamper_lines_reference [of "[]" search spec None "splitlines patch"]
  by (simp add: harness_tampering_lines_def reference_scan_def max_tamper_findings_def)

lemma nothing_first: "first_findings {} fs = [] \<longleftrightarrow> fs = []"
  by (cases fs) auto

lemma no_hits:
  "concat (map (pattern_hits search ps) ls) = [] \<longleftrightarrow> (\<forall>pl \<in> set ls. \<forall>np \<in> set ps. \<not> search (snd np) (snd pl))"
  by (auto simp: pattern_hits_def filter_empty_conv split_beta)

lemma tamper_scan_clean:
  "harness_tampering_lines search spec patch = [] \<longleftrightarrow>
     (\<forall>pl \<in> set (scanned_lines spec None (splitlines patch)). \<forall>np \<in> set harness_patterns. \<not> search (snd np) (snd pl))"
  by (simp add: tamper_scan reference_scan_def max_tamper_findings_def nothing_first no_hits del: concat_eq_Nil_conv)

section \<open>The summary line\<close>

text \<open>\<open>\d\<close> and \<open>int\<close> agree with the digits of ASCII.\<close>

definition ascii_digits :: "(nat \<Rightarrow> nat option) \<Rightarrow> bool" where
  "ascii_digits digit \<longleftrightarrow> (\<forall>c < 128. digit c = (if 48 \<le> c \<and> c \<le> 57 then Some (c - 48) else None))"

definition digit_code :: "nat \<Rightarrow> bool" where "digit_code c \<longleftrightarrow> 48 \<le> c \<and> c \<le> 57"

lemma ascii_digit: "ascii_digits digit \<Longrightarrow> c < 128 \<Longrightarrow> digit c = (if digit_code c then Some (c - 48) else None)"
  by (simp add: ascii_digits_def digit_code_def)

lemma nat_str_codes: "list_all digit_code (lit (nat_str n))" "lit (nat_str n) \<noteq> []"
  using nat_str_digits [of n] nat_str_nonempty [of n] by (auto simp: lit_def list_all_iff is_digit_def digit_code_def)

lemma read_number: "ascii_digits digit \<Longrightarrow> digits_value digit (lit (nat_str n)) = n"
proof -
  assume digits: "ascii_digits digit"
  have "foldl (\<lambda>v c. 10 * v + (case digit c of None \<Rightarrow> 0 | Some d \<Rightarrow> d)) v (lit s) = foldl (\<lambda>v c. v * 10 + (of_char c - 48)) v s"
    if "list_all is_digit s" for v s
    using that by (induction s arbitrary: v) (auto simp: lit_def is_digit_def ascii_digit [OF digits] digit_code_def algebra_simps)
  from this [OF nat_str_digits] show ?thesis using dec_val_nat_str [of n] by (simp add: digits_value_def dec_val_def)
qed

lemma one_line: "list_all (\<lambda>c. \<not> line_boundary c) u \<Longrightarrow> u \<noteq> [] \<Longrightarrow> splitlines u = [u]"
proof -
  have "splitlines_from cur u = (if cur = [] \<and> u = [] then [] else [rev cur @ u])" if "list_all (\<lambda>c. \<not> line_boundary c) u" for cur
    using that by (induction u arbitrary: cur) (auto simp: line_boundary_def)
  then show "list_all (\<lambda>c. \<not> line_boundary c) u \<Longrightarrow> u \<noteq> [] \<Longrightarrow> splitlines u = [u]" by (simp add: splitlines_def)
qed

lemma strip_ends: "u \<noteq> [] \<Longrightarrow> \<not> P (hd u) \<Longrightarrow> \<not> P (last u) \<Longrightarrow> strip_of P u = u"
proof -
  have drop: "dropWhile P v = v" if "v \<noteq> []" "\<not> P (hd v)" for v using that by (cases v) auto
  assume "u \<noteq> []" "\<not> P (hd u)" "\<not> P (last u)"
  then show ?thesis by (simp add: strip_of_def drop hd_rev)
qed

text \<open>A text in which no duration starts: every space is followed by something else than \<open>in\<close>.\<close>

fun calm :: "ustr \<Rightarrow> bool" where
  "calm [] = True"
| "calm (c # cs) = ((py_space c \<longrightarrow> cs \<noteq> [] \<and> \<not> py_space (hd cs) \<and> hd cs \<noteq> 105) \<and> calm cs)"

lemma calm_append: "calm u \<Longrightarrow> calm v \<Longrightarrow> calm (u @ v)"
  by (induction u) (auto simp: neq_Nil_conv hd_append split: if_splits)

lemma calm_plain: "list_all (\<lambda>c. \<not> py_space c) u \<Longrightarrow> calm u"
  by (induction u) auto

lemma calm_no_duration:
  assumes "calm (c # u)" shows "\<not> duration_suffix digit (c # u @ v)"
proof (cases "py_space c")
  case True
  then obtain d w where u: "u = d # w" "\<not> py_space d" "d \<noteq> 105" using assms by (cases u) auto
  then show ?thesis using True by (simp add: duration_suffix_def after_duration_def after_spaces_def after_word_def lit_def)
next
  case False
  then show ?thesis by (simp add: duration_suffix_def after_duration_def after_spaces_def)
qed

lemma cut_calm: "calm u \<Longrightarrow> duration_suffix digit v \<Longrightarrow> cut_duration digit (u @ v) = u"
proof (induction u)
  case Nil
  then show ?case by (cases v) auto
next
  case (Cons c u)
  then show ?case using calm_no_duration [OF Cons.prems(1)] by simp
qed

lemma split_comma_plain: "44 \<notin> set u \<Longrightarrow> split_comma cur u = [rev cur @ u]"
  by (induction u arbitrary: cur) auto

lemma split_comma_joined: "44 \<notin> set u \<Longrightarrow> split_comma cur (u @ 44 # 32 # v) = (rev cur @ u) # split_comma [] v"
  by (induction u arbitrary: cur) auto

lemma split_comma_join:
  "us \<noteq> [] \<Longrightarrow> \<forall>u \<in> set us. 44 \<notin> set u \<Longrightarrow> split_comma [] (join_with [44, 32] us) = us"
  by (induction us rule: induct_list012) (simp_all add: split_comma_plain split_comma_joined)

text \<open>The counts with their words, in the order they are written.\<close>

definition count_table :: "specification_counts \<Rightarrow> (count_field \<times> nat \<times> string) list" where
  "count_table c = [(F_FAILED, ct_failed c, ''failed''), (F_PASSED, ct_passed c, ''passed''), (F_SKIPPED, ct_skipped c, ''skipped''),
     (F_DESELECTED, ct_deselected c, ''deselected''), (F_XFAILED, ct_xfailed c, ''xfailed''), (F_XPASSED, ct_xpassed c, ''xpassed''),
     (F_ERRORS, ct_errors c, ''error'')]"

definition shown_counts :: "specification_counts \<Rightarrow> (count_field \<times> nat \<times> string) list" where
  "shown_counts c = filter (\<lambda>(f, n, w). n \<noteq> 0) (count_table c)"

lemma parts_shown: "count_parts c = map snd (shown_counts c)"
proof -
  have "count_parts c = filter (\<lambda>(n, w). n \<noteq> 0) (map snd (count_table c))" by (simp add: count_parts_def count_table_def)
  then show ?thesis by (simp add: shown_counts_def filter_map comp_def case_prod_unfold)
qed

definition good_word :: "count_field \<Rightarrow> string \<Rightarrow> bool" where
  "good_word f w \<longleftrightarrow> field_of (lit w) = Some f \<and> list_all (\<lambda>c. 97 \<le> c \<and> c \<le> 122) (lit w) \<and> w \<noteq> [] \<and> hd (lit w) \<noteq> 105"

lemma words_good:
  "good_word F_FAILED ''failed''" "good_word F_PASSED ''passed''" "good_word F_SKIPPED ''skipped''" "good_word F_DESELECTED ''deselected''"
  "good_word F_XFAILED ''xfailed''" "good_word F_XPASSED ''xpassed''" "good_word F_ERRORS ''error''"
  by (simp_all add: good_word_def field_of_def field_words_def, simp_all add: lit_def)

lemma table_words: "\<forall>(f, n, w) \<in> set (shown_counts c). good_word f w"
  by (simp add: shown_counts_def count_table_def words_good)

lemma table_fields: "distinct (map fst (shown_counts c))"
proof -
  have "distinct (map fst (count_table c))" by (simp add: count_table_def)
  then show ?thesis unfolding shown_counts_def by (rule distinct_map_filter)
qed

definition count_text :: "nat \<times> string \<Rightarrow> ustr" where
  "count_text p = lit (nat_str (fst p)) @ 32 # lit (snd p)"

lemma not_space: "digit_code c \<Longrightarrow> \<not> py_space c" "97 \<le> c \<Longrightarrow> c \<le> 122 \<Longrightarrow> \<not> py_space c"
  by (auto simp: py_space_def digit_code_def)

lemma count_text_shape:
  assumes "good_word f w"
  shows "digit_code (hd (count_text (n, w)))" "97 \<le> last (count_text (n, w))" "last (count_text (n, w)) \<le> 122" "count_text (n, w) \<noteq> []"
    "list_all (\<lambda>c. digit_code c \<or> c = 32 \<or> 97 \<le> c \<and> c \<le> 122) (count_text (n, w))" "calm (count_text (n, w))"
proof -
  note word = assms [unfolded good_word_def]
  have letters: "lit w \<noteq> []" using word by (simp add: lit_def)
  have plain: "calm (lit (nat_str n))" "calm (lit w)"
    using nat_str_codes(1) [of n] word by (auto intro!: calm_plain elim!: list.pred_mono_strong simp: not_space)
  show "digit_code (hd (count_text (n, w)))"
    using nat_str_codes [of n] by (cases "lit (nat_str n)") (auto simp: count_text_def)
  show "97 \<le> last (count_text (n, w))" "last (count_text (n, w)) \<le> 122"
    using word letters last_in_set [OF letters] by (auto simp: count_text_def list_all_iff)
  show "count_text (n, w) \<noteq> []" by (simp add: count_text_def)
  show "list_all (\<lambda>c. digit_code c \<or> c = 32 \<or> 97 \<le> c \<and> c \<le> 122) (count_text (n, w))"
    using nat_str_codes(1) [of n] word by (auto simp: count_text_def list_all_iff)
  have "\<not> py_space (hd (lit w))" using word letters by (cases "lit w") (auto simp: py_space_def)
  then have "calm (32 # lit w)" using plain(2) letters word by simp
  then show "calm (count_text (n, w))" using calm_append [OF plain(1)] by (simp add: count_text_def)
qed

lemma token_read:
  assumes "ascii_digits digit" "good_word f w"
  shows "parse_token digit (py_strip (count_text (n, w))) = Some (f, n)"
proof -
  have strip: "py_strip (count_text (n, w)) = count_text (n, w)"
    unfolding py_strip_def using count_text_shape [OF assms(2), of n]
    by (intro strip_ends) (auto simp: py_space_def digit_code_def)
  have digit: "digit c \<noteq> None" if "c \<in> set (lit (nat_str n))" for c
    using nat_str_codes(1) [of n] that ascii_digit [OF assms(1), of c] by (auto simp: list_all_iff digit_code_def)
  have space: "digit 32 = None" using ascii_digit [OF assms(1), of 32] by (simp add: digit_code_def)
  have first: "digit (hd (count_text (n, w))) \<noteq> None"
    using nat_str_codes(2) [of n] digit [of "hd (lit (nat_str n))"] by (simp add: count_text_def)
  have rest: "dropWhile (\<lambda>c. digit c \<noteq> None) (count_text (n, w)) = 32 # lit w"
    "takeWhile (\<lambda>c. digit c \<noteq> None) (count_text (n, w)) = lit (nat_str n)"
    unfolding count_text_def using digit space by (simp_all add: dropWhile_append2 takeWhile_append2)
  have "field_of (lit w) = Some f" using assms(2) by (simp add: good_word_def)
  then show ?thesis
    using first rest count_text_shape(4) [OF assms(2), of n]
    by (simp add: parse_token_def strip after_digits_def after_char_def read_number [OF assms(1)])
qed

lemma tokens_read:
  assumes "ascii_digits digit" "\<forall>(f, n, w) \<in> set ts. good_word f w" "distinct (map fst vs @ map fst ts)"
  shows "parse_tokens digit (map (\<lambda>t. count_text (snd t)) ts) vs = Some (vs @ map (\<lambda>(f, n, w). (f, n)) ts)"
  using assms(2,3)
proof (induction ts arbitrary: vs)
  case (Cons t ts)
  obtain f n w where t: "t = (f, n, w)" by (cases t)
  have "parse_tokens digit (map (\<lambda>t. count_text (snd t)) ts) (vs @ [(f, n)]) = Some ((vs @ [(f, n)]) @ map (\<lambda>(f, n, w). (f, n)) ts)"
    using Cons.prems by (intro Cons.IH) (auto simp: t)
  then show ?case using Cons.prems token_read [OF assms(1), of f w n] by (auto simp: t)
qed simp

lemma counted_filter: "distinct (map fst xs) \<Longrightarrow> counted_as (filter (\<lambda>(f, n). n \<noteq> 0) xs) f = counted_as xs f"
proof (induction xs)
  case (Cons x xs)
  obtain g n where x: "x = (g, n)" by (cases x)
  have "map_of xs g = None" using Cons.prems by (simp add: x map_of_eq_None_iff)
  moreover have "map_of (filter (\<lambda>(f, n). n \<noteq> 0) xs) g = None" using Cons.prems by (auto simp: x map_of_eq_None_iff)
  ultimately show ?case using Cons by (auto simp: x counted_as_def)
qed simp

lemma counts_read: "ct_warnings c = 0 \<Longrightarrow> counts_of (map (\<lambda>(f, n, w). (f, n)) (shown_counts c)) = c"
proof -
  assume none: "ct_warnings c = 0"
  let ?all = "map (\<lambda>(f, n, w). (f, n)) (count_table c)"
  have "map (\<lambda>(f, n, w). (f, n)) (shown_counts c) = filter (\<lambda>(f, n). n \<noteq> 0) ?all"
    by (simp add: shown_counts_def filter_map comp_def case_prod_unfold)
  then have "counts_of (map (\<lambda>(f, n, w). (f, n)) (shown_counts c)) = counts_of ?all"
    using counted_filter [of ?all] by (simp add: counts_of_def count_table_def)
  also have "\<dots> = c" using none by (simp add: counts_of_def count_table_def counted_as_def)
  finally show ?thesis .
qed

text \<open>What is written: the counts, joined, and a duration.\<close>

definition summary_char :: "nat \<Rightarrow> bool" where
  "summary_char c \<longleftrightarrow> digit_code c \<or> c = 32 \<or> c = 44 \<or> 97 \<le> c \<and> c \<le> 122"

lemma join_shape:
  assumes "us \<noteq> []" "\<forall>u \<in> set us. u \<noteq> [] \<and> digit_code (hd u) \<and> calm u \<and> list_all summary_char u"
  shows "join_with [44, 32] us \<noteq> [] \<and> digit_code (hd (join_with [44, 32] us)) \<and> calm (join_with [44, 32] us)
    \<and> list_all summary_char (join_with [44, 32] us)"
  using assms
proof (induction us rule: induct_list012)
  case (3 u v us)
  let ?rest = "join_with [44, 32] (v # us)"
  have rest: "?rest \<noteq> []" "digit_code (hd ?rest)" "calm ?rest" "list_all summary_char ?rest" using 3 by auto
  then have "calm (44 # 32 # ?rest)" using not_space(1) by (auto simp: digit_code_def py_space_def)
  then have "calm (u @ 44 # 32 # ?rest)" using 3 calm_append by simp
  then show ?case using 3 rest by (simp add: summary_char_def)
qed auto

lemma lit_join: "lit (join_with s us) = join_with (lit s) (map lit us)"
  by (induction us rule: induct_list012) (simp_all add: lit_append)

lemma format_counts: "lit (format_summary c) = join_with [44, 32] (map (\<lambda>t. count_text (snd t)) (shown_counts c)) @ lit '' in 0.01s''"
proof -
  have "lit '', '' = [44, 32]" by (simp add: lit_def)
  then show ?thesis
    by (simp add: format_summary_def parts_shown lit_append lit_join comp_def case_prod_unfold count_text_def) (simp add: lit_def)
qed

lemma summary_round_trip:
  assumes digits: "ascii_digits digit" and shown: "shown_counts c \<noteq> []" and none: "ct_warnings c = 0"
  shows "parse_pytest_summary digit (lit (format_summary c)) = Some c"
proof -
  let ?us = "map (\<lambda>t. count_text (snd t)) (shown_counts c)"
  let ?body = "join_with [44, 32] ?us" and ?coda = "lit '' in 0.01s''"
  have each: "u \<noteq> [] \<and> digit_code (hd u) \<and> calm u \<and> list_all summary_char u" if member: "u \<in> set ?us" for u
  proof -
    obtain f n w where "(f, n, w) \<in> set (shown_counts c)" "u = count_text (n, w)" using member by auto
    then have word: "good_word f w" and u: "u = count_text (n, w)" using table_words [of c] by auto
    show ?thesis unfolding u using count_text_shape [OF word, of n] by (auto simp: summary_char_def list_all_iff)
  qed
  have body: "?body \<noteq> []" "digit_code (hd ?body)" "calm ?body" "list_all summary_char ?body"
    using join_shape [of ?us] each shown by auto
  have ending: "list_all (\<lambda>c. c < 128 \<and> 32 \<le> c) ?coda" "last ?coda = 115" "?coda \<noteq> []" by (simp_all add: lit_def)
  have duration: "duration_suffix digit ?coda"
    by (simp add: duration_suffix_def after_duration_def after_spaces_def after_word_def after_seconds_def after_digits_def after_char_def
        parenthesised_end_def py_space_def lit_def ascii_digit [OF digits] digit_code_def)
  have line: "splitlines (?body @ ?coda) = [?body @ ?coda]"
    using body ending by (intro one_line) (auto simp: list_all_iff summary_char_def digit_code_def line_boundary_def)
  have whole: "strip_of P (?body @ ?coda) = ?body @ ?coda" if "\<not> P 115" "\<And>c. digit_code c \<Longrightarrow> \<not> P c" for P
    using that body ending by (intro strip_ends) auto
  have strips: "py_strip (?body @ ?coda) = ?body @ ?coda" "strip_of (\<lambda>c. c = 61) (?body @ ?coda) = ?body @ ?coda"
    unfolding py_strip_def by (intro whole; simp add: not_space digit_code_def py_space_def)+
  have cut: "cut_duration digit (?body @ ?coda) = ?body" by (rule cut_calm [OF body(3) duration])
  have tests: "\<not> no_tests_line digit ?body"
    using body(1,2) by (cases ?body) (auto simp: no_tests_line_def after_word_def lit_def digit_code_def)
  have "\<forall>u \<in> set ?us. 44 \<notin> set u"
  proof
    fix u assume "u \<in> set ?us"
    then obtain f n w where "(f, n, w) \<in> set (shown_counts c)" "u = count_text (n, w)" by force
    then have word: "good_word f w" and u: "u = count_text (n, w)" using table_words [of c] by auto
    show "44 \<notin> set u" unfolding u using count_text_shape(5) [OF word, of n] by (auto simp: list_all_iff digit_code_def)
  qed
  then have "split_comma [] ?body = ?us" using split_comma_join shown by simp
  moreover have "parse_tokens digit ?us [] = Some (map (\<lambda>(f, n, w). (f, n)) (shown_counts c))"
    using tokens_read [OF digits table_words, of "[]"] table_fields by simp
  moreover have "F_WARNINGS \<notin> fst ` set (shown_counts c)" by (auto simp: shown_counts_def count_table_def)
  ultimately have "parse_summary_line digit ?body = Some c"
    using shown counts_read [OF none] by (auto simp: parse_summary_line_def case_prod_unfold)
  then show ?thesis
    using body(1) tests by (simp add: parse_pytest_summary_def format_counts line strips cut Let_def)
qed

end
