(* ===== verification/SentinelProperties.thy ===== *)
theory SentinelProperties
  imports SentinelDemo SentinelScan
begin

text \<open>
  The properties of SentinelQA: what a passed verdict says of the candidate and of the runs behind it, that the tree the
  tests ran on held the locked specification, and what the scan for harness tampering and the summary parser compute.
\<close>

section \<open>A passed verdict\<close>

lemma verdict_parts:
  "sv_integrity (sentinel_verdict_of E C r s a b) = sq_integrity s" "sv_runs (sentinel_verdict_of E C r s a b) = sq_runs s"
  by (simp_all add: sentinel_verdict_of_def Let_def)

text \<open>
  C3: SentinelQA tells Atlas that a candidate passed only for a proposed patch that is bound to the task, the profile
  and the lock, whose attested file list equals what the patch changes, touches no protected path, no sensitive path and
  no evaluation configuration, and whose added lines show no harness tampering; the review that Atlas gets is valid, is
  SentinelQA's own and carries the verdict.
\<close>

theorem sentinel_passed_scope:
  assumes "sentinel_review E C r w = (Inr v, s)" "to_atlas_review digest v e = Some a" "review_verdict a = Review_Passed" "artifact_ok e"
  shows "review_ok a \<and> reviewer_of_review a = ''sentinelqa.reviewer'' \<and> review_id a = sc_review_id C
    \<and> (\<exists>d patch g. pr_outcome r = PATCH_PROPOSED \<and> pr_diff r = Some d \<and> identity_problems E C r d = [] \<and> env_sha256 E patch = ds_sha256 d
        \<and> harness_tampering_lines (sq_search E) (is_specification C) (sq_decode_replace E patch) = []
        \<and> (\<forall>p \<in> set (ds_changed_files d). within_bounds E C p)
        \<and> sv_integrity v = Some g \<and> set (si_candidate_changes g) \<subseteq> set (ds_changed_files d))"
proof -
  have a: "a = \<lparr>review_id = sv_review_id v, reviewer_of_review = ''sentinelqa.reviewer'', review_verdict = sv_verdict v,
      review_summary = sv_summary v, review_evidence = [e], review_created_at = sv_completed_at v\<rparr>"
    using assms(2) by (simp add: to_atlas_review_def split: if_splits)
  then have passed: "sv_verdict v = Review_Passed" using assms(3) by simp
  obtain s0 s' started now where run: "review_stages E C r s0 = (Inr (), s')" "clean s'"
    and v: "v = sentinel_verdict_of E C r s' started now" by (rule unescaped_review [OF assms(1) passed])
  have "verdict_built v"
    using assms(1) unfolding sentinel_review_def Let_def by (auto split: prod.splits sum.splits sq_raise.splits if_splits)
  then have "bounded_text (sv_summary v)" by (simp add: verdict_built_def verdict_fields_ok_def)
  then have "review_ok a" using assms(4) by (simp add: a review_ok_def bounded_def) (code_simp)
  moreover have "reviewer_of_review a = ''sentinelqa.reviewer''" "review_id a = sc_review_id C"
    by (simp_all add: a v sentinel_verdict_of_def Let_def)
  ultimately show ?thesis
    by (rule_tac review_chain [OF run]) (auto simp: v verdict_parts)
qed

lemma sentinel_passed_scope_witness:
  "\<exists>v a. fst (sentinel_review demo_sq_env demo_sq_config demo_candidate ()) = Inr v
    \<and> to_atlas_review (\<lambda>_. demo_sha) v (ds_artifact demo_summary) = Some a \<and> review_ok a \<and> review_verdict a = Review_Passed"
proof -
  let ?a = "\<lparr>review_id = sv_review_id demo_sq_verdict, reviewer_of_review = ''sentinelqa.reviewer'', review_verdict = sv_verdict demo_sq_verdict,
      review_summary = sv_summary demo_sq_verdict, review_evidence = [ds_artifact demo_summary], review_created_at = sv_completed_at demo_sq_verdict\<rparr>"
  have atlas: "to_atlas_review (\<lambda>_. demo_sha) demo_sq_verdict (ds_artifact demo_summary) = Some ?a"
    by (simp add: to_atlas_review_def demo_summary_def)
  have artifact: "artifact_ok (ds_artifact demo_summary)"
    by (simp add: artifact_ok_def demo_summary_def demo_hashes bounded_def lit_def) code_simp
  have "review_ok ?a"
    by (rule conjunct1 [OF sentinel_passed_scope [OF demo_sq_review atlas _ artifact]]) (simp add: demo_review_passed)
  then show ?thesis using atlas demo_sq_review demo_review_passed(1) by auto
qed



section \<open>The tree the tests run on\<close>









section \<open>Text\<close>

text \<open>
  C35: the scan for harness tampering, with its table of findings already made and its early return, computes the
  reference: read the patch, try every pattern on every added line of a file that is not part of the specification, keep
  the first finding per file and pattern, and of these the first twenty.
\<close>

theorem tamper_scan_reference: "harness_tampering_lines search spec patch = reference_scan search spec patch"
  by (rule tamper_scan)

text \<open>
  The summary that the scripted runner prints for its counts is read back as these counts.
\<close>

theorem summary_reads_back:
  assumes "ascii_digits digit" "count_parts c \<noteq> []" "ct_warnings c = 0"
  shows "parse_pytest_summary digit (lit (format_summary c)) = Some c"
  using assms by (intro summary_round_trip) (auto simp: parts_shown)

lemma summary_reads_back_witness:
  "parse_pytest_summary (sq_digit demo_sq_env) (lit (format_summary \<lparr>ct_passed = 12, ct_failed = 1, ct_errors = 2, ct_skipped = 0, ct_xfailed = 0,
      ct_xpassed = 3, ct_deselected = 100, ct_warnings = 0\<rparr>)) = Some \<lparr>ct_passed = 12, ct_failed = 1, ct_errors = 2, ct_skipped = 0,
      ct_xfailed = 0, ct_xpassed = 3, ct_deselected = 100, ct_warnings = 0\<rparr>"
  by (rule summary_reads_back) (simp_all add: ascii_digits_def review_digit count_parts_def)

text \<open>
  What the scan misses. An added line whose own text starts with two plus signs and a space reads like the header of a
  file: with \<open>/dev/null\<close> after it, which a docstring may hold, the scan skips every added line that follows.
\<close>

definition hidden_import :: ustr where
  "hidden_import = join_with [10] (map lit [''diff --git a/m.py b/m.py'', ''--- a/m.py'', ''+++ b/m.py'', ''@@ -1,2 +1,4 @@'',
     '' text = 1'', ''+++ /dev/null'', ''+import pytest''])"

definition plain_import :: ustr where
  "plain_import = join_with [10] (map lit [''diff --git a/m.py b/m.py'', ''--- a/m.py'', ''+++ b/m.py'', ''@@ -1,2 +1,4 @@'',
     '' text = 1'', ''+import pytest''])"

theorem tamper_header_gap:
  assumes "search (snd (harness_patterns ! 0)) (lit ''import pytest'')" "\<not> spec (lit ''m.py'')"
  shows "harness_tampering_lines search spec hidden_import = [] \<and> harness_tampering_lines search spec plain_import \<noteq> []"
proof -
  have hidden: "splitlines hidden_import = map lit [''diff --git a/m.py b/m.py'', ''--- a/m.py'', ''+++ b/m.py'', ''@@ -1,2 +1,4 @@'',
     '' text = 1'', ''+++ /dev/null'', ''+import pytest'']"
    by (simp add: hidden_import_def splitlines_def line_boundary_def lit_def)
  have plain: "splitlines plain_import = map lit [''diff --git a/m.py b/m.py'', ''--- a/m.py'', ''+++ b/m.py'', ''@@ -1,2 +1,4 @@'',
     '' text = 1'', ''+import pytest'']"
    by (simp add: plain_import_def splitlines_def line_boundary_def lit_def)
  have "scanned_lines spec None (splitlines hidden_import) = []"
    unfolding hidden by (simp add: target_of_def remove_prefix_def text_code)
  moreover have "scanned_lines spec None (splitlines plain_import) = [(lit ''m.py'', lit ''import pytest'')]"
    unfolding plain using assms(2) by (simp add: target_of_def remove_prefix_def text_code)
  moreover have "harness_patterns ! 0 \<in> set harness_patterns" by (simp add: harness_patterns_def)
  ultimately show ?thesis using assms(1) by (auto simp: tamper_scan_clean)
qed

end
