(* ===== verification/Spec2Isabelle.thy ===== *)
theory Spec2Isabelle
  imports AtlasProperties EngineerProperties EngineerMemoryProperties EngineerCycleProperties
    EngineerLeaseProperties EngineerApprovalProperties PatchForgeHandover SentinelProperties
begin

text \<open>
  A verification development for the NEXUS agent platform (\<open>src/src/nexus\<close>): a control plane for agent jobs (Atlas), an
  agent that repairs code under a runtime it does not control (PatchForge), an independent verifier of its patches
  (SentinelQA), and a resident software engineer that finds work, has it done, reviews the result and either publishes
  it, asks its owner, or gives it up.

  \<^bold>\<open>How the parts work together.\<close> A cycle of the engineer (\<open>cycle.py\<close>) inspects the repository, ranks candidates and hands one
  to its executor. The executor runs PatchForge on it: the runtime (\<open>patchforge/runtime.py\<close>) asks an engine for one action
  after the other and lets the gateway (\<open>patchforge/gateway.py\<close>) carry them out within the operator's policy and
  budgets; the attestor (\<open>attestor.py\<close>) turns the recorded evidence into a result. SentinelQA (\<open>sentinelqa/verifier.py\<close>)
  checks the patch again, on trees it builds itself, against the locked specification. Results and reviews go to Atlas
  (\<open>atlas/service.py\<close>), where a job is approved only by a person; in the engineer's own loop the ship policy
  (\<open>policy.py\<close>) decides, and what is published is a draft pull request (\<open>publish.py\<close>).

  \<^bold>\<open>Theories.\<close>
  \<^item> \<open>Prelude\<close>: Python's strings as lists of code points (\<open>ustr\<close>, \<open>lit ''abc''\<close>) or, where only ASCII occurs, as Isabelle
    strings; results of code that raises (\<open>exception + value\<close>, \<open>rbind\<close>, \<open>guard_raise\<close>); bounds; list lemmas.
  \<^item> \<open>CanonicalJson\<close>: normalisation, key order and rendering of JSON (\<open>atlas/storage.py\<close>, \<open>patchforge/canonical.py\<close>) and that
    the text determines the value.
  \<^item> Atlas: \<open>AtlasModels\<close> (\<open>atlas/models.py\<close>), \<open>AtlasPolicy\<close> (\<open>state_machine.py\<close>, \<open>policy.py\<close>), \<open>AtlasStorage\<close> (\<open>storage.py\<close>: three
    tables, the statements of one transaction, the integrity check), \<open>AtlasService\<close> (\<open>service.py\<close>: eleven commands,
    planned on a snapshot and committed later). \<open>AtlasInvariant\<close> and \<open>AtlasCommands\<close> (locale \<open>job_command\<close>, interpreted on the
    body of each command) prove what a commit keeps, \<open>AtlasSystem\<close> lets any number of processes interleave,
    \<open>AtlasProgress\<close> shows that accepted commands go through, \<open>AtlasDemo\<close> is a concrete run, \<open>AtlasProperties\<close> the result.
  \<^item> The engineer's decisions: \<open>EngineerModels\<close> and \<open>EngineerRecords\<close> (\<open>models.py\<close>), \<open>EngineerPolicy\<close>, \<open>EngineerRisk\<close>,
    \<open>EngineerReview\<close>, \<open>EngineerTrust\<close> (\<open>policy.py\<close>, \<open>risk.py\<close>, \<open>review.py\<close>, \<open>trust.py\<close>), with \<open>EngineerProperties\<close>.
  \<^item> Its memory (\<open>memory.py\<close>): \<open>EngineerMemory\<close>, \<open>EngineerMemoryFacts\<close> (locale \<open>claim_store\<close>), \<open>EngineerMemoryProperties\<close>.
  \<^item> Its cycle (\<open>cycle.py\<close>, \<open>report.py\<close>, \<open>notify.py\<close>): \<open>EngineerCycle\<close>, \<open>EngineerReport\<close>, \<open>EngineerNotify\<close>;
    \<open>EngineerCycleFacts\<close> (locales \<open>state_order\<close> and \<open>cycle_order\<close>: what every method of a cycle moves in one direction),
    \<open>EngineerCycleCalls\<close> (triples over the calls of the executor), \<open>EngineerCycleProperties\<close>.
  \<^item> Its lease (\<open>runtime.py\<close>): \<open>EngineerLease\<close>, file operation by file operation, and \<open>EngineerLeaseProperties\<close>.
  \<^item> Publication (\<open>publish.py\<close>, \<open>approval.py\<close>, \<open>ship\<close> of \<open>executor.py\<close>): \<open>EngineerPublish\<close>, \<open>EngineerApproval\<close>,
    \<open>EngineerShip\<close>; \<open>EngineerPublishFacts\<close> (triples over the history of requests), \<open>EngineerPublishProperties\<close>,
    \<open>EngineerApprovalProperties\<close>.
  \<^item> PatchForge: \<open>PatchForgeModels\<close> (\<open>models.py\<close>, \<open>policy.py\<close>), \<open>PatchForgeLifecycle\<close> and \<open>PatchForgeRuntime\<close> (\<open>runtime.py\<close>),
    \<open>PatchForgeTools\<close>, \<open>PatchForgeWorktree\<close>, \<open>PatchForgeGateway\<close> (\<open>gateway.py\<close>), \<open>PatchForgeAttestor\<close> (\<open>attestor.py\<close>). Facts on
    one call, one iteration, one run and one attestation: \<open>PatchForgeGatewayFacts\<close>, \<open>PatchForgeRuntimeFacts\<close>,
    \<open>PatchForgeRunFacts\<close>, \<open>PatchForgeAttestorFacts\<close>. \<open>PatchForgeDemo\<close> is a small run; \<open>PatchForgeProperties\<close>,
    \<open>PatchForgeAttestation\<close> and \<open>PatchForgeHandover\<close> (locale \<open>artifact_store\<close>) hold the properties.
  \<^item> SentinelQA: \<open>SentinelModels\<close> (\<open>models.py\<close>), \<open>SentinelText\<close> (\<open>pytest_summary.py\<close>, \<open>tamper.py\<close>, \<open>canary.py\<close>), \<open>SentinelTree\<close>
    (\<open>lock.py\<close>), \<open>SentinelVerifier\<close> and \<open>SentinelReview\<close> (\<open>executor.py\<close>, \<open>verifier.py\<close>); \<open>SentinelFacts\<close> (locale \<open>stage_frame\<close>)
    and \<open>SentinelPassed\<close> read a passed verdict back through the stages, \<open>SentinelDemo\<close> is a review that passes,
    \<open>SentinelScan\<close> and \<open>SentinelProperties\<close> hold the properties.

  \<^bold>\<open>State and operations.\<close> A class is a record of the attributes its methods change and one definition per method, composed
  as the code composes them; its exceptions are a datatype and every \<open>raise\<close>, early return and \<open>except\<close> is a branch.
  A \<open>StrictModel\<close> is a record with a predicate \<open>..._ok\<close> for its field constraints and validators, tested where the code
  builds one from unchecked parts, and not where it uses \<open>model_copy\<close>, which does not validate. What changes between
  two calls without the code seeing it (files, Git, the sandbox, a server, the clock) is a world \<open>'w\<close> that the
  operations of an environment record pass on; properties quantify over the environment and the world.

  \<^bold>\<open>What the lemmas show.\<close> For Atlas: the store stays readable and consistent over every interleaving, no update is lost,
  replays are idempotent, approval follows its governance, every job has its audit trail, accepted commands commit. For
  PatchForge: every run ends, within its budgets, with a valid transcript and its workspace removed; a proposal
  rests on evidence of the runtime and reaches Atlas as it was proposed. For SentinelQA: what passed was bound to its
  task, stayed within its scope and passed the locked tests on a tree that held them. For the engineer: who can
  publish what, on which evidence, with which requests; the record of a cycle is complete and honest; its memory keeps
  its history; two cycles never hold the lease together.

  \<^bold>\<open>Parameters and hypotheses.\<close>
  \<^item> Unicode tables (NFC, case folding), SHA-256, UUID5, ISO dates, regular-expression search and UTF-8 decoding are fields
    of the environments. The properties need no collision freedom, except where they say so.
  \<^item> NFC: Atlas and the memory normalise texts after they validated them, so a text that NFC changes can become a row that
    no later read accepts (\<open>atlas_nfc_unreadable\<close>, \<open>engineer_memory_nfc_unreadable\<close>). The properties of the Atlas store
    and memory are stated for texts that are already normal (\<open>command_texts_fixed\<close>, \<open>text_fixed\<close>); \<open>atlas_step\<close> takes
    the set of submitted commands as its parameter. \<open>ascii_stable\<close> says that NFC keeps ASCII, which it does.
  \<^item> The clocks of PatchForge, SentinelQA, the notifier and the lease are timezone-aware: the checks that refuse a naive
    one (such as \<open>_now\<close> of the gateway) are left out. Atlas, the cycle and the publisher are modelled with either kind.
  \<^item> \<open>orderly\<close>: proposing a commit and removing a workspace raise only the errors they document. \<open>only_inspects\<close>: three
    Git commands that read the worktree do not write it. Both have witnesses.
  \<^item> The lease properties on two cycles hold while neither outlives its lease.

  \<^bold>\<open>Bounds and fuel.\<close> Machine arithmetic does not occur: Python integers are \<open>int\<close> and \<open>nat\<close>, durations whole microseconds.
  Loops over data are structural. The loop of the runtime takes fuel: the total call budget plus three is enough, and
  more changes nothing (\<open>patchforge_terminates\<close>). An acquisition of the lease that is alone runs for at most eight of its
  file operations (\<open>acquire_steps\<close>), which \<open>engineer_lease_acquire\<close> shows to be enough; in an interleaving there is no
  bound. Limits of the code (characters of a text, files of a bundle, lines of a scan) are definitions with its numbers.

  \<^bold>\<open>Not modelled.\<close> PatchForge's workspace manager, sandbox runner and model engine, the engineer's inspection and the part of its
  executor that wires these together: processes, Git and network, which are parameters here. The benchmark, scenario and
  evaluation harnesses, the command lines, AegisOps, Brain, the command center, diagnostics, the lab, telemetry and the web
  client: model calls, HTTP and framework code with little logic of their own.
\<close>

end
